(* ===== verification/Go_Prelude.thy ===== *)
theory Go_Prelude
  imports Main "HOL-Library.Monad_Syntax"
begin

text \<open>
  The prelude of the development: how Go values are represented, the pieces of Go's
  standard library that every component uses (\<open>strings.Join\<close>, \<open>strings.Split\<close>,
  \<open>strings.HasPrefix\<close>, \<open>strings.TrimRight\<close>, \<open>strings.TrimSpace\<close>, \<open>fmt.Sprint\<close> of an integer), the
  result type of fallible code, and the lemma collections the component theories use.

  \<^item> A Go \<open>string\<close> is a sequence of bytes, which is exactly HOL's \<open>string\<close>.
  \<^item> A pointer that may be nil is an \<open>option\<close>.
  \<^item> A function that returns \<open>(T, error)\<close> returns \<open>go_error + 'a\<close>; \<open>GoErr\<close> is a returned
    error, \<open>GoPanic\<close> is a run-time panic (nil dereference, index out of range).
  \<^item> A function that can only panic returns an \<open>option\<close>, \<open>None\<close> being the panic.
\<close>

named_theorems go_simps "unfolding rules of the small Go library functions"
named_theorems panic_free "introduction rules that a computation does not panic"

section \<open>Results\<close>

datatype go_error = GoErr string | GoPanic string

type_synonym 'a go = "go_error + 'a"

abbreviation ok :: "'a \<Rightarrow> 'a go" where "ok \<equiv> Inr"
abbreviation fail_with :: "string \<Rightarrow> 'a go" where "fail_with m \<equiv> Inl (GoErr m)"
abbreviation panic :: "string \<Rightarrow> 'a go" where "panic m \<equiv> Inl (GoPanic m)"

definition go_bind :: "'a go \<Rightarrow> ('a \<Rightarrow> 'b go) \<Rightarrow> 'b go" where
  "go_bind m f = (case m of Inl e \<Rightarrow> Inl e | Inr x \<Rightarrow> f x)"

lemma go_bind_simps [simp, go_simps]:
  "go_bind (Inl e) f = Inl e"
  "go_bind (Inr x) f = f x"
  by (simp_all add: go_bind_def)

lemma go_bind_Inr_iff:
  "go_bind m f = Inr y \<longleftrightarrow> (\<exists>x. m = Inr x \<and> f x = Inr y)"
  by (cases m) simp_all

lemma go_bind_Inl_iff:
  "go_bind m f = Inl e \<longleftrightarrow> m = Inl e \<or> (\<exists>x. m = Inr x \<and> f x = Inl e)"
  by (cases m) simp_all

lemma go_bind_cong [fundef_cong]:
  "m = m' \<Longrightarrow> (\<And>x. m' = Inr x \<Longrightarrow> f x = g x) \<Longrightarrow> go_bind m f = go_bind m' g"
  by (cases m') simp_all

definition is_ok :: "'a go \<Rightarrow> bool" where
  "is_ok m \<longleftrightarrow> (case m of Inl _ \<Rightarrow> False | Inr _ \<Rightarrow> True)"

lemma is_ok_simps [simp]: "is_ok (Inr x)" "\<not> is_ok (Inl e)"
  by (simp_all add: is_ok_def)

lemma is_ok_iff: "is_ok m \<longleftrightarrow> (\<exists>x. m = Inr x)"
  by (cases m) simp_all

section \<open>Strings\<close>

fun joinStrings :: "string \<Rightarrow> string list \<Rightarrow> string" where
  "joinStrings sep [] = []"
| "joinStrings sep [x] = x"
| "joinStrings sep (x # y # xs) = x @ sep @ joinStrings sep (y # xs)"

text \<open>
  \<open>strings.Split(s, sep)\<close> for a one-byte separator: the pieces between the separators, at
  least one piece even for the empty string.
\<close>

fun splitChar :: "char \<Rightarrow> string \<Rightarrow> string list" where
  "splitChar c [] = [[]]"
| "splitChar c (x # xs) =
     (if x = c then [] # splitChar c xs
      else (case splitChar c xs of [] \<Rightarrow> [[x]] | p # ps \<Rightarrow> (x # p) # ps))"

fun hasPrefix :: "string \<Rightarrow> string \<Rightarrow> bool" where
  "hasPrefix s [] = True"
| "hasPrefix [] (p # ps) = False"
| "hasPrefix (x # xs) (p # ps) = (x = p \<and> hasPrefix xs ps)"

fun containsStr :: "string \<Rightarrow> string \<Rightarrow> bool" where
  "containsStr [] p = hasPrefix [] p"
| "containsStr (x # xs) p = (hasPrefix (x # xs) p \<or> containsStr xs p)"

definition trimRightChar :: "char \<Rightarrow> string \<Rightarrow> string" where
  "trimRightChar c s = rev (dropWhile (\<lambda>x. x = c) (rev s))"

text \<open>
  \<open>strings.TrimSpace\<close> removes Unicode white space at both ends; in a UTF-8 string these are
  the byte sequences below. UTF-8 is self-synchronising, so looking for one of them at an end
  of the byte string finds the same code points as decoding does.
\<close>

definition spaceSeqs :: "string list" where
  "spaceSeqs =
     [[CHR 0x20], [CHR 0x09], [CHR 0x0A], [CHR 0x0B], [CHR 0x0C], [CHR 0x0D],
      [CHR 0xC2, CHR 0x85], [CHR 0xC2, CHR 0xA0], [CHR 0xE1, CHR 0x9A, CHR 0x80],
      [CHR 0xE2, CHR 0x80, CHR 0x80], [CHR 0xE2, CHR 0x80, CHR 0x81],
      [CHR 0xE2, CHR 0x80, CHR 0x82], [CHR 0xE2, CHR 0x80, CHR 0x83],
      [CHR 0xE2, CHR 0x80, CHR 0x84], [CHR 0xE2, CHR 0x80, CHR 0x85],
      [CHR 0xE2, CHR 0x80, CHR 0x86], [CHR 0xE2, CHR 0x80, CHR 0x87],
      [CHR 0xE2, CHR 0x80, CHR 0x88], [CHR 0xE2, CHR 0x80, CHR 0x89],
      [CHR 0xE2, CHR 0x80, CHR 0x8A], [CHR 0xE2, CHR 0x80, CHR 0xA8],
      [CHR 0xE2, CHR 0x80, CHR 0xA9], [CHR 0xE2, CHR 0x80, CHR 0xAF],
      [CHR 0xE2, CHR 0x81, CHR 0x9F], [CHR 0xE3, CHR 0x80, CHR 0x80]]"

lemma hasPrefix_length: "hasPrefix s p \<Longrightarrow> length p \<le> length s"
  by (induction s p rule: hasPrefix.induct) auto

function stripLeft :: "string list \<Rightarrow> string \<Rightarrow> string" where
  "stripLeft seqs s =
     (case find (\<lambda>p. p \<noteq> [] \<and> hasPrefix s p) seqs of
        None \<Rightarrow> s
      | Some p \<Rightarrow> stripLeft seqs (drop (length p) s))"
  by pat_completeness auto

termination
proof (relation "measure (\<lambda>(seqs, s). length s)")
  fix seqs s p
  assume "find (\<lambda>p. p \<noteq> [] \<and> hasPrefix s p) seqs = Some p"
  then have "p \<noteq> []" "hasPrefix s p" by (auto simp: find_Some_iff)
  then have "0 < length p" "length p \<le> length s" by (simp_all add: hasPrefix_length)
  then have "length s - length p < length s" by linarith
  then show "((seqs, drop (length p) s), seqs, s) \<in> measure (\<lambda>(seqs, s). length s)"
    by simp
qed simp

declare stripLeft.simps [simp del]

definition trimSpace :: "string \<Rightarrow> string" where
  "trimSpace s = rev (stripLeft (map rev spaceSeqs) (rev (stripLeft spaceSeqs s)))"

definition hasSuffix :: "string \<Rightarrow> string \<Rightarrow> bool" where
  "hasSuffix s p \<longleftrightarrow> hasPrefix (rev s) (rev p)"

text \<open>\<open>strings.Index\<close>: the first position of a substring, -1 if there is none.\<close>

fun strIndex :: "string \<Rightarrow> string \<Rightarrow> int" where
  "strIndex [] p = (if p = [] then 0 else -1)"
| "strIndex (x # xs) p =
     (if hasPrefix (x # xs) p then 0 else let i = strIndex xs p in if i < 0 then -1 else i + 1)"

text \<open>\<open>strings.ReplaceAll\<close> and \<open>strings.Split\<close> for a non-empty pattern.\<close>

function replaceAll :: "string \<Rightarrow> string \<Rightarrow> string \<Rightarrow> string" where
  "replaceAll old new [] = []"
| "replaceAll old new (x # xs) =
     (if old \<noteq> [] \<and> hasPrefix (x # xs) old then new @ replaceAll old new (drop (length old) (x # xs))
      else x # replaceAll old new xs)"
  by pat_completeness auto
termination
  by (relation "measure (\<lambda>(old, new, s). length s)") (auto simp: neq_Nil_conv)

declare replaceAll.simps(2) [simp del]

fun splitAt :: "string \<Rightarrow> nat \<Rightarrow> string \<Rightarrow> string list" where
  "splitAt sep k [] = [[]]"
| "splitAt sep (Suc k) (x # xs) = splitAt sep k xs"
| "splitAt sep 0 (x # xs) =
     (if sep \<noteq> [] \<and> hasPrefix (x # xs) sep then [] # splitAt sep (length sep - 1) xs
      else (case splitAt sep 0 xs of [] \<Rightarrow> [[x]] | p # ps \<Rightarrow> (x # p) # ps))"

lemma splitChar_not_Nil [simp]: "splitChar c s \<noteq> []"
  by (induction s) (auto split: list.splits)

lemma joinStrings_Cons:
  "xs \<noteq> [] \<Longrightarrow> joinStrings sep (x # xs) = x @ sep @ joinStrings sep xs"
  by (cases xs) simp_all

lemma join_splitChar: "joinStrings [c] (splitChar c s) = s"
proof (induction s)
  case Nil
  show ?case by simp
next
  case (Cons x s)
  show ?case
  proof (cases "x = c")
    case True
    with Cons show ?thesis by (simp add: joinStrings_Cons)
  next
    case False
    obtain p ps where "splitChar c s = p # ps" by (cases "splitChar c s") auto
    with Cons False show ?thesis by (cases ps) auto
  qed
qed

lemma splitChar_free: "p \<in> set (splitChar c s) \<Longrightarrow> c \<notin> set p"
  by (induction s arbitrary: p) (auto split: list.splits if_splits)

lemma splitChar_single: "c \<notin> set s \<Longrightarrow> splitChar c s = [s]"
  by (induction s) auto

lemma hasPrefix_iff: "hasPrefix s p \<longleftrightarrow> (\<exists>t. s = p @ t)"
  by (induction s p rule: hasPrefix.induct) auto

lemma containsStr_iff: "containsStr s p \<longleftrightarrow> (\<exists>a b. s = a @ p @ b)"
proof (induction s)
  case Nil
  show ?case by (cases p) auto
next
  case (Cons x s)
  show ?case
  proof
    assume "containsStr (x # s) p"
    then consider "hasPrefix (x # s) p" | "containsStr s p" by auto
    then show "\<exists>a b. x # s = a @ p @ b"
    proof cases
      case 1
      then show ?thesis unfolding hasPrefix_iff by (metis append_Nil)
    next
      case 2
      then show ?thesis using Cons by (metis append_Cons)
    qed
  next
    assume "\<exists>a b. x # s = a @ p @ b"
    then obtain a b where ab: "x # s = a @ p @ b" by blast
    show "containsStr (x # s) p"
    proof (cases a)
      case Nil
      with ab have "hasPrefix (x # s) p" by (auto simp: hasPrefix_iff)
      then show ?thesis by simp
    next
      case (Cons y ys)
      with ab have "s = ys @ p @ b" by simp
      then have "containsStr s p" using Cons.IH by blast
      then show ?thesis by simp
    qed
  qed
qed

section \<open>Decimal integers\<close>

definition digitChar :: "nat \<Rightarrow> char" where
  "digitChar d = char_of (48 + d)"

definition isDigitChar :: "char \<Rightarrow> bool" where
  "isDigitChar c \<longleftrightarrow> 48 \<le> (of_char c :: nat) \<and> (of_char c :: nat) \<le> 57"

fun sprintNat :: "nat \<Rightarrow> string" where
  "sprintNat n = (if n < 10 then [digitChar n] else sprintNat (n div 10) @ [digitChar (n mod 10)])"

declare sprintNat.simps [simp del]

definition sprintInt :: "int \<Rightarrow> string" where
  "sprintInt i = (if i < 0 then CHR ''-'' # sprintNat (nat (- i)) else sprintNat (nat i))"

definition digitVal :: "char \<Rightarrow> nat" where
  "digitVal c = of_char c - 48"

definition digitsVal :: "string \<Rightarrow> nat" where
  "digitsVal s = foldl (\<lambda>n c. 10 * n + digitVal c) 0 s"

lemma of_char_digitChar: "d < 10 \<Longrightarrow> (of_char (digitChar d) :: nat) = 48 + d"
  by (simp add: digitChar_def)

lemma isDigitChar_digitChar [simp]: "d < 10 \<Longrightarrow> isDigitChar (digitChar d)"
  by (simp add: isDigitChar_def of_char_digitChar)

lemma digitVal_digitChar [simp]: "d < 10 \<Longrightarrow> digitVal (digitChar d) = d"
  by (simp add: digitVal_def of_char_digitChar)

lemma sprintNat_digits: "c \<in> set (sprintNat n) \<Longrightarrow> isDigitChar c"
proof (induction n rule: sprintNat.induct)
  case (1 n)
  then show ?case
    by (subst (asm) sprintNat.simps) (auto split: if_splits)
qed

lemma sprintNat_not_Nil [simp]: "sprintNat n \<noteq> []"
  by (subst sprintNat.simps) simp

lemma digitsVal_snoc: "digitsVal (s @ [c]) = 10 * digitsVal s + digitVal c"
  by (simp add: digitsVal_def)

lemma digitsVal_sprintNat [simp]: "digitsVal (sprintNat n) = n"
proof (induction n rule: sprintNat.induct)
  case (1 n)
  show ?case
  proof (cases "n < 10")
    case True
    then show ?thesis by (subst sprintNat.simps) (simp add: digitsVal_def)
  next
    case False
    with 1 show ?thesis by (subst sprintNat.simps) (simp add: digitsVal_snoc)
  qed
qed

lemma sprintNat_inj: "sprintNat m = sprintNat n \<longleftrightarrow> m = n"
  by (metis digitsVal_sprintNat)

lemma not_digit_minus [simp]: "\<not> isDigitChar CHR ''-''"
  by (simp add: isDigitChar_def)

lemma not_digit_underscore [simp]: "\<not> isDigitChar CHR ''_''"
  by (simp add: isDigitChar_def)

lemma sprintInt_chars: "c \<in> set (sprintInt i) \<Longrightarrow> isDigitChar c \<or> c = CHR ''-''"
  by (auto simp: sprintInt_def dest: sprintNat_digits split: if_splits)

lemma sprintInt_inj: "sprintInt i = sprintInt j \<longleftrightarrow> i = j"
proof
  assume eq: "sprintInt i = sprintInt j"
  have nm: "CHR ''-'' # s \<noteq> sprintNat n" for s n
    using sprintNat_digits [of "CHR ''-''" n] by (metis list.set_intros(1) not_digit_minus)
  show "i = j"
    using eq nm nm [symmetric]
    by (auto simp: sprintInt_def sprintNat_inj split: if_splits)
qed simp

section \<open>Lists and association lists\<close>

text \<open>The last occurrence wins: a Go map that is filled by successive assignments.\<close>

fun lookupLast :: "('k \<times> 'v) list \<Rightarrow> 'k \<Rightarrow> 'v option" where
  "lookupLast [] k = None"
| "lookupLast ((a, b) # xs) k =
     (case lookupLast xs k of Some v \<Rightarrow> Some v | None \<Rightarrow> if a = k then Some b else None)"

lemma last_separator_unique:
  assumes "a @ [c] @ s = b @ [c] @ t" and "c \<notin> set s" and "c \<notin> set t"
  shows "a = b \<and> s = t"
proof -
  have "rev s @ c # rev a = rev t @ c # rev b"
    using assms(1) by (metis append.assoc append_Cons append_Nil rev.simps(2) rev_append)
  moreover have "takeWhile (\<lambda>x. x \<noteq> c) (rev s @ c # rev a) = rev s"
    using assms(2) by (subst takeWhile_append2) auto
  moreover have "takeWhile (\<lambda>x. x \<noteq> c) (rev t @ c # rev b) = rev t"
    using assms(3) by (subst takeWhile_append2) auto
  ultimately show ?thesis by simp
qed

end
