(* ===== verification/Sql_Ast.thy ===== *)
theory Sql_Ast
  imports Go_Prelude
begin

text \<open>
  The SQL syntax tree of \<open>internal/sqlbuilder_sqlbuilder.go\<close>: the structs the transformers
  build and the writer prints.

  Every Go struct is a datatype with one constructor whose selectors are the struct's fields.
  A pointer field is an \<open>option\<close> (nil is \<open>None\<close>); the elements of a slice of pointers are
  the structs themselves, because the code never stores nil in those slices. The structs that
  only contain expressions or statements are polymorphic in the type of what they contain, so
  that the tree itself is three mutually recursive types, as in the source:
  \<open>SQLExpression\<close>, \<open>SelectStatement\<close> and \<open>FromItem\<close>. The map \<open>ReplaceColumns\<close> is the list of its
  entries in the order the range loop of the writer visits them.
\<close>

section \<open>Enumerations\<close>

datatype (plugins only: code size) SelectType =
  SelectTypeStandard | SelectTypeDistinct | SelectTypeAll | SelectTypeAsStruct | SelectTypeAsValue

datatype (plugins only: code size) ExpressionType =
  ExpressionTypeColumn | ExpressionTypeLiteral | ExpressionTypeParameter
| ExpressionTypeFunction | ExpressionTypeList | ExpressionTypeUnary | ExpressionTypeBinary
| ExpressionTypeSubquery | ExpressionTypeStar | ExpressionTypeCase | ExpressionTypeExists
| ExpressionTypeCast

datatype (plugins only: code size) FromItemType =
  FromItemTypeTable | FromItemTypeSubquery | FromItemTypeJoin | FromItemTypeWithRef
| FromItemTypeTableFunction | FromItemTypeUnnest | FromItemTypeSingleRow

datatype (plugins only: code size) JoinType = JoinTypeInner | JoinTypeLeft | JoinTypeRight | JoinTypeFull | JoinTypeCross

section \<open>Structs that contain expressions or statements\<close>

datatype (plugins only: code size) 'e ListExpression = ListExpression (leExpressions: "'e list")

datatype (plugins only: code size) 'e UnaryExpression =
  UnaryExpression (ueOperator: string) (ueExpression: "'e option")

datatype (plugins only: code size) 'e BinaryExpression =
  BinaryExpression (beLeft: "'e option") (beRight: "'e option") (beOperator: string)

datatype (plugins only: code size) 'e WhenClause = WhenClause (wcCondition: "'e option") (wcResult: "'e option")

datatype (plugins only: code size) 'e CaseExpression =
  CaseExpression (ceCaseExpr: "'e option") (ceWhenClauses: "'e WhenClause list")
    (ceElseExpr: "'e option")

datatype (plugins only: code size) 's ExistsExpression = ExistsExpression (exSubquery: "'s option")

datatype (plugins only: code size) 'e FrameBound = FrameBound (fbType: string) (fbOffset: "'e option")

datatype (plugins only: code size) 'e FrameClause =
  FrameClause (fcUnit: string) (fcStart: "'e FrameBound option") (fcEnd: "'e FrameBound option")

datatype (plugins only: code size) 'e OrderByItem =
  OrderByItem (obExpression: "'e option") (obDirection: string) (obNullsOrder: string)

datatype (plugins only: code size) 'e WindowSpecification =
  WindowSpecification (wsPartitionBy: "'e list") (wsOrderBy: "'e OrderByItem list")
    (wsFrameClause: "'e FrameClause option")

datatype (plugins only: code size) 'e FunctionCall =
  FunctionCall (fnName: string) (fnArguments: "'e list") (fnIsDistinct: bool)
    (fnWindowSpec: "'e WindowSpecification option")

datatype (plugins only: code size) 'e SelectListItem =
  SelectListItem (slExpression: "'e option") (slAlias: string) (slIsStarExpansion: bool)
    (slExceptColumns: "string list") (slReplaceColumns: "(string \<times> 'e) list")

datatype (plugins only: code size) ('f, 'e) JoinClause =
  JoinClause (jcType: JoinType) (jcLeft: "'f option") (jcRight: "'f option")
    (jcCondition: "'e option") (jcUsing: "string list")

datatype (plugins only: code size) 'e TableFunction = TableFunction (tfName: string) (tfArguments: "'e list")

datatype (plugins only: code size) 's WithClause =
  WithClause (wcName: string) (wcMaterialized: bool) (wcRecursive: bool)
    (wcColumns: "string list") (wcQuery: "'s option")

datatype (plugins only: code size) 's SetOperation =
  SetOperation (soType: string) (soModifier: string) (soItems: "'s list")

datatype (plugins only: code size) 'e LimitClause = LimitClause (lcCount: "'e option") (lcOffset: "'e option")

section \<open>Expressions, statements and FROM items\<close>

datatype (plugins only: code size) SQLExpression =
  SQLExpression
    (eType: ExpressionType)
    (eValue: string)
    (eListExpression: "SQLExpression ListExpression option")
    (eUnaryExpression: "SQLExpression UnaryExpression option")
    (eBinaryExpression: "SQLExpression BinaryExpression option")
    (eFunctionCall: "SQLExpression FunctionCall option")
    (eSubquery: "SelectStatement option")
    (eCaseExpression: "SQLExpression CaseExpression option")
    (eExistsExpr: "SelectStatement ExistsExpression option")
    (eAlias: string)
    (eTableAlias: string)
    (eCollation: string)
and SelectStatement =
  SelectStatement
    (sWithClauses: "SelectStatement WithClause list")
    (sSelectType: SelectType)
    (sSelectList: "SQLExpression SelectListItem list")
    (sAsStructType: string)
    (sAsValueType: string)
    (sFromClause: "FromItem option")
    (sWhereClause: "SQLExpression option")
    (sGroupByList: "SQLExpression list")
    (sHavingClause: "SQLExpression option")
    (sOrderByList: "SQLExpression OrderByItem list")
    (sLimitClause: "SQLExpression LimitClause option")
    (sSetOperation: "SelectStatement SetOperation option")
    (sHints: "string list")
and FromItem =
  FromItem
    (fType: FromItemType)
    (fTableName: string)
    (fAlias: string)
    (fSubquery: "SelectStatement option")
    (fJoin: "(FromItem, SQLExpression) JoinClause option")
    (fWithRef: string)
    (fTableFunction: "SQLExpression TableFunction option")
    (fUnnestExpr: "SQLExpression option")
    (fHints: "string list")

text \<open>The zero value of each struct with its discriminating field set, as \<open>&T{Type: t}\<close> gives it.\<close>

definition emptyExpression :: "ExpressionType \<Rightarrow> SQLExpression" where
  "emptyExpression t = SQLExpression t [] None None None None None None None [] [] []"

definition emptySelect :: SelectStatement where
  "emptySelect =
     SelectStatement [] SelectTypeStandard [] [] [] None None [] None [] None None []"

definition emptyFromItem :: "FromItemType \<Rightarrow> FromItem" where
  "emptyFromItem t = FromItem t [] [] None None [] None None []"

section \<open>Builder helper functions\<close>

definition NewSelectStatement :: SelectStatement where
  "NewSelectStatement = emptySelect"

definition NewColumnExpression :: "string \<Rightarrow> string list \<Rightarrow> SQLExpression" where
  "NewColumnExpression column tableAlias =
     SQLExpression ExpressionTypeColumn column None None None None None None None []
       (case tableAlias of [] \<Rightarrow> [] | a # _ \<Rightarrow> a) []"

definition NewStarExpression :: "string list \<Rightarrow> SQLExpression" where
  "NewStarExpression tableAlias =
     SQLExpression ExpressionTypeStar [] None None None None None None None []
       (case tableAlias of [] \<Rightarrow> [] | a # _ \<Rightarrow> a) []"

definition NewSelectStarStatement :: "FromItem option \<Rightarrow> SelectStatement" where
  "NewSelectStarStatement fr =
     SelectStatement [] SelectTypeStandard
       [SelectListItem (Some (NewStarExpression [])) [] False [] []]
       [] [] fr None [] None [] None None []"

definition NewLiteralExpression :: "string \<Rightarrow> SQLExpression" where
  "NewLiteralExpression v =
     SQLExpression ExpressionTypeLiteral v None None None None None None None [] [] []"

definition NewFunctionExpression :: "string \<Rightarrow> SQLExpression list \<Rightarrow> SQLExpression" where
  "NewFunctionExpression nm as =
     SQLExpression ExpressionTypeFunction [] None None None
       (Some (FunctionCall nm as False None)) None None None [] [] []"

definition NewBinaryExpression ::
  "SQLExpression option \<Rightarrow> string \<Rightarrow> SQLExpression option \<Rightarrow> SQLExpression" where
  "NewBinaryExpression l operator r =
     SQLExpression ExpressionTypeBinary [] None None
       (Some (BinaryExpression l r operator)) None None None None [] [] []"

definition NewSimpleCaseExpression ::
  "SQLExpression option \<Rightarrow> SQLExpression WhenClause list \<Rightarrow> SQLExpression option \<Rightarrow> SQLExpression" where
  "NewSimpleCaseExpression caseExpr whenClauses elseExpr =
     SQLExpression ExpressionTypeCase [] None None None None None
       (Some (CaseExpression caseExpr whenClauses elseExpr)) None [] [] []"

definition NewCaseExpression ::
  "SQLExpression WhenClause list \<Rightarrow> SQLExpression option \<Rightarrow> SQLExpression" where
  "NewCaseExpression whenClauses elseExpr =
     SQLExpression ExpressionTypeCase [] None None None None None
       (Some (CaseExpression None whenClauses elseExpr)) None [] [] []"

definition NewSubqueryFromItem :: "SelectStatement option \<Rightarrow> string \<Rightarrow> FromItem" where
  "NewSubqueryFromItem subquery alias =
     FromItem FromItemTypeSubquery [] alias subquery None [] None None []"

definition NewListExpression :: "SQLExpression list \<Rightarrow> SQLExpression" where
  "NewListExpression es =
     SQLExpression ExpressionTypeList [] (Some (ListExpression es)) None None None None None None
       [] [] []"

definition NewNotExpression :: "SQLExpression option \<Rightarrow> SQLExpression" where
  "NewNotExpression e =
     SQLExpression ExpressionTypeUnary [] None (Some (UnaryExpression ''NOT'' e)) None None None
       None None [] [] []"

definition NewExistsExpression :: "SelectStatement option \<Rightarrow> SQLExpression" where
  "NewExistsExpression subquery =
     SQLExpression ExpressionTypeExists [] None None None None None None
       (Some (ExistsExpression subquery)) [] [] []"

definition NewInnerJoin ::
  "FromItem option \<Rightarrow> FromItem option \<Rightarrow> SQLExpression option \<Rightarrow> FromItem" where
  "NewInnerJoin l r condition =
     FromItem FromItemTypeJoin [] [] None
       (Some (JoinClause JoinTypeInner l r condition [])) [] None None []"

lemmas builder_defs =
  emptyExpression_def emptySelect_def emptyFromItem_def NewSelectStatement_def
  NewColumnExpression_def NewStarExpression_def NewSelectStarStatement_def
  NewLiteralExpression_def NewFunctionExpression_def NewBinaryExpression_def
  NewSimpleCaseExpression_def NewCaseExpression_def NewSubqueryFromItem_def
  NewListExpression_def NewNotExpression_def NewExistsExpression_def NewInnerJoin_def

end
