(* ===== verification/Sql_Flatten.thy ===== *)
theory Sql_Flatten
  imports Sql_Ast
begin

text \<open>
  Flattening of SELECT statements for recursive CTEs, \<open>internal/sqlbuilder_flatten.go\<close>.

  The trees are not shared, so the updates in place of the Go code are functions that return the
  new tree. An alias map is the list of its assignments, the latest first; \<open>map_of\<close> reads it as
  the Go map would and it is empty exactly when the map is.
\<close>

type_synonym aliasMap = "(string \<times> SQLExpression) list"

section \<open>Copies and table aliases\<close>

text \<open>The parts of an expression are smaller than it, the measure of the recursions below.\<close>

lemma size_mem: "x \<in> set xs \<Longrightarrow> f x < Suc (size_list f xs)"
  by (induction xs) auto

lemma size_parts:
  "x \<in> set (leExpressions l) \<Longrightarrow> f x < size_ListExpression f l"
  "ueExpression u = Some x \<Longrightarrow> f x < size_UnaryExpression f u"
  "beLeft b = Some x \<Longrightarrow> f x < size_BinaryExpression f b"
  "beRight b = Some x \<Longrightarrow> f x < size_BinaryExpression f b"
  "x \<in> set (fnArguments c) \<Longrightarrow> f x < size_FunctionCall f c"
  "ceCaseExpr k = Some x \<Longrightarrow> f x < size_CaseExpression f k"
  "ceElseExpr k = Some x \<Longrightarrow> f x < size_CaseExpression f k"
  "w \<in> set (ceWhenClauses k) \<Longrightarrow>
     (\<forall>x. wcCondition w = Some x \<longrightarrow> f x < size_CaseExpression f k) \<and>
     (\<forall>x. wcResult w = Some x \<longrightarrow> f x < size_CaseExpression f k)"
  subgoal by (cases l) (auto dest: size_mem)
  subgoal by (cases u) auto
  subgoal by (cases b) auto
  subgoal by (cases b) auto
  subgoal by (cases c) (auto dest!: size_mem [where f = f])
  subgoal by (cases k) auto
  subgoal by (cases k) auto
  subgoal by (cases k; cases w) (auto dest!: size_mem [where f = "size_WhenClause f"])
  done

text \<open>Window specifications and subqueries are shared with the original, not copied.\<close>

function copyExpression :: "SQLExpression \<Rightarrow> SQLExpression" where
  "copyExpression (SQLExpression ty v le ue be fc sq ce ex al ta co) =
     SQLExpression ty v
       (case le of None \<Rightarrow> None
        | Some l \<Rightarrow> Some (ListExpression (map copyExpression (leExpressions l))))
       (case ue of None \<Rightarrow> None
        | Some u \<Rightarrow> Some (UnaryExpression (ueOperator u) (map_option copyExpression (ueExpression u))))
       (case be of None \<Rightarrow> None
        | Some b \<Rightarrow> Some (BinaryExpression (map_option copyExpression (beLeft b))
            (map_option copyExpression (beRight b)) (beOperator b)))
       (case fc of None \<Rightarrow> None
        | Some f \<Rightarrow> Some (FunctionCall (fnName f) (map copyExpression (fnArguments f))
            (fnIsDistinct f) (fnWindowSpec f)))
       sq
       (case ce of None \<Rightarrow> None
        | Some c \<Rightarrow> Some (CaseExpression (map_option copyExpression (ceCaseExpr c))
            (map (\<lambda>w. WhenClause (map_option copyExpression (wcCondition w))
                (map_option copyExpression (wcResult w))) (ceWhenClauses c))
            (map_option copyExpression (ceElseExpr c))))
       (case ex of None \<Rightarrow> None | Some x \<Rightarrow> Some (ExistsExpression (exSubquery x)))
       al ta co"

  by pat_completeness auto
termination
  by (relation "measure size") (auto dest!: size_parts [where f = size])

function updateTableAlias :: "string \<Rightarrow> SQLExpression \<Rightarrow> SQLExpression" where
  "updateTableAlias newAlias (SQLExpression ty v le ue be fc sq ce ex al ta co) =
     (case ty of
        ExpressionTypeColumn \<Rightarrow> SQLExpression ty v le ue be fc sq ce ex al newAlias co
      | ExpressionTypeStar \<Rightarrow> SQLExpression ty v le ue be fc sq ce ex al newAlias co
      | ExpressionTypeFunction \<Rightarrow>
          SQLExpression ty v le ue be
            (case fc of None \<Rightarrow> None
             | Some f \<Rightarrow> Some (FunctionCall (fnName f) (map (updateTableAlias newAlias) (fnArguments f))
                 (fnIsDistinct f) (fnWindowSpec f)))
            sq ce ex al ta co
      | ExpressionTypeBinary \<Rightarrow>
          SQLExpression ty v le ue
            (case be of None \<Rightarrow> None
             | Some b \<Rightarrow> Some (BinaryExpression (map_option (updateTableAlias newAlias) (beLeft b))
                 (map_option (updateTableAlias newAlias) (beRight b)) (beOperator b)))
            fc sq ce ex al ta co
      | ExpressionTypeUnary \<Rightarrow>
          SQLExpression ty v le
            (case ue of None \<Rightarrow> None
             | Some u \<Rightarrow> Some (UnaryExpression (ueOperator u)
                 (map_option (updateTableAlias newAlias) (ueExpression u))))
            be fc sq ce ex al ta co
      | ExpressionTypeList \<Rightarrow>
          SQLExpression ty v
            (case le of None \<Rightarrow> None
             | Some l \<Rightarrow> Some (ListExpression (map (updateTableAlias newAlias) (leExpressions l))))
            ue be fc sq ce ex al ta co
      | ExpressionTypeCase \<Rightarrow>
          SQLExpression ty v le ue be fc sq
            (case ce of None \<Rightarrow> None
             | Some c \<Rightarrow> Some (CaseExpression (map_option (updateTableAlias newAlias) (ceCaseExpr c))
                 (map (\<lambda>w. WhenClause (map_option (updateTableAlias newAlias) (wcCondition w))
                     (map_option (updateTableAlias newAlias) (wcResult w))) (ceWhenClauses c))
                 (map_option (updateTableAlias newAlias) (ceElseExpr c))))
            ex al ta co
      | _ \<Rightarrow> SQLExpression ty v le ue be fc sq ce ex al ta co)"
  by pat_completeness auto
termination
  by (relation "measure (\<lambda>(a, e). size e)") (auto dest!: size_parts [where f = size])

section \<open>Substitution of column references\<close>

definition maxDepth :: nat where
  "maxDepth = 100"

text \<open>
  The result of a compound expression is a new struct with only the type, the compound part and
  the collation set: its \<open>Value\<close>, \<open>Alias\<close> and \<open>TableAlias\<close> are the empty string. The first
  three arguments (the map, the alias, the depth) come before the expression, the last.
\<close>

function substituteColumnRefsWithDepth ::
  "aliasMap \<Rightarrow> string \<Rightarrow> nat \<Rightarrow> SQLExpression \<Rightarrow> SQLExpression" where
  "substituteColumnRefsWithDepth m t depth (SQLExpression ty v le ue be fc sq ce ex al ta co) =
     (let expr = SQLExpression ty v le ue be fc sq ce ex al ta co in
      if depth > maxDepth then expr
      else
        (case ty of
           ExpressionTypeColumn \<Rightarrow>
             (if ta = t \<or> ta = [] then
                (case map_of m v of
                   Some substitution \<Rightarrow> copyExpression substitution
                 | None \<Rightarrow> expr)
              else expr)
         | ExpressionTypeFunction \<Rightarrow>
             (case fc of
                None \<Rightarrow> expr
              | Some f \<Rightarrow>
                  SQLExpression ExpressionTypeFunction [] None None None
                    (Some (FunctionCall (fnName f)
                      (map (substituteColumnRefsWithDepth m t (depth + 1)) (fnArguments f))
                      (fnIsDistinct f) (fnWindowSpec f)))
                    None None None [] [] co)
         | ExpressionTypeBinary \<Rightarrow>
             (case be of
                None \<Rightarrow> expr
              | Some b \<Rightarrow>
                  SQLExpression ExpressionTypeBinary [] None None
                    (Some (BinaryExpression
                      (map_option (substituteColumnRefsWithDepth m t (depth + 1)) (beLeft b))
                      (map_option (substituteColumnRefsWithDepth m t (depth + 1)) (beRight b))
                      (beOperator b)))
                    None None None None [] [] co)
         | ExpressionTypeUnary \<Rightarrow>
             (case ue of
                None \<Rightarrow> expr
              | Some u \<Rightarrow>
                  SQLExpression ExpressionTypeUnary [] None
                    (Some (UnaryExpression (ueOperator u)
                      (map_option (substituteColumnRefsWithDepth m t (depth + 1)) (ueExpression u))))
                    None None None None None [] [] co)
         | ExpressionTypeList \<Rightarrow>
             (case le of
                None \<Rightarrow> expr
              | Some l \<Rightarrow>
                  SQLExpression ExpressionTypeList []
                    (Some (ListExpression
                      (map (substituteColumnRefsWithDepth m t (depth + 1)) (leExpressions l))))
                    None None None None None None [] [] co)
         | ExpressionTypeCase \<Rightarrow>
             (case ce of
                None \<Rightarrow> expr
              | Some c \<Rightarrow>
                  SQLExpression ExpressionTypeCase [] None None None None None
                    (Some (CaseExpression
                      (map_option (substituteColumnRefsWithDepth m t (depth + 1)) (ceCaseExpr c))
                      (map (\<lambda>w. WhenClause
                          (map_option (substituteColumnRefsWithDepth m t (depth + 1)) (wcCondition w))
                          (map_option (substituteColumnRefsWithDepth m t (depth + 1)) (wcResult w)))
                        (ceWhenClauses c))
                      (map_option (substituteColumnRefsWithDepth m t (depth + 1)) (ceElseExpr c))))
                    None [] [] co)
         | _ \<Rightarrow> expr))"
  by pat_completeness auto
termination
  by (relation "measure (\<lambda>(m, t, d, e). size e)") (auto dest!: size_parts [where f = size])

definition substituteColumnRefs :: "SQLExpression \<Rightarrow> aliasMap \<Rightarrow> string \<Rightarrow> SQLExpression" where
  "substituteColumnRefs e m t = substituteColumnRefsWithDepth m t 0 e"

definition buildColumnAliasMap :: "SQLExpression SelectListItem list \<Rightarrow> aliasMap" where
  "buildColumnAliasMap selectList =
     fold (\<lambda>item m.
         case slExpression item of
           Some e \<Rightarrow> if slAlias item \<noteq> [] then (slAlias item, e) # m else m
         | None \<Rightarrow> m)
       selectList []"

section \<open>When a subquery can be removed\<close>

definition canUnwrapSubquery :: "SelectStatement option \<Rightarrow> bool" where
  "canUnwrapSubquery s =
     (case s of
        None \<Rightarrow> False
      | Some stmt \<Rightarrow>
          if sGroupByList stmt \<noteq> [] \<or> sHavingClause stmt \<noteq> None
             \<or> sOrderByList stmt \<noteq> [] \<or> sLimitClause stmt \<noteq> None
             \<or> sSetOperation stmt \<noteq> None \<or> sWhereClause stmt \<noteq> None then False
          else if sSelectList stmt = [] then False
          else list_all (\<lambda>item. slIsStarExpansion item
                 \<or> (case slExpression item of
                      None \<Rightarrow> False
                    | Some e \<Rightarrow> eType e = ExpressionTypeColumn))
               (sSelectList stmt))"

definition canFlattenSelect :: "SelectStatement option \<Rightarrow> bool" where
  "canFlattenSelect s =
     (case s of
        None \<Rightarrow> False
      | Some stmt \<Rightarrow>
          sGroupByList stmt = [] \<and> sHavingClause stmt = None \<and> sOrderByList stmt = []
          \<and> sLimitClause stmt = None \<and> sSetOperation stmt = None)"

definition mergeWithClauses ::
  "SelectStatement WithClause list \<Rightarrow> SelectStatement WithClause list
     \<Rightarrow> SelectStatement WithClause list" where
  "mergeWithClauses outerClauses innerClauses =
     (if outerClauses = [] then innerClauses
      else if innerClauses = [] then outerClauses
      else let innerNames = map wcName innerClauses in
        fold (\<lambda>oc result. if wcName oc \<in> set innerNames then result else result @ [oc])
          outerClauses innerClauses)"

definition mergeWhereConditions ::
  "SQLExpression option \<Rightarrow> SQLExpression option \<Rightarrow> aliasMap \<Rightarrow> string \<Rightarrow> SQLExpression option" where
  "mergeWhereConditions outerWhere innerWhere m t =
     (let outerWhere = map_option (\<lambda>e. substituteColumnRefs e m t) outerWhere in
      case (outerWhere, innerWhere) of
        (Some outer, Some inner) \<Rightarrow>
          Some (SQLExpression ExpressionTypeBinary [] None None
            (Some (BinaryExpression (Some inner) (Some outer) ''AND''))
            None None None None [] [] [])
      | (Some outer, None) \<Rightarrow> Some outer
      | (None, _) \<Rightarrow> innerWhere)"

section \<open>Flattening JOINs\<close>

text \<open>The size of a FROM item: the number of FROM items on the chains of FROM clauses below it.\<close>

primrec selSize :: "SelectStatement \<Rightarrow> nat" and fromSize :: "FromItem \<Rightarrow> nat" where
  "selSize (SelectStatement wcs st sl ast avt fr wh gb hv ob lim so hints) =
     (case map_option fromSize fr of None \<Rightarrow> 0 | Some n \<Rightarrow> n)"
| "fromSize (FromItem ty tn al sq jn wr tf un hints) =
     1 + (case map_option selSize sq of None \<Rightarrow> 0 | Some n \<Rightarrow> n)
       + (case map_option (map_JoinClause fromSize (\<lambda>_. ())) jn of
            None \<Rightarrow> 0
          | Some j \<Rightarrow> (case jcLeft j of None \<Rightarrow> 0 | Some n \<Rightarrow> n)
                    + (case jcRight j of None \<Rightarrow> 0 | Some n \<Rightarrow> n))"

definition optSize :: "FromItem option \<Rightarrow> nat" where
  "optSize p = (case p of None \<Rightarrow> 0 | Some f \<Rightarrow> fromSize f)"

definition setAlias :: "FromItem \<Rightarrow> string \<Rightarrow> FromItem" where
  "setAlias f a = (case f of FromItem ty tn al sq jn wr tf un hints \<Rightarrow>
     FromItem ty tn a sq jn wr tf un hints)"

definition setJoin :: "FromItem \<Rightarrow> (FromItem, SQLExpression) JoinClause \<Rightarrow> FromItem" where
  "setJoin f j = (case f of FromItem ty tn al sq jn wr tf un hints \<Rightarrow>
     FromItem ty tn al sq (Some j) wr tf un hints)"

text \<open>The aliases of an unwrapped subquery, with every column qualified by the final alias.\<close>

definition unwrapAliases :: "SQLExpression SelectListItem list \<Rightarrow> string \<Rightarrow> aliasMap \<Rightarrow> aliasMap" where
  "unwrapAliases selectList finalAlias m =
     fold (\<lambda>item m.
         case slExpression item of
           Some e \<Rightarrow>
             if slAlias item \<noteq> []
             then (slAlias item, updateTableAlias finalAlias (copyExpression e)) # m else m
         | None \<Rightarrow> m)
       selectList m"

text \<open>The subquery of a FROM item that can be replaced by its own FROM item, with that item.\<close>

definition unwrappable :: "FromItem \<Rightarrow> (SelectStatement \<times> FromItem) option" where
  "unwrappable f =
     (if fType f = FromItemTypeSubquery then
        (case fSubquery f of
           Some q \<Rightarrow>
             (if canUnwrapSubquery (Some q)
              then map_option (\<lambda>innerFrom. (q, innerFrom)) (sFromClause q) else None)
         | None \<Rightarrow> None)
      else None)"

lemma fromSize_setAlias [simp]: "fromSize (setAlias f a) = fromSize f"
  by (cases f) (simp add: setAlias_def)

lemma fromSize_pos [simp]: "0 < fromSize f"
  by (cases f) simp

lemma selSize_from: "sFromClause q = Some f \<Longrightarrow> selSize q = fromSize f"
  by (cases q) simp

lemma fromSize_subquery: "fSubquery f = Some q \<Longrightarrow> selSize q < fromSize f"
  by (cases f) simp

lemma fromSize_join:
  "fJoin f = Some j \<Longrightarrow> optSize (jcLeft j) + optSize (jcRight j) < fromSize f"
  by (cases f; cases j; cases "jcLeft j"; cases "jcRight j") (auto simp: optSize_def)

lemma unwrappable_size: "unwrappable f = Some (q, i) \<Longrightarrow> fromSize i < fromSize f"
  by (auto simp: unwrappable_def selSize_from [symmetric] fromSize_subquery split: if_splits option.splits)

function flattenJoinFromItem :: "FromItem option \<Rightarrow> aliasMap \<Rightarrow> FromItem option \<times> aliasMap"
  and flattenFromItemInJoin :: "FromItem option \<Rightarrow> aliasMap \<Rightarrow> FromItem option \<times> aliasMap"
where
  "flattenJoinFromItem None m = (None, m)"
| "flattenJoinFromItem (Some f) m =
     (case (fType f, fJoin f) of
        (FromItemTypeJoin, Some j) \<Rightarrow>
          (let (l, m1) = flattenFromItemInJoin (jcLeft j) m;
               (r, m2) = flattenFromItemInJoin (jcRight j) m1
           in (Some (setJoin f (JoinClause (jcType j) l r (jcCondition j) (jcUsing j))), m2))
      | _ \<Rightarrow> (Some f, m))"
| "flattenFromItemInJoin None m = (None, m)"
| "flattenFromItemInJoin (Some f) m =
     (case unwrappable f of
        Some (q, innerFrom) \<Rightarrow>
          (let finalAlias = (if fAlias f = [] then fAlias innerFrom else fAlias f)
           in flattenFromItemInJoin (Some (setAlias innerFrom finalAlias))
                (unwrapAliases (sSelectList q) finalAlias m))
      | None \<Rightarrow> if fType f = FromItemTypeJoin then flattenJoinFromItem (Some f) m else (Some f, m))"
  by pat_completeness auto

termination
  by (relation "measure (\<lambda>x. case x of Inl (f, m) \<Rightarrow> 2 * optSize f | Inr (f, m) \<Rightarrow> 2 * optSize f + 1)")
    (auto simp: optSize_def dest!: unwrappable_size fromSize_join [OF sym] split: option.splits)


section \<open>Flattening a statement\<close>

definition setFromClause :: "SelectStatement \<Rightarrow> FromItem option \<Rightarrow> SelectStatement" where
  "setFromClause s fr = (case s of
     SelectStatement wcs st sl ast avt _ wh gb hv ob lim so hints \<Rightarrow>
       SelectStatement wcs st sl ast avt fr wh gb hv ob lim so hints)"

text \<open>\<open>stmt.SelectList[i].Expression = e; stmt.WhereClause = w\<close> for every \<open>i\<close>.\<close>

definition substituteSelect :: "(SQLExpression \<Rightarrow> SQLExpression) \<Rightarrow> SelectStatement \<Rightarrow> SelectStatement" where
  "substituteSelect f s = (case s of
     SelectStatement wcs st sl ast avt fr wh gb hv ob lim so hints \<Rightarrow>
       SelectStatement wcs st
         (map (\<lambda>i. SelectListItem (map_option f (slExpression i)) (slAlias i) (slIsStarExpansion i)
             (slExceptColumns i) (slReplaceColumns i)) sl)
         ast avt fr (map_option f wh) gb hv ob lim so hints)"

function substituteInJoinConditions :: "aliasMap \<Rightarrow> FromItem option \<Rightarrow> FromItem option" where
  "substituteInJoinConditions m None = None"
| "substituteInJoinConditions m (Some f) =
     (case (fType f, fJoin f) of
        (FromItemTypeJoin, Some j) \<Rightarrow>
          Some (setJoin f (JoinClause (jcType j)
            (case jcLeft j of
               None \<Rightarrow> None
             | Some l \<Rightarrow> if fType l = FromItemTypeJoin then substituteInJoinConditions m (Some l) else Some l)
            (case jcRight j of
               None \<Rightarrow> None
             | Some r \<Rightarrow> if fType r = FromItemTypeJoin then substituteInJoinConditions m (Some r) else Some r)
            (map_option (\<lambda>c. substituteColumnRefs c m []) (jcCondition j)) (jcUsing j)))
      | _ \<Rightarrow> Some f)"
  by pat_completeness auto
termination
  by (relation "measure (\<lambda>(m, f). optSize f)") (auto simp: optSize_def dest!: fromSize_join [OF sym])

text \<open>The first step: the JOINs of the FROM clause.\<close>

definition flattenJoins :: "SelectStatement \<Rightarrow> SelectStatement" where
  "flattenJoins stmt =
     (case sFromClause stmt of
        Some f \<Rightarrow>
          (if fType f = FromItemTypeJoin then
             (let (fr, joinAliasMap) = flattenJoinFromItem (Some f) [] in
              if joinAliasMap \<noteq> [] then
                setFromClause (substituteSelect (\<lambda>e. substituteColumnRefs e joinAliasMap []) stmt)
                  (substituteInJoinConditions joinAliasMap fr)
              else setFromClause stmt fr)
           else stmt)
      | None \<Rightarrow> stmt)"

text \<open>The second step: merge a statement with the subquery \<open>inner\<close> of its FROM item \<open>f\<close>.\<close>

definition flattenStep :: "SelectStatement \<Rightarrow> FromItem \<Rightarrow> SelectStatement \<Rightarrow> SelectStatement" where
  "flattenStep stmt f inner =
     (let m = buildColumnAliasMap (sSelectList inner) in
      SelectStatement
        (mergeWithClauses (sWithClauses stmt) (sWithClauses inner))
        (sSelectType stmt)
        (map (\<lambda>item. SelectListItem
            (map_option (\<lambda>e. substituteColumnRefs e m (fAlias f)) (slExpression item))
            (slAlias item) (slIsStarExpansion item) (slExceptColumns item) (slReplaceColumns item))
          (sSelectList stmt))
        [] []
        (sFromClause inner)
        (mergeWhereConditions (sWhereClause stmt) (sWhereClause inner) m (fAlias f))
        (sGroupByList stmt) (sHavingClause stmt) (sOrderByList stmt) (sLimitClause stmt)
        None [])"

text \<open>The subquery that the FROM clause of a statement is, when it can be flattened.\<close>

definition flattenable :: "SelectStatement \<Rightarrow> (FromItem \<times> SelectStatement) option" where
  "flattenable stmt =
     (case sFromClause stmt of
        None \<Rightarrow> None
      | Some f \<Rightarrow>
          if fType f \<noteq> FromItemTypeSubquery then None
          else (case fSubquery f of
                  None \<Rightarrow> None
                | Some inner \<Rightarrow> if canFlattenSelect (Some inner) then Some (f, inner) else None))"

lemma selSize_sFrom: "selSize s = optSize (sFromClause s)"
  by (cases s) (simp add: optSize_def split: option.splits)

lemma sFromClause_setFromClause [simp]: "sFromClause (setFromClause s fr) = fr"
  by (cases s) (simp add: setFromClause_def)

lemma setJoin_sel [simp]:
  "fType (setJoin f j) = fType f" "fSubquery (setJoin f j) = fSubquery f" "fAlias (setJoin f j) = fAlias f"
  "fJoin (setJoin f j) = Some j"
  by (cases f; simp add: setJoin_def)+

lemma flattenJoin_type: "fst (flattenJoinFromItem (Some f) m) = Some g \<Longrightarrow> fType g = fType f"
  by (auto split: FromItemType.splits option.splits prod.splits)

lemma substituteInJoin_type: "substituteInJoinConditions m (Some f) = Some g \<Longrightarrow> fType g = fType f"
  by (auto split: FromItemType.splits option.splits)

lemma flattenJoin_Some: "\<exists>g. fst (flattenJoinFromItem (Some f) m) = Some g"
  by (auto split: FromItemType.splits option.splits prod.splits)

lemma substituteInJoin_Some: "\<exists>g. substituteInJoinConditions m (Some f) = Some g"
  by (auto split: FromItemType.splits option.splits)

declare flattenJoinFromItem.simps [simp del] substituteInJoinConditions.simps [simp del]

lemma flattenJoins_cases:
  "flattenJoins s = s
   \<or> (\<exists>f. sFromClause (flattenJoins s) = Some f \<and> fType f = FromItemTypeJoin)"
proof (cases "sFromClause s")
  case (Some f)
  show ?thesis
  proof (cases "fType f = FromItemTypeJoin")
    case True
    obtain g m where g: "flattenJoinFromItem (Some f) [] = (Some g, m)"
      using flattenJoin_Some by (metis prod.collapse)
    then have tg: "fType g = FromItemTypeJoin"
      using True flattenJoin_type [of f "[]" g] by simp
    obtain h where h: "substituteInJoinConditions m (Some g) = Some h"
      using substituteInJoin_Some by blast
    then have "fType h = FromItemTypeJoin" using tg substituteInJoin_type by metis
    then show ?thesis using Some True g tg h by (simp add: flattenJoins_def)
  qed (simp add: flattenJoins_def Some)
qed (simp add: flattenJoins_def)

lemma flattenable_size: "flattenable s = Some (f, inner) \<Longrightarrow> selSize inner < selSize s"
  by (auto simp: flattenable_def selSize_sFrom [of s] optSize_def fromSize_subquery
      split: option.splits if_splits)

lemma flattenable_flattenJoins:
  "flattenable (flattenJoins s) = Some p \<Longrightarrow> flattenJoins s = s"
  using flattenJoins_cases [of s] by (auto simp: flattenable_def)

lemma selSize_flattenStep [simp]: "selSize (flattenStep s f inner) = selSize inner"
  by (simp add: flattenStep_def Let_def selSize_sFrom [of inner] optSize_def split: option.split)

function flattenSelectForRecursiveCTE :: "SelectStatement \<Rightarrow> SelectStatement" where
  "flattenSelectForRecursiveCTE stmt0 =
     (let stmt = flattenJoins stmt0 in
      case flattenable stmt of
        None \<Rightarrow> stmt
      | Some (f, inner) \<Rightarrow> flattenSelectForRecursiveCTE (flattenStep stmt f inner))"
  by pat_completeness auto
termination
proof (relation "measure selSize")
  fix stmt0 stmt :: SelectStatement and p f inner
  assume s: "stmt = flattenJoins stmt0" and p: "flattenable stmt = Some p" "(f, inner) = p"
  then have "stmt = stmt0" using flattenable_flattenJoins by simp
  then show "(flattenStep stmt f inner, stmt0) \<in> measure selSize"
    using p flattenable_size [of stmt f inner] by simp
qed simp

declare flattenSelectForRecursiveCTE.simps [simp del]

text \<open>The argument of the Go function may be nil.\<close>

definition flattenSelectForRecursiveCTE_ptr :: "SelectStatement option \<Rightarrow> SelectStatement option" where
  "flattenSelectForRecursiveCTE_ptr p = map_option flattenSelectForRecursiveCTE p"

end
