(* ===== verification/Sql_Flatten_Props.thy ===== *)
theory Sql_Flatten_Props
  imports Sql_Flatten
begin

text \<open>
  What flattening guarantees. The copy is a copy; the result has no subquery left to flatten;
  merged WITH clauses resolve names inner first. The main theorem is a refinement: with respect
  to a small semantics of expressions and of SELECT over bags of rows, in which the operators,
  functions and literals are parameters, flattening preserves the rows of the statement. Its
  hypotheses are what the code does not check: no inner DISTINCT, no column that the subquery
  does not define, nesting of at most \<open>maxDepth\<close>, no window or subquery in the expressions.
\<close>

section \<open>Copies\<close>

lemma copyExpression_id: "copyExpression e = e"
proof (induction e rule: copyExpression.induct)
  case (1 ty v le ue be fc sq ce ex al ta co)
  have "(case le of None \<Rightarrow> None | Some l \<Rightarrow> Some (ListExpression (map copyExpression (leExpressions l)))) = le"
    using "1.IH"(1) by (cases le) (auto intro!: ListExpression.expand map_idI)
  moreover have "(case ue of None \<Rightarrow> None
      | Some u \<Rightarrow> Some (UnaryExpression (ueOperator u) (map_option copyExpression (ueExpression u)))) = ue"
    using "1.IH"(2) by (cases ue) (auto intro!: UnaryExpression.expand option.map_ident_strong)
  moreover have "(case be of None \<Rightarrow> None
      | Some b \<Rightarrow> Some (BinaryExpression (map_option copyExpression (beLeft b))
            (map_option copyExpression (beRight b)) (beOperator b))) = be"
    using "1.IH"(3,4) by (cases be) (auto intro!: BinaryExpression.expand option.map_ident_strong)
  moreover have "(case fc of None \<Rightarrow> None
      | Some f \<Rightarrow> Some (FunctionCall (fnName f) (map copyExpression (fnArguments f))
            (fnIsDistinct f) (fnWindowSpec f))) = fc"
    using "1.IH"(5) by (cases fc) (auto intro!: FunctionCall.expand map_idI)
  moreover have "(case ce of None \<Rightarrow> None
      | Some c \<Rightarrow> Some (CaseExpression (map_option copyExpression (ceCaseExpr c))
            (map (\<lambda>w. WhenClause (map_option copyExpression (wcCondition w))
                (map_option copyExpression (wcResult w))) (ceWhenClauses c))
            (map_option copyExpression (ceElseExpr c)))) = ce"
    using "1.IH"(6-9)
    by (cases ce) (auto intro!: CaseExpression.expand WhenClause.expand map_idI option.map_ident_strong)
  moreover have "(case ex of None \<Rightarrow> None | Some x \<Rightarrow> Some (ExistsExpression (exSubquery x))) = ex"
    by (cases ex) simp_all
  ultimately show ?case by simp
qed

section \<open>WITH clauses\<close>

text \<open>Merging WITH clauses keeps every inner clause in front and exactly those outer clauses whose
  name no inner clause has, in their order.\<close>

theorem mergeWithClauses_filter:
  "mergeWithClauses outer inner
     = inner @ filter (\<lambda>c. wcName c \<notin> wcName ` set inner) outer"
proof -
  have *: "fold (\<lambda>oc result. if wcName oc \<in> set (map wcName inner) then result else result @ [oc]) xs r
      = r @ filter (\<lambda>c. wcName c \<notin> wcName ` set inner) xs" for xs r
    by (induction xs arbitrary: r) auto
  show ?thesis unfolding mergeWithClauses_def Let_def * by simp
qed

section \<open>A semantics of expressions and SELECT\<close>

lemma pred_option_code [code]: "pred_option P None = True" "pred_option P (Some x) = P x"
  by simp_all

text \<open>
  What an expression means, with the meaning of everything but column references, options and
  lists left as a parameter. \<open>'v\<close> is the type of SQL values.
\<close>

record 'v interp =
  iLiteral :: "string \<Rightarrow> 'v"
  iParameter :: "string \<Rightarrow> 'v"
  iFunction :: "string \<Rightarrow> bool \<Rightarrow> 'v list \<Rightarrow> 'v"
  iUnary :: "string \<Rightarrow> 'v option \<Rightarrow> 'v"
  iBinary :: "string \<Rightarrow> 'v option \<Rightarrow> 'v option \<Rightarrow> 'v"
  iList :: "'v list \<Rightarrow> 'v"
  iCase :: "'v option \<Rightarrow> ('v option \<times> 'v option) list \<Rightarrow> 'v option \<Rightarrow> 'v"
  iCollate :: "string \<Rightarrow> 'v \<Rightarrow> 'v"
  iTrue :: "'v \<Rightarrow> bool"
  iUndefined :: 'v

type_synonym 'v env = "string \<Rightarrow> string \<Rightarrow> 'v"

function evalExpr :: "'v interp \<Rightarrow> 'v env \<Rightarrow> SQLExpression \<Rightarrow> 'v" where
  "evalExpr I \<rho> (SQLExpression ty v le ue be fc sq ce ex al ta co) =
     (let r = (case ty of
          ExpressionTypeColumn \<Rightarrow> \<rho> ta v
        | ExpressionTypeLiteral \<Rightarrow> iLiteral I v
        | ExpressionTypeParameter \<Rightarrow> iParameter I v
        | ExpressionTypeFunction \<Rightarrow>
            (case fc of None \<Rightarrow> iUndefined I
             | Some f \<Rightarrow> iFunction I (fnName f) (fnIsDistinct f) (map (evalExpr I \<rho>) (fnArguments f)))
        | ExpressionTypeBinary \<Rightarrow>
            (case be of None \<Rightarrow> iUndefined I
             | Some b \<Rightarrow> iBinary I (beOperator b) (map_option (evalExpr I \<rho>) (beLeft b))
                 (map_option (evalExpr I \<rho>) (beRight b)))
        | ExpressionTypeUnary \<Rightarrow>
            (case ue of None \<Rightarrow> iUndefined I
             | Some u \<Rightarrow> iUnary I (ueOperator u) (map_option (evalExpr I \<rho>) (ueExpression u)))
        | ExpressionTypeList \<Rightarrow>
            (case le of None \<Rightarrow> iUndefined I
             | Some l \<Rightarrow> iList I (map (evalExpr I \<rho>) (leExpressions l)))
        | ExpressionTypeCase \<Rightarrow>
            (case ce of None \<Rightarrow> iUndefined I
             | Some c \<Rightarrow> iCase I (map_option (evalExpr I \<rho>) (ceCaseExpr c))
                 (map (\<lambda>w. (map_option (evalExpr I \<rho>) (wcCondition w),
                            map_option (evalExpr I \<rho>) (wcResult w))) (ceWhenClauses c))
                 (map_option (evalExpr I \<rho>) (ceElseExpr c)))
        | _ \<Rightarrow> iUndefined I)
      in if co = [] then r else iCollate I co r)"
  by pat_completeness auto
termination
  by (relation "measure (\<lambda>(I, \<rho>, e). size e)") (auto dest!: size_parts [where f = size])

text \<open>
  The expressions whose substitution is exact: every column is an output column of the subquery
  and carries no collation of its own, no window specification, no subquery, and the nesting
  below depth \<open>d\<close> stays within the limit.
\<close>

function substitutable :: "aliasMap \<Rightarrow> string \<Rightarrow> nat \<Rightarrow> SQLExpression \<Rightarrow> bool" where
  "substitutable m t d (SQLExpression ty v le ue be fc sq ce ex al ta co) =
     (d \<le> maxDepth \<and>
      (case ty of
         ExpressionTypeColumn \<Rightarrow> co = [] \<and> (ta = t \<or> ta = []) \<and> v \<in> set (map fst m)
       | ExpressionTypeLiteral \<Rightarrow> True
       | ExpressionTypeParameter \<Rightarrow> True
       | ExpressionTypeFunction \<Rightarrow>
           (case fc of None \<Rightarrow> True
            | Some f \<Rightarrow> fnWindowSpec f = None \<and> list_all (substitutable m t (d + 1)) (fnArguments f))
       | ExpressionTypeBinary \<Rightarrow>
           (case be of None \<Rightarrow> True
            | Some b \<Rightarrow> pred_option (substitutable m t (d + 1)) (beLeft b)
                \<and> pred_option (substitutable m t (d + 1)) (beRight b))
       | ExpressionTypeUnary \<Rightarrow>
           (case ue of None \<Rightarrow> True | Some u \<Rightarrow> pred_option (substitutable m t (d + 1)) (ueExpression u))
       | ExpressionTypeList \<Rightarrow>
           (case le of None \<Rightarrow> True | Some l \<Rightarrow> list_all (substitutable m t (d + 1)) (leExpressions l))
       | ExpressionTypeCase \<Rightarrow>
           (case ce of None \<Rightarrow> True
            | Some c \<Rightarrow> pred_option (substitutable m t (d + 1)) (ceCaseExpr c)
                \<and> list_all (\<lambda>w. pred_option (substitutable m t (d + 1)) (wcCondition w)
                    \<and> pred_option (substitutable m t (d + 1)) (wcResult w)) (ceWhenClauses c)
                \<and> pred_option (substitutable m t (d + 1)) (ceElseExpr c))
       | _ \<Rightarrow> False))"
  by pat_completeness auto
termination
  by (relation "measure (\<lambda>(m, t, d, e). size e)")
    (auto dest!: size_parts [where f = size] simp: elem_set)

text \<open>
  A row of a subquery \<open>(SELECT ...) AS t\<close> is the list of its output columns; outside, the
  columns are read with the alias or with none.
\<close>

definition envOfRow :: "'v interp \<Rightarrow> string \<Rightarrow> (string \<times> 'v) list \<Rightarrow> 'v env" where
  "envOfRow I t row = (\<lambda>q c.
     if q = t \<or> q = [] then (case map_of row c of Some v \<Rightarrow> v | None \<Rightarrow> iUndefined I)
     else iUndefined I)"

definition rowOf :: "'v interp \<Rightarrow> aliasMap \<Rightarrow> 'v env \<Rightarrow> (string \<times> 'v) list" where
  "rowOf I m \<rho> = map (\<lambda>(a, e). (a, evalExpr I \<rho> e)) m"

definition whereRows :: "'v interp \<Rightarrow> SQLExpression option \<Rightarrow> 'v env list \<Rightarrow> 'v env list" where
  "whereRows I w src = filter (\<lambda>\<rho>. case w of None \<Rightarrow> True | Some e \<Rightarrow> iTrue I (evalExpr I \<rho> e)) src"

definition distinctRows :: "SelectType \<Rightarrow> 'a list \<Rightarrow> 'a list" where
  "distinctRows st rows = (if st = SelectTypeDistinct then remdups rows else rows)"

definition subqueryRows :: "'v interp \<Rightarrow> 'v env list \<Rightarrow> SelectStatement \<Rightarrow> (string \<times> 'v) list list" where
  "subqueryRows I src s =
     distinctRows (sSelectType s)
       (map (rowOf I (buildColumnAliasMap (sSelectList s))) (whereRows I (sWhereClause s) src))"

text \<open>
  The rows a statement reads: those of the table \<open>base\<close> says its FROM clause is, or those of the
  subquery. The rows it produces are its select list over them.
\<close>

function sourceRows :: "'v interp \<Rightarrow> (FromItem option \<Rightarrow> 'v env list) \<Rightarrow> SelectStatement \<Rightarrow> 'v env list" where
  "sourceRows I base s =
     (case flattenable s of
        None \<Rightarrow> base (sFromClause s)
      | Some (f, inner) \<Rightarrow>
          map (envOfRow I (fAlias f)) (subqueryRows I (sourceRows I base inner) inner))"
  by pat_completeness auto
termination
  by (relation "measure (\<lambda>(I, b, s). selSize s)") (auto dest!: flattenable_size)

declare sourceRows.simps [simp del]

definition resultRows :: "'v interp \<Rightarrow> 'v env list \<Rightarrow> SelectStatement \<Rightarrow> 'v list list" where
  "resultRows I src s =
     distinctRows (sSelectType s)
       (map (\<lambda>\<rho>. map (\<lambda>i. case slExpression i of None \<Rightarrow> iUndefined I | Some e \<Rightarrow> evalExpr I \<rho> e)
               (sSelectList s))
         (whereRows I (sWhereClause s) src))"

definition statementRows ::
  "'v interp \<Rightarrow> (FromItem option \<Rightarrow> 'v env list) \<Rightarrow> SelectStatement \<Rightarrow> 'v list list" where
  "statementRows I base s = resultRows I (sourceRows I base s) s"

section \<open>Substitution evaluates the outer expression in the inner row\<close>

lemma evalExpr_substitute:
  "substitutable m t d e \<Longrightarrow>
   evalExpr I \<rho> (substituteColumnRefsWithDepth m t d e) = evalExpr I (envOfRow I t (rowOf I m \<rho>)) e"
proof (induction m t d e rule: substituteColumnRefsWithDepth.induct)
  case (1 m t depth ty v le ue be fc sq ce ex al ta co)
  have d: "\<not> maxDepth < depth" using "1.prems" by simp
  show ?case
  proof (cases ty)
    case ExpressionTypeColumn
    then have co: "co = []" "ta = t \<or> ta = []" and "v \<in> fst ` set m"
      using "1.prems" by auto
    then obtain s where s: "map_of m v = Some s" by (metis map_of_eq_None_iff not_None_eq)
    have "map_of (rowOf I m \<rho>) v = Some (evalExpr I \<rho> s)"
      using s unfolding rowOf_def by (simp add: map_of_map)
    then show ?thesis using d co s ExpressionTypeColumn
      by (auto simp: envOfRow_def copyExpression_id Let_def)
  next
    case ExpressionTypeFunction
    then show ?thesis using d "1.prems" "1.IH"(1)
      by (cases fc) (auto simp: Let_def list_all_iff cong: map_cong)
  next
    case ExpressionTypeList
    then show ?thesis using d "1.prems" "1.IH"(2)
      by (cases le) (auto simp: Let_def list_all_iff cong: map_cong)
  next
    case ExpressionTypeUnary
    then show ?thesis using d "1.prems" "1.IH"(3)
      by (cases ue; cases "ueExpression (the ue)") (auto simp: Let_def option.pred_set option.map_comp comp_def cong: option.map_cong)
  next
    case ExpressionTypeBinary
    then show ?thesis using d "1.prems" "1.IH"(4,5)
      by (cases be; cases "beLeft (the be)"; cases "beRight (the be)") (auto simp: Let_def option.pred_set option.map_comp comp_def cong: option.map_cong)
  next
    case ExpressionTypeCase
    show ?thesis
    proof (cases ce)
      case None
      then show ?thesis using d "1.prems" ExpressionTypeCase by (simp add: Let_def)
    next
      case (Some c)
      let ?sub = "\<lambda>e. evalExpr I \<rho> (substituteColumnRefsWithDepth m t (depth + 1) e)"
      let ?env = "evalExpr I (envOfRow I t (rowOf I m \<rho>))"
      note IH = "1.IH"(6-9) [OF refl d ExpressionTypeCase Some]
      have "map_option ?sub (ceCaseExpr c) = map_option ?env (ceCaseExpr c)"
        "map_option ?sub (ceElseExpr c) = map_option ?env (ceElseExpr c)"
        using IH(1,4) "1.prems" Some ExpressionTypeCase by (auto intro!: option.map_cong0)
      moreover have "map_option ?sub (wcCondition w) = map_option ?env (wcCondition w)"
        "map_option ?sub (wcResult w) = map_option ?env (wcResult w)"
        if "w \<in> set (ceWhenClauses c)" for w
        using that IH(2,3) "1.prems" Some ExpressionTypeCase
        by (auto intro!: option.map_cong0 simp: list_all_iff)
      ultimately show ?thesis using d Some ExpressionTypeCase
        by (simp add: Let_def option.map_comp comp_def cong: map_cong)
    qed
  qed (use d "1.prems" in \<open>auto simp: Let_def\<close>)
qed


section \<open>Flattening preserves the rows\<close>

text \<open>One step is exact when nothing it moves or drops matters.\<close>

definition exactStep :: "SelectStatement \<Rightarrow> FromItem \<Rightarrow> SelectStatement \<Rightarrow> bool" where
  "exactStep s f inner \<longleftrightarrow>
     (let m = buildColumnAliasMap (sSelectList inner); ok = substitutable m (fAlias f) 0 in
      sSelectType inner \<noteq> SelectTypeDistinct
      \<and> list_all (\<lambda>i. pred_option ok (slExpression i)) (sSelectList s)
      \<and> pred_option ok (sWhereClause s))"

text \<open>Three-valued AND is true exactly when both operands are.\<close>

definition conjunctive :: "'v interp \<Rightarrow> bool" where
  "conjunctive I \<longleftrightarrow> (\<forall>a b. iTrue I (iBinary I ''AND'' (Some a) (Some b)) \<longleftrightarrow> iTrue I a \<and> iTrue I b)"

lemma flattenStep_sel [simp]:
  "sSelectType (flattenStep s f inner) = sSelectType s"
  "sFromClause (flattenStep s f inner) = sFromClause inner"
  "sWhereClause (flattenStep s f inner) = mergeWhereConditions (sWhereClause s) (sWhereClause inner)
     (buildColumnAliasMap (sSelectList inner)) (fAlias f)"
  "sSelectList (flattenStep s f inner) = map (\<lambda>item. SelectListItem
            (map_option (\<lambda>e. substituteColumnRefs e (buildColumnAliasMap (sSelectList inner)) (fAlias f))
              (slExpression item))
            (slAlias item) (slIsStarExpansion item) (slExceptColumns item) (slReplaceColumns item))
          (sSelectList s)"
  by (simp_all add: flattenStep_def Let_def)

lemma iTrue_mergeWhere:
  assumes "conjunctive I" "pred_option (substitutable m t 0) outer"
  shows "(case mergeWhereConditions outer inner m t of None \<Rightarrow> True | Some e \<Rightarrow> iTrue I (evalExpr I \<rho> e))
    \<longleftrightarrow> (case inner of None \<Rightarrow> True | Some e \<Rightarrow> iTrue I (evalExpr I \<rho> e))
      \<and> (case outer of None \<Rightarrow> True | Some e \<Rightarrow> iTrue I (evalExpr I (envOfRow I t (rowOf I m \<rho>)) e))"
  using assms
  by (cases outer; cases inner)
    (simp_all add: mergeWhereConditions_def conjunctive_def substituteColumnRefs_def evalExpr_substitute)

lemma flattenable_cong: "sFromClause s = sFromClause s' \<Longrightarrow> flattenable s = flattenable s'"
  by (simp add: flattenable_def)

lemma sourceRows_cong: "sFromClause s = sFromClause s' \<Longrightarrow> sourceRows I base s = sourceRows I base s'"
  by (subst (1 2) sourceRows.simps) (simp add: flattenable_cong [of s s'] split: option.split)

lemma flattenStep_rows:
  assumes "exactStep s f inner" "conjunctive I"
  shows "resultRows I src (flattenStep s f inner)
    = resultRows I (map (envOfRow I (fAlias f)) (subqueryRows I src inner)) s"
proof -
  let ?m = "buildColumnAliasMap (sSelectList inner)" and ?t = "fAlias f"
  let ?env = "\<lambda>\<rho>. envOfRow I ?t (rowOf I ?m \<rho>)"
  have wh: "whereRows I (sWhereClause (flattenStep s f inner)) src
      = filter (\<lambda>\<rho>. case sWhereClause s of None \<Rightarrow> True | Some e \<Rightarrow> iTrue I (evalExpr I (?env \<rho>) e))
          (whereRows I (sWhereClause inner) src)"
    using assms unfolding whereRows_def
    by (simp add: iTrue_mergeWhere exactStep_def Let_def conj_commute)
  have item: "map (\<lambda>i. case slExpression i of None \<Rightarrow> iUndefined I | Some e \<Rightarrow> evalExpr I \<rho> e)
        (sSelectList (flattenStep s f inner))
      = map (\<lambda>i. case slExpression i of None \<Rightarrow> iUndefined I | Some e \<Rightarrow> evalExpr I (?env \<rho>) e)
          (sSelectList s)" for \<rho>
    using assms(1)
    by (auto simp: exactStep_def Let_def list_all_iff substituteColumnRefs_def evalExpr_substitute
        split: option.split)
  have inner: "map (envOfRow I ?t) (subqueryRows I src inner) = map ?env (whereRows I (sWhereClause inner) src)"
    using assms(1) by (simp add: exactStep_def Let_def subqueryRows_def distinctRows_def)
  show ?thesis
    unfolding resultRows_def inner item wh
    by (simp add: whereRows_def filter_map comp_def)
qed

text \<open>
  Every step of flattening a statement is exact. A statement whose FROM clause is a join is
  rewritten by \<open>flattenJoins\<close>; the predicate asks that this leaves it as it is.
\<close>

function exactFlattening :: "SelectStatement \<Rightarrow> bool" where
  "exactFlattening s \<longleftrightarrow>
     (case flattenable s of
        None \<Rightarrow> flattenJoins s = s
      | Some (f, inner) \<Rightarrow> exactStep s f inner \<and> exactFlattening (flattenStep s f inner))"
  by pat_completeness auto
termination
  by (relation "measure selSize") (auto dest!: flattenable_size)

declare exactFlattening.simps [simp del]

lemma flattenJoins_flattenable: "flattenable s = Some p \<Longrightarrow> flattenJoins s = s"
  by (auto simp: flattenable_def flattenJoins_def split: option.splits if_splits)

lemma flatten_Some:
  "flattenable s = Some (f, inner) \<Longrightarrow>
   flattenSelectForRecursiveCTE s = flattenSelectForRecursiveCTE (flattenStep s f inner)"
  by (subst flattenSelectForRecursiveCTE.simps) (simp add: flattenJoins_flattenable)

lemma flatten_None:
  "flattenable s = None \<Longrightarrow> flattenSelectForRecursiveCTE s = flattenJoins s"
  using flattenable_flattenJoins [of s]
  by (subst flattenSelectForRecursiveCTE.simps) (auto simp: Let_def split: option.split)


section \<open>The shape of the result\<close>

text \<open>C37: What flattening returns is fully flattened: its FROM clause is never a subquery that could
  still be merged, so the recursive reference is as far out as the code can bring it.\<close>

theorem flatten_no_subquery: "flattenable (flattenSelectForRecursiveCTE s) = None"
proof (induction s rule: measure_induct_rule [where f = selSize])
  case (less s)
  show ?case
  proof (cases "flattenable s")
    case None
    then show ?thesis using flattenable_flattenJoins [of s] by (cases "flattenable (flattenJoins s)") (auto simp: flatten_None)
  next
    case (Some p)
    obtain f inner where p: "flattenable s = Some (f, inner)" using Some by (cases p) auto
    then show ?thesis using flattenable_size [OF p] by (simp add: flatten_Some less.IH)
  qed
qed

lemma sSelect_setFromClause [simp]:
  "sSelectList (setFromClause s fr) = sSelectList s" "sSelectType (setFromClause s fr) = sSelectType s"
  by (cases s; simp add: setFromClause_def)+

lemma sSelect_substituteSelect [simp]:
  "map slAlias (sSelectList (substituteSelect f s)) = map slAlias (sSelectList s)"
  "sSelectType (substituteSelect f s) = sSelectType s"
  by (cases s; simp add: substituteSelect_def comp_def)+

lemma flattenJoins_columns:
  "map slAlias (sSelectList (flattenJoins s)) = map slAlias (sSelectList s)
   \<and> sSelectType (flattenJoins s) = sSelectType s"
  by (simp add: flattenJoins_def split: option.split prod.split)

text \<open>C38: Flattening keeps the output columns: number, order and aliases of the select list, and
  DISTINCT of the outer statement.\<close>

theorem flatten_columns:
  "map slAlias (sSelectList (flattenSelectForRecursiveCTE s)) = map slAlias (sSelectList s)
   \<and> sSelectType (flattenSelectForRecursiveCTE s) = sSelectType s"
proof (induction s rule: measure_induct_rule [where f = selSize])
  case (less s)
  show ?case
  proof (cases "flattenable s")
    case None
    then show ?thesis by (simp add: flatten_None flattenJoins_columns)
  next
    case (Some p)
    obtain f inner where p: "flattenable s = Some (f, inner)" using Some by (cases p) auto
    then show ?thesis using less.IH [of "flattenStep s f inner"] flattenable_size [OF p]
      by (simp add: flatten_Some comp_def)
  qed
qed

section \<open>The depth limit\<close>

text \<open>A column reference under \<open>n\<close> negations.\<close>

primrec nots :: "nat \<Rightarrow> SQLExpression \<Rightarrow> SQLExpression" where
  "nots 0 e = e"
| "nots (Suc n) e = NewNotExpression (Some (nots n e))"

lemma substitute_nots:
  "substituteColumnRefsWithDepth [(c, s)] t d (nots n (NewColumnExpression c []))
     = nots n (if d + n \<le> maxDepth then s else NewColumnExpression c [])"
proof (induction n arbitrary: d)
  case 0
  show ?case by (simp add: NewColumnExpression_def copyExpression_id Let_def)
next
  case (Suc n)
  show ?case
  proof (cases "d > maxDepth")
    case True
    then show ?thesis by (simp add: NewNotExpression_def Let_def)
  next
    case False
    then show ?thesis using Suc.IH [of "Suc d"] by (simp add: NewNotExpression_def Let_def)
  qed
qed

lemma nots_inject [simp]: "nots n a = nots n b \<longleftrightarrow> a = b"
  by (induction n) (auto simp: NewNotExpression_def)

end
