(* ===== verification/Sql_Writer.thy ===== *)
theory Sql_Writer
  imports Sql_Ast
begin

text \<open>
  The SQL writer of \<open>internal/sqlbuilder_sqlbuilder.go\<close>: the state of \<open>SQLWriter\<close>, its five
  operations, and one \<open>WriteSql\<close> per struct. A method body is an \<open>action\<close>, a function from the
  writer's state to the next one, or \<open>None\<close> where the Go code dereferences nil and panics.

  The structs that contain expressions are printed from the actions of their parts: the
  recursive methods \<open>SQLExpression_WriteSql\<close>, \<open>SelectStatement_WriteSql\<close> and
  \<open>FromItem_WriteSql\<close> map themselves over the struct and hand the result to the struct's own
  \<open>WriteSql\<close>. Where a method also looks at the expression it prints (the alias test of a select
  item), the part is the pair of the expression and its action.
\<close>

section \<open>The writer\<close>

record SQLWriter =
  builder :: string
  indentLevel :: nat
  useNewlines :: bool

type_synonym action = "SQLWriter \<Rightarrow> SQLWriter option"

definition NewSQLWriter :: SQLWriter where
  "NewSQLWriter = \<lparr>builder = [], indentLevel = 0, useNewlines = True\<rparr>"

definition Write :: "string \<Rightarrow> action" where
  "Write s w = Some (w\<lparr>builder := builder w @ s\<rparr>)"

definition WriteLine :: "string \<Rightarrow> action" where
  "WriteLine s w =
     Some (w\<lparr>builder := builder w
        @ (if useNewlines w then concat (replicate (indentLevel w) ''  '') else [])
        @ s
        @ (if useNewlines w then [CHR 0x0A] else '' '')\<rparr>)"

definition Indent :: action where
  "Indent w = Some (w\<lparr>indentLevel := indentLevel w + 1\<rparr>)"

definition Dedent :: action where
  "Dedent w = Some (if indentLevel w > 0 then w\<lparr>indentLevel := indentLevel w - 1\<rparr> else w)"

text \<open>Running actions one after the other; a nil dereference stops everything.\<close>

fun seqA :: "action list \<Rightarrow> action" where
  "seqA [] w = Some w"
| "seqA (a # as) w = Option.bind (a w) (seqA as)"

definition deref :: "action option \<Rightarrow> action" where
  "deref p = (case p of None \<Rightarrow> (\<lambda>_. None) | Some a \<Rightarrow> a)"

definition whenSome :: "'a option \<Rightarrow> ('a \<Rightarrow> action list) \<Rightarrow> action list" where
  "whenSome p f = (case p of None \<Rightarrow> [] | Some a \<Rightarrow> f a)"

definition whenA :: "bool \<Rightarrow> action list \<Rightarrow> action list" where
  "whenA b as = (if b then as else [])"

text \<open>\<open>for i, x := range xs { if i > 0 { sep }; x }\<close>\<close>

fun sepA :: "action list \<Rightarrow> action list \<Rightarrow> action list" where
  "sepA sep [] = []"
| "sepA sep [a] = [a]"
| "sepA sep (a # b # as) = a # sep @ sepA sep (b # as)"

text \<open>\<open>String()\<close>: run the method on a fresh writer and read its buffer.\<close>

definition runString :: "bool \<Rightarrow> action \<Rightarrow> string option" where
  "runString nl a = map_option builder (a (NewSQLWriter\<lparr>useNewlines := nl\<rparr>))"

definition writeOpt :: "string option \<Rightarrow> action" where
  "writeOpt s = (case s of None \<Rightarrow> (\<lambda>_. None) | Some t \<Rightarrow> Write t)"

definition quoteId :: "string \<Rightarrow> string" where
  "quoteId s = ''`'' @ s @ ''`''"

section \<open>The WriteSql methods of the structs\<close>

definition ListExpression_WriteSql :: "string option ListExpression \<Rightarrow> action" where
  "ListExpression_WriteSql e =
     seqA ([Write ''(''] @ sepA [Write '',''] (map writeOpt (leExpressions e)) @ [Write '')''])"

definition UnaryExpression_WriteSql :: "action UnaryExpression \<Rightarrow> action" where
  "UnaryExpression_WriteSql e =
     seqA [Write (ueOperator e), Write '' ('', deref (ueExpression e), Write '')'']"

definition BinaryExpression_WriteSql :: "action BinaryExpression \<Rightarrow> action" where
  "BinaryExpression_WriteSql e =
     seqA (whenSome (beLeft e) (\<lambda>a. [a])
       @ [Write ('' '' @ beOperator e @ '' '')]
       @ whenSome (beRight e) (\<lambda>a. [a]))"

definition WhenClause_WriteSql :: "action WhenClause \<Rightarrow> action list" where
  "WhenClause_WriteSql c =
     [Write '' WHEN '', deref (wcCondition c), Write '' THEN '', deref (wcResult c)]"

definition CaseExpression_WriteSql :: "action CaseExpression \<Rightarrow> action" where
  "CaseExpression_WriteSql c =
     seqA ([Write ''CASE'']
       @ whenSome (ceCaseExpr c) (\<lambda>a. [Write '' '', a])
       @ concat (map WhenClause_WriteSql (ceWhenClauses c))
       @ whenSome (ceElseExpr c) (\<lambda>a. [Write '' ELSE '', a])
       @ [Write '' END''])"

definition ExistsExpression_WriteSql :: "action ExistsExpression \<Rightarrow> action" where
  "ExistsExpression_WriteSql e =
     seqA ([Write ''EXISTS (''] @ whenSome (exSubquery e) (\<lambda>a. [a]) @ [Write '')''])"

definition FrameBound_WriteSql :: "action FrameBound \<Rightarrow> action" where
  "FrameBound_WriteSql f =
     seqA (whenSome (fbOffset f) (\<lambda>a. [a, Write '' '']) @ [Write (fbType f)])"

definition FrameClause_WriteSql :: "action FrameClause \<Rightarrow> action" where
  "FrameClause_WriteSql f =
     seqA ([Write (fcUnit f)]
       @ (case fcEnd f of
            Some e \<Rightarrow>
              [Write '' BETWEEN '', deref (map_option FrameBound_WriteSql (fcStart f)),
               Write '' AND '', FrameBound_WriteSql e]
          | None \<Rightarrow> [Write '' '', deref (map_option FrameBound_WriteSql (fcStart f))]))"

definition OrderByItem_WriteSql :: "action OrderByItem \<Rightarrow> action" where
  "OrderByItem_WriteSql ob =
     seqA ([deref (obExpression ob)]
       @ whenA (obDirection ob \<noteq> []) [Write '' '', Write (obDirection ob)]
       @ whenA (obNullsOrder ob \<noteq> []) [Write '' '', Write (obNullsOrder ob)])"

definition WindowSpecification_WriteSql :: "action WindowSpecification \<Rightarrow> action" where
  "WindowSpecification_WriteSql w =
     seqA (
       (whenA (wsPartitionBy w \<noteq> []) (Write ''PARTITION BY '' # sepA [Write '', ''] (wsPartitionBy w)))
     @ whenA (wsOrderBy w \<noteq> []) ((whenA (wsPartitionBy w \<noteq> []) [Write '' ''])
             @ Write ''ORDER BY '' # sepA [Write '', ''] (map OrderByItem_WriteSql (wsOrderBy w)))
     @ whenSome (wsFrameClause w) (\<lambda>f.
         (whenA (wsPartitionBy w \<noteq> [] \<or> wsOrderBy w \<noteq> []) [Write '' ''])
         @ [FrameClause_WriteSql f]))"

definition FunctionCall_WriteSql :: "action FunctionCall \<Rightarrow> action" where
  "FunctionCall_WriteSql f =
     seqA ([Write (fnName f), Write ''('']
       @ whenA (fnIsDistinct f) [Write ''DISTINCT '']
       @ sepA [Write '', ''] (fnArguments f)
       @ [Write '')'']
       @ whenSome (fnWindowSpec f) (\<lambda>s.
           [Write '' OVER ('', WindowSpecification_WriteSql s, Write '')'']))"

definition SelectListItem_WriteSql :: "(SQLExpression \<times> action) SelectListItem \<Rightarrow> action" where
  "SelectListItem_WriteSql s =
     (if slIsStarExpansion s then
        seqA ([deref (map_option snd (slExpression s))]
          @ whenA (slExceptColumns s \<noteq> []) ([Write '' EXCEPT ('']
                  @ sepA [Write '', ''] (map (\<lambda>c. Write (quoteId c)) (slExceptColumns s))
                  @ [Write '')''])
          @ whenA (slReplaceColumns s \<noteq> []) ([Write '' REPLACE ('']
                  @ sepA [Write '', '']
                      (map (\<lambda>(c, e). seqA [snd e, Write ('' AS '' @ quoteId c)])
                           (slReplaceColumns s))
                  @ [Write '')'']))
      else
        (case slExpression s of
           None \<Rightarrow> (\<lambda>_. None)
         | Some (e, a) \<Rightarrow>
             seqA ([a]
               @ whenA (slAlias s \<noteq> [] \<and> \<not> (eType e = ExpressionTypeColumn \<and> slAlias s = eValue e)) ([Write ('' AS '' @ quoteId (slAlias s))]))))"

definition TableFunction_WriteSql :: "action TableFunction \<Rightarrow> action" where
  "TableFunction_WriteSql t =
     seqA ([Write (tfName t), Write ''('']
       @ sepA [Write '', ''] (tfArguments t) @ [Write '')''])"

definition joinKeyword :: "JoinType \<Rightarrow> string" where
  "joinKeyword t =
     (case t of
        JoinTypeInner \<Rightarrow> '' INNER JOIN ''
      | JoinTypeLeft \<Rightarrow> '' LEFT JOIN ''
      | JoinTypeRight \<Rightarrow> '' RIGHT JOIN ''
      | JoinTypeFull \<Rightarrow> '' FULL OUTER JOIN ''
      | JoinTypeCross \<Rightarrow> '' CROSS JOIN '')"

definition JoinClause_WriteSql :: "(action, action) JoinClause \<Rightarrow> action" where
  "JoinClause_WriteSql j =
     seqA (whenSome (jcLeft j) (\<lambda>a. [a])
       @ [Write (joinKeyword (jcType j))]
       @ whenSome (jcRight j) (\<lambda>a. [a])
       @ whenA (jcType j \<noteq> JoinTypeCross)
            ((if jcUsing j \<noteq> [] then
               [Write '' USING (''] @ sepA [Write '', ''] (map Write (jcUsing j)) @ [Write '')'']
             else whenSome (jcCondition j) (\<lambda>a. [Write '' ON '', a]))))"

definition WithClause_WriteSql :: "action WithClause \<Rightarrow> action" where
  "WithClause_WriteSql w =
     seqA ([Write (quoteId (wcName w))]
       @ whenA (wcColumns w \<noteq> [])
            ([Write '' (''] @ sepA [Write '', ''] (map Write (wcColumns w)) @ [Write '')''])
       @ [Write ('' AS MATERIALIZED '' @ [CHR 0x09] @ ''(''), WriteLine [], Indent]
       @ whenSome (wcQuery w) (\<lambda>a. [a])
       @ [Dedent, WriteLine '')''])"

definition SetOperation_WriteSql :: "action SetOperation \<Rightarrow> action" where
  "SetOperation_WriteSql s =
     seqA (sepA ([WriteLine [], Write (soType s)]
         @ whenA (soModifier s \<noteq> []) [Write '' '', Write (soModifier s)]
         @ [WriteLine []])
       (soItems s))"

definition LimitClause_WriteSql :: "action LimitClause \<Rightarrow> action list" where
  "LimitClause_WriteSql l =
     [WriteLine [], Write ''LIMIT '', deref (lcCount l)]
     @ whenSome (lcOffset l) (\<lambda>a. [Write '' OFFSET '', a])"

definition selectKeyword :: "SelectType \<Rightarrow> string" where
  "selectKeyword t =
     (case t of
        SelectTypeDistinct \<Rightarrow> ''SELECT DISTINCT''
      | SelectTypeAll \<Rightarrow> ''SELECT ALL''
      | SelectTypeAsStruct \<Rightarrow> ''SELECT AS STRUCT''
      | SelectTypeAsValue \<Rightarrow> ''SELECT AS VALUE''
      | SelectTypeStandard \<Rightarrow> ''SELECT'')"

section \<open>Expressions, statements and FROM items\<close>

text \<open>
  In a list expression the code prints every element with \<open>String()\<close>, on a writer of its own
  whose line breaks are on exactly when the element has a subquery.
\<close>

primrec SQLExpression_WriteSql :: "SQLExpression \<Rightarrow> action"
  and SelectStatement_WriteSql :: "SelectStatement \<Rightarrow> action"
  and FromItem_WriteSql :: "FromItem \<Rightarrow> action"
where
  "SQLExpression_WriteSql (SQLExpression ty v le ue be fc sq ce ex al ta co) =
     seqA (
       [case ty of
          ExpressionTypeColumn \<Rightarrow>
            Write (if ta \<noteq> [] then quoteId ta @ ''.'' @ quoteId v else quoteId v)
        | ExpressionTypeLiteral \<Rightarrow> Write v
        | ExpressionTypeList \<Rightarrow>
            deref (map_option ListExpression_WriteSql (map_option (map_ListExpression
              (\<lambda>e. runString (eSubquery e \<noteq> None) (SQLExpression_WriteSql e))) le))
        | ExpressionTypeUnary \<Rightarrow>
            deref (map_option UnaryExpression_WriteSql
              (map_option (map_UnaryExpression SQLExpression_WriteSql) ue))
        | ExpressionTypeBinary \<Rightarrow>
            deref (map_option BinaryExpression_WriteSql
              (map_option (map_BinaryExpression SQLExpression_WriteSql) be))
        | ExpressionTypeFunction \<Rightarrow>
            seqA (whenSome (map_option (map_FunctionCall SQLExpression_WriteSql) fc)
              (\<lambda>f. [FunctionCall_WriteSql f]))
        | ExpressionTypeSubquery \<Rightarrow>
            seqA ([Write ''('']
              @ whenSome (map_option SelectStatement_WriteSql sq) (\<lambda>a. [a])
              @ [Write '')''])
        | ExpressionTypeStar \<Rightarrow> Write (if ta \<noteq> [] then ta @ ''.*'' else ''*'')
        | ExpressionTypeCase \<Rightarrow>
            seqA (whenSome (map_option (map_CaseExpression SQLExpression_WriteSql) ce)
              (\<lambda>c. [CaseExpression_WriteSql c]))
        | ExpressionTypeExists \<Rightarrow>
            seqA (whenSome (map_option (map_ExistsExpression SelectStatement_WriteSql) ex)
              (\<lambda>x. [ExistsExpression_WriteSql x]))
        | ExpressionTypeParameter \<Rightarrow> Write v
        | ExpressionTypeCast \<Rightarrow> seqA []]
       @ whenA (co \<noteq> []) ([Write ('' COLLATE '' @ co)])
       @ whenA (al \<noteq> [] \<and> \<not> (ty = ExpressionTypeColumn \<and> al = v)) [Write '' AS '', Write (quoteId al)])"
| "SelectStatement_WriteSql (SelectStatement wcs st sl ast avt fr wh gb hv ob lim so hints) =
     seqA (
       (whenA (wcs \<noteq> [])
          ([Write (if list_ex wcRecursive wcs then ''WITH RECURSIVE '' else ''WITH '')]
          @ sepA [Write '', '', WriteLine []]
              (map WithClause_WriteSql (map (map_WithClause SelectStatement_WriteSql) wcs))
          @ [WriteLine []]))
       @ (case map_option (map_SetOperation SelectStatement_WriteSql) so of
            Some s \<Rightarrow> [SetOperation_WriteSql s]
          | None \<Rightarrow>
              [Write (selectKeyword st)]
              @ whenA (ast \<noteq> []) [Write '' AS '', Write ast]
              @ whenA (sl \<noteq> [])
                   ([WriteLine [], Indent]
                   @ sepA [Write '','', WriteLine []]
                       (map SelectListItem_WriteSql
                         (map (map_SelectListItem (\<lambda>e. (e, SQLExpression_WriteSql e))) sl))
                   @ [Dedent])
              @ whenSome (map_option (\<lambda>f. (fType f, FromItem_WriteSql f)) fr) (\<lambda>(t, a).
                   whenA (t \<noteq> FromItemTypeSingleRow) [WriteLine [], Write ''FROM '', a]))
       @ whenSome (map_option SQLExpression_WriteSql wh) (\<lambda>a. [WriteLine [], Write ''WHERE '', a])
       @ whenA (gb \<noteq> [])
            ([WriteLine [], Write ''GROUP BY ''] @ sepA [Write '', ''] (map SQLExpression_WriteSql gb))
       @ whenSome (map_option SQLExpression_WriteSql hv) (\<lambda>a. [WriteLine [], Write ''HAVING '', a])
       @ whenA (ob \<noteq> [])
            ([WriteLine [], Write ''ORDER BY '']
            @ sepA [Write '', '']
                (map OrderByItem_WriteSql (map (map_OrderByItem SQLExpression_WriteSql) ob)))
       @ whenSome (map_option (map_LimitClause SQLExpression_WriteSql) lim) LimitClause_WriteSql)"
| "FromItem_WriteSql (FromItem ty tn al sq jn wr tf un hints) =
     (let alias = whenA (al \<noteq> []) [Write '' AS '', Write (quoteId al)] in
      seqA (case ty of
          FromItemTypeTable \<Rightarrow> [Write (quoteId tn)] @ alias
        | FromItemTypeSubquery \<Rightarrow>
            [Write (''('' @ [CHR 0x0A])]
            @ whenSome (map_option SelectStatement_WriteSql sq) (\<lambda>a. [Indent, a, Dedent])
            @ [Write ([CHR 0x0A] @ '')'')] @ alias
        | FromItemTypeJoin \<Rightarrow>
            whenSome (map_option (map_JoinClause FromItem_WriteSql SQLExpression_WriteSql) jn)
              (\<lambda>j. [JoinClause_WriteSql j])
        | FromItemTypeWithRef \<Rightarrow> [Write wr] @ alias
        | FromItemTypeTableFunction \<Rightarrow>
            whenSome (map_option (map_TableFunction SQLExpression_WriteSql) tf)
              (\<lambda>t. [TableFunction_WriteSql t]) @ alias
        | FromItemTypeUnnest \<Rightarrow>
            [Write ''UNNEST('']
            @ whenSome (map_option SQLExpression_WriteSql un) (\<lambda>a. [a])
            @ [Write '')''] @ alias
        | FromItemTypeSingleRow \<Rightarrow> []))"

definition SQLExpression_String :: "SQLExpression \<Rightarrow> string option" where
  "SQLExpression_String e = runString (eSubquery e \<noteq> None) (SQLExpression_WriteSql e)"

definition SelectStatement_String :: "SelectStatement \<Rightarrow> string option" where
  "SelectStatement_String s = map_option trimSpace (runString True (SelectStatement_WriteSql s))"

definition FromItem_String :: "FromItem \<Rightarrow> string option" where
  "FromItem_String f = runString True (FromItem_WriteSql f)"

end
