(* ===== verification/Sql_Writer_Props.thy ===== *)
theory Sql_Writer_Props
  imports Sql_Writer
begin

text \<open>
  What the writer guarantees, for every tree: an action only appends to the buffer, what it
  appends depends on the indentation and the line-break mode but not on the buffer, and the
  indentation it leaves is the one it found (\<open>appendOnly\<close>).
\<close>

named_theorems append_intros "closure rules of the append-only actions"

section \<open>Append-only actions\<close>

definition appendOnly :: "action \<Rightarrow> bool" where
  "appendOnly a \<longleftrightarrow>
     (\<forall>i nl. \<exists>r. \<forall>b. a \<lparr>builder = b, indentLevel = i, useNewlines = nl\<rparr> =
        map_option (\<lambda>t. \<lparr>builder = b @ t, indentLevel = i, useNewlines = nl\<rparr>) r)"

inductive scoped :: "action list \<Rightarrow> bool" where
  scoped_Nil: "scoped []"
| scoped_Cons: "appendOnly a \<Longrightarrow> scoped as \<Longrightarrow> scoped (a # as)"
| scoped_block: "scoped as \<Longrightarrow> scoped bs \<Longrightarrow> scoped (Indent # as @ Dedent # bs)"

lemmas scoped_intros = scoped_Nil scoped_Cons

lemma seqA_append: "seqA (as @ bs) w = Option.bind (seqA as w) (seqA bs)"
proof (induction as arbitrary: w)
  case Nil
  show ?case by simp
next
  case (Cons a as)
  show ?case by (cases "a w") (simp_all add: Cons.IH)
qed

lemma appendOnlyD:
  "appendOnly a \<Longrightarrow> \<exists>r. \<forall>b. a \<lparr>builder = b, indentLevel = i, useNewlines = nl\<rparr> =
        map_option (\<lambda>t. \<lparr>builder = b @ t, indentLevel = i, useNewlines = nl\<rparr>) r"
  unfolding appendOnly_def by blast

lemma appendOnlyI:
  assumes "\<And>i nl. \<exists>r. \<forall>b. a \<lparr>builder = b, indentLevel = i, useNewlines = nl\<rparr> =
        map_option (\<lambda>t. \<lparr>builder = b @ t, indentLevel = i, useNewlines = nl\<rparr>) r"
  shows "appendOnly a"
  using assms unfolding appendOnly_def by blast

lemma appendOnly_Write [append_intros]: "appendOnly (Write s)"
  by (rule appendOnlyI, rule exI [where x = "Some s"]) (simp add: Write_def)

lemma appendOnly_WriteLine [append_intros]: "appendOnly (WriteLine s)"
proof (rule appendOnlyI)
  fix i nl
  show "\<exists>r. \<forall>b. WriteLine s \<lparr>builder = b, indentLevel = i, useNewlines = nl\<rparr> =
        map_option (\<lambda>t. \<lparr>builder = b @ t, indentLevel = i, useNewlines = nl\<rparr>) r"
    by (rule exI [where x = "Some ((if nl then concat (replicate i ''  '') else [])
          @ s @ (if nl then [CHR 0x0A] else '' ''))"]) (simp add: WriteLine_def)
qed

lemma appendOnly_fail [append_intros]: "appendOnly (\<lambda>_. None)"
  by (rule appendOnlyI, rule exI [where x = None]) simp

lemma appendOnly_seqA_aux:
  assumes "scoped as"
  shows "\<exists>r. \<forall>b. seqA as \<lparr>builder = b, indentLevel = i, useNewlines = nl\<rparr> =
        map_option (\<lambda>t. \<lparr>builder = b @ t, indentLevel = i, useNewlines = nl\<rparr>) r"
  using assms
proof (induction arbitrary: i rule: scoped.induct)
  case scoped_Nil
  show ?case by (rule exI [where x = "Some []"]) simp
next
  case (scoped_Cons a as)
  obtain r where r: "\<And>b. a \<lparr>builder = b, indentLevel = i, useNewlines = nl\<rparr> =
        map_option (\<lambda>t. \<lparr>builder = b @ t, indentLevel = i, useNewlines = nl\<rparr>) r"
    using appendOnlyD [OF scoped_Cons.hyps(1)] by blast
  obtain q where q: "\<And>b. seqA as \<lparr>builder = b, indentLevel = i, useNewlines = nl\<rparr> =
        map_option (\<lambda>t. \<lparr>builder = b @ t, indentLevel = i, useNewlines = nl\<rparr>) q"
    using scoped_Cons.IH by metis
  show ?case
    by (rule exI [where x = "Option.bind r (\<lambda>t. map_option (\<lambda>u. t @ u) q)"])
      (cases r; cases q; simp add: r q)
next
  case (scoped_block as bs)
  obtain r where r: "\<And>b. seqA as \<lparr>builder = b, indentLevel = Suc i, useNewlines = nl\<rparr> =
        map_option (\<lambda>t. \<lparr>builder = b @ t, indentLevel = Suc i, useNewlines = nl\<rparr>) r"
    using scoped_block.IH(1) by metis
  obtain q where q: "\<And>b. seqA bs \<lparr>builder = b, indentLevel = i, useNewlines = nl\<rparr> =
        map_option (\<lambda>t. \<lparr>builder = b @ t, indentLevel = i, useNewlines = nl\<rparr>) q"
    using scoped_block.IH(2) by metis
  show ?case
    by (rule exI [where x = "Option.bind r (\<lambda>t. map_option (\<lambda>u. t @ u) q)"])
      (cases r; cases q; simp add: seqA_append Indent_def Dedent_def r q)
qed

lemma appendOnly_seqA [append_intros]: "scoped as \<Longrightarrow> appendOnly (seqA as)"
  by (rule appendOnlyI) (rule appendOnly_seqA_aux)

lemma scoped_append [append_intros]: "scoped as \<Longrightarrow> scoped bs \<Longrightarrow> scoped (as @ bs)"
  by (induction rule: scoped.induct) (auto intro: scoped.intros)

lemma scoped_all: "(\<And>a. a \<in> set as \<Longrightarrow> appendOnly a) \<Longrightarrow> scoped as"
  by (induction as) (auto intro: scoped.intros)

lemma scoped_sepA [append_intros]:
  "scoped sep \<Longrightarrow> (\<And>a. a \<in> set as \<Longrightarrow> appendOnly a) \<Longrightarrow> scoped (sepA sep as)"
  by (induction sep as rule: sepA.induct)
    (auto intro!: scoped_append scoped_Cons scoped_Nil)

lemma scoped_indented:
  "scoped as \<Longrightarrow> scoped ([Indent] @ as @ [Dedent])"
  using scoped_block [OF _ scoped_Nil] by simp

lemma appendOnly_deref [append_intros]:
  "(\<And>a. p = Some a \<Longrightarrow> appendOnly a) \<Longrightarrow> appendOnly (deref p)"
  by (cases p) (auto simp: deref_def appendOnly_fail)

lemma appendOnly_writeOpt [append_intros]: "appendOnly (writeOpt s)"
  by (cases s) (auto simp: writeOpt_def appendOnly_fail appendOnly_Write)

lemma scoped_whenA [append_intros]: "(b \<Longrightarrow> scoped as) \<Longrightarrow> scoped (whenA b as)"
  by (simp add: whenA_def scoped_Nil)

lemma scoped_whenSome [append_intros]:
  "(\<And>x. p = Some x \<Longrightarrow> scoped (f x)) \<Longrightarrow> scoped (whenSome p f)"
  by (cases p) (auto simp: whenSome_def intro: scoped_Nil)

section \<open>Every WriteSql is append-only\<close>

lemma append_ListExpression: "appendOnly (ListExpression_WriteSql e)"
  unfolding ListExpression_WriteSql_def by (auto intro!: append_intros scoped_intros)

lemma append_UnaryExpression:
  "(\<And>a. a \<in> set_UnaryExpression e \<Longrightarrow> appendOnly a) \<Longrightarrow> appendOnly (UnaryExpression_WriteSql e)"
  unfolding UnaryExpression_WriteSql_def by (cases e) (auto intro!: append_intros scoped_intros)

lemma append_BinaryExpression:
  "(\<And>a. a \<in> set_BinaryExpression e \<Longrightarrow> appendOnly a) \<Longrightarrow> appendOnly (BinaryExpression_WriteSql e)"
  unfolding BinaryExpression_WriteSql_def by (cases e) (auto intro!: append_intros scoped_intros)

lemma append_WhenClause:
  "(\<And>a. a \<in> set_WhenClause c \<Longrightarrow> appendOnly a) \<Longrightarrow> scoped (WhenClause_WriteSql c)"
  unfolding WhenClause_WriteSql_def by (cases c) (auto intro!: append_intros scoped_intros)

lemma scoped_concat: "(\<And>as. as \<in> set ass \<Longrightarrow> scoped as) \<Longrightarrow> scoped (concat ass)"
  by (induction ass) (auto intro: scoped_Nil scoped_append)

lemma append_CaseExpression:
  "(\<And>a. a \<in> set_CaseExpression e \<Longrightarrow> appendOnly a) \<Longrightarrow> appendOnly (CaseExpression_WriteSql e)"
  unfolding CaseExpression_WriteSql_def
  by (cases e, auto intro!: append_intros scoped_intros scoped_concat append_WhenClause; blast)

lemma append_ExistsExpression:
  "(\<And>a. a \<in> set_ExistsExpression e \<Longrightarrow> appendOnly a) \<Longrightarrow> appendOnly (ExistsExpression_WriteSql e)"
  unfolding ExistsExpression_WriteSql_def by (cases e) (auto intro!: append_intros scoped_intros)

lemma append_FrameBound [append_intros]:
  "(\<And>a. a \<in> set_FrameBound e \<Longrightarrow> appendOnly a) \<Longrightarrow> appendOnly (FrameBound_WriteSql e)"
  unfolding FrameBound_WriteSql_def by (cases e) (auto intro!: append_intros scoped_intros)

lemma append_FrameClause:
  "(\<And>a. a \<in> set_FrameClause e \<Longrightarrow> appendOnly a) \<Longrightarrow> appendOnly (FrameClause_WriteSql e)"
  unfolding FrameClause_WriteSql_def
  by (cases e) (auto intro!: append_intros scoped_intros split: option.splits)

lemma append_OrderByItem [append_intros]:
  "(\<And>a. a \<in> set_OrderByItem e \<Longrightarrow> appendOnly a) \<Longrightarrow> appendOnly (OrderByItem_WriteSql e)"
  unfolding OrderByItem_WriteSql_def by (cases e) (auto intro!: append_intros scoped_intros)

lemma append_WindowSpecification:
  "(\<And>a. a \<in> set_WindowSpecification e \<Longrightarrow> appendOnly a)
   \<Longrightarrow> appendOnly (WindowSpecification_WriteSql e)"
  unfolding WindowSpecification_WriteSql_def
  by (cases e, auto intro!: append_intros scoped_intros append_FrameClause; blast)

lemma append_FunctionCall:
  "(\<And>a. a \<in> set_FunctionCall e \<Longrightarrow> appendOnly a) \<Longrightarrow> appendOnly (FunctionCall_WriteSql e)"
  unfolding FunctionCall_WriteSql_def
  by (cases e) (auto intro!: append_intros scoped_intros append_WindowSpecification)

lemma append_SelectListItem:
  assumes "\<And>a. a \<in> set_SelectListItem e \<Longrightarrow> appendOnly (snd a)"
  shows "appendOnly (SelectListItem_WriteSql e)"
proof (cases e)
  case (SelectListItem x al star exc rep)
  have x: "x = Some y \<Longrightarrow> appendOnly (snd y)" for y
    using assms SelectListItem by simp
  have r: "(c, y, a) \<in> set rep \<Longrightarrow> appendOnly a" for c y a
    using assms [of "(y, a)"] SelectListItem by (force simp: snds.simps)
  show ?thesis
  proof (cases star)
    case True
    then show ?thesis
      unfolding SelectListItem_WriteSql_def SelectListItem
      using x r by (auto intro!: append_intros scoped_intros)
  next
    case False
    then show ?thesis
      unfolding SelectListItem_WriteSql_def SelectListItem
      using x by (auto intro!: append_intros scoped_intros split: option.split)
  qed
qed

lemma append_TableFunction:
  "(\<And>a. a \<in> set_TableFunction e \<Longrightarrow> appendOnly a) \<Longrightarrow> appendOnly (TableFunction_WriteSql e)"
  unfolding TableFunction_WriteSql_def by (cases e) (auto intro!: append_intros scoped_intros)

lemma append_JoinClause:
  "(\<And>a. a \<in> set1_JoinClause j \<Longrightarrow> appendOnly a) \<Longrightarrow> (\<And>a. a \<in> set2_JoinClause j \<Longrightarrow> appendOnly a)
   \<Longrightarrow> appendOnly (JoinClause_WriteSql j)"
  unfolding JoinClause_WriteSql_def by (cases j) (auto intro!: append_intros scoped_intros)

lemma append_WithClause:
  assumes "\<And>a. a \<in> set_WithClause w \<Longrightarrow> appendOnly a"
  shows "appendOnly (WithClause_WriteSql w)"
proof -
  have inner: "scoped (whenSome (wcQuery w) (\<lambda>a. [a]))"
    using assms by (cases w) (auto intro!: append_intros scoped_intros)
  have "scoped ([Indent] @ whenSome (wcQuery w) (\<lambda>a. [a]) @ [Dedent] @ [WriteLine '')''])"
    using scoped_block [OF inner, of "[WriteLine '')'']"]
    by (simp add: scoped_Cons scoped_Nil appendOnly_WriteLine)
  then show ?thesis
    unfolding WithClause_WriteSql_def
    by (auto intro!: append_intros scoped_intros)
qed

lemma append_SetOperation:
  "(\<And>a. a \<in> set_SetOperation e \<Longrightarrow> appendOnly a) \<Longrightarrow> appendOnly (SetOperation_WriteSql e)"
  unfolding SetOperation_WriteSql_def by (cases e) (auto intro!: append_intros scoped_intros)

lemma append_LimitClause:
  "(\<And>a. a \<in> set_LimitClause e \<Longrightarrow> appendOnly a) \<Longrightarrow> scoped (LimitClause_WriteSql e)"
  unfolding LimitClause_WriteSql_def by (cases e) (auto intro!: append_intros scoped_intros)

lemma append_SQLExpression_step:
  assumes "\<And>u x. ue = Some u \<Longrightarrow> x \<in> set_UnaryExpression u \<Longrightarrow> appendOnly (SQLExpression_WriteSql x)"
    and "\<And>u x. be = Some u \<Longrightarrow> x \<in> set_BinaryExpression u \<Longrightarrow> appendOnly (SQLExpression_WriteSql x)"
    and "\<And>u x. fc = Some u \<Longrightarrow> x \<in> set_FunctionCall u \<Longrightarrow> appendOnly (SQLExpression_WriteSql x)"
    and "\<And>x. sq = Some x \<Longrightarrow> appendOnly (SelectStatement_WriteSql x)"
    and "\<And>u x. ce = Some u \<Longrightarrow> x \<in> set_CaseExpression u \<Longrightarrow> appendOnly (SQLExpression_WriteSql x)"
    and "\<And>u x. ex = Some u \<Longrightarrow> x \<in> set_ExistsExpression u \<Longrightarrow> appendOnly (SelectStatement_WriteSql x)"
  shows "appendOnly (SQLExpression_WriteSql (SQLExpression ty v le ue be fc sq ce ex al ta co))"
proof -
  have "appendOnly (deref (map_option ListExpression_WriteSql (map_option (map_ListExpression
              (\<lambda>e. runString (eSubquery e \<noteq> None) (SQLExpression_WriteSql e))) le)))"
    by (auto intro!: append_intros append_ListExpression)
  moreover have "appendOnly (deref (map_option UnaryExpression_WriteSql
              (map_option (map_UnaryExpression SQLExpression_WriteSql) ue)))"
    using assms(1) by (auto intro!: append_intros append_UnaryExpression simp: UnaryExpression.set_map)
  moreover have "appendOnly (deref (map_option BinaryExpression_WriteSql
              (map_option (map_BinaryExpression SQLExpression_WriteSql) be)))"
    using assms(2) by (auto intro!: append_intros append_BinaryExpression simp: BinaryExpression.set_map)
  moreover have "scoped (whenSome (map_option (map_FunctionCall SQLExpression_WriteSql) fc)
              (\<lambda>f. [FunctionCall_WriteSql f]))"
    using assms(3) by (auto intro!: append_intros scoped_intros append_FunctionCall simp: FunctionCall.set_map)
  moreover have "scoped (Write ''('' # whenSome (map_option SelectStatement_WriteSql sq) (\<lambda>a. [a])
              @ [Write '')''])"
    using assms(4) by (auto intro!: append_intros scoped_intros)
  moreover have "scoped (whenSome (map_option (map_CaseExpression SQLExpression_WriteSql) ce)
              (\<lambda>c. [CaseExpression_WriteSql c]))"
    using assms(5) by (auto intro!: append_intros scoped_intros append_CaseExpression simp: CaseExpression.set_map)
  moreover have "scoped (whenSome (map_option (map_ExistsExpression SelectStatement_WriteSql) ex)
              (\<lambda>x. [ExistsExpression_WriteSql x]))"
    using assms(6) by (auto intro!: append_intros scoped_intros append_ExistsExpression simp: ExistsExpression.set_map)
  ultimately show ?thesis
    by (cases ty) (auto intro!: append_intros scoped_intros)
qed

lemma scoped_select_clause:
  assumes "\<And>x. p = Some x \<Longrightarrow> appendOnly (SQLExpression_WriteSql x)"
  shows "scoped (whenSome (map_option SQLExpression_WriteSql p) (\<lambda>a. [WriteLine [], Write k, a]))"
  using assms by (auto intro!: append_intros scoped_intros)

lemma scoped_select_list:
  assumes "\<And>i x. i \<in> set sl \<Longrightarrow> x \<in> set_SelectListItem i \<Longrightarrow> appendOnly (SQLExpression_WriteSql x)"
    and "scoped rest"
  shows "scoped (Indent # sepA [Write '','', WriteLine []]
      (map (SelectListItem_WriteSql \<circ> map_SelectListItem (\<lambda>e. (e, SQLExpression_WriteSql e))) sl)
       @ Dedent # rest)"
proof (rule scoped_block)
  show "scoped (sepA [Write '','', WriteLine []]
      (map (SelectListItem_WriteSql \<circ> map_SelectListItem (\<lambda>e. (e, SQLExpression_WriteSql e))) sl))"
    using assms(1)
    by (auto intro!: append_intros scoped_intros append_SelectListItem simp: SelectListItem.set_map)
qed (rule assms(2))

lemma append_SelectStatement_step:
  assumes "\<And>w x. w \<in> set wcs \<Longrightarrow> x \<in> set_WithClause w \<Longrightarrow> appendOnly (SelectStatement_WriteSql x)"
    and "\<And>i x. i \<in> set sl \<Longrightarrow> x \<in> set_SelectListItem i \<Longrightarrow> appendOnly (SQLExpression_WriteSql x)"
    and "\<And>x. fr = Some x \<Longrightarrow> appendOnly (FromItem_WriteSql x)"
    and "\<And>x. wh = Some x \<Longrightarrow> appendOnly (SQLExpression_WriteSql x)"
    and "\<And>x. x \<in> set gb \<Longrightarrow> appendOnly (SQLExpression_WriteSql x)"
    and "\<And>x. hv = Some x \<Longrightarrow> appendOnly (SQLExpression_WriteSql x)"
    and "\<And>o' x. o' \<in> set ob \<Longrightarrow> x \<in> set_OrderByItem o' \<Longrightarrow> appendOnly (SQLExpression_WriteSql x)"
    and "\<And>l x. lim = Some l \<Longrightarrow> x \<in> set_LimitClause l \<Longrightarrow> appendOnly (SQLExpression_WriteSql x)"
    and "\<And>s x. so = Some s \<Longrightarrow> x \<in> set_SetOperation s \<Longrightarrow> appendOnly (SelectStatement_WriteSql x)"
  shows "appendOnly (SelectStatement_WriteSql
      (SelectStatement wcs st sl ast avt fr wh gb hv ob lim so hints))"
proof -
  have w: "scoped (sepA [Write '', '', WriteLine []]
      (map WithClause_WriteSql (map (map_WithClause SelectStatement_WriteSql) wcs)))"
    using assms(1) by (auto intro!: append_intros scoped_intros append_WithClause simp: WithClause.set_map)
  have f: "scoped (whenSome (map_option (\<lambda>f. (fType f, FromItem_WriteSql f)) fr) (\<lambda>(t, a).
       whenA (t \<noteq> FromItemTypeSingleRow) [WriteLine [], Write ''FROM '', a]))"
    using assms(3) by (auto intro!: append_intros scoped_intros)
  have s: "map_option (map_SetOperation SelectStatement_WriteSql) so = Some x
      \<Longrightarrow> appendOnly (SetOperation_WriteSql x)" for x
    using assms(9) by (auto intro!: append_SetOperation simp: SetOperation.set_map)
  have o: "scoped (sepA [Write '', '']
      (map OrderByItem_WriteSql (map (map_OrderByItem SQLExpression_WriteSql) ob)))"
    using assms(7) by (auto intro!: append_intros scoped_intros simp: OrderByItem.set_map)
  have l: "scoped (whenSome (map_option (map_LimitClause SQLExpression_WriteSql) lim) LimitClause_WriteSql)"
    using assms(8) by (auto intro!: append_intros scoped_intros append_LimitClause simp: LimitClause.set_map)
  have g: "scoped (sepA [Write '', ''] (map SQLExpression_WriteSql gb))"
    using assms(5) by (auto intro!: append_intros scoped_intros)
  show ?thesis
    unfolding SelectStatement_WriteSql.simps
    apply (intro appendOnly_seqA scoped_append)
    using w f o l g s scoped_select_list [OF assms(2) scoped_Nil]
      scoped_select_clause [OF assms(4)] scoped_select_clause [OF assms(6)]
    by (simp_all add: scoped_append scoped_intros append_intros split: option.split)
qed

lemma append_FromItem_step:
  assumes "\<And>x. sq = Some x \<Longrightarrow> appendOnly (SelectStatement_WriteSql x)"
    and "\<And>j x. jn = Some j \<Longrightarrow> x \<in> set1_JoinClause j \<Longrightarrow> appendOnly (FromItem_WriteSql x)"
    and "\<And>j x. jn = Some j \<Longrightarrow> x \<in> set2_JoinClause j \<Longrightarrow> appendOnly (SQLExpression_WriteSql x)"
    and "\<And>t x. tf = Some t \<Longrightarrow> x \<in> set_TableFunction t \<Longrightarrow> appendOnly (SQLExpression_WriteSql x)"
    and "\<And>x. un = Some x \<Longrightarrow> appendOnly (SQLExpression_WriteSql x)"
  shows "appendOnly (FromItem_WriteSql (FromItem ty tn al sq jn wr tf un hints))"
proof -
  have "scoped (whenSome (map_option SelectStatement_WriteSql sq) (\<lambda>a. [Indent, a, Dedent]))"
    using assms(1) scoped_indented [OF scoped_Cons [OF _ scoped_Nil]]
    by (auto intro!: scoped_whenSome)
  moreover have "scoped (whenSome (map_option (map_JoinClause FromItem_WriteSql SQLExpression_WriteSql) jn)
              (\<lambda>j. [JoinClause_WriteSql j]))"
    using assms(2,3) by (auto intro!: append_intros scoped_intros append_JoinClause simp: JoinClause.set_map)
  moreover have "scoped (whenSome (map_option (map_TableFunction SQLExpression_WriteSql) tf)
              (\<lambda>t. [TableFunction_WriteSql t]))"
    using assms(4) by (auto intro!: append_intros scoped_intros append_TableFunction simp: TableFunction.set_map)
  moreover have "scoped (whenSome (map_option SQLExpression_WriteSql un) (\<lambda>a. [a]))"
    using assms(5) by (auto intro!: append_intros scoped_intros)
  ultimately show ?thesis
    unfolding FromItem_WriteSql.simps Let_def
    by (cases ty) (auto intro!: append_intros scoped_intros)
qed

lemma writers_append_only:
  "appendOnly (SQLExpression_WriteSql e)"
  "appendOnly (SelectStatement_WriteSql s)"
  "appendOnly (FromItem_WriteSql f)"
proof (induction e and s and f)
  case (SQLExpression ty v le ue be fc sq ce ex al ta co)
  then show ?case by (intro append_SQLExpression_step) auto
next
  case (SelectStatement wcs st sl ast avt fr wh gb hv ob lim so hints)
  then show ?case by (intro append_SelectStatement_step) auto
next
  case (FromItem ty tn al sq jn wr tf un hints)
  then show ?case by (intro append_FromItem_step) auto
qed

end
