(* ===== verification/Sql_Writer_Panics.thy ===== *)
theory Sql_Writer_Panics
  imports Sql_Writer
begin

text \<open>
  When the writer panics: whether an action fails does not depend on the writer's state
  (\<open>uniform\<close>), and the predicates \<open>printableExpr\<close>, \<open>printableSelect\<close> and \<open>printableFrom\<close> name
  the nil pointers that the \<open>WriteSql\<close> methods dereference.
\<close>

section \<open>When the writer panics\<close>

text \<open>
  \<open>a\<close> is decided by \<open>p\<close>: on every writer, it succeeds exactly when \<open>p\<close> holds.
\<close>

definition decided :: "bool \<Rightarrow> action \<Rightarrow> bool" where
  "decided p a \<longleftrightarrow> (\<forall>w. a w = None \<longleftrightarrow> \<not> p)"

definition runs :: "action \<Rightarrow> bool" where
  "runs a \<longleftrightarrow> a NewSQLWriter \<noteq> None"

definition uniform :: "action \<Rightarrow> bool" where
  "uniform a \<longleftrightarrow> decided (runs a) a"

lemma decided_uniform: "decided p a \<longleftrightarrow> uniform a \<and> (runs a \<longleftrightarrow> p)"
  unfolding decided_def uniform_def runs_def by metis

lemma uniform_None: "uniform a \<Longrightarrow> a w = None \<longleftrightarrow> \<not> runs a"
  by (auto simp: decided_def uniform_def)

lemma decided_basic:
  "decided True (Write s)" "decided True (WriteLine s)" "decided True Indent" "decided True Dedent"
  "decided False (\<lambda>_. None)"
  by (simp_all add: decided_def Write_def WriteLine_def Indent_def Dedent_def)

lemma runs_basic [simp]:
  "runs (Write s)" "runs (WriteLine s)" "runs Indent" "runs Dedent" "\<not> runs (\<lambda>_. None)"
  "uniform (Write s)" "uniform (WriteLine s)" "uniform Indent" "uniform Dedent" "uniform (\<lambda>_. None)"
  using decided_basic by (auto simp: decided_uniform)

lemma decided_seqA:
  "\<forall>a \<in> set as. uniform a \<Longrightarrow> decided (\<forall>a \<in> set as. runs a) (seqA as)"
proof (induction as)
  case Nil
  show ?case by (simp add: decided_def)
next
  case (Cons a as)
  then have IH: "seqA as v = None \<longleftrightarrow> \<not> (\<forall>a \<in> set as. runs a)" for v
    by (auto simp: decided_def)
  have "a w = None \<longleftrightarrow> \<not> runs a" for w
    using Cons.prems by (simp add: uniform_None)
  then have "seqA (a # as) w = None \<longleftrightarrow> \<not> (\<forall>a \<in> set (a # as). runs a)" for w
    using IH by (cases "a w") auto
  then show ?case by (simp add: decided_def)
qed

lemma uniform_seqA [simp]: "\<forall>a \<in> set as. uniform a \<Longrightarrow> uniform (seqA as)"
  using decided_seqA [of as] by (simp add: decided_uniform)

lemma runs_seqA [simp]: "\<forall>a \<in> set as. uniform a \<Longrightarrow> runs (seqA as) \<longleftrightarrow> (\<forall>a \<in> set as. runs a)"
  using decided_seqA [of as] by (simp add: decided_uniform)

lemma run_seqA:
  "\<forall>a \<in> set as. uniform a \<Longrightarrow> (\<forall>a \<in> set as. runs a) = p \<Longrightarrow> uniform (seqA as) \<and> runs (seqA as) = p"
  by simp

lemma ball_sepA [simp]:
  "\<forall>a \<in> set sep. Q a \<Longrightarrow> (\<forall>a \<in> set (sepA sep as). Q a) \<longleftrightarrow> (\<forall>a \<in> set as. Q a)"
  by (induction sep as rule: sepA.induct) auto

lemma runs_deref [simp]:
  "runs (deref p) \<longleftrightarrow> p \<noteq> None \<and> (\<forall>a \<in> set_option p. runs a)"
  by (cases p) (simp_all add: deref_def)

lemma uniform_deref [simp]: "uniform (deref p) \<longleftrightarrow> (\<forall>a \<in> set_option p. uniform a)"
  by (cases p) (simp_all add: deref_def)

lemma runs_writeOpt [simp]: "runs (writeOpt s) \<longleftrightarrow> s \<noteq> None"
  by (cases s) (simp_all add: writeOpt_def)

lemma uniform_writeOpt [simp]: "uniform (writeOpt s)"
  by (cases s) (simp_all add: writeOpt_def)

lemma ball_whenSome [simp]:
  "(\<forall>a \<in> set (whenSome p f). Q a) \<longleftrightarrow> (\<forall>x \<in> set_option p. \<forall>a \<in> set (f x). Q a)"
  by (cases p) (simp_all add: whenSome_def)

lemma ball_whenA [simp]:
  "(\<forall>a \<in> set (whenA b as). Q a) \<longleftrightarrow> (b \<longrightarrow> (\<forall>a \<in> set as. Q a))"
  by (cases b) (simp_all add: whenA_def)

lemma in_sepA [dest!]: "x \<in> set (sepA sep as) \<Longrightarrow> x \<in> set as \<or> x \<in> set sep"
  by (induction sep as rule: sepA.induct) auto

lemma runString_None: "uniform a \<Longrightarrow> runString nl a = None \<longleftrightarrow> \<not> runs a"
  by (simp add: runString_def uniform_None)

text \<open>
  The nil pointers a method dereferences: the predicates below say, for a struct whose parts
  have been replaced by whether they print, whether the struct prints.
\<close>

definition given :: "bool option \<Rightarrow> bool" where
  "given p \<longleftrightarrow> p = Some True"

definition okUnless :: "bool option \<Rightarrow> bool" where
  "okUnless p \<longleftrightarrow> p \<noteq> Some False"

lemma given_map [simp]: "given (map_option f x) \<longleftrightarrow> x \<noteq> None \<and> (\<forall>e \<in> set_option x. f e)"
  by (cases x) (auto simp: given_def)

lemma okUnless_simps [simp]: "okUnless None" "okUnless (Some b) = b"
  by (simp_all add: okUnless_def)

lemma okUnless_map [simp]: "okUnless (map_option f x) \<longleftrightarrow> (\<forall>e \<in> set_option x. f e)"
  by (cases x) (auto simp: okUnless_def)

definition okWhen :: "bool WhenClause \<Rightarrow> bool" where
  "okWhen c \<longleftrightarrow> given (wcCondition c) \<and> given (wcResult c)"

definition okCase :: "bool CaseExpression \<Rightarrow> bool" where
  "okCase c \<longleftrightarrow> okUnless (ceCaseExpr c) \<and> (\<forall>x \<in> set (ceWhenClauses c). okWhen x) \<and> okUnless (ceElseExpr c)"

definition okFrame :: "bool FrameClause \<Rightarrow> bool" where
  "okFrame f \<longleftrightarrow> given (map_option (\<lambda>b. okUnless (fbOffset b)) (fcStart f))
     \<and> okUnless (map_option (\<lambda>b. okUnless (fbOffset b)) (fcEnd f))"

definition okWindow :: "bool WindowSpecification \<Rightarrow> bool" where
  "okWindow w \<longleftrightarrow> (\<forall>b \<in> set (wsPartitionBy w). b) \<and> (\<forall>x \<in> set (wsOrderBy w). given (obExpression x))
     \<and> okUnless (map_option okFrame (wsFrameClause w))"

definition okCall :: "bool FunctionCall \<Rightarrow> bool" where
  "okCall f \<longleftrightarrow> (\<forall>b \<in> set (fnArguments f). b) \<and> okUnless (map_option okWindow (fnWindowSpec f))"

definition okItem :: "bool SelectListItem \<Rightarrow> bool" where
  "okItem s \<longleftrightarrow> given (slExpression s) \<and> (slIsStarExpansion s \<longrightarrow> (\<forall>b \<in> set (slReplaceColumns s). snd b))"

definition okJoin :: "(bool, bool) JoinClause \<Rightarrow> bool" where
  "okJoin j \<longleftrightarrow> okUnless (jcLeft j) \<and> okUnless (jcRight j)
     \<and> (jcType j \<noteq> JoinTypeCross \<and> jcUsing j = [] \<longrightarrow> okUnless (jcCondition j))"

primrec printableExpr :: "SQLExpression \<Rightarrow> bool"
  and printableSelect :: "SelectStatement \<Rightarrow> bool"
  and printableFrom :: "FromItem \<Rightarrow> bool"
where
  "printableExpr (SQLExpression ty v le ue be fc sq ce ex al ta co) =
     (case ty of
        ExpressionTypeList \<Rightarrow>
          given (map_option (\<lambda>l. \<forall>b \<in> set (leExpressions l). b) (map_option (map_ListExpression printableExpr) le))
      | ExpressionTypeUnary \<Rightarrow>
          given (map_option (\<lambda>u. given (ueExpression u)) (map_option (map_UnaryExpression printableExpr) ue))
      | ExpressionTypeBinary \<Rightarrow>
          given (map_option (\<lambda>b. okUnless (beLeft b) \<and> okUnless (beRight b))
            (map_option (map_BinaryExpression printableExpr) be))
      | ExpressionTypeFunction \<Rightarrow> okUnless (map_option okCall (map_option (map_FunctionCall printableExpr) fc))
      | ExpressionTypeSubquery \<Rightarrow> okUnless (map_option printableSelect sq)
      | ExpressionTypeCase \<Rightarrow> okUnless (map_option okCase (map_option (map_CaseExpression printableExpr) ce))
      | ExpressionTypeExists \<Rightarrow>
          okUnless (map_option (\<lambda>x. okUnless (exSubquery x)) (map_option (map_ExistsExpression printableSelect) ex))
      | _ \<Rightarrow> True)"
| "printableSelect (SelectStatement wcs st sl ast avt fr wh gb hv ob lim so hints) =
     ((\<forall>w \<in> set (map (map_WithClause printableSelect) wcs). okUnless (wcQuery w))
    \<and> (case map_option (map_SetOperation printableSelect) so of
         Some s \<Rightarrow> \<forall>b \<in> set (soItems s). b
       | None \<Rightarrow>
           (\<forall>i \<in> set (map (map_SelectListItem printableExpr) sl). okItem i)
         \<and> (case map_option (\<lambda>f. (fType f, printableFrom f)) fr of
              None \<Rightarrow> True | Some (t, b) \<Rightarrow> (t \<noteq> FromItemTypeSingleRow \<longrightarrow> b)))
    \<and> okUnless (map_option printableExpr wh)
    \<and> (\<forall>b \<in> set (map printableExpr gb). b)
    \<and> okUnless (map_option printableExpr hv)
    \<and> (\<forall>x \<in> set (map (map_OrderByItem printableExpr) ob). given (obExpression x))
    \<and> (case map_option (map_LimitClause printableExpr) lim of
         None \<Rightarrow> True | Some l \<Rightarrow> given (lcCount l) \<and> okUnless (lcOffset l)))"
| "printableFrom (FromItem ty tn al sq jn wr tf un hints) =
     (case ty of
        FromItemTypeSubquery \<Rightarrow> okUnless (map_option printableSelect sq)
      | FromItemTypeJoin \<Rightarrow>
          okUnless (map_option okJoin (map_option (map_JoinClause printableFrom printableExpr) jn))
      | FromItemTypeTableFunction \<Rightarrow>
          okUnless (map_option (\<lambda>t. \<forall>b \<in> set (tfArguments t). b) (map_option (map_TableFunction printableExpr) tf))
      | FromItemTypeUnnest \<Rightarrow> okUnless (map_option printableExpr un)
      | _ \<Rightarrow> True)"


text \<open>The methods of the structs, for parts \<open>x\<close> whose actions \<open>a x\<close> are uniform.\<close>

lemma run_ListExpression [simp]:
  "\<forall>e \<in> set_ListExpression l. uniform (a e) \<Longrightarrow>
   uniform (ListExpression_WriteSql (map_ListExpression (\<lambda>e. runString (nl e) (a e)) l)) \<and>
   runs (ListExpression_WriteSql (map_ListExpression (\<lambda>e. runString (nl e) (a e)) l))
     = (\<forall>b \<in> set (leExpressions (map_ListExpression (\<lambda>e. runs (a e)) l)). b)"
  by (cases l) (simp add: ListExpression_WriteSql_def runString_None)

lemma run_UnaryExpression [simp]:
  "\<forall>e \<in> set_UnaryExpression u. uniform (a e) \<Longrightarrow>
   uniform (UnaryExpression_WriteSql (map_UnaryExpression a u)) \<and>
   runs (UnaryExpression_WriteSql (map_UnaryExpression a u))
     = given (ueExpression (map_UnaryExpression (\<lambda>e. runs (a e)) u))"
  unfolding UnaryExpression_WriteSql_def
  by (rule run_seqA; cases u; auto simp: ball_Un comp_def option.set_map)

lemma run_BinaryExpression [simp]:
  "\<forall>e \<in> set_BinaryExpression u. uniform (a e) \<Longrightarrow>
   uniform (BinaryExpression_WriteSql (map_BinaryExpression a u)) \<and>
   runs (BinaryExpression_WriteSql (map_BinaryExpression a u))
     = (let b = map_BinaryExpression (\<lambda>e. runs (a e)) u in okUnless (beLeft b) \<and> okUnless (beRight b))"
  unfolding BinaryExpression_WriteSql_def Let_def
  by (rule run_seqA; cases u; auto simp: ball_Un comp_def option.set_map)

lemma run_WhenClause [simp]:
  "\<forall>e \<in> set_WhenClause u. uniform (a e) \<Longrightarrow>
   ((\<forall>x \<in> set (WhenClause_WriteSql (map_WhenClause a u)). uniform x) = True) \<and>
   (\<forall>x \<in> set (WhenClause_WriteSql (map_WhenClause a u)). runs x)
     = okWhen (map_WhenClause (\<lambda>e. runs (a e)) u)"
  by (cases u) (auto simp: WhenClause_WriteSql_def okWhen_def)

lemma run_CaseExpression [simp]:
  "\<forall>e \<in> set_CaseExpression u. uniform (a e) \<Longrightarrow>
   uniform (CaseExpression_WriteSql (map_CaseExpression a u)) \<and>
   runs (CaseExpression_WriteSql (map_CaseExpression a u))
     = okCase (map_CaseExpression (\<lambda>e. runs (a e)) u)"
  unfolding CaseExpression_WriteSql_def okCase_def
  by (intro run_seqA; cases u; auto simp: ball_Un comp_def option.set_map)

lemma run_ExistsExpression [simp]:
  "\<forall>e \<in> set_ExistsExpression u. uniform (a e) \<Longrightarrow>
   uniform (ExistsExpression_WriteSql (map_ExistsExpression a u)) \<and>
   runs (ExistsExpression_WriteSql (map_ExistsExpression a u))
     = okUnless (exSubquery (map_ExistsExpression (\<lambda>e. runs (a e)) u))"
  unfolding ExistsExpression_WriteSql_def
  by (rule run_seqA; cases u; auto simp: ball_Un comp_def option.set_map)

lemma run_FrameBound [simp]:
  "\<forall>e \<in> set_FrameBound u. uniform (a e) \<Longrightarrow>
   uniform (FrameBound_WriteSql (map_FrameBound a u)) \<and>
   runs (FrameBound_WriteSql (map_FrameBound a u))
     = okUnless (fbOffset (map_FrameBound (\<lambda>e. runs (a e)) u))"
  unfolding FrameBound_WriteSql_def
  by (rule run_seqA; cases u; auto simp: ball_Un comp_def option.set_map)

lemma run_FrameClause [simp]:
  "\<forall>e \<in> set_FrameClause u. uniform (a e) \<Longrightarrow>
   uniform (FrameClause_WriteSql (map_FrameClause a u)) \<and>
   runs (FrameClause_WriteSql (map_FrameClause a u))
     = okFrame (map_FrameClause (\<lambda>e. runs (a e)) u)"
  unfolding FrameClause_WriteSql_def okFrame_def
  by (intro run_seqA; cases u; cases "fcEnd u"; auto simp: ball_Un comp_def option.set_map)

lemma run_OrderByItem [simp]:
  "\<forall>e \<in> set_OrderByItem u. uniform (a e) \<Longrightarrow>
   uniform (OrderByItem_WriteSql (map_OrderByItem a u)) \<and>
   runs (OrderByItem_WriteSql (map_OrderByItem a u))
     = given (obExpression (map_OrderByItem (\<lambda>e. runs (a e)) u))"
  unfolding OrderByItem_WriteSql_def
  by (rule run_seqA; cases u; auto simp: ball_Un comp_def option.set_map)

lemma run_WindowSpecification [simp]:
  "\<forall>e \<in> set_WindowSpecification u. uniform (a e) \<Longrightarrow>
   uniform (WindowSpecification_WriteSql (map_WindowSpecification a u)) \<and>
   runs (WindowSpecification_WriteSql (map_WindowSpecification a u))
     = okWindow (map_WindowSpecification (\<lambda>e. runs (a e)) u)"
  apply (cases u) subgoal for ps os fr
    by (cases "ps = []"; cases "os = []"; simp add: WindowSpecification_WriteSql_def okWindow_def ball_Un comp_def option.set_map)
  done

lemma run_FunctionCall [simp]:
  "\<forall>e \<in> set_FunctionCall u. uniform (a e) \<Longrightarrow>
   uniform (FunctionCall_WriteSql (map_FunctionCall a u)) \<and>
   runs (FunctionCall_WriteSql (map_FunctionCall a u))
     = okCall (map_FunctionCall (\<lambda>e. runs (a e)) u)"
  by (cases u) (simp add: FunctionCall_WriteSql_def okCall_def ball_Un comp_def option.set_map)



lemma snds_snd: "Basic_BNFs.snds p = {snd p}"
  by (cases p) simp

lemmas run_simps = ball_Un comp_def option.set_map snds_snd

lemma run_SelectListItem [simp]:
  "\<forall>e \<in> set_SelectListItem u. uniform (a e) \<Longrightarrow>
   uniform (SelectListItem_WriteSql (map_SelectListItem (\<lambda>e. (e, a e)) u)) \<and>
   runs (SelectListItem_WriteSql (map_SelectListItem (\<lambda>e. (e, a e)) u))
     = okItem (map_SelectListItem (\<lambda>e. runs (a e)) u)"
  apply (cases u) subgoal for e al star exc rep
    by (cases e; cases star; cases "exc = []"; cases "rep = []";
        simp add: SelectListItem_WriteSql_def okItem_def run_simps given_def split_beta)
  done

lemma run_TableFunction [simp]:
  "\<forall>e \<in> set_TableFunction u. uniform (a e) \<Longrightarrow>
   uniform (TableFunction_WriteSql (map_TableFunction a u)) \<and>
   runs (TableFunction_WriteSql (map_TableFunction a u))
     = (\<forall>b \<in> set (tfArguments (map_TableFunction (\<lambda>e. runs (a e)) u)). b)"
  by (cases u) (simp add: TableFunction_WriteSql_def run_simps)

lemma run_JoinClause [simp]:
  "\<forall>f \<in> set1_JoinClause u. uniform (b f) \<Longrightarrow> \<forall>e \<in> set2_JoinClause u. uniform (a e) \<Longrightarrow>
   uniform (JoinClause_WriteSql (map_JoinClause b a u)) \<and>
   runs (JoinClause_WriteSql (map_JoinClause b a u))
     = okJoin (map_JoinClause (\<lambda>f. runs (b f)) (\<lambda>e. runs (a e)) u)"
  apply (cases u) subgoal for t l r c us
    by (cases "t = JoinTypeCross"; cases "us = []";
        simp add: JoinClause_WriteSql_def okJoin_def run_simps)
  done

lemma run_WithClause [simp]:
  "\<forall>e \<in> set_WithClause u. uniform (a e) \<Longrightarrow>
   uniform (WithClause_WriteSql (map_WithClause a u)) \<and>
   runs (WithClause_WriteSql (map_WithClause a u))
     = okUnless (wcQuery (map_WithClause (\<lambda>e. runs (a e)) u))"
  apply (cases u) subgoal for n m r cs q
    by (cases "cs = []"; simp add: WithClause_WriteSql_def run_simps)
  done

lemma run_SetOperation [simp]:
  "\<forall>e \<in> set_SetOperation u. uniform (a e) \<Longrightarrow>
   uniform (SetOperation_WriteSql (map_SetOperation a u)) \<and>
   runs (SetOperation_WriteSql (map_SetOperation a u))
     = (\<forall>b \<in> set (soItems (map_SetOperation (\<lambda>e. runs (a e)) u)). b)"
  apply (cases u) subgoal for t m
    by (cases "m = []"; simp add: SetOperation_WriteSql_def run_simps)
  done

lemma run_LimitClause [simp]:
  "\<forall>e \<in> set_LimitClause u. uniform (a e) \<Longrightarrow>
   ((\<forall>x \<in> set (LimitClause_WriteSql (map_LimitClause a u)). uniform x) = True) \<and>
   (\<forall>x \<in> set (LimitClause_WriteSql (map_LimitClause a u)). runs x)
     = (let l = map_LimitClause (\<lambda>e. runs (a e)) u in given (lcCount l) \<and> okUnless (lcOffset l))"
  by (cases u) (simp add: LimitClause_WriteSql_def run_simps)

lemma uniform_SQLExpression_step:
  assumes "\<forall>l \<in> set_option le. \<forall>e \<in> set_ListExpression l. uniform (SQLExpression_WriteSql e)"
    "\<forall>l \<in> set_option ue. \<forall>e \<in> set_UnaryExpression l. uniform (SQLExpression_WriteSql e)"
    "\<forall>l \<in> set_option be. \<forall>e \<in> set_BinaryExpression l. uniform (SQLExpression_WriteSql e)"
    "\<forall>l \<in> set_option fc. \<forall>e \<in> set_FunctionCall l. uniform (SQLExpression_WriteSql e)"
    "\<forall>s \<in> set_option sq. uniform (SelectStatement_WriteSql s)"
    "\<forall>l \<in> set_option ce. \<forall>e \<in> set_CaseExpression l. uniform (SQLExpression_WriteSql e)"
    "\<forall>l \<in> set_option ex. \<forall>s \<in> set_ExistsExpression l. uniform (SelectStatement_WriteSql s)"
  shows "uniform (SQLExpression_WriteSql (SQLExpression ty v le ue be fc sq ce ex al ta co))"
  using assms by (cases ty) (simp_all add: run_simps option.map_comp)

lemma uniform_SelectStatement_step:
  assumes "\<forall>w \<in> set wcs. \<forall>s \<in> set_WithClause w. uniform (SelectStatement_WriteSql s)"
    "\<forall>i \<in> set sl. \<forall>e \<in> set_SelectListItem i. uniform (SQLExpression_WriteSql e)"
    "\<forall>f \<in> set_option fr. uniform (FromItem_WriteSql f)"
    "\<forall>e \<in> set_option wh. uniform (SQLExpression_WriteSql e)"
    "\<forall>e \<in> set gb. uniform (SQLExpression_WriteSql e)"
    "\<forall>e \<in> set_option hv. uniform (SQLExpression_WriteSql e)"
    "\<forall>i \<in> set ob. \<forall>e \<in> set_OrderByItem i. uniform (SQLExpression_WriteSql e)"
    "\<forall>l \<in> set_option lim. \<forall>e \<in> set_LimitClause l. uniform (SQLExpression_WriteSql e)"
    "\<forall>l \<in> set_option so. \<forall>s \<in> set_SetOperation l. uniform (SelectStatement_WriteSql s)"
  shows "uniform (SelectStatement_WriteSql (SelectStatement wcs st sl ast avt fr wh gb hv ob lim so hints))"
  using assms by (cases so; cases fr) (simp_all add: run_simps)

lemma uniform_FromItem_step:
  assumes "\<forall>s \<in> set_option sq. uniform (SelectStatement_WriteSql s)"
    "\<forall>l \<in> set_option jn. \<forall>f \<in> set1_JoinClause l. uniform (FromItem_WriteSql f)"
    "\<forall>l \<in> set_option jn. \<forall>e \<in> set2_JoinClause l. uniform (SQLExpression_WriteSql e)"
    "\<forall>l \<in> set_option tf. \<forall>e \<in> set_TableFunction l. uniform (SQLExpression_WriteSql e)"
    "\<forall>e \<in> set_option un. uniform (SQLExpression_WriteSql e)"
  shows "uniform (FromItem_WriteSql (FromItem ty tn al sq jn wr tf un hints))"
  using assms by (cases ty) (simp_all add: run_simps Let_def)

lemma writers_uniform [simp]:
  "uniform (SQLExpression_WriteSql e)"
  "uniform (SelectStatement_WriteSql s)"
  "uniform (FromItem_WriteSql f)"
proof (induction e and s and f)
  case (SQLExpression ty v le ue be fc sq ce ex al ta co)
  then show ?case by (intro uniform_SQLExpression_step) auto
next
  case (SelectStatement wcs st sl ast avt fr wh gb hv ob lim so hints)
  then show ?case by (intro uniform_SelectStatement_step) auto
next
  case (FromItem ty tn al sq jn wr tf un hints)
  then show ?case by (intro uniform_FromItem_step) auto
qed


abbreviation "rE \<equiv> (\<lambda>e. runs (SQLExpression_WriteSql e))"
abbreviation "rS \<equiv> (\<lambda>s. runs (SelectStatement_WriteSql s))"
abbreviation "rF \<equiv> (\<lambda>f. runs (FromItem_WriteSql f))"

lemma ball_nonempty [simp]: "(xs \<noteq> [] \<longrightarrow> (\<forall>x \<in> set xs. P x)) \<longleftrightarrow> (\<forall>x \<in> set xs. P x)"
  by (cases xs) simp_all

lemma runs_SQLExpression_step:
  assumes "map_option (map_ListExpression printableExpr) le = map_option (map_ListExpression rE) le"
    "map_option (map_UnaryExpression printableExpr) ue = map_option (map_UnaryExpression rE) ue"
    "map_option (map_BinaryExpression printableExpr) be = map_option (map_BinaryExpression rE) be"
    "map_option (map_FunctionCall printableExpr) fc = map_option (map_FunctionCall rE) fc"
    "map_option printableSelect sq = map_option rS sq"
    "map_option (map_CaseExpression printableExpr) ce = map_option (map_CaseExpression rE) ce"
    "map_option (map_ExistsExpression printableSelect) ex = map_option (map_ExistsExpression rS) ex"
  shows "runs (SQLExpression_WriteSql (SQLExpression ty v le ue be fc sq ce ex al ta co))
    \<longleftrightarrow> printableExpr (SQLExpression ty v le ue be fc sq ce ex al ta co)"
  unfolding printableExpr.simps assms
  by (cases ty) (simp_all add: run_simps option.map_comp Let_def)

lemma runs_SelectStatement_step:
  assumes "map (map_WithClause printableSelect) wcs = map (map_WithClause rS) wcs"
    "map (map_SelectListItem printableExpr) sl = map (map_SelectListItem rE) sl"
    "map_option (\<lambda>f. (fType f, printableFrom f)) fr = map_option (\<lambda>f. (fType f, rF f)) fr"
    "map_option printableExpr wh = map_option rE wh"
    "map printableExpr gb = map rE gb"
    "map_option printableExpr hv = map_option rE hv"
    "map (map_OrderByItem printableExpr) ob = map (map_OrderByItem rE) ob"
    "map_option (map_LimitClause printableExpr) lim = map_option (map_LimitClause rE) lim"
    "map_option (map_SetOperation printableSelect) so = map_option (map_SetOperation rS) so"
  shows "runs (SelectStatement_WriteSql (SelectStatement wcs st sl ast avt fr wh gb hv ob lim so hints))
    \<longleftrightarrow> printableSelect (SelectStatement wcs st sl ast avt fr wh gb hv ob lim so hints)"
  unfolding printableSelect.simps assms
  by (cases so; cases fr; cases lim) (simp_all add: run_simps Let_def conj_ac)

lemma runs_FromItem_step:
  assumes "map_option printableSelect sq = map_option rS sq"
    "map_option (map_JoinClause printableFrom printableExpr) jn = map_option (map_JoinClause rF rE) jn"
    "map_option (map_TableFunction printableExpr) tf = map_option (map_TableFunction rE) tf"
    "map_option printableExpr un = map_option rE un"
  shows "runs (FromItem_WriteSql (FromItem ty tn al sq jn wr tf un hints))
    \<longleftrightarrow> printableFrom (FromItem ty tn al sq jn wr tf un hints)"
  unfolding printableFrom.simps assms
  by (cases ty) (simp_all add: run_simps Let_def)

lemma writers_run [simp]:
  "runs (SQLExpression_WriteSql e) \<longleftrightarrow> printableExpr e"
  "runs (SelectStatement_WriteSql s) \<longleftrightarrow> printableSelect s"
  "runs (FromItem_WriteSql f) \<longleftrightarrow> printableFrom f"
proof (induction e and s and f)
  case (SQLExpression ty v le ue be fc sq ce ex al ta co)
  show ?case
    by (intro runs_SQLExpression_step option.map_cong0 ListExpression.map_cong0
        UnaryExpression.map_cong0 BinaryExpression.map_cong0 FunctionCall.map_cong0
        CaseExpression.map_cong0 ExistsExpression.map_cong0 SQLExpression.IH [symmetric])
next
  case (SelectStatement wcs st sl ast avt fr wh gb hv ob lim so hints)
  show ?case
    by (rule runs_SelectStatement_step;
        intro option.map_cong0 list.map_cong0 WithClause.map_cong0 SelectListItem.map_cong0
          OrderByItem.map_cong0 LimitClause.map_cong0 SetOperation.map_cong0;
        simp add: SelectStatement.IH)
next
  case (FromItem ty tn al sq jn wr tf un hints)
  show ?case
    by (intro runs_FromItem_step option.map_cong0 JoinClause.map_cong0 TableFunction.map_cong0
        FromItem.IH [symmetric])
qed

end
