(* ===== verification/Sql_Statements.thy ===== *)
theory Sql_Statements
  imports Sql_Writer_Props Sql_Writer_Panics
begin

text \<open>
  The statements other than SELECT of \<open>internal/sqlbuilder_sqlbuilder.go\<close>: CREATE TABLE, VIEW
  and FUNCTION, DROP, TRUNCATE, DELETE, INSERT, UPDATE and the compound fragment.

  The interface \<open>SQLFragment\<close> is the record of its two methods and of the result of the one
  type assertion the code makes on it, \<open>.(*SelectStatement)\<close>; a nil interface value is \<open>None\<close>. \<open>fragment_of_select\<close> and its siblings are the implicit conversions of a pointer to
  an interface value.
\<close>

record SQLFragment =
  frag_WriteSql :: action
  frag_String :: "string option"
  frag_asSelect :: "SelectStatement option"

definition fragment_of_select :: "SelectStatement \<Rightarrow> SQLFragment" where
  "fragment_of_select s =
     \<lparr>frag_WriteSql = SelectStatement_WriteSql s, frag_String = SelectStatement_String s,
      frag_asSelect = Some s\<rparr>"

definition fragment_of_expression :: "SQLExpression \<Rightarrow> SQLFragment" where
  "fragment_of_expression e =
     \<lparr>frag_WriteSql = SQLExpression_WriteSql e, frag_String = SQLExpression_String e,
      frag_asSelect = None\<rparr>"

definition fragment_of_from :: "FromItem \<Rightarrow> SQLFragment" where
  "fragment_of_from f =
     \<lparr>frag_WriteSql = FromItem_WriteSql f, frag_String = FromItem_String f,
      frag_asSelect = None\<rparr>"

text \<open>\<open>strings.TrimSpace(writer.String())\<close> after writing on a fresh writer.\<close>

definition trimmedString :: "action \<Rightarrow> string option" where
  "trimmedString a = map_option trimSpace (runString True a)"

section \<open>Data definition\<close>

record ColumnDefinition =
  cdName :: string
  cdType :: string
  cdNotNull :: bool
  cdDefaultValue :: "SQLExpression option"
  cdIsPrimaryKey :: bool

record CreateTableStatement =
  ctIfNotExists :: bool
  ctTableName :: string
  ctColumns :: "ColumnDefinition list"
  ctAsSelect :: "SelectStatement option"

record CreateViewStatement =
  cvIfNotExists :: bool
  cvViewName :: string
  cvQuery :: "SQLFragment option"

record ParameterDefinition =
  pdName :: string
  pdType :: string

record CreateFunctionStatement =
  cfIfNotExists :: bool
  cfFunctionName :: string
  cfParameters :: "ParameterDefinition list"
  cfReturnType :: string
  cfLanguage :: string
  cfCode :: string
  cfOptions :: "string \<Rightarrow> SQLExpression option"

record DropStatement =
  dsIfExists :: bool
  dsObjectType :: string
  dsObjectName :: string

record TruncateStatement =
  tsTableName :: string

definition ColumnDefinition_WriteSql :: "ColumnDefinition \<Rightarrow> action" where
  "ColumnDefinition_WriteSql c =
     seqA ([Write (quoteId (cdName c)), Write '' '', Write (cdType c)]
       @ whenA (cdNotNull c) [Write '' NOT NULL'']
       @ whenA (cdIsPrimaryKey c) [Write '' PRIMARY KEY'']
       @ whenSome (cdDefaultValue c) (\<lambda>e. [Write '' DEFAULT '', SQLExpression_WriteSql e]))"

definition CreateTableStatement_WriteSql :: "CreateTableStatement \<Rightarrow> action" where
  "CreateTableStatement_WriteSql s =
     seqA ([Write ''CREATE TABLE'']
       @ whenA (ctIfNotExists s) [Write '' IF NOT EXISTS'']
       @ [Write '' '', Write (quoteId (ctTableName s))]
       @ (case ctAsSelect s of
            Some q \<Rightarrow> [Write '' AS '', SelectStatement_WriteSql q]
          | None \<Rightarrow>
              [Write '' ('', WriteLine [], Indent]
              @ sepA [Write '','', WriteLine []] (map ColumnDefinition_WriteSql (ctColumns s))
              @ [Dedent, WriteLine [], Write '')'']))"

definition CreateViewStatement_WriteSql :: "CreateViewStatement \<Rightarrow> action" where
  "CreateViewStatement_WriteSql s =
     seqA ([Write ''CREATE VIEW'']
       @ whenA (cvIfNotExists s) [Write '' IF NOT EXISTS'']
       @ [Write ('' '' @ quoteId (cvViewName s) @ '' AS ''),
          deref (map_option frag_WriteSql (cvQuery s))])"

definition ParameterDefinition_WriteSql :: "ParameterDefinition \<Rightarrow> action" where
  "ParameterDefinition_WriteSql p =
     seqA [Write (quoteId (pdName p)), Write '' '', Write (pdType p)]"

definition CreateFunctionStatement_WriteSql :: "CreateFunctionStatement \<Rightarrow> action" where
  "CreateFunctionStatement_WriteSql s =
     seqA ([Write ''CREATE FUNCTION'']
       @ whenA (cfIfNotExists s) [Write '' IF NOT EXISTS'']
       @ [Write '' '', Write (quoteId (cfFunctionName s)), Write ''('']
       @ sepA [Write '', ''] (map ParameterDefinition_WriteSql (cfParameters s))
       @ [Write '')'']
       @ whenA (cfReturnType s \<noteq> []) [Write '' RETURNS '', Write (cfReturnType s)]
       @ whenA (cfLanguage s \<noteq> []) [Write '' LANGUAGE '', Write (cfLanguage s)]
       @ whenA (cfCode s \<noteq> []) [Write '' AS '', Write (cfCode s)])"

definition DropStatement_WriteSql :: "DropStatement \<Rightarrow> action" where
  "DropStatement_WriteSql s =
     seqA ([Write ''DROP '', Write (dsObjectType s)]
       @ whenA (dsIfExists s) [Write '' IF EXISTS'']
       @ [Write '' '', Write (quoteId (dsObjectName s))])"

definition TruncateStatement_WriteSql :: "TruncateStatement \<Rightarrow> action" where
  "TruncateStatement_WriteSql s =
     seqA [Write ''TRUNCATE TABLE '', Write (quoteId (tsTableName s))]"

section \<open>Data manipulation\<close>

record SetItem =
  siColumn :: "SQLExpression option"
  siValue :: "SQLExpression option"

record DeleteStatement =
  deTable :: "SQLFragment option"
  deWhereExpr :: "SQLFragment option"

record InsertStatement =
  inTableName :: string
  inColumns :: "string list"
  inQuery :: "SelectStatement option"
  inRows :: "SQLFragment list"

record UpdateStatement =
  upTable :: "FromItem option"
  upSetItems :: "SetItem list"
  upFromClause :: "FromItem option"
  upWhereClause :: "SQLExpression option"

definition SetItem_WriteSql :: "SetItem \<Rightarrow> action" where
  "SetItem_WriteSql s =
     seqA [deref (map_option SQLExpression_WriteSql (siColumn s)), Write '' = '',
           deref (map_option SQLExpression_WriteSql (siValue s))]"

definition DeleteStatement_WriteSql :: "DeleteStatement \<Rightarrow> action" where
  "DeleteStatement_WriteSql d =
     seqA ([Write ''DELETE FROM '', deref (map_option frag_WriteSql (deTable d))]
       @ whenSome (deWhereExpr d) (\<lambda>e. [Write '' WHERE '', writeOpt (frag_String e)]))"

text \<open>The loop over the rows, with the index test of the code; \<open>n\<close> is \<open>len(d.Rows)\<close>.\<close>

definition insertRow_WriteSql :: "nat \<Rightarrow> nat \<Rightarrow> SQLFragment \<Rightarrow> action list" where
  "insertRow_WriteSql n i value =
     [writeOpt (map_option (\<lambda>t. ''('' @ t @ '')'') (frag_String value))]
     @ whenA (n \<noteq> 1 \<and> i \<noteq> n - 1) [Write '','']"

definition InsertStatement_WriteSql :: "InsertStatement \<Rightarrow> action" where
  "InsertStatement_WriteSql d =
     seqA ([Write ''INSERT INTO '', WriteLine (quoteId (inTableName d)),
            WriteLine ('' ('' @ joinStrings '', '' (inColumns d) @ '') '')]
       @ (case inQuery d of
            Some q \<Rightarrow> [Write '' '', SelectStatement_WriteSql q]
          | None \<Rightarrow>
              whenA (inRows d \<noteq> [])
                (WriteLine ''VALUES ''
                 # concat (map (\<lambda>(i, r). insertRow_WriteSql (length (inRows d)) i r)
                     (zip [0..<length (inRows d)] (inRows d))))))"

definition UpdateStatement_WriteSql :: "UpdateStatement \<Rightarrow> action" where
  "UpdateStatement_WriteSql u =
     seqA ([Write ''UPDATE '', deref (map_option FromItem_WriteSql (upTable u)), Write '' SET '']
       @ sepA [Write '', ''] (map SetItem_WriteSql (upSetItems u))
       @ whenSome (upFromClause u) (\<lambda>f. [Write '' FROM '', FromItem_WriteSql f])
       @ whenSome (upWhereClause u) (\<lambda>e. [Write '' WHERE '', SQLExpression_WriteSql e]))"

definition CreateTableStatement_String :: "CreateTableStatement \<Rightarrow> string option" where
  "CreateTableStatement_String s = trimmedString (CreateTableStatement_WriteSql s)"

definition CreateViewStatement_String :: "CreateViewStatement \<Rightarrow> string option" where
  "CreateViewStatement_String s = trimmedString (CreateViewStatement_WriteSql s)"

definition CreateFunctionStatement_String :: "CreateFunctionStatement \<Rightarrow> string option" where
  "CreateFunctionStatement_String s = trimmedString (CreateFunctionStatement_WriteSql s)"

definition ColumnDefinition_String :: "ColumnDefinition \<Rightarrow> string option" where
  "ColumnDefinition_String s = trimmedString (ColumnDefinition_WriteSql s)"

definition ParameterDefinition_String :: "ParameterDefinition \<Rightarrow> string option" where
  "ParameterDefinition_String s = trimmedString (ParameterDefinition_WriteSql s)"

definition DropStatement_String :: "DropStatement \<Rightarrow> string option" where
  "DropStatement_String s = trimmedString (DropStatement_WriteSql s)"

definition TruncateStatement_String :: "TruncateStatement \<Rightarrow> string option" where
  "TruncateStatement_String s = trimmedString (TruncateStatement_WriteSql s)"

definition SetItem_String :: "SetItem \<Rightarrow> string option" where
  "SetItem_String s = trimmedString (SetItem_WriteSql s)"

definition DeleteStatement_String :: "DeleteStatement \<Rightarrow> string option" where
  "DeleteStatement_String s = trimmedString (DeleteStatement_WriteSql s)"

definition InsertStatement_String :: "InsertStatement \<Rightarrow> string option" where
  "InsertStatement_String s = trimmedString (InsertStatement_WriteSql s)"

definition UpdateStatement_String :: "UpdateStatement \<Rightarrow> string option" where
  "UpdateStatement_String s = trimmedString (UpdateStatement_WriteSql s)"

section \<open>Compound fragments\<close>

record CompoundSQLFragment =
  statements :: "string list"

definition NewCompoundSQLFragment :: "string list \<Rightarrow> CompoundSQLFragment" where
  "NewCompoundSQLFragment ss = \<lparr>statements = ss\<rparr>"

definition CompoundSQLFragment_String :: "CompoundSQLFragment \<Rightarrow> string" where
  "CompoundSQLFragment_String c = joinStrings ('';'' @ [CHR 0x0A]) (statements c) @ '';''"

definition CompoundSQLFragment_WriteSql :: "CompoundSQLFragment \<Rightarrow> action" where
  "CompoundSQLFragment_WriteSql c =
     seqA (sepA [Write ('';'' @ [CHR 0x0A])] (map Write (statements c)))"

definition GetStatements :: "CompoundSQLFragment \<Rightarrow> string list" where
  "GetStatements c = statements c"

section \<open>The statements only append and restore the indentation\<close>

definition appendOnlyFragment :: "SQLFragment \<Rightarrow> bool" where
  "appendOnlyFragment f \<longleftrightarrow> appendOnly (frag_WriteSql f)"

lemma appendOnlyFragment_of [simp]:
  "appendOnlyFragment (fragment_of_select s)"
  "appendOnlyFragment (fragment_of_expression e)"
  "appendOnlyFragment (fragment_of_from f)"
  by (simp_all add: appendOnlyFragment_def fragment_of_select_def fragment_of_expression_def
      fragment_of_from_def writers_append_only)

lemma append_ColumnDefinition: "appendOnly (ColumnDefinition_WriteSql c)"
  unfolding ColumnDefinition_WriteSql_def
  by (auto intro!: append_intros scoped_intros writers_append_only)

lemma append_CreateTableStatement: "appendOnly (CreateTableStatement_WriteSql s)"
proof -
  have "scoped (Indent # sepA [Write '','', WriteLine []] (map ColumnDefinition_WriteSql (ctColumns s))
      @ Dedent # [WriteLine [], Write '')''])"
    by (rule scoped_block) (auto intro!: append_intros scoped_intros append_ColumnDefinition)
  then show ?thesis
    unfolding CreateTableStatement_WriteSql_def
    by (intro append_intros scoped_intros)
      (auto intro!: append_intros scoped_intros writers_append_only split: option.split)
qed

lemma append_CreateFunctionStatement: "appendOnly (CreateFunctionStatement_WriteSql s)"
  unfolding CreateFunctionStatement_WriteSql_def ParameterDefinition_WriteSql_def
  by (auto intro!: append_intros scoped_intros)

lemma append_UpdateStatement: "appendOnly (UpdateStatement_WriteSql u)"
  unfolding UpdateStatement_WriteSql_def SetItem_WriteSql_def
  by (auto intro!: append_intros scoped_intros writers_append_only)

lemma append_InsertStatement: "appendOnly (InsertStatement_WriteSql d)"
  unfolding InsertStatement_WriteSql_def insertRow_WriteSql_def
  by (auto intro!: append_intros scoped_intros scoped_concat writers_append_only split: option.split)

lemma append_DeleteStatement:
  "(\<And>f. deTable d = Some f \<Longrightarrow> appendOnlyFragment f) \<Longrightarrow> appendOnly (DeleteStatement_WriteSql d)"
  unfolding DeleteStatement_WriteSql_def
  by (auto intro!: append_intros scoped_intros simp: appendOnlyFragment_def)

lemma append_CreateViewStatement:
  "(\<And>f. cvQuery s = Some f \<Longrightarrow> appendOnlyFragment f) \<Longrightarrow> appendOnly (CreateViewStatement_WriteSql s)"
  unfolding CreateViewStatement_WriteSql_def
  by (auto intro!: append_intros scoped_intros simp: appendOnlyFragment_def)

section \<open>What compound fragments and INSERT rows print\<close>

lemma seqA_Writes:
  "seqA (sepA [Write sep] (map Write ss)) w = Some (w\<lparr>builder := builder w @ joinStrings sep ss\<rparr>)"
proof (induction ss arbitrary: w rule: induct_list012)
  case (3 x y zs)
  show ?case using "3.IH"(2) by (simp add: Write_def)
qed (simp_all add: Write_def)

text \<open>A compound fragment's string is what its \<open>WriteSql\<close> writes, with a final semicolon.\<close>

theorem compound_string:
  "runString True (CompoundSQLFragment_WriteSql c) = Some s \<Longrightarrow> CompoundSQLFragment_String c = s @ '';''"
  by (simp add: CompoundSQLFragment_WriteSql_def CompoundSQLFragment_String_def runString_def
      seqA_Writes NewSQLWriter_def)

text \<open>The index test of the row loop prints exactly the separators between rows.\<close>

lemma insertRows_sep_aux:
  "n = k + length rs \<Longrightarrow>
   concat (map (\<lambda>(i, r). insertRow_WriteSql n i r) (zip [k..<n] rs))
     = sepA [Write '',''] (map (\<lambda>r. writeOpt (map_option (\<lambda>t. ''('' @ t @ '')'') (frag_String r))) rs)"
proof (induction rs arbitrary: k rule: induct_list012)
  case (2 r)
  then show ?case by (simp add: insertRow_WriteSql_def whenA_def upt_rec)
next
  case (3 r r' rs)
  then have "zip [k..<n] (r # r' # rs) = (k, r) # zip [Suc k..<n] (r' # rs)"
    by (simp add: upt_rec)
  moreover have "n \<noteq> 1 \<and> k \<noteq> n - 1" using 3 by auto
  ultimately show ?case using "3.IH"(2) [of "Suc k"] "3.prems"
    by (simp add: insertRow_WriteSql_def whenA_def)
qed simp

text \<open>The index test in the row loop of INSERT prints exactly one comma between consecutive rows.\<close>

theorem insertRows_sep:
  "concat (map (\<lambda>(i, r). insertRow_WriteSql (length rs) i r) (zip [0..<length rs] rs))
     = sepA [Write '',''] (map (\<lambda>r. writeOpt (map_option (\<lambda>t. ''('' @ t @ '')'') (frag_String r))) rs)"
  by (rule insertRows_sep_aux) simp

end
