(* ===== verification/Name_Path.thy ===== *)
theory Name_Path
  imports Go_Prelude
begin

text \<open>
  Name paths, \<open>internal/name_path.go\<close>: how a path like \<open>dataset.table\<close> is completed with the
  current project and dataset, within a maximal number of parts.

  A slice of strings is a string list and Go's \<open>int\<close> is \<open>int\<close>: no operation here can leave its
  64-bit range except with more than \<open>2^62\<close> parts. \<open>toLower\<close> lowers the ASCII letters and the
  two other code points whose lower case is ASCII (U+0130 and U+212A), which is what decides
  whether the lowered name equals an ASCII constant.
\<close>

section \<open>The operations\<close>

record NamePath =
  np_path :: "string list"
  np_maxNum :: int

definition lowerChar :: "char \<Rightarrow> char" where
  "lowerChar c =
     (if 65 \<le> (of_char c :: nat) \<and> (of_char c :: nat) \<le> 90 then char_of ((of_char c :: nat) + 32) else c)"

fun toLower :: "string \<Rightarrow> string" where
  "toLower [] = []"
| "toLower (a # s) =
     (if a = CHR 0xC4 \<and> hasPrefix s [CHR 0xB0] then CHR ''i'' # toLower (drop 1 s)
      else if a = CHR 0xE2 \<and> hasPrefix s [CHR 0x84, CHR 0xAA] then CHR ''k'' # toLower (drop 2 s)
      else lowerChar a # toLower s)"

definition isInformationSchema :: "string list \<Rightarrow> bool" where
  "isInformationSchema path =
     (if path = [] then False
      else list_ex (\<lambda>subPath. toLower subPath = ''information_schema'') (butlast path))"

definition setMaxNum :: "NamePath \<Rightarrow> int \<Rightarrow> NamePath" where
  "setMaxNum p num = (if num > 0 then p\<lparr>np_maxNum := num\<rparr> else p)"

definition getMaxNum :: "NamePath \<Rightarrow> string list \<Rightarrow> int" where
  "getMaxNum p path =
     (if np_maxNum p = 0 then 0
      else if isInformationSchema path then np_maxNum p + 1
      else np_maxNum p)"

definition normalizePath :: "string list \<Rightarrow> string list" where
  "normalizePath path = concat (map (splitChar CHR ''.'') path)"

text \<open>The loop over the base path: \<open>merged\<close> is what has been taken so far.\<close>

fun mergeLoop :: "int \<Rightarrow> string list \<Rightarrow> string list \<Rightarrow> string list \<Rightarrow> string list" where
  "mergeLoop maxNum path merged [] = merged"
| "mergeLoop maxNum path merged (basePath # rest) =
     (if hd path = basePath then merged
      else if maxNum > 0 \<and> int (length merged) + int (length path) \<ge> maxNum then merged
      else mergeLoop maxNum path (merged @ [basePath]) rest)"

definition mergePath :: "NamePath \<Rightarrow> string list \<Rightarrow> string list" where
  "mergePath p path0 =
     (let path = normalizePath path0;
          maxNum = getMaxNum p path
      in if maxNum > 0 \<and> int (length path) = maxNum then path
         else if path = [] then np_path p
         else mergeLoop maxNum path [] (np_path p) @ path)"

definition formatPath :: "string list \<Rightarrow> string" where
  "formatPath path = joinStrings ''_'' path"

definition NamePath_format :: "NamePath \<Rightarrow> string list \<Rightarrow> string" where
  "NamePath_format p path = formatPath (mergePath p path)"

text \<open>The error of \<open>setPath\<close> and \<open>addPath\<close>; \<open>%v\<close> prints a slice between brackets.\<close>

definition tooManyPaths :: "string list \<Rightarrow> int \<Rightarrow> int \<Rightarrow> string" where
  "tooManyPaths path num maxNum =
     ''specified too many name paths ['' @ joinStrings '' '' path @ ''](''
     @ sprintInt num @ ''). max name path is '' @ sprintInt maxNum"

definition setPath :: "NamePath \<Rightarrow> string list \<Rightarrow> NamePath go" where
  "setPath p path =
     (let normalizedPath = normalizePath path;
          maxNum = getMaxNum p path
      in if maxNum > 0 \<and> int (length normalizedPath) > maxNum
         then fail_with (tooManyPaths path (int (length normalizedPath)) maxNum)
         else ok (p\<lparr>np_path := normalizedPath\<rparr>))"

definition addPath :: "NamePath \<Rightarrow> string \<Rightarrow> NamePath go" where
  "addPath p path =
     (let normalizedPath = normalizePath [path];
          totalPath = int (length (np_path p)) + int (length normalizedPath);
          maxNum = getMaxNum p normalizedPath
      in if maxNum > 0 \<and> totalPath > maxNum
         then fail_with (tooManyPaths (np_path p @ normalizedPath) totalPath maxNum)
         else ok (p\<lparr>np_path := np_path p @ normalizedPath\<rparr>))"

definition NamePath_empty :: "NamePath \<Rightarrow> bool" where
  "NamePath_empty p \<longleftrightarrow> np_path p = []"

definition newNamePath :: NamePath where
  "newNamePath = \<lparr>np_path = [], np_maxNum = 0\<rparr>"

section \<open>The invariant\<close>

text \<open>Every part of the stored path is free of dots, and the limit is not negative.\<close>

definition wellFormed :: "NamePath \<Rightarrow> bool" where
  "wellFormed p \<longleftrightarrow> (\<forall>s \<in> set (np_path p). CHR ''.'' \<notin> set s) \<and> 0 \<le> np_maxNum p"

lemma normalizePath_free: "s \<in> set (normalizePath path) \<Longrightarrow> CHR ''.'' \<notin> set s"
  by (auto simp: normalizePath_def dest: splitChar_free)

lemma normalizePath_id: "\<forall>s \<in> set path. CHR ''.'' \<notin> set s \<Longrightarrow> normalizePath path = path"
  unfolding normalizePath_def by (induction path) (simp_all add: splitChar_single)

lemma normalizePath_Nil [simp]: "normalizePath [] = []"
  by (simp add: normalizePath_def)

lemma normalizePath_append: "normalizePath (a @ b) = normalizePath a @ normalizePath b"
  by (simp add: normalizePath_def)

lemma wellFormed_new: "wellFormed newNamePath"
  by (simp add: wellFormed_def newNamePath_def)

lemma wellFormed_setMaxNum: "wellFormed p \<Longrightarrow> wellFormed (setMaxNum p n)"
  by (simp add: wellFormed_def setMaxNum_def)

lemma wellFormed_setPath: "wellFormed p \<Longrightarrow> setPath p path = ok q \<Longrightarrow> wellFormed q"
  by (auto simp: wellFormed_def setPath_def Let_def normalizePath_free split: if_splits)

lemma wellFormed_addPath: "wellFormed p \<Longrightarrow> addPath p path = ok q \<Longrightarrow> wellFormed q"
  by (auto simp: wellFormed_def addPath_def Let_def normalizePath_free split: if_splits)

section \<open>What merging computes\<close>

lemma mergeLoop_take:
  "mergeLoop maxNum path merged base
     = merged @ takeWhile (\<lambda>b. b \<noteq> hd path)
         (if maxNum > 0 then take (nat (maxNum - int (length merged) - int (length path))) base else base)"
proof (induction maxNum path merged base rule: mergeLoop.induct)
  case (2 maxNum path merged b rest)
  show ?case
  proof (cases "hd path = b")
    case True
    then show ?thesis by (cases "nat (maxNum - int (length merged) - int (length path))") auto
  next
    case False
    note ne = False
    show ?thesis
    proof (cases "maxNum > 0 \<and> int (length merged) + int (length path) \<ge> maxNum")
      case True
      then show ?thesis using ne by auto
    next
      case False
      then have "maxNum > 0 \<Longrightarrow> nat (maxNum - int (length merged) - int (length path))
          = Suc (nat (maxNum - int (length (merged @ [b])) - int (length path)))"
        by simp
      then show ?thesis using ne False "2.IH" by auto
    qed
  qed
qed simp

text \<open>The base path is cut at the first part that starts the given path, and at the limit.\<close>

lemma mergePath_eq:
  "path = normalizePath path0 \<Longrightarrow> path \<noteq> [] \<Longrightarrow> n = getMaxNum p path \<Longrightarrow> 0 \<le> n \<Longrightarrow>
   mergePath p path0
     = takeWhile (\<lambda>b. b \<noteq> hd path)
         (if n > 0 then take (nat (n - int (length path))) (np_path p) else np_path p) @ path"
  by (auto simp: mergePath_def mergeLoop_take Let_def)

lemma getMaxNum_nonneg: "wellFormed p \<Longrightarrow> 0 \<le> getMaxNum p path"
  by (simp add: wellFormed_def getMaxNum_def)

lemma mergePath_suffix: "\<exists>pre. mergePath p path = pre @ normalizePath path"
  by (auto simp: mergePath_def Let_def)

lemma mergePath_prefix:
  assumes "wellFormed p" "normalizePath path \<noteq> []"
  shows "\<exists>k. mergePath p path = take k (np_path p) @ normalizePath path"
proof -
  have "\<exists>k. takeWhile P (if b then take n xs else xs) = take k xs" for P b n and xs :: "string list"
  proof -
    have take: "takeWhile P zs = take (length (takeWhile P zs)) zs" for zs
      by (rule takeWhile_eq_take)
    show ?thesis
    proof (cases b)
      case True
      then have "takeWhile P (if b then take n xs else xs)
          = take (min (length (takeWhile P (take n xs))) n) xs"
        using take [of "take n xs"] by simp
      then show ?thesis by blast
    next
      case False
      then show ?thesis using take [of xs] by auto
    qed
  qed
  then show ?thesis using mergePath_eq [OF refl assms(2) refl getMaxNum_nonneg [OF assms(1)]] by metis
qed

text \<open>With a limit in force a merged path is no longer than the limit, unless the given path alone is.\<close>

theorem mergePath_bound:
  assumes "wellFormed p" "getMaxNum p (normalizePath path) > 0" "normalizePath path \<noteq> []"
  shows "int (length (mergePath p path))
     \<le> max (getMaxNum p (normalizePath path)) (int (length (normalizePath path)))"
proof -
  let ?n = "getMaxNum p (normalizePath path)" and ?path = "normalizePath path"
  have tw: "length (takeWhile P (take k xs)) \<le> k" for P k and xs :: "string list"
    using length_takeWhile_le [of P "take k xs"] by simp
  show ?thesis using mergePath_eq [OF refl assms(3) refl] assms(2)
      tw [of "\<lambda>b. b \<noteq> hd ?path" "nat (?n - int (length ?path))" "np_path p"] by simp
qed

lemma mergePath_free:
  "wellFormed p \<Longrightarrow> s \<in> set (mergePath p path) \<Longrightarrow> CHR ''.'' \<notin> set s"
  using mergePath_prefix [of p path] normalizePath_free [of s path]
  by (cases "normalizePath path = []")
    (auto simp: wellFormed_def mergePath_def Let_def dest: in_set_takeD split: if_splits)

text \<open>Merging is idempotent: a path that was completed with the base path is not completed again.\<close>

theorem mergePath_idem:
  assumes "wellFormed p"
  shows "mergePath p (mergePath p path) = mergePath p path"
proof -
  let ?path = "normalizePath path" and ?merged = "mergePath p path"
  have norm: "normalizePath ?merged = ?merged"
    using mergePath_free [OF assms] by (intro normalizePath_id) blast
  have nn: "0 \<le> getMaxNum p q" for q by (rule getMaxNum_nonneg [OF assms])
  show ?thesis
  proof (cases "?merged = []")
    case True
    then have "?path = []" using mergePath_suffix [of p path] by auto
    then have "np_path p = []" using True by (simp add: mergePath_def Let_def split: if_splits)
    then show ?thesis using True by (simp add: mergePath_def Let_def)
  next
    case ne: False
    note again = mergePath_eq [OF norm [symmetric] ne refl nn]
    show ?thesis
    proof (cases "np_path p = []")
      case True
      then show ?thesis using again by simp
    next
      case False
      then obtain b bs where base: "np_path p = b # bs" by (cases "np_path p") auto
      show ?thesis
      proof (cases "hd ?merged = b")
        case True
        then show ?thesis using again base
          by (cases "nat (getMaxNum p ?merged - int (length ?merged))") auto
      next
        case False
        then have path: "?path \<noteq> []" using base by (auto simp: mergePath_def Let_def split: if_splits)
        then obtain k where k: "?merged = take k (np_path p) @ ?path" using mergePath_prefix [OF assms] by blast
        then have "k = 0" using False base by (cases k) auto
        then have eq: "?merged = ?path" using k by simp
        show ?thesis
          using again mergePath_eq [OF refl path refl nn] unfolding eq by simp
      qed
    qed
  qed
qed

text \<open>\<open>setPath\<close> looks for INFORMATION_SCHEMA before it splits the path at its dots, so a dotted path
  that uses the extra part an INFORMATION_SCHEMA path is allowed is rejected, although \<open>addPath\<close> accepts
  it, and so does \<open>setPath\<close> itself once the path is given in parts.\<close>

theorem setPath_dotted_schema:
  assumes "np_path p = []" "0 < np_maxNum p"
    and "isInformationSchema (normalizePath [s])" "int (length (normalizePath [s])) = np_maxNum p + 1"
  shows "\<not> is_ok (setPath p [s]) \<and> addPath p s = setPath p (normalizePath [s])
    \<and> setPath p (normalizePath [s]) = ok (p\<lparr>np_path := normalizePath [s]\<rparr>)"
proof -
  have "normalizePath (normalizePath [s]) = normalizePath [s]"
    using normalizePath_free [of _ "[s]"] by (intro normalizePath_id) blast
  moreover have "\<not> isInformationSchema [s]" by (simp add: isInformationSchema_def)
  ultimately show ?thesis using assms by (simp add: setPath_def addPath_def getMaxNum_def Let_def)
qed

end
