(* ===== verification/Ir_Types.thy ===== *)
theory Ir_Types
  imports Go_Prelude Sql_Ast
begin

text \<open>
  The intermediate representation between the resolved ZetaSQL tree and the SQL tree,
  \<open>internal/types_data.go\<close>: what the extractor produces and the transformers consume.

  As for the SQL tree, a struct is a datatype whose selectors are its fields, pointers are
  options, and the structs are polymorphic in what they contain, so that the recursive types are
  \<open>ExpressionData\<close>, \<open>ScanData\<close> and \<open>StatementData\<close>. A field that is an \<open>ExpressionData\<close> value,
  not a pointer, is optional where the code compares it with the zero value \<open>ExpressionData{}\<close>.

  The type variables stand for \<open>'t\<close> the types of the go-zetasql library (\<open>types.Type\<close>) and \<open>'v\<close>
  the literal values (\<open>Value\<close>). Struct tags and the JSON names have no counterpart. The constants
  of the library's enumerations that the code names are constructors, the others are \<open>\<dots>Other n\<close>.
\<close>

section \<open>Enumerations of the resolved tree\<close>

datatype (plugins only: code size) AstJoinType = AstJoinInner | AstJoinLeft | AstJoinRight | AstJoinFull | AstJoinOther int
datatype (plugins only: code size) AstSubqueryType =
  SubqueryTypeScalar | SubqueryTypeArray | SubqueryTypeExists | SubqueryTypeIn | SubqueryTypeOther int
datatype (plugins only: code size) AstNullOrderMode =
  NullOrderModeOrderUnspecified | NullOrderModeNullsFirst | NullOrderModeNullsLast
datatype (plugins only: code size) AstMatchType =
  MatchTypeMatched | MatchTypeNotMatchedBySource | MatchTypeNotMatchedByTarget | MatchTypeOther int
datatype (plugins only: code size) AstActionType = ActionTypeInsert | ActionTypeUpdate | ActionTypeDelete | ActionTypeOther int

datatype (plugins only: code size) ScanType =
  ScanTypeTable | ScanTypeJoin | ScanTypeFilter | ScanTypeProject | ScanTypeAggregate
| ScanTypeOrderBy | ScanTypeLimit | ScanTypeSetOp | ScanTypeSingleRow | ScanTypeWith
| ScanTypeWithRef | ScanTypeWithEntry | ScanTypeArray | ScanTypeAnalytic | ScanTypeRecursive
| ScanTypeRecursiveRef

datatype (plugins only: code size) StatementType =
  StatementTypeSelect | StatementTypeInsert | StatementTypeUpdate | StatementTypeDelete
| StatementTypeCreate | StatementTypeDrop | StatementTypeMerge

datatype (plugins only: code size) CreateType = CreateTypeTable | CreateTypeView

section \<open>Expressions\<close>

datatype (plugins only: code size) ParseLocation =
  ParseLocation (plStartLine: int) (plStartColumn: int) (plEndLine: int) (plEndColumn: int)
    (plFilename: string)

datatype (plugins only: code size) (dead 'v) LiteralData =
  LiteralData (ldValue: "'v option") (ldTypeName: string) (ldLocation: "ParseLocation option")

datatype (plugins only: code size) ParameterData = ParameterData (pmIdentifier: string)

text \<open>The accessors of the library's \<open>ast.Column\<close> that the code calls.\<close>

datatype (plugins only: code size) (dead 't) AstColumn =
  AstColumn (colName: string) (colColumnID: int) (colTableName: string) (colType: "'t option")

datatype (plugins only: code size) (dead 't) ColumnRefData =
  ColumnRefData (crColumn: "'t AstColumn option") (crType: "'t option") (crTableAlias: string)
    (crColumnName: string) (crColumnID: int) (crTableName: string)

datatype (plugins only: code size) ColumnData =
  ColumnData (cdaID: int) (cdaName: string) (cdaType: string) (cdaTableName: string)

datatype (plugins only: code size) (dead 't) ArgumentInfo = ArgumentInfo (aiName: string) (aiType: "'t option")
datatype (plugins only: code size) (dead 't) FunctionSignature = FunctionSignature (fsArguments: "'t ArgumentInfo list")

datatype (plugins only: code size) 'e FrameBoundData = FrameBoundData (fbdType: string) (fbdOffset: "'e option")
datatype (plugins only: code size) 'e FrameClauseData =
  FrameClauseData (fcdUnit: string) (fcdStart: "'e FrameBoundData option")
    (fcdEnd: "'e FrameBoundData option")
datatype (plugins only: code size) 'e OrderByItemData =
  OrderByItemData (obdExpression: 'e) (obdIsDescending: bool) (obdNullOrder: AstNullOrderMode)
datatype (plugins only: code size) 'e WindowSpecificationData =
  WindowSpecificationData (wsdPartitionBy: "'e list") (wsdOrderBy: "'e OrderByItemData list")
    (wsdFrameClause: "'e FrameClauseData option")
datatype (plugins only: code size) (dead 't, 'e) FunctionCallData =
  FunctionCallData (fdName: string) (fdArguments: "'e list")
    (fdWindowSpec: "'e WindowSpecificationData option") (fdSignature: "'t FunctionSignature option")
datatype (plugins only: code size) (dead 't, 'e) CastData =
  CastData (caExpression: 'e) (caFromType: "'t option") (caToType: "'t option") (caSafeCast: bool)
    (caReturnNullOnErr: bool)
datatype (plugins only: code size) 'e BinaryExpressionData =
  BinaryExpressionData (bdLeft: 'e) (bdOperator: string) (bdRight: 'e)
datatype (plugins only: code size) 'e WhenClauseData = WhenClauseData (wdCondition: 'e) (wdResult: 'e)
datatype (plugins only: code size) 'e CaseExpressionData =
  CaseExpressionData (cedCaseExpr: "'e option") (cedWhenClauses: "'e WhenClauseData list")
    (cedElseClause: "'e option")
datatype (plugins only: code size) ('e, 's) SubqueryData =
  SubqueryData (sbQuery: 's) (sbSubqueryType: AstSubqueryType) (sbInExpr: "'e option")

section \<open>Scans\<close>

datatype (plugins only: code size) 'e SelectItemData = SelectItemData (sidExpression: 'e) (sidAlias: string)
datatype (plugins only: code size) (dead 't, 'e) ComputedColumnData =
  ComputedColumnData (ccColumn: "'t AstColumn") (ccExpression: 'e)
datatype (plugins only: code size) 'e TableScanData =
  TableScanData (tsdTableName: string) (tsdAlias: string) (tsdColumns: "ColumnData list")
    (tsdSyntheticColumns: "'e SelectItemData list")
datatype (plugins only: code size) ('e, 's) JoinScanData =
  JoinScanData (jsJoinType: AstJoinType) (jsLeftScan: 's) (jsRightScan: 's)
    (jsJoinCondition: "'e option") (jsUsingColumns: "string list")
datatype (plugins only: code size) ('e, 's) FilterScanData = FilterScanData (fiInputScan: 's) (fiFilterExpr: 'e)
datatype (plugins only: code size) (dead 't, 'e, 's) ProjectScanData =
  ProjectScanData (prInputScan: 's) (prExprList: "('t, 'e) ComputedColumnData list")
datatype (plugins only: code size) (dead 't, 'e) GroupingSetData =
  GroupingSetData (gsGroupByColumns: "('t, 'e) ComputedColumnData list")
datatype (plugins only: code size) (dead 't, 'e, 's) AggregateScanData =
  AggregateScanData (agInputScan: 's) (agGroupByList: "('t, 'e) ComputedColumnData list")
    (agAggregateList: "('t, 'e) ComputedColumnData list")
    (agGroupingSets: "('t, 'e) GroupingSetData list")
datatype (plugins only: code size) ('e, 's) OrderByScanData =
  OrderByScanData (osInputScan: 's) (osOrderByColumns: "'e OrderByItemData list")
datatype (plugins only: code size) 'e LimitData = LimitData (lidCount: 'e) (lidOffset: "'e option")
datatype (plugins only: code size) ('e, 's) LimitScanData =
  LimitScanData (lsInputScan: 's) (lsCount: 'e) (lsOffset: "'e option")
datatype (plugins only: code size) ('e, 's) ArrayScanData =
  ArrayScanData (arInputScan: "'s option") (arArrayExpr: 'e) (arElementColumn: "ColumnData option")
    (arArrayOffsetColumn: "ColumnData option") (arIsOuter: bool) (arJoinExpr: "'e option")
datatype (plugins only: code size) (dead 't, 'e, 's) AnalyticScanData =
  AnalyticScanData (anInputScan: 's) (anFunctionList: "('t, 'e) ComputedColumnData list")
datatype (plugins only: code size) 'd SetOperationData =
  SetOperationData (sodType: string) (sodModifier: string) (sodItems: "'d list")
datatype (plugins only: code size) 's WithEntryData =
  WithEntryData (weWithQueryName: string) (weWithSubquery: 's) (weColumnList: "ColumnData list")
datatype (plugins only: code size) 's WithScanData =
  WithScanData (wsWithEntryList: "'s WithEntryData list") (wsQuery: 's)
    (wsColumnList: "ColumnData list") (wsRecursive: bool)
datatype (plugins only: code size) WithRefScanData =
  WithRefScanData (wrWithQueryName: string) (wrColumnList: "ColumnData list")
datatype (plugins only: code size) 'd RecursiveScanData =
  RecursiveScanData (rsOpType: string) (rsNonRecursiveTerm: 'd) (rsRecursiveTerm: 'd)
datatype (plugins only: code size) RecursiveRefScanData =
  RecursiveRefScanData (rrWithQueryName: string) (rrColumnList: "ColumnData list")

section \<open>Statements\<close>

datatype (plugins only: code size) ('e, 's, 'd) SelectData =
  SelectData (sdSelectList: "'e SelectItemData list") (sdFromClause: "'s option")
    (sdWhereClause: "'e option") (sdGroupBy: "'e list") (sdHaving: "'e option")
    (sdOrderBy: "'e OrderByItemData list") (sdLimit: "'e LimitData option")
    (sdSetOperation: "'d SetOperationData option")
datatype (plugins only: code size) ('e, 's, 'd) InsertData =
  InsertData (idTableName: string) (idColumns: "string list") (idValues: "'e list list")
    (idQuery: "('e, 's, 'd) SelectData option")
datatype (plugins only: code size) 'e SetItemData = SetItemData (sitColumn: string) (sitValue: 'e)
datatype (plugins only: code size) ('e, 's) UpdateData =
  UpdateData (udTableName: string) (udTableScan: "'s option") (udSetItems: "'e SetItemData list")
    (udFromClause: "'s option") (udWhereClause: "'e option")
datatype (plugins only: code size) ('e, 's) DeleteData =
  DeleteData (ddTableName: string) (ddTableScan: "'s option") (ddWhereClause: "'e option")
datatype (plugins only: code size) 'e ColumnDefinitionData =
  ColumnDefinitionData (cddName: string) (cddType: string) (cddNotNull: bool)
    (cddIsPrimaryKey: bool) (cddDefaultValue: "'e option")
datatype (plugins only: code size) ('e, 's, 'd) CreateTableData =
  CreateTableData (ctdTableName: string) (ctdColumns: "'e ColumnDefinitionData list")
    (ctdAsSelect: "('e, 's, 'd) SelectData option") (ctdIfNotExists: bool)
datatype (plugins only: code size) ('e, 's, 'd) CreateViewData =
  CreateViewData (cvdViewName: string) (cvdQuery: "('e, 's, 'd) SelectData")
datatype (plugins only: code size) ParameterDefinitionData = ParameterDefinitionData (pddName: string) (pddType: string)
datatype (plugins only: code size) 'e CreateFunctionData =
  CreateFunctionData (cfdFunctionName: string) (cfdParameters: "ParameterDefinitionData list")
    (cfdReturnType: string) (cfdLanguage: string) (cfdCode: string) (cfdOptions: "(string \<times> 'e) list")
datatype (plugins only: code size) ('e, 's, 'd) CreateData =
  CreateData (crdType: CreateType) (crdTable: "('e, 's, 'd) CreateTableData option")
    (crdView: "('e, 's, 'd) CreateViewData option") (crdFunction: "'e CreateFunctionData option")
datatype (plugins only: code size) DropData = DropData (drIfExists: bool) (drObjectType: string) (drObjectName: string)
datatype (plugins only: code size) 'e MergeWhenClauseData =
  MergeWhenClauseData (mwMatchType: AstMatchType) (mwCondition: "'e option")
    (mwActionType: AstActionType) (mwInsertColumns: "ColumnData list") (mwInsertValues: "'e list")
    (mwSetItems: "'e SetItemData list")
datatype (plugins only: code size) ('e, 's) MergeData =
  MergeData (mgTargetTable: string) (mgTargetScan: "'s option") (mgSourceScan: "'s option")
    (mgMergeExpr: 'e) (mgWhenClauses: "'e MergeWhenClauseData list")

section \<open>The recursive types\<close>

datatype (plugins only: code size) (dead 't, dead 'v) ExpressionData =
  ExpressionData
    (edType: ExpressionType)
    (edParameter: "ParameterData option")
    (edLiteral: "'v LiteralData option")
    (edFunction: "('t, ('t, 'v) ExpressionData) FunctionCallData option")
    (edCast: "('t, ('t, 'v) ExpressionData) CastData option")
    (edColumn: "'t ColumnRefData option")
    (edBinary: "('t, 'v) ExpressionData BinaryExpressionData option")
    (edCase: "('t, 'v) ExpressionData CaseExpressionData option")
    (edSubquery: "(('t, 'v) ExpressionData, ('t, 'v) ScanData) SubqueryData option")
and (dead 't, dead 'v) ScanData =
  ScanData
    (scType: ScanType)
    (scColumnList: "ColumnData list")
    (scTableScan: "('t, 'v) ExpressionData TableScanData option")
    (scJoinScan: "(('t, 'v) ExpressionData, ('t, 'v) ScanData) JoinScanData option")
    (scFilterScan: "(('t, 'v) ExpressionData, ('t, 'v) ScanData) FilterScanData option")
    (scProjectScan: "('t, ('t, 'v) ExpressionData, ('t, 'v) ScanData) ProjectScanData option")
    (scAggregateScan: "('t, ('t, 'v) ExpressionData, ('t, 'v) ScanData) AggregateScanData option")
    (scOrderByScan: "(('t, 'v) ExpressionData, ('t, 'v) ScanData) OrderByScanData option")
    (scLimitScan: "(('t, 'v) ExpressionData, ('t, 'v) ScanData) LimitScanData option")
    (scSetOperationScan: "('t, 'v) StatementData SetOperationData option")
    (scWithScan: "('t, 'v) ScanData WithScanData option")
    (scWithRefScan: "WithRefScanData option")
    (scWithEntryScan: "('t, 'v) ScanData WithEntryData option")
    (scArrayScan: "(('t, 'v) ExpressionData, ('t, 'v) ScanData) ArrayScanData option")
    (scAnalyticScan: "('t, ('t, 'v) ExpressionData, ('t, 'v) ScanData) AnalyticScanData option")
    (scRecursiveScan: "('t, 'v) StatementData RecursiveScanData option")
    (scRecursiveRefScan: "RecursiveRefScanData option")
and (dead 't, dead 'v) StatementData =
  StatementData
    (stType: StatementType)
    (stSelect: "(('t, 'v) ExpressionData, ('t, 'v) ScanData, ('t, 'v) StatementData) SelectData option")
    (stInsert: "(('t, 'v) ExpressionData, ('t, 'v) ScanData, ('t, 'v) StatementData) InsertData option")
    (stUpdate: "(('t, 'v) ExpressionData, ('t, 'v) ScanData) UpdateData option")
    (stDelete: "(('t, 'v) ExpressionData, ('t, 'v) ScanData) DeleteData option")
    (stCreate: "(('t, 'v) ExpressionData, ('t, 'v) ScanData, ('t, 'v) StatementData) CreateData option")
    (stDrop: "DropData option")
    (stMerge: "(('t, 'v) ExpressionData, ('t, 'v) ScanData) MergeData option")

end
