(* ===== verification/Query_Context.thy ===== *)
theory Query_Context
  imports Sql_Statements Ir_Types "HOL-Library.AList"
begin

text \<open>
  The context of a transformation, \<open>internal/querybuilder_context.go\<close>: the fragment context
  (which columns are available, under which alias, and the stack of scopes), the transform
  context with its WITH mappings, and the scope manager.

  A Go map is an association list without duplicate keys, written with \<open>AList.update\<close> and read
  with \<open>map_of\<close>; its \<open>len\<close> is the length of the list. The locks of the structs have no
  counterpart: the operations are the critical sections. A method that changes its receiver
  returns the changed receiver; identifiers and counters are unbounded integers (a counter
  would have to reach \<open>2^63\<close> to differ from Go's \<open>int\<close>).
\<close>

section \<open>The interface of a stack of scopes\<close>

text \<open>
  What the transformers rely on: entering pushes a fresh token, leaving with the token of the
  top scope restores the stack that was there before entering.
\<close>

locale scope_stack =
  fixes inv :: "'s \<Rightarrow> bool"
    and stack :: "'s \<Rightarrow> 'tok list"
    and enter :: "'s \<Rightarrow> 'tok \<times> 's"
    and leave :: "'tok \<Rightarrow> 's \<Rightarrow> 's"
  assumes enter_inv: "inv s \<Longrightarrow> enter s = (t, s') \<Longrightarrow> inv s'"
    and enter_push: "inv s \<Longrightarrow> enter s = (t, s') \<Longrightarrow> stack s' = stack s @ [t]"
    and enter_fresh: "inv s \<Longrightarrow> enter s = (t, s') \<Longrightarrow> t \<notin> set (stack s)"
    and leave_inv: "inv s \<Longrightarrow> inv (leave t s)"
    and leave_top: "inv s \<Longrightarrow> stack s = ts @ [t] \<Longrightarrow> stack (leave t s) = ts"
begin

lemma inv_distinct_push:
  "inv s \<Longrightarrow> enter s = (t, s') \<Longrightarrow> distinct (stack s) \<Longrightarrow> distinct (stack s')"
  using enter_push enter_fresh by auto

lemma bracket:
  assumes "inv s" "enter s = (t, s1)" "inv s2" "stack s2 = stack s1"
  shows "stack (leave t s2) = stack s"
  using assms enter_push leave_top by metis

lemma bracket_inv:
  assumes "inv s" "enter s = (t, s1)" "inv s1 \<Longrightarrow> inv s2"
  shows "inv (leave t s2)"
  using assms enter_inv leave_inv by metis

end

text \<open>
  A stronger contract: leaving also closes the scopes that were opened above the token and
  never left, so that a caller restores its stack whatever its callees forgot.
\<close>

locale resilient_scope_stack = scope_stack +
  assumes leave_through: "inv s \<Longrightarrow> stack s = ts @ [t] @ us \<Longrightarrow> stack (leave t s) = ts"
begin

lemma bracket_resilient:
  assumes "inv s" "enter s = (t, s1)" "inv s2" "stack s2 = stack s1 @ us"
  shows "stack (leave t s2) = stack s"
  using assms enter_push leave_through by (metis append_assoc)

end

section \<open>The fragment context\<close>

record ColumnInfo =
  ciName :: string
  ciType :: string
  ciTableAlias :: string
  ciExpression :: "SQLExpression option"
  ciID :: int

record ScopeToken =
  tokId :: int
  tokStartSize :: int

definition ScopeToken_ID :: "ScopeToken \<Rightarrow> string" where
  "ScopeToken_ID t = sprintInt (tokId t)"

record FragmentContext =
  columnMap :: "(int \<times> SQLExpression) list"
  availableColumns :: "(int \<times> ColumnInfo) list"
  columnData :: "(int \<times> ColumnData) list"
  scopes :: "ScopeToken list"
  count :: int
  columnIDToScope :: "(int \<times> string) list"

definition NewFragmentContext :: FragmentContext where
  "NewFragmentContext =
     \<lparr>columnMap = [], availableColumns = [], columnData = [], scopes = [], count = 0,
      columnIDToScope = []\<rparr>"

definition newColumnInfo :: ColumnInfo where
  "newColumnInfo = \<lparr>ciName = [], ciType = [], ciTableAlias = [], ciExpression = None, ciID = 0\<rparr>"

definition AddAvailableColumn :: "int \<Rightarrow> ColumnInfo \<Rightarrow> FragmentContext \<Rightarrow> FragmentContext" where
  "AddAvailableColumn columnID info fc =
     fc\<lparr>availableColumns := AList.update columnID info (availableColumns fc),
        columnMap := AList.update columnID
          (case ciExpression info of
             Some e \<Rightarrow> e
           | None \<Rightarrow> SQLExpression ExpressionTypeColumn (ciName info) None None None None None None
               None [] [] [])
          (columnMap fc)\<rparr>"

definition RegisterColumnScope :: "int \<Rightarrow> string \<Rightarrow> FragmentContext \<Rightarrow> FragmentContext" where
  "RegisterColumnScope columnID scopeAlias fc =
     fc\<lparr>columnIDToScope := AList.update columnID scopeAlias (columnIDToScope fc)\<rparr>"

definition generateIDBasedAlias :: "string \<Rightarrow> int \<Rightarrow> string" where
  "generateIDBasedAlias columnName columnID = columnName @ ''__'' @ sprintInt columnID"

definition RegisterColumnScopeMapping ::
  "string \<Rightarrow> ColumnData list \<Rightarrow> FragmentContext \<Rightarrow> FragmentContext" where
  "RegisterColumnScopeMapping scopeAlias columns fc =
     fold (\<lambda>col fc.
         fc\<lparr>columnIDToScope := AList.update (cdaID col) scopeAlias (columnIDToScope fc),
            availableColumns := AList.update (cdaID col)
              (newColumnInfo\<lparr>ciName := generateIDBasedAlias (cdaName col) (cdaID col),
                 ciID := cdaID col\<rparr>)
              (availableColumns fc)\<rparr>)
       columns fc"

text \<open>\<open>scanData.TableScan\<close> is dereferenced in the loop: with columns, nil panics.\<close>

definition AddAvailableColumnsForDML ::
  "('t, 'v) ScanData \<Rightarrow> FragmentContext \<Rightarrow> FragmentContext go" where
  "AddAvailableColumnsForDML scanData fc =
     fold (\<lambda>col r. go_bind r (\<lambda>fc.
         case scTableScan scanData of
           None \<Rightarrow> panic ''invalid memory address or nil pointer dereference''
         | Some ts \<Rightarrow>
             ok (AddAvailableColumn (cdaID col)
               (newColumnInfo\<lparr>ciName := cdaName col,
                  ciExpression := Some (NewColumnExpression (cdaName col) [])\<rparr>)
               (RegisterColumnScope (cdaID col) (tsdTableName ts) fc))))
       (scColumnList scanData) (ok fc)"

definition GetID :: "FragmentContext \<Rightarrow> string" where
  "GetID fc = (if scopes fc = [] then ''0'' else ScopeToken_ID (last (scopes fc)))"

definition EnterScope :: "FragmentContext \<Rightarrow> ScopeToken \<times> FragmentContext" where
  "EnterScope fc =
     (let n = count fc + 1;
          token = \<lparr>tokId = n, tokStartSize = int (length (columnMap fc))\<rparr>
      in (token, fc\<lparr>count := n, scopes := scopes fc @ [token]\<rparr>))"

text \<open>The loop from the top of the stack down to the scope with the token's identifier.\<close>

fun cutScopes :: "ScopeToken \<Rightarrow> ScopeToken list \<Rightarrow> nat \<Rightarrow> ScopeToken list" where
  "cutScopes token ss 0 = ss"
| "cutScopes token ss (Suc i) =
     (if ScopeToken_ID (ss ! i) = ScopeToken_ID token then take i ss else cutScopes token ss i)"

definition ExitScope :: "ScopeToken \<Rightarrow> FragmentContext \<Rightarrow> FragmentContext" where
  "ExitScope token fc = fc\<lparr>scopes := cutScopes token (scopes fc) (length (scopes fc))\<rparr>"

definition GetQualifiedColumnRef :: "int \<Rightarrow> FragmentContext \<Rightarrow> (string \<times> string) go" where
  "GetQualifiedColumnRef columnID fc =
     (case map_of (columnIDToScope fc) columnID of
        Some scopeAlias \<Rightarrow>
          (case map_of (availableColumns fc) columnID of
             None \<Rightarrow> ok ([], [])
           | Some info \<Rightarrow> ok (ciName info, scopeAlias))
      | None \<Rightarrow>
          panic (''column id '' @ sprintInt columnID @ '' not found in fragment context. ''
            @ ''transformers must add columns before getting qualified refs''))"

definition GetQualifiedColumnExpression :: "int \<Rightarrow> FragmentContext \<Rightarrow> SQLExpression go" where
  "GetQualifiedColumnExpression columnID fc =
     go_bind (GetQualifiedColumnRef columnID fc) (\<lambda>(name, _). ok (NewColumnExpression name []))"

section \<open>The transform context\<close>

record TransformContext =
  fragmentContext :: FragmentContext
  configDebug :: bool
  withMappings :: "(string \<times> string list) list"
  recursiveCTEName :: string

definition NewTransformContext :: "bool \<Rightarrow> TransformContext" where
  "NewTransformContext debug =
     \<lparr>fragmentContext = NewFragmentContext, configDebug = debug, withMappings = [],
      recursiveCTEName = []\<rparr>"

definition WithFragmentContext :: "FragmentContext \<Rightarrow> TransformContext \<Rightarrow> TransformContext" where
  "WithFragmentContext fc c = c\<lparr>fragmentContext := fc\<rparr>"

definition AddWithEntryColumnMapping ::
  "string \<Rightarrow> ColumnData list \<Rightarrow> TransformContext \<Rightarrow> TransformContext" where
  "AddWithEntryColumnMapping name columns c =
     c\<lparr>withMappings := AList.update name
        (map (\<lambda>col. generateIDBasedAlias (cdaName col) (cdaID col)) columns) (withMappings c)\<rparr>"

definition GetWithEntryMapping :: "string \<Rightarrow> TransformContext \<Rightarrow> string list option" where
  "GetWithEntryMapping name c = map_of (withMappings c) name"

definition SetRecursiveCTEName :: "string \<Rightarrow> TransformContext \<Rightarrow> TransformContext" where
  "SetRecursiveCTEName name c = c\<lparr>recursiveCTEName := name\<rparr>"

definition GetRecursiveCTEName :: "TransformContext \<Rightarrow> string" where
  "GetRecursiveCTEName c = recursiveCTEName c"

section \<open>The scope manager\<close>

text \<open>A scope points to its parent: the list of the identifiers of its ancestors, nearest first.\<close>

record Scope =
  scopeID :: int
  scopeVariables :: "(string \<times> SQLExpression) list"
  scopeParents :: "int list"

record ScopeManager =
  smCount :: int
  smScopes :: "Scope list"

definition NewScopeManager :: ScopeManager where
  "NewScopeManager = \<lparr>smCount = 0, smScopes = []\<rparr>"

definition ScopeManager_EnterScope :: "ScopeManager \<Rightarrow> Scope \<times> ScopeManager" where
  "ScopeManager_EnterScope sm =
     (let parents = (if smScopes sm = [] then []
                     else scopeID (last (smScopes sm)) # scopeParents (last (smScopes sm)));
          n = smCount sm + 1;
          scope = \<lparr>scopeID = n, scopeVariables = [], scopeParents = parents\<rparr>
      in (scope, sm\<lparr>smCount := n, smScopes := smScopes sm @ [scope]\<rparr>))"

definition ScopeManager_ExitScope :: "ScopeManager \<Rightarrow> ScopeManager" where
  "ScopeManager_ExitScope sm =
     (if smScopes sm \<noteq> [] then sm\<lparr>smScopes := butlast (smScopes sm)\<rparr> else sm)"

definition CurrentScope :: "ScopeManager \<Rightarrow> Scope option" where
  "CurrentScope sm = (if smScopes sm = [] then None else Some (last (smScopes sm)))"

section \<open>The scopes of a fragment context\<close>

text \<open>The identifiers on the stack are positive, increasing and not above the counter.\<close>

definition scopesOk :: "FragmentContext \<Rightarrow> bool" where
  "scopesOk fc \<longleftrightarrow> sorted_wrt (<) (map tokId (scopes fc)) \<and> (\<forall>t \<in> set (scopes fc). tokId t \<le> count fc)"

lemma ScopeToken_ID_eq: "ScopeToken_ID s = ScopeToken_ID t \<longleftrightarrow> tokId s = tokId t"
  by (simp add: ScopeToken_ID_def sprintInt_inj)

lemma le_plus_one: "(a::int) \<le> b \<Longrightarrow> a \<le> b + 1"
  by simp

lemma scopesOk_new: "scopesOk NewFragmentContext"
  by (simp add: scopesOk_def NewFragmentContext_def)

lemma scopesOk_EnterScope: "scopesOk fc \<Longrightarrow> EnterScope fc = (t, fc') \<Longrightarrow> scopesOk fc'"
  by (auto simp: scopesOk_def EnterScope_def Let_def sorted_wrt_append le_plus_one intro: le_less_trans)

lemma cutScopes_take: "\<exists>k. cutScopes t ss i = take k ss"
  by (induction i) (auto intro: exI [of _ "length ss"])

lemma cutScopes_skip:
  "(\<And>j. n \<le> j \<Longrightarrow> j < n + i \<Longrightarrow> ScopeToken_ID (ss ! j) \<noteq> ScopeToken_ID t) \<Longrightarrow>
   cutScopes t ss (n + i) = cutScopes t ss n"
  by (induction i) auto

lemma cutScopes_found:
  assumes "ss = ts @ [t] @ us" "\<forall>u \<in> set us. tokId u \<noteq> tokId t"
  shows "cutScopes t ss (length ss) = ts"
proof -
  have "cutScopes t ss (Suc (length ts) + length us) = cutScopes t ss (Suc (length ts))"
  proof (rule cutScopes_skip)
    fix j assume "Suc (length ts) \<le> j" "j < Suc (length ts) + length us"
    then have "ss ! j = us ! (j - Suc (length ts))" "us ! (j - Suc (length ts)) \<in> set us"
      using assms(1) by (auto simp: nth_append nth_Cons')
    then show "ScopeToken_ID (ss ! j) \<noteq> ScopeToken_ID t"
      using assms(2) by (simp add: ScopeToken_ID_eq)
  qed
  then show ?thesis using assms(1) by (simp add: nth_append)
qed

lemma scopesOk_ExitScope: "scopesOk fc \<Longrightarrow> scopesOk (ExitScope t fc)"
proof -
  assume ok: "scopesOk fc"
  obtain k where k: "scopes (ExitScope t fc) = take k (scopes fc)"
    using cutScopes_take [of t "scopes fc" "length (scopes fc)"] by (auto simp: ExitScope_def)
  have "count (ExitScope t fc) = count fc" by (simp add: ExitScope_def)
  with ok k show ?thesis
    by (auto simp: scopesOk_def take_map [symmetric] sorted_wrt_take dest: in_set_takeD)
qed

interpretation fragmentScopes:
  resilient_scope_stack scopesOk scopes EnterScope ExitScope
proof unfold_locales
  fix s s' :: FragmentContext and t ts us
  show "scopesOk s \<Longrightarrow> EnterScope s = (t, s') \<Longrightarrow> scopesOk s'"
    by (rule scopesOk_EnterScope)
  show "scopesOk s \<Longrightarrow> EnterScope s = (t, s') \<Longrightarrow> scopes s' = scopes s @ [t]"
    by (auto simp: EnterScope_def Let_def)
  show "scopesOk s \<Longrightarrow> EnterScope s = (t, s') \<Longrightarrow> t \<notin> set (scopes s)"
    by (auto simp: EnterScope_def Let_def scopesOk_def)
  show "scopesOk s \<Longrightarrow> scopesOk (ExitScope t s)" by (rule scopesOk_ExitScope)
  show through: "scopes (ExitScope t s) = ts" if "scopesOk s" "scopes s = ts @ [t] @ us" for us
  proof -
    have "\<forall>u \<in> set us. tokId u \<noteq> tokId t"
      using that by (auto simp: scopesOk_def sorted_wrt_append)
    then show ?thesis using cutScopes_found [OF that(2)] by (simp add: ExitScope_def)
  qed
  show "scopesOk s \<Longrightarrow> scopes s = ts @ [t] \<Longrightarrow> scopes (ExitScope t s) = ts"
    using through [of "[]"] by simp
qed

text \<open>The scope manager satisfies the basic contract; its identifiers are fresh the same way.\<close>

definition managerOk :: "ScopeManager \<Rightarrow> bool" where
  "managerOk sm \<longleftrightarrow> (\<forall>s \<in> set (smScopes sm). scopeID s \<le> smCount sm)"

interpretation managerScopes:
  scope_stack managerOk smScopes ScopeManager_EnterScope "\<lambda>_. ScopeManager_ExitScope"
proof unfold_locales
  fix s s' :: ScopeManager and t ts
  show "managerOk s \<Longrightarrow> ScopeManager_EnterScope s = (t, s') \<Longrightarrow> managerOk s'"
    by (auto simp: managerOk_def ScopeManager_EnterScope_def Let_def le_plus_one)
  show "managerOk s \<Longrightarrow> ScopeManager_EnterScope s = (t, s') \<Longrightarrow> smScopes s' = smScopes s @ [t]"
    by (auto simp: ScopeManager_EnterScope_def Let_def)
  show "managerOk s \<Longrightarrow> ScopeManager_EnterScope s = (t, s') \<Longrightarrow> t \<notin> set (smScopes s)"
    by (auto simp: ScopeManager_EnterScope_def Let_def managerOk_def)
  show "managerOk s \<Longrightarrow> managerOk (ScopeManager_ExitScope s)"
    by (auto simp: managerOk_def ScopeManager_ExitScope_def dest: in_set_butlastD)
  show "managerOk s \<Longrightarrow> smScopes s = ts @ [t] \<Longrightarrow> smScopes (ScopeManager_ExitScope s) = ts"
    by (simp add: ScopeManager_ExitScope_def)
qed

section \<open>Column aliases\<close>

text \<open>The alias determines the column: the digits after the last underscore are its identifier.\<close>

text \<open>The identifier-based alias determines the column: two columns with the same alias have the
  same name and identifier, whatever underscores and digits the name contains.\<close>

theorem generateIDBasedAlias_inj:
  "generateIDBasedAlias n i = generateIDBasedAlias m j \<longleftrightarrow> n = m \<and> i = j"
proof
  assume eq: "generateIDBasedAlias n i = generateIDBasedAlias m j"
  have free: "CHR ''_'' \<notin> set (sprintInt k)" for k
    using sprintInt_chars [of "CHR ''_''" k] by auto
  have "(n @ ''_'') @ [CHR ''_''] @ sprintInt i = (m @ ''_'') @ [CHR ''_''] @ sprintInt j"
    using eq by (simp add: generateIDBasedAlias_def)
  from last_separator_unique [OF this free free]
  show "n = m \<and> i = j" by (auto simp: sprintInt_inj)
qed simp

lemma map_of_RegisterColumnScopeMapping:
  "map_of (columnIDToScope (RegisterColumnScopeMapping a cols fc)) k
     = (if k \<in> cdaID ` set cols then Some a else map_of (columnIDToScope fc) k)"
  unfolding RegisterColumnScopeMapping_def
  by (induction cols arbitrary: fc) (auto simp: update_conv' fun_upd_apply)

lemma available_RegisterColumnScopeMapping:
  "map_of (availableColumns (RegisterColumnScopeMapping a cols fc)) k
     = (case find (\<lambda>c. cdaID c = k) (rev cols) of
          Some c \<Rightarrow> Some (newColumnInfo\<lparr>ciName := generateIDBasedAlias (cdaName c) (cdaID c),
                 ciID := cdaID c\<rparr>)
        | None \<Rightarrow> map_of (availableColumns fc) k)"
  unfolding RegisterColumnScopeMapping_def
proof (induction cols arbitrary: fc)
  case (Cons c cols)
  have "find P (xs @ [c]) = (case find P xs of Some x \<Rightarrow> Some x | None \<Rightarrow> if P c then Some c else None)" for P xs
    by (induction xs) auto
  then show ?case using Cons.IH by (simp add: update_conv' fun_upd_apply split: option.split)
qed simp

end
