(* ===== verification/Transform_Base.thy ===== *)
theory Transform_Base
  imports Query_Context
begin

text \<open>
  What all transformers share: the state and error monad of a transformation, the interface
  \<open>Coordinator\<close> (\<open>internal/types_interfaces.go\<close>) through which they call each other, the
  parameters of the model, and the contract that a transformation leaves the scope stack as it
  found it.

  A transformation takes the transform context and returns a result with the changed context, or
  an error; the context of a failed transformation is never used again. The parameters are what
  the transformers take from the go-zetasql and JSON libraries, from the value encoder and from
  the function catalog, and the order in which the runtime ranges over a map.
\<close>

section \<open>The monad\<close>

type_synonym 'a tm = "TransformContext \<Rightarrow> ('a \<times> TransformContext) go"

definition treturn :: "'a \<Rightarrow> 'a tm" where
  "treturn x ctx = ok (x, ctx)"

definition tbind :: "'a tm \<Rightarrow> ('a \<Rightarrow> 'b tm) \<Rightarrow> 'b tm" where
  "tbind m f ctx = (case m ctx of Inl e \<Rightarrow> Inl e | Inr (x, ctx') \<Rightarrow> f x ctx')"

definition tfail :: "string \<Rightarrow> 'a tm" where
  "tfail msg ctx = fail_with msg"

definition tlift :: "'a go \<Rightarrow> 'a tm" where
  "tlift r ctx = go_bind r (\<lambda>x. ok (x, ctx))"

definition tread :: "(TransformContext \<Rightarrow> 'a) \<Rightarrow> 'a tm" where
  "tread f ctx = ok (f ctx, ctx)"

definition tmodify :: "(TransformContext \<Rightarrow> TransformContext) \<Rightarrow> unit tm" where
  "tmodify f ctx = ok ((), f ctx)"

text \<open>\<open>fmt.Errorf("msg: %w", err)\<close>; a panic is not an error value and passes.\<close>

definition wrapError :: "string \<Rightarrow> 'a go \<Rightarrow> 'a go" where
  "wrapError msg r = (case r of Inl (GoErr e) \<Rightarrow> Inl (GoErr (msg @ '': '' @ e)) | _ \<Rightarrow> r)"

definition twrap :: "string \<Rightarrow> 'a tm \<Rightarrow> 'a tm" where
  "twrap msg m ctx = wrapError msg (m ctx)"

fun tmapM :: "('a \<Rightarrow> 'b tm) \<Rightarrow> 'a list \<Rightarrow> 'b list tm" where
  "tmapM f [] = treturn []"
| "tmapM f (x # xs) = tbind (f x) (\<lambda>y. tbind (tmapM f xs) (\<lambda>ys. treturn (y # ys)))"

text \<open>A range loop that only runs for its effect.\<close>

fun tforM :: "'a list \<Rightarrow> ('a \<Rightarrow> unit tm) \<Rightarrow> unit tm" where
  "tforM [] f = treturn ()"
| "tforM (x # xs) f = tbind (f x) (\<lambda>_. tforM xs f)"

definition toption :: "('a \<Rightarrow> 'b tm) \<Rightarrow> 'a option \<Rightarrow> 'b option tm" where
  "toption f p = (case p of None \<Rightarrow> treturn None | Some x \<Rightarrow> tbind (f x) (\<lambda>y. treturn (Some y)))"

definition nilDeref :: "'a go" where
  "nilDeref = panic ''invalid memory address or nil pointer dereference''"

definition tderef :: "'a option \<Rightarrow> 'a tm" where
  "tderef p = tlift (case p of None \<Rightarrow> nilDeref | Some x \<Rightarrow> ok x)"

text \<open>The operations of the fragment context, \<open>ctx.FragmentContext().M(...)\<close>.\<close>

definition onFragment :: "(FragmentContext \<Rightarrow> FragmentContext) \<Rightarrow> unit tm" where
  "onFragment f = tmodify (\<lambda>ctx. ctx\<lparr>fragmentContext := f (fragmentContext ctx)\<rparr>)"

definition fragmentID :: "string tm" where
  "fragmentID = tread (\<lambda>ctx. GetID (fragmentContext ctx))"

definition qualifiedColumn :: "int \<Rightarrow> SQLExpression tm" where
  "qualifiedColumn columnID ctx =
     go_bind (GetQualifiedColumnExpression columnID (fragmentContext ctx)) (\<lambda>e. ok (e, ctx))"

definition qualifiedRef :: "int \<Rightarrow> (string \<times> string) tm" where
  "qualifiedRef columnID ctx =
     go_bind (GetQualifiedColumnRef columnID (fragmentContext ctx)) (\<lambda>e. ok (e, ctx))"

text \<open>\<open>token := EnterScope(); defer ExitScope(token)\<close>\<close>

definition inScope :: "'a tm \<Rightarrow> 'a tm" where
  "inScope m ctx =
     (let (token, fc) = EnterScope (fragmentContext ctx) in
      case m (ctx\<lparr>fragmentContext := fc\<rparr>) of
        Inl e \<Rightarrow> Inl e
      | Inr (x, ctx') \<Rightarrow> ok (x, ctx'\<lparr>fragmentContext := ExitScope token (fragmentContext ctx')\<rparr>))"

section \<open>The coordinator interface and the parameters\<close>

record ('t, 'v) Coordinator =
  TransformExpression :: "('t, 'v) ExpressionData \<Rightarrow> SQLExpression tm"
  TransformStatement :: "('t, 'v) StatementData \<Rightarrow> SQLFragment tm"
  TransformScan :: "('t, 'v) ScanData \<Rightarrow> FromItem tm"
  TransformWithEntry :: "('t, 'v) ScanData \<Rightarrow> SelectStatement WithClause tm"

text \<open>
  \<^item> \<open>envLiteral\<close>: \<open>LiteralFromValue\<close>; \<open>envStringLiteral\<close> and \<open>envInt64Literal\<close>:
    \<open>NewLiteralExpressionFromGoValue\<close> of a string and of an integer;
  \<^item> \<open>envPrimitiveValue\<close>: the value is an \<open>IntValue\<close>, \<open>FloatValue\<close>, \<open>BoolValue\<close> or \<open>StringValue\<close>;
    \<open>envPrimitiveType\<close>: one of the \<open>Is...\<close> tests of the type holds;
  \<^item> \<open>envTypeJSON\<close>: \<open>json.Marshal(newType(t))\<close>;
  \<^item> \<open>envFuncMap\<close>: \<open>funcMapFromContext\<close> with \<open>CallSQL\<close> of what it holds;
    \<open>envCurrentTime\<close>: \<open>CurrentTime\<close> in nanoseconds;
  \<^item> \<open>envRange\<close>: the order of the range loop over \<open>groupByMap\<close>; \<open>envMergeRange\<close>: the order of the
    range loop over a column mapping of MERGE, for each loop named by its path: Go leaves the order
    of every single loop open;
  \<^item> \<open>envMatchTypeName\<close> and \<open>envActionTypeName\<close>: how \<open>%v\<close> prints the library's enumerations.
\<close>

record ('t, 'v) Env =
  envLiteral :: "'v option \<Rightarrow> string go"
  envStringLiteral :: "string \<Rightarrow> string go"
  envInt64Literal :: "int \<Rightarrow> string go"
  envPrimitiveValue :: "'v \<Rightarrow> bool"
  envPrimitiveType :: "'t \<Rightarrow> bool"
  envTypeJSON :: "'t option \<Rightarrow> string go"
  envFuncMap :: "string \<Rightarrow>
    (('t, ('t, 'v) ExpressionData) FunctionCallData \<Rightarrow> SQLExpression list \<Rightarrow> SQLExpression go) option"
  envCurrentTime :: "int option"
  envRange :: "(int \<times> SQLExpression) list \<Rightarrow> (int \<times> SQLExpression) list"
  envMergeRange :: "nat list \<Rightarrow> (ColumnData \<times> string) list \<Rightarrow> (ColumnData \<times> string) list"
  envMatchTypeName :: "AstMatchType \<Rightarrow> string"
  envActionTypeName :: "AstActionType \<Rightarrow> string"

section \<open>Setting fields\<close>

definition setCollation :: "string \<Rightarrow> SQLExpression \<Rightarrow> SQLExpression" where
  "setCollation c e = (case e of SQLExpression ty v le ue be fc sq ce ex al ta co \<Rightarrow>
     SQLExpression ty v le ue be fc sq ce ex al ta c)"

definition zetasqlite_collate :: string where
  "zetasqlite_collate = ''zetasqlite_collate''"

definition simpleSelect ::
  "SQLExpression SelectListItem list \<Rightarrow> FromItem option \<Rightarrow> SelectStatement" where
  "simpleSelect items fr =
     SelectStatement [] SelectTypeStandard items [] [] fr None [] None [] None None []"

definition selectItem :: "SQLExpression \<Rightarrow> string \<Rightarrow> SQLExpression SelectListItem" where
  "selectItem e alias = SelectListItem (Some e) alias False [] []"

definition setWhereClause :: "SelectStatement \<Rightarrow> SQLExpression option \<Rightarrow> SelectStatement" where
  "setWhereClause s wh = (case s of
     SelectStatement wcs st sl ast avt fr _ gb hv ob lim so hints \<Rightarrow>
       SelectStatement wcs st sl ast avt fr wh gb hv ob lim so hints)"

definition setGroupBy :: "SelectStatement \<Rightarrow> SQLExpression list \<Rightarrow> SelectStatement" where
  "setGroupBy s gb = (case s of
     SelectStatement wcs st sl ast avt fr wh _ hv ob lim so hints \<Rightarrow>
       SelectStatement wcs st sl ast avt fr wh gb hv ob lim so hints)"

definition setOrderBy :: "SelectStatement \<Rightarrow> SQLExpression OrderByItem list \<Rightarrow> SelectStatement" where
  "setOrderBy s ob = (case s of
     SelectStatement wcs st sl ast avt fr wh gb hv _ lim so hints \<Rightarrow>
       SelectStatement wcs st sl ast avt fr wh gb hv ob lim so hints)"

definition setLimit :: "SelectStatement \<Rightarrow> SQLExpression LimitClause option \<Rightarrow> SelectStatement" where
  "setLimit s lim = (case s of
     SelectStatement wcs st sl ast avt fr wh gb hv ob _ so hints \<Rightarrow>
       SelectStatement wcs st sl ast avt fr wh gb hv ob lim so hints)"

definition setWithClauses :: "SelectStatement \<Rightarrow> SelectStatement WithClause list \<Rightarrow> SelectStatement" where
  "setWithClauses s wcs = (case s of
     SelectStatement _ st sl ast avt fr wh gb hv ob lim so hints \<Rightarrow>
       SelectStatement wcs st sl ast avt fr wh gb hv ob lim so hints)"

definition setSelectList ::
  "SelectStatement \<Rightarrow> SQLExpression SelectListItem list \<Rightarrow> SelectStatement" where
  "setSelectList s sl = (case s of
     SelectStatement wcs st _ ast avt fr wh gb hv ob lim so hints \<Rightarrow>
       SelectStatement wcs st sl ast avt fr wh gb hv ob lim so hints)"

text \<open>\<open>NewSelectStatement()\<close> with its set operation and WITH clauses.\<close>

definition setOperationSelect ::
  "SelectStatement WithClause list \<Rightarrow> SelectStatement SetOperation \<Rightarrow> SelectStatement" where
  "setOperationSelect wcs so =
     SelectStatement wcs SelectTypeStandard [] [] [] None None [] None [] None (Some so) []"

definition subqueryFrom :: "SelectStatement \<Rightarrow> string \<Rightarrow> FromItem" where
  "subqueryFrom s alias = NewSubqueryFromItem (Some s) alias"

definition joinFrom :: "(FromItem, SQLExpression) JoinClause \<Rightarrow> FromItem" where
  "joinFrom j = FromItem FromItemTypeJoin [] [] None (Some j) [] None None []"

definition tableFrom :: "string \<Rightarrow> string \<Rightarrow> FromItem" where
  "tableFrom table alias = FromItem FromItemTypeTable table alias None None [] None None []"

section \<open>Transformations that keep the scopes\<close>

named_theorems keep_intros "closure rules of the transformations that keep the scope stack"

text \<open>
  A successful transformation leaves the stack of open scopes as it was, keeps its invariant and
  never lowers the counter from which the identifiers come.
\<close>

definition keepsScopes :: "'a tm \<Rightarrow> bool" where
  "keepsScopes m \<longleftrightarrow>
     (\<forall>ctx x ctx'. scopesOk (fragmentContext ctx) \<longrightarrow> m ctx = ok (x, ctx') \<longrightarrow>
        scopesOk (fragmentContext ctx')
        \<and> scopes (fragmentContext ctx') = scopes (fragmentContext ctx)
        \<and> count (fragmentContext ctx) \<le> count (fragmentContext ctx'))"

lemma keepsScopesI:
  "(\<And>ctx x ctx'. scopesOk (fragmentContext ctx) \<Longrightarrow> m ctx = ok (x, ctx') \<Longrightarrow>
      scopesOk (fragmentContext ctx')
      \<and> scopes (fragmentContext ctx') = scopes (fragmentContext ctx)
      \<and> count (fragmentContext ctx) \<le> count (fragmentContext ctx')) \<Longrightarrow> keepsScopes m"
  unfolding keepsScopes_def by blast

lemma keepsScopesD:
  "keepsScopes m \<Longrightarrow> scopesOk (fragmentContext ctx) \<Longrightarrow> m ctx = ok (x, ctx') \<Longrightarrow>
      scopesOk (fragmentContext ctx')
      \<and> scopes (fragmentContext ctx') = scopes (fragmentContext ctx)
      \<and> count (fragmentContext ctx) \<le> count (fragmentContext ctx')"
  unfolding keepsScopes_def by blast

lemma keeps_return [keep_intros]: "keepsScopes (treturn x)"
  by (simp add: keepsScopes_def treturn_def)

lemma keeps_fail [keep_intros]: "keepsScopes (tfail msg)"
  by (simp add: keepsScopes_def tfail_def)

lemma keeps_lift [keep_intros]: "keepsScopes (tlift r)"
  by (cases r) (simp_all add: keepsScopes_def tlift_def)

lemma keeps_deref [keep_intros]: "keepsScopes (tderef p)"
  by (simp add: tderef_def keeps_lift)

lemma keeps_read [keep_intros]: "keepsScopes (tread f)"
  by (simp add: keepsScopes_def tread_def)

lemma keeps_bind [keep_intros]:
  assumes "keepsScopes m" "\<And>x. keepsScopes (f x)"
  shows "keepsScopes (tbind m f)"
proof (rule keepsScopesI)
  fix ctx y ctx'
  assume ok: "scopesOk (fragmentContext ctx)" and run: "tbind m f ctx = ok (y, ctx')"
  obtain x mid where m: "m ctx = ok (x, mid)" and f: "f x mid = ok (y, ctx')"
    using run by (auto simp: tbind_def split: sum.splits)
  show "scopesOk (fragmentContext ctx')
      \<and> scopes (fragmentContext ctx') = scopes (fragmentContext ctx)
      \<and> count (fragmentContext ctx) \<le> count (fragmentContext ctx')"
    using keepsScopesD [OF assms(1) ok m] keepsScopesD [OF assms(2) _ f] by auto
qed

lemma keeps_wrap [keep_intros]: "keepsScopes m \<Longrightarrow> keepsScopes (twrap msg m)"
proof (rule keepsScopesI)
  fix ctx x ctx'
  assume "keepsScopes m" "scopesOk (fragmentContext ctx)" "twrap msg m ctx = ok (x, ctx')"
  moreover have "m ctx = ok (x, ctx')"
    using calculation(3) by (cases "m ctx") (auto simp: twrap_def wrapError_def split: go_error.splits)
  ultimately show "scopesOk (fragmentContext ctx')
      \<and> scopes (fragmentContext ctx') = scopes (fragmentContext ctx)
      \<and> count (fragmentContext ctx) \<le> count (fragmentContext ctx')"
    by (rule_tac keepsScopesD)
qed

lemma keeps_mapM [keep_intros]: "(\<And>x. keepsScopes (f x)) \<Longrightarrow> keepsScopes (tmapM f xs)"
  by (induction xs) (auto intro!: keep_intros)

lemma keeps_forM [keep_intros]: "(\<And>x. keepsScopes (f x)) \<Longrightarrow> keepsScopes (tforM xs f)"
  by (induction xs) (auto intro!: keep_intros)

lemma keeps_option [keep_intros]: "(\<And>x. keepsScopes (f x)) \<Longrightarrow> keepsScopes (toption f p)"
  by (cases p) (auto simp: toption_def intro!: keep_intros)

lemma keeps_qualified [keep_intros]: "keepsScopes (qualifiedColumn i)" "keepsScopes (qualifiedRef i)"
  by (auto simp: keepsScopes_def qualifiedColumn_def qualifiedRef_def go_bind_Inr_iff)

lemma keeps_fragmentID [keep_intros]: "keepsScopes fragmentID"
  by (simp add: fragmentID_def keeps_read)

lemma keeps_modify:
  "(\<And>ctx. fragmentContext (f ctx) = fragmentContext ctx) \<Longrightarrow> keepsScopes (tmodify f)"
  by (simp add: keepsScopes_def tmodify_def)

lemma keeps_onFragment:
  "(\<And>fc. scopes (f fc) = scopes fc \<and> count (f fc) = count fc) \<Longrightarrow> keepsScopes (onFragment f)"
  by (simp add: keepsScopes_def onFragment_def tmodify_def scopesOk_def)

text \<open>A scoped block keeps the stack by the contract of the fragment context's scopes.\<close>

lemma count_ExitScope [simp]: "count (ExitScope t fc) = count fc"
  by (simp add: ExitScope_def)

lemma keeps_inScope [keep_intros]:
  assumes "keepsScopes m"
  shows "keepsScopes (inScope m)"
proof (rule keepsScopesI)
  fix ctx x ctx'
  assume ok: "scopesOk (fragmentContext ctx)" and run: "inScope m ctx = ok (x, ctx')"
  obtain t fc where enter: "EnterScope (fragmentContext ctx) = (t, fc)" by (cases "EnterScope (fragmentContext ctx)")
  with run obtain c2 where m: "m (ctx\<lparr>fragmentContext := fc\<rparr>) = ok (x, c2)"
    and out: "fragmentContext ctx' = ExitScope t (fragmentContext c2)"
    by (auto simp: inScope_def split: sum.splits)
  have fc: "scopesOk fc" by (rule fragmentScopes.enter_inv [OF ok enter])
  then have c2: "scopesOk (fragmentContext c2)" "scopes (fragmentContext c2) = scopes fc"
      "count fc \<le> count (fragmentContext c2)"
    using keepsScopesD [OF assms _ m] by simp_all
  have "count (fragmentContext ctx) \<le> count fc" using enter by (auto simp: EnterScope_def Let_def)
  then show "scopesOk (fragmentContext ctx')
      \<and> scopes (fragmentContext ctx') = scopes (fragmentContext ctx)
      \<and> count (fragmentContext ctx) \<le> count (fragmentContext ctx')"
    using fragmentScopes.bracket [OF ok enter c2(1,2)] fragmentScopes.leave_inv [OF c2(1), of t] c2(3)
    unfolding out by simp
qed

lemma keeps_if [keep_intros]:
  "(b \<Longrightarrow> keepsScopes m) \<Longrightarrow> (\<not> b \<Longrightarrow> keepsScopes n) \<Longrightarrow> keepsScopes (if b then m else n)"
  by simp

lemma keeps_case_option [keep_intros]:
  "keepsScopes m \<Longrightarrow> (\<And>x. keepsScopes (f x)) \<Longrightarrow> keepsScopes (case p of None \<Rightarrow> m | Some x \<Rightarrow> f x)"
  by (cases p) simp_all

lemma keeps_case_prod [keep_intros]:
  "(\<And>x y. keepsScopes (f x y)) \<Longrightarrow> keepsScopes (case p of (x, y) \<Rightarrow> f x y)"
  by (cases p) simp

lemma keeps_Let [keep_intros]: "(\<And>x. keepsScopes (f x)) \<Longrightarrow> keepsScopes (let x = t in f x)"
  by simp

lemma scopes_RegisterColumnScope [simp]:
  "scopes (RegisterColumnScope i a fc) = scopes fc" "count (RegisterColumnScope i a fc) = count fc"
  by (simp_all add: RegisterColumnScope_def)

lemma scopes_AddAvailableColumn [simp]:
  "scopes (AddAvailableColumn i a fc) = scopes fc" "count (AddAvailableColumn i a fc) = count fc"
  by (simp_all add: AddAvailableColumn_def)

lemma scopes_RegisterColumnScopeMapping [simp]:
  "scopes (RegisterColumnScopeMapping a cols fc) = scopes fc"
  "count (RegisterColumnScopeMapping a cols fc) = count fc"
  unfolding RegisterColumnScopeMapping_def by (induction cols arbitrary: fc) auto

lemma go_fold_invariant:
  assumes "\<And>c x y. g c x = ok y \<Longrightarrow> Q y = Q x"
  shows "fold (\<lambda>c r. go_bind r (g c)) cs (ok x) = ok y \<Longrightarrow> Q y = Q x"
proof (induction cs arbitrary: x)
  case (Cons c cs)
  have stuck: "fold (\<lambda>c r. go_bind r (g c)) cs (Inl e) = Inl e" for e
    by (induction cs) auto
  show ?case
  proof (cases "g c x")
    case (Inl e)
    then show ?thesis using Cons.prems stuck by simp
  next
    case (Inr z)
    then show ?thesis using Cons.prems Cons.IH [of z] assms [OF Inr] by simp
  qed
qed simp

lemma scopes_AddAvailableColumnsForDML:
  assumes "AddAvailableColumnsForDML s fc = ok fc'"
  shows "scopes fc' = scopes fc \<and> count fc' = count fc"
proof -
  have "(scopes fc', count fc') = (scopes fc, count fc)"
    by (rule go_fold_invariant [where Q = "\<lambda>fc. (scopes fc, count fc)",
          OF _ assms [unfolded AddAvailableColumnsForDML_def]])
      (auto split: option.splits)
  then show ?thesis by simp
qed

section \<open>The contract of the coordinator\<close>

text \<open>
  What a transformer relies on when it calls back into the coordinator: every one of the four
  operations keeps the scopes. The transformers prove from it that they keep them too.
\<close>

locale coordinator_contract =
  fixes c :: "('t, 'v) Coordinator"
  assumes expression_keeps: "keepsScopes (TransformExpression c e)"
    and statement_keeps: "keepsScopes (TransformStatement c d)"
    and scan_keeps: "keepsScopes (TransformScan c s)"
    and with_entry_keeps: "keepsScopes (TransformWithEntry c s)"
begin

lemmas contract_keeps = expression_keeps statement_keeps scan_keeps with_entry_keeps

end

section \<open>Numbers of the enumerations\<close>

text \<open>\<open>%v\<close> of an enumeration without a \<open>String\<close> method prints its number.\<close>

primrec exprTypeNum :: "ExpressionType \<Rightarrow> nat" where
  "exprTypeNum ExpressionTypeColumn = 0"
| "exprTypeNum ExpressionTypeLiteral = 1"
| "exprTypeNum ExpressionTypeParameter = 2"
| "exprTypeNum ExpressionTypeFunction = 3"
| "exprTypeNum ExpressionTypeList = 4"
| "exprTypeNum ExpressionTypeUnary = 5"
| "exprTypeNum ExpressionTypeBinary = 6"
| "exprTypeNum ExpressionTypeSubquery = 7"
| "exprTypeNum ExpressionTypeStar = 8"
| "exprTypeNum ExpressionTypeCase = 9"
| "exprTypeNum ExpressionTypeExists = 10"
| "exprTypeNum ExpressionTypeCast = 11"

primrec scanTypeNum :: "ScanType \<Rightarrow> nat" where
  "scanTypeNum ScanTypeTable = 0"
| "scanTypeNum ScanTypeJoin = 1"
| "scanTypeNum ScanTypeFilter = 2"
| "scanTypeNum ScanTypeProject = 3"
| "scanTypeNum ScanTypeAggregate = 4"
| "scanTypeNum ScanTypeOrderBy = 5"
| "scanTypeNum ScanTypeLimit = 6"
| "scanTypeNum ScanTypeSetOp = 7"
| "scanTypeNum ScanTypeSingleRow = 8"
| "scanTypeNum ScanTypeWith = 9"
| "scanTypeNum ScanTypeWithRef = 10"
| "scanTypeNum ScanTypeWithEntry = 11"
| "scanTypeNum ScanTypeArray = 12"
| "scanTypeNum ScanTypeAnalytic = 13"
| "scanTypeNum ScanTypeRecursive = 14"
| "scanTypeNum ScanTypeRecursiveRef = 15"

primrec stmtTypeNum :: "StatementType \<Rightarrow> nat" where
  "stmtTypeNum StatementTypeSelect = 0"
| "stmtTypeNum StatementTypeInsert = 1"
| "stmtTypeNum StatementTypeUpdate = 2"
| "stmtTypeNum StatementTypeDelete = 3"
| "stmtTypeNum StatementTypeCreate = 4"
| "stmtTypeNum StatementTypeDrop = 5"
| "stmtTypeNum StatementTypeMerge = 6"

end
