(* ===== verification/Go_Int.thy ===== *)
theory Go_Int
  imports Go_Prelude "HOL-Library.Signed_Division"
begin

text \<open>
  Go's integers: \<open>int64\<close> and \<open>int\<close> are integers whose arithmetic wraps around at 64 bits, \<open>int32\<close> one
  that wraps at 32; division and remainder truncate towards zero, which is \<open>sdiv\<close> and \<open>smod\<close>. Also
  \<open>strconv.ParseInt\<close>, \<open>strconv.ParseBool\<close> and the zero padding of \<open>fmt\<close>.
\<close>

section \<open>Wrap-around\<close>

definition wrap64 :: "int \<Rightarrow> int" where
  "wrap64 i = (i + 2 ^ 63) mod 2 ^ 64 - 2 ^ 63"

definition wrap32 :: "int \<Rightarrow> int" where
  "wrap32 i = (i + 2 ^ 31) mod 2 ^ 32 - 2 ^ 31"

definition isInt64 :: "int \<Rightarrow> bool" where
  "isInt64 i \<longleftrightarrow> - (2 ^ 63) \<le> i \<and> i < 2 ^ 63"

definition isInt32 :: "int \<Rightarrow> bool" where
  "isInt32 i \<longleftrightarrow> - (2 ^ 31) \<le> i \<and> i < 2 ^ 31"

named_theorems int64_simps "wrap-around inside sums and products"

lemma wrap64_in [simp]: "isInt64 (wrap64 i)"
  by (simp add: wrap64_def isInt64_def)

lemma wrap64_id [simp]: "isInt64 i \<Longrightarrow> wrap64 i = i"
  by (simp add: wrap64_def isInt64_def)

lemma wrap32_in [simp]: "isInt32 (wrap32 i)"
  by (simp add: wrap32_def isInt32_def)

lemma wrap32_id [simp]: "isInt32 i \<Longrightarrow> wrap32 i = i"
  by (simp add: wrap32_def isInt32_def)

lemma wrap64_wrap [simp]: "wrap64 (wrap64 i) = wrap64 i"
  by simp

text \<open>The laws are those of any modulus; the numerals stay folded in their proofs.\<close>

lemma wrap_sum:
  fixes m h :: int
  shows "((i + h) mod m - h + j + h) mod m = (i + j + h) mod m"
    and "(j + ((i + h) mod m - h) + h) mod m = (j + i + h) mod m"
    and "((i + h) mod m - h - j + h) mod m = (i - j + h) mod m"
    and "(j - ((i + h) mod m - h) + h) mod m = (j - i + h) mod m"
    and "(((i + h) mod m - h) * j + h) mod m = (i * j + h) mod m"
proof -
  show "((i + h) mod m - h + j + h) mod m = (i + j + h) mod m"
    "(j + ((i + h) mod m - h) + h) mod m = (j + i + h) mod m"
    "((i + h) mod m - h - j + h) mod m = (i - j + h) mod m"
    "(j - ((i + h) mod m - h) + h) mod m = (j - i + h) mod m"
    by (simp_all add: algebra_simps mod_simps)
  have "((i + h) mod m - h) mod m = i mod m" by (simp add: mod_simps)
  then have "(((i + h) mod m - h) * j) mod m = (i * j) mod m" by (metis mod_mult_left_eq)
  then show "(((i + h) mod m - h) * j + h) mod m = (i * j + h) mod m" by (metis mod_add_left_eq)
qed

lemma wrap64_add [int64_simps]: "wrap64 (wrap64 i + j) = wrap64 (i + j)" "wrap64 (i + wrap64 j) = wrap64 (i + j)"
  unfolding wrap64_def by (simp_all only: wrap_sum)

lemma wrap64_diff [int64_simps]: "wrap64 (wrap64 i - j) = wrap64 (i - j)" "wrap64 (i - wrap64 j) = wrap64 (i - j)"
  unfolding wrap64_def by (simp_all only: wrap_sum)

lemma wrap64_mult [int64_simps]: "wrap64 (wrap64 i * j) = wrap64 (i * j)" "wrap64 (i * wrap64 j) = wrap64 (i * j)"
proof -
  show left: "wrap64 (wrap64 i * j) = wrap64 (i * j)" for i j
    unfolding wrap64_def by (simp only: wrap_sum)
  show "wrap64 (i * wrap64 j) = wrap64 (i * j)"
    using left [of j i] by (simp only: mult.commute)
qed

section \<open>Parsing integers\<close>

definition minInt64 :: int where "minInt64 = - (2 ^ 63)"
definition maxInt64 :: int where "maxInt64 = 2 ^ 63 - 1"

text \<open>The errors of \<open>strconv\<close>; the text of the number is quoted by \<open>strconv.Quote\<close>, here a parameter.\<close>

definition numError :: "(string \<Rightarrow> string) \<Rightarrow> string \<Rightarrow> string \<Rightarrow> string \<Rightarrow> string" where
  "numError quote fn s msg = ''strconv.'' @ fn @ '': parsing '' @ quote s @ '': '' @ msg"

definition digitValue :: "char \<Rightarrow> nat option" where
  "digitValue c =
     (let n = (of_char c :: nat) in
      if 48 \<le> n \<and> n \<le> 57 then Some (n - 48)
      else if 97 \<le> n \<and> n \<le> 122 then Some (n - 97 + 10)
      else if 65 \<le> n \<and> n \<le> 90 then Some (n - 65 + 10)
      else None)"

definition lowerBit :: "char \<Rightarrow> char" where
  "lowerBit c =
     (if 65 \<le> (of_char c :: nat) \<and> (of_char c :: nat) \<le> 90 then char_of ((of_char c :: nat) + 32) else c)"

datatype numFailure = ErrSyntax | ErrRange

text \<open>The loop over the digits: underscores are skipped when the base was given as 0.\<close>

fun parseDigits :: "bool \<Rightarrow> nat \<Rightarrow> nat \<Rightarrow> string \<Rightarrow> numFailure + nat" where
  "parseDigits base0 base n [] = Inr n"
| "parseDigits base0 base n (c # s) =
     (if c = CHR ''_'' \<and> base0 then parseDigits base0 base n s
      else (case digitValue c of
              None \<Rightarrow> Inl ErrSyntax
            | Some d \<Rightarrow>
                if \<not> d < base then Inl ErrSyntax
                else if n * base + d \<ge> 2 ^ 64 then Inl ErrRange
                else parseDigits base0 base (n * base + d) s))"

text \<open>
  \<open>underscoreOK\<close>: underscores separate digits, or the base prefix from a digit. The first argument
  is the kind of the last character, the second whether the number is hexadecimal.
\<close>

datatype lastSeen = Beginning | DigitSeen | UnderscoreSeen | OtherSeen

fun underscoreLoop :: "lastSeen \<Rightarrow> bool \<Rightarrow> string \<Rightarrow> bool" where
  "underscoreLoop seen hex [] \<longleftrightarrow> seen \<noteq> UnderscoreSeen"
| "underscoreLoop seen hex (c # s) \<longleftrightarrow>
     (if isDigitChar c \<or> hex \<and> lowerBit c \<in> set ''abcdef'' then underscoreLoop DigitSeen hex s
      else if c = CHR ''_'' then seen = DigitSeen \<and> underscoreLoop UnderscoreSeen hex s
      else seen \<noteq> UnderscoreSeen \<and> underscoreLoop OtherSeen hex s)"

fun underscoreOK :: "string \<Rightarrow> bool" where
  "underscoreOK (a # b # s) =
     (if a = CHR ''0'' \<and> lowerBit b \<in> set ''box'' then underscoreLoop DigitSeen (lowerBit b = CHR ''x'') s
      else underscoreLoop Beginning False (a # b # s))"
| "underscoreOK s = underscoreLoop Beginning False s"

text \<open>The base 0 of \<open>ParseUint\<close> stands for the base the prefix names.\<close>

definition detectBase :: "string \<Rightarrow> nat \<times> string" where
  "detectBase s =
     (case s of
        a # b # t \<Rightarrow>
          if a \<noteq> CHR ''0'' then (10, s)
          else if t \<noteq> [] \<and> lowerBit b = CHR ''b'' then (2, t)
          else if t \<noteq> [] \<and> lowerBit b = CHR ''o'' then (8, t)
          else if t \<noteq> [] \<and> lowerBit b = CHR ''x'' then (16, t)
          else (8, b # t)
      | [a] \<Rightarrow> if a = CHR ''0'' then (8, []) else (10, s)
      | [] \<Rightarrow> (10, s))"

definition ParseUint :: "string \<Rightarrow> nat \<Rightarrow> numFailure + nat" where
  "ParseUint s base =
     (if s = [] then Inl ErrSyntax
      else
        (let (base', digits) = (if base = 0 then detectBase s else (base, s)) in
         case parseDigits (base = 0) base' 0 digits of
           Inl e \<Rightarrow> Inl e
         | Inr n \<Rightarrow>
             if base = 0 \<and> CHR ''_'' \<in> set digits \<and> \<not> underscoreOK s then Inl ErrSyntax else Inr n))"

definition failureText :: "numFailure \<Rightarrow> string" where
  "failureText e = (case e of ErrSyntax \<Rightarrow> ''invalid syntax'' | ErrRange \<Rightarrow> ''value out of range'')"

text \<open>\<open>ParseInt(s, base, 64)\<close> for a base of 0 or 10; a sign is cut off before the base is looked at.\<close>

definition ParseInt :: "(string \<Rightarrow> string) \<Rightarrow> string \<Rightarrow> nat \<Rightarrow> int go" where
  "ParseInt quote s base =
     (let neg = (s \<noteq> [] \<and> hd s = CHR ''-'');
          digits = (if s \<noteq> [] \<and> hd s \<in> set ''+-'' then tl s else s);
          failed = (\<lambda>e. fail_with (numError quote ''ParseInt'' s (failureText e)))
      in case ParseUint digits base of
           Inl e \<Rightarrow> failed e
         | Inr n \<Rightarrow>
             if \<not> neg \<and> n \<ge> 2 ^ 63 then failed ErrRange
             else if neg \<and> n > 2 ^ 63 then failed ErrRange
             else ok (if neg then - int n else int n))"

definition ParseBool :: "(string \<Rightarrow> string) \<Rightarrow> string \<Rightarrow> bool go" where
  "ParseBool quote s =
     (if s \<in> {''1'', ''t'', ''T'', ''TRUE'', ''true'', ''True''} then ok True
      else if s \<in> {''0'', ''f'', ''F'', ''FALSE'', ''false'', ''False''} then ok False
      else fail_with (numError quote ''ParseBool'' s ''invalid syntax''))"

section \<open>Formatting integers\<close>

definition sprintBool :: "bool \<Rightarrow> string" where
  "sprintBool b = (if b then ''true'' else ''false'')"

text \<open>\<open>%0wd\<close>: zeros after the sign up to the width.\<close>

definition padNat :: "nat \<Rightarrow> nat \<Rightarrow> string" where
  "padNat w n = replicate (w - length (sprintNat n)) CHR ''0'' @ sprintNat n"

definition padInt :: "nat \<Rightarrow> int \<Rightarrow> string" where
  "padInt w i = (if i < 0 then CHR ''-'' # padNat (w - 1) (nat (- i)) else padNat w (nat i))"

section \<open>Round trips\<close>

lemma digitValue_digit: "isDigitChar c \<Longrightarrow> digitValue c = Some (digitVal c)"
  by (simp add: digitValue_def isDigitChar_def digitVal_def Let_def)

lemma digitVal_less: "isDigitChar c \<Longrightarrow> digitVal c < 10"
  unfolding isDigitChar_def digitVal_def by linarith

lemma foldl_digits: "foldl (\<lambda>n c. 10 * n + digitVal c) k s = k * 10 ^ length s + digitsVal s"
proof (induction s arbitrary: k)
  case (Cons c s)
  have head: "digitsVal (c # s) = digitVal c * 10 ^ length s + digitsVal s"
    using Cons [of "digitVal c"] by (simp add: digitsVal_def)
  have "foldl (\<lambda>n c. 10 * n + digitVal c) k (c # s)
      = (10 * k + digitVal c) * 10 ^ length s + digitsVal s"
    using Cons [of "10 * k + digitVal c"] by simp
  then show ?case by (simp only: head) (simp add: algebra_simps)
qed (simp add: digitsVal_def)

lemma digitsVal_Cons: "digitsVal (c # s) = digitVal c * 10 ^ length s + digitsVal s"
  using foldl_digits [of "digitVal c" s] by (simp add: digitsVal_def)

lemma digitsVal_append: "digitsVal (s @ t) = digitsVal s * 10 ^ length t + digitsVal t"
  by (induction s) (simp_all add: digitsVal_Cons digitsVal_def [of "[]"] algebra_simps power_add)

lemma parseDigits_digits:
  assumes "\<And>c. c \<in> set s \<Longrightarrow> isDigitChar c" "n * 10 ^ length s + digitsVal s < 2 ^ 64"
  shows "parseDigits False 10 n s = Inr (n * 10 ^ length s + digitsVal s)"
  using assms
proof (induction s arbitrary: n)
  case (Cons c s)
  have c: "digitValue c = Some (digitVal c)" "digitVal c < 10"
    using Cons.prems(1) [of c] digitValue_digit digitVal_less by simp_all
  have sum: "n * 10 ^ length (c # s) + digitsVal (c # s)
      = (n * 10 + digitVal c) * 10 ^ length s + digitsVal s"
    by (simp add: digitsVal_Cons algebra_simps)
  have "n * 10 + digitVal c \<le> (n * 10 + digitVal c) * 10 ^ length s" by simp
  also have "\<dots> \<le> n * 10 ^ length (c # s) + digitsVal (c # s)" unfolding sum by simp
  also have "\<dots> < 2 ^ 64" by (rule Cons.prems(2))
  finally have small: "n * 10 + digitVal c < 2 ^ 64" .
  then show ?case using c Cons.IH [of "n * 10 + digitVal c"] Cons.prems unfolding sum by simp
qed (simp add: digitsVal_def)

lemma ParseInt_digits:
  assumes "s \<noteq> []" "\<And>c. c \<in> set s \<Longrightarrow> isDigitChar c" "digitsVal s < 2 ^ 63"
  shows "ParseInt quote s 10 = ok (int (digitsVal s))"
proof -
  have "hd s \<noteq> CHR ''-''" "hd s \<noteq> CHR ''+''"
    using assms(1) assms(2) [of "hd s"] by (auto simp: isDigitChar_def)
  then show ?thesis
    using assms parseDigits_digits [of s 0] by (simp add: ParseInt_def ParseUint_def Let_def)
qed

lemma ParseInt_minus_digits:
  assumes "s \<noteq> []" "\<And>c. c \<in> set s \<Longrightarrow> isDigitChar c" "digitsVal s \<le> 2 ^ 63"
  shows "ParseInt quote (CHR ''-'' # s) 10 = ok (- int (digitsVal s))"
  using assms parseDigits_digits [of s 0] by (simp add: ParseInt_def ParseUint_def Let_def)

lemma ParseInt_sprintInt: "isInt64 i \<Longrightarrow> ParseInt quote (sprintInt i) 10 = ok i"
  using ParseInt_digits [of "sprintNat (nat i)"] ParseInt_minus_digits [of "sprintNat (nat (- i))"]
    sprintNat_digits by (auto simp: sprintInt_def isInt64_def)

lemma digitsVal_zeros: "digitsVal (replicate k CHR ''0'' @ s) = digitsVal s"
proof -
  have "digitsVal (replicate k CHR ''0'') = 0"
    by (induction k) (simp_all add: digitsVal_Cons digitVal_def, simp add: digitsVal_def)
  then show ?thesis by (simp add: digitsVal_append)
qed

lemma digitsVal_padNat [simp]: "digitsVal (padNat w n) = n"
  by (simp add: padNat_def digitsVal_zeros)

lemma padNat_digits: "c \<in> set (padNat w n) \<Longrightarrow> isDigitChar c"
  by (auto simp: padNat_def isDigitChar_def dest: sprintNat_digits)

lemma sprintNat_length: "0 < k \<Longrightarrow> n < 10 ^ k \<Longrightarrow> length (sprintNat n) \<le> k"
proof (induction k arbitrary: n)
  case (Suc k)
  show ?case
  proof (cases "n < 10")
    case True
    then show ?thesis by (subst sprintNat.simps) simp
  next
    case False
    then have "0 < k" using Suc.prems(2) by (cases k) auto
    moreover have "n div 10 < 10 ^ k" using Suc.prems(2) by (simp add: div_less_iff_less_mult)
    ultimately show ?thesis using Suc.IH False by (subst sprintNat.simps) simp
  qed
qed simp

lemma padNat_length: "0 < w \<Longrightarrow> n < 10 ^ w \<Longrightarrow> length (padNat w n) = w"
  using sprintNat_length [of w n] by (simp add: padNat_def)

lemma padNat_not_Nil [simp]: "padNat w n \<noteq> []"
  by (simp add: padNat_def)

section \<open>Division\<close>

lemma sdiv_pos: "0 \<le> a \<Longrightarrow> 0 < b \<Longrightarrow> a sdiv b = a div (b :: int)"
  by (simp add: signed_divide_int_def sgn_if)

end
