(* ===== verification/Transform_Expr.thy ===== *)
theory Transform_Expr
  imports Transform_Base Go_Int
begin

text \<open>
  The expression transformers: \<open>internal/transformer_literal.go\<close>, \<open>_parameter.go\<close>,
  \<open>_column_ref.go\<close>, \<open>_cast.go\<close>, \<open>_subquery.go\<close> and \<open>_function.go\<close>, with the helper
  \<open>createOrderByItems\<close> of \<open>transformer_scan_orderby.go\<close>.

  Each takes the parameters \<open>env\<close>, the coordinator \<open>c\<close> it calls back into and the data; the
  context is threaded by the monad of \<open>Transform_Base\<close>. The last section proves, inside the
  contract of the coordinator, that each keeps the scopes.
\<close>

section \<open>Literals, parameters, columns, casts\<close>

definition LiteralTransformer_Transform ::
  "('t, 'v) Env \<Rightarrow> ('t, 'v) ExpressionData \<Rightarrow> SQLExpression tm" where
  "LiteralTransformer_Transform env data =
     tbind (tderef (edLiteral data)) (\<lambda>l.
     tbind (twrap ''failed to encode literal'' (tlift (envLiteral env (ldValue l)))) (\<lambda>encoded.
     treturn (NewLiteralExpression encoded)))"

definition ParameterTransformer_Transform :: "('t, 'v) ExpressionData \<Rightarrow> SQLExpression tm" where
  "ParameterTransformer_Transform data =
     tbind (tderef (edParameter data)) (\<lambda>p. treturn (NewLiteralExpression (pmIdentifier p)))"

definition ColumnRefTransformer_Transform :: "('t, 'v) ExpressionData \<Rightarrow> SQLExpression tm" where
  "ColumnRefTransformer_Transform data =
     (case edColumn data of
        Some column \<Rightarrow>
          (if edType data = ExpressionTypeColumn then qualifiedColumn (crColumnID column)
           else tfail (''expected column reference data, got type ''
                  @ sprintNat (exprTypeNum (edType data))))
      | None \<Rightarrow> tfail (''expected column reference data, got type ''
                  @ sprintNat (exprTypeNum (edType data))))"

definition createZetaSQLiteCast ::
  "('t, 'v) Env \<Rightarrow> SQLExpression \<Rightarrow> ('t, ('t, 'v) ExpressionData) CastData \<Rightarrow> SQLExpression go" where
  "createZetaSQLiteCast env expr cast =
     go_bind (wrapError ''failed to marshal source type'' (envTypeJSON env (caFromType cast))) (\<lambda>jsonFromType.
     go_bind (wrapError ''failed to marshal source type'' (envTypeJSON env (caToType cast))) (\<lambda>jsonToType.
     go_bind (wrapError ''failed to encode source type'' (envStringLiteral env jsonFromType)) (\<lambda>encodedFromType.
     go_bind (wrapError ''failed to encode target type'' (envStringLiteral env jsonToType)) (\<lambda>encodedToType.
     ok (NewFunctionExpression ''zetasqlite_cast''
           [expr, NewLiteralExpression encodedFromType, NewLiteralExpression encodedToType,
            NewLiteralExpression (sprintBool (caReturnNullOnErr cast))])))))"

definition CastTransformer_Transform ::
  "('t, 'v) Env \<Rightarrow> ('t, 'v) Coordinator \<Rightarrow> ('t, 'v) ExpressionData \<Rightarrow> SQLExpression tm" where
  "CastTransformer_Transform env c data =
     (case (edType data, edCast data) of
        (ExpressionTypeCast, Some cast) \<Rightarrow>
          tbind (twrap ''failed to transform cast expression'' (TransformExpression c (caExpression cast)))
            (\<lambda>innerExpr. tlift (createZetaSQLiteCast env innerExpr cast))
      | _ \<Rightarrow> tfail (''expected cast expression data, got type '' @ sprintNat (exprTypeNum (edType data))))"

section \<open>Subqueries\<close>

definition subqueryExpression :: "SelectStatement \<Rightarrow> SQLExpression" where
  "subqueryExpression s =
     SQLExpression ExpressionTypeSubquery [] None None None None (Some s) None None [] [] []"

definition SubqueryTransformer_Transform ::
  "('t, 'v) Coordinator \<Rightarrow> ('t, 'v) ExpressionData \<Rightarrow> SQLExpression tm" where
  "SubqueryTransformer_Transform c data =
     (case (edType data, edSubquery data) of
        (ExpressionTypeSubquery, Some subquery) \<Rightarrow>
          tbind (twrap ''failed to transform subquery scan'' (TransformScan c (sbQuery subquery)))
            (\<lambda>subqueryFragment.
               (case sbSubqueryType subquery of
                  SubqueryTypeArray \<Rightarrow>
                    (case scColumnList (sbQuery subquery) of
                       [] \<Rightarrow> tfail ''failed to find computed column names for array subquery''
                     | col # _ \<Rightarrow>
                         tbind (qualifiedColumn (cdaID col)) (\<lambda>column.
                         treturn (subqueryExpression
                           (simpleSelect
                             [selectItem (NewFunctionExpression ''zetasqlite_array'' [column]) []]
                             (Some subqueryFragment)))))
                | SubqueryTypeExists \<Rightarrow>
                    treturn (NewExistsExpression (Some (NewSelectStarStatement (Some subqueryFragment))))
                | SubqueryTypeIn \<Rightarrow>
                    tbind (tderef (sbInExpr subquery)) (\<lambda>inData.
                    tbind (twrap ''failed to transform IN expression'' (TransformExpression c inData)) (\<lambda>inExpr.
                    treturn (NewBinaryExpression (Some inExpr) ''IN''
                      (Some (subqueryExpression (NewSelectStarStatement (Some subqueryFragment)))))))
                | _ \<Rightarrow> treturn (subqueryExpression (NewSelectStarStatement (Some subqueryFragment)))))
      | _ \<Rightarrow> tfail (''expected subquery expression data, got type ''
               @ sprintNat (exprTypeNum (edType data))))"

section \<open>Functions that become operators\<close>

definition functionToOperator :: "(string \<times> string) list" where
  "functionToOperator =
     [(''zetasqlite_equal'', ''=''), (''zetasqlite_not_equal'', ''!=''), (''zetasqlite_less'', ''<''),
      (''zetasqlite_greater'', ''>''), (''zetasqlite_less_or_equal'', ''<=''),
      (''zetasqlite_greater_or_equal'', ''>=''), (''zetasqlite_in'', ''IN''),
      (''zetasqlite_and'', ''AND''), (''zetasqlite_or'', ''OR''), (''zetasqlite_not'', ''NOT'')]"

text \<open>A range loop that returns false at the first element that fails the test.\<close>

fun goAll :: "('a \<Rightarrow> bool go) \<Rightarrow> 'a list \<Rightarrow> bool go" where
  "goAll f [] = ok True"
| "goAll f (x # xs) = go_bind (f x) (\<lambda>b. if b then goAll f xs else ok False)"

lemma goAll_cong [fundef_cong]:
  "xs = ys \<Longrightarrow> (\<And>x. x \<in> set ys \<Longrightarrow> f x = g x) \<Longrightarrow> goAll f xs = goAll g ys"
proof (induction ys arbitrary: xs)
  case (Cons y ys)
  then have "goAll f ys = goAll g ys" by simp
  then show ?case using Cons.prems by (simp cong: if_cong)
qed simp

definition arityOk :: "string \<Rightarrow> nat \<Rightarrow> bool" where
  "arityOk name n =
     (if name = ''zetasqlite_not'' then n = 1
      else if name = ''zetasqlite_and'' \<or> name = ''zetasqlite_or'' then \<not> n < 2
      else n = 2)"

lemma size_arguments:
  "edFunction e = Some fd \<Longrightarrow> Suc (size_list size (fdArguments fd)) < size e"
  by (cases e; cases fd) (auto simp: o_def)

lemma size_list_argument: "x \<in> set xs \<Longrightarrow> size x < Suc (size_list size xs)"
  by (induction xs) auto

function (sequential) canOptimizeFunction ::
    "('t, 'v) Env \<Rightarrow> ('t, ('t, 'v) ExpressionData) FunctionCallData \<Rightarrow> bool go"
  and isPrimitiveSQLiteType :: "('t, 'v) Env \<Rightarrow> ('t, 'v) ExpressionData \<Rightarrow> bool go"
where
  "canOptimizeFunction env function =
     (if map_of functionToOperator (fdName function) = None then ok False
      else if \<not> arityOk (fdName function) (length (fdArguments function)) then ok False
      else goAll (isPrimitiveSQLiteType env) (fdArguments function))"
| "isPrimitiveSQLiteType env expr =
     (case edType expr of
        ExpressionTypeLiteral \<Rightarrow>
          ok (case edLiteral expr of
                None \<Rightarrow> False
              | Some l \<Rightarrow> (case ldValue l of None \<Rightarrow> False | Some v \<Rightarrow> envPrimitiveValue env v))
      | ExpressionTypeColumn \<Rightarrow>
          (case edColumn expr of
             None \<Rightarrow> nilDeref
           | Some col \<Rightarrow> (case crType col of None \<Rightarrow> nilDeref | Some t \<Rightarrow> ok (envPrimitiveType env t)))
      | ExpressionTypeFunction \<Rightarrow>
          (case edFunction expr of
             None \<Rightarrow> ok False
           | Some function \<Rightarrow>
               (if map_of functionToOperator (fdName function) = None then ok False
                else canOptimizeFunction env function))
      | _ \<Rightarrow> ok False)"
  by pat_completeness auto
termination
  by (relation "measure (\<lambda>x. case x of
        Inl (env, fd) \<Rightarrow> 2 * size_list size (fdArguments fd) + 1
      | Inr (env, e) \<Rightarrow> 2 * size e)")
    (auto dest: size_arguments size_list_argument)

declare canOptimizeFunction.simps [simp del] isPrimitiveSQLiteType.simps [simp del]

definition optimizeFunctionToSQL :: "string \<Rightarrow> SQLExpression list \<Rightarrow> SQLExpression go" where
  "optimizeFunctionToSQL functionName args =
     (case map_of functionToOperator functionName of
        None \<Rightarrow> fail_with (''unknown optimizable function: '' @ functionName)
      | Some operator \<Rightarrow>
          if functionName = ''zetasqlite_and'' \<or> functionName = ''zetasqlite_or'' then
            (case args of
               a # b # rest \<Rightarrow>
                 ok (foldl (\<lambda>result arg. NewBinaryExpression (Some result) operator (Some arg)) a (b # rest))
             | _ \<Rightarrow> fail_with (functionName @ '' expected at least 2 arguments, got ''
                       @ sprintNat (length args)))
          else if functionName = ''zetasqlite_not'' then
            (case args of
               [a] \<Rightarrow> ok (NewNotExpression (Some a))
             | _ \<Rightarrow> fail_with (functionName @ '' expected only 1 argument, got '' @ sprintNat (length args)))
          else if functionName = ''zetasqlite_in'' then
            (case args of
               [] \<Rightarrow> panic ''index out of range [0] with length 0''
             | a # rest \<Rightarrow> ok (NewBinaryExpression (Some a) operator (Some (NewListExpression rest))))
          else
            (case args of
               [a, b] \<Rightarrow> ok (NewBinaryExpression (Some a) operator (Some b))
             | _ \<Rightarrow> fail_with (functionName @ '' expected 2 arguments, got '' @ sprintNat (length args))))"

section \<open>Order-by items and window specifications\<close>

definition createOrderByItems ::
  "SQLExpression \<Rightarrow> ('t, 'v) ExpressionData OrderByItemData \<Rightarrow> SQLExpression OrderByItem list" where
  "createOrderByItems expr0 orderData =
     (let expr = setCollation zetasqlite_collate expr0;
          nullExpr = setCollation zetasqlite_collate
            (NewBinaryExpression (Some expr) ''IS NOT'' (Some (NewLiteralExpression ''NULL'')))
      in (case obdNullOrder orderData of
            NullOrderModeOrderUnspecified \<Rightarrow> []
          | NullOrderModeNullsFirst \<Rightarrow> [OrderByItem (Some nullExpr) ''ASC'' []]
          | NullOrderModeNullsLast \<Rightarrow> [OrderByItem (Some nullExpr) ''DESC'' []])
         @ [OrderByItem (Some expr) (if obdIsDescending orderData then ''DESC'' else ''ASC'') []])"

definition transformPartitionBy ::
  "('t, 'v) Coordinator \<Rightarrow> ('t, 'v) ExpressionData list \<Rightarrow> SQLExpression list tm" where
  "transformPartitionBy c =
     tmapM (\<lambda>partData.
       tbind (twrap ''failed to transform partition by expression'' (TransformExpression c partData))
         (\<lambda>expr. treturn (setCollation zetasqlite_collate expr)))"

definition transformWindowOrderBy ::
  "('t, 'v) Coordinator \<Rightarrow> ('t, 'v) ExpressionData OrderByItemData list \<Rightarrow>
   SQLExpression OrderByItem list tm" where
  "transformWindowOrderBy c items =
     tbind (tmapM (\<lambda>orderData.
         tbind (twrap ''failed to transform order by expression''
             (TransformExpression c (obdExpression orderData)))
           (\<lambda>expr. treturn (createOrderByItems expr orderData))) items)
       (\<lambda>groups. treturn (concat groups))"

definition transformFrameBound ::
  "('t, 'v) Coordinator \<Rightarrow> string \<Rightarrow> ('t, 'v) ExpressionData FrameBoundData \<Rightarrow>
   SQLExpression FrameBound tm" where
  "transformFrameBound c msg b =
     tbind (toption (\<lambda>e. twrap msg (TransformExpression c e)) (fbdOffset b))
       (\<lambda>offset. treturn (FrameBound (fbdType b) offset))"

definition transformFrameClause ::
  "('t, 'v) Coordinator \<Rightarrow> ('t, 'v) ExpressionData FrameClauseData \<Rightarrow> SQLExpression FrameClause tm" where
  "transformFrameClause c frameData =
     tbind (toption (transformFrameBound c ''failed to transform frame start offset'') (fcdStart frameData)) (\<lambda>start.
     tbind (toption (transformFrameBound c ''failed to transform frame end offset'') (fcdEnd frameData)) (\<lambda>end.
     treturn (FrameClause (fcdUnit frameData) start end)))"

definition transformWindowSpec ::
  "('t, 'v) Coordinator \<Rightarrow> ('t, 'v) ExpressionData WindowSpecificationData \<Rightarrow>
   SQLExpression WindowSpecification tm" where
  "transformWindowSpec c w =
     tbind (transformPartitionBy c (wsdPartitionBy w)) (\<lambda>partitionBy.
     tbind (transformWindowOrderBy c (wsdOrderBy w)) (\<lambda>orderBy.
     tbind (toption (transformFrameClause c) (wsdFrameClause w)) (\<lambda>frameClause.
     treturn (WindowSpecification partitionBy orderBy frameClause))))"

section \<open>Function calls\<close>

definition currentTimeFuncMap :: "string list" where
  "currentTimeFuncMap =
     [''current_date'', ''current_datetime'', ''current_time'', ''current_timestamp'',
      ''zetasqlite_current_date'', ''zetasqlite_current_datetime'', ''zetasqlite_current_time'',
      ''zetasqlite_current_timestamp'']"

text \<open>The loop over pairs of arguments, with the last one of an odd number.\<close>

fun whenPairs :: "SQLExpression list \<Rightarrow> SQLExpression WhenClause list \<times> SQLExpression option" where
  "whenPairs (condition # result # rest) =
     (let (ws, elseExpr) = whenPairs rest in (WhenClause (Some condition) (Some result) # ws, elseExpr))"
| "whenPairs [x] = ([], Some x)"
| "whenPairs [] = ([], None)"

text \<open>The four functions that become CASE expressions; \<open>None\<close> for every other name.\<close>

definition rewriteToCase :: "string \<Rightarrow> SQLExpression list \<Rightarrow> SQLExpression go option" where
  "rewriteToCase name args =
     (if name = ''zetasqlite_ifnull'' then
        Some (case args of
          [a, b] \<Rightarrow>
            ok (NewCaseExpression
              [WhenClause (Some (NewBinaryExpression (Some a) ''IS'' (Some (NewLiteralExpression ''NULL''))))
                 (Some b)] (Some a))
        | _ \<Rightarrow> fail_with ''zetasqlite_ifnull requires exactly 2 arguments'')
      else if name = ''zetasqlite_if'' then
        Some (case args of
          [a, b, e] \<Rightarrow> ok (NewCaseExpression [WhenClause (Some a) (Some b)] (Some e))
        | _ \<Rightarrow> fail_with ''zetasqlite_if requires exactly 3 arguments'')
      else if name = ''zetasqlite_case_no_value'' then
        Some (case whenPairs args of (ws, elseExpr) \<Rightarrow> ok (NewCaseExpression ws elseExpr))
      else if name = ''zetasqlite_case_with_value'' then
        Some (case args of
          valueExpr # a # b # rest \<Rightarrow>
            (case whenPairs (a # b # rest) of (ws, elseExpr) \<Rightarrow>
               ok (NewSimpleCaseExpression (Some valueExpr) ws elseExpr))
        | _ \<Rightarrow> fail_with ''zetasqlite_case_with_value requires at least 3 arguments'')
      else None)"

definition transformArguments ::
  "('t, 'v) Coordinator \<Rightarrow> ('t, 'v) ExpressionData list \<Rightarrow> SQLExpression list tm" where
  "transformArguments c args =
     tmapM (\<lambda>(i, argData).
         twrap (''failed to transform function argument '' @ sprintNat i) (TransformExpression c argData))
       (List.enumerate 0 args)"

definition currentTimeArgument :: "('t, 'v) Env \<Rightarrow> string \<Rightarrow> SQLExpression list go" where
  "currentTimeArgument env name =
     (if name \<in> set currentTimeFuncMap then
        (case envCurrentTime env of
           None \<Rightarrow> ok []
         | Some nanos \<Rightarrow>
             go_bind (wrapError ''failed to encode current time'' (envInt64Literal env nanos))
               (\<lambda>encoded. ok [NewLiteralExpression encoded]))
      else ok [])"

definition FunctionCallTransformer_Transform ::
  "('t, 'v) Env \<Rightarrow> ('t, 'v) Coordinator \<Rightarrow> ('t, 'v) ExpressionData \<Rightarrow> SQLExpression tm" where
  "FunctionCallTransformer_Transform env c data =
     (case (edType data, edFunction data) of
        (ExpressionTypeFunction, Some function) \<Rightarrow>
          tbind (transformArguments c (fdArguments function)) (\<lambda>args0.
          tbind (tlift (currentTimeArgument env (fdName function))) (\<lambda>now.
          let args = args0 @ now in
          case rewriteToCase (fdName function) args of
            Some r \<Rightarrow> tlift r
          | None \<Rightarrow>
              tbind (toption (transformWindowSpec c) (fdWindowSpec function)) (\<lambda>windowSpec.
              tbind (tlift (canOptimizeFunction env function)) (\<lambda>optimize.
              if optimize then tlift (optimizeFunctionToSQL (fdName function) args)
              else (case envFuncMap env (fdName function) of
                      Some callSQL \<Rightarrow> tlift (callSQL function args)
                    | None \<Rightarrow>
                        treturn (SQLExpression ExpressionTypeFunction [] None None None
                          (Some (FunctionCall (fdName function) args False windowSpec))
                          None None None [] [] []))))))
      | _ \<Rightarrow> tfail (''expected function call expression data, got type ''
               @ sprintNat (exprTypeNum (edType data))))"

section \<open>An optimised call always succeeds\<close>

text \<open>
  The guard of \<open>canOptimizeFunction\<close> covers every error branch of \<open>optimizeFunctionToSQL\<close>.
\<close>

lemma optimize_total:
  assumes "map_of functionToOperator name \<noteq> None" "arityOk name (length args)"
  shows "\<exists>e. optimizeFunctionToSQL name args = ok e"
proof -
  have two: "length xs = 2 \<longleftrightarrow> (\<exists>a b. xs = [a, b])" for xs :: "SQLExpression list"
    by (auto simp: numeral_2_eq_2 length_Suc_conv)
  have one: "length xs = Suc 0 \<longleftrightarrow> (\<exists>a. xs = [a])" for xs :: "SQLExpression list"
    by (auto simp: length_Suc_conv)
  have many: "\<not> length xs < 2 \<longleftrightarrow> (\<exists>a b rest. xs = a # b # rest)" for xs :: "SQLExpression list"
    by (cases xs rule: remdups_adj.cases) auto
  show ?thesis
    using assms unfolding optimizeFunctionToSQL_def arityOk_def
    by (auto simp: two one many split: if_splits)
qed

text \<open>C33: A call that \<open>canOptimizeFunction\<close> accepts never hits an error branch of
  \<open>optimizeFunctionToSQL\<close>: the guards cover every arity the rewriting needs.\<close>

theorem canOptimize_guard:
  assumes "canOptimizeFunction env fd = ok True" "length args = length (fdArguments fd)"
  shows "\<exists>e. optimizeFunctionToSQL (fdName fd) args = ok e"
proof (rule optimize_total)
  show "map_of functionToOperator (fdName fd) \<noteq> None" "arityOk (fdName fd) (length args)"
    using assms by (auto simp: canOptimizeFunction.simps split: if_splits)
qed

section \<open>The transformers keep the scopes\<close>

context coordinator_contract
begin

lemma literal_keeps: "keepsScopes (LiteralTransformer_Transform env data)"
  unfolding LiteralTransformer_Transform_def by (intro keep_intros)

lemma parameter_keeps: "keepsScopes (ParameterTransformer_Transform data)"
  unfolding ParameterTransformer_Transform_def by (intro keep_intros)

lemma column_ref_keeps: "keepsScopes (ColumnRefTransformer_Transform data)"
  unfolding ColumnRefTransformer_Transform_def by (intro keep_intros)

lemma cast_keeps: "keepsScopes (CastTransformer_Transform env c data)"
  unfolding CastTransformer_Transform_def
  by (auto split: ExpressionType.split option.split intro!: keep_intros contract_keeps)

lemma subquery_keeps: "keepsScopes (SubqueryTransformer_Transform c data)"
  unfolding SubqueryTransformer_Transform_def
  by (auto split: ExpressionType.split option.split AstSubqueryType.split list.split
      intro!: keep_intros contract_keeps)

lemma window_keeps: "keepsScopes (transformWindowSpec c w)"
  unfolding transformWindowSpec_def transformPartitionBy_def transformWindowOrderBy_def
    transformFrameClause_def transformFrameBound_def
  by (intro keep_intros contract_keeps)

lemma function_keeps: "keepsScopes (FunctionCallTransformer_Transform env c data)"
  unfolding FunctionCallTransformer_Transform_def transformArguments_def Let_def
  by (auto split: ExpressionType.split option.split intro!: keep_intros contract_keeps window_keeps)

lemmas expression_transformers_keep =
  literal_keeps parameter_keeps column_ref_keeps cast_keeps subquery_keeps function_keeps

end

end
