(* ===== verification/Transform_Scan.thy ===== *)
theory Transform_Scan
  imports Transform_Expr Sql_Flatten
begin

text \<open>
  The scan transformers, \<open>internal/transformer_scan_*.go\<close> and \<open>transformer_with_entry.go\<close>: each
  turns one kind of scan of the intermediate representation into a FROM item, usually a subquery
  over the FROM item of its input.

  A Go map that is only looked up is the list of its assignments in order, the last one counting;
  the map whose iteration order reaches the output (\<open>groupByMap\<close>) is ranged over with
  \<open>envRange\<close>. A list never holds a nil pointer in the model: where the code would store the nil of
  a failed lookup in a slice that the writer later dereferences, the model panics at the lookup.
\<close>

section \<open>Shared steps\<close>

definition expectScan :: "string \<Rightarrow> ScanType \<Rightarrow> ('t, 'v) ScanData \<Rightarrow> 'a option \<Rightarrow> 'a tm" where
  "expectScan what ty data p =
     (case p of
        Some x \<Rightarrow>
          if scType data = ty then treturn x
          else tfail (''expected '' @ what @ '' data, got type '' @ sprintNat (scanTypeNum (scType data)))
      | None \<Rightarrow> tfail (''expected '' @ what @ '' data, got type '' @ sprintNat (scanTypeNum (scType data))))"

definition aliasedItem :: "ColumnData \<Rightarrow> SQLExpression \<Rightarrow> SQLExpression SelectListItem" where
  "aliasedItem col e = selectItem e (generateIDBasedAlias (cdaName col) (cdaID col))"

section \<open>Tables, joins, filters and projections\<close>

definition syntheticColumn ::
  "('t, 'v) Coordinator \<Rightarrow> ('t, 'v) ExpressionData SelectItemData \<Rightarrow> SQLExpression SelectListItem tm" where
  "syntheticColumn c item =
     tbind (if edType (sidExpression item) = ExpressionTypeColumn then
              tbind (tderef (edColumn (sidExpression item))) (\<lambda>column.
              tbind (onFragment (RegisterColumnScope (crColumnID column) [])) (\<lambda>_.
              onFragment (AddAvailableColumn (crColumnID column)
                (newColumnInfo\<lparr>ciName := crColumnName column\<rparr>))))
            else treturn ()) (\<lambda>_.
     tbind (twrap ''failed to transform expression'' (TransformExpression c (sidExpression item))) (\<lambda>expr.
     treturn (selectItem expr (sidAlias item))))"

definition TableScanTransformer_Transform ::
  "('t, 'v) Coordinator \<Rightarrow> ('t, 'v) ScanData \<Rightarrow> FromItem tm" where
  "TableScanTransformer_Transform c data =
     tbind (expectScan ''table scan'' ScanTypeTable data (scTableScan data)) (\<lambda>tableData.
     tbind (tmapM (syntheticColumn c) (tsdSyntheticColumns tableData)) (\<lambda>synthetic.
     treturn (subqueryFrom
       (simpleSelect
         (map (\<lambda>col. aliasedItem col (NewColumnExpression (cdaName col) [])) (scColumnList data)
          @ synthetic)
         (Some (tableFrom (tsdTableName tableData) (tsdAlias tableData))))
       (tsdAlias tableData))))"

definition convertJoinType :: "AstJoinType \<Rightarrow> JoinType" where
  "convertJoinType joinType =
     (case joinType of
        AstJoinInner \<Rightarrow> JoinTypeInner
      | AstJoinLeft \<Rightarrow> JoinTypeLeft
      | AstJoinRight \<Rightarrow> JoinTypeRight
      | AstJoinFull \<Rightarrow> JoinTypeFull
      | AstJoinOther _ \<Rightarrow> JoinTypeInner)"

definition JoinScanTransformer_Transform ::
  "('t, 'v) Coordinator \<Rightarrow> ('t, 'v) ScanData \<Rightarrow> FromItem tm" where
  "JoinScanTransformer_Transform c data =
     tbind (expectScan ''join scan'' ScanTypeJoin data (scJoinScan data)) (\<lambda>join.
     tbind (twrap ''failed to transform left scan in join'' (TransformScan c (jsLeftScan join))) (\<lambda>left.
     tbind (twrap ''failed to transform right scan in join'' (TransformScan c (jsRightScan join))) (\<lambda>right.
     tbind (toption (\<lambda>e. twrap ''failed to transform join condition'' (TransformExpression c e))
              (jsJoinCondition join)) (\<lambda>condition.
     treturn (subqueryFrom
       (simpleSelect [selectItem (NewStarExpression []) []]
         (Some (joinFrom (JoinClause (convertJoinType (jsJoinType join)) (Some left) (Some right)
                  condition []))))
       [])))))"

definition FilterScanTransformer_Transform ::
  "('t, 'v) Coordinator \<Rightarrow> ('t, 'v) ScanData \<Rightarrow> FromItem tm" where
  "FilterScanTransformer_Transform c data =
     tbind (expectScan ''filter scan'' ScanTypeFilter data (scFilterScan data)) (\<lambda>filterData.
     tbind (twrap ''failed to transform inner scan in filter'' (TransformScan c (fiInputScan filterData))) (\<lambda>inner.
     tbind (twrap ''failed to transform filter expression''
              (TransformExpression c (fiFilterExpr filterData))) (\<lambda>filterExpr.
     treturn (subqueryFrom (setWhereClause (NewSelectStarStatement (Some inner)) (Some filterExpr)) []))))"

definition columnRefExpression :: "ColumnData \<Rightarrow> ('t, 'v) ExpressionData" where
  "columnRefExpression col =
     ExpressionData ExpressionTypeColumn None None None None
       (Some (ColumnRefData None None [] (cdaName col) (cdaID col) (cdaTableName col)))
       None None None"

definition ProjectScanTransformer_Transform ::
  "('t, 'v) Coordinator \<Rightarrow> ('t, 'v) ScanData \<Rightarrow> FromItem tm" where
  "ProjectScanTransformer_Transform c data =
     tbind (expectScan ''project scan'' ScanTypeProject data (scProjectScan data)) (\<lambda>project.
     tbind (twrap ''failed to transform inner scan in project'' (TransformScan c (prInputScan project))) (\<lambda>inner.
     tbind (tmapM (\<lambda>col.
         tbind (case lookupLast (map (\<lambda>cc. (colColumnID (ccColumn cc), ccExpression cc)) (prExprList project))
                       (cdaID col) of
                  Some e \<Rightarrow>
                    twrap (''failed to transform projection expression for column '' @ cdaName col)
                      (TransformExpression c e)
                | None \<Rightarrow>
                    twrap (''failed to transform column reference for '' @ cdaName col)
                      (TransformExpression c (columnRefExpression col)))
           (\<lambda>expr. treturn (aliasedItem col expr))) (scColumnList data)) (\<lambda>selectList.
     treturn (subqueryFrom (simpleSelect selectList (Some inner)) []))))"

section \<open>Aggregation and grouping sets\<close>

definition groupByCall :: "SQLExpression \<Rightarrow> SQLExpression" where
  "groupByCall e = NewFunctionExpression ''zetasqlite_group_by'' [e]"

definition transformComputed ::
  "('t, 'v) Coordinator \<Rightarrow> string \<Rightarrow> ('t, ('t, 'v) ExpressionData) ComputedColumnData list \<Rightarrow>
   (int \<times> SQLExpression) list tm" where
  "transformComputed c msg =
     tmapM (\<lambda>cc. tbind (twrap msg (TransformExpression c (ccExpression cc)))
       (\<lambda>e. treturn (colColumnID (ccColumn cc), e)))"

definition groupingSetSelect ::
  "('t, ('t, 'v) ExpressionData) GroupingSetData \<Rightarrow> FromItem \<Rightarrow> ColumnData list \<Rightarrow>
   SQLExpression SelectListItem list \<Rightarrow> (int \<times> SQLExpression) list \<Rightarrow> SelectStatement tm" where
  "groupingSetSelect groupingSet inputFromItem columns outputColumns groupByMap =
     tbind (tmapM (\<lambda>col. tbind (tderef (map_of groupByMap (colColumnID (ccColumn col))))
              (\<lambda>e. treturn (groupByCall e))) (gsGroupByColumns groupingSet)) (\<lambda>groupBySetColumns.
     let isNull = (\<lambda>i. i \<in> fst ` set groupByMap
           \<and> i \<notin> (\<lambda>col. colColumnID (ccColumn col)) ` set (gsGroupByColumns groupingSet));
         selectList = map (\<lambda>(col, item).
             if isNull (cdaID col) then selectItem (NewLiteralExpression ''NULL'') (cdaName col) else item)
           (zip columns outputColumns)
     in treturn (setGroupBy (simpleSelect selectList (Some inputFromItem)) groupBySetColumns))"

definition buildGroupingSetsQuery ::
  "('t, 'v) Env \<Rightarrow> ('t, ('t, 'v) ExpressionData) GroupingSetData list \<Rightarrow> FromItem \<Rightarrow>
   ColumnData list \<Rightarrow> SQLExpression SelectListItem list \<Rightarrow> (int \<times> SQLExpression) list \<Rightarrow> FromItem tm" where
  "buildGroupingSetsQuery env groupingSets inputFromItem columns outputColumns groupByMap =
     tbind (tmapM (\<lambda>g. groupingSetSelect g inputFromItem columns outputColumns groupByMap) groupingSets)
       (\<lambda>stmts.
     tbind fragmentID (\<lambda>scope.
     let alias = ''aggregate_grouping_sets_scan_'' @ scope in
     case stmts of
       [] \<Rightarrow> tlift (panic ''index out of range [0] with length 0'')
     | [s] \<Rightarrow> treturn (subqueryFrom s alias)
     | s # _ \<Rightarrow>
         let orderBy = map (\<lambda>(_, e).
               OrderByItem (Some (setCollation zetasqlite_collate
                 (SQLExpression (eType e) (eValue e) None None None None None None None [] [] []))) ''ASC'' [])
               (envRange env groupByMap);
             union = setOrderBy (setOperationSelect [] (SetOperation ''UNION'' ''ALL'' stmts)) orderBy;
             items = map (\<lambda>(col, item). aliasedItem col (NewColumnExpression (slAlias item) []))
               (zip columns (sSelectList s))
         in treturn (subqueryFrom
              (simpleSelect items (Some (subqueryFrom union ''set_op_scan_inner''))) alias)))"

definition AggregateScanTransformer_Transform ::
  "('t, 'v) Env \<Rightarrow> ('t, 'v) Coordinator \<Rightarrow> ('t, 'v) ScanData \<Rightarrow> FromItem tm" where
  "AggregateScanTransformer_Transform env c data =
     tbind (expectScan ''aggregate scan'' ScanTypeAggregate data (scAggregateScan data)) (\<lambda>agg.
     tbind (twrap ''failed to transform input scan'' (TransformScan c (agInputScan agg))) (\<lambda>inputFromItem.
     tbind (transformComputed c ''failed to transform aggregate expression'' (agAggregateList agg)) (\<lambda>aggregates.
     tbind (transformComputed c ''failed to transform GROUP BY expression'' (agGroupByList agg)) (\<lambda>groups.
     let groupByMap = fold (\<lambda>(i, e) m. AList.update i e m) groups [] in
     tbind (tmapM (\<lambda>col.
         case lookupLast aggregates (cdaID col) of
           Some e \<Rightarrow> treturn (aliasedItem col e)
         | None \<Rightarrow>
             (case map_of groupByMap (cdaID col) of
                Some e \<Rightarrow> treturn (aliasedItem col e)
              | None \<Rightarrow> tfail (''column '' @ cdaName col @ '' not found in aggregate or GROUP BY expressions'')))
         (scColumnList data)) (\<lambda>selectList.
     if agGroupingSets agg \<noteq> [] then
       buildGroupingSetsQuery env (agGroupingSets agg) inputFromItem (scColumnList data) selectList groupByMap
     else
       treturn (subqueryFrom
         (setGroupBy (simpleSelect selectList (Some inputFromItem)) (map (\<lambda>(_, e). groupByCall e) groups))
         []))))))"

section \<open>Order-by and limit\<close>

text \<open>
  The scan transformer's own \<open>createOrderByItems\<close> sets the collation before it builds the test
  for NULL; the other one sets it afterwards through the shared pointer. They agree.
\<close>

definition OrderByScanTransformer_createOrderByItems ::
  "SQLExpression \<Rightarrow> ('t, 'v) ExpressionData OrderByItemData \<Rightarrow> SQLExpression OrderByItem list" where
  "OrderByScanTransformer_createOrderByItems expr0 itemData =
     (let expr = setCollation zetasqlite_collate expr0;
          nullItems =
            (if obdNullOrder itemData \<noteq> NullOrderModeOrderUnspecified then
               (let nullExpr = setCollation zetasqlite_collate
                      (NewBinaryExpression (Some expr) ''IS NOT'' (Some (NewLiteralExpression ''NULL'')))
                in case obdNullOrder itemData of
                     NullOrderModeNullsFirst \<Rightarrow> [OrderByItem (Some nullExpr) ''ASC'' []]
                   | NullOrderModeNullsLast \<Rightarrow> [OrderByItem (Some nullExpr) ''DESC'' []]
                   | _ \<Rightarrow> [])
             else [])
      in nullItems @
         [OrderByItem (Some expr) (if obdIsDescending itemData then ''DESC'' else ''ASC'') []])"

text \<open>The two implementations of the ORDER BY items, that of the ORDER BY scan and that of window
  specifications, produce the same items.\<close>

theorem createOrderByItems_agree:
  "OrderByScanTransformer_createOrderByItems e d = createOrderByItems e d"
  by (cases "obdNullOrder d")
    (simp_all add: OrderByScanTransformer_createOrderByItems_def createOrderByItems_def Let_def)

definition transformOrderByItems ::
  "('t, 'v) Coordinator \<Rightarrow> ('t, 'v) ExpressionData OrderByItemData list \<Rightarrow>
   SQLExpression OrderByItem list tm" where
  "transformOrderByItems c items =
     tbind (tmapM (\<lambda>itemData.
         tbind (twrap ''failed to transform order by expression'' (TransformExpression c (obdExpression itemData)))
           (\<lambda>expr. treturn (OrderByScanTransformer_createOrderByItems expr itemData))) items)
       (\<lambda>groups. treturn (concat groups))"

definition OrderByScanTransformer_Transform ::
  "('t, 'v) Coordinator \<Rightarrow> ('t, 'v) ScanData \<Rightarrow> FromItem tm" where
  "OrderByScanTransformer_Transform c data =
     tbind (expectScan ''order by scan'' ScanTypeOrderBy data (scOrderByScan data)) (\<lambda>orderBy.
     tbind (twrap ''failed to transform inner scan in order by'' (TransformScan c (osInputScan orderBy))) (\<lambda>inner.
     tbind (twrap ''failed to transform order by items''
              (transformOrderByItems c (osOrderByColumns orderBy))) (\<lambda>items.
     tbind (tmapM (\<lambda>col. tbind (qualifiedColumn (cdaID col)) (\<lambda>e. treturn (aliasedItem col e)))
              (scColumnList data)) (\<lambda>selectList.
     treturn (subqueryFrom (setOrderBy (simpleSelect selectList (Some inner)) items) [])))))"

definition addLimitToSelect ::
  "('t, 'v) Coordinator \<Rightarrow> SelectStatement \<Rightarrow>
   (('t, 'v) ExpressionData, ('t, 'v) ScanData) LimitScanData \<Rightarrow> FromItem tm" where
  "addLimitToSelect c selectStmt limitData =
     tbind (twrap ''failed to transform limit count'' (TransformExpression c (lsCount limitData))) (\<lambda>countExpr.
     tbind (toption (\<lambda>e. twrap ''failed to transform limit offset'' (TransformExpression c e))
              (lsOffset limitData)) (\<lambda>offsetExpr.
     tbind fragmentID (\<lambda>scope.
     treturn (subqueryFrom (setLimit selectStmt (Some (LimitClause (Some countExpr) offsetExpr)))
       (''limit_scan_'' @ scope)))))"

definition LimitScanTransformer_Transform ::
  "('t, 'v) Coordinator \<Rightarrow> ('t, 'v) ScanData \<Rightarrow> FromItem tm" where
  "LimitScanTransformer_Transform c data =
     tbind (expectScan ''limit scan'' ScanTypeLimit data (scLimitScan data)) (\<lambda>limitData.
     tbind (twrap ''failed to transform inner scan in limit'' (TransformScan c (lsInputScan limitData))) (\<lambda>inner.
     addLimitToSelect c (NewSelectStarStatement (Some inner)) limitData))"

section \<open>Set operations and single rows\<close>

text \<open>The WITH clauses of the items move to the statement of the set operation.\<close>

definition hoistWithClauses :: "string \<Rightarrow> string \<Rightarrow> SelectStatement list \<Rightarrow> SelectStatement" where
  "hoistWithClauses opType modifier stmts =
     setOperationSelect (concat (map sWithClauses stmts))
       (SetOperation opType modifier (map (\<lambda>s. setWithClauses s []) stmts))"

definition asSelect :: "string \<Rightarrow> SQLFragment \<Rightarrow> SelectStatement tm" where
  "asSelect msg stmt = (case frag_asSelect stmt of None \<Rightarrow> tfail msg | Some s \<Rightarrow> treturn s)"

text \<open>\<open>xs[i]\<close> panics out of range.\<close>

definition tindex :: "'a list \<Rightarrow> nat \<Rightarrow> 'a tm" where
  "tindex xs i =
     (if i < length xs then treturn (xs ! i)
      else tlift (panic (''index out of range ['' @ sprintNat i @ ''] with length '' @ sprintNat (length xs))))"

definition SetOperationScanTransformer_Transform ::
  "('t, 'v) Coordinator \<Rightarrow> ('t, 'v) ScanData \<Rightarrow> FromItem tm" where
  "SetOperationScanTransformer_Transform c data =
     tbind (expectScan ''set operation scan'' ScanTypeSetOp data (scSetOperationScan data)) (\<lambda>setOpData.
     tbind (tmapM (\<lambda>(i, stmtData).
         tbind (twrap (''failed to transform set operation statement '' @ sprintNat i)
                  (TransformStatement c stmtData))
           (asSelect (''set operation item '' @ sprintNat i @ '' is not a SELECT statement'')))
         (List.enumerate 0 (sodItems setOpData))) (\<lambda>stmts.
     tbind (tmapM (\<lambda>(i, column).
         tbind (tindex stmts 0) (\<lambda>first.
         tbind (tindex (sSelectList first) i) (\<lambda>itemColumn.
         treturn (aliasedItem column (NewColumnExpression (slAlias itemColumn) [])))))
         (List.enumerate 0 (scColumnList data))) (\<lambda>selectList.
     treturn (subqueryFrom
       (simpleSelect selectList
         (Some (subqueryFrom (hoistWithClauses (sodType setOpData) (sodModifier setOpData) stmts)
            ''set_op_scan_inner'')))
       ''set_op_scan_outer''))))"

definition SingleRowScanTransformer_Transform :: "('t, 'v) ScanData \<Rightarrow> FromItem tm" where
  "SingleRowScanTransformer_Transform data =
     (if scType data = ScanTypeSingleRow then treturn (emptyFromItem FromItemTypeSingleRow)
      else tfail (''expected single row scan data, got type '' @ sprintNat (scanTypeNum (scType data))))"

section \<open>WITH\<close>

definition setRecursive :: "bool \<Rightarrow> 's WithClause \<Rightarrow> 's WithClause" where
  "setRecursive r w = WithClause (wcName w) (wcMaterialized w) r (wcColumns w) (wcQuery w)"

definition withEntryScan :: "('t, 'v) ScanData WithEntryData \<Rightarrow> ('t, 'v) ScanData" where
  "withEntryScan entry =
     ScanData ScanTypeWithEntry [] None None None None None None None None None None (Some entry)
       None None None None"

definition transformWithClause ::
  "('t, 'v) Coordinator \<Rightarrow> bool \<Rightarrow> ('t, 'v) ScanData WithEntryData \<Rightarrow> SelectStatement WithClause tm" where
  "transformWithClause c recursive entry =
     tbind (if recursive then tmodify (SetRecursiveCTEName (weWithQueryName entry)) else treturn ()) (\<lambda>_.
     tbind (twrap ''failed to transform WITH entry'' (TransformWithEntry c (withEntryScan entry))) (\<lambda>withClause.
     tbind (if recursive then tmodify (SetRecursiveCTEName []) else treturn ()) (\<lambda>_.
     treturn (if recursive then setRecursive True withClause else withClause))))"

definition WithScanTransformer_Transform ::
  "('t, 'v) Coordinator \<Rightarrow> ('t, 'v) ScanData \<Rightarrow> FromItem tm" where
  "WithScanTransformer_Transform c data =
     tbind (expectScan ''with scan'' ScanTypeWith data (scWithScan data)) (\<lambda>withScanData.
     tbind (tmapM (transformWithClause c (wsRecursive withScanData)) (wsWithEntryList withScanData)) (\<lambda>withClauses.
     tbind (twrap ''failed to transform WITH query'' (TransformScan c (wsQuery withScanData))) (\<lambda>query.
     treturn (subqueryFrom (setWithClauses (NewSelectStarStatement (Some query)) withClauses) []))))"

definition recordEntryMapping :: "('t, 'v) ScanData WithEntryData \<Rightarrow> unit tm" where
  "recordEntryMapping entry = tmodify (AddWithEntryColumnMapping (weWithQueryName entry) (weColumnList entry))"

definition WithEntryTransformer_Transform ::
  "('t, 'v) Coordinator \<Rightarrow> ('t, 'v) ScanData \<Rightarrow> SelectStatement WithClause tm" where
  "WithEntryTransformer_Transform c data =
     tbind (expectScan ''with entry'' ScanTypeWithEntry data (scWithEntryScan data)) (\<lambda>entry.
     tbind (tread (\<lambda>ctx. GetRecursiveCTEName ctx = weWithQueryName entry)) (\<lambda>isRecursive.
     tbind (if isRecursive then recordEntryMapping entry else treturn ()) (\<lambda>_.
     tbind (twrap ''failed to transform WITH entry subquery'' (TransformScan c (weWithSubquery entry))) (\<lambda>f.
     tbind (if \<not> isRecursive then recordEntryMapping entry else treturn ()) (\<lambda>_.
     treturn (WithClause (weWithQueryName entry) False False []
       (Some (case fSubquery f of
            Some q \<Rightarrow>
              if isRecursive \<and> fType f = FromItemTypeSubquery then q else NewSelectStarStatement (Some f)
          | None \<Rightarrow> NewSelectStarStatement (Some f)))))))))"

text \<open>The common part of the two references to a WITH query: its columns by position.\<close>

definition mappedSelect :: "string \<Rightarrow> string \<Rightarrow> string list \<Rightarrow> ColumnData list \<Rightarrow> SelectStatement" where
  "mappedSelect table tableAlias mapping columns =
     simpleSelect
       (map (\<lambda>(name, column). aliasedItem column (NewColumnExpression name [tableAlias])) (zip mapping columns))
       (Some (tableFrom table tableAlias))"

definition WithRefScanTransformer_Transform :: "('t, 'v) ScanData \<Rightarrow> FromItem tm" where
  "WithRefScanTransformer_Transform data =
     tbind (expectScan ''with ref scan'' ScanTypeWithRef data (scWithRefScan data)) (\<lambda>ref.
     tbind fragmentID (\<lambda>scope.
     tbind (tread (GetWithEntryMapping (wrWithQueryName ref))) (\<lambda>found.
     case found of
       None \<Rightarrow> tfail (''no entry mapping found for query '' @ wrWithQueryName ref)
     | Some mapping \<Rightarrow>
         if length mapping \<noteq> length (wrColumnList ref)
         then tfail (''incorrect number of columns found for query '' @ wrWithQueryName ref)
         else treturn (subqueryFrom
           (mappedSelect (wrWithQueryName ref) (''wrs'' @ scope) mapping (wrColumnList ref)) []))))"

section \<open>Arrays\<close>

definition registerArrayColumn :: "ColumnData \<Rightarrow> string \<Rightarrow> string \<Rightarrow> unit tm" where
  "registerArrayColumn column name alias =
     tbind (onFragment (AddAvailableColumn (cdaID column)
       (newColumnInfo\<lparr>ciID := cdaID column, ciName := name,
          ciExpression := Some (NewColumnExpression name [alias])\<rparr>))) (\<lambda>_.
     onFragment (RegisterColumnScope (cdaID column) alias))"

definition arrayJoin ::
  "('t, 'v) Coordinator \<Rightarrow> (('t, 'v) ExpressionData, ('t, 'v) ScanData) ArrayScanData \<Rightarrow>
   FromItem \<Rightarrow> FromItem \<Rightarrow> FromItem tm" where
  "arrayJoin c arrayData inner jsonEach =
     (case arJoinExpr arrayData of
        Some e \<Rightarrow>
          tbind (twrap ''failed to transform join expression'' (TransformExpression c e)) (\<lambda>condition.
          treturn (joinFrom (JoinClause (if arIsOuter arrayData then JoinTypeLeft else JoinTypeInner)
            (Some inner) (Some jsonEach) (Some condition) [])))
      | None \<Rightarrow>
          treturn (joinFrom
            (if arIsOuter arrayData
             then JoinClause JoinTypeLeft (Some inner) (Some jsonEach) (Some (NewLiteralExpression ''true'')) []
             else JoinClause JoinTypeCross (Some inner) (Some jsonEach) None [])))"

definition jsonEachFrom :: "SQLExpression \<Rightarrow> string \<Rightarrow> FromItem" where
  "jsonEachFrom arrayExpr alias =
     FromItem FromItemTypeTableFunction [] alias None None []
       (Some (TableFunction ''json_each'' [NewFunctionExpression ''zetasqlite_decode_array'' [arrayExpr]]))
       None []"

definition ArrayScanTransformer_Transform ::
  "('t, 'v) Coordinator \<Rightarrow> ('t, 'v) ScanData \<Rightarrow> FromItem tm" where
  "ArrayScanTransformer_Transform c data =
     tbind (expectScan ''array scan'' ScanTypeArray data (scArrayScan data)) (\<lambda>arrayData.
     tbind (toption (\<lambda>s. twrap ''failed to transform input scan for array'' (TransformScan c s))
              (arInputScan arrayData)) (\<lambda>inner.
     tbind (twrap ''failed to transform array expression''
              (TransformExpression c (arArrayExpr arrayData))) (\<lambda>arrayExpr.
     tbind fragmentID (\<lambda>scope.
     let alias = ''$array_'' @ scope; jsonEach = jsonEachFrom arrayExpr alias in
     tbind (tderef (arElementColumn arrayData)) (\<lambda>element.
     tbind (registerArrayColumn element ''value'' alias) (\<lambda>_.
     tbind (case arArrayOffsetColumn arrayData of
              None \<Rightarrow> treturn ()
            | Some offsetColumn \<Rightarrow> registerArrayColumn offsetColumn ''key'' alias) (\<lambda>_.
     tbind (tmapM (\<lambda>col. tbind (qualifiedRef (cdaID col)) (\<lambda>(name, table).
              treturn (aliasedItem col (NewColumnExpression name [table])))) (scColumnList data)) (\<lambda>selectList.
     case inner of
       None \<Rightarrow> treturn (subqueryFrom (simpleSelect selectList (Some jsonEach)) [])
     | Some f \<Rightarrow>
         tbind (arrayJoin c arrayData f jsonEach) (\<lambda>join.
         treturn (subqueryFrom (simpleSelect selectList (Some join)) []))))))))))"

section \<open>Window functions\<close>

text \<open>
  The ORDER BY that imitates the order in which the reference engine returns the rows of window
  functions: the partition and ordering columns, when they are plain columns.
\<close>

definition analyticOrderItem :: "('t, 'v) ExpressionData \<Rightarrow> bool \<Rightarrow> SQLExpression OrderByItem list tm" where
  "analyticOrderItem e isDescending =
     (case (edType e, edColumn e) of
        (ExpressionTypeColumn, Some column) \<Rightarrow>
          tbind (qualifiedColumn (crColumnID column)) (\<lambda>expr.
          treturn [OrderByItem (Some (setCollation zetasqlite_collate expr))
            (if isDescending then ''DESC'' else ''ASC'') []])
      | _ \<Rightarrow> treturn [])"

definition analyticOrder :: "('t, 'v) ExpressionData \<Rightarrow> SQLExpression OrderByItem list tm" where
  "analyticOrder e =
     (case (edType e, edFunction e) of
        (ExpressionTypeFunction, Some function) \<Rightarrow>
          (case fdWindowSpec function of
             None \<Rightarrow> treturn []
           | Some w \<Rightarrow>
               tbind (tmapM (\<lambda>p. analyticOrderItem p False) (wsdPartitionBy w)) (\<lambda>partition.
               tbind (tmapM (\<lambda>d. analyticOrderItem (obdExpression d) (obdIsDescending d)) (wsdOrderBy w)) (\<lambda>order.
               treturn (concat partition @ concat order))))
      | _ \<Rightarrow> treturn [])"

definition AnalyticScanTransformer_Transform ::
  "('t, 'v) Coordinator \<Rightarrow> ('t, 'v) ScanData \<Rightarrow> FromItem tm" where
  "AnalyticScanTransformer_Transform c data =
     tbind (expectScan ''analytic scan'' ScanTypeAnalytic data (scAnalyticScan data)) (\<lambda>analytic.
     tbind (twrap ''failed to transform input scan for analytic'' (TransformScan c (anInputScan analytic))) (\<lambda>inputFromItem.
     tbind (transformComputed c ''failed to transform window function'' (anFunctionList analytic)) (\<lambda>functions.
     tbind (tmapM (\<lambda>col.
         case lookupLast functions (cdaID col) of
           Some e \<Rightarrow> treturn (aliasedItem col e)
         | None \<Rightarrow> tbind (qualifiedColumn (cdaID col)) (\<lambda>e. treturn (aliasedItem col e)))
         (scColumnList data)) (\<lambda>selectList.
     tbind (tmapM (\<lambda>cc. analyticOrder (ccExpression cc)) (anFunctionList analytic)) (\<lambda>orders.
     treturn (subqueryFrom
       (setOrderBy (simpleSelect selectList (Some inputFromItem)) (concat orders)) []))))))"

section \<open>Recursive WITH queries\<close>

fun aliasColumns ::
  "ColumnData list \<Rightarrow> SQLExpression SelectListItem list \<Rightarrow> SQLExpression SelectListItem list" where
  "aliasColumns (col # cols) (item # items) =
     SelectListItem (slExpression item) (generateIDBasedAlias (cdaName col) (cdaID col))
       (slIsStarExpansion item) (slExceptColumns item) (slReplaceColumns item) # aliasColumns cols items"
| "aliasColumns _ items = items"

definition recursiveOperation :: "string \<Rightarrow> (string \<times> string) tm" where
  "recursiveOperation opType =
     (if opType = ''UNION ALL'' then treturn (''UNION'', ''ALL'')
      else if opType = ''UNION'' then treturn (''UNION'', [])
      else tfail (''unsupported recursive operation type: '' @ opType))"

definition RecursiveScanTransformer_Transform ::
  "('t, 'v) Coordinator \<Rightarrow> ('t, 'v) ScanData \<Rightarrow> FromItem tm" where
  "RecursiveScanTransformer_Transform c data =
     tbind (expectScan ''recursive scan'' ScanTypeRecursive data (scRecursiveScan data)) (\<lambda>rec.
     tbind (twrap ''failed to transform non-recursive term'' (TransformStatement c (rsNonRecursiveTerm rec))) (\<lambda>stmt1.
     tbind (asSelect ''non-recursive term is not a SELECT statement'' stmt1) (\<lambda>nonRecursive.
     tbind (twrap ''failed to transform recursive term'' (TransformStatement c (rsRecursiveTerm rec))) (\<lambda>stmt2.
     tbind (asSelect ''recursive term is not a SELECT statement'' stmt2) (\<lambda>recursive0.
     tbind (recursiveOperation (rsOpType rec)) (\<lambda>(opType, modifier).
     let recursive = flattenSelectForRecursiveCTE recursive0;
         items = map (\<lambda>s. setSelectList s (aliasColumns (scColumnList data) (sSelectList s)))
           [nonRecursive, recursive]
     in treturn (subqueryFrom (hoistWithClauses opType modifier items) ''recursive_scan'')))))))"

definition RecursiveRefScanTransformer_Transform :: "('t, 'v) ScanData \<Rightarrow> FromItem tm" where
  "RecursiveRefScanTransformer_Transform data =
     tbind (expectScan ''recursive ref scan'' ScanTypeRecursiveRef data (scRecursiveRefScan data)) (\<lambda>ref.
     tbind (tread GetRecursiveCTEName) (\<lambda>name.
     if name = [] then tfail ''recursive CTE name not found in context''
     else
     tbind fragmentID (\<lambda>scope.
     tbind (tread (GetWithEntryMapping name)) (\<lambda>found.
     case found of
       None \<Rightarrow> tfail (''no entry mapping found for recursive CTE '' @ name)
     | Some mapping \<Rightarrow>
         if length mapping \<noteq> length (rrColumnList ref)
         then tfail (''incorrect number of columns found for recursive CTE '' @ name)
         else treturn (subqueryFrom
           (mappedSelect name (''rrs'' @ scope) mapping (rrColumnList ref)) [])))))"

section \<open>The transformers keep the scopes\<close>

lemma keeps_expectScan [keep_intros]: "keepsScopes (expectScan w t d p)"
  unfolding expectScan_def by (intro keep_intros)

lemma keeps_asSelect [keep_intros]: "keepsScopes (asSelect msg s)"
  unfolding asSelect_def by (intro keep_intros)

lemma keeps_tindex [keep_intros]: "keepsScopes (tindex xs i)"
  unfolding tindex_def by (intro keep_intros)

lemma keeps_RegisterColumnScope [keep_intros]: "keepsScopes (onFragment (RegisterColumnScope i a))"
  by (rule keeps_onFragment) simp

lemma keeps_AddAvailableColumn [keep_intros]: "keepsScopes (onFragment (AddAvailableColumn i a))"
  by (rule keeps_onFragment) simp

lemma keeps_RegisterColumnScopeMapping [keep_intros]:
  "keepsScopes (onFragment (RegisterColumnScopeMapping a cols))"
  by (rule keeps_onFragment) simp

lemma keeps_SetRecursiveCTEName [keep_intros]: "keepsScopes (tmodify (SetRecursiveCTEName n))"
  by (rule keeps_modify) (simp add: SetRecursiveCTEName_def)

lemma keeps_recordEntryMapping [keep_intros]: "keepsScopes (recordEntryMapping e)"
  unfolding recordEntryMapping_def by (rule keeps_modify) (simp add: AddWithEntryColumnMapping_def)

lemma keeps_registerArrayColumn [keep_intros]: "keepsScopes (registerArrayColumn col n a)"
  unfolding registerArrayColumn_def by (intro keep_intros)

lemma keeps_analyticOrder [keep_intros]: "keepsScopes (analyticOrder e)"
  unfolding analyticOrder_def analyticOrderItem_def
  by (auto split: ExpressionType.split option.split intro!: keep_intros)

lemma keeps_groupingSets [keep_intros]: "keepsScopes (buildGroupingSetsQuery env gs f cols out m)"
  unfolding buildGroupingSetsQuery_def groupingSetSelect_def Let_def
  by (auto split: list.split intro!: keep_intros)

lemma keeps_recursiveOperation [keep_intros]: "keepsScopes (recursiveOperation t)"
  unfolding recursiveOperation_def by (intro keep_intros)

context coordinator_contract
begin

lemma table_keeps: "keepsScopes (TableScanTransformer_Transform c data)"
  unfolding TableScanTransformer_Transform_def syntheticColumn_def
  by (intro keep_intros contract_keeps)

lemma join_keeps: "keepsScopes (JoinScanTransformer_Transform c data)"
  unfolding JoinScanTransformer_Transform_def by (intro keep_intros contract_keeps)

lemma filter_keeps: "keepsScopes (FilterScanTransformer_Transform c data)"
  unfolding FilterScanTransformer_Transform_def by (intro keep_intros contract_keeps)

lemma project_keeps: "keepsScopes (ProjectScanTransformer_Transform c data)"
  unfolding ProjectScanTransformer_Transform_def by (intro keep_intros contract_keeps)

lemma computed_keeps: "keepsScopes (transformComputed c msg xs)"
  unfolding transformComputed_def by (intro keep_intros contract_keeps)

lemma aggregate_keeps: "keepsScopes (AggregateScanTransformer_Transform env c data)"
  unfolding AggregateScanTransformer_Transform_def
  by (intro keep_intros contract_keeps computed_keeps)

lemma orderby_keeps: "keepsScopes (OrderByScanTransformer_Transform c data)"
  unfolding OrderByScanTransformer_Transform_def transformOrderByItems_def
  by (intro keep_intros contract_keeps)

lemma limit_keeps: "keepsScopes (LimitScanTransformer_Transform c data)"
  unfolding LimitScanTransformer_Transform_def addLimitToSelect_def
  by (intro keep_intros contract_keeps)

lemma setop_keeps: "keepsScopes (SetOperationScanTransformer_Transform c data)"
  unfolding SetOperationScanTransformer_Transform_def by (intro keep_intros contract_keeps)

lemma single_row_keeps: "keepsScopes (SingleRowScanTransformer_Transform data)"
  unfolding SingleRowScanTransformer_Transform_def by (intro keep_intros)

lemma with_keeps: "keepsScopes (WithScanTransformer_Transform c data)"
  unfolding WithScanTransformer_Transform_def transformWithClause_def
  by (intro keep_intros contract_keeps)

lemma with_entry_transformer_keeps: "keepsScopes (WithEntryTransformer_Transform c data)"
  unfolding WithEntryTransformer_Transform_def by (intro keep_intros contract_keeps)

lemma with_ref_keeps: "keepsScopes (WithRefScanTransformer_Transform data)"
  unfolding WithRefScanTransformer_Transform_def by (intro keep_intros)

lemma array_keeps: "keepsScopes (ArrayScanTransformer_Transform c data)"
  unfolding ArrayScanTransformer_Transform_def arrayJoin_def
  by (intro keep_intros contract_keeps)

lemma analytic_keeps: "keepsScopes (AnalyticScanTransformer_Transform c data)"
  unfolding AnalyticScanTransformer_Transform_def
  by (intro keep_intros contract_keeps computed_keeps)

lemma recursive_keeps: "keepsScopes (RecursiveScanTransformer_Transform c data)"
  unfolding RecursiveScanTransformer_Transform_def by (intro keep_intros contract_keeps)

lemma recursive_ref_keeps: "keepsScopes (RecursiveRefScanTransformer_Transform data)"
  unfolding RecursiveRefScanTransformer_Transform_def by (intro keep_intros)

lemmas scan_transformers_keep =
  table_keeps join_keeps filter_keeps project_keeps aggregate_keeps orderby_keeps limit_keeps
  setop_keeps single_row_keeps with_keeps with_ref_keeps array_keeps analytic_keeps
  recursive_keeps recursive_ref_keeps

end

end
