(* ===== verification/Transform_Stmt.thy ===== *)
theory Transform_Stmt
  imports Transform_Scan
begin

text \<open>
  The statement transformers: \<open>internal/transformer_stmt_query.go\<close>, \<open>_dml.go\<close>,
  \<open>_create_view.go\<close>, \<open>_create_table_as_select.go\<close> and \<open>_drop.go\<close>. Each returns an
  \<open>SQLFragment\<close>; the conversions below are those of a pointer to the interface value.
\<close>

section \<open>Fragments of statements\<close>

definition fragment_of_insert :: "InsertStatement \<Rightarrow> SQLFragment" where
  "fragment_of_insert s =
     \<lparr>frag_WriteSql = InsertStatement_WriteSql s, frag_String = InsertStatement_String s,
      frag_asSelect = None\<rparr>"

definition fragment_of_update :: "UpdateStatement \<Rightarrow> SQLFragment" where
  "fragment_of_update s =
     \<lparr>frag_WriteSql = UpdateStatement_WriteSql s, frag_String = UpdateStatement_String s,
      frag_asSelect = None\<rparr>"

definition fragment_of_delete :: "DeleteStatement \<Rightarrow> SQLFragment" where
  "fragment_of_delete s =
     \<lparr>frag_WriteSql = DeleteStatement_WriteSql s, frag_String = DeleteStatement_String s,
      frag_asSelect = None\<rparr>"

definition fragment_of_create_view :: "CreateViewStatement \<Rightarrow> SQLFragment" where
  "fragment_of_create_view s =
     \<lparr>frag_WriteSql = CreateViewStatement_WriteSql s, frag_String = CreateViewStatement_String s,
      frag_asSelect = None\<rparr>"

definition fragment_of_create_table :: "CreateTableStatement \<Rightarrow> SQLFragment" where
  "fragment_of_create_table s =
     \<lparr>frag_WriteSql = CreateTableStatement_WriteSql s, frag_String = CreateTableStatement_String s,
      frag_asSelect = None\<rparr>"

definition fragment_of_drop :: "DropStatement \<Rightarrow> SQLFragment" where
  "fragment_of_drop s =
     \<lparr>frag_WriteSql = DropStatement_WriteSql s, frag_String = DropStatement_String s,
      frag_asSelect = None\<rparr>"

definition fragment_of_compound :: "CompoundSQLFragment \<Rightarrow> SQLFragment" where
  "fragment_of_compound s =
     \<lparr>frag_WriteSql = CompoundSQLFragment_WriteSql s, frag_String = Some (CompoundSQLFragment_String s),
      frag_asSelect = None\<rparr>"

text \<open>The value of a \<open>String()\<close> method, whose panic is the panic of the caller.\<close>

definition tstring :: "string option \<Rightarrow> string tm" where
  "tstring s = tlift (case s of None \<Rightarrow> nilDeref | Some x \<Rightarrow> ok x)"

section \<open>Queries\<close>

definition QueryStmtTransformer_Transform ::
  "('t, 'v) Coordinator \<Rightarrow> ('t, 'v) StatementData \<Rightarrow> SQLFragment tm" where
  "QueryStmtTransformer_Transform c data =
     (case (stType data, stSelect data) of
        (StatementTypeSelect, Some selectData) \<Rightarrow>
          tbind (tderef (sdFromClause selectData)) (\<lambda>scan.
          tbind (twrap ''failed to transform query scan'' (TransformScan c scan)) (\<lambda>fromItem.
          tbind (tmapM (\<lambda>(i, outputItem).
              tbind (twrap (''failed to transform output column '' @ sprintNat i)
                       (TransformExpression c (sidExpression outputItem)))
                (\<lambda>expr. treturn (selectItem expr (sidAlias outputItem))))
              (List.enumerate 0 (sdSelectList selectData))) (\<lambda>selectList.
          treturn (fragment_of_select (simpleSelect selectList (Some fromItem))))))
      | _ \<Rightarrow> tfail (''expected select statement data for query stmt, got type ''
               @ sprintNat (stmtTypeNum (stType data))))"

section \<open>INSERT, UPDATE and DELETE\<close>

definition insertQuery ::
  "('t, 'v) Coordinator \<Rightarrow>
   (('t, 'v) ExpressionData, ('t, 'v) ScanData, ('t, 'v) StatementData) SelectData \<Rightarrow> SelectStatement tm" where
  "insertQuery c q =
     tbind (tderef (sdFromClause q)) (\<lambda>scan.
     tbind (twrap ''failed to transform insert query scan'' (TransformScan c scan)) (\<lambda>fromItem.
     tbind (tmapM (\<lambda>item.
         tbind (twrap ''failed to transform insert select expression''
                  (TransformExpression c (sidExpression item)))
           (\<lambda>expr. treturn (selectItem expr (sidAlias item)))) (sdSelectList q)) (\<lambda>selectList.
     treturn (simpleSelect selectList (Some fromItem)))))"

definition insertRow :: "('t, 'v) Coordinator \<Rightarrow> ('t, 'v) ExpressionData list \<Rightarrow> SQLFragment tm" where
  "insertRow c rowValues =
     tbind (tmapM (\<lambda>value.
         tbind (twrap ''failed to transform insert value'' (TransformExpression c value)) (\<lambda>expr.
         tstring (SQLExpression_String expr))) rowValues) (\<lambda>valueStrings.
     treturn (fragment_of_expression (NewLiteralExpression (joinStrings '','' valueStrings))))"

definition transformInsert ::
  "('t, 'v) Coordinator \<Rightarrow> ('t, 'v) StatementData \<Rightarrow> SQLFragment tm" where
  "transformInsert c data =
     (case stInsert data of
        None \<Rightarrow> tfail ''expected insert statement data, got nil''
      | Some insertData \<Rightarrow>
          let stmt = \<lparr>inTableName = idTableName insertData,
                inColumns = map quoteId (idColumns insertData), inQuery = None, inRows = []\<rparr> in
          case idQuery insertData of
            Some q \<Rightarrow>
              tbind (insertQuery c q) (\<lambda>s. treturn (fragment_of_insert (stmt\<lparr>inQuery := Some s\<rparr>)))
          | None \<Rightarrow>
              tbind (tmapM (insertRow c) (idValues insertData)) (\<lambda>rows.
              treturn (fragment_of_insert (stmt\<lparr>inRows := rows\<rparr>))))"

text \<open>\<open>ctx.FragmentContext().AddAvailableColumnsForDML(p)\<close> of a pointer that may be nil.\<close>

definition addColumnsForDML :: "('t, 'v) ScanData option \<Rightarrow> unit tm" where
  "addColumnsForDML p =
     tbind (tderef p) (\<lambda>scan ctx.
       go_bind (AddAvailableColumnsForDML scan (fragmentContext ctx))
         (\<lambda>fc. ok ((), ctx\<lparr>fragmentContext := fc\<rparr>)))"

definition transformUpdate ::
  "('t, 'v) Coordinator \<Rightarrow> ('t, 'v) StatementData \<Rightarrow> SQLFragment tm" where
  "transformUpdate c data =
     (case stUpdate data of
        None \<Rightarrow> tfail ''expected update statement data, got nil''
      | Some updateData \<Rightarrow>
          tbind (addColumnsForDML (udTableScan updateData)) (\<lambda>_.
          tbind (toption (\<lambda>s. twrap ''failed to transform update from clause'' (TransformScan c s))
                   (udFromClause updateData)) (\<lambda>fromClause.
          tbind (tmapM (\<lambda>item.
              tbind (twrap ''failed to transform update value'' (TransformExpression c (sitValue item)))
                (\<lambda>val. treturn \<lparr>siColumn = Some (NewLiteralExpression (sitColumn item)), siValue = Some val\<rparr>))
              (udSetItems updateData)) (\<lambda>setItems.
          tbind (toption (\<lambda>e. twrap ''failed to transform update where clause'' (TransformExpression c e))
                   (udWhereClause updateData)) (\<lambda>whereExpr.
          treturn (fragment_of_update
            \<lparr>upTable = Some (tableFrom (udTableName updateData) []), upSetItems = setItems,
             upFromClause = fromClause, upWhereClause = whereExpr\<rparr>))))))"

definition transformDelete ::
  "('t, 'v) Coordinator \<Rightarrow> ('t, 'v) StatementData \<Rightarrow> SQLFragment tm" where
  "transformDelete c data =
     (case stDelete data of
        None \<Rightarrow> tfail ''expected delete statement data, got nil''
      | Some deleteData \<Rightarrow>
          tbind (addColumnsForDML (ddTableScan deleteData)) (\<lambda>_.
          tbind (toption (\<lambda>e. twrap ''failed to transform delete where clause'' (TransformExpression c e))
                   (ddWhereClause deleteData)) (\<lambda>whereExpr.
          treturn (fragment_of_delete
            \<lparr>deTable = Some (fragment_of_from (tableFrom (ddTableName deleteData) [])),
             deWhereExpr = map_option fragment_of_expression whereExpr\<rparr>))))"

definition DMLStmtTransformer_Transform ::
  "('t, 'v) Coordinator \<Rightarrow> ('t, 'v) StatementData \<Rightarrow> SQLFragment tm" where
  "DMLStmtTransformer_Transform c data =
     (case stType data of
        StatementTypeInsert \<Rightarrow> transformInsert c data
      | StatementTypeUpdate \<Rightarrow> transformUpdate c data
      | StatementTypeDelete \<Rightarrow> transformDelete c data
      | _ \<Rightarrow> tfail (''unsupported DML statement type: '' @ sprintNat (stmtTypeNum (stType data))))"

section \<open>CREATE and DROP\<close>

definition selectStatementData ::
  "(('t, 'v) ExpressionData, ('t, 'v) ScanData, ('t, 'v) StatementData) SelectData \<Rightarrow>
   ('t, 'v) StatementData" where
  "selectStatementData q =
     StatementData StatementTypeSelect (Some q) None None None None None None"

definition createOf ::
  "((('t, 'v) ExpressionData, ('t, 'v) ScanData, ('t, 'v) StatementData) CreateData \<Rightarrow> 'a option) \<Rightarrow>
   ('t, 'v) StatementData \<Rightarrow> 'a option" where
  "createOf sel data =
     (if stType data = StatementTypeCreate then Option.bind (stCreate data) sel else None)"

definition CreateViewStmtTransformer_Transform ::
  "('t, 'v) Coordinator \<Rightarrow> ('t, 'v) StatementData \<Rightarrow> SQLFragment tm" where
  "CreateViewStmtTransformer_Transform c data =
     (case createOf crdView data of
        None \<Rightarrow> tfail (''expected CREATE VIEW statement data for CREATE VIEW, got type ''
                  @ sprintNat (stmtTypeNum (stType data)))
      | Some view \<Rightarrow>
          tbind (twrap ''failed to transform view SELECT query''
                   (TransformStatement c (selectStatementData (cvdQuery view)))) (\<lambda>selectFragment.
          treturn (fragment_of_create_view
            \<lparr>cvIfNotExists = False, cvViewName = cvdViewName view, cvQuery = Some selectFragment\<rparr>)))"

definition CreateTableAsSelectStmtTransformer_Transform ::
  "('t, 'v) Coordinator \<Rightarrow> ('t, 'v) StatementData \<Rightarrow> SQLFragment tm" where
  "CreateTableAsSelectStmtTransformer_Transform c data =
     (case createOf crdTable data of
        None \<Rightarrow> tfail (''expected CREATE TABLE statement data for CREATE TABLE AS SELECT, got type ''
                  @ sprintNat (stmtTypeNum (stType data)))
      | Some table \<Rightarrow>
          (case ctdAsSelect table of
             None \<Rightarrow> tfail ''expected CREATE TABLE AS SELECT, but AsSelect data is nil''
           | Some q \<Rightarrow>
               tbind (twrap ''failed to transform AS SELECT query''
                        (TransformStatement c (selectStatementData q))) (\<lambda>selectFragment.
               case frag_asSelect selectFragment of
                 None \<Rightarrow> tlift (panic ''interface conversion: SQLFragment is not *SelectStatement'')
               | Some s \<Rightarrow>
                   treturn (fragment_of_create_table
                     \<lparr>ctIfNotExists = ctdIfNotExists table, ctTableName = ctdTableName table,
                      ctColumns = [], ctAsSelect = Some s\<rparr>))))"

definition DropStmtTransformer_Transform :: "('t, 'v) StatementData \<Rightarrow> SQLFragment tm" where
  "DropStmtTransformer_Transform data =
     (case (stType data, stDrop data) of
        (StatementTypeDrop, Some dropData) \<Rightarrow>
          treturn (fragment_of_drop
            \<lparr>dsIfExists = drIfExists dropData, dsObjectType = drObjectType dropData,
             dsObjectName = drObjectName dropData\<rparr>)
      | _ \<Rightarrow> tfail (''expected drop statement data for drop stmt, got type ''
               @ sprintNat (stmtTypeNum (stType data))))"

section \<open>The transformers keep the scopes\<close>

lemma keeps_tstring [keep_intros]: "keepsScopes (tstring s)"
  unfolding tstring_def by (rule keeps_lift)

lemma keeps_addColumnsForDML [keep_intros]: "keepsScopes (addColumnsForDML p)"
  unfolding addColumnsForDML_def
proof (intro keep_intros keepsScopesI)
  fix scan :: "('t, 'v) ScanData" and ctx x ctx'
  assume ok: "scopesOk (fragmentContext ctx)"
    and run: "go_bind (AddAvailableColumnsForDML scan (fragmentContext ctx))
         (\<lambda>fc. ok ((), ctx\<lparr>fragmentContext := fc\<rparr>)) = ok (x, ctx')"
  obtain fc where fc: "AddAvailableColumnsForDML scan (fragmentContext ctx) = ok fc"
    and ctx': "fragmentContext ctx' = fc"
    using run by (auto simp: go_bind_Inr_iff)
  show "scopesOk (fragmentContext ctx')
      \<and> scopes (fragmentContext ctx') = scopes (fragmentContext ctx)
      \<and> count (fragmentContext ctx) \<le> count (fragmentContext ctx')"
    using scopes_AddAvailableColumnsForDML [OF fc] ok ctx' by (auto simp: scopesOk_def)
qed

context coordinator_contract
begin

lemma query_keeps: "keepsScopes (QueryStmtTransformer_Transform c data)"
  unfolding QueryStmtTransformer_Transform_def
  by (auto split: StatementType.split option.split intro!: keep_intros contract_keeps)

lemma insert_keeps: "keepsScopes (transformInsert c data)"
  unfolding transformInsert_def insertQuery_def insertRow_def Let_def
  by (intro keep_intros contract_keeps)

lemma update_keeps: "keepsScopes (transformUpdate c data)"
  unfolding transformUpdate_def by (intro keep_intros contract_keeps)

lemma delete_keeps: "keepsScopes (transformDelete c data)"
  unfolding transformDelete_def by (intro keep_intros contract_keeps)

lemma dml_keeps: "keepsScopes (DMLStmtTransformer_Transform c data)"
  unfolding DMLStmtTransformer_Transform_def
  by (auto split: StatementType.split intro!: insert_keeps update_keeps delete_keeps keep_intros)

lemma create_view_keeps: "keepsScopes (CreateViewStmtTransformer_Transform c data)"
  unfolding CreateViewStmtTransformer_Transform_def by (intro keep_intros contract_keeps)

lemma create_table_keeps: "keepsScopes (CreateTableAsSelectStmtTransformer_Transform c data)"
  unfolding CreateTableAsSelectStmtTransformer_Transform_def by (intro keep_intros contract_keeps)

lemma drop_keeps: "keepsScopes (DropStmtTransformer_Transform data)"
  unfolding DropStmtTransformer_Transform_def
  by (auto split: StatementType.split option.split intro!: keep_intros)

lemmas statement_transformers_keep =
  query_keeps dml_keeps create_view_keeps create_table_keeps drop_keeps

end

end
