(* ===== verification/Transform_Merge.thy ===== *)
theory Transform_Merge
  imports Transform_Stmt
begin

text \<open>
  The transformer of MERGE, \<open>internal/transformer_stmt_merge.go\<close>: a MERGE becomes a compound of a
  CREATE TABLE of the joined rows, one statement per WHEN clause, and a DROP TABLE.

  The maps of the code are keyed by the pointers to the columns; every column of the source and of
  the target list is a pointer of its own, so a key is a position in the source list followed by
  the target list. A range loop over such a map is ordered by \<open>envMergeRange\<close>, given the path of
  the loop: the two SELECT lists of the union are two loops each, and every SET item is one.
\<close>

section \<open>Distinct names for the merged columns\<close>

text \<open>The loop that appends a counter until the name is unused.\<close>

lemma finite_counters: "finite {k. n \<le> k \<and> base @ ''_'' @ sprintNat k \<in> set used}"
proof -
  have "inj (\<lambda>k. base @ ''_'' @ sprintNat k)" by (simp add: inj_def sprintNat_inj)
  then have "finite ((\<lambda>k. base @ ''_'' @ sprintNat k) -` set used)"
    by (rule finite_vimageI [OF finite_set])
  then show ?thesis by (rule rev_finite_subset) auto
qed

lemma counters_step:
  "card {k. n + 1 \<le> k \<and> base @ ''_'' @ sprintNat k \<in> set used}
     = card {k. n \<le> k \<and> base @ ''_'' @ sprintNat k \<in> set used}
       - (if base @ ''_'' @ sprintNat n \<in> set used then 1 else 0)"
proof -
  have eq: "{k. n + 1 \<le> k \<and> base @ ''_'' @ sprintNat k \<in> set used}
      = {k. n \<le> k \<and> base @ ''_'' @ sprintNat k \<in> set used} - {n}"
    by auto
  show ?thesis unfolding eq using finite_counters by (simp add: card_Diff_singleton_if)
qed

lemma counters_pos:
  "base @ ''_'' @ sprintNat n \<in> set used \<Longrightarrow>
   0 < card {k. n \<le> k \<and> base @ ''_'' @ sprintNat k \<in> set used}"
  using finite_counters [of n base used] by (auto simp: card_gt_0_iff)

function uniqueName :: "string list \<Rightarrow> string \<Rightarrow> nat \<Rightarrow> string \<Rightarrow> string" where
  "uniqueName used originalNewName counter newName =
     (if newName \<in> set used
      then uniqueName used originalNewName (counter + 1) (originalNewName @ ''_'' @ sprintNat counter)
      else newName)"
  by pat_completeness auto

termination
  by (relation "measure (\<lambda>(used, base, n, new).
        2 * card {k. n \<le> k \<and> base @ ''_'' @ sprintNat k \<in> set used} + (if new \<in> set used then 1 else 0))")
    (use counters_step counters_pos in \<open>auto\<close>)

declare uniqueName.simps [simp del]

lemma uniqueName_unused: "uniqueName used base n new \<notin> set used"
  by (induction used base n new rule: uniqueName.induct) (simp add: uniqueName.simps)

text \<open>One loop of \<open>createColumnMapping\<close>, with the names used so far.\<close>

fun mapColumns :: "string \<Rightarrow> ColumnData list \<Rightarrow> string list \<Rightarrow> (ColumnData \<times> string) list" where
  "mapColumns prefix [] used = []"
| "mapColumns prefix (col # cols) used =
     (let newName = uniqueName used (prefix @ cdaName col) 1 (prefix @ cdaName col)
      in (col, newName) # mapColumns prefix cols (newName # used))"

record ColumnMapping =
  SourceColumnMap :: "(ColumnData \<times> string) list"
  TargetColumnMap :: "(ColumnData \<times> string) list"

definition AllColumnMap :: "ColumnMapping \<Rightarrow> (ColumnData \<times> string) list" where
  "AllColumnMap m = SourceColumnMap m @ TargetColumnMap m"

definition createColumnMapping :: "ColumnData list \<Rightarrow> ColumnData list \<Rightarrow> ColumnMapping" where
  "createColumnMapping sourceColumns targetColumns =
     (let source = mapColumns ''merged_source_'' sourceColumns []
      in \<lparr>SourceColumnMap = source,
          TargetColumnMap = mapColumns ''merged_target_'' targetColumns (rev (map snd source))\<rparr>)"

lemma mapColumns_fst [simp]: "map fst (mapColumns prefix cols used) = cols"
  by (induction prefix cols used rule: mapColumns.induct) (simp_all add: Let_def)

lemma mapColumns_distinct:
  "distinct (map snd (mapColumns prefix cols used))
   \<and> set (map snd (mapColumns prefix cols used)) \<inter> set used = {}"
proof (induction cols arbitrary: used)
  case (Cons col cols)
  let ?n = "uniqueName used (prefix @ cdaName col) 1 (prefix @ cdaName col)"
  have "?n \<notin> set used" by (rule uniqueName_unused)
  with Cons.IH [of "?n # used"] show ?case by (auto simp: Let_def)
qed simp

text \<open>C35: The columns of the merged table of a MERGE get pairwise distinct names, whatever the names of
  the source and target columns are.\<close>

theorem AllColumnMap_distinct: "distinct (map snd (AllColumnMap (createColumnMapping ss ts)))"
  using mapColumns_distinct [of "''merged_source_''" ss "[]"]
    mapColumns_distinct [of "''merged_target_''" ts "rev (map snd (mapColumns ''merged_source_'' ss []))"]
  by (auto simp: AllColumnMap_def createColumnMapping_def Let_def)

text \<open>A pointer to a column: its position in the source list followed by the target list.\<close>

fun findIndex :: "('a \<Rightarrow> bool) \<Rightarrow> 'a list \<Rightarrow> nat option" where
  "findIndex P [] = None"
| "findIndex P (x # xs) = (if P x then Some 0 else map_option Suc (findIndex P xs))"

definition FindColumnByID :: "int \<Rightarrow> ('t, 'v) ScanData \<Rightarrow> nat option" where
  "FindColumnByID i scan = findIndex (\<lambda>col. cdaID col = i) (scColumnList scan)"

definition LookupName :: "ColumnMapping \<Rightarrow> nat option \<Rightarrow> string option" where
  "LookupName m column =
     (case column of
        None \<Rightarrow> None
      | Some p \<Rightarrow> if p < length (AllColumnMap m) then Some (snd (AllColumnMap m ! p)) else None)"

section \<open>The merge expression\<close>

definition validateMergeExpression :: "('t, 'v) ExpressionData \<Rightarrow> unit go" where
  "validateMergeExpression mergeExpr =
     (case (edType mergeExpr, edFunction mergeExpr) of
        (ExpressionTypeFunction, Some f) \<Rightarrow>
          if fdName f \<noteq> ''zetasqlite_equal''
          then fail_with ''currently MERGE expression is supported equal expression only''
          else if length (fdArguments f) \<noteq> 2
          then fail_with (''unexpected MERGE expression column num. expected 2 columns but specified ''
                 @ sprintNat (length (fdArguments f)))
          else (case find (\<lambda>(i, arg). edType arg \<noteq> ExpressionTypeColumn) (List.enumerate 0 (fdArguments f)) of
                  None \<Rightarrow> ok ()
                | Some (i, arg) \<Rightarrow>
                    fail_with (''unexpected MERGE expression. expected column reference but got ''
                      @ sprintNat (exprTypeNum (edType arg)) @ '' at position '' @ sprintNat i))
      | _ \<Rightarrow> fail_with ''merge expression must be a function call'')"

text \<open>The source and the target column, as pointers into their own lists.\<close>

definition columnOf :: "('t, 'v) ExpressionData \<Rightarrow> 't ColumnRefData go" where
  "columnOf e = (case edColumn e of None \<Rightarrow> nilDeref | Some c \<Rightarrow> ok c)"

definition extractMergeColumns ::
  "('t, 'v) ScanData \<Rightarrow> ('t, 'v) ScanData \<Rightarrow> ('t, 'v) ExpressionData \<Rightarrow> string \<Rightarrow>
   (nat option \<times> nat option) go" where
  "extractMergeColumns sourceScan targetScan mergeExpr targetTableName =
     (case (edType mergeExpr, edFunction mergeExpr) of
        (ExpressionTypeFunction, Some f) \<Rightarrow>
          (case fdArguments f of
             [colA, colB] \<Rightarrow>
               let isTarget = (\<lambda>col. edType col = ExpressionTypeColumn
                     \<and> (case edColumn col of None \<Rightarrow> False | Some r \<Rightarrow> crTableName r = targetTableName));
                   pair = (\<lambda>sourceCol targetCol.
                     go_bind (columnOf sourceCol) (\<lambda>s.
                     go_bind (columnOf targetCol) (\<lambda>t.
                     ok (FindColumnByID (crColumnID s) sourceScan, FindColumnByID (crColumnID t) targetScan))))
               in if isTarget colA then pair colB colA
                  else if edType colB = ExpressionTypeColumn \<and> edColumn colB \<noteq> None then
                    go_bind (pair colA colB) (\<lambda>r.
                      if isTarget colB then ok r else fail_with ''could not determine source and target columns'')
                  else fail_with ''could not determine source and target columns''
           | _ \<Rightarrow> fail_with ''merge expression must have exactly 2 arguments'')
      | _ \<Rightarrow> fail_with ''invalid merge expression'')"

section \<open>The merged table\<close>

definition columnIDExpression :: "int \<Rightarrow> ('t, 'v) ExpressionData" where
  "columnIDExpression i =
     ExpressionData ExpressionTypeColumn None None None None
       (Some (ColumnRefData None None [] [] i [])) None None None"

definition mergeColumnItems ::
  "('t, 'v) Coordinator \<Rightarrow> (ColumnData \<times> string) list \<Rightarrow> SQLExpression SelectListItem list tm" where
  "mergeColumnItems c =
     tmapM (\<lambda>(col, newName). tbind (TransformExpression c (columnIDExpression (cdaID col)))
       (\<lambda>expr. treturn (selectItem expr newName)))"

definition createJoinWithColumnMapping ::
  "('t, 'v) Env \<Rightarrow> ('t, 'v) Coordinator \<Rightarrow> nat \<Rightarrow> FromItem \<Rightarrow> ColumnMapping \<Rightarrow> SelectStatement tm" where
  "createJoinWithColumnMapping env c site joinFromItem mapping =
     tbind (mergeColumnItems c (envMergeRange env [site, 0] (SourceColumnMap mapping))) (\<lambda>sourceItems.
     tbind (mergeColumnItems c (envMergeRange env [site, 1] (TargetColumnMap mapping))) (\<lambda>targetItems.
     treturn (simpleSelect (sourceItems @ targetItems) (Some joinFromItem))))"

definition leftJoin :: "FromItem \<Rightarrow> FromItem \<Rightarrow> SQLExpression \<Rightarrow> FromItem" where
  "leftJoin l r condition = joinFrom (JoinClause JoinTypeLeft (Some l) (Some r) (Some condition) [])"

definition setDistinct :: "SelectStatement \<Rightarrow> SelectStatement" where
  "setDistinct s = (case s of
     SelectStatement wcs _ sl ast avt fr wh gb hv ob lim so hints \<Rightarrow>
       SelectStatement wcs SelectTypeDistinct sl ast avt fr wh gb hv ob lim so hints)"

definition createMergedTableStatement ::
  "('t, 'v) Env \<Rightarrow> ('t, 'v) Coordinator \<Rightarrow> string \<Rightarrow> FromItem \<Rightarrow> FromItem \<Rightarrow> ColumnMapping \<Rightarrow>
   SQLExpression \<Rightarrow> CreateTableStatement tm" where
  "createMergedTableStatement env c tableName sourceTable targetTable columnMapping joinCondition =
     tbind (twrap ''failed to create left join''
       (createJoinWithColumnMapping env c 0 (leftJoin sourceTable targetTable joinCondition) columnMapping)) (\<lambda>l.
     tbind (twrap ''failed to create right join''
       (createJoinWithColumnMapping env c 1 (leftJoin targetTable sourceTable joinCondition) columnMapping)) (\<lambda>r.
     treturn \<lparr>ctIfNotExists = False, ctTableName = tableName, ctColumns = [],
       ctAsSelect = Some (setDistinct (NewSelectStarStatement
         (Some (subqueryFrom (setOperationSelect [] (SetOperation ''UNION'' ''ALL'' [l, r])) ''merged_union''))))\<rparr>))"

section \<open>WHEN clauses\<close>

definition setExprAlias :: "string \<Rightarrow> SQLExpression \<Rightarrow> SQLExpression" where
  "setExprAlias a e = (case e of SQLExpression ty v le ue be fc sq ce ex al ta co \<Rightarrow>
     SQLExpression ty v le ue be fc sq ce ex a ta co)"

definition mergedTable :: string where
  "mergedTable = ''zetasqlite_merged_table''"

definition columnTest :: "string \<Rightarrow> string \<Rightarrow> SQLExpression \<Rightarrow> SQLExpression" where
  "columnTest column operator e =
     NewBinaryExpression (Some (NewColumnExpression column [])) operator (Some e)"

definition mergeFilter ::
  "('t, 'v) Env \<Rightarrow> AstMatchType \<Rightarrow> string \<Rightarrow> string \<Rightarrow> string \<Rightarrow> SQLExpression go" where
  "mergeFilter env matchType targetColumn sourceName targetName =
     (let null = NewLiteralExpression ''NULL'';
          both = (\<lambda>a b. ok (NewBinaryExpression (Some a) ''AND'' (Some b)))
      in case matchType of
           MatchTypeMatched \<Rightarrow>
             both (columnTest sourceName ''='' (NewColumnExpression targetColumn []))
               (columnTest targetName ''='' (NewColumnExpression targetColumn []))
         | MatchTypeNotMatchedBySource \<Rightarrow>
             both (columnTest targetName ''IS NOT'' null) (columnTest sourceName ''IS'' null)
         | MatchTypeNotMatchedByTarget \<Rightarrow>
             both (columnTest targetName ''IS'' null) (columnTest sourceName ''IS NOT'' null)
         | _ \<Rightarrow> fail_with (''unsupported match type: '' @ envMatchTypeName env matchType))"

definition transformInsertAction ::
  "('t, 'v) Coordinator \<Rightarrow> ('t, 'v) ExpressionData MergeWhenClauseData \<Rightarrow> string \<Rightarrow> string option \<Rightarrow> string tm" where
  "transformInsertAction c whenClause targetTableName sourceTable =
     tbind (tmapM (\<lambda>(i, col).
         tbind (tindex (mwInsertValues whenClause) i) (\<lambda>value.
         tbind (twrap ''failed to transform insert value'' (TransformExpression c value)) (\<lambda>valueExpr.
         tstring (SQLExpression_String (setExprAlias (cdaName col) valueExpr)))))
         (List.enumerate 0 (mwInsertColumns whenClause))) (\<lambda>vals.
     tbind (tstring sourceTable) (\<lambda>source.
     treturn (''INSERT INTO '' @ quoteId targetTableName @ '' (''
       @ joinStrings '','' (map (\<lambda>col. quoteId (cdaName col)) (mwInsertColumns whenClause))
       @ '') SELECT '' @ joinStrings '','' vals @ '' FROM '' @ source)))"

text \<open>The replacement of the columns of one SET value, one by one in the order of the range loop.\<close>

fun replaceColumns :: "('t, 'v) Coordinator \<Rightarrow> (ColumnData \<times> string) list \<Rightarrow> string \<Rightarrow> string tm" where
  "replaceColumns c [] valueString = treturn valueString"
| "replaceColumns c ((column, mapping) # rest) valueString =
     tbind (twrap ''failed to transform update value''
       (TransformExpression c (columnIDExpression (cdaID column)))) (\<lambda>expr.
     tbind (tstring (SQLExpression_String expr)) (\<lambda>old.
     replaceColumns c rest (replaceAll old (quoteId mapping) valueString)))"

definition transformUpdateAction ::
  "('t, 'v) Env \<Rightarrow> ('t, 'v) Coordinator \<Rightarrow> nat \<Rightarrow> ('t, 'v) ExpressionData MergeWhenClauseData \<Rightarrow>
   string \<Rightarrow> string \<Rightarrow> ColumnMapping \<Rightarrow> string tm" where
  "transformUpdateAction env c site whenClause targetTableName whereStmt columnMapping =
     tbind (tmapM (\<lambda>(i, item).
         tbind (twrap ''failed to transform update value'' (TransformExpression c (sitValue item))) (\<lambda>valueExpr.
         tbind (tstring (SQLExpression_String valueExpr)) (\<lambda>valueString.
         tbind (replaceColumns c (envMergeRange env [2, site, i] (AllColumnMap columnMapping)) valueString) (\<lambda>replaced.
         treturn (quoteId (sitColumn item) @ ''= '' @ replaced)))))
         (List.enumerate 0 (mwSetItems whenClause))) (\<lambda>setItems.
     treturn (''UPDATE '' @ quoteId targetTableName @ '' SET '' @ joinStrings '','' setItems
       @ '' FROM '' @ mergedTable @ '' WHERE '' @ whereStmt))"

definition transformWhenClause ::
  "('t, 'v) Env \<Rightarrow> ('t, 'v) Coordinator \<Rightarrow> nat \<Rightarrow> ('t, 'v) ExpressionData MergeWhenClauseData \<Rightarrow>
   string \<Rightarrow> string \<Rightarrow> FromItem \<Rightarrow> string \<Rightarrow> string \<Rightarrow> ColumnMapping \<Rightarrow> string tm" where
  "transformWhenClause env c site whenClause targetTableName targetColumnName sourceTable
       sourceName targetName columnMapping =
     tbind (tlift (mergeFilter env (mwMatchType whenClause) targetColumnName sourceName targetName)) (\<lambda>fromFilter.
     let subq = setWhereClause
           (simpleSelect [selectItem (NewColumnExpression sourceName []) [],
              selectItem (NewColumnExpression targetName []) []] (Some (tableFrom mergedTable [])))
           (Some fromFilter);
         existsStmt = NewExistsExpression (Some subq)
     in case mwActionType whenClause of
          ActionTypeInsert \<Rightarrow>
            tbind (tstring (SQLExpression_String existsStmt)) (\<lambda>_.
            transformInsertAction c whenClause targetTableName (FromItem_String sourceTable))
        | ActionTypeUpdate \<Rightarrow>
            tbind (tstring (SQLExpression_String fromFilter)) (\<lambda>whereStmt.
            transformUpdateAction env c site whenClause targetTableName whereStmt columnMapping)
        | ActionTypeDelete \<Rightarrow>
            tstring (DeleteStatement_String
              \<lparr>deTable = Some (fragment_of_from (tableFrom targetTableName [])),
               deWhereExpr = Some (fragment_of_expression existsStmt)\<rparr>)
        | other \<Rightarrow> tfail (''unsupported action type: '' @ envActionTypeName env other))"

section \<open>The statement\<close>

definition MergeStmtTransformer_Transform ::
  "('t, 'v) Env \<Rightarrow> ('t, 'v) Coordinator \<Rightarrow> ('t, 'v) StatementData \<Rightarrow> SQLFragment tm" where
  "MergeStmtTransformer_Transform env c data =
     (case (stType data, stMerge data) of
        (StatementTypeMerge, Some mergeData) \<Rightarrow>
          tbind (tderef (mgTargetScan mergeData)) (\<lambda>targetScan.
          tbind (twrap ''failed to transform merge target table'' (TransformScan c targetScan)) (\<lambda>targetTable.
          tbind (tderef (mgSourceScan mergeData)) (\<lambda>sourceScan.
          tbind (twrap ''failed to transform merge source table'' (TransformScan c sourceScan)) (\<lambda>sourceTable.
          tbind (twrap ''failed to transform merge expression''
                   (TransformExpression c (mgMergeExpr mergeData))) (\<lambda>mergeExpr.
          tbind (twrap ''unsupported merge expression''
                   (tlift (validateMergeExpression (mgMergeExpr mergeData)))) (\<lambda>_.
          tbind (twrap ''failed to extract merge columns''
                   (tlift (extractMergeColumns sourceScan targetScan (mgMergeExpr mergeData)
                      (mgTargetTable mergeData)))) (\<lambda>(sourceColumn, targetColumn).
          let columnMapping = createColumnMapping (scColumnList sourceScan) (scColumnList targetScan);
              inAll = (\<lambda>q. length (SourceColumnMap columnMapping) + q) in
          tbind (twrap ''failed to create merged table statement''
                   (createMergedTableStatement env c mergedTable sourceTable targetTable columnMapping
                      mergeExpr)) (\<lambda>createTableStmt.
          case LookupName columnMapping sourceColumn of
            None \<Rightarrow> tfail ''failed to lookup merged source column name''
          | Some sourceName \<Rightarrow>
          (case LookupName columnMapping (map_option inAll targetColumn) of
             None \<Rightarrow> tfail ''failed to lookup merged target column name''
           | Some targetName \<Rightarrow>
               tbind (tstring (CreateTableStatement_String createTableStmt)) (\<lambda>createTable.
               tbind (tmapM (\<lambda>(i, whenClause).
                   tbind (tderef (map_option (\<lambda>q. cdaName (scColumnList targetScan ! q)) targetColumn)) (\<lambda>name.
                   twrap ''failed to transform WHEN clause''
                     (transformWhenClause env c i whenClause (mgTargetTable mergeData) name sourceTable
                        sourceName targetName columnMapping)))
                   (List.enumerate 0 (mgWhenClauses mergeData))) (\<lambda>stmts.
               treturn (fragment_of_compound (NewCompoundSQLFragment
                 (createTable # filter (\<lambda>t. t \<noteq> []) stmts @ [''DROP TABLE '' @ mergedTable]))))))))))))))
      | _ \<Rightarrow> tfail (''expected MERGE statement data, got '' @ sprintNat (stmtTypeNum (stType data))))"

section \<open>The transformer keeps the scopes\<close>

context coordinator_contract
begin

lemma replaceColumns_keeps: "keepsScopes (replaceColumns c cols s)"
  by (induction cols arbitrary: s) (auto intro!: keep_intros contract_keeps)

lemma merged_table_keeps: "keepsScopes (createMergedTableStatement env c n s t m j)"
  unfolding createMergedTableStatement_def createJoinWithColumnMapping_def mergeColumnItems_def
  by (intro keep_intros contract_keeps)

lemma when_keeps: "keepsScopes (transformWhenClause env c i w t n s sn tn m)"
  unfolding transformWhenClause_def transformInsertAction_def transformUpdateAction_def Let_def
  by (auto split: AstActionType.split intro!: keep_intros contract_keeps replaceColumns_keeps)

lemma merge_keeps: "keepsScopes (MergeStmtTransformer_Transform env c data)"
  unfolding MergeStmtTransformer_Transform_def Let_def
  by (auto split: StatementType.split option.split
      intro!: keep_intros contract_keeps merged_table_keeps when_keeps)

end

end
