(* ===== verification/Coordinator_Dispatch.thy ===== *)
theory Coordinator_Dispatch
  imports Transform_Merge
begin

text \<open>
  The coordinator, \<open>internal/coordinator_coordinator.go\<close>: it sends every piece of data to its
  transformer, brackets statements and scans in a scope, gives every scan its alias, checks the
  columns the transformer produced and registers them.

  The transformers call the coordinator back. The knot is tied with fuel: \<open>coordinator env n\<close> may
  call itself to depth \<open>n\<close>, and a call beyond it is the panic \<open>outOfFuel\<close>. \<open>Coordinator_Fuel\<close> proves
  that the size of the data is enough fuel and that more fuel changes nothing.
\<close>

section \<open>Checking the columns of a scan\<close>

definition indexPanic :: "nat \<Rightarrow> nat \<Rightarrow> 'a go" where
  "indexPanic i n = panic (''index out of range ['' @ sprintNat i @ ''] with length '' @ sprintNat n)"

text \<open>The statement of a SELECT * over a subquery or a JOIN is looked through.\<close>

definition starItem :: "SQLExpression SelectListItem list \<Rightarrow> bool" where
  "starItem sl =
     (case sl of
        [item] \<Rightarrow> slIsStarExpansion item
          \<or> (case slExpression item of None \<Rightarrow> False | Some e \<Rightarrow> eType e = ExpressionTypeStar)
      | _ \<Rightarrow> False)"

definition sliceItems :: "'a list option \<Rightarrow> 'a list" where
  "sliceItems s = (case s of None \<Rightarrow> [] | Some xs \<Rightarrow> xs)"

lemma size_first_item:
  "sSetOperation s = Some so \<Longrightarrow> soItems so = i # is \<Longrightarrow> size i < size s"
  by (cases s; cases so) auto

lemma size_from_subquery:
  "sFromClause s = Some f \<Longrightarrow> fSubquery f = Some q \<Longrightarrow> size q < size s"
  by (cases s; cases f) auto

lemma size_join_subquery:
  "sFromClause s = Some f \<Longrightarrow> fJoin f = Some j \<Longrightarrow> jcLeft j = Some l \<Longrightarrow> fSubquery l = Some q \<Longrightarrow> size q < size s"
  "sFromClause s = Some f \<Longrightarrow> fJoin f = Some j \<Longrightarrow> jcRight j = Some l \<Longrightarrow> fSubquery l = Some q \<Longrightarrow> size q < size s"
  by (cases s; cases f; cases j; cases l; auto)+

text \<open>A nil slice is \<open>None\<close>: the caller distinguishes it from an empty one.\<close>

function getSelectListRecursive ::
  "SelectStatement option \<Rightarrow> SQLExpression SelectListItem list option go" where
  "getSelectListRecursive None = nilDeref"
| "getSelectListRecursive (Some stmt) =
     (case sSetOperation stmt of
        Some so \<Rightarrow>
          (case soItems so of
             [] \<Rightarrow> indexPanic 0 0
           | first # _ \<Rightarrow> go_bind (getSelectListRecursive (Some first)) (\<lambda>r. ok (Some (sliceItems r))))
      | None \<Rightarrow>
          if sSelectList stmt = [] then ok None
          else if starItem (sSelectList stmt) then
            (case sFromClause stmt of
               None \<Rightarrow> ok (Some (sSelectList stmt))
             | Some f \<Rightarrow>
                 if fType f = FromItemTypeSubquery \<and> fSubquery f \<noteq> None then
                   getSelectListRecursive (fSubquery f)
                 else if fType f = FromItemTypeJoin then
                   (case fJoin f of
                      None \<Rightarrow> nilDeref
                    | Some j \<Rightarrow>
                        (case jcLeft j of
                           None \<Rightarrow> nilDeref
                         | Some l \<Rightarrow>
                             go_bind (getSelectListRecursive (fSubquery l)) (\<lambda>xs.
                             (case jcRight j of
                                None \<Rightarrow> nilDeref
                              | Some r \<Rightarrow>
                                  go_bind (getSelectListRecursive (fSubquery r)) (\<lambda>ys.
                                  ok (Some (sliceItems xs @ sliceItems ys)))))))
                 else ok (Some (sSelectList stmt)))
          else ok (Some (sSelectList stmt)))"
  by pat_completeness auto
termination
  by (relation "measure (\<lambda>p. case p of None \<Rightarrow> 0 | Some s \<Rightarrow> Suc (size s))")
    (auto simp: size_first_item size_from_subquery size_join_subquery split: option.split)

declare getSelectListRecursive.simps(2) [simp del]

definition checkAlias :: "string list \<Rightarrow> nat \<times> SQLExpression SelectListItem \<Rightarrow> unit go" where
  "checkAlias expectedAliases = (\<lambda>(i, item).
     if slAlias item = [] then
       fail_with (''SelectListItem at index '' @ sprintNat i @ '' has empty alias'')
     else if slAlias item \<notin> set expectedAliases then
       fail_with (''SelectListItem at index '' @ sprintNat i @ '' has unexpected alias '' @ [CHR 0x27]
         @ slAlias item @ [CHR 0x27] @ '', not found in expected id-based aliases'')
     else ok ())"

definition validateColumnData :: "FromItem \<Rightarrow> ColumnData list \<Rightarrow> unit go" where
  "validateColumnData fromItem expectedColumns =
     (if expectedColumns = [] \<or> fType fromItem \<noteq> FromItemTypeSubquery then ok ()
      else
        (case fSubquery fromItem of
           None \<Rightarrow> fail_with ''subquery FromItem has nil Subquery''
         | Some q \<Rightarrow>
             go_bind (getSelectListRecursive (Some q)) (\<lambda>found.
             (case found of
                None \<Rightarrow> fail_with ''could not extract SelectList from FromItem''
              | Some selectList \<Rightarrow>
                  if length selectList \<noteq> length expectedColumns then
                    fail_with (''SelectList length mismatch: got '' @ sprintNat (length selectList)
                      @ '' items, expected '' @ sprintNat (length expectedColumns) @ '' columns'')
                  else
                    fold (\<lambda>p r. go_bind r (\<lambda>_. checkAlias
                        (map (\<lambda>col. generateIDBasedAlias (cdaName col) (cdaID col)) expectedColumns) p))
                      (List.enumerate 0 selectList) (ok ())))))"

section \<open>Dispatch\<close>

definition QueryCoordinator_TransformExpression ::
  "('t, 'v) Env \<Rightarrow> ('t, 'v) Coordinator \<Rightarrow> ('t, 'v) ExpressionData \<Rightarrow> SQLExpression tm" where
  "QueryCoordinator_TransformExpression env c exprData =
     (case edType exprData of
        ExpressionTypeLiteral \<Rightarrow> LiteralTransformer_Transform env exprData
      | ExpressionTypeFunction \<Rightarrow> FunctionCallTransformer_Transform env c exprData
      | ExpressionTypeCast \<Rightarrow> CastTransformer_Transform env c exprData
      | ExpressionTypeColumn \<Rightarrow> ColumnRefTransformer_Transform exprData
      | ExpressionTypeSubquery \<Rightarrow> SubqueryTransformer_Transform c exprData
      | ExpressionTypeParameter \<Rightarrow> ParameterTransformer_Transform exprData
      | ty \<Rightarrow> tfail (''unsupported expression data type: '' @ sprintNat (exprTypeNum ty)))"

definition createTransformer ::
  "('t, 'v) Coordinator \<Rightarrow> ('t, 'v) StatementData \<Rightarrow> SQLFragment tm" where
  "createTransformer c stmtData =
     (case stCreate stmtData of
        None \<Rightarrow> tfail ''unsupported create statement type''
      | Some create \<Rightarrow>
          (case crdType create of
             CreateTypeTable \<Rightarrow>
               tbind (tderef (crdTable create)) (\<lambda>table.
               if ctdAsSelect table \<noteq> None then CreateTableAsSelectStmtTransformer_Transform c stmtData
               else tfail ''unsupported CREATE TABLE statement'')
           | CreateTypeView \<Rightarrow> CreateViewStmtTransformer_Transform c stmtData))"

definition statementTransformer ::
  "('t, 'v) Env \<Rightarrow> ('t, 'v) Coordinator \<Rightarrow> ('t, 'v) StatementData \<Rightarrow> SQLFragment tm" where
  "statementTransformer env c stmtData =
     (case stType stmtData of
        StatementTypeSelect \<Rightarrow> QueryStmtTransformer_Transform c stmtData
      | StatementTypeInsert \<Rightarrow> DMLStmtTransformer_Transform c stmtData
      | StatementTypeUpdate \<Rightarrow> DMLStmtTransformer_Transform c stmtData
      | StatementTypeDelete \<Rightarrow> DMLStmtTransformer_Transform c stmtData
      | StatementTypeCreate \<Rightarrow> createTransformer c stmtData
      | StatementTypeDrop \<Rightarrow> DropStmtTransformer_Transform stmtData
      | StatementTypeMerge \<Rightarrow> MergeStmtTransformer_Transform env c stmtData)"

definition QueryCoordinator_TransformStatement ::
  "('t, 'v) Env \<Rightarrow> ('t, 'v) Coordinator \<Rightarrow> ('t, 'v) StatementData \<Rightarrow> SQLFragment tm" where
  "QueryCoordinator_TransformStatement env c stmtData = inScope (statementTransformer env c stmtData)"

text \<open>The prefix of the alias and the transformer of every type of scan but WITH entries.\<close>

definition scanTransformer ::
  "('t, 'v) Env \<Rightarrow> ('t, 'v) Coordinator \<Rightarrow> ('t, 'v) ScanData \<Rightarrow> (string \<times> FromItem tm) option" where
  "scanTransformer env c d =
     (case scType d of
        ScanTypeTable \<Rightarrow> Some (''table_scan'', TableScanTransformer_Transform c d)
      | ScanTypeJoin \<Rightarrow> Some (''join_scan'', JoinScanTransformer_Transform c d)
      | ScanTypeFilter \<Rightarrow> Some (''filter_scan'', FilterScanTransformer_Transform c d)
      | ScanTypeProject \<Rightarrow> Some (''project_scan'', ProjectScanTransformer_Transform c d)
      | ScanTypeAggregate \<Rightarrow> Some (''aggregate_scan'', AggregateScanTransformer_Transform env c d)
      | ScanTypeOrderBy \<Rightarrow> Some (''order_by_scan'', OrderByScanTransformer_Transform c d)
      | ScanTypeLimit \<Rightarrow> Some (''limit_scan'', LimitScanTransformer_Transform c d)
      | ScanTypeSetOp \<Rightarrow> Some (''set_op_scan'', SetOperationScanTransformer_Transform c d)
      | ScanTypeSingleRow \<Rightarrow> Some (''single_row_scan'', SingleRowScanTransformer_Transform d)
      | ScanTypeWith \<Rightarrow> Some (''with_scan'', WithScanTransformer_Transform c d)
      | ScanTypeWithRef \<Rightarrow> Some (''with_ref_scan'', WithRefScanTransformer_Transform d)
      | ScanTypeWithEntry \<Rightarrow> None
      | ScanTypeArray \<Rightarrow> Some (''array_scan'', ArrayScanTransformer_Transform c d)
      | ScanTypeAnalytic \<Rightarrow> Some (''analytic_scan'', AnalyticScanTransformer_Transform c d)
      | ScanTypeRecursive \<Rightarrow> Some (''recursive_scan'', RecursiveScanTransformer_Transform c d)
      | ScanTypeRecursiveRef \<Rightarrow> Some (''recursive_ref_scan'', RecursiveRefScanTransformer_Transform d))"

text \<open>What follows the transformer: alias, check, registration of the columns.\<close>

definition registerScan :: "string \<Rightarrow> ScanType \<Rightarrow> ColumnData list \<Rightarrow> FromItem \<Rightarrow> FromItem tm" where
  "registerScan prefix ty columns fromItem0 =
     tbind fragmentID (\<lambda>scope.
     let alias = prefix @ ''_'' @ scope; fromItem = setAlias fromItem0 alias in
     tbind (twrap (''column validation failed for '' @ sprintNat (scanTypeNum ty))
              (tlift (validateColumnData fromItem columns))) (\<lambda>_.
     tbind (tforM columns (\<lambda>column. onFragment (AddAvailableColumn (cdaID column)
              (newColumnInfo\<lparr>ciName := cdaName column, ciID := cdaID column\<rparr>)))) (\<lambda>_.
     tbind (onFragment (RegisterColumnScopeMapping alias columns)) (\<lambda>_.
     treturn fromItem))))"

definition QueryCoordinator_TransformScan ::
  "('t, 'v) Env \<Rightarrow> ('t, 'v) Coordinator \<Rightarrow> ('t, 'v) ScanData \<Rightarrow> FromItem tm" where
  "QueryCoordinator_TransformScan env c scanData =
     inScope
       (case scanTransformer env c scanData of
          None \<Rightarrow> tfail ''WithEntry scans should use TransformWithEntry method''
        | Some (prefix, m) \<Rightarrow>
            tbind (twrap ''failed to transform scan data'' m)
              (registerScan prefix (scType scanData) (scColumnList scanData)))"

definition QueryCoordinator_TransformWithEntry ::
  "('t, 'v) Coordinator \<Rightarrow> ('t, 'v) ScanData \<Rightarrow> SelectStatement WithClause tm" where
  "QueryCoordinator_TransformWithEntry c scanData =
     (if scType scanData \<noteq> ScanTypeWithEntry then
        tfail (''expected WITH entry data, got type '' @ sprintNat (scanTypeNum (scType scanData)))
      else inScope (WithEntryTransformer_Transform c scanData))"

definition QueryCoordinator ::
  "('t, 'v) Env \<Rightarrow> ('t, 'v) Coordinator \<Rightarrow> ('t, 'v) Coordinator" where
  "QueryCoordinator env c =
     \<lparr>TransformExpression = QueryCoordinator_TransformExpression env c,
      TransformStatement = QueryCoordinator_TransformStatement env c,
      TransformScan = QueryCoordinator_TransformScan env c,
      TransformWithEntry = QueryCoordinator_TransformWithEntry c\<rparr>"

definition outOfFuel :: "'a tm" where
  "outOfFuel = tlift (panic ''out of fuel'')"

definition exhausted :: "('t, 'v) Coordinator" where
  "exhausted =
     \<lparr>TransformExpression = \<lambda>_. outOfFuel, TransformStatement = \<lambda>_. outOfFuel,
      TransformScan = \<lambda>_. outOfFuel, TransformWithEntry = \<lambda>_. outOfFuel\<rparr>"

primrec coordinator :: "('t, 'v) Env \<Rightarrow> nat \<Rightarrow> ('t, 'v) Coordinator" where
  "coordinator env 0 = exhausted"
| "coordinator env (Suc n) = QueryCoordinator env (coordinator env n)"

text \<open>
  The entry point of a statement. The resolved tree and its extractor belong to the go-zetasql
  library's side: \<open>extract\<close> is \<open>c.extractor.ExtractStatementData\<close> and \<open>marshal\<close> the JSON dump that only
  a debug configuration makes.
\<close>

definition QueryCoordinator_TransformStatementNode ::
  "('t, 'v) Coordinator \<Rightarrow> ('n \<Rightarrow> ('t, 'v) StatementData tm) \<Rightarrow> (('t, 'v) StatementData \<Rightarrow> unit go) \<Rightarrow>
   'n option \<Rightarrow> SQLFragment tm" where
  "QueryCoordinator_TransformStatementNode c extract marshal p =
     (case p of
        None \<Rightarrow> tfail ''cannot transform nil statement node''
      | Some node \<Rightarrow>
          tbind (twrap ''failed to extract statement data'' (extract node)) (\<lambda>data.
          inScope
            (tbind (tread configDebug) (\<lambda>debug.
             tbind (if debug then tlift (marshal data) else treturn ()) (\<lambda>_.
             twrap ''failed to transform statement'' (TransformStatement c data))))))"

definition TransformExpressionDataList ::
  "('t, 'v) Coordinator \<Rightarrow> ('t, 'v) ExpressionData list \<Rightarrow> SQLExpression list tm" where
  "TransformExpressionDataList c exprDataList =
     tmapM (\<lambda>(i, exprData).
         twrap (''failed to transform expression data at index '' @ sprintNat i) (TransformExpression c exprData))
       (List.enumerate 0 exprDataList)"

definition TransformOptionalExpressionData ::
  "('t, 'v) Coordinator \<Rightarrow> ('t, 'v) ExpressionData option \<Rightarrow> SQLExpression option tm" where
  "TransformOptionalExpressionData c = toption (TransformExpression c)"

section \<open>The coordinator keeps its contract\<close>

lemma keeps_registerScan [keep_intros]: "keepsScopes (registerScan p ty cols f)"
  unfolding registerScan_def by (intro keep_intros)

lemma exhausted_contract: "coordinator_contract exhausted"
  by unfold_locales (simp_all add: exhausted_def outOfFuel_def keeps_lift)

context coordinator_contract
begin

lemma TransformExpression_keeps: "keepsScopes (QueryCoordinator_TransformExpression env c e)"
  unfolding QueryCoordinator_TransformExpression_def
  by (auto split: ExpressionType.split intro!: expression_transformers_keep keeps_fail)

lemma statementTransformer_keeps: "keepsScopes (statementTransformer env c d)"
  unfolding statementTransformer_def createTransformer_def
  by (auto split: StatementType.split CreateType.split
      intro!: statement_transformers_keep merge_keeps keep_intros)

lemma scanTransformer_keeps: "scanTransformer env c d = Some (p, m) \<Longrightarrow> keepsScopes m"
  using scan_transformers_keep
  by (auto simp: scanTransformer_def split: ScanType.splits)

lemma TransformScan_keeps: "keepsScopes (QueryCoordinator_TransformScan env c d)"
  unfolding QueryCoordinator_TransformScan_def
  by (auto split: option.split intro!: keep_intros dest: scanTransformer_keeps)

lemma next_contract: "coordinator_contract (QueryCoordinator env c)"
proof
  fix e :: "('t, 'v) ExpressionData" and d :: "('t, 'v) StatementData" and s :: "('t, 'v) ScanData"
  show "keepsScopes (TransformExpression (QueryCoordinator env c) e)"
    by (simp add: QueryCoordinator_def TransformExpression_keeps)
  show "keepsScopes (TransformStatement (QueryCoordinator env c) d)"
    by (simp add: QueryCoordinator_def QueryCoordinator_TransformStatement_def
        keeps_inScope statementTransformer_keeps)
  show "keepsScopes (TransformScan (QueryCoordinator env c) s)"
    by (simp add: QueryCoordinator_def TransformScan_keeps)
  show "keepsScopes (TransformWithEntry (QueryCoordinator env c) s)"
    by (simp add: QueryCoordinator_def QueryCoordinator_TransformWithEntry_def
        keeps_inScope keeps_fail with_entry_transformer_keeps)
qed

end

interpretation coordinatorContract: coordinator_contract "coordinator env n" for env n
proof (induction n)
  case 0
  then show ?case by (simp add: exhausted_contract)
next
  case (Suc n)
  then show ?case by (simp add: coordinator_contract.next_contract)
qed

end
