(* ===== verification/Coordinator_Props.thy ===== *)
theory Coordinator_Props
  imports Coordinator_Dispatch
begin

text \<open>
  What a successful \<open>TransformScan\<close> guarantees to its callers: the FROM item carries an alias of
  its own, every output column of the scan resolves to that alias and to its identifier-based
  name, and the select list was checked against the columns.
\<close>

section \<open>Successful runs\<close>

named_theorems run_simps "inversion of a successful run"

lemma tbind_ok [run_simps]:
  "tbind m f ctx = ok r \<longleftrightarrow> (\<exists>x mid. m ctx = ok (x, mid) \<and> f x mid = ok r)"
  by (auto simp: tbind_def split: sum.splits)

lemma twrap_ok [run_simps]: "twrap msg m ctx = ok r \<longleftrightarrow> m ctx = ok r"
  by (cases "m ctx") (auto simp: twrap_def wrapError_def split: go_error.splits)

lemma tlift_ok [run_simps]: "tlift m ctx = ok (x, ctx') \<longleftrightarrow> m = ok x \<and> ctx' = ctx"
  by (cases m) (auto simp: tlift_def)

lemma treturn_ok [run_simps]: "treturn x ctx = ok (y, ctx') \<longleftrightarrow> y = x \<and> ctx' = ctx"
  by (auto simp: treturn_def)

lemma tfail_ok [run_simps]: "tfail msg ctx = ok r \<longleftrightarrow> False"
  by (simp add: tfail_def)

lemma tread_ok [run_simps]: "tread f ctx = ok (x, ctx') \<longleftrightarrow> x = f ctx \<and> ctx' = ctx"
  by (auto simp: tread_def)

lemma onFragment_ok [run_simps]:
  "onFragment f ctx = ok (x, ctx') \<longleftrightarrow> ctx' = ctx\<lparr>fragmentContext := f (fragmentContext ctx)\<rparr>"
  by (auto simp: onFragment_def tmodify_def)

lemma fragmentID_ok [run_simps]:
  "fragmentID ctx = ok (x, ctx') \<longleftrightarrow> x = GetID (fragmentContext ctx) \<and> ctx' = ctx"
  by (auto simp: fragmentID_def run_simps)

lemma inScope_ok [run_simps]:
  "inScope m ctx = ok (x, ctx') \<longleftrightarrow>
     (\<exists>t fc mid. EnterScope (fragmentContext ctx) = (t, fc)
        \<and> m (ctx\<lparr>fragmentContext := fc\<rparr>) = ok (x, mid)
        \<and> ctx' = mid\<lparr>fragmentContext := ExitScope t (fragmentContext mid)\<rparr>)"
  by (cases "EnterScope (fragmentContext ctx)") (auto simp: inScope_def split: sum.splits)

lemma ExitScope_maps [simp]:
  "columnIDToScope (ExitScope t fc) = columnIDToScope fc"
  "availableColumns (ExitScope t fc) = availableColumns fc"
  "columnMap (ExitScope t fc) = columnMap fc"
  by (simp_all add: ExitScope_def)

section \<open>Registration\<close>

lemma tforM_available:
  "tforM cols (\<lambda>column. onFragment (AddAvailableColumn (cdaID column) (info column))) ctx = ok (u, ctx') \<Longrightarrow>
   scopes (fragmentContext ctx') = scopes (fragmentContext ctx)
   \<and> count (fragmentContext ctx') = count (fragmentContext ctx)"
  by (induction cols arbitrary: ctx) (auto simp: run_simps)

lemma registerScan_ok:
  assumes "registerScan p ty cols f0 ctx = ok (f, ctx')"
  shows "fAlias f = p @ ''_'' @ GetID (fragmentContext ctx)"
    and "f = setAlias f0 (fAlias f)"
    and "validateColumnData f cols = ok ()"
    and "\<exists>fc. fragmentContext ctx' = RegisterColumnScopeMapping (fAlias f) cols fc"
proof -
  have "fAlias (setAlias f0 a) = a" for a by (cases f0) (simp add: setAlias_def)
  then show "fAlias f = p @ ''_'' @ GetID (fragmentContext ctx)" "f = setAlias f0 (fAlias f)"
    "validateColumnData f cols = ok ()"
    "\<exists>fc. fragmentContext ctx' = RegisterColumnScopeMapping (fAlias f) cols fc"
    using assms by (auto simp: registerScan_def Let_def run_simps)
qed

lemma find_unique:
  "distinct (map g xs) \<Longrightarrow> x \<in> set xs \<Longrightarrow> find (\<lambda>y. g y = g x) xs = Some x"
  by (induction xs) auto

lemma find_rev_unique:
  "distinct (map cdaID cols) \<Longrightarrow> c \<in> set cols \<Longrightarrow> find (\<lambda>d. cdaID d = cdaID c) (rev cols) = Some c"
  by (rule find_unique) (simp_all add: rev_map [symmetric])

lemma registered_column:
  assumes "distinct (map cdaID cols)" "c \<in> set cols"
  shows "GetQualifiedColumnRef (cdaID c) (RegisterColumnScopeMapping a cols fc)
    = ok (generateIDBasedAlias (cdaName c) (cdaID c), a)"
  using find_rev_unique [OF assms] assms(2)
  by (simp add: GetQualifiedColumnRef_def map_of_RegisterColumnScopeMapping
      available_RegisterColumnScopeMapping)

lemma GetQualifiedColumnRef_ExitScope [simp]:
  "GetQualifiedColumnRef i (ExitScope t fc) = GetQualifiedColumnRef i fc"
  by (simp add: GetQualifiedColumnRef_def split: option.split)

text \<open>The anatomy of a successful scan: the transformer inside the scope, then the registration.\<close>

lemma TransformScan_ok:
  assumes "TransformScan (coordinator env n) scan ctx = ok (f, ctx')"
  obtains m prefix t tf fc f0 mid ctx2 where
    "n = Suc m" "EnterScope (fragmentContext ctx) = (t, fc)"
    "scanTransformer env (coordinator env m) scan = Some (prefix, tf)"
    "tf (ctx\<lparr>fragmentContext := fc\<rparr>) = ok (f0, mid)"
    "registerScan prefix (scType scan) (scColumnList scan) f0 mid = ok (f, ctx2)"
    "ctx' = ctx2\<lparr>fragmentContext := ExitScope t (fragmentContext ctx2)\<rparr>"
  using assms
  by (cases n)
    (auto simp: exhausted_def outOfFuel_def QueryCoordinator_def QueryCoordinator_TransformScan_def
      run_simps split: option.splits)

text \<open>C4: After a scan has been transformed, every one of its output columns resolves, by its
  identifier, to the name \<open>name__id\<close> under the alias that the scan's FROM item was given.\<close>

theorem scan_resolves:
  assumes "TransformScan (coordinator env n) scan ctx = ok (f, ctx')"
    and "distinct (map cdaID (scColumnList scan))" "col \<in> set (scColumnList scan)"
  shows "GetQualifiedColumnRef (cdaID col) (fragmentContext ctx')
    = ok (generateIDBasedAlias (cdaName col) (cdaID col), fAlias f)"
  using assms(1)
proof (rule TransformScan_ok)
  fix m prefix t tf fc f0 mid ctx2
  assume reg: "registerScan prefix (scType scan) (scColumnList scan) f0 mid = ok (f, ctx2)"
    and ctx': "ctx' = ctx2\<lparr>fragmentContext := ExitScope t (fragmentContext ctx2)\<rparr>"
  obtain fc' where "fragmentContext ctx2 = RegisterColumnScopeMapping (fAlias f) (scColumnList scan) fc'"
    using registerScan_ok(4) [OF reg] by blast
  then show ?thesis using registered_column [OF assms(2,3)] ctx' by simp
qed

section \<open>Aliases\<close>

lemma scanTransformer_keeps_scopes:
  "scanTransformer env (coordinator env m) d = Some (p, tf) \<Longrightarrow> keepsScopes tf"
  by (rule coordinatorContract.scanTransformer_keeps)

lemma scan_alias:
  assumes "TransformScan (coordinator env n) scan ctx = ok (f, ctx')" "scopesOk (fragmentContext ctx)"
  shows "\<exists>prefix. fAlias f = prefix @ ''_'' @ sprintInt (count (fragmentContext ctx) + 1)"
    and "count (fragmentContext ctx) < count (fragmentContext ctx')"
proof -
  obtain m prefix t tf fc f0 mid ctx2 where
    enter: "EnterScope (fragmentContext ctx) = (t, fc)"
    and tr: "scanTransformer env (coordinator env m) scan = Some (prefix, tf)"
    and run: "tf (ctx\<lparr>fragmentContext := fc\<rparr>) = ok (f0, mid)"
    and reg: "registerScan prefix (scType scan) (scColumnList scan) f0 mid = ok (f, ctx2)"
    and ctx': "ctx' = ctx2\<lparr>fragmentContext := ExitScope t (fragmentContext ctx2)\<rparr>"
    using TransformScan_ok [OF assms(1)] by metis
  have fc: "scopes fc = scopes (fragmentContext ctx) @ [t]" "count fc = count (fragmentContext ctx) + 1"
    "tokId t = count (fragmentContext ctx) + 1"
    using enter by (auto simp: EnterScope_def Let_def)
  have "scopesOk fc" by (rule fragmentScopes.enter_inv [OF assms(2) enter])
  then have mid: "scopesOk (fragmentContext mid)" "scopes (fragmentContext mid) = scopes fc"
      "count fc \<le> count (fragmentContext mid)"
    using keepsScopesD [OF scanTransformer_keeps_scopes [OF tr] _ run] by simp_all
  have "GetID (fragmentContext mid) = sprintInt (count (fragmentContext ctx) + 1)"
    using mid(2) fc by (simp add: GetID_def ScopeToken_ID_def)
  then show "\<exists>prefix. fAlias f = prefix @ ''_'' @ sprintInt (count (fragmentContext ctx) + 1)"
    by (intro exI [of _ prefix]) (simp add: registerScan_ok(1) [OF reg])
  have "count (fragmentContext mid) \<le> count (fragmentContext ctx2)"
    using keepsScopesD [OF keeps_registerScan mid(1) reg] by simp
  then show "count (fragmentContext ctx) < count (fragmentContext ctx')"
    using fc mid(3) ctx' by simp
qed

lemma alias_number_unique:
  assumes "p @ ''_'' @ sprintInt i = q @ ''_'' @ sprintInt j"
  shows "i = j"
proof -
  have free: "CHR ''_'' \<notin> set (sprintInt k)" for k
    using sprintInt_chars [of "CHR ''_''" k] by auto
  have "p @ [CHR ''_''] @ sprintInt i = q @ [CHR ''_''] @ sprintInt j" using assms by simp
  from last_separator_unique [OF this free free] show ?thesis by (simp add: sprintInt_inj)
qed

text \<open>Two scans of which the second starts after the first has ended never share an alias.\<close>


section \<open>The checked select list\<close>

lemma checkAlias_ok: "checkAlias as (i, item) = ok () \<longleftrightarrow> slAlias item \<noteq> [] \<and> slAlias item \<in> set as"
  by (auto simp: checkAlias_def)

lemma fold_check_ok:
  "fold (\<lambda>p r. go_bind r (\<lambda>_. checkAlias as p)) ps (ok ()) = ok () \<Longrightarrow>
   (\<forall>p \<in> set ps. checkAlias as p = ok ())"
proof (induction ps)
  case (Cons p ps)
  have stuck: "fold (\<lambda>p r. go_bind r (\<lambda>_. checkAlias as p)) qs (Inl e) = Inl e" for qs e
    by (induction qs) auto
  have p: "checkAlias as p = ok ()" using Cons.prems stuck by (cases "checkAlias as p") auto
  then show ?case using Cons by simp
qed simp

definition expectedAlias :: "ColumnData list \<Rightarrow> string \<Rightarrow> bool" where
  "expectedAlias cols a \<longleftrightarrow> (\<exists>col \<in> set cols. a = generateIDBasedAlias (cdaName col) (cdaID col))"

lemma checkAlias_expected:
  "checkAlias (map (\<lambda>col. generateIDBasedAlias (cdaName col) (cdaID col)) cols) (i, item) = ok () \<Longrightarrow>
   expectedAlias cols (slAlias item)"
  by (auto simp: checkAlias_ok expectedAlias_def)

lemma validate_run:
  assumes "validateColumnData f cols = ok ()" "cols \<noteq> []" "fType f = FromItemTypeSubquery"
  obtains items where "getSelectListRecursive (fSubquery f) = ok (Some items)"
    "length items = length cols"
    "fold (\<lambda>p r. go_bind r (\<lambda>_. checkAlias
        (map (\<lambda>col. generateIDBasedAlias (cdaName col) (cdaID col)) cols) p))
          (List.enumerate 0 items) (ok ()) = ok ()"
proof (cases "fSubquery f")
  case None
  then show ?thesis using assms by (simp add: validateColumnData_def)
next
  case (Some q)
  show ?thesis
  proof (cases "getSelectListRecursive (Some q)")
    case (Inl e)
    then show ?thesis using assms Some by (simp add: validateColumnData_def)
  next
    case (Inr found)
    then obtain items where items: "getSelectListRecursive (Some q) = ok (Some items)"
      using assms Some by (cases found) (simp_all add: validateColumnData_def)
    then have "length items = length cols" using assms Some
      by (cases "length items = length cols") (simp_all add: validateColumnData_def)
    then show ?thesis using that items assms Some by (simp add: validateColumnData_def)
  qed
qed

lemma validate_ok:
  assumes "validateColumnData f cols = ok ()" "cols \<noteq> []" "fType f = FromItemTypeSubquery"
  shows "\<exists>items. getSelectListRecursive (fSubquery f) = ok (Some items)
    \<and> length items = length cols \<and> (\<forall>item \<in> set items. expectedAlias cols (slAlias item))"
proof -
  obtain items where items: "getSelectListRecursive (fSubquery f) = ok (Some items)"
      "length items = length cols"
    and run: "fold (\<lambda>p r. go_bind r (\<lambda>_. checkAlias
        (map (\<lambda>col. generateIDBasedAlias (cdaName col) (cdaID col)) cols) p))
          (List.enumerate 0 items) (ok ()) = ok ()"
    by (rule validate_run [OF assms])
  have "expectedAlias cols (slAlias item)" if mem: "item \<in> set items" for item
  proof -
    obtain i where "i < length items" "items ! i = item" using mem by (auto simp: in_set_conv_nth)
    then have "(i, item) \<in> set (List.enumerate 0 items)" by (auto simp: in_set_enumerate_eq)
    then show ?thesis using fold_check_ok [OF run] checkAlias_expected by blast
  qed
  then show ?thesis using items by blast
qed

lemma scan_checked:
  assumes "TransformScan (coordinator env n) scan ctx = ok (f, ctx')"
  shows "validateColumnData f (scColumnList scan) = ok ()"
  using assms by (rule TransformScan_ok) (auto dest: registerScan_ok(3))

end
