(* ===== verification/Coordinator_Fuel.thy ===== *)
theory Coordinator_Fuel
  imports Coordinator_Dispatch
begin

text \<open>
  The recursion of the coordinator ends: a call only ever calls back on smaller data, so a
  coordinator with as much fuel as the data is large gives the same result as one with any more
  fuel, and never runs out.
\<close>

section \<open>The parts of the data are smaller\<close>

named_theorems part_sizes "the data a transformer passes on is smaller than its own"

lemma elem_size: "x \<in> set xs \<Longrightarrow> f x \<le> size_list f xs"
  by (induction xs) auto

lemma elem_size_less: "x \<in> set xs \<Longrightarrow> k < f x \<Longrightarrow> k < size_list f xs"
  using elem_size [of x xs f] by simp

lemma cast_size [part_sizes]: "edCast e = Some c \<Longrightarrow> size (caExpression c) < size e"
  by (cases e; cases c) auto

lemma subquery_size [part_sizes]:
  "edSubquery e = Some s \<Longrightarrow> size (sbQuery s) < size e"
  "edSubquery e = Some s \<Longrightarrow> sbInExpr s = Some x \<Longrightarrow> size x < size e"
  by (cases e; cases s; auto)+

lemma argument_size [part_sizes]:
  "edFunction e = Some f \<Longrightarrow> x \<in> set (fdArguments f) \<Longrightarrow> size x < size e"
  using size_arguments [of e f] size_list_argument [of x "fdArguments f"] by simp

lemma partition_size [part_sizes]:
  "edFunction e = Some f \<Longrightarrow> fdWindowSpec f = Some w \<Longrightarrow> x \<in> set (wsdPartitionBy w) \<Longrightarrow> size x < size e"
  by (cases e; cases f; cases w) (auto simp: o_def dest: elem_size [where f = size])

lemma size_OrderByItemData_pair [simp]:
  "size_OrderByItemData snd (map_OrderByItemData (\<lambda>e. (e, size e)) x) = size_OrderByItemData size x"
  by (cases x) simp

lemma window_order_size [part_sizes]:
  "edFunction e = Some f \<Longrightarrow> fdWindowSpec f = Some w \<Longrightarrow> x \<in> set (wsdOrderBy w) \<Longrightarrow>
   size (obdExpression x) < size e"
  by (cases e; cases f; cases w; cases x) (auto simp: o_def dest: elem_size [where f = "size_OrderByItemData size"])

lemma frame_start_size [part_sizes]:
  "edFunction e = Some f \<Longrightarrow> fdWindowSpec f = Some w \<Longrightarrow> wsdFrameClause w = Some fr \<Longrightarrow>
   fcdStart fr = Some b \<Longrightarrow> fbdOffset b = Some x \<Longrightarrow> size x < size e"
  "edFunction e = Some f \<Longrightarrow> fdWindowSpec f = Some w \<Longrightarrow> wsdFrameClause w = Some fr \<Longrightarrow>
   fcdEnd fr = Some b \<Longrightarrow> fbdOffset b = Some x \<Longrightarrow> size x < size e"
  by (cases e; cases f; cases w; cases fr; cases b; auto)+

lemma join_size [part_sizes]:
  "scJoinScan d = Some j \<Longrightarrow> size (jsLeftScan j) < size d"
  "scJoinScan d = Some j \<Longrightarrow> size (jsRightScan j) < size d"
  "scJoinScan d = Some j \<Longrightarrow> jsJoinCondition j = Some e \<Longrightarrow> size e < size d"
  by (cases d; cases j; auto)+

lemma table_size [part_sizes]:
  "scTableScan d = Some t \<Longrightarrow> i \<in> set (tsdSyntheticColumns t) \<Longrightarrow> size (sidExpression i) < size d"
  by (cases d; cases t; cases i) (auto dest: elem_size [where f = "size_SelectItemData size"])

lemma size_ComputedColumnData_pair [simp]:
  "size_ComputedColumnData (\<lambda>_. 0) snd (map_ComputedColumnData (\<lambda>e. (e, size e)) x)
     = size_ComputedColumnData (\<lambda>_. 0) size x"
  by (cases x) simp

lemma computed_size: "size (ccExpression cc) < size_ComputedColumnData (\<lambda>_. 0) size cc"
  by (cases cc) simp

lemma computed_list_size:
  "cc \<in> set xs \<Longrightarrow> size (ccExpression cc) < size_list (size_ComputedColumnData (\<lambda>_. 0) size) xs"
  using elem_size_less [where f = "size_ComputedColumnData (\<lambda>_. 0) size"] computed_size by blast

lemma project_size [part_sizes]:
  "scProjectScan d = Some p \<Longrightarrow> size (prInputScan p) < size d"
  "scProjectScan d = Some p \<Longrightarrow> cc \<in> set (prExprList p) \<Longrightarrow> size (ccExpression cc) < size d"
  by (cases d; cases p; auto simp: o_def dest: computed_list_size)+

lemma size_option_Suc: "size_option f x = Suc (case x of None \<Rightarrow> 0 | Some y \<Rightarrow> f y)"
  by (cases x) simp_all

lemma columnRef_size [part_sizes]:
  "size (columnRefExpression col :: ('t, 'v) ExpressionData) < size (d :: ('t, 'v) ScanData)"
  by (cases d) (simp add: columnRefExpression_def size_option_Suc)

lemma filter_size [part_sizes]:
  "scFilterScan d = Some p \<Longrightarrow> size (fiInputScan p) < size d"
  "scFilterScan d = Some p \<Longrightarrow> size (fiFilterExpr p) < size d"
  by (cases d; cases p; auto)+

lemma aggregate_size [part_sizes]:
  "scAggregateScan d = Some p \<Longrightarrow> size (agInputScan p) < size d"
  "scAggregateScan d = Some p \<Longrightarrow> cc \<in> set (agAggregateList p) \<Longrightarrow> size (ccExpression cc) < size d"
  "scAggregateScan d = Some p \<Longrightarrow> cc \<in> set (agGroupByList p) \<Longrightarrow> size (ccExpression cc) < size d"
  by (cases d; cases p; auto simp: o_def dest: computed_list_size)+

lemma orderby_size [part_sizes]:
  "scOrderByScan d = Some p \<Longrightarrow> size (osInputScan p) < size d"
  "scOrderByScan d = Some p \<Longrightarrow> x \<in> set (osOrderByColumns p) \<Longrightarrow> size (obdExpression x) < size d"
  by (cases d; cases p; auto; cases x; auto dest: elem_size [where f = "size_OrderByItemData size"])+

lemma limit_size [part_sizes]:
  "scLimitScan d = Some p \<Longrightarrow> size (lsInputScan p) < size d"
  "scLimitScan d = Some p \<Longrightarrow> size (lsCount p) < size d"
  "scLimitScan d = Some p \<Longrightarrow> lsOffset p = Some e \<Longrightarrow> size e < size d"
  by (cases d; cases p; auto)+

lemma setop_size [part_sizes]:
  "scSetOperationScan d = Some p \<Longrightarrow> x \<in> set (sodItems p) \<Longrightarrow> size x < size d"
  by (cases d; cases p) (auto dest: elem_size [where f = size])

lemma with_size [part_sizes]:
  "scWithScan d = Some p \<Longrightarrow> size (wsQuery p) < size d"
  by (cases d; cases p; auto)

lemma with_entry_scan_size [part_sizes]:
  assumes "scWithScan d = Some p" "x \<in> set (wsWithEntryList p)"
  shows "size (withEntryScan x) < size d"
proof -
  have "size_WithEntryData size x \<le> size_list (size_WithEntryData size) (wsWithEntryList p)"
    using assms(2) by (rule elem_size)
  then show ?thesis using assms(1)
    by (cases d; cases p; cases x) (simp add: withEntryScan_def size_option_Suc)
qed

lemma with_entry_size [part_sizes]:
  "scWithEntryScan d = Some p \<Longrightarrow> size (weWithSubquery p) < size d"
  by (cases d; cases p) auto

lemma array_size [part_sizes]:
  "scArrayScan d = Some p \<Longrightarrow> arInputScan p = Some s \<Longrightarrow> size s < size d"
  "scArrayScan d = Some p \<Longrightarrow> size (arArrayExpr p) < size d"
  "scArrayScan d = Some p \<Longrightarrow> arJoinExpr p = Some e \<Longrightarrow> size e < size d"
  by (cases d; cases p; auto)+

lemma analytic_size [part_sizes]:
  "scAnalyticScan d = Some p \<Longrightarrow> size (anInputScan p) < size d"
  "scAnalyticScan d = Some p \<Longrightarrow> cc \<in> set (anFunctionList p) \<Longrightarrow> size (ccExpression cc) < size d"
  by (cases d; cases p; auto simp: o_def dest: computed_list_size)+

lemma recursive_size [part_sizes]:
  "scRecursiveScan d = Some p \<Longrightarrow> size (rsNonRecursiveTerm p) < size d"
  "scRecursiveScan d = Some p \<Longrightarrow> size (rsRecursiveTerm p) < size d"
  by (cases d; cases p; auto)+

lemma select_size [part_sizes]:
  "stSelect d = Some p \<Longrightarrow> sdFromClause p = Some s \<Longrightarrow> size s < size d"
  "stSelect d = Some p \<Longrightarrow> x \<in> set (sdSelectList p) \<Longrightarrow> size (sidExpression x) < size d"
  by (cases d; cases p; auto; cases x; auto dest: elem_size [where f = "size_SelectItemData size"])+

lemma insert_query_size [part_sizes]:
  "stInsert d = Some p \<Longrightarrow> idQuery p = Some q \<Longrightarrow> sdFromClause q = Some s \<Longrightarrow> size s < size d"
  "stInsert d = Some p \<Longrightarrow> idQuery p = Some q \<Longrightarrow> x \<in> set (sdSelectList q) \<Longrightarrow> size (sidExpression x) < size d"
  by (cases d; cases p; cases q; auto; cases x; auto dest: elem_size [where f = "size_SelectItemData size"])+

lemma insert_row_size [part_sizes]:
  "stInsert d = Some p \<Longrightarrow> r \<in> set (idValues p) \<Longrightarrow> x \<in> set r \<Longrightarrow> size x < size d"
  by (cases d; cases p; auto dest!: elem_size [where f = size] elem_size [where f = "size_list size"])

lemma update_size [part_sizes]:
  "stUpdate d = Some p \<Longrightarrow> udFromClause p = Some s \<Longrightarrow> size s < size d"
  "stUpdate d = Some p \<Longrightarrow> x \<in> set (udSetItems p) \<Longrightarrow> size (sitValue x) < size d"
  "stUpdate d = Some p \<Longrightarrow> udWhereClause p = Some e \<Longrightarrow> size e < size d"
  by (cases d; cases p; auto; cases x; auto dest: elem_size [where f = "size_SetItemData size"])+

lemma delete_size [part_sizes]:
  "stDelete d = Some p \<Longrightarrow> ddWhereClause p = Some e \<Longrightarrow> size e < size d"
  by (cases d; cases p; auto)

lemma create_view_part_size:
  "crdView x = Some v \<Longrightarrow>
     size_SelectData size size size (cvdQuery v) + 2 < size_CreateData size size size x"
  by (cases x; cases v) (simp add: size_option_Suc)

lemma create_table_part_size:
  "crdTable x = Some t \<Longrightarrow> ctdAsSelect t = Some q \<Longrightarrow>
     size_SelectData size size size q + 2 < size_CreateData size size size x"
  by (cases x; cases t) (simp add: size_option_Suc)

lemma selectStatementData_size [part_sizes]:
  "stCreate d = Some x \<Longrightarrow> size_SelectData size size size q + 2 < size_CreateData size size size x \<Longrightarrow>
   size (selectStatementData q) < size d"
  by (cases d) (simp add: selectStatementData_def size_option_Suc)

lemma createOf_Some: "createOf sel d = Some y \<longleftrightarrow>
    stType d = StatementTypeCreate \<and> (\<exists>x. stCreate d = Some x \<and> sel x = Some y)"
  by (auto simp: createOf_def bind_eq_Some_conv)

lemma create_view_size [part_sizes]:
  "createOf crdView d = Some v \<Longrightarrow> size (selectStatementData (cvdQuery v)) < size d"
  by (auto simp: createOf_Some intro: selectStatementData_size dest: create_view_part_size)

lemma create_table_size [part_sizes]:
  "createOf crdTable d = Some t \<Longrightarrow> ctdAsSelect t = Some q \<Longrightarrow> size (selectStatementData q) < size d"
  by (auto simp: createOf_Some intro: selectStatementData_size dest: create_table_part_size)

lemma merge_size [part_sizes]:
  "stMerge d = Some m \<Longrightarrow> mgTargetScan m = Some s \<Longrightarrow> size s < size d"
  "stMerge d = Some m \<Longrightarrow> mgSourceScan m = Some s \<Longrightarrow> size s < size d"
  "stMerge d = Some m \<Longrightarrow> size (mgMergeExpr m) < size d"
  by (cases d; cases m; auto)+

lemma merge_column_size [part_sizes]:
  "stMerge d = Some m \<Longrightarrow> mgTargetScan m = Some s \<Longrightarrow>
   size (columnIDExpression i :: ('t, 'v) ExpressionData) < size (d :: ('t, 'v) StatementData)"
  using columnRef_size [of "ColumnData i [] [] []" s] merge_size(1) [of d m s]
  by (simp add: columnRefExpression_def columnIDExpression_def)

lemma when_clause_size:
  "stMerge d = Some m \<Longrightarrow> w \<in> set (mgWhenClauses m) \<Longrightarrow> size_MergeWhenClauseData size w < size d"
  by (cases d; cases m) (auto dest: elem_size [where f = "size_MergeWhenClauseData size"])

lemma insert_values_size:
  "x \<in> set (mwInsertValues w) \<Longrightarrow> size x \<le> size_MergeWhenClauseData size w"
  by (cases w) (auto dest: elem_size [where f = size])

lemma set_items_size:
  "y \<in> set (mwSetItems w) \<Longrightarrow> size (sitValue y) \<le> size_MergeWhenClauseData size w"
  by (cases w; cases y) (auto dest: elem_size [where f = "size_SetItemData size"])

lemma when_size [part_sizes]:
  "stMerge d = Some m \<Longrightarrow> w \<in> set (mgWhenClauses m) \<Longrightarrow> x \<in> set (mwInsertValues w) \<Longrightarrow> size x < size d"
  "stMerge d = Some m \<Longrightarrow> w \<in> set (mgWhenClauses m) \<Longrightarrow> y \<in> set (mwSetItems w) \<Longrightarrow>
   size (sitValue y) < size d"
  using when_clause_size insert_values_size set_items_size by (metis le_less_trans)+

section \<open>Coordinators that agree on smaller data\<close>

definition agreeBelow :: "nat \<Rightarrow> ('t, 'v) Coordinator \<Rightarrow> ('t, 'v) Coordinator \<Rightarrow> bool" where
  "agreeBelow k c c' \<longleftrightarrow>
     (\<forall>e. size e < k \<longrightarrow> TransformExpression c e = TransformExpression c' e)
   \<and> (\<forall>d. size d < k \<longrightarrow> TransformStatement c d = TransformStatement c' d)
   \<and> (\<forall>s. size s < k \<longrightarrow> TransformScan c s = TransformScan c' s)
   \<and> (\<forall>s. size s < k \<longrightarrow> TransformWithEntry c s = TransformWithEntry c' s)"

lemma agree_calls:
  assumes "agreeBelow k c c'"
  shows "size e < k \<Longrightarrow> TransformExpression c e = TransformExpression c' e"
    and "size d < k \<Longrightarrow> TransformStatement c d = TransformStatement c' d"
    and "size s < k \<Longrightarrow> TransformScan c s = TransformScan c' s"
    and "size s < k \<Longrightarrow> TransformWithEntry c s = TransformWithEntry c' s"
  using assms by (simp_all add: agreeBelow_def)

named_theorems agree_intros "congruence rules of the monad for agreeing coordinators"

lemma agree_bind [agree_intros]: "m = m' \<Longrightarrow> (\<And>x. f x = f' x) \<Longrightarrow> tbind m f = tbind m' f'"
  by presburger

lemma agree_expect:
  "(\<And>x. p = Some x \<Longrightarrow> f x = f' x) \<Longrightarrow> tbind (expectScan w ty d p) f = tbind (expectScan w ty d p) f'"
  by (cases p) (auto simp: expectScan_def tbind_def fun_eq_iff tfail_def treturn_def)

lemma agree_deref:
  "(\<And>x. p = Some x \<Longrightarrow> f x = f' x) \<Longrightarrow> tbind (tderef p) f = tbind (tderef p) f'"
  by (cases p) (auto simp: tderef_def nilDeref_def tlift_def tbind_def fun_eq_iff)

lemma agree_wrap [agree_intros]: "m = m' \<Longrightarrow> twrap msg m = twrap msg m'"
  by simp

lemma agree_mapM [agree_intros]: "(\<And>x. x \<in> set xs \<Longrightarrow> f x = f' x) \<Longrightarrow> tmapM f xs = tmapM f' xs"
  by (induction xs) simp_all

lemma agree_option [agree_intros]: "(\<And>x. p = Some x \<Longrightarrow> f x = f' x) \<Longrightarrow> toption f p = toption f' p"
  by (cases p) (simp_all add: toption_def)

lemma agree_inScope [agree_intros]: "m = m' \<Longrightarrow> inScope m = inScope m'"
  by simp

lemma agree_case_prod [agree_intros]:
  "(\<And>x y. p = (x, y) \<Longrightarrow> f x y = f' x y) \<Longrightarrow> (case p of (x, y) \<Rightarrow> f x y) = (case p of (x, y) \<Rightarrow> f' x y)"
  by (cases p) simp

lemma agree_case_option [agree_intros]:
  "m = m' \<Longrightarrow> (\<And>x. p = Some x \<Longrightarrow> f x = f' x) \<Longrightarrow>
   (case p of None \<Rightarrow> m | Some x \<Rightarrow> f x) = (case p of None \<Rightarrow> m' | Some x \<Rightarrow> f' x)"
  by (cases p) simp_all

lemma agree_if [agree_intros]:
  "(b \<Longrightarrow> m = m') \<Longrightarrow> (\<not> b \<Longrightarrow> n = n') \<Longrightarrow> (if b then m else n) = (if b then m' else n')"
  by simp

lemma enumerate_elem: "(i, x) \<in> set (List.enumerate n xs) \<Longrightarrow> x \<in> set xs"
  by (metis in_set_conv_nth in_set_enumerate_eq fst_conv snd_conv nth_mem add.commute le_add_diff_inverse2
      less_diff_conv2)

lemma lookupLast_elem: "lookupLast kvs k = Some v \<Longrightarrow> (k, v) \<in> set kvs"
  by (induction kvs k rule: lookupLast.induct) (auto split: option.splits if_splits)

subsection \<open>Expressions\<close>

lemma cast_agree:
  "agreeBelow (size data) c c' \<Longrightarrow> CastTransformer_Transform env c data = CastTransformer_Transform env c' data"
  unfolding CastTransformer_Transform_def
  by (auto split: ExpressionType.split option.split intro!: agree_intros agree_calls intro: part_sizes)

lemma subquery_agree:
  "agreeBelow (size data) c c' \<Longrightarrow> SubqueryTransformer_Transform c data = SubqueryTransformer_Transform c' data"
  unfolding SubqueryTransformer_Transform_def
  by (auto split: ExpressionType.split option.split AstSubqueryType.split list.split
      intro!: agree_intros agree_deref agree_calls intro: part_sizes)

lemma arguments_agree:
  "(\<And>x. x \<in> set xs \<Longrightarrow> TransformExpression c x = TransformExpression c' x) \<Longrightarrow>
   transformArguments c xs = transformArguments c' xs"
  unfolding transformArguments_def by (auto intro!: agree_intros dest: enumerate_elem)

lemma frame_bound_agree:
  "(\<And>x. fbdOffset b = Some x \<Longrightarrow> TransformExpression c x = TransformExpression c' x) \<Longrightarrow>
   transformFrameBound c msg b = transformFrameBound c' msg b"
  unfolding transformFrameBound_def by (auto intro!: agree_intros)

lemma window_agree:
  assumes agree: "agreeBelow (size data) c c'" and f: "edFunction data = Some f" "fdWindowSpec f = Some w"
  shows "transformWindowSpec c w = transformWindowSpec c' w"
  unfolding transformWindowSpec_def transformPartitionBy_def transformWindowOrderBy_def
    transformFrameClause_def
  by (auto intro!: agree_intros frame_bound_agree agree_calls [OF agree]
      intro: partition_size [OF f] window_order_size [OF f] frame_start_size [OF f])

lemma function_agree:
  assumes "agreeBelow (size data) c c'"
  shows "FunctionCallTransformer_Transform env c data = FunctionCallTransformer_Transform env c' data"
  unfolding FunctionCallTransformer_Transform_def Let_def
  using assms argument_size [of data]
  by (auto split: ExpressionType.split option.split
      intro!: agree_intros arguments_agree agree_calls window_agree)

lemma expression_agree:
  "agreeBelow (size e) c c' \<Longrightarrow>
   QueryCoordinator_TransformExpression env c e = QueryCoordinator_TransformExpression env c' e"
  unfolding QueryCoordinator_TransformExpression_def
  by (simp add: cast_agree subquery_agree function_agree split: ExpressionType.split)

subsection \<open>Scans\<close>

lemma table_agree:
  "agreeBelow (size d) c c' \<Longrightarrow> TableScanTransformer_Transform c d = TableScanTransformer_Transform c' d"
  unfolding TableScanTransformer_Transform_def syntheticColumn_def
  by (auto intro!: agree_expect agree_intros agree_calls table_size)

lemma join_agree:
  "agreeBelow (size d) c c' \<Longrightarrow> JoinScanTransformer_Transform c d = JoinScanTransformer_Transform c' d"
  unfolding JoinScanTransformer_Transform_def
  by (rule agree_expect) (auto intro!: agree_intros agree_calls join_size)

lemma filter_agree:
  "agreeBelow (size d) c c' \<Longrightarrow> FilterScanTransformer_Transform c d = FilterScanTransformer_Transform c' d"
  unfolding FilterScanTransformer_Transform_def
  by (rule agree_expect) (auto intro!: agree_intros agree_calls filter_size)

lemma project_agree:
  "agreeBelow (size d) c c' \<Longrightarrow> ProjectScanTransformer_Transform c d = ProjectScanTransformer_Transform c' d"
  unfolding ProjectScanTransformer_Transform_def
  by (rule agree_expect)
    (auto intro!: agree_intros agree_calls project_size columnRef_size dest!: lookupLast_elem)

lemma computed_agree:
  "(\<And>cc. cc \<in> set xs \<Longrightarrow> TransformExpression c (ccExpression cc) = TransformExpression c' (ccExpression cc)) \<Longrightarrow>
   transformComputed c msg xs = transformComputed c' msg xs"
  unfolding transformComputed_def by (auto intro!: agree_intros)

lemma aggregate_agree:
  "agreeBelow (size d) c c' \<Longrightarrow>
   AggregateScanTransformer_Transform env c d = AggregateScanTransformer_Transform env c' d"
  unfolding AggregateScanTransformer_Transform_def
  by (rule agree_expect) (auto intro!: agree_intros computed_agree agree_calls intro: aggregate_size)

lemma orderby_agree:
  "agreeBelow (size d) c c' \<Longrightarrow> OrderByScanTransformer_Transform c d = OrderByScanTransformer_Transform c' d"
  unfolding OrderByScanTransformer_Transform_def transformOrderByItems_def
  by (rule agree_expect) (auto intro!: agree_intros agree_calls orderby_size)

lemma limit_agree:
  "agreeBelow (size d) c c' \<Longrightarrow> LimitScanTransformer_Transform c d = LimitScanTransformer_Transform c' d"
  unfolding LimitScanTransformer_Transform_def addLimitToSelect_def
  by (rule agree_expect) (auto intro!: agree_intros agree_calls limit_size)

lemma setop_agree:
  "agreeBelow (size d) c c' \<Longrightarrow>
   SetOperationScanTransformer_Transform c d = SetOperationScanTransformer_Transform c' d"
  unfolding SetOperationScanTransformer_Transform_def
  by (rule agree_expect) (auto intro!: agree_intros agree_calls setop_size dest: enumerate_elem)

lemma with_agree:
  "agreeBelow (size d) c c' \<Longrightarrow> WithScanTransformer_Transform c d = WithScanTransformer_Transform c' d"
  unfolding WithScanTransformer_Transform_def transformWithClause_def
  by (rule agree_expect) (auto intro!: agree_intros agree_calls with_size with_entry_scan_size)

lemma with_entry_agree:
  "agreeBelow (size d) c c' \<Longrightarrow> WithEntryTransformer_Transform c d = WithEntryTransformer_Transform c' d"
  unfolding WithEntryTransformer_Transform_def
  by (rule agree_expect) (auto intro!: agree_intros agree_calls with_entry_size)

lemma array_agree:
  "agreeBelow (size d) c c' \<Longrightarrow> ArrayScanTransformer_Transform c d = ArrayScanTransformer_Transform c' d"
  unfolding ArrayScanTransformer_Transform_def arrayJoin_def Let_def
  by (rule agree_expect) (auto intro!: agree_intros agree_calls array_size)

lemma analytic_agree:
  "agreeBelow (size d) c c' \<Longrightarrow> AnalyticScanTransformer_Transform c d = AnalyticScanTransformer_Transform c' d"
  unfolding AnalyticScanTransformer_Transform_def
  by (rule agree_expect) (auto intro!: agree_intros computed_agree agree_calls analytic_size)

lemma recursive_agree:
  "agreeBelow (size d) c c' \<Longrightarrow> RecursiveScanTransformer_Transform c d = RecursiveScanTransformer_Transform c' d"
  unfolding RecursiveScanTransformer_Transform_def
  by (rule agree_expect) (auto intro!: agree_intros agree_calls recursive_size)

lemma scan_agree:
  "agreeBelow (size d) c c' \<Longrightarrow> QueryCoordinator_TransformScan env c d = QueryCoordinator_TransformScan env c' d"
  unfolding QueryCoordinator_TransformScan_def scanTransformer_def
  by (simp add: table_agree join_agree filter_agree project_agree aggregate_agree orderby_agree
      limit_agree setop_agree with_agree array_agree analytic_agree recursive_agree split: ScanType.split)

lemma with_entry_call_agree:
  "agreeBelow (size d) c c' \<Longrightarrow> QueryCoordinator_TransformWithEntry c d = QueryCoordinator_TransformWithEntry c' d"
  unfolding QueryCoordinator_TransformWithEntry_def by (simp add: with_entry_agree)

subsection \<open>Statements\<close>

lemma query_agree:
  "agreeBelow (size d) c c' \<Longrightarrow> QueryStmtTransformer_Transform c d = QueryStmtTransformer_Transform c' d"
  unfolding QueryStmtTransformer_Transform_def
  by (auto split: StatementType.split option.split intro!: agree_deref agree_intros agree_calls
      intro: select_size dest: enumerate_elem)

lemma insert_agree:
  "agreeBelow (size d) c c' \<Longrightarrow> transformInsert c d = transformInsert c' d"
  unfolding transformInsert_def insertQuery_def insertRow_def Let_def
  by (auto split: option.split intro!: agree_deref agree_intros agree_calls
      intro: insert_query_size insert_row_size)

lemma update_agree:
  "agreeBelow (size d) c c' \<Longrightarrow> transformUpdate c d = transformUpdate c' d"
  unfolding transformUpdate_def
  by (auto split: option.split intro!: agree_intros agree_calls intro: update_size)

lemma delete_agree:
  "agreeBelow (size d) c c' \<Longrightarrow> transformDelete c d = transformDelete c' d"
  unfolding transformDelete_def
  by (auto split: option.split intro!: agree_intros agree_calls intro: delete_size)

lemma create_agree:
  "agreeBelow (size d) c c' \<Longrightarrow> createTransformer c d = createTransformer c' d"
  unfolding createTransformer_def CreateTableAsSelectStmtTransformer_Transform_def
    CreateViewStmtTransformer_Transform_def
  by (auto split: option.split CreateType.split intro!: agree_intros agree_calls
      intro: create_view_size create_table_size)

lemma replace_agree:
  "(\<And>i. TransformExpression c (columnIDExpression i) = TransformExpression c' (columnIDExpression i)) \<Longrightarrow>
   replaceColumns c cols s = replaceColumns c' cols s"
  by (induction cols arbitrary: s) auto

lemma merged_table_agree:
  "(\<And>i. TransformExpression c (columnIDExpression i) = TransformExpression c' (columnIDExpression i)) \<Longrightarrow>
   createMergedTableStatement env c t s tt m j = createMergedTableStatement env c' t s tt m j"
  unfolding createMergedTableStatement_def createJoinWithColumnMapping_def mergeColumnItems_def
  by simp

lemma tindex_elem: "tbind (tindex xs i) f = tbind (tindex xs i) f'"
  if "\<And>x. x \<in> set xs \<Longrightarrow> f x = f' x"
  using that by (auto simp: tindex_def tbind_def treturn_def tlift_def fun_eq_iff)

lemma when_agree:
  assumes "\<And>i. TransformExpression c (columnIDExpression i) = TransformExpression c' (columnIDExpression i)"
    and "\<And>x. x \<in> set (mwInsertValues w) \<Longrightarrow> TransformExpression c x = TransformExpression c' x"
    and "\<And>y. y \<in> set (mwSetItems w) \<Longrightarrow> TransformExpression c (sitValue y) = TransformExpression c' (sitValue y)"
  shows "transformWhenClause env c k w t n s sn tn m = transformWhenClause env c' k w t n s sn tn m"
  unfolding transformWhenClause_def transformInsertAction_def transformUpdateAction_def Let_def
  by (auto split: AstActionType.split intro!: agree_intros tindex_elem replace_agree assms
      dest: enumerate_elem)

lemma merge_agree:
  assumes "agreeBelow (size d) c c'"
  shows "MergeStmtTransformer_Transform env c d = MergeStmtTransformer_Transform env c' d"
proof (cases "stMerge d")
  case (Some m)
  note calls = agree_calls [OF assms]
  show ?thesis unfolding MergeStmtTransformer_Transform_def Some Let_def
    by (auto split: StatementType.split intro!: agree_deref agree_intros calls merged_table_agree when_agree
        intro: merge_size [OF Some] merge_column_size [OF Some] when_size [OF Some] dest: enumerate_elem)
qed (simp add: MergeStmtTransformer_Transform_def split: StatementType.split)

lemma statement_agree:
  "agreeBelow (size d) c c' \<Longrightarrow>
   QueryCoordinator_TransformStatement env c d = QueryCoordinator_TransformStatement env c' d"
  unfolding QueryCoordinator_TransformStatement_def statementTransformer_def DMLStmtTransformer_Transform_def
  by (simp add: query_agree insert_agree update_agree delete_agree create_agree merge_agree
      split: StatementType.split)

section \<open>Enough fuel\<close>

lemma agree_next:
  assumes "agreeBelow k c c'"
  shows "agreeBelow (Suc k) (QueryCoordinator env c) (QueryCoordinator env c')"
proof -
  have below: "agreeBelow j c c'" if "j \<le> k" for j using assms that by (simp add: agreeBelow_def)
  have "QueryCoordinator_TransformExpression env c e = QueryCoordinator_TransformExpression env c' e"
    if "size e < Suc k" for e using that by (intro expression_agree below) simp
  moreover have "QueryCoordinator_TransformStatement env c d = QueryCoordinator_TransformStatement env c' d"
    if "size d < Suc k" for d using that by (intro statement_agree below) simp
  moreover have "QueryCoordinator_TransformScan env c s = QueryCoordinator_TransformScan env c' s"
    if "size s < Suc k" for s using that by (intro scan_agree below) simp
  moreover have "QueryCoordinator_TransformWithEntry c s = QueryCoordinator_TransformWithEntry c' s"
    if "size s < Suc k" for s using that by (intro with_entry_call_agree below) simp
  ultimately show ?thesis unfolding agreeBelow_def QueryCoordinator_def by simp
qed

text \<open>
  The result for data smaller than the fuel does not depend on the coordinator at the bottom: the
  exhausted one is never asked.
\<close>

lemma bottom_irrelevant:
  "agreeBelow n ((QueryCoordinator env ^^ n) c) ((QueryCoordinator env ^^ n) c')"
proof (induction n)
  case 0
  then show ?case by (simp add: agreeBelow_def)
next
  case (Suc n)
  then show ?case using agree_next by simp
qed

lemma coordinator_funpow: "coordinator env n = (QueryCoordinator env ^^ n) exhausted"
  by (induction n) simp_all

lemma coordinators_agree:
  assumes "n \<le> k"
  shows "agreeBelow n (coordinator env n) (coordinator env k)"
proof -
  have "coordinator env k = (QueryCoordinator env ^^ n) ((QueryCoordinator env ^^ (k - n)) exhausted)"
    using funpow_add [of n "k - n" "QueryCoordinator env"] assms by (simp add: coordinator_funpow)
  then show ?thesis using bottom_irrelevant [of n env] by (simp add: coordinator_funpow)
qed

end
