(* ===== verification/Transform_Props.thy ===== *)
theory Transform_Props
  imports Coordinator_Props
begin

text \<open>
  What single transformers produce, beyond the contract of the coordinator: the positions of the
  columns of a WITH reference, the CASE expressions, the ORDER BY of grouping sets, and the
  statements of a MERGE. Some of these properties describe behaviour the comments of the code do
  not intend; they are listed as findings of the development.
\<close>

section \<open>Operators and parentheses\<close>

definition binaryTree :: "SQLExpression \<Rightarrow> string \<Rightarrow> SQLExpression \<Rightarrow> SQLExpression" where
  "binaryTree l operator r = NewBinaryExpression (Some l) operator (Some r)"

lemma binaryTree_WriteSql:
  "SQLExpression_WriteSql (binaryTree l operator r) w
     = Option.bind (SQLExpression_WriteSql l w) (\<lambda>w. SQLExpression_WriteSql r
         (w\<lparr>builder := builder w @ '' '' @ operator @ '' ''\<rparr>))"
  by (cases "SQLExpression_WriteSql l w")
    (simp_all add: binaryTree_def NewBinaryExpression_def BinaryExpression_WriteSql_def whenSome_def
      whenA_def deref_def Write_def)

text \<open>C34: The writer prints binary operators without parentheses, so the two ways to nest two operators
  print the same text: \<open>(a OR b) AND c\<close>, which \<open>optimizeFunctionToSQL\<close> builds for primitive operands,
  comes out as the text of \<open>a OR (b AND c)\<close>.\<close>

theorem binary_nesting_lost:
  "SQLExpression_String (binaryTree (binaryTree a op1 b) op2 c)
     = SQLExpression_String (binaryTree a op1 (binaryTree b op2 c))"
proof -
  have "SQLExpression_WriteSql (binaryTree (binaryTree a op1 b) op2 c)
      = SQLExpression_WriteSql (binaryTree a op1 (binaryTree b op2 c))"
    by (rule ext) (simp add: binaryTree_WriteSql Option.bind_assoc)
  moreover have "eSubquery (binaryTree x operator y) = None" for x operator y
    by (simp add: binaryTree_def NewBinaryExpression_def)
  ultimately show ?thesis by (simp add: SQLExpression_String_def)
qed

section \<open>CASE expressions\<close>

text \<open>The loop that pairs the arguments of CASE takes arguments \<open>2i\<close> and \<open>2i+1\<close> as the condition and
  the result of the \<open>i\<close>-th WHEN clause, and the last of an odd number as the ELSE expression.\<close>

theorem when_clauses_by_index:
  "whenPairs args =
     (map (\<lambda>i. WhenClause (Some (args ! (2 * i))) (Some (args ! (2 * i + 1)))) [0..<length args div 2],
      if odd (length args) then Some (last args) else None)"
proof (induction args rule: whenPairs.induct)
  case (1 condition result rest)
  have "map (\<lambda>i. WhenClause (Some ((condition # result # rest) ! (2 * i)))
          (Some ((condition # result # rest) ! (2 * i + 1)))) [0..<Suc (length rest div 2)]
      = WhenClause (Some condition) (Some result)
        # map (\<lambda>i. WhenClause (Some (rest ! (2 * i))) (Some (rest ! (2 * i + 1)))) [0..<length rest div 2]"
    by (simp add: upt_conv_Cons map_Suc_upt [symmetric] del: upt_Suc)
  then show ?case using "1.IH" by (auto simp: Let_def simp del: upt_Suc)
qed simp_all

section \<open>WITH references\<close>

text \<open>A reference to a WITH query takes the columns by position: its \<open>k\<close>-th output column selects the
  \<open>k\<close>-th name that the entry recorded, under the table alias of the reference, and is named by the
  identifier the reference gives it.\<close>

theorem with_reference_by_position:
  assumes "scWithRefScan data = Some ref" "GetWithEntryMapping (wrWithQueryName ref) ctx = Some mapping"
    and "WithRefScanTransformer_Transform data ctx = ok (f, ctx')" "k < length (wrColumnList ref)"
  shows "\<exists>q. fSubquery f = Some q \<and> length (sSelectList q) = length (wrColumnList ref)
    \<and> sSelectList q ! k = aliasedItem (wrColumnList ref ! k)
        (NewColumnExpression (mapping ! k) [''wrs'' @ GetID (fragmentContext ctx)])"
  using assms
  by (auto simp: WithRefScanTransformer_Transform_def expectScan_def run_simps mappedSelect_def
      subqueryFrom_def NewSubqueryFromItem_def simpleSelect_def split: if_splits)

section \<open>Grouping sets\<close>

text \<open>
  The ORDER BY of a union of grouping sets copies only type and value of a grouping expression.
\<close>

lemma printable_collated_copy:
  "printableExpr (setCollation c (SQLExpression (eType e) (eValue e) None None None None None None None [] [] []))
     \<longleftrightarrow> eType e \<notin> {ExpressionTypeList, ExpressionTypeUnary, ExpressionTypeBinary}"
  by (cases "eType e") (simp_all add: setCollation_def given_def)

lemma groupingSets_orderBy:
  assumes "buildGroupingSetsQuery env sets f cols out m ctx = ok (g, ctx')" "2 \<le> length sets"
  obtains s q where "fSubquery g = Some s" "sSetOperation s = None" "fType g = FromItemTypeSubquery"
    "sFromClause s = Some (subqueryFrom q ''set_op_scan_inner'')"
    "sOrderByList q = map (\<lambda>(_, e). OrderByItem (Some (setCollation zetasqlite_collate
                 (SQLExpression (eType e) (eValue e) None None None None None None None [] [] []))) ''ASC'' [])
               (envRange env m)"
proof -
  obtain stmts mid where run: "tmapM (\<lambda>g. groupingSetSelect g f cols out m) sets ctx = ok (stmts, mid)"
    and rest: "tbind fragmentID (\<lambda>scope.
       let alias = ''aggregate_grouping_sets_scan_'' @ scope in
       case stmts of
         [] \<Rightarrow> tlift (panic ''index out of range [0] with length 0'')
       | [s] \<Rightarrow> treturn (subqueryFrom s alias)
       | s # _ \<Rightarrow>
         let orderBy = map (\<lambda>(_, e).
               OrderByItem (Some (setCollation zetasqlite_collate
                 (SQLExpression (eType e) (eValue e) None None None None None None None [] [] []))) ''ASC'' [])
               (envRange env m);
             union = setOrderBy (setOperationSelect [] (SetOperation ''UNION'' ''ALL'' stmts)) orderBy;
             items = map (\<lambda>(col, item). aliasedItem col (NewColumnExpression (slAlias item) []))
               (zip cols (sSelectList s))
         in treturn (subqueryFrom
              (simpleSelect items (Some (subqueryFrom union ''set_op_scan_inner''))) alias)) mid = ok (g, ctx')"
    using assms(1) by (auto simp: buildGroupingSetsQuery_def run_simps)
  have "length stmts = length sets" using run
    by (induction sets arbitrary: stmts ctx mid) (auto simp: run_simps)
  then obtain a b more where stmts: "stmts = a # b # more"
    using assms(2) by (cases stmts rule: remdups_adj.cases) auto
  show ?thesis using rest unfolding stmts
    by (intro that) (auto simp: run_simps Let_def subqueryFrom_def NewSubqueryFromItem_def simpleSelect_def
        setOrderBy_def setOperationSelect_def)
qed

lemma printable_order:
  "printableSelect q \<Longrightarrow> x \<in> set (sOrderByList q) \<Longrightarrow> given (map_option printableExpr (obExpression x))"
  by (cases q) (auto simp: OrderByItem.map_sel)

text \<open>The union of two or more grouping sets cannot be printed when a grouping expression is a list, a
  unary or a binary operation: the ORDER BY of the union copies only its type and value, and \<open>String\<close>
  dereferences the operands that were left out.\<close>

theorem grouping_sets_panic:
  assumes "buildGroupingSetsQuery env sets f cols out m ctx = ok (g, ctx')" "2 \<le> length sets"
    and "(i, e) \<in> set (envRange env m)"
    and "eType e \<in> {ExpressionTypeList, ExpressionTypeUnary, ExpressionTypeBinary}"
  shows "FromItem_String g = None"
proof -
  obtain s q where parts: "fSubquery g = Some s" "sSetOperation s = None" "fType g = FromItemTypeSubquery"
    "sFromClause s = Some (subqueryFrom q ''set_op_scan_inner'')"
    and order: "sOrderByList q = map (\<lambda>(_, e). OrderByItem (Some (setCollation zetasqlite_collate
                 (SQLExpression (eType e) (eValue e) None None None None None None None [] [] []))) ''ASC'' [])
               (envRange env m)"
    by (rule groupingSets_orderBy [OF assms(1,2)])
  have "\<not> printableSelect q"
  proof
    assume "printableSelect q"
    moreover have "OrderByItem (Some (setCollation zetasqlite_collate
        (SQLExpression (eType e) (eValue e) None None None None None None None [] [] []))) ''ASC'' []
        \<in> set (sOrderByList q)"
      using assms(3) unfolding order by force
    ultimately show False using printable_order assms(4) printable_collated_copy by (fastforce simp: given_def)
  qed
  then have "\<not> printableSelect s"
    using parts(2,4) by (cases s) (auto simp: subqueryFrom_def NewSubqueryFromItem_def)
  then have "\<not> printableFrom g" using parts(1,3) by (cases g) simp
  then show ?thesis by (simp add: FromItem_String_def runString_None)
qed

section \<open>MERGE\<close>

text \<open>A WHEN clause with another match type and another condition.\<close>

definition rematched :: "AstMatchType \<Rightarrow> 'e option \<Rightarrow> 'e MergeWhenClauseData \<Rightarrow> 'e MergeWhenClauseData" where
  "rematched matchType condition w =
     MergeWhenClauseData matchType condition (mwActionType w) (mwInsertColumns w) (mwInsertValues w) (mwSetItems w)"

lemma rematched_simps [simp]:
  "mwActionType (rematched matchType condition w) = mwActionType w"
  "mwMatchType (rematched matchType condition w) = matchType"
  by (simp_all add: rematched_def)

lemma insertAction_rematched:
  "transformInsertAction c (rematched matchType condition w) t src = transformInsertAction c w t src"
  by (simp add: transformInsertAction_def rematched_def)

lemma mergeFilter_ok:
  "is_ok (mergeFilter env matchType column sourceName targetName)
     \<longleftrightarrow> matchType \<in> {MatchTypeMatched, MatchTypeNotMatchedBySource, MatchTypeNotMatchedByTarget}"
  by (cases matchType) (simp_all add: mergeFilter_def Let_def)

lemma tstring_ok [run_simps]: "tstring s ctx = ok (x, ctx') \<longleftrightarrow> s = Some x \<and> ctx' = ctx"
  by (cases s) (auto simp: tstring_def nilDeref_def run_simps)

lemma insertAction_text:
  assumes "transformInsertAction c w t src ctx = ok (sql, ctx')"
  obtains source pre where "src = Some source" "sql = pre @ '' FROM '' @ source"
  using assms by (fastforce simp: transformInsertAction_def run_simps)

lemma expression_string_None: "SQLExpression_String e = None \<longleftrightarrow> \<not> printableExpr e"
  by (simp add: SQLExpression_String_def runString_None)

lemma filter_printable:
  assumes "mergeFilter env matchType column sourceName targetName = ok e"
  shows "SQLExpression_String (NewExistsExpression (Some (setWhereClause
     (simpleSelect [selectItem (NewColumnExpression sourceName []) [],
        selectItem (NewColumnExpression targetName []) []] (Some (tableFrom mergedTable []))) (Some e)))) \<noteq> None"
proof -
  have "printableExpr e" using assms
    by (cases matchType) (auto simp: mergeFilter_def Let_def columnTest_def NewBinaryExpression_def
        NewColumnExpression_def NewLiteralExpression_def given_def)
  then show ?thesis unfolding expression_string_None
    by (simp add: NewExistsExpression_def setWhereClause_def
        simpleSelect_def selectItem_def NewColumnExpression_def tableFrom_def given_def okItem_def)
qed

text \<open>The INSERT of a WHEN clause ignores when it applies: it selects from the whole source table,
  with no WHERE, and is the same for every supported match type and every condition.\<close>

theorem merge_insert_unconditional:
  assumes "mwActionType w = ActionTypeInsert"
    and "transformWhenClause env c site w t column src sourceName targetName mapping ctx = ok (sql, ctx')"
    and "matchType \<in> {MatchTypeMatched, MatchTypeNotMatchedBySource, MatchTypeNotMatchedByTarget}"
  shows "(\<exists>source pre. FromItem_String src = Some source \<and> sql = pre @ '' FROM '' @ source)
    \<and> transformWhenClause env c site (rematched matchType condition w) t column src sourceName targetName
        mapping ctx = ok (sql, ctx')"
proof -
  let ?run = "\<lambda>w. transformWhenClause env c site w t column src sourceName targetName mapping ctx"
  have insert: "?run v = (if is_ok (mergeFilter env (mwMatchType v) column sourceName targetName)
      then transformInsertAction c v t (FromItem_String src) ctx
      else ?run v)" if "mwActionType v = ActionTypeInsert" for v
    using filter_printable [of env "mwMatchType v" column sourceName targetName] that
    by (auto simp: transformWhenClause_def is_ok_iff tbind_def tlift_def tstring_def)
  have "is_ok (mergeFilter env (mwMatchType w) column sourceName targetName)"
    using assms(2) by (auto simp: transformWhenClause_def is_ok_iff run_simps)
  then have run: "transformInsertAction c w t (FromItem_String src) ctx = ok (sql, ctx')"
    using insert [OF assms(1)] assms(2) by simp
  have "?run (rematched matchType condition w) = ok (sql, ctx')"
    using insert [of "rematched matchType condition w"] assms(1,3) run
      mergeFilter_ok [of env matchType column sourceName targetName]
    by (simp add: insertAction_rematched)
  moreover obtain source pre where "FromItem_String src = Some source" "sql = pre @ '' FROM '' @ source"
    by (rule insertAction_text [OF run])
  ultimately show ?thesis by simp
qed

text \<open>The two halves of the UNION ALL that fills the merged table list their columns in the order of
  separate loops over the same map, so they line up exactly when the loops happen to agree.\<close>

theorem merge_union_columns:
  assumes "createMergedTableStatement env c name src tgt mapping j ctx = ok (st, ctx')"
    and "\<And>site m. length (envMergeRange env site m) = length m \<and> set (envMergeRange env site m) = set m"
  shows "\<exists>q u l r. ctAsSelect st = Some q \<and> sFromClause q = Some (subqueryFrom u ''merged_union'')
    \<and> sSetOperation u = Some (SetOperation ''UNION'' ''ALL'' [l, r])
    \<and> (map slAlias (sSelectList l) = map slAlias (sSelectList r)
       \<longleftrightarrow> map snd (envMergeRange env [0, 0] (SourceColumnMap mapping))
           = map snd (envMergeRange env [1, 0] (SourceColumnMap mapping))
         \<and> map snd (envMergeRange env [0, 1] (TargetColumnMap mapping))
           = map snd (envMergeRange env [1, 1] (TargetColumnMap mapping)))"
proof -
  have items: "map slAlias xs = map snd cols" if "mergeColumnItems c cols ctx = ok (xs, ctx')" for cols xs ctx ctx'
    using that unfolding mergeColumnItems_def
    by (induction cols arbitrary: xs ctx) (auto simp: run_simps selectItem_def)
  have len: "length (envMergeRange env site m) = length m" for site m
    using assms(2) by blast
  have eq: "a @ b = c @ d \<longleftrightarrow> a = c \<and> b = d" if "length a = length c" for a b c d :: "string list"
    using that by simp
  show ?thesis using assms(1)
    by (auto simp: createMergedTableStatement_def createJoinWithColumnMapping_def run_simps simpleSelect_def
        setDistinct_def NewSelectStarStatement_def setOperationSelect_def subqueryFrom_def
        NewSubqueryFromItem_def eq len dest!: items)
qed

end
