(* ===== verification/Go_Time.thy ===== *)
theory Go_Time
  imports Go_Int
begin

text \<open>
  Go's package \<open>time\<close>, as far as the program uses it: instants with a location, the proleptic
  Gregorian calendar, \<open>time.Date\<close> and its normalisation, \<open>AddDate\<close>, \<open>Add\<close>, \<open>Sub\<close> and the ISO week.

  A location is UTC, or it tells for an instant (in seconds) the abbreviation of the zone, its
  offset in seconds, and the interval of instants in which this holds, and it finds the offset of an
  abbreviation near an instant; the time zone database that provides these is a parameter of its users. Seconds are \<open>int64\<close> and wrap around; the year is not
  wrapped, which matters only beyond \<open>2 * 10 ^ 11\<close> years.
\<close>

section \<open>The calendar\<close>

definition isLeap :: "int \<Rightarrow> bool" where
  "isLeap year \<longleftrightarrow> year mod 4 = 0 \<and> (year mod 100 \<noteq> 0 \<or> year mod 400 = 0)"

text \<open>Days before a year, counted from the first of January of year 1.\<close>

definition daysBeforeYear :: "int \<Rightarrow> int" where
  "daysBeforeYear year =
     365 * (year - 1) + (year - 1) div 4 - (year - 1) div 100 + (year - 1) div 400"

definition daysIn :: "bool \<Rightarrow> int \<Rightarrow> int" where
  "daysIn leap month =
     (if month = 2 then (if leap then 29 else 28)
      else if month \<in> {4, 6, 9, 11} then 30 else 31)"

text \<open>The days before a month, \<open>daysBefore\<close> with the leap day.\<close>

definition daysBeforeMonth :: "bool \<Rightarrow> int \<Rightarrow> int" where
  "daysBeforeMonth leap month =
     [0, 31, 59, 90, 120, 151, 181, 212, 243, 273, 304, 334, 365] ! nat (month - 1)
     + (if leap \<and> 2 < month then 1 else 0)"

text \<open>The first of January 1970 is day 719162.\<close>

definition epochDay :: int where "epochDay = 719162"

definition daysFromCivil :: "int \<Rightarrow> int \<Rightarrow> int \<Rightarrow> int" where
  "daysFromCivil year month day =
     daysBeforeYear year + daysBeforeMonth (isLeap year) month + (day - 1) - epochDay"

text \<open>The cycles of 400, 100, 4 and 1 years of \<open>absDate\<close>.\<close>

definition yearOfDay :: "int \<Rightarrow> int" where
  "yearOfDay n =
     (let n400 = n div 146097; d400 = n mod 146097;
          n100 = min 3 (d400 div 36524); d100 = d400 - 36524 * n100;
          n4 = d100 div 1461; d4 = d100 mod 1461;
          n1 = min 3 (d4 div 365)
      in 400 * n400 + 100 * n100 + 4 * n4 + n1 + 1)"

fun monthSearch :: "bool \<Rightarrow> int \<Rightarrow> nat \<Rightarrow> int \<Rightarrow> int" where
  "monthSearch leap yday 0 month = month"
| "monthSearch leap yday (Suc k) month =
     (if yday < daysBeforeMonth leap (month + 1) then month else monthSearch leap yday k (month + 1))"

text \<open>Year, month, day of the month and day of the year of a day since the epoch.\<close>

definition civilFromDays :: "int \<Rightarrow> int \<times> int \<times> int" where
  "civilFromDays n =
     (let year = yearOfDay (n + epochDay);
          yday = n + epochDay - daysBeforeYear year;
          month = monthSearch (isLeap year) yday 11 1
      in (year, month, yday - daysBeforeMonth (isLeap year) month + 1))"

section \<open>Instants\<close>

datatype Location =
    UTC
  | Zone (zoneName: string) (zoneLookup: "int \<Rightarrow> string \<times> int \<times> int \<times> int")
      (zoneByName: "string \<Rightarrow> int \<Rightarrow> int option")

record Time =
  tSec :: int
  tNsec :: int
  tLoc :: Location

text \<open>\<open>FixedZone\<close> has one offset for all instants.\<close>

definition FixedZone :: "string \<Rightarrow> int \<Rightarrow> Location" where
  "FixedZone name offset =
     Zone name (\<lambda>_. (name, offset, minInt64, maxInt64)) (\<lambda>n _. if n = name then Some offset else None)"

definition zoneOffset :: "Location \<Rightarrow> int \<Rightarrow> int" where
  "zoneOffset loc sec = (case loc of UTC \<Rightarrow> 0 | Zone _ look _ \<Rightarrow> fst (snd (look sec)))"

definition zoneAbbreviation :: "Location \<Rightarrow> int \<Rightarrow> string" where
  "zoneAbbreviation loc sec = (case loc of UTC \<Rightarrow> ''UTC'' | Zone _ look _ \<Rightarrow> fst (look sec))"

text \<open>The reading of the clock at the place: seconds since the epoch there.\<close>

definition localSec :: "Time \<Rightarrow> int" where
  "localSec t = wrap64 (tSec t + zoneOffset (tLoc t) (tSec t))"

definition Time_Date :: "Time \<Rightarrow> int \<times> int \<times> int" where
  "Time_Date t = civilFromDays (localSec t div 86400)"

definition Time_Year :: "Time \<Rightarrow> int" where "Time_Year t = fst (Time_Date t)"
definition Time_Month :: "Time \<Rightarrow> int" where "Time_Month t = fst (snd (Time_Date t))"
definition Time_Day :: "Time \<Rightarrow> int" where "Time_Day t = snd (snd (Time_Date t))"
definition Time_Hour :: "Time \<Rightarrow> int" where "Time_Hour t = localSec t mod 86400 div 3600"
definition Time_Minute :: "Time \<Rightarrow> int" where "Time_Minute t = localSec t mod 3600 div 60"
definition Time_Second :: "Time \<Rightarrow> int" where "Time_Second t = localSec t mod 60"
definition Time_Nanosecond :: "Time \<Rightarrow> int" where "Time_Nanosecond t = tNsec t"

text \<open>Sunday is 0; the epoch was a Thursday.\<close>

definition weekdayOfDay :: "int \<Rightarrow> int" where
  "weekdayOfDay n = (n + 4) mod 7"

definition Time_Weekday :: "Time \<Rightarrow> int" where
  "Time_Weekday t = weekdayOfDay (localSec t div 86400)"

definition Time_YearDay :: "Time \<Rightarrow> int" where
  "Time_YearDay t =
     (let n = localSec t div 86400 in n + epochDay - daysBeforeYear (yearOfDay (n + epochDay)) + 1)"

text \<open>The year and the number of the ISO week are those of its Thursday.\<close>

definition Time_ISOWeek :: "Time \<Rightarrow> int \<times> int" where
  "Time_ISOWeek t =
     (let n = localSec t div 86400;
          shift = 4 - weekdayOfDay n;
          thursday = n + (if shift = 4 then - 3 else shift);
          year = yearOfDay (thursday + epochDay)
      in (year, (thursday + epochDay - daysBeforeYear year) div 7 + 1))"

section \<open>Construction\<close>

text \<open>The seconds of \<open>time.Date\<close> in UTC, before the location is looked up: out-of-range months,
  days, hours, minutes and seconds carry.\<close>

definition civilSeconds :: "int \<Rightarrow> int \<Rightarrow> int \<Rightarrow> int \<Rightarrow> int \<Rightarrow> int \<Rightarrow> int" where
  "civilSeconds year month day hour minute second =
     wrap64 (86400 * (daysFromCivil (year + (month - 1) div 12) ((month - 1) mod 12 + 1) 1 + (day - 1))
       + 3600 * hour + 60 * minute + second)"

definition time_Date ::
  "int \<Rightarrow> int \<Rightarrow> int \<Rightarrow> int \<Rightarrow> int \<Rightarrow> int \<Rightarrow> int \<Rightarrow> Location \<Rightarrow> Time" where
  "time_Date year month day hour minute second nsec loc =
     (let unix = civilSeconds year month day hour minute (second + nsec div 10 ^ 9);
          utcSec = (case loc of
             UTC \<Rightarrow> unix
           | Zone _ look _ \<Rightarrow>
               (let (_, offset, start, end') = look unix in
                if offset = 0 then unix
                else (let utc = wrap64 (unix - offset) in
                      if utc < start \<or> utc \<ge> end' then wrap64 (unix - fst (snd (look utc))) else utc)))
      in \<lparr>tSec = utcSec, tNsec = nsec mod 10 ^ 9, tLoc = loc\<rparr>)"

text \<open>The zero value of \<open>time.Time\<close> is the first of January of year 1.\<close>

definition zeroTime :: Time where
  "zeroTime = \<lparr>tSec = - 86400 * epochDay, tNsec = 0, tLoc = UTC\<rparr>"

text \<open>\<open>time.Unix\<close> gives a local time; the local location is a parameter.\<close>

definition time_Unix :: "Location \<Rightarrow> int \<Rightarrow> int \<Rightarrow> Time" where
  "time_Unix local sec nsec =
     \<lparr>tSec = wrap64 (sec + nsec div 10 ^ 9), tNsec = nsec mod 10 ^ 9, tLoc = local\<rparr>"

definition time_UnixMicro :: "Location \<Rightarrow> int \<Rightarrow> Time" where
  "time_UnixMicro local usec = time_Unix local (usec sdiv 10 ^ 6) ((usec smod 10 ^ 6) * 1000)"

definition Time_In :: "Location \<Rightarrow> Time \<Rightarrow> Time" where
  "Time_In loc t = t\<lparr>tLoc := loc\<rparr>"

definition Time_UTC :: "Time \<Rightarrow> Time" where
  "Time_UTC t = Time_In UTC t"

section \<open>Arithmetic\<close>

definition AddDate :: "int \<Rightarrow> int \<Rightarrow> int \<Rightarrow> Time \<Rightarrow> Time" where
  "AddDate years months days t =
     time_Date (wrap64 (Time_Year t + years)) (wrap64 (Time_Month t + months)) (wrap64 (Time_Day t + days))
       (Time_Hour t) (Time_Minute t) (Time_Second t) (tNsec t) (tLoc t)"

text \<open>A duration is an \<open>int64\<close> of nanoseconds.\<close>

definition Time_Add :: "int \<Rightarrow> Time \<Rightarrow> Time" where
  "Time_Add d t =
     (let total = tNsec t + d in
      t\<lparr>tSec := wrap64 (tSec t + total div 10 ^ 9), tNsec := total mod 10 ^ 9\<rparr>)"

definition nanos :: "Time \<Rightarrow> int" where
  "nanos t = tSec t * 10 ^ 9 + tNsec t"

text \<open>\<open>Sub\<close> saturates at the largest and smallest duration.\<close>

definition Time_Sub :: "Time \<Rightarrow> Time \<Rightarrow> int" where
  "Time_Sub t u = max minInt64 (min maxInt64 (nanos t - nanos u))"

definition Time_Equal :: "Time \<Rightarrow> Time \<Rightarrow> bool" where "Time_Equal t u \<longleftrightarrow> nanos t = nanos u"
definition Time_Before :: "Time \<Rightarrow> Time \<Rightarrow> bool" where "Time_Before t u \<longleftrightarrow> nanos t < nanos u"
definition Time_After :: "Time \<Rightarrow> Time \<Rightarrow> bool" where "Time_After t u \<longleftrightarrow> nanos u < nanos t"

definition Time_Unix :: "Time \<Rightarrow> int" where "Time_Unix t = tSec t"
definition Time_UnixMilli :: "Time \<Rightarrow> int" where
  "Time_UnixMilli t = wrap64 (tSec t * 10 ^ 3 + tNsec t div 10 ^ 6)"
definition Time_UnixMicro :: "Time \<Rightarrow> int" where
  "Time_UnixMicro t = wrap64 (tSec t * 10 ^ 6 + tNsec t div 10 ^ 3)"

definition Microsecond :: int where "Microsecond = 10 ^ 3"
definition Millisecond :: int where "Millisecond = 10 ^ 6"
definition Second :: int where "Second = 10 ^ 9"
definition Minute :: int where "Minute = 60 * 10 ^ 9"
definition Hour :: int where "Hour = 3600 * 10 ^ 9"

lemmas duration_defs = Microsecond_def Millisecond_def Second_def Minute_def Hour_def

end
