(* ===== verification/Go_Time_Format.thy ===== *)
theory Go_Time_Format
  imports Go_Time
begin

text \<open>
  \<open>Time.Format\<close> and \<open>time.ParseInLocation\<close> for the layouts the program uses. A layout is given by
  its elements; \<open>LFrac n\<close> is the element \<open>.999\<close> with \<open>n\<close> nines. The text of a parse error is a
  function of layout and value that nothing here depends on, so parsing returns an \<open>option\<close>.
\<close>

section \<open>Layouts\<close>

datatype LayoutItem =
    LLit string
  | LYear | LMonth | LDay | LHour | LMinute | LSecond
  | LFrac nat
  | LZoneISO | LZoneColon | LZoneShort | LZoneName

type_synonym Layout = "LayoutItem list"

definition layoutDate :: Layout where
  "layoutDate = [LYear, LLit ''-'', LMonth, LLit ''-'', LDay]"

definition layoutClock :: Layout where
  "layoutClock = [LHour, LLit '':'', LMinute, LLit '':'', LSecond]"

definition layoutDateT :: Layout where "layoutDateT = layoutDate @ [LLit ''T''] @ layoutClock"
definition layoutDateSpace :: Layout where "layoutDateSpace = layoutDate @ [LLit '' ''] @ layoutClock"

section \<open>Formatting\<close>

definition appendInt :: "nat \<Rightarrow> int \<Rightarrow> string" where
  "appendInt w i = (if i < 0 then CHR ''-'' # padNat w (nat (- i)) else padNat w (nat i))"

definition trimZeros :: "string \<Rightarrow> string" where
  "trimZeros = trimRightChar CHR ''0''"

definition formatFrac :: "nat \<Rightarrow> int \<Rightarrow> string" where
  "formatFrac n nsec =
     (let digits = trimZeros (take n (padNat 9 (nat nsec)))
      in if digits = [] then [] else CHR ''.'' # digits)"

definition formatOffset :: "bool \<Rightarrow> bool \<Rightarrow> int \<Rightarrow> string" where
  "formatOffset colon minutes offset =
     (let zone = offset sdiv 60; a = \<bar>zone\<bar>
      in (if zone < 0 then ''-'' else ''+'') @ appendInt 2 (a div 60)
         @ (if colon then '':'' else []) @ (if minutes then appendInt 2 (a mod 60) else []))"

fun formatItem :: "Time \<Rightarrow> LayoutItem \<Rightarrow> string" where
  "formatItem t (LLit s) = s"
| "formatItem t LYear = appendInt 4 (Time_Year t)"
| "formatItem t LMonth = appendInt 2 (Time_Month t)"
| "formatItem t LDay = appendInt 2 (Time_Day t)"
| "formatItem t LHour = appendInt 2 (Time_Hour t)"
| "formatItem t LMinute = appendInt 2 (Time_Minute t)"
| "formatItem t LSecond = appendInt 2 (Time_Second t)"
| "formatItem t (LFrac n) = formatFrac n (tNsec t)"
| "formatItem t LZoneISO =
     (let offset = zoneOffset (tLoc t) (tSec t) in
      if offset = 0 then ''Z'' else formatOffset True True offset)"
| "formatItem t LZoneColon = formatOffset True True (zoneOffset (tLoc t) (tSec t))"
| "formatItem t LZoneShort = formatOffset False False (zoneOffset (tLoc t) (tSec t))"
| "formatItem t LZoneName =
     (let name = zoneAbbreviation (tLoc t) (tSec t) in
      if name \<noteq> [] then name else formatOffset False True (zoneOffset (tLoc t) (tSec t)))"

definition Time_Format :: "Time \<Rightarrow> Layout \<Rightarrow> string" where
  "Time_Format t layout = concat (map (formatItem t) layout)"

section \<open>Parsing\<close>

text \<open>The variables of the parse loop; \<open>-1\<close> stands for a field that was not set.\<close>

record Parsed =
  paYear :: int
  paMonth :: int
  paDay :: int
  paHour :: int
  paMinute :: int
  paSecond :: int
  paNsec :: int
  paUTC :: bool
  paOffset :: "int option"
  paZoneName :: string

definition emptyParsed :: Parsed where
  "emptyParsed = \<lparr>paYear = 0, paMonth = - 1, paDay = - 1, paHour = 0, paMinute = 0, paSecond = 0,
     paNsec = 0, paUTC = False, paOffset = None, paZoneName = []\<rparr>"

definition isDigitAt :: "string \<Rightarrow> nat \<Rightarrow> bool" where
  "isDigitAt s i \<longleftrightarrow> i < length s \<and> isDigitChar (s ! i)"

definition getnum :: "string \<Rightarrow> bool \<Rightarrow> (int \<times> string) option" where
  "getnum s fixed =
     (if \<not> isDigitAt s 0 then None
      else if \<not> isDigitAt s 1 then
        (if fixed then None else Some (int (digitsVal (take 1 s)), drop 1 s))
      else Some (int (digitsVal (take 2 s)), drop 2 s))"

text \<open>A number in a range, the check that follows \<open>getnum\<close>.\<close>

definition getnumIn :: "string \<Rightarrow> bool \<Rightarrow> int \<Rightarrow> int \<Rightarrow> (int \<times> string) option" where
  "getnumIn s fixed low high =
     (case getnum s fixed of
        Some (n, rest) \<Rightarrow> if low \<le> n \<and> n \<le> high then Some (n, rest) else None
      | None \<Rightarrow> None)"

definition cutspace :: "string \<Rightarrow> string" where
  "cutspace = dropWhile (\<lambda>c. c = CHR '' '')"

function skip :: "string \<Rightarrow> string \<Rightarrow> string option" where
  "skip value [] = Some value"
| "skip value (p # prefix) =
     (if p = CHR '' '' then
        (if value \<noteq> [] \<and> hd value \<noteq> CHR '' '' then None
         else skip (cutspace value) (cutspace prefix))
      else (case value of
              [] \<Rightarrow> None
            | v # rest \<Rightarrow> if v = p then skip rest prefix else None))"
  by pat_completeness auto
termination
  by (relation "measure (\<lambda>(value, prefix). length prefix)")
    (auto simp: cutspace_def length_dropWhile_le less_Suc_eq_le)

definition commaOrPeriod :: "char \<Rightarrow> bool" where
  "commaOrPeriod c \<longleftrightarrow> c = CHR ''.'' \<or> c = CHR '',''"

text \<open>The digits after the point, at most nine of them counted.\<close>

definition parseNanoseconds :: "string \<Rightarrow> int" where
  "parseNanoseconds digits =
     (let d = take 9 digits in int (digitsVal d) * 10 ^ (9 - length d))"

definition parseFraction :: "string \<Rightarrow> (int \<times> string) option" where
  "parseFraction value =
     (if 2 \<le> length value \<and> commaOrPeriod (hd value) \<and> isDigitAt value 1
      then Some (parseNanoseconds (takeWhile isDigitChar (tl value)), dropWhile isDigitChar (tl value))
      else None)"

definition parseOffset :: "bool \<Rightarrow> string \<Rightarrow> (int \<times> string) option" where
  "parseOffset colon value =
     (if colon \<and> (length value < 6 \<or> value ! 3 \<noteq> CHR '':'') \<or> length value < 3 then None
      else
        (let parts = (if colon then (take 2 (drop 4 value), drop 6 value) else (''00'', drop 3 value)) in
         case (getnum (take 2 (drop 1 value)) True, getnum (fst parts) True) of
           (Some (hr, _), Some (mm, _)) \<Rightarrow>
             if hr > 24 \<or> mm > 60 then None
             else if hd value = CHR ''+'' then Some ((hr * 60 + mm) * 60, snd parts)
             else if hd value = CHR ''-'' then Some (- ((hr * 60 + mm) * 60), snd parts)
             else None
         | _ \<Rightarrow> None))"

definition parseSignedOffset :: "string \<Rightarrow> nat" where
  "parseSignedOffset value =
     (case value of
        [] \<Rightarrow> 0
      | sign # rest \<Rightarrow>
          if sign \<noteq> CHR ''-'' \<and> sign \<noteq> CHR ''+'' then 0
          else (let digits = takeWhile isDigitChar rest in
                if digits = [] \<or> 23 < digitsVal digits then 0 else 1 + length digits))"

definition isUpperChar :: "char \<Rightarrow> bool" where
  "isUpperChar c \<longleftrightarrow> 65 \<le> (of_char c :: nat) \<and> (of_char c :: nat) \<le> 90"

definition parseTimeZone :: "string \<Rightarrow> nat option" where
  "parseTimeZone value =
     (if length value < 3 then None
      else if hasPrefix value ''ChST'' \<or> hasPrefix value ''MeST'' then Some 4
      else if hasPrefix value ''GMT'' then Some (3 + parseSignedOffset (drop 3 value))
      else if hd value = CHR ''+'' \<or> hd value = CHR ''-'' then
        (let n = parseSignedOffset value in if 0 < n then Some n else None)
      else
        (let nUpper = length (takeWhile isUpperChar (take 6 value)) in
         if nUpper = 5 \<and> value ! 4 = CHR ''T'' then Some 5
         else if nUpper = 4 \<and> (value ! 3 = CHR ''T'' \<or> hasPrefix value ''WITA'') then Some 4
         else if nUpper = 3 then Some 3
         else None))"

definition parseZone :: "bool \<Rightarrow> bool \<Rightarrow> string \<Rightarrow> Parsed \<Rightarrow> (string \<times> Parsed) option" where
  "parseZone acceptsZ colon value p =
     (if acceptsZ \<and> value \<noteq> [] \<and> hd value = CHR ''Z'' then Some (tl value, p\<lparr>paUTC := True\<rparr>)
      else (case parseOffset colon value of
              Some (offset, rest) \<Rightarrow> Some (rest, p\<lparr>paOffset := Some offset\<rparr>)
            | None \<Rightarrow> None))"

fun parseItem :: "LayoutItem \<Rightarrow> Layout \<Rightarrow> string \<Rightarrow> Parsed \<Rightarrow> (string \<times> Parsed) option" where
  "parseItem (LLit s) suffix value p = map_option (\<lambda>rest. (rest, p)) (skip value s)"
| "parseItem LYear suffix value p =
     (if length value < 4 \<or> \<not> list_all isDigitChar (take 4 value) then None
      else Some (drop 4 value, p\<lparr>paYear := int (digitsVal (take 4 value))\<rparr>))"
| "parseItem LMonth suffix value p =
     map_option (\<lambda>(n, rest). (rest, p\<lparr>paMonth := n\<rparr>)) (getnumIn value True 1 12)"
| "parseItem LDay suffix value p =
     map_option (\<lambda>(n, rest). (rest, p\<lparr>paDay := n\<rparr>)) (getnum value True)"
| "parseItem LHour suffix value p =
     map_option (\<lambda>(n, rest). (rest, p\<lparr>paHour := n\<rparr>)) (getnumIn value False 0 23)"
| "parseItem LMinute suffix value p =
     map_option (\<lambda>(n, rest). (rest, p\<lparr>paMinute := n\<rparr>)) (getnumIn value True 0 59)"
| "parseItem LSecond suffix value p =
     (case getnumIn value True 0 59 of
        None \<Rightarrow> None
      | Some (n, rest) \<Rightarrow>
          (let q = p\<lparr>paSecond := n\<rparr> in
           case suffix of
             LFrac _ # _ \<Rightarrow> Some (rest, q)
           | _ \<Rightarrow> (case parseFraction rest of
                     Some (ns, rest') \<Rightarrow> Some (rest', q\<lparr>paNsec := ns\<rparr>)
                   | None \<Rightarrow> Some (rest, q))))"
| "parseItem (LFrac _) suffix value p =
     (case parseFraction value of
        Some (ns, rest) \<Rightarrow> Some (rest, p\<lparr>paNsec := ns\<rparr>)
      | None \<Rightarrow> Some (value, p))"
| "parseItem LZoneISO suffix value p = parseZone True True value p"
| "parseItem LZoneColon suffix value p = parseZone False True value p"
| "parseItem LZoneShort suffix value p = parseZone False False value p"
| "parseItem LZoneName suffix value p =
     (if hasPrefix value ''UTC'' then Some (drop 3 value, p\<lparr>paUTC := True\<rparr>)
      else map_option (\<lambda>n. (drop n value, p\<lparr>paZoneName := take n value\<rparr>)) (parseTimeZone value))"

fun parseItems :: "Layout \<Rightarrow> string \<Rightarrow> Parsed \<Rightarrow> Parsed option" where
  "parseItems [] value p = (if value = [] then Some p else None)"
| "parseItems (item # layout) value p =
     (case parseItem item layout value p of
        None \<Rightarrow> None
      | Some (rest, q) \<Rightarrow> parseItems layout rest q)"

definition lookupName :: "Location \<Rightarrow> string \<Rightarrow> int \<Rightarrow> int option" where
  "lookupName loc name sec = (case loc of UTC \<Rightarrow> None | Zone _ _ look \<Rightarrow> look name sec)"

definition setLocal :: "Location \<Rightarrow> int \<Rightarrow> Time \<Rightarrow> Time" where
  "setLocal loc offset t = t\<lparr>tSec := wrap64 (tSec t - offset), tLoc := loc\<rparr>"

text \<open>What follows the loop: the day is checked against the month and the location is chosen. The
  offset of a zone \<open>GMT+3\<close> that the location does not know is read off its name but not subtracted.\<close>

definition finishParse :: "Location \<Rightarrow> Location \<Rightarrow> Parsed \<Rightarrow> Time option" where
  "finishParse defaultLocation local p =
     (let month = (if paMonth p < 0 then 1 else paMonth p);
          day = (if paDay p < 0 then 1 else paDay p);
          date = time_Date (paYear p) month day (paHour p) (paMinute p) (paSecond p) (paNsec p)
      in if day < 1 \<or> day > daysIn (isLeap (paYear p)) month then None
         else if paUTC p then Some (date UTC)
         else (case paOffset p of
                 Some offset \<Rightarrow>
                   (let t = setLocal local offset (date UTC) in
                    if zoneOffset local (tSec t) = offset
                       \<and> (paZoneName p = [] \<or> zoneAbbreviation local (tSec t) = paZoneName p)
                    then Some t else Some (t\<lparr>tLoc := FixedZone (paZoneName p) offset\<rparr>))
               | None \<Rightarrow>
                   if paZoneName p = [] then Some (date defaultLocation)
                   else (case lookupName local (paZoneName p) (tSec (date UTC)) of
                           Some offset \<Rightarrow> Some (setLocal local offset (date UTC))
                         | None \<Rightarrow>
                             let digits = drop 4 (paZoneName p);
                                 hours = (if 3 < length (paZoneName p) \<and> hasPrefix (paZoneName p) ''GMT''
                                   then (if paZoneName p ! 3 = CHR ''-'' then - int (digitsVal digits)
                                         else int (digitsVal digits)) else 0)
                             in Some ((date UTC)\<lparr>tLoc := FixedZone (paZoneName p) (hours * 3600)\<rparr>))))"

definition ParseInLocation :: "Layout \<Rightarrow> string \<Rightarrow> Location \<Rightarrow> Time option" where
  "ParseInLocation layout value loc =
     (case parseItems layout value emptyParsed of None \<Rightarrow> None | Some p \<Rightarrow> finishParse loc loc p)"

text \<open>\<open>time.Parse\<close> falls back to UTC, and matches offsets against the local location.\<close>

definition time_Parse :: "Location \<Rightarrow> Layout \<Rightarrow> string \<Rightarrow> Time option" where
  "time_Parse local layout value =
     (case parseItems layout value emptyParsed of None \<Rightarrow> None | Some p \<Rightarrow> finishParse UTC local p)"

end
