(* ===== verification/Value_Types.thy ===== *)
theory Value_Types
  imports Complex_Main Go_Time_Format Name_Path
begin

text \<open>
  The values of \<open>internal/value.go\<close> and the parameters of their operations.

  A \<open>Value\<close> of the code is an interface that may be nil (the SQL NULL), here \<open>'f Value option\<close>; a
  non-nil value is one constructor per implementing type, with the type's name. A \<open>*big.Rat\<close> is a
  rational number or nil. \<open>StructValue\<close> has its three fields \<open>keys\<close>, \<open>values\<close> and the map \<open>m\<close>, the
  map as an association list. \<open>SafeValue\<close> wraps a value that is never nil: nothing in the code
  wraps one at all.

  Parameters, collected in the record \<open>Runtime\<close>: IEEE arithmetic and the formatting of floating
  point numbers (type \<open>'f\<close>), the escapes of \<open>strconv.Quote\<close>, the texts \<open>%v\<close> prints for a value,
  \<open>big.Rat.SetString\<close>, the interval type of the BigQuery client, \<open>json\<close>, the iteration order of
  maps, the local time zone and the time zone database.
\<close>

section \<open>Values\<close>

record IntervalFields =
  Years :: int
  Months :: int
  Days :: int
  Hours :: int
  Minutes :: int
  Seconds :: int
  SubSecondNanos :: int

definition noInterval :: IntervalFields where
  "noInterval = \<lparr>Years = 0, Months = 0, Days = 0, Hours = 0, Minutes = 0, Seconds = 0, SubSecondNanos = 0\<rparr>"

datatype (plugins only: code size) 'f Value =
    IntValue int
  | StringValue string
  | BytesValue string
  | FloatValue 'f
  | NumericValue "rat option" bool
  | BoolValue bool
  | JsonValue string
  | ArrayValue "'f Value option list"
  | StructValue "string list" "'f Value option list" "(string \<times> 'f Value option) list"
  | DateValue Time
  | DatetimeValue Time
  | TimeValue Time
  | TimestampValue Time
  | IntervalValue IntervalFields
  | SafeValue "'f Value"

type_synonym 'f array = "'f Value option list"
type_synonym 'f struct = "string list \<times> 'f Value option list \<times> (string \<times> 'f Value option) list"

text \<open>What \<open>Interface()\<close> returns: the Go values handed to \<open>database/sql\<close>.\<close>

datatype (plugins only: code size) 'f GoAny =
    AnyNil | AnyInt int | AnyString string | AnyBytes string | AnyFloat 'f | AnyBool bool
  | AnySlice "'f GoAny list"
  | AnyFields "(string \<times> 'f GoAny) list"
  | AnyMap "(string \<times> 'f GoAny) list"

section \<open>Parameters\<close>

record 'f Runtime =
  flAdd :: "'f \<Rightarrow> 'f \<Rightarrow> 'f"
  flSub :: "'f \<Rightarrow> 'f \<Rightarrow> 'f"
  flMul :: "'f \<Rightarrow> 'f \<Rightarrow> 'f"
  flDiv :: "'f \<Rightarrow> 'f \<Rightarrow> 'f"
  flEq :: "'f \<Rightarrow> 'f \<Rightarrow> bool"
  flLess :: "'f \<Rightarrow> 'f \<Rightarrow> bool"
  flOfInt :: "int \<Rightarrow> 'f"
  flToInt :: "'f \<Rightarrow> int"
  flOfRat :: "rat \<Rightarrow> 'f"
  flToRat :: "'f \<Rightarrow> rat option"
  flTrunc :: "'f \<Rightarrow> 'f"
  flShow :: "'f \<Rightarrow> string"
  flFixed :: "'f \<Rightarrow> string"
  flShortest :: "'f \<Rightarrow> string"
  flParse :: "string \<Rightarrow> 'f go"
  rtQuote :: "string \<Rightarrow> string"
  rtShow :: "'f Value option \<Rightarrow> string"
  rtRatOfString :: "string \<Rightarrow> rat"
  rtIntervalString :: "IntervalFields \<Rightarrow> string"
  rtParseInterval :: "string \<Rightarrow> IntervalFields go"
  rtIntervalOfDuration :: "int \<Rightarrow> IntervalFields"
  rtJsonUnmarshal :: "string \<Rightarrow> 'f GoAny option"
  rtKeyOrder :: "string list \<Rightarrow> string list"
  rtTimeError :: "string \<Rightarrow> string"
  rtLocal :: Location
  rtLoadLocation :: "string \<Rightarrow> Location go"

section \<open>Small helpers\<close>

text \<open>A nil pointer or interface that is used.\<close>

definition nilPanic :: "'a go" where
  "nilPanic = panic ''invalid memory address or nil pointer dereference''"

definition onNil :: "'a option \<Rightarrow> ('a \<Rightarrow> 'b go) \<Rightarrow> 'b go" where
  "onNil p f = (case p of None \<Rightarrow> nilPanic | Some x \<Rightarrow> f x)"

lemma onNil_simps [simp, go_simps]: "onNil None f = nilPanic" "onNil (Some x) f = f x"
  by (simp_all add: onNil_def)

lemma onNil_cong [fundef_cong]: "p = q \<Longrightarrow> (\<And>x. q = Some x \<Longrightarrow> f x = g x) \<Longrightarrow> onNil p f = onNil q g"
  by (cases q) simp_all

text \<open>The loops of the code: the first error ends them.\<close>

fun goList :: "'a go list \<Rightarrow> 'a list go" where
  "goList [] = ok []"
| "goList (x # xs) = go_bind x (\<lambda>y. go_bind (goList xs) (\<lambda>ys. ok (y # ys)))"

fun goEvery :: "bool go list \<Rightarrow> bool go" where
  "goEvery [] = ok True"
| "goEvery (x # xs) = go_bind x (\<lambda>b. if b then goEvery xs else ok False)"

lemma goList_ok: "goList xs = ok ys \<longleftrightarrow> xs = map ok ys"
  by (induction xs arbitrary: ys) (auto simp: go_bind_Inr_iff Cons_eq_map_conv)

lemma goList_in:
  assumes "goList (map g xs) = ok ys" "y \<in> set ys"
  obtains x where "x \<in> set xs" "g x = ok y"
proof -
  have "g ` set xs = ok ` set ys" using assms(1) unfolding goList_ok by (metis set_map)
  then have "ok y \<in> g ` set xs" using assms(2) by simp
  then show ?thesis using that by force
qed

lemma goEvery_ok: "goEvery xs = ok True \<longleftrightarrow> (\<forall>x \<in> set xs. x = ok True)"
  by (induction xs) (auto simp: go_bind_Inr_iff split: if_splits)

text \<open>An error that is replaced by another text, and one that is dropped for a default.\<close>

definition replaceError :: "string \<Rightarrow> 'a go \<Rightarrow> 'a go" where
  "replaceError msg r = (case r of Inl (GoErr _) \<Rightarrow> fail_with msg | _ \<Rightarrow> r)"

definition safely :: "'a \<Rightarrow> 'a go \<Rightarrow> 'a go" where
  "safely d r = (case r of Inl (GoErr _) \<Rightarrow> ok d | _ \<Rightarrow> r)"

lemma replaceError_ok [simp]: "replaceError msg (ok x) = ok x"
  by (simp add: replaceError_def)

lemma replaceError_iff: "replaceError msg r = ok x \<longleftrightarrow> r = ok x"
  by (auto simp: replaceError_def split: sum.splits go_error.splits)

text \<open>A map that is assigned to: the new value replaces the old.\<close>

definition mapSet :: "'k \<Rightarrow> 'v \<Rightarrow> ('k \<times> 'v) list \<Rightarrow> ('k \<times> 'v) list" where
  "mapSet k v m = (if k \<in> fst ` set m then map (\<lambda>(a, b). if a = k then (a, v) else (a, b)) m else m @ [(k, v)])"

definition mapOfFields :: "('k \<times> 'v) list \<Rightarrow> ('k \<times> 'v) list" where
  "mapOfFields kvs = fold (\<lambda>(k, v). mapSet k v) kvs []"

lemma mapSet_in: "(a, b) \<in> set (mapSet k v m) \<Longrightarrow> (a, b) = (k, v) \<or> (a, b) \<in> set m"
  by (auto simp: mapSet_def split: if_splits)

lemma mapOfFields_in: "(a, b) \<in> set (mapOfFields kvs) \<Longrightarrow> (a, b) \<in> set kvs"
proof -
  have "(a, b) \<in> set (fold (\<lambda>(k, v). mapSet k v) kvs m) \<Longrightarrow> (a, b) \<in> set kvs \<or> (a, b) \<in> set m" for m
    by (induction kvs arbitrary: m) (auto dest: mapSet_in)
  from this [of "[]"] show "(a, b) \<in> set (mapOfFields kvs) \<Longrightarrow> (a, b) \<in> set kvs"
    by (simp add: mapOfFields_def)
qed

section \<open>Rational numbers as text\<close>

text \<open>\<open>Rat.FloatString\<close>: the last digit is rounded, halves away from zero.\<close>

definition ratFloatString :: "nat \<Rightarrow> rat \<Rightarrow> string" where
  "ratFloatString prec r =
     (let n = nat \<lfloor>\<bar>r\<bar> * 10 ^ prec + 1 / 2\<rfloor>
      in (if r < 0 then ''-'' else []) @ sprintNat (n div 10 ^ prec)
         @ (if 0 < prec then CHR ''.'' # padNat prec (n mod 10 ^ prec) else []))"

definition ratString :: "rat \<Rightarrow> string" where
  "ratString r = (case quotient_of r of (a, b) \<Rightarrow> sprintInt a @ ''/'' @ sprintInt b)"

definition ratMarshalText :: "rat \<Rightarrow> string" where
  "ratMarshalText r =
     (case quotient_of r of (a, b) \<Rightarrow> if b = 1 then sprintInt a else sprintInt a @ ''/'' @ sprintInt b)"

text \<open>Go's comparison of strings: by bytes.\<close>

fun stringLess :: "string \<Rightarrow> string \<Rightarrow> bool" where
  "stringLess s [] = False"
| "stringLess [] (b # t) = True"
| "stringLess (a # s) (b # t) =
     ((of_char a :: nat) < of_char b \<or> a = b \<and> stringLess s t)"

lemma stringLess_irrefl: "\<not> stringLess s s"
  by (induction s) auto

lemma stringLess_trans: "stringLess a b \<Longrightarrow> stringLess b c \<Longrightarrow> stringLess a c"
proof (induction a b arbitrary: c rule: stringLess.induct)
  case (2 b t)
  then show ?case by (cases c) auto
next
  case (3 a s b t)
  then show ?case by (cases c) auto
qed simp

lemma stringLess_linear: "stringLess a b \<or> a = b \<or> stringLess b a"
proof (induction a b rule: stringLess.induct)
  case (3 a s b t)
  have "(of_char a :: nat) < of_char b \<or> a = b \<or> (of_char b :: nat) < of_char a"
    by (metis linorder_neqE_nat of_char_eq_iff)
  with 3 show ?case by auto
next
  case (1 s)
  then show ?case by (cases s) auto
qed simp

section \<open>Times in text\<close>

definition allDigits :: "string \<Rightarrow> bool" where
  "allDigits s \<longleftrightarrow> list_all isDigitChar s"

text \<open>The regular expressions \<open>dateRe\<close>, \<open>datetimeRe\<close> and \<open>timeRe\<close>; the last is not anchored at the end.\<close>

definition matchesDate :: "string \<Rightarrow> bool" where
  "matchesDate s \<longleftrightarrow> length s = 10 \<and> allDigits (take 4 s) \<and> s ! 4 = CHR ''-''
     \<and> allDigits (take 2 (drop 5 s)) \<and> s ! 7 = CHR ''-'' \<and> allDigits (drop 8 s)"

definition startsWithClock :: "string \<Rightarrow> bool" where
  "startsWithClock s \<longleftrightarrow> 8 \<le> length s \<and> allDigits (take 2 s) \<and> s ! 2 = CHR '':''
     \<and> allDigits (take 2 (drop 3 s)) \<and> s ! 5 = CHR '':'' \<and> allDigits (take 2 (drop 6 s))"

definition isDate :: "string \<Rightarrow> bool" where
  "isDate date = matchesDate date"

definition isDatetime :: "string \<Rightarrow> bool" where
  "isDatetime datetime \<longleftrightarrow> length datetime = 19 \<and> matchesDate (take 10 datetime)
     \<and> datetime ! 10 \<in> {CHR ''T'', CHR '' '', CHR 0x09, CHR 0x0A, CHR 0x0C, CHR 0x0D}
     \<and> startsWithClock (drop 11 datetime)"

definition isTime :: "string \<Rightarrow> bool" where
  "isTime time = startsWithClock time"

definition orTimeError :: "'f Runtime \<Rightarrow> string \<Rightarrow> Time option \<Rightarrow> Time go" where
  "orTimeError R value t = (case t of None \<Rightarrow> fail_with (rtTimeError R value) | Some x \<Rightarrow> ok x)"

definition datetimeDefaultFormat :: Layout where
  "datetimeDefaultFormat = layoutDateT @ [LFrac 6]"

definition datetimeAsStringFormat :: Layout where
  "datetimeAsStringFormat = layoutDateSpace @ [LFrac 6]"

definition timeFormat :: Layout where
  "timeFormat = layoutClock @ [LFrac 6]"

definition timestampFormat :: Layout where
  "timestampFormat = layoutDateSpace @ [LFrac 6, LZoneShort]"

definition parseDate :: "'f Runtime \<Rightarrow> string \<Rightarrow> Time go" where
  "parseDate R date = orTimeError R date (time_Parse (rtLocal R) layoutDate date)"

definition parseDatetime :: "'f Runtime \<Rightarrow> string \<Rightarrow> Time go" where
  "parseDatetime R datetime =
     (case time_Parse (rtLocal R) datetimeDefaultFormat datetime of
        Some t \<Rightarrow> ok t
      | None \<Rightarrow> orTimeError R datetime (time_Parse (rtLocal R) datetimeAsStringFormat datetime))"

definition parseTime :: "'f Runtime \<Rightarrow> string \<Rightarrow> Time go" where
  "parseTime R t = orTimeError R t (time_Parse (rtLocal R) timeFormat t)"

text \<open>The eleven layouts of \<open>parseTimestamp\<close>, in order.\<close>

definition timestampLayouts :: "Layout list" where
  "timestampLayouts =
     [layoutDateT @ [LFrac 9, LZoneISO], layoutDateT @ [LFrac 9, LZoneColon],
      layoutDateT @ [LFrac 9, LZoneShort], layoutDateT @ [LFrac 9, LLit '' '', LZoneName],
      layoutDateT,
      layoutDateSpace @ [LFrac 9, LZoneISO], layoutDateSpace @ [LFrac 9, LZoneColon],
      layoutDateSpace @ [LFrac 9, LZoneShort], layoutDateSpace @ [LFrac 9, LLit '' '', LZoneName],
      layoutDateSpace @ [LFrac 9], layoutDate]"

fun firstParse :: "Layout list \<Rightarrow> string \<Rightarrow> Location \<Rightarrow> Time option" where
  "firstParse [] value loc = None"
| "firstParse (l # ls) value loc =
     (case ParseInLocation l value loc of Some t \<Rightarrow> Some t | None \<Rightarrow> firstParse ls value loc)"

definition parseTimestamp :: "string \<Rightarrow> Location \<Rightarrow> Time go" where
  "parseTimestamp timestamp loc =
     (case firstParse timestampLayouts timestamp loc of
        Some t \<Rightarrow> ok t
      | None \<Rightarrow> fail_with (''failed to parse timestamp. unexpected format '' @ timestamp))"

end
