(* ===== verification/Value_Convert.thy ===== *)
theory Value_Convert
  imports Value_Types
begin

text \<open>
  The conversion methods of \<open>internal/value.go\<close>, one definition per method and type, and the dispatch
  on the type of a value. An array or struct of the results is \<open>None\<close> where the code returns a nil
  pointer without an error.
\<close>

section \<open>Time from numbers\<close>

definition DateFromInt64Value :: "'f Runtime \<Rightarrow> int \<Rightarrow> Time go" where
  "DateFromInt64Value R v = ok (Time_Add (wrap64 (wrap64 (v * 24) * Hour)) (time_Unix (rtLocal R) 0 0))"

definition TimestampFromFloatValue :: "'f Runtime \<Rightarrow> 'f \<Rightarrow> Time go" where
  "TimestampFromFloatValue R f =
     (let secs = flTrunc R f;
          micros = flTrunc R (flAdd R (flMul R (flSub R f secs) (flOfInt R 1000000)) (flOfRat R (1 / 2)))
      in ok (Time_UTC (time_Unix (rtLocal R) (flToInt R secs) (wrap64 (flToInt R micros * 1000)))))"

definition TimestampFromInt64Value :: "'f Runtime \<Rightarrow> int \<Rightarrow> Time go" where
  "TimestampFromInt64Value R v =
     (let sec = v sdiv Millisecond; msec = wrap64 (v - sec * Millisecond)
      in ok (Time_UTC (time_Unix (rtLocal R) sec (wrap64 (msec * Millisecond)))))"

text \<open>The order of the tests is the code's; a timestamp is tried last.\<close>

definition isTimestamp :: "'f Runtime \<Rightarrow> string \<Rightarrow> bool" where
  "isTimestamp R timestamp =
     (case rtLoadLocation R [] of
        Inl _ \<Rightarrow> False
      | Inr loc \<Rightarrow> is_ok (parseTimestamp timestamp loc))"

definition timeOfText :: "'f Runtime \<Rightarrow> string \<Rightarrow> string \<Rightarrow> Time go" where
  "timeOfText R failure raw =
     (if isDate raw then parseDate R raw
      else if isDatetime raw then parseDatetime R raw
      else if isTime raw then parseTime R raw
      else if isTimestamp R raw then parseTimestamp raw UTC
      else fail_with failure)"

section \<open>Integers\<close>

definition IntValue_ToInt64 :: "int \<Rightarrow> int go" where
  "IntValue_ToInt64 iv = ok iv"

definition IntValue_ToString :: "int \<Rightarrow> string go" where
  "IntValue_ToString iv = ok (sprintInt iv)"

definition IntValue_ToApiString :: "int \<Rightarrow> string go" where
  "IntValue_ToApiString iv = IntValue_ToString iv"

definition IntValue_ToBytes :: "int \<Rightarrow> string go" where
  "IntValue_ToBytes iv = ok (sprintInt iv)"

definition IntValue_ToFloat64 :: "'f Runtime \<Rightarrow> int \<Rightarrow> 'f go" where
  "IntValue_ToFloat64 R iv = ok (flOfInt R iv)"

definition IntValue_ToBool :: "int \<Rightarrow> bool go" where
  "IntValue_ToBool iv = (if iv = 0 then ok False else if iv = 1 then ok True
      else fail_with (''failed to convert '' @ sprintInt iv @ '' to bool type''))"

definition IntValue_ToArray :: "int \<Rightarrow> 'f array option go" where
  "IntValue_ToArray iv = fail_with (''failed to convert '' @ sprintInt iv @ '' to array type'')"

definition IntValue_ToStruct :: "int \<Rightarrow> 'f struct option go" where
  "IntValue_ToStruct iv = fail_with (''failed to convert '' @ sprintInt iv @ '' to struct type'')"

definition IntValue_ToJSON :: "int \<Rightarrow> string go" where
  "IntValue_ToJSON iv = ok (sprintInt iv)"

definition IntValue_ToTime :: "'f Runtime \<Rightarrow> int \<Rightarrow> Time go" where
  "IntValue_ToTime R iv = (if iv > wrap64 (Time_Unix (time_Unix (rtLocal R) 0 0) * Millisecond)
      then TimestampFromInt64Value R iv else DateFromInt64Value R iv)"

definition IntValue_ToRat :: "int \<Rightarrow> rat option go" where
  "IntValue_ToRat iv = ok (Some (of_int iv))"

definition IntValue_Format :: "char \<Rightarrow> int \<Rightarrow> string" where
  "IntValue_Format verb iv = sprintInt iv"

definition IntValue_Interface :: "int \<Rightarrow> 'f GoAny" where
  "IntValue_Interface iv = AnyInt iv"

section \<open>Strings\<close>

definition StringValue_ToInt64 :: "'f Runtime \<Rightarrow> string \<Rightarrow> int go" where
  "StringValue_ToInt64 R sv = (if sv = [] then ok 0
      else ParseInt (rtQuote R) sv (if containsStr (toLower sv) ''0x'' then 0 else 10))"

definition StringValue_ToString :: "string \<Rightarrow> string go" where
  "StringValue_ToString sv = ok sv"

definition StringValue_ToApiString :: "string \<Rightarrow> string go" where
  "StringValue_ToApiString sv = StringValue_ToString sv"

definition StringValue_ToBytes :: "string \<Rightarrow> string go" where
  "StringValue_ToBytes sv = ok sv"

definition StringValue_ToFloat64 :: "'f Runtime \<Rightarrow> string \<Rightarrow> 'f go" where
  "StringValue_ToFloat64 R sv = (if sv = [] then ok (flOfInt R 0) else flParse R sv)"

definition StringValue_ToBool :: "'f Runtime \<Rightarrow> string \<Rightarrow> bool go" where
  "StringValue_ToBool R sv = (if sv = [] then ok False else ParseBool (rtQuote R) sv)"

definition StringValue_ToArray :: "string \<Rightarrow> 'f array option go" where
  "StringValue_ToArray sv = (if sv = [] then ok None else fail_with (''failed to convert array from string: '' @ sv))"

definition StringValue_ToStruct :: "string \<Rightarrow> 'f struct option go" where
  "StringValue_ToStruct sv = (if sv = [] then ok None else fail_with (''failed to convert struct from string: '' @ sv))"

definition StringValue_ToJSON :: "'f Runtime \<Rightarrow> string \<Rightarrow> string go" where
  "StringValue_ToJSON R sv = ok (rtQuote R sv)"

definition StringValue_ToTime :: "'f Runtime \<Rightarrow> string \<Rightarrow> Time go" where
  "StringValue_ToTime R sv = timeOfText R (''failed to convert '' @ sv @ '' to time.Time type'') sv"

definition StringValue_ToRat :: "'f Runtime \<Rightarrow> string \<Rightarrow> rat option go" where
  "StringValue_ToRat R sv = ok (Some (rtRatOfString R sv))"

definition StringValue_Format :: "'f Runtime \<Rightarrow> char \<Rightarrow> string \<Rightarrow> string" where
  "StringValue_Format R verb sv = (if verb = CHR ''T'' then rtQuote R sv else sv)"

definition StringValue_Interface :: "string \<Rightarrow> 'f GoAny" where
  "StringValue_Interface sv = AnyString sv"

section \<open>Bytes\<close>

text \<open>The standard base 64 encoding, with padding.\<close>

definition base64Char :: "nat \<Rightarrow> char" where
  "base64Char n = ''ABCDEFGHIJKLMNOPQRSTUVWXYZabcdefghijklmnopqrstuvwxyz0123456789+/'' ! n"

fun base64Encode :: "string \<Rightarrow> string" where
  "base64Encode [] = []"
| "base64Encode [a] =
     (let n = (of_char a :: nat) * 16
      in [base64Char (n div 64), base64Char (n mod 64), CHR ''='', CHR ''=''])"
| "base64Encode [a, b] =
     (let n = ((of_char a :: nat) * 256 + of_char b) * 4
      in [base64Char (n div 4096), base64Char (n div 64 mod 64), base64Char (n mod 64), CHR ''=''])"
| "base64Encode (a # b # c # s) =
     (let n = ((of_char a :: nat) * 256 + of_char b) * 256 + of_char c
      in [base64Char (n div 262144), base64Char (n div 4096 mod 64), base64Char (n div 64 mod 64),
          base64Char (n mod 64)] @ base64Encode s)"

definition hexChar :: "nat \<Rightarrow> char" where
  "hexChar n = ''0123456789abcdef'' ! n"

definition printableChar :: "char \<Rightarrow> bool" where
  "printableChar v \<longleftrightarrow> 32 \<le> (of_char v :: nat) \<and> (of_char v :: nat) \<le> 126"

definition bytesText :: "string \<Rightarrow> string" where
  "bytesText bv = concat (map (\<lambda>b. if printableChar b then [b]
     else CHR 0x5C # CHR ''x'' # [hexChar (of_char b div 16), hexChar (of_char b mod 16)]) bv)"

definition BytesValue_ToInt64 :: "'f Runtime \<Rightarrow> string \<Rightarrow> int go" where
  "BytesValue_ToInt64 R bv = (if bv = [] then ok 0 else ParseInt (rtQuote R) bv 10)"

definition BytesValue_ToString :: "string \<Rightarrow> string go" where
  "BytesValue_ToString bv = ok bv"

definition BytesValue_ToApiString :: "string \<Rightarrow> string go" where
  "BytesValue_ToApiString bv = ok (base64Encode bv)"

definition BytesValue_ToBytes :: "string \<Rightarrow> string go" where
  "BytesValue_ToBytes bv = ok bv"

definition BytesValue_ToFloat64 :: "'f Runtime \<Rightarrow> string \<Rightarrow> 'f go" where
  "BytesValue_ToFloat64 R bv = (if bv = [] then ok (flOfInt R 0) else flParse R bv)"

definition BytesValue_ToBool :: "'f Runtime \<Rightarrow> string \<Rightarrow> bool go" where
  "BytesValue_ToBool R bv = (if bv = [] then ok False else ParseBool (rtQuote R) bv)"

definition BytesValue_ToArray :: "'f Runtime \<Rightarrow> string \<Rightarrow> 'f array option go" where
  "BytesValue_ToArray R bv = fail_with (''failed to convert array from bytes: '' @ rtShow R (Some (BytesValue bv)))"

definition BytesValue_ToStruct :: "'f Runtime \<Rightarrow> string \<Rightarrow> 'f struct option go" where
  "BytesValue_ToStruct R bv = fail_with (''failed to convert struct from bytes: '' @ rtShow R (Some (BytesValue bv)))"

definition BytesValue_ToJSON :: "'f Runtime \<Rightarrow> string \<Rightarrow> string go" where
  "BytesValue_ToJSON R bv = go_bind (BytesValue_ToString bv) (\<lambda>v. ok (rtQuote R v))"

definition BytesValue_ToTime :: "'f Runtime \<Rightarrow> string \<Rightarrow> Time go" where
  "BytesValue_ToTime R bv = timeOfText R (''failed to convert time.Time from bytes: '' @ bv) bv"

definition BytesValue_ToRat :: "'f Runtime \<Rightarrow> string \<Rightarrow> rat option go" where
  "BytesValue_ToRat R bv = ok (Some (rtRatOfString R bv))"

definition BytesValue_Format :: "char \<Rightarrow> string \<Rightarrow> string" where
  "BytesValue_Format verb bv = (if verb = CHR ''t'' then bytesText bv
      else if verb = CHR ''T'' then ''b'' @ [CHR 0x22] @ bytesText bv @ [CHR 0x22]
      else bv)"

definition BytesValue_Interface :: "string \<Rightarrow> 'f GoAny" where
  "BytesValue_Interface bv = AnyBytes bv"

section \<open>Floating point numbers\<close>

definition FloatValue_ToInt64 :: "'f Runtime \<Rightarrow> 'f \<Rightarrow> int go" where
  "FloatValue_ToInt64 R fv = ok (flToInt R fv)"

definition FloatValue_ToString :: "'f Runtime \<Rightarrow> 'f \<Rightarrow> string go" where
  "FloatValue_ToString R fv = ok (flShow R fv)"

definition FloatValue_ToApiString :: "'f Runtime \<Rightarrow> 'f \<Rightarrow> string go" where
  "FloatValue_ToApiString R fv = FloatValue_ToString R fv"

definition FloatValue_ToBytes :: "'f Runtime \<Rightarrow> 'f \<Rightarrow> string go" where
  "FloatValue_ToBytes R fv = ok (flShow R fv)"

definition FloatValue_ToFloat64 :: "'f \<Rightarrow> 'f go" where
  "FloatValue_ToFloat64 fv = ok fv"

definition FloatValue_ToBool :: "'f Runtime \<Rightarrow> 'f \<Rightarrow> bool go" where
  "FloatValue_ToBool R fv = (if flShow R fv = ''1'' then ok True else if flShow R fv = ''0'' then ok False
      else fail_with (''failed to convert '' @ flFixed R fv @ '' to bool type''))"

definition FloatValue_ToArray :: "'f Runtime \<Rightarrow> 'f \<Rightarrow> 'f array option go" where
  "FloatValue_ToArray R fv = fail_with (''failed to convert array from float64: '' @ flShow R fv)"

definition FloatValue_ToStruct :: "'f Runtime \<Rightarrow> 'f \<Rightarrow> 'f struct option go" where
  "FloatValue_ToStruct R fv = fail_with (''failed to convert struct from float64: '' @ flShow R fv)"

definition FloatValue_ToJSON :: "'f Runtime \<Rightarrow> 'f \<Rightarrow> string go" where
  "FloatValue_ToJSON R fv = ok (flShow R fv)"

definition FloatValue_ToTime :: "'f Runtime \<Rightarrow> 'f \<Rightarrow> Time go" where
  "FloatValue_ToTime R fv = TimestampFromFloatValue R fv"

text \<open>\<open>SetFloat64\<close> leaves the zero it was called on when the number is not finite.\<close>

definition FloatValue_ToRat :: "'f Runtime \<Rightarrow> 'f \<Rightarrow> rat option go" where
  "FloatValue_ToRat R fv = ok (Some (case flToRat R fv of None \<Rightarrow> 0 | Some r \<Rightarrow> r))"

definition FloatValue_Format :: "'f Runtime \<Rightarrow> char \<Rightarrow> 'f \<Rightarrow> string" where
  "FloatValue_Format R verb fv = flShow R fv"

definition FloatValue_Interface :: "'f \<Rightarrow> 'f GoAny" where
  "FloatValue_Interface fv = AnyFloat fv"

section \<open>Numeric values\<close>

text \<open>The integer reading takes the low 64 bits of the numerator, whatever the denominator is.\<close>

definition NumericValue_ToInt64 :: "rat option \<Rightarrow> int go" where
  "NumericValue_ToInt64 rat = onNil rat (\<lambda>r. ok (wrap64 (fst (quotient_of r))))"

definition NumericValue_toString :: "rat option \<Rightarrow> bool \<Rightarrow> string go" where
  "NumericValue_toString rat isBig = onNil rat (\<lambda>r. ok (trimRightChar CHR ''.'' (trimZeros (ratFloatString (if isBig then 38 else 9) r))))"

definition NumericValue_ToString :: "rat option \<Rightarrow> bool \<Rightarrow> string go" where
  "NumericValue_ToString rat isBig = NumericValue_toString rat isBig"

definition NumericValue_ToApiString :: "rat option \<Rightarrow> bool \<Rightarrow> string go" where
  "NumericValue_ToApiString rat isBig = NumericValue_toString rat isBig"

definition NumericValue_ToBytes :: "rat option \<Rightarrow> bool \<Rightarrow> string go" where
  "NumericValue_ToBytes rat isBig = NumericValue_toString rat isBig"

definition NumericValue_ToFloat64 :: "'f Runtime \<Rightarrow> rat option \<Rightarrow> 'f go" where
  "NumericValue_ToFloat64 R rat = onNil rat (\<lambda>r. ok (flOfRat R r))"

definition NumericValue_ToBool :: "rat option \<Rightarrow> bool go" where
  "NumericValue_ToBool rat = onNil rat (\<lambda>r. let v = wrap64 (fst (quotient_of r)) in
       if v = 1 then ok True else if v = 0 then ok False
       else fail_with ''failed to convert numeric value to bool type'')"

definition NumericValue_ToArray :: "rat option \<Rightarrow> 'f array option go" where
  "NumericValue_ToArray rat = fail_with ''failed to convert array from numeric value''"

definition NumericValue_ToStruct :: "rat option \<Rightarrow> 'f struct option go" where
  "NumericValue_ToStruct rat = fail_with ''failed to convert struct from numeric value''"

definition NumericValue_ToJSON :: "rat option \<Rightarrow> bool \<Rightarrow> string go" where
  "NumericValue_ToJSON rat isBig = NumericValue_toString rat isBig"

definition NumericValue_ToTime :: "rat option \<Rightarrow> Time go" where
  "NumericValue_ToTime rat = fail_with ''failed to convert time.Time from numeric value''"

definition NumericValue_ToRat :: "rat option \<Rightarrow> rat option go" where
  "NumericValue_ToRat rat = ok rat"

definition NumericValue_Format :: "char \<Rightarrow> rat option \<Rightarrow> bool \<Rightarrow> string go" where
  "NumericValue_Format verb rat isBig = NumericValue_toString rat isBig"

definition NumericValue_Interface :: "rat option \<Rightarrow> 'f GoAny go" where
  "NumericValue_Interface rat = onNil rat (\<lambda>r. ok (AnyString (ratString r)))"

section \<open>Booleans\<close>

definition BoolValue_ToInt64 :: "bool \<Rightarrow> int go" where
  "BoolValue_ToInt64 bv = ok (if bv then 1 else 0)"

definition BoolValue_ToString :: "bool \<Rightarrow> string go" where
  "BoolValue_ToString bv = ok (sprintBool bv)"

definition BoolValue_ToApiString :: "bool \<Rightarrow> string go" where
  "BoolValue_ToApiString bv = BoolValue_ToString bv"

definition BoolValue_ToBytes :: "bool \<Rightarrow> string go" where
  "BoolValue_ToBytes bv = ok (sprintBool bv)"

definition BoolValue_ToFloat64 :: "'f Runtime \<Rightarrow> bool \<Rightarrow> 'f go" where
  "BoolValue_ToFloat64 R bv = ok (flOfInt R (if bv then 1 else 0))"

definition BoolValue_ToBool :: "bool \<Rightarrow> bool go" where
  "BoolValue_ToBool bv = ok bv"

definition BoolValue_ToArray :: "bool \<Rightarrow> 'f array option go" where
  "BoolValue_ToArray bv = fail_with (''failed to convert bool from array: '' @ sprintBool bv)"

definition BoolValue_ToStruct :: "bool \<Rightarrow> 'f struct option go" where
  "BoolValue_ToStruct bv = fail_with (''failed to convert bool from struct: '' @ sprintBool bv)"

definition BoolValue_ToJSON :: "bool \<Rightarrow> string go" where
  "BoolValue_ToJSON bv = ok (sprintBool bv)"

definition BoolValue_ToTime :: "bool \<Rightarrow> Time go" where
  "BoolValue_ToTime bv = fail_with (''failed to convert bool from time.Time: '' @ sprintBool bv)"

definition BoolValue_ToRat :: "bool \<Rightarrow> rat option go" where
  "BoolValue_ToRat bv = ok (Some (if bv then 1 else 0))"

definition BoolValue_Format :: "char \<Rightarrow> bool \<Rightarrow> string" where
  "BoolValue_Format verb bv = sprintBool bv"

definition BoolValue_Interface :: "bool \<Rightarrow> 'f GoAny" where
  "BoolValue_Interface bv = AnyBool bv"

section \<open>JSON\<close>

definition JsonValue_ToInt64 :: "'f Runtime \<Rightarrow> string \<Rightarrow> int go" where
  "JsonValue_ToInt64 R jv = ParseInt (rtQuote R) jv 0"

definition JsonValue_ToString :: "string \<Rightarrow> string go" where
  "JsonValue_ToString jv = ok jv"

definition JsonValue_ToApiString :: "string \<Rightarrow> string go" where
  "JsonValue_ToApiString jv = JsonValue_ToString jv"

definition JsonValue_ToBytes :: "string \<Rightarrow> string go" where
  "JsonValue_ToBytes jv = ok jv"

definition JsonValue_ToFloat64 :: "'f Runtime \<Rightarrow> string \<Rightarrow> 'f go" where
  "JsonValue_ToFloat64 R jv = flParse R jv"

definition JsonValue_ToBool :: "'f Runtime \<Rightarrow> string \<Rightarrow> bool go" where
  "JsonValue_ToBool R jv = ParseBool (rtQuote R) jv"

definition JsonValue_ToArray :: "string \<Rightarrow> 'f array option go" where
  "JsonValue_ToArray jv = fail_with (''failed to convert json from array: '' @ jv)"

definition JsonValue_ToStruct :: "string \<Rightarrow> 'f struct option go" where
  "JsonValue_ToStruct jv = fail_with (''failed to convert json from struct: '' @ jv)"

definition JsonValue_ToJSON :: "string \<Rightarrow> string go" where
  "JsonValue_ToJSON jv = ok jv"

definition JsonValue_ToTime :: "string \<Rightarrow> Time go" where
  "JsonValue_ToTime jv = fail_with (''failed to convert json from time.Time: '' @ jv)"

definition JsonValue_ToRat :: "'f Runtime \<Rightarrow> string \<Rightarrow> rat option go" where
  "JsonValue_ToRat R jv = go_bind (ParseInt (rtQuote R) jv 0) (\<lambda>i64. ok (Some (of_int i64)))"

definition JsonValue_Format :: "char \<Rightarrow> string \<Rightarrow> string" where
  "JsonValue_Format verb jv = jv"

definition JsonValue_Interface :: "'f Runtime \<Rightarrow> string \<Rightarrow> 'f GoAny" where
  "JsonValue_Interface R jv = (case rtJsonUnmarshal R jv of None \<Rightarrow> AnyNil | Some v \<Rightarrow> v)"

text \<open>The JSON kind of a decoded value; a nil interface has no type to ask for.\<close>

definition reflectTypeToJsonType :: "'f GoAny \<Rightarrow> string go" where
  "reflectTypeToJsonType v =
     (case v of
        AnyInt _ \<Rightarrow> ok ''number'' | AnyFloat _ \<Rightarrow> ok ''number'' | AnyString _ \<Rightarrow> ok ''string''
      | AnyBool _ \<Rightarrow> ok ''boolean'' | AnySlice _ \<Rightarrow> ok ''array'' | AnyBytes _ \<Rightarrow> ok ''array''
      | AnyFields _ \<Rightarrow> ok ''array'' | AnyMap _ \<Rightarrow> ok ''object''
      | AnyNil \<Rightarrow> panic ''reflect: call of reflect.Value.Type on zero Value'')"

definition JsonValue_Type :: "'f Runtime \<Rightarrow> string \<Rightarrow> string go" where
  "JsonValue_Type R jv =
     (if jv = ''null'' then ok ''null'' else reflectTypeToJsonType (JsonValue_Interface R jv))"

section \<open>Arrays\<close>

definition ArrayValue_ToInt64 :: "'f Runtime \<Rightarrow> 'f array \<Rightarrow> int go" where
  "ArrayValue_ToInt64 R av = fail_with (''failed to convert int64 from array '' @ rtShow R (Some (ArrayValue av)))"

text \<open>The elements come as the results of their \<open>ToJSON\<close>; a NULL has none.\<close>

definition ArrayValue_ToString :: "string go option list \<Rightarrow> string go" where
  "ArrayValue_ToString elems = go_bind (goList (map (\<lambda>e. case e of None \<Rightarrow> ok ''null'' | Some r \<Rightarrow> r) elems))
       (\<lambda>es. ok (''['' @ joinStrings '','' es @ '']''))"

definition ArrayValue_ToApiString :: "'f Runtime \<Rightarrow> 'f array \<Rightarrow> string go" where
  "ArrayValue_ToApiString R av = fail_with (''arrays do not have string-based API representations '' @ rtShow R (Some (ArrayValue av)))"

definition ArrayValue_ToBytes :: "string go option list \<Rightarrow> string go" where
  "ArrayValue_ToBytes elems = ArrayValue_ToString elems"

definition ArrayValue_ToFloat64 :: "'f Runtime \<Rightarrow> 'f array \<Rightarrow> 'f go" where
  "ArrayValue_ToFloat64 R av = fail_with (''failed to convert float64 from array '' @ rtShow R (Some (ArrayValue av)))"

definition ArrayValue_ToBool :: "'f Runtime \<Rightarrow> 'f array \<Rightarrow> bool go" where
  "ArrayValue_ToBool R av = fail_with (''failed to convert bool from array '' @ rtShow R (Some (ArrayValue av)))"

definition ArrayValue_ToArray :: "'f array \<Rightarrow> 'f array option go" where
  "ArrayValue_ToArray av = ok (Some av)"

text \<open>The elements come as the results of their \<open>ToStruct\<close>; a NULL and a nil struct are dereferenced.\<close>

definition ArrayValue_ToStruct :: "'f Runtime \<Rightarrow> 'f array \<Rightarrow> 'f struct option go option list \<Rightarrow> 'f struct option go" where
  "ArrayValue_ToStruct R av elems =
     go_bind (goList (map (\<lambda>e. onNil e (\<lambda>r.
         go_bind (replaceError (''cannot convert an array of non-struct elements into struct: ''
           @ rtShow R (Some (ArrayValue av))) r) (\<lambda>st. onNil st (\<lambda>st.
           if length (fst (snd st)) < length (fst st) then panic ''index out of range'' else ok st)))) elems)) (\<lambda>sts.
     let keys = concat (map fst sts); vals = concat (map (\<lambda>st. take (length (fst st)) (fst (snd st))) sts)
     in ok (Some (keys, vals, mapOfFields (zip keys vals))))"

definition ArrayValue_ToJSON :: "string go option list \<Rightarrow> string go" where
  "ArrayValue_ToJSON elems = ArrayValue_ToString elems"

definition ArrayValue_ToTime :: "'f Runtime \<Rightarrow> 'f array \<Rightarrow> Time go" where
  "ArrayValue_ToTime R av = fail_with (''failed to convert time.Time from array '' @ rtShow R (Some (ArrayValue av)))"

definition ArrayValue_ToRat :: "'f Runtime \<Rightarrow> 'f array \<Rightarrow> rat option go" where
  "ArrayValue_ToRat R av = fail_with (''failed to convert *big.Rat from array '' @ rtShow R (Some (ArrayValue av)))"

definition ArrayValue_Format :: "string go option list \<Rightarrow> string go" where
  "ArrayValue_Format elems = go_bind (goList (map (\<lambda>e. case e of None \<Rightarrow> ok ''NULL'' | Some r \<Rightarrow> r) elems))
       (\<lambda>es. ok (''['' @ joinStrings '', '' es @ '']''))"

definition ArrayValue_Interface :: "'f GoAny go option list \<Rightarrow> 'f GoAny go" where
  "ArrayValue_Interface elems = go_bind (goList (map (\<lambda>e. case e of None \<Rightarrow> ok AnyNil | Some r \<Rightarrow> r) elems)) (\<lambda>es. ok (AnySlice es))"

section \<open>Structs\<close>

definition StructValue_ToInt64 :: "'f Runtime \<Rightarrow> string list \<Rightarrow> 'f array \<Rightarrow> (string \<times> 'f Value option) list \<Rightarrow> int go" where
  "StructValue_ToInt64 R keys vals m = fail_with (''failed to convert int64 from struct '' @ rtShow R (Some (StructValue keys vals m)))"

text \<open>One text per key; a missing value is an index out of range.\<close>

definition fieldTexts :: "'f Runtime \<Rightarrow> string list \<Rightarrow> string go option list \<Rightarrow> string go list" where
  "fieldTexts R keys elems =
     map (\<lambda>i. if length elems \<le> i then panic ''index out of range''
              else go_bind (case elems ! i of None \<Rightarrow> ok ''null'' | Some r \<Rightarrow> r)
                (\<lambda>v. ok (rtQuote R (keys ! i) @ '':'' @ v))) [0..<length keys]"

definition StructValue_ToString :: "'f Runtime \<Rightarrow> string list \<Rightarrow> string go option list \<Rightarrow> string go" where
  "StructValue_ToString R keys elems = go_bind (goList (fieldTexts R keys elems)) (\<lambda>es. ok (''{'' @ joinStrings '','' es @ ''}''))"

definition StructValue_ToApiString :: "string list \<Rightarrow> string go" where
  "StructValue_ToApiString keys = fail_with ''Structs do not have string-based API representations ''"

definition StructValue_ToBytes :: "'f Runtime \<Rightarrow> string list \<Rightarrow> string go option list \<Rightarrow> string go" where
  "StructValue_ToBytes R keys elems = StructValue_ToString R keys elems"

definition StructValue_ToFloat64 :: "'f Runtime \<Rightarrow> string list \<Rightarrow> 'f array \<Rightarrow> (string \<times> 'f Value option) list \<Rightarrow> 'f go" where
  "StructValue_ToFloat64 R keys vals m = fail_with (''failed to convert float64 from struct '' @ rtShow R (Some (StructValue keys vals m)))"

definition StructValue_ToBool :: "'f Runtime \<Rightarrow> string list \<Rightarrow> 'f array \<Rightarrow> (string \<times> 'f Value option) list \<Rightarrow> bool go" where
  "StructValue_ToBool R keys vals m = fail_with (''failed to convert bool from struct '' @ rtShow R (Some (StructValue keys vals m)))"

definition StructValue_ToArray :: "'f Runtime \<Rightarrow> string list \<Rightarrow> 'f array \<Rightarrow> (string \<times> 'f Value option) list \<Rightarrow> 'f array option go" where
  "StructValue_ToArray R keys vals m = fail_with (''failed to convert array from struct '' @ rtShow R (Some (StructValue keys vals m)))"

definition StructValue_ToStruct :: "string list \<Rightarrow> 'f array \<Rightarrow> (string \<times> 'f Value option) list \<Rightarrow> 'f struct option go" where
  "StructValue_ToStruct keys vals m = ok (Some (keys, vals, m))"

definition StructValue_ToJSON :: "'f Runtime \<Rightarrow> string list \<Rightarrow> string go option list \<Rightarrow> string go" where
  "StructValue_ToJSON R keys elems = StructValue_ToString R keys elems"

definition StructValue_ToTime :: "'f Runtime \<Rightarrow> string list \<Rightarrow> 'f array \<Rightarrow> (string \<times> 'f Value option) list \<Rightarrow> Time go" where
  "StructValue_ToTime R keys vals m = fail_with (''failed to convert time.Time from struct '' @ rtShow R (Some (StructValue keys vals m)))"

definition StructValue_ToRat :: "'f Runtime \<Rightarrow> string list \<Rightarrow> 'f array \<Rightarrow> (string \<times> 'f Value option) list \<Rightarrow> rat option go" where
  "StructValue_ToRat R keys vals m = fail_with (''failed to convert *big.Rat from struct '' @ rtShow R (Some (StructValue keys vals m)))"

definition StructValue_Format :: "string go option list \<Rightarrow> string go" where
  "StructValue_Format elems = go_bind (goList (map (\<lambda>e. case e of None \<Rightarrow> ok ''NULL'' | Some r \<Rightarrow> r) elems))
       (\<lambda>es. ok (''('' @ joinStrings '', '' es @ '')''))"

definition StructValue_Interface :: "string list \<Rightarrow> 'f GoAny go option list \<Rightarrow> 'f GoAny go" where
  "StructValue_Interface keys elems = go_bind (goList (map (\<lambda>i. if length elems \<le> i then panic ''index out of range''
         else go_bind (case elems ! i of None \<Rightarrow> ok AnyNil | Some r \<Rightarrow> r) (\<lambda>v. ok (AnyFields [(keys ! i, v)])))
       [0..<length keys])) (\<lambda>es. ok (AnySlice es))"

section \<open>Dates\<close>

definition DateValue_ToInt64 :: "Time \<Rightarrow> int go" where
  "DateValue_ToInt64 t = ok (Time_Unix t)"

definition DateValue_ToString :: "Time \<Rightarrow> string go" where
  "DateValue_ToString t = ok (Time_Format t layoutDate)"

definition DateValue_ToApiString :: "Time \<Rightarrow> string go" where
  "DateValue_ToApiString t = DateValue_ToString t"

definition DateValue_ToBytes :: "Time \<Rightarrow> string go" where
  "DateValue_ToBytes t = DateValue_ToString t"

definition DateValue_ToFloat64 :: "'f Runtime \<Rightarrow> Time \<Rightarrow> 'f go" where
  "DateValue_ToFloat64 R t = ok (flOfInt R (Time_Unix t))"

definition DateValue_ToBool :: "'f Runtime \<Rightarrow> Time \<Rightarrow> bool go" where
  "DateValue_ToBool R t = fail_with (''failed to convert '' @ rtShow R (Some (DateValue t)) @ '' to bool type'')"

definition DateValue_ToArray :: "'f Runtime \<Rightarrow> Time \<Rightarrow> 'f array option go" where
  "DateValue_ToArray R t = fail_with (''failed to convert '' @ rtShow R (Some (DateValue t)) @ '' to array type'')"

definition DateValue_ToStruct :: "'f Runtime \<Rightarrow> Time \<Rightarrow> 'f struct option go" where
  "DateValue_ToStruct R t = fail_with (''failed to convert '' @ rtShow R (Some (DateValue t)) @ '' to struct type'')"

definition DateValue_ToJSON :: "'f Runtime \<Rightarrow> Time \<Rightarrow> string go" where
  "DateValue_ToJSON R t = go_bind (DateValue_ToString t) (\<lambda>val. ok (rtQuote R val))"

definition DateValue_ToTime :: "Time \<Rightarrow> Time go" where
  "DateValue_ToTime t = ok t"

definition DateValue_ToRat :: "'f Runtime \<Rightarrow> Time \<Rightarrow> rat option go" where
  "DateValue_ToRat R t = fail_with (''failed to convert *big.Rat from date '' @ rtShow R (Some (DateValue t)))"

definition DateValue_Format :: "char \<Rightarrow> Time \<Rightarrow> string" where
  "DateValue_Format verb t = (let formatted = Time_Format t layoutDate in
      if verb = CHR ''T'' then ''DATE '' @ [CHR 0x22] @ formatted @ [CHR 0x22] else formatted)"

definition DateValue_Interface :: "Time \<Rightarrow> 'f GoAny" where
  "DateValue_Interface t = AnyString (Time_Format t layoutDate)"

section \<open>Datetimes\<close>

definition DatetimeValue_ToInt64 :: "Time \<Rightarrow> int go" where
  "DatetimeValue_ToInt64 t = ok (Time_Unix t)"

definition DatetimeValue_ToString :: "Time \<Rightarrow> string go" where
  "DatetimeValue_ToString t = ok (Time_Format t datetimeAsStringFormat)"

definition DatetimeValue_ToApiString :: "Time \<Rightarrow> string go" where
  "DatetimeValue_ToApiString t = ok (Time_Format t datetimeDefaultFormat)"

definition DatetimeValue_ToBytes :: "Time \<Rightarrow> string go" where
  "DatetimeValue_ToBytes t = DatetimeValue_ToString t"

definition DatetimeValue_ToFloat64 :: "'f Runtime \<Rightarrow> Time \<Rightarrow> 'f go" where
  "DatetimeValue_ToFloat64 R t = ok (flOfInt R (Time_Unix t))"

definition DatetimeValue_ToBool :: "'f Runtime \<Rightarrow> Time \<Rightarrow> bool go" where
  "DatetimeValue_ToBool R t = fail_with (''failed to convert '' @ rtShow R (Some (DatetimeValue t)) @ '' to bool type'')"

definition DatetimeValue_ToArray :: "'f Runtime \<Rightarrow> Time \<Rightarrow> 'f array option go" where
  "DatetimeValue_ToArray R t = fail_with (''failed to convert '' @ rtShow R (Some (DatetimeValue t)) @ '' to array type'')"

definition DatetimeValue_ToStruct :: "'f Runtime \<Rightarrow> Time \<Rightarrow> 'f struct option go" where
  "DatetimeValue_ToStruct R t = fail_with (''failed to convert '' @ rtShow R (Some (DatetimeValue t)) @ '' to struct type'')"

definition DatetimeValue_ToJSON :: "'f Runtime \<Rightarrow> Time \<Rightarrow> string go" where
  "DatetimeValue_ToJSON R t = ok (rtQuote R (Time_Format t datetimeDefaultFormat))"

definition DatetimeValue_ToTime :: "Time \<Rightarrow> Time go" where
  "DatetimeValue_ToTime t = ok t"

definition DatetimeValue_ToRat :: "'f Runtime \<Rightarrow> Time \<Rightarrow> rat option go" where
  "DatetimeValue_ToRat R t = fail_with (''failed to convert *big.Rat from datetime '' @ rtShow R (Some (DatetimeValue t)))"

definition DatetimeValue_Format :: "char \<Rightarrow> Time \<Rightarrow> string" where
  "DatetimeValue_Format verb t = (let formatted = Time_Format t datetimeDefaultFormat in
      if verb = CHR ''T'' then ''DATETIME '' @ [CHR 0x22] @ formatted @ [CHR 0x22] else formatted)"

definition DatetimeValue_Interface :: "Time \<Rightarrow> 'f GoAny" where
  "DatetimeValue_Interface t = AnyString (Time_Format t datetimeDefaultFormat)"

section \<open>Times of day\<close>

definition TimeValue_ToInt64 :: "Time \<Rightarrow> int go" where
  "TimeValue_ToInt64 t = ok (Time_Unix t)"

definition TimeValue_ToString :: "Time \<Rightarrow> string go" where
  "TimeValue_ToString t = ok (Time_Format t timeFormat)"

definition TimeValue_ToApiString :: "Time \<Rightarrow> string go" where
  "TimeValue_ToApiString t = TimeValue_ToString t"

definition TimeValue_ToBytes :: "Time \<Rightarrow> string go" where
  "TimeValue_ToBytes t = TimeValue_ToString t"

definition TimeValue_ToFloat64 :: "'f Runtime \<Rightarrow> Time \<Rightarrow> 'f go" where
  "TimeValue_ToFloat64 R t = ok (flOfInt R (Time_Unix t))"

definition TimeValue_ToBool :: "'f Runtime \<Rightarrow> Time \<Rightarrow> bool go" where
  "TimeValue_ToBool R t = fail_with (''failed to convert '' @ rtShow R (Some (TimeValue t)) @ '' to bool type'')"

definition TimeValue_ToArray :: "'f Runtime \<Rightarrow> Time \<Rightarrow> 'f array option go" where
  "TimeValue_ToArray R t = fail_with (''failed to convert '' @ rtShow R (Some (TimeValue t)) @ '' to array type'')"

definition TimeValue_ToStruct :: "'f Runtime \<Rightarrow> Time \<Rightarrow> 'f struct option go" where
  "TimeValue_ToStruct R t = fail_with (''failed to convert '' @ rtShow R (Some (TimeValue t)) @ '' to struct type'')"

definition TimeValue_ToJSON :: "'f Runtime \<Rightarrow> Time \<Rightarrow> string go" where
  "TimeValue_ToJSON R t = go_bind (TimeValue_ToString t) (\<lambda>val. ok (rtQuote R val))"

definition TimeValue_ToTime :: "Time \<Rightarrow> Time go" where
  "TimeValue_ToTime t = ok t"

definition TimeValue_ToRat :: "'f Runtime \<Rightarrow> Time \<Rightarrow> rat option go" where
  "TimeValue_ToRat R t = fail_with (''failed to convert *big.Rat from time '' @ rtShow R (Some (TimeValue t)))"

definition TimeValue_Format :: "char \<Rightarrow> Time \<Rightarrow> string" where
  "TimeValue_Format verb t = (let formatted = Time_Format t timeFormat in
      if verb = CHR ''T'' then ''TIME '' @ [CHR 0x22] @ formatted @ [CHR 0x22] else formatted)"

definition TimeValue_Interface :: "Time \<Rightarrow> 'f GoAny" where
  "TimeValue_Interface t = AnyString (Time_Format t timeFormat)"

section \<open>Timestamps\<close>

definition TimestampValue_ToInt64 :: "Time \<Rightarrow> int go" where
  "TimestampValue_ToInt64 t = ok (Time_Unix t)"

definition TimestampValue_ToString :: "Time \<Rightarrow> string go" where
  "TimestampValue_ToString t = ok (Time_Format t timestampFormat)"

definition TimestampValue_ToApiString :: "Time \<Rightarrow> string go" where
  "TimestampValue_ToApiString t = (let unixmicro = Time_UnixMicro t; sec = unixmicro sdiv Millisecond;
          nsec = wrap64 (unixmicro - sec * Millisecond)
      in ok (sprintInt sec @ ''.'' @ sprintInt nsec))"

definition TimestampValue_ToBytes :: "Time \<Rightarrow> string go" where
  "TimestampValue_ToBytes t = TimestampValue_ToString t"

definition TimestampValue_ToFloat64 :: "'f Runtime \<Rightarrow> Time \<Rightarrow> 'f go" where
  "TimestampValue_ToFloat64 R t = ok (flOfInt R (Time_Unix t))"

definition TimestampValue_ToBool :: "'f Runtime \<Rightarrow> Time \<Rightarrow> bool go" where
  "TimestampValue_ToBool R t = fail_with (''failed to convert '' @ rtShow R (Some (TimestampValue t)) @ '' to bool type'')"

definition TimestampValue_ToArray :: "'f Runtime \<Rightarrow> Time \<Rightarrow> 'f array option go" where
  "TimestampValue_ToArray R t = fail_with (''failed to convert '' @ rtShow R (Some (TimestampValue t)) @ '' to array type'')"

definition TimestampValue_ToStruct :: "'f Runtime \<Rightarrow> Time \<Rightarrow> 'f struct option go" where
  "TimestampValue_ToStruct R t = fail_with (''failed to convert '' @ rtShow R (Some (TimestampValue t)) @ '' to struct type'')"

definition TimestampValue_ToJSON :: "'f Runtime \<Rightarrow> Time \<Rightarrow> string go" where
  "TimestampValue_ToJSON R t = ok (rtQuote R (Time_Format (Time_UTC t) (datetimeDefaultFormat @ [LLit ''Z''])))"

definition TimestampValue_ToTime :: "Time \<Rightarrow> Time go" where
  "TimestampValue_ToTime t = ok t"

definition TimestampValue_ToRat :: "'f Runtime \<Rightarrow> Time \<Rightarrow> rat option go" where
  "TimestampValue_ToRat R t = fail_with (''failed to convert *big.Rat from timestamp '' @ rtShow R (Some (TimestampValue t)))"

definition TimestampValue_Format :: "char \<Rightarrow> Time \<Rightarrow> string" where
  "TimestampValue_Format verb t = (let formatted = Time_Format (Time_UTC t) layoutDateSpace @ ''+00'' in
      if verb = CHR ''T'' then ''TIMESTAMP '' @ [CHR 0x22] @ formatted @ [CHR 0x22] else formatted)"

definition TimestampValue_Interface :: "Time \<Rightarrow> 'f GoAny" where
  "TimestampValue_Interface t = AnyString (Time_Format t (layoutDateT @ [LZoneISO]))"

section \<open>Intervals\<close>

definition IntervalValue_ToInt64 :: "IntervalFields \<Rightarrow> int go" where
  "IntervalValue_ToInt64 iv = fail_with ''unsupported int64 cast for interval value''"

definition IntervalValue_ToString :: "'f Runtime \<Rightarrow> IntervalFields \<Rightarrow> string go" where
  "IntervalValue_ToString R iv = (if Years iv = 0 \<and> Months iv < 0 then ok (''-'' @ rtIntervalString R iv) else ok (rtIntervalString R iv))"

definition IntervalValue_ToApiString :: "'f Runtime \<Rightarrow> IntervalFields \<Rightarrow> string go" where
  "IntervalValue_ToApiString R iv = IntervalValue_ToString R iv"

definition IntervalValue_ToBytes :: "'f Runtime \<Rightarrow> IntervalFields \<Rightarrow> string go" where
  "IntervalValue_ToBytes R iv = IntervalValue_ToString R iv"

definition IntervalValue_ToFloat64 :: "IntervalFields \<Rightarrow> 'f go" where
  "IntervalValue_ToFloat64 iv = fail_with ''unsupported float64 cast for interval value''"

definition IntervalValue_ToBool :: "IntervalFields \<Rightarrow> bool go" where
  "IntervalValue_ToBool iv = fail_with ''unsupported bool cast for interval value''"

definition IntervalValue_ToArray :: "IntervalFields \<Rightarrow> 'f array option go" where
  "IntervalValue_ToArray iv = fail_with ''unsupported array cast for interval value''"

definition IntervalValue_ToStruct :: "IntervalFields \<Rightarrow> 'f struct option go" where
  "IntervalValue_ToStruct iv = fail_with ''unsupported struct cast for interval value''"

definition IntervalValue_ToJSON :: "'f Runtime \<Rightarrow> IntervalFields \<Rightarrow> string go" where
  "IntervalValue_ToJSON R iv = go_bind (IntervalValue_ToString R iv) (\<lambda>s. ok (rtQuote R s))"

definition IntervalValue_ToTime :: "IntervalFields \<Rightarrow> Time go" where
  "IntervalValue_ToTime iv = fail_with ''unsupported time cast for interval value''"

definition IntervalValue_ToRat :: "IntervalFields \<Rightarrow> rat option go" where
  "IntervalValue_ToRat iv = fail_with ''unsupported numeric cast for interval value''"

definition IntervalValue_Format :: "'f Runtime \<Rightarrow> char \<Rightarrow> IntervalFields \<Rightarrow> string go" where
  "IntervalValue_Format R verb iv = safely [] (IntervalValue_ToString R iv)"

definition IntervalValue_Interface :: "'f Runtime \<Rightarrow> IntervalFields \<Rightarrow> 'f GoAny go" where
  "IntervalValue_Interface R iv = safely AnyNil (go_bind (IntervalValue_ToString R iv) (\<lambda>s. ok (AnyString s)))"

section \<open>Safe values\<close>

text \<open>An error of the wrapped value becomes a default; a panic stays one. The argument is the result of the wrapped method.\<close>

definition SafeValue_ToInt64 :: "int go \<Rightarrow> int go" where
  "SafeValue_ToInt64 r = safely 0 r"

definition SafeValue_ToString :: "string go \<Rightarrow> string go" where
  "SafeValue_ToString r = safely [] r"

definition SafeValue_ToApiString :: "string go \<Rightarrow> string go" where
  "SafeValue_ToApiString r = safely [] r"

definition SafeValue_ToBytes :: "string go \<Rightarrow> string go" where
  "SafeValue_ToBytes r = safely [] r"

definition SafeValue_ToBool :: "bool go \<Rightarrow> bool go" where
  "SafeValue_ToBool r = safely False r"

definition SafeValue_ToJSON :: "string go \<Rightarrow> string go" where
  "SafeValue_ToJSON r = safely [] r"

definition SafeValue_ToFloat64 :: "'f Runtime \<Rightarrow> 'f go \<Rightarrow> 'f go" where
  "SafeValue_ToFloat64 R r = safely (flOfInt R 0) r"

definition SafeValue_ToArray :: "'f array option go \<Rightarrow> 'f array option go" where
  "SafeValue_ToArray r = safely (Some []) r"

definition SafeValue_ToStruct :: "'f struct option go \<Rightarrow> 'f struct option go" where
  "SafeValue_ToStruct r = safely (Some ([], [], [])) r"

definition SafeValue_ToTime :: "Time go \<Rightarrow> Time go" where
  "SafeValue_ToTime r = safely zeroTime r"

definition SafeValue_ToRat :: "rat option go \<Rightarrow> rat option go" where
  "SafeValue_ToRat r = safely None r"

definition SafeValue_Format :: "string go \<Rightarrow> string go" where
  "SafeValue_Format r = r"

definition SafeValue_Interface :: "'f GoAny go \<Rightarrow> 'f GoAny go" where
  "SafeValue_Interface r = r"

section \<open>Dispatch\<close>

primrec Value_ToInt64 :: "'f Runtime \<Rightarrow> 'f Value \<Rightarrow> int go" where
  "Value_ToInt64 R (IntValue iv) = IntValue_ToInt64 iv"
| "Value_ToInt64 R (StringValue sv) = StringValue_ToInt64 R sv"
| "Value_ToInt64 R (BytesValue bv) = BytesValue_ToInt64 R bv"
| "Value_ToInt64 R (FloatValue fv) = FloatValue_ToInt64 R fv"
| "Value_ToInt64 R (NumericValue rat isBig) = NumericValue_ToInt64 rat"
| "Value_ToInt64 R (BoolValue bv) = BoolValue_ToInt64 bv"
| "Value_ToInt64 R (JsonValue jv) = JsonValue_ToInt64 R jv"
| "Value_ToInt64 R (ArrayValue av) = ArrayValue_ToInt64 R av"
| "Value_ToInt64 R (StructValue keys vals m) = StructValue_ToInt64 R keys vals m"
| "Value_ToInt64 R (DateValue t) = DateValue_ToInt64 t"
| "Value_ToInt64 R (DatetimeValue t) = DatetimeValue_ToInt64 t"
| "Value_ToInt64 R (TimeValue t) = TimeValue_ToInt64 t"
| "Value_ToInt64 R (TimestampValue t) = TimestampValue_ToInt64 t"
| "Value_ToInt64 R (IntervalValue iv) = IntervalValue_ToInt64 iv"
| "Value_ToInt64 R (SafeValue v) = SafeValue_ToInt64 (Value_ToInt64 R v)"

primrec Value_ToFloat64 :: "'f Runtime \<Rightarrow> 'f Value \<Rightarrow> 'f go" where
  "Value_ToFloat64 R (IntValue iv) = IntValue_ToFloat64 R iv"
| "Value_ToFloat64 R (StringValue sv) = StringValue_ToFloat64 R sv"
| "Value_ToFloat64 R (BytesValue bv) = BytesValue_ToFloat64 R bv"
| "Value_ToFloat64 R (FloatValue fv) = FloatValue_ToFloat64 fv"
| "Value_ToFloat64 R (NumericValue rat isBig) = NumericValue_ToFloat64 R rat"
| "Value_ToFloat64 R (BoolValue bv) = BoolValue_ToFloat64 R bv"
| "Value_ToFloat64 R (JsonValue jv) = JsonValue_ToFloat64 R jv"
| "Value_ToFloat64 R (ArrayValue av) = ArrayValue_ToFloat64 R av"
| "Value_ToFloat64 R (StructValue keys vals m) = StructValue_ToFloat64 R keys vals m"
| "Value_ToFloat64 R (DateValue t) = DateValue_ToFloat64 R t"
| "Value_ToFloat64 R (DatetimeValue t) = DatetimeValue_ToFloat64 R t"
| "Value_ToFloat64 R (TimeValue t) = TimeValue_ToFloat64 R t"
| "Value_ToFloat64 R (TimestampValue t) = TimestampValue_ToFloat64 R t"
| "Value_ToFloat64 R (IntervalValue iv) = IntervalValue_ToFloat64 iv"
| "Value_ToFloat64 R (SafeValue v) = SafeValue_ToFloat64 R (Value_ToFloat64 R v)"

primrec Value_ToBool :: "'f Runtime \<Rightarrow> 'f Value \<Rightarrow> bool go" where
  "Value_ToBool R (IntValue iv) = IntValue_ToBool iv"
| "Value_ToBool R (StringValue sv) = StringValue_ToBool R sv"
| "Value_ToBool R (BytesValue bv) = BytesValue_ToBool R bv"
| "Value_ToBool R (FloatValue fv) = FloatValue_ToBool R fv"
| "Value_ToBool R (NumericValue rat isBig) = NumericValue_ToBool rat"
| "Value_ToBool R (BoolValue bv) = BoolValue_ToBool bv"
| "Value_ToBool R (JsonValue jv) = JsonValue_ToBool R jv"
| "Value_ToBool R (ArrayValue av) = ArrayValue_ToBool R av"
| "Value_ToBool R (StructValue keys vals m) = StructValue_ToBool R keys vals m"
| "Value_ToBool R (DateValue t) = DateValue_ToBool R t"
| "Value_ToBool R (DatetimeValue t) = DatetimeValue_ToBool R t"
| "Value_ToBool R (TimeValue t) = TimeValue_ToBool R t"
| "Value_ToBool R (TimestampValue t) = TimestampValue_ToBool R t"
| "Value_ToBool R (IntervalValue iv) = IntervalValue_ToBool iv"
| "Value_ToBool R (SafeValue v) = SafeValue_ToBool (Value_ToBool R v)"

primrec Value_ToArray :: "'f Runtime \<Rightarrow> 'f Value \<Rightarrow> 'f array option go" where
  "Value_ToArray R (IntValue iv) = IntValue_ToArray iv"
| "Value_ToArray R (StringValue sv) = StringValue_ToArray sv"
| "Value_ToArray R (BytesValue bv) = BytesValue_ToArray R bv"
| "Value_ToArray R (FloatValue fv) = FloatValue_ToArray R fv"
| "Value_ToArray R (NumericValue rat isBig) = NumericValue_ToArray rat"
| "Value_ToArray R (BoolValue bv) = BoolValue_ToArray bv"
| "Value_ToArray R (JsonValue jv) = JsonValue_ToArray jv"
| "Value_ToArray R (ArrayValue av) = ArrayValue_ToArray av"
| "Value_ToArray R (StructValue keys vals m) = StructValue_ToArray R keys vals m"
| "Value_ToArray R (DateValue t) = DateValue_ToArray R t"
| "Value_ToArray R (DatetimeValue t) = DatetimeValue_ToArray R t"
| "Value_ToArray R (TimeValue t) = TimeValue_ToArray R t"
| "Value_ToArray R (TimestampValue t) = TimestampValue_ToArray R t"
| "Value_ToArray R (IntervalValue iv) = IntervalValue_ToArray iv"
| "Value_ToArray R (SafeValue v) = SafeValue_ToArray (Value_ToArray R v)"

primrec Value_ToStruct :: "'f Runtime \<Rightarrow> 'f Value \<Rightarrow> 'f struct option go" where
  "Value_ToStruct R (IntValue iv) = IntValue_ToStruct iv"
| "Value_ToStruct R (StringValue sv) = StringValue_ToStruct sv"
| "Value_ToStruct R (BytesValue bv) = BytesValue_ToStruct R bv"
| "Value_ToStruct R (FloatValue fv) = FloatValue_ToStruct R fv"
| "Value_ToStruct R (NumericValue rat isBig) = NumericValue_ToStruct rat"
| "Value_ToStruct R (BoolValue bv) = BoolValue_ToStruct bv"
| "Value_ToStruct R (JsonValue jv) = JsonValue_ToStruct jv"
| "Value_ToStruct R (ArrayValue av) = ArrayValue_ToStruct R av (map (map_option (Value_ToStruct R)) av)"
| "Value_ToStruct R (StructValue keys vals m) = StructValue_ToStruct keys vals m"
| "Value_ToStruct R (DateValue t) = DateValue_ToStruct R t"
| "Value_ToStruct R (DatetimeValue t) = DatetimeValue_ToStruct R t"
| "Value_ToStruct R (TimeValue t) = TimeValue_ToStruct R t"
| "Value_ToStruct R (TimestampValue t) = TimestampValue_ToStruct R t"
| "Value_ToStruct R (IntervalValue iv) = IntervalValue_ToStruct iv"
| "Value_ToStruct R (SafeValue v) = SafeValue_ToStruct (Value_ToStruct R v)"

primrec Value_ToTime :: "'f Runtime \<Rightarrow> 'f Value \<Rightarrow> Time go" where
  "Value_ToTime R (IntValue iv) = IntValue_ToTime R iv"
| "Value_ToTime R (StringValue sv) = StringValue_ToTime R sv"
| "Value_ToTime R (BytesValue bv) = BytesValue_ToTime R bv"
| "Value_ToTime R (FloatValue fv) = FloatValue_ToTime R fv"
| "Value_ToTime R (NumericValue rat isBig) = NumericValue_ToTime rat"
| "Value_ToTime R (BoolValue bv) = BoolValue_ToTime bv"
| "Value_ToTime R (JsonValue jv) = JsonValue_ToTime jv"
| "Value_ToTime R (ArrayValue av) = ArrayValue_ToTime R av"
| "Value_ToTime R (StructValue keys vals m) = StructValue_ToTime R keys vals m"
| "Value_ToTime R (DateValue t) = DateValue_ToTime t"
| "Value_ToTime R (DatetimeValue t) = DatetimeValue_ToTime t"
| "Value_ToTime R (TimeValue t) = TimeValue_ToTime t"
| "Value_ToTime R (TimestampValue t) = TimestampValue_ToTime t"
| "Value_ToTime R (IntervalValue iv) = IntervalValue_ToTime iv"
| "Value_ToTime R (SafeValue v) = SafeValue_ToTime (Value_ToTime R v)"

primrec Value_ToRat :: "'f Runtime \<Rightarrow> 'f Value \<Rightarrow> rat option go" where
  "Value_ToRat R (IntValue iv) = IntValue_ToRat iv"
| "Value_ToRat R (StringValue sv) = StringValue_ToRat R sv"
| "Value_ToRat R (BytesValue bv) = BytesValue_ToRat R bv"
| "Value_ToRat R (FloatValue fv) = FloatValue_ToRat R fv"
| "Value_ToRat R (NumericValue rat isBig) = NumericValue_ToRat rat"
| "Value_ToRat R (BoolValue bv) = BoolValue_ToRat bv"
| "Value_ToRat R (JsonValue jv) = JsonValue_ToRat R jv"
| "Value_ToRat R (ArrayValue av) = ArrayValue_ToRat R av"
| "Value_ToRat R (StructValue keys vals m) = StructValue_ToRat R keys vals m"
| "Value_ToRat R (DateValue t) = DateValue_ToRat R t"
| "Value_ToRat R (DatetimeValue t) = DatetimeValue_ToRat R t"
| "Value_ToRat R (TimeValue t) = TimeValue_ToRat R t"
| "Value_ToRat R (TimestampValue t) = TimestampValue_ToRat R t"
| "Value_ToRat R (IntervalValue iv) = IntervalValue_ToRat iv"
| "Value_ToRat R (SafeValue v) = SafeValue_ToRat (Value_ToRat R v)"

primrec Value_ToJSON :: "'f Runtime \<Rightarrow> 'f Value \<Rightarrow> string go" where
  "Value_ToJSON R (IntValue iv) = IntValue_ToJSON iv"
| "Value_ToJSON R (StringValue sv) = StringValue_ToJSON R sv"
| "Value_ToJSON R (BytesValue bv) = BytesValue_ToJSON R bv"
| "Value_ToJSON R (FloatValue fv) = FloatValue_ToJSON R fv"
| "Value_ToJSON R (NumericValue rat isBig) = NumericValue_ToJSON rat isBig"
| "Value_ToJSON R (BoolValue bv) = BoolValue_ToJSON bv"
| "Value_ToJSON R (JsonValue jv) = JsonValue_ToJSON jv"
| "Value_ToJSON R (ArrayValue av) = ArrayValue_ToJSON (map (map_option (Value_ToJSON R)) av)"
| "Value_ToJSON R (StructValue keys vals m) = StructValue_ToJSON R keys (map (map_option (Value_ToJSON R)) vals)"
| "Value_ToJSON R (DateValue t) = DateValue_ToJSON R t"
| "Value_ToJSON R (DatetimeValue t) = DatetimeValue_ToJSON R t"
| "Value_ToJSON R (TimeValue t) = TimeValue_ToJSON R t"
| "Value_ToJSON R (TimestampValue t) = TimestampValue_ToJSON R t"
| "Value_ToJSON R (IntervalValue iv) = IntervalValue_ToJSON R iv"
| "Value_ToJSON R (SafeValue v) = SafeValue_ToJSON (Value_ToJSON R v)"

primrec Value_ToString :: "'f Runtime \<Rightarrow> 'f Value \<Rightarrow> string go" where
  "Value_ToString R (IntValue iv) = IntValue_ToString iv"
| "Value_ToString R (StringValue sv) = StringValue_ToString sv"
| "Value_ToString R (BytesValue bv) = BytesValue_ToString bv"
| "Value_ToString R (FloatValue fv) = FloatValue_ToString R fv"
| "Value_ToString R (NumericValue rat isBig) = NumericValue_ToString rat isBig"
| "Value_ToString R (BoolValue bv) = BoolValue_ToString bv"
| "Value_ToString R (JsonValue jv) = JsonValue_ToString jv"
| "Value_ToString R (ArrayValue av) = ArrayValue_ToString (map (map_option (Value_ToJSON R)) av)"
| "Value_ToString R (StructValue keys vals m) = StructValue_ToString R keys (map (map_option (Value_ToJSON R)) vals)"
| "Value_ToString R (DateValue t) = DateValue_ToString t"
| "Value_ToString R (DatetimeValue t) = DatetimeValue_ToString t"
| "Value_ToString R (TimeValue t) = TimeValue_ToString t"
| "Value_ToString R (TimestampValue t) = TimestampValue_ToString t"
| "Value_ToString R (IntervalValue iv) = IntervalValue_ToString R iv"
| "Value_ToString R (SafeValue v) = SafeValue_ToString (Value_ToString R v)"

primrec Value_ToApiString :: "'f Runtime \<Rightarrow> 'f Value \<Rightarrow> string go" where
  "Value_ToApiString R (IntValue iv) = IntValue_ToApiString iv"
| "Value_ToApiString R (StringValue sv) = StringValue_ToApiString sv"
| "Value_ToApiString R (BytesValue bv) = BytesValue_ToApiString bv"
| "Value_ToApiString R (FloatValue fv) = FloatValue_ToApiString R fv"
| "Value_ToApiString R (NumericValue rat isBig) = NumericValue_ToApiString rat isBig"
| "Value_ToApiString R (BoolValue bv) = BoolValue_ToApiString bv"
| "Value_ToApiString R (JsonValue jv) = JsonValue_ToApiString jv"
| "Value_ToApiString R (ArrayValue av) = ArrayValue_ToApiString R av"
| "Value_ToApiString R (StructValue keys vals m) = StructValue_ToApiString keys"
| "Value_ToApiString R (DateValue t) = DateValue_ToApiString t"
| "Value_ToApiString R (DatetimeValue t) = DatetimeValue_ToApiString t"
| "Value_ToApiString R (TimeValue t) = TimeValue_ToApiString t"
| "Value_ToApiString R (TimestampValue t) = TimestampValue_ToApiString t"
| "Value_ToApiString R (IntervalValue iv) = IntervalValue_ToApiString R iv"
| "Value_ToApiString R (SafeValue v) = SafeValue_ToApiString (Value_ToApiString R v)"

primrec Value_ToBytes :: "'f Runtime \<Rightarrow> 'f Value \<Rightarrow> string go" where
  "Value_ToBytes R (IntValue iv) = IntValue_ToBytes iv"
| "Value_ToBytes R (StringValue sv) = StringValue_ToBytes sv"
| "Value_ToBytes R (BytesValue bv) = BytesValue_ToBytes bv"
| "Value_ToBytes R (FloatValue fv) = FloatValue_ToBytes R fv"
| "Value_ToBytes R (NumericValue rat isBig) = NumericValue_ToBytes rat isBig"
| "Value_ToBytes R (BoolValue bv) = BoolValue_ToBytes bv"
| "Value_ToBytes R (JsonValue jv) = JsonValue_ToBytes jv"
| "Value_ToBytes R (ArrayValue av) = ArrayValue_ToBytes (map (map_option (Value_ToJSON R)) av)"
| "Value_ToBytes R (StructValue keys vals m) = StructValue_ToBytes R keys (map (map_option (Value_ToJSON R)) vals)"
| "Value_ToBytes R (DateValue t) = DateValue_ToBytes t"
| "Value_ToBytes R (DatetimeValue t) = DatetimeValue_ToBytes t"
| "Value_ToBytes R (TimeValue t) = TimeValue_ToBytes t"
| "Value_ToBytes R (TimestampValue t) = TimestampValue_ToBytes t"
| "Value_ToBytes R (IntervalValue iv) = IntervalValue_ToBytes R iv"
| "Value_ToBytes R (SafeValue v) = SafeValue_ToBytes (Value_ToBytes R v)"

primrec Value_Format :: "'f Runtime \<Rightarrow> char \<Rightarrow> 'f Value \<Rightarrow> string go" where
  "Value_Format R verb (IntValue iv) = ok (IntValue_Format verb iv)"
| "Value_Format R verb (StringValue sv) = ok (StringValue_Format R verb sv)"
| "Value_Format R verb (BytesValue bv) = ok (BytesValue_Format verb bv)"
| "Value_Format R verb (FloatValue fv) = ok (FloatValue_Format R verb fv)"
| "Value_Format R verb (NumericValue rat isBig) = NumericValue_Format verb rat isBig"
| "Value_Format R verb (BoolValue bv) = ok (BoolValue_Format verb bv)"
| "Value_Format R verb (JsonValue jv) = ok (JsonValue_Format verb jv)"
| "Value_Format R verb (ArrayValue av) = ArrayValue_Format (map (map_option (Value_Format R verb)) av)"
| "Value_Format R verb (StructValue keys vals m) = StructValue_Format (map (map_option (Value_Format R verb)) vals)"
| "Value_Format R verb (DateValue t) = ok (DateValue_Format verb t)"
| "Value_Format R verb (DatetimeValue t) = ok (DatetimeValue_Format verb t)"
| "Value_Format R verb (TimeValue t) = ok (TimeValue_Format verb t)"
| "Value_Format R verb (TimestampValue t) = ok (TimestampValue_Format verb t)"
| "Value_Format R verb (IntervalValue iv) = IntervalValue_Format R verb iv"
| "Value_Format R verb (SafeValue v) = SafeValue_Format (Value_Format R verb v)"

primrec Value_Interface :: "'f Runtime \<Rightarrow> 'f Value \<Rightarrow> 'f GoAny go" where
  "Value_Interface R (IntValue iv) = ok (IntValue_Interface iv)"
| "Value_Interface R (StringValue sv) = ok (StringValue_Interface sv)"
| "Value_Interface R (BytesValue bv) = ok (BytesValue_Interface bv)"
| "Value_Interface R (FloatValue fv) = ok (FloatValue_Interface fv)"
| "Value_Interface R (NumericValue rat isBig) = NumericValue_Interface rat"
| "Value_Interface R (BoolValue bv) = ok (BoolValue_Interface bv)"
| "Value_Interface R (JsonValue jv) = ok (JsonValue_Interface R jv)"
| "Value_Interface R (ArrayValue av) = ArrayValue_Interface (map (map_option (Value_Interface R)) av)"
| "Value_Interface R (StructValue keys vals m) = StructValue_Interface keys (map (map_option (Value_Interface R)) vals)"
| "Value_Interface R (DateValue t) = ok (DateValue_Interface t)"
| "Value_Interface R (DatetimeValue t) = ok (DatetimeValue_Interface t)"
| "Value_Interface R (TimeValue t) = ok (TimeValue_Interface t)"
| "Value_Interface R (TimestampValue t) = ok (TimestampValue_Interface t)"
| "Value_Interface R (IntervalValue iv) = IntervalValue_Interface R iv"
| "Value_Interface R (SafeValue v) = SafeValue_Interface (Value_Interface R v)"

end
