(* ===== verification/Value_Ops.thy ===== *)
theory Value_Ops
  imports Value_Convert
begin

text \<open>
  Arithmetic and comparison of the values of \<open>internal/value.go\<close>, one definition per method and type.
  The argument is an interface that may be nil; a method that uses it then panics.

  \<open>NumericValue\<close> assigns the result of an operation to its receiver and returns the receiver; the
  definitions give the value the receiver has afterwards.
\<close>

section \<open>Arguments\<close>

definition argInt64 :: "'f Runtime \<Rightarrow> 'f Value option \<Rightarrow> int go" where
  "argInt64 R v = onNil v (Value_ToInt64 R)"

definition argString :: "'f Runtime \<Rightarrow> 'f Value option \<Rightarrow> string go" where
  "argString R v = onNil v (Value_ToString R)"

definition argBytes :: "'f Runtime \<Rightarrow> 'f Value option \<Rightarrow> string go" where
  "argBytes R v = onNil v (Value_ToBytes R)"

definition argFloat64 :: "'f Runtime \<Rightarrow> 'f Value option \<Rightarrow> 'f go" where
  "argFloat64 R v = onNil v (Value_ToFloat64 R)"

definition argBool :: "'f Runtime \<Rightarrow> 'f Value option \<Rightarrow> bool go" where
  "argBool R v = onNil v (Value_ToBool R)"

definition argRat :: "'f Runtime \<Rightarrow> 'f Value option \<Rightarrow> rat option go" where
  "argRat R v = onNil v (Value_ToRat R)"

definition argTime :: "'f Runtime \<Rightarrow> 'f Value option \<Rightarrow> Time go" where
  "argTime R v = onNil v (Value_ToTime R)"

definition argArray :: "'f Runtime \<Rightarrow> 'f Value option \<Rightarrow> 'f array option go" where
  "argArray R v = onNil v (Value_ToArray R)"

definition argStruct :: "'f Runtime \<Rightarrow> 'f Value option \<Rightarrow> 'f struct option go" where
  "argStruct R v = onNil v (Value_ToStruct R)"

text \<open>The conversion for a comparison: an error is replaced by a text that shows the argument.\<close>

definition comparand :: "'f Runtime \<Rightarrow> string \<Rightarrow> 'f Value option \<Rightarrow> 'a go \<Rightarrow> 'a go" where
  "comparand R name v r = replaceError (''failed to convert '' @ rtShow R v @ '' to '' @ name) r"

section \<open>Integers\<close>

definition IntValue_Add :: "'f Runtime \<Rightarrow> int \<Rightarrow> 'f Value option \<Rightarrow> 'f Value option go" where
  "IntValue_Add R iv v = go_bind (argInt64 R v) (\<lambda>v2. ok (Some (IntValue (wrap64 (iv + v2)))))"

definition IntValue_Sub :: "'f Runtime \<Rightarrow> int \<Rightarrow> 'f Value option \<Rightarrow> 'f Value option go" where
  "IntValue_Sub R iv v = go_bind (argInt64 R v) (\<lambda>v2. ok (Some (IntValue (wrap64 (iv - v2)))))"

definition IntValue_Mul :: "'f Runtime \<Rightarrow> int \<Rightarrow> 'f Value option \<Rightarrow> 'f Value option go" where
  "IntValue_Mul R iv v = go_bind (argInt64 R v) (\<lambda>v2. ok (Some (IntValue (wrap64 (iv * v2)))))"

definition IntValue_Div :: "'f Runtime \<Rightarrow> int \<Rightarrow> 'f Value option \<Rightarrow> 'f Value option go" where
  "IntValue_Div R iv v = go_bind (argInt64 R v) (\<lambda>v2.
     if v2 = 0 then fail_with (''zero divided error ( '' @ sprintInt iv @ '' / 0 )'')
     else ok (Some (IntValue (wrap64 (iv sdiv v2)))))"

definition IntValue_EQ :: "'f Runtime \<Rightarrow> int \<Rightarrow> 'f Value option \<Rightarrow> bool go" where
  "IntValue_EQ R iv v = go_bind (comparand R ''int64'' v (argInt64 R v)) (\<lambda>v2. ok (iv = v2))"

definition IntValue_GT :: "'f Runtime \<Rightarrow> int \<Rightarrow> 'f Value option \<Rightarrow> bool go" where
  "IntValue_GT R iv v = go_bind (comparand R ''int64'' v (argInt64 R v)) (\<lambda>v2. ok (iv > v2))"

definition IntValue_GTE :: "'f Runtime \<Rightarrow> int \<Rightarrow> 'f Value option \<Rightarrow> bool go" where
  "IntValue_GTE R iv v = go_bind (comparand R ''int64'' v (argInt64 R v)) (\<lambda>v2. ok (iv \<ge> v2))"

definition IntValue_LT :: "'f Runtime \<Rightarrow> int \<Rightarrow> 'f Value option \<Rightarrow> bool go" where
  "IntValue_LT R iv v = go_bind (comparand R ''int64'' v (argInt64 R v)) (\<lambda>v2. ok (iv < v2))"

definition IntValue_LTE :: "'f Runtime \<Rightarrow> int \<Rightarrow> 'f Value option \<Rightarrow> bool go" where
  "IntValue_LTE R iv v = go_bind (comparand R ''int64'' v (argInt64 R v)) (\<lambda>v2. ok (iv \<le> v2))"

section \<open>Strings\<close>

definition StringValue_Add :: "'f Runtime \<Rightarrow> string \<Rightarrow> 'f Value option \<Rightarrow> 'f Value option go" where
  "StringValue_Add R sv v = go_bind (argString R v) (\<lambda>v2. ok (Some (StringValue (sv @ v2))))"

definition StringValue_Sub :: "string \<Rightarrow> 'f Value option \<Rightarrow> 'f Value option go" where
  "StringValue_Sub sv v = fail_with (''sub operation is unsupported for string '' @ sv)"

definition StringValue_Mul :: "string \<Rightarrow> 'f Value option \<Rightarrow> 'f Value option go" where
  "StringValue_Mul sv v = fail_with (''mul operation is unsupported for string '' @ sv)"

definition StringValue_Div :: "string \<Rightarrow> 'f Value option \<Rightarrow> 'f Value option go" where
  "StringValue_Div sv v = fail_with (''div operation is unsupported for string '' @ sv)"

definition StringValue_EQ :: "'f Runtime \<Rightarrow> string \<Rightarrow> 'f Value option \<Rightarrow> bool go" where
  "StringValue_EQ R sv v = go_bind (comparand R ''string'' v (argString R v)) (\<lambda>v2. ok (sv = v2))"

definition StringValue_GT :: "'f Runtime \<Rightarrow> string \<Rightarrow> 'f Value option \<Rightarrow> bool go" where
  "StringValue_GT R sv v = go_bind (comparand R ''string'' v (argString R v)) (\<lambda>v2. ok (stringLess v2 sv))"

definition StringValue_GTE :: "'f Runtime \<Rightarrow> string \<Rightarrow> 'f Value option \<Rightarrow> bool go" where
  "StringValue_GTE R sv v = go_bind (comparand R ''string'' v (argString R v)) (\<lambda>v2. ok (\<not> stringLess sv v2))"

definition StringValue_LT :: "'f Runtime \<Rightarrow> string \<Rightarrow> 'f Value option \<Rightarrow> bool go" where
  "StringValue_LT R sv v = go_bind (comparand R ''string'' v (argString R v)) (\<lambda>v2. ok (stringLess sv v2))"

definition StringValue_LTE :: "'f Runtime \<Rightarrow> string \<Rightarrow> 'f Value option \<Rightarrow> bool go" where
  "StringValue_LTE R sv v = go_bind (comparand R ''string'' v (argString R v)) (\<lambda>v2. ok (\<not> stringLess v2 sv))"

section \<open>Bytes\<close>

definition BytesValue_Add :: "'f Runtime \<Rightarrow> string \<Rightarrow> 'f Value option \<Rightarrow> 'f Value option go" where
  "BytesValue_Add R bv v = go_bind (argBytes R v) (\<lambda>v2. ok (Some (BytesValue (bv @ v2))))"

definition BytesValue_Sub :: "'f Runtime \<Rightarrow> string \<Rightarrow> 'f Value option \<Rightarrow> 'f Value option go" where
  "BytesValue_Sub R bv v = fail_with (''sub operation is unsupported for bytes '' @ rtShow R (Some (BytesValue bv)))"

definition BytesValue_Mul :: "'f Runtime \<Rightarrow> string \<Rightarrow> 'f Value option \<Rightarrow> 'f Value option go" where
  "BytesValue_Mul R bv v = fail_with (''mul operation is unsupported for bytes '' @ rtShow R (Some (BytesValue bv)))"

definition BytesValue_Div :: "'f Runtime \<Rightarrow> string \<Rightarrow> 'f Value option \<Rightarrow> 'f Value option go" where
  "BytesValue_Div R bv v = fail_with (''div operation is unsupported for bytes '' @ rtShow R (Some (BytesValue bv)))"

definition BytesValue_EQ :: "'f Runtime \<Rightarrow> string \<Rightarrow> 'f Value option \<Rightarrow> bool go" where
  "BytesValue_EQ R bv v = go_bind (comparand R ''bytes'' v (argBytes R v)) (\<lambda>v2. ok (bv = v2))"

definition BytesValue_GT :: "'f Runtime \<Rightarrow> string \<Rightarrow> 'f Value option \<Rightarrow> bool go" where
  "BytesValue_GT R bv v = go_bind (comparand R ''bytes'' v (argBytes R v)) (\<lambda>v2. ok (stringLess v2 bv))"

definition BytesValue_GTE :: "'f Runtime \<Rightarrow> string \<Rightarrow> 'f Value option \<Rightarrow> bool go" where
  "BytesValue_GTE R bv v = go_bind (comparand R ''bytes'' v (argBytes R v)) (\<lambda>v2. ok (\<not> stringLess bv v2))"

definition BytesValue_LT :: "'f Runtime \<Rightarrow> string \<Rightarrow> 'f Value option \<Rightarrow> bool go" where
  "BytesValue_LT R bv v = go_bind (comparand R ''bytes'' v (argBytes R v)) (\<lambda>v2. ok (stringLess bv v2))"

definition BytesValue_LTE :: "'f Runtime \<Rightarrow> string \<Rightarrow> 'f Value option \<Rightarrow> bool go" where
  "BytesValue_LTE R bv v = go_bind (comparand R ''bytes'' v (argBytes R v)) (\<lambda>v2. ok (\<not> stringLess v2 bv))"

section \<open>Floating point numbers\<close>

definition FloatValue_Add :: "'f Runtime \<Rightarrow> 'f \<Rightarrow> 'f Value option \<Rightarrow> 'f Value option go" where
  "FloatValue_Add R fv v = go_bind (argFloat64 R v) (\<lambda>v2. ok (Some (FloatValue (flAdd R fv v2))))"

definition FloatValue_Sub :: "'f Runtime \<Rightarrow> 'f \<Rightarrow> 'f Value option \<Rightarrow> 'f Value option go" where
  "FloatValue_Sub R fv v = go_bind (argFloat64 R v) (\<lambda>v2. ok (Some (FloatValue (flSub R fv v2))))"

definition FloatValue_Mul :: "'f Runtime \<Rightarrow> 'f \<Rightarrow> 'f Value option \<Rightarrow> 'f Value option go" where
  "FloatValue_Mul R fv v = go_bind (argFloat64 R v) (\<lambda>v2. ok (Some (FloatValue (flMul R fv v2))))"

definition FloatValue_Div :: "'f Runtime \<Rightarrow> 'f \<Rightarrow> 'f Value option \<Rightarrow> 'f Value option go" where
  "FloatValue_Div R fv v = go_bind (argFloat64 R v) (\<lambda>v2.
     if flEq R v2 (flOfInt R 0) then fail_with (''zero divided error ( '' @ flFixed R fv @ '' / 0 )'')
     else ok (Some (FloatValue (flDiv R fv v2))))"

definition FloatValue_EQ :: "'f Runtime \<Rightarrow> 'f \<Rightarrow> 'f Value option \<Rightarrow> bool go" where
  "FloatValue_EQ R fv v = go_bind (comparand R ''float64'' v (argFloat64 R v)) (\<lambda>v2. ok (flEq R fv v2))"

definition FloatValue_GT :: "'f Runtime \<Rightarrow> 'f \<Rightarrow> 'f Value option \<Rightarrow> bool go" where
  "FloatValue_GT R fv v = go_bind (comparand R ''float64'' v (argFloat64 R v)) (\<lambda>v2. ok (flLess R v2 fv))"

definition FloatValue_GTE :: "'f Runtime \<Rightarrow> 'f \<Rightarrow> 'f Value option \<Rightarrow> bool go" where
  "FloatValue_GTE R fv v = go_bind (comparand R ''float64'' v (argFloat64 R v)) (\<lambda>v2. ok (flLess R v2 fv \<or> flEq R fv v2))"

definition FloatValue_LT :: "'f Runtime \<Rightarrow> 'f \<Rightarrow> 'f Value option \<Rightarrow> bool go" where
  "FloatValue_LT R fv v = go_bind (comparand R ''float64'' v (argFloat64 R v)) (\<lambda>v2. ok (flLess R fv v2))"

definition FloatValue_LTE :: "'f Runtime \<Rightarrow> 'f \<Rightarrow> 'f Value option \<Rightarrow> bool go" where
  "FloatValue_LTE R fv v = go_bind (comparand R ''float64'' v (argFloat64 R v)) (\<lambda>v2. ok (flLess R fv v2 \<or> flEq R fv v2))"

section \<open>Numeric values\<close>

definition NumericValue_Add :: "'f Runtime \<Rightarrow> rat option \<Rightarrow> bool \<Rightarrow> 'f Value option \<Rightarrow> 'f Value option go" where
  "NumericValue_Add R rat isBig v = go_bind (argRat R v) (\<lambda>r. onNil r (\<lambda>y. onNil rat (\<lambda>x.
       ok (Some (NumericValue (Some (x + y)) isBig)))))"

definition NumericValue_Sub :: "'f Runtime \<Rightarrow> rat option \<Rightarrow> bool \<Rightarrow> 'f Value option \<Rightarrow> 'f Value option go" where
  "NumericValue_Sub R rat isBig v = go_bind (argRat R v) (\<lambda>r. onNil r (\<lambda>y. onNil rat (\<lambda>x.
       ok (Some (NumericValue (Some (x + (- y))) isBig)))))"

definition NumericValue_Mul :: "'f Runtime \<Rightarrow> rat option \<Rightarrow> bool \<Rightarrow> 'f Value option \<Rightarrow> 'f Value option go" where
  "NumericValue_Mul R rat isBig v = go_bind (argRat R v) (\<lambda>r. onNil r (\<lambda>y. onNil rat (\<lambda>x.
       ok (Some (NumericValue (Some (x * y)) isBig)))))"

text \<open>The panics of the division, that of a zero divisor included, are recovered as errors.\<close>

definition NumericValue_Div :: "'f Runtime \<Rightarrow> rat option \<Rightarrow> bool \<Rightarrow> 'f Value option \<Rightarrow> 'f Value option go" where
  "NumericValue_Div R rat isBig v = (case go_bind (argRat R v) (\<lambda>r. onNil r (\<lambda>y.
         if y = 0 then panic ''division by zero''
         else onNil rat (\<lambda>x. ok (Some (NumericValue (Some (x * inverse y)) isBig))))) of
       Inl (GoPanic msg) \<Rightarrow> fail_with msg
     | r \<Rightarrow> r)"

definition NumericValue_EQ :: "'f Runtime \<Rightarrow> rat option \<Rightarrow> 'f Value option \<Rightarrow> bool go" where
  "NumericValue_EQ R rat v = go_bind (argRat R v) (\<lambda>r. onNil r (\<lambda>y. onNil rat (\<lambda>x. ok (x = y))))"

definition NumericValue_GT :: "'f Runtime \<Rightarrow> rat option \<Rightarrow> 'f Value option \<Rightarrow> bool go" where
  "NumericValue_GT R rat v = go_bind (argRat R v) (\<lambda>r. onNil r (\<lambda>y. onNil rat (\<lambda>x. ok (x > y))))"

definition NumericValue_GTE :: "'f Runtime \<Rightarrow> rat option \<Rightarrow> 'f Value option \<Rightarrow> bool go" where
  "NumericValue_GTE R rat v = go_bind (argRat R v) (\<lambda>r. onNil r (\<lambda>y. onNil rat (\<lambda>x. ok (x \<ge> y))))"

definition NumericValue_LT :: "'f Runtime \<Rightarrow> rat option \<Rightarrow> 'f Value option \<Rightarrow> bool go" where
  "NumericValue_LT R rat v = go_bind (argRat R v) (\<lambda>r. onNil r (\<lambda>y. onNil rat (\<lambda>x. ok (x < y))))"

definition NumericValue_LTE :: "'f Runtime \<Rightarrow> rat option \<Rightarrow> 'f Value option \<Rightarrow> bool go" where
  "NumericValue_LTE R rat v = go_bind (argRat R v) (\<lambda>r. onNil r (\<lambda>y. onNil rat (\<lambda>x. ok (x \<le> y))))"

section \<open>Booleans and JSON\<close>

definition BoolValue_Add :: "bool \<Rightarrow> 'f Value option \<Rightarrow> 'f Value option go" where
  "BoolValue_Add bv v = fail_with (''add operation is unsupported for bool '' @ sprintBool bv)"

definition BoolValue_Sub :: "bool \<Rightarrow> 'f Value option \<Rightarrow> 'f Value option go" where
  "BoolValue_Sub bv v = fail_with (''sub operation is unsupported for bool '' @ sprintBool bv)"

definition BoolValue_Mul :: "bool \<Rightarrow> 'f Value option \<Rightarrow> 'f Value option go" where
  "BoolValue_Mul bv v = fail_with (''mul operation is unsupported for bool '' @ sprintBool bv)"

definition BoolValue_Div :: "bool \<Rightarrow> 'f Value option \<Rightarrow> 'f Value option go" where
  "BoolValue_Div bv v = fail_with (''div operation is unsupported for bool '' @ sprintBool bv)"

definition BoolValue_EQ :: "'f Runtime \<Rightarrow> bool \<Rightarrow> 'f Value option \<Rightarrow> bool go" where
  "BoolValue_EQ R bv v = go_bind (comparand R ''bool'' v (argBool R v)) (\<lambda>v2. ok (bv = v2))"

definition BoolValue_GT :: "bool \<Rightarrow> 'f Value option \<Rightarrow> bool go" where
  "BoolValue_GT bv v = fail_with (''gt operation is unsupported for bool '' @ sprintBool bv)"

definition BoolValue_GTE :: "bool \<Rightarrow> 'f Value option \<Rightarrow> bool go" where
  "BoolValue_GTE bv v = fail_with (''gte operation is unsupported for bool '' @ sprintBool bv)"

definition BoolValue_LT :: "bool \<Rightarrow> 'f Value option \<Rightarrow> bool go" where
  "BoolValue_LT bv v = fail_with (''lt operation is unsupported for bool '' @ sprintBool bv)"

definition BoolValue_LTE :: "bool \<Rightarrow> 'f Value option \<Rightarrow> bool go" where
  "BoolValue_LTE bv v = fail_with (''lte operation is unsupported for bool '' @ sprintBool bv)"

definition JsonValue_Add :: "string \<Rightarrow> 'f Value option \<Rightarrow> 'f Value option go" where
  "JsonValue_Add jv v = fail_with (''add operation is unsupported for json '' @ jv)"

definition JsonValue_Sub :: "string \<Rightarrow> 'f Value option \<Rightarrow> 'f Value option go" where
  "JsonValue_Sub jv v = fail_with (''sub operation is unsupported for json '' @ jv)"

definition JsonValue_Mul :: "string \<Rightarrow> 'f Value option \<Rightarrow> 'f Value option go" where
  "JsonValue_Mul jv v = fail_with (''mul operation is unsupported for json '' @ jv)"

definition JsonValue_Div :: "string \<Rightarrow> 'f Value option \<Rightarrow> 'f Value option go" where
  "JsonValue_Div jv v = fail_with (''div operation is unsupported for json '' @ jv)"

definition JsonValue_EQ :: "string \<Rightarrow> 'f Value option \<Rightarrow> bool go" where
  "JsonValue_EQ jv v = fail_with (''eq operation is unsupported for json '' @ jv)"

definition JsonValue_GT :: "string \<Rightarrow> 'f Value option \<Rightarrow> bool go" where
  "JsonValue_GT jv v = fail_with (''gt operation is unsupported for json '' @ jv)"

definition JsonValue_GTE :: "string \<Rightarrow> 'f Value option \<Rightarrow> bool go" where
  "JsonValue_GTE jv v = fail_with (''gte operation is unsupported for json '' @ jv)"

definition JsonValue_LT :: "string \<Rightarrow> 'f Value option \<Rightarrow> bool go" where
  "JsonValue_LT jv v = fail_with (''lt operation is unsupported for json '' @ jv)"

definition JsonValue_LTE :: "string \<Rightarrow> 'f Value option \<Rightarrow> bool go" where
  "JsonValue_LTE jv v = fail_with (''lte operation is unsupported for json '' @ jv)"

section \<open>Arrays\<close>

definition ArrayValue_Add :: "'f Runtime \<Rightarrow> 'f array \<Rightarrow> 'f Value option \<Rightarrow> 'f Value option go" where
  "ArrayValue_Add R av v = fail_with (''add operation is unsupported for array '' @ rtShow R (Some (ArrayValue av)))"

definition ArrayValue_Sub :: "'f Runtime \<Rightarrow> 'f array \<Rightarrow> 'f Value option \<Rightarrow> 'f Value option go" where
  "ArrayValue_Sub R av v = fail_with (''sub operation is unsupported for array '' @ rtShow R (Some (ArrayValue av)))"

definition ArrayValue_Mul :: "'f Runtime \<Rightarrow> 'f array \<Rightarrow> 'f Value option \<Rightarrow> 'f Value option go" where
  "ArrayValue_Mul R av v = fail_with (''mul operation is unsupported for array '' @ rtShow R (Some (ArrayValue av)))"

definition ArrayValue_Div :: "'f Runtime \<Rightarrow> 'f array \<Rightarrow> 'f Value option \<Rightarrow> 'f Value option go" where
  "ArrayValue_Div R av v = fail_with (''div operation is unsupported for array '' @ rtShow R (Some (ArrayValue av)))"

text \<open>
  The five comparisons of arrays call, element by element, the comparison of an element of the
  \<^emph>\<open>argument\<close> with the element of the receiver; \<open>cmp\<close> is that method of the elements.
\<close>

definition compareElements ::
  "('f Value \<Rightarrow> 'f Value option \<Rightarrow> bool go) \<Rightarrow> 'f array option go \<Rightarrow> 'f array \<Rightarrow> bool go" where
  "compareElements cmp arg av =
     go_bind arg (\<lambda>arr. onNil arr (\<lambda>arr.
     if length arr \<noteq> length av then ok False
     else goEvery (map (\<lambda>(a, value). onNil a (\<lambda>x. cmp x value)) (zip arr av))))"

definition ArrayValue_EQ ::
  "('f Value \<Rightarrow> 'f Value option \<Rightarrow> bool go) \<Rightarrow> 'f array option go \<Rightarrow> 'f array \<Rightarrow> bool go" where
  "ArrayValue_EQ elemEQ arg av = compareElements elemEQ arg av"

definition ArrayValue_GT ::
  "('f Value \<Rightarrow> 'f Value option \<Rightarrow> bool go) \<Rightarrow> 'f array option go \<Rightarrow> 'f array \<Rightarrow> bool go" where
  "ArrayValue_GT elemGT arg av = compareElements elemGT arg av"

definition ArrayValue_GTE ::
  "('f Value \<Rightarrow> 'f Value option \<Rightarrow> bool go) \<Rightarrow> 'f array option go \<Rightarrow> 'f array \<Rightarrow> bool go" where
  "ArrayValue_GTE elemGTE arg av = compareElements elemGTE arg av"

definition ArrayValue_LT ::
  "('f Value \<Rightarrow> 'f Value option \<Rightarrow> bool go) \<Rightarrow> 'f array option go \<Rightarrow> 'f array \<Rightarrow> bool go" where
  "ArrayValue_LT elemLT arg av = compareElements elemLT arg av"

definition ArrayValue_LTE ::
  "('f Value \<Rightarrow> 'f Value option \<Rightarrow> bool go) \<Rightarrow> 'f array option go \<Rightarrow> 'f array \<Rightarrow> bool go" where
  "ArrayValue_LTE elemLTE arg av = compareElements elemLTE arg av"

section \<open>Structs\<close>

definition StructValue_Add :: "'f Runtime \<Rightarrow> string list \<Rightarrow> 'f array \<Rightarrow> (string \<times> 'f Value option) list \<Rightarrow> 'f Value option \<Rightarrow> 'f Value option go" where
  "StructValue_Add R keys vals m v = fail_with (''add operation is unsupported for struct ''
     @ rtShow R (Some (StructValue keys vals m)))"

definition StructValue_Sub :: "'f Runtime \<Rightarrow> string list \<Rightarrow> 'f array \<Rightarrow> (string \<times> 'f Value option) list \<Rightarrow> 'f Value option \<Rightarrow> 'f Value option go" where
  "StructValue_Sub R keys vals m v = fail_with (''sub operation is unsupported for struct ''
     @ rtShow R (Some (StructValue keys vals m)))"

definition StructValue_Mul :: "'f Runtime \<Rightarrow> string list \<Rightarrow> 'f array \<Rightarrow> (string \<times> 'f Value option) list \<Rightarrow> 'f Value option \<Rightarrow> 'f Value option go" where
  "StructValue_Mul R keys vals m v = fail_with (''mul operation is unsupported for struct ''
     @ rtShow R (Some (StructValue keys vals m)))"

definition StructValue_Div :: "'f Runtime \<Rightarrow> string list \<Rightarrow> 'f array \<Rightarrow> (string \<times> 'f Value option) list \<Rightarrow> 'f Value option \<Rightarrow> 'f Value option go" where
  "StructValue_Div R keys vals m v = fail_with (''div operation is unsupported for struct ''
     @ rtShow R (Some (StructValue keys vals m)))"

text \<open>
  The comparisons of structs range over the map of the receiver and call the method of the value
  the argument has under the same key; a missing key gives a nil interface.
\<close>

definition compareFields ::
  "'f Runtime \<Rightarrow> ('f Value \<Rightarrow> 'f Value option \<Rightarrow> bool go) \<Rightarrow> 'f struct option go \<Rightarrow>
   (string \<times> 'f Value option) list \<Rightarrow> bool go" where
  "compareFields R cmp arg m =
     go_bind arg (\<lambda>st. onNil st (\<lambda>st.
     if length (snd (snd st)) \<noteq> length m then ok False
     else goEvery (map (\<lambda>key. onNil (Option.bind (map_of (snd (snd st)) key) (\<lambda>a. a)) (\<lambda>x.
            cmp x (Option.bind (map_of m key) (\<lambda>a. a)))) (rtKeyOrder R (map fst m)))))"

definition StructValue_EQ ::
  "'f Runtime \<Rightarrow> ('f Value \<Rightarrow> 'f Value option \<Rightarrow> bool go) \<Rightarrow> 'f struct option go \<Rightarrow> (string \<times> 'f Value option) list \<Rightarrow> bool go" where
  "StructValue_EQ R fieldEQ arg m = compareFields R fieldEQ arg m"

definition StructValue_GT ::
  "'f Runtime \<Rightarrow> ('f Value \<Rightarrow> 'f Value option \<Rightarrow> bool go) \<Rightarrow> 'f struct option go \<Rightarrow> (string \<times> 'f Value option) list \<Rightarrow> bool go" where
  "StructValue_GT R fieldGT arg m = compareFields R fieldGT arg m"

definition StructValue_GTE ::
  "'f Runtime \<Rightarrow> ('f Value \<Rightarrow> 'f Value option \<Rightarrow> bool go) \<Rightarrow> 'f struct option go \<Rightarrow> (string \<times> 'f Value option) list \<Rightarrow> bool go" where
  "StructValue_GTE R fieldGTE arg m = compareFields R fieldGTE arg m"

definition StructValue_LT ::
  "'f Runtime \<Rightarrow> ('f Value \<Rightarrow> 'f Value option \<Rightarrow> bool go) \<Rightarrow> 'f struct option go \<Rightarrow> (string \<times> 'f Value option) list \<Rightarrow> bool go" where
  "StructValue_LT R fieldLT arg m = compareFields R fieldLT arg m"

definition StructValue_LTE ::
  "'f Runtime \<Rightarrow> ('f Value \<Rightarrow> 'f Value option \<Rightarrow> bool go) \<Rightarrow> 'f struct option go \<Rightarrow> (string \<times> 'f Value option) list \<Rightarrow> bool go" where
  "StructValue_LTE R fieldLTE arg m = compareFields R fieldLTE arg m"

section \<open>Dates and times\<close>

text \<open>\<open>time.Date\<close> of the fields of a time, each moved by that of the interval; \<open>sign\<close> is \<open>1\<close> or \<open>-1\<close>.\<close>

definition shiftByInterval :: "int \<Rightarrow> IntervalFields \<Rightarrow> Time \<Rightarrow> Time" where
  "shiftByInterval sign vv src =
     time_Date (Time_Year src + sign * Years vv) (Time_Month src + sign * Months vv)
       (Time_Day src + sign * Days vv) (Time_Hour src + sign * Hours vv)
       (Time_Minute src + sign * Minutes vv) (Time_Second src + sign * Seconds vv)
       (Time_Nanosecond src + sign * SubSecondNanos vv) (tLoc src)"

text \<open>The type \<open>%T\<close> prints for an argument.\<close>

definition typeName :: "'f Value option \<Rightarrow> string" where
  "typeName v =
     (case v of
        None \<Rightarrow> ''<nil>''
      | Some (IntValue _) \<Rightarrow> ''internal.IntValue'' | Some (StringValue _) \<Rightarrow> ''internal.StringValue''
      | Some (BytesValue _) \<Rightarrow> ''internal.BytesValue'' | Some (FloatValue _) \<Rightarrow> ''internal.FloatValue''
      | Some (NumericValue _ _) \<Rightarrow> ''*internal.NumericValue'' | Some (BoolValue _) \<Rightarrow> ''internal.BoolValue''
      | Some (JsonValue _) \<Rightarrow> ''internal.JsonValue'' | Some (ArrayValue _) \<Rightarrow> ''*internal.ArrayValue''
      | Some (StructValue _ _ _) \<Rightarrow> ''*internal.StructValue'' | Some (DateValue _) \<Rightarrow> ''internal.DateValue''
      | Some (DatetimeValue _) \<Rightarrow> ''internal.DatetimeValue'' | Some (TimeValue _) \<Rightarrow> ''internal.TimeValue''
      | Some (TimestampValue _) \<Rightarrow> ''internal.TimestampValue''
      | Some (IntervalValue _) \<Rightarrow> ''*internal.IntervalValue'' | Some (SafeValue _) \<Rightarrow> ''*internal.SafeValue'')"

definition DateValue_AddDateWithInterval :: "Time \<Rightarrow> int \<Rightarrow> string \<Rightarrow> 'f Value option go" where
  "DateValue_AddDateWithInterval d v interval =
     ok (Some (DateValue
       (if interval = ''WEEK'' then AddDate 0 0 (wrap64 (v * 7)) d
        else if interval = ''MONTH'' then AddDate 0 v 0 d
        else if interval = ''YEAR'' then AddDate v 0 0 d
        else AddDate 0 0 v d)))"

definition DateValue_Add :: "Time \<Rightarrow> 'f Value option \<Rightarrow> 'f Value option go" where
  "DateValue_Add d v =
     (case v of
        Some (IntervalValue vv) \<Rightarrow> ok (Some (DatetimeValue (shiftByInterval 1 vv d)))
      | Some (IntValue vv) \<Rightarrow> ok (Some (DateValue (AddDate 0 0 vv d)))
      | _ \<Rightarrow> fail_with (''failed to use add operator for date and '' @ typeName v @ '' type''))"

definition DateValue_Sub :: "'f Runtime \<Rightarrow> Time \<Rightarrow> 'f Value option \<Rightarrow> 'f Value option go" where
  "DateValue_Sub R d v =
     (case v of
        Some (IntervalValue vv) \<Rightarrow> ok (Some (DatetimeValue (shiftByInterval (- 1) vv d)))
      | Some (IntValue vv) \<Rightarrow> ok (Some (DateValue (AddDate 0 0 (wrap64 (- vv)) d)))
      | _ \<Rightarrow> go_bind (argTime R v) (\<lambda>dst.
          ok (Some (IntervalValue (noInterval\<lparr>Days := wrap32 (Time_Sub d dst sdiv (24 * Hour))\<rparr>)))))"

definition DatetimeValue_Add :: "Time \<Rightarrow> 'f Value option \<Rightarrow> 'f Value option go" where
  "DatetimeValue_Add d v =
     (case v of
        Some (IntervalValue vv) \<Rightarrow> ok (Some (DatetimeValue (shiftByInterval 1 vv d)))
      | _ \<Rightarrow> fail_with (''failed to use add operator for datetime and '' @ typeName v @ '' type''))"

definition DatetimeValue_Sub :: "'f Runtime \<Rightarrow> Time \<Rightarrow> 'f Value option \<Rightarrow> 'f Value option go" where
  "DatetimeValue_Sub R d v =
     (case v of
        Some (IntervalValue vv) \<Rightarrow> ok (Some (DatetimeValue (shiftByInterval (- 1) vv d)))
      | _ \<Rightarrow> go_bind (argTime R v) (\<lambda>dst.
          ok (Some (IntervalValue (rtIntervalOfDuration R (Time_Sub d dst))))))"

definition TimestampValue_AddValueWithPart :: "Time \<Rightarrow> int \<Rightarrow> string \<Rightarrow> 'f Value option go" where
  "TimestampValue_AddValueWithPart t v part =
     (let add = (\<lambda>d. ok (Some (TimestampValue (Time_Add d t)))) in
      if part = ''MICROSECOND'' then add (wrap64 (v * Microsecond))
      else if part = ''MILLISECOND'' then add (wrap64 (v * Millisecond))
      else if part = ''SECOND'' then add (wrap64 (v * Second))
      else if part = ''MINUTE'' then add (wrap64 (v * Minute))
      else if part = ''HOUR'' then add (wrap64 (v * Hour))
      else if part = ''DAY'' then add (wrap64 (wrap64 (v * Hour) * 24))
      else fail_with (''unknown part value for timestamp: '' @ part))"

definition TimestampValue_Add :: "Time \<Rightarrow> 'f Value option \<Rightarrow> 'f Value option go" where
  "TimestampValue_Add t v =
     (case v of
        Some (IntervalValue vv) \<Rightarrow> ok (Some (TimestampValue (shiftByInterval 1 vv t)))
      | _ \<Rightarrow> fail_with (''failed to use add operator for timestamp and '' @ typeName v @ '' type''))"

definition TimestampValue_Sub :: "'f Runtime \<Rightarrow> Time \<Rightarrow> 'f Value option \<Rightarrow> 'f Value option go" where
  "TimestampValue_Sub R t v =
     (case v of
        Some (IntervalValue vv) \<Rightarrow> ok (Some (TimestampValue (shiftByInterval (- 1) vv t)))
      | _ \<Rightarrow> go_bind (argTime R v) (\<lambda>dst.
          ok (Some (IntervalValue (rtIntervalOfDuration R (Time_Sub t dst))))))"

definition TimeValue_Add :: "'f Runtime \<Rightarrow> Time \<Rightarrow> 'f Value option \<Rightarrow> 'f Value option go" where
  "TimeValue_Add R t v = fail_with (''add operation is unsupported for time '' @ rtShow R (Some (TimeValue t)))"

definition TimeValue_Sub :: "'f Runtime \<Rightarrow> Time \<Rightarrow> 'f Value option \<Rightarrow> 'f Value option go" where
  "TimeValue_Sub R t v = fail_with (''sub operation is unsupported for time '' @ rtShow R (Some (TimeValue t)))"

definition DateValue_Mul :: "'f Runtime \<Rightarrow> Time \<Rightarrow> 'f Value option \<Rightarrow> 'f Value option go" where
  "DateValue_Mul R t v = fail_with (''mul operation is unsupported for date '' @ rtShow R (Some (DateValue t)))"

definition DateValue_Div :: "'f Runtime \<Rightarrow> Time \<Rightarrow> 'f Value option \<Rightarrow> 'f Value option go" where
  "DateValue_Div R t v = fail_with (''div operation is unsupported for date '' @ rtShow R (Some (DateValue t)))"

definition DateValue_EQ :: "'f Runtime \<Rightarrow> Time \<Rightarrow> 'f Value option \<Rightarrow> bool go" where
  "DateValue_EQ R t v = go_bind (comparand R ''time.Time'' v (argTime R v)) (\<lambda>v2. ok (Time_Equal t v2))"

definition DateValue_GT :: "'f Runtime \<Rightarrow> Time \<Rightarrow> 'f Value option \<Rightarrow> bool go" where
  "DateValue_GT R t v = go_bind (comparand R ''time.Time'' v (argTime R v)) (\<lambda>v2. ok (Time_After t v2))"

definition DateValue_GTE :: "'f Runtime \<Rightarrow> Time \<Rightarrow> 'f Value option \<Rightarrow> bool go" where
  "DateValue_GTE R t v = go_bind (comparand R ''time.Time'' v (argTime R v)) (\<lambda>v2. ok (Time_Equal t v2 \<or> Time_After t v2))"

definition DateValue_LT :: "'f Runtime \<Rightarrow> Time \<Rightarrow> 'f Value option \<Rightarrow> bool go" where
  "DateValue_LT R t v = go_bind (comparand R ''time.Time'' v (argTime R v)) (\<lambda>v2. ok (Time_Before t v2))"

definition DateValue_LTE :: "'f Runtime \<Rightarrow> Time \<Rightarrow> 'f Value option \<Rightarrow> bool go" where
  "DateValue_LTE R t v = go_bind (comparand R ''time.Time'' v (argTime R v)) (\<lambda>v2. ok (Time_Equal t v2 \<or> Time_Before t v2))"

definition DatetimeValue_Mul :: "'f Runtime \<Rightarrow> Time \<Rightarrow> 'f Value option \<Rightarrow> 'f Value option go" where
  "DatetimeValue_Mul R t v = fail_with (''mul operation is unsupported for datetime '' @ rtShow R (Some (DatetimeValue t)))"

definition DatetimeValue_Div :: "'f Runtime \<Rightarrow> Time \<Rightarrow> 'f Value option \<Rightarrow> 'f Value option go" where
  "DatetimeValue_Div R t v = fail_with (''div operation is unsupported for datetime '' @ rtShow R (Some (DatetimeValue t)))"

definition DatetimeValue_EQ :: "'f Runtime \<Rightarrow> Time \<Rightarrow> 'f Value option \<Rightarrow> bool go" where
  "DatetimeValue_EQ R t v = go_bind (comparand R ''time.Time'' v (argTime R v)) (\<lambda>v2. ok (Time_Equal t v2))"

definition DatetimeValue_GT :: "'f Runtime \<Rightarrow> Time \<Rightarrow> 'f Value option \<Rightarrow> bool go" where
  "DatetimeValue_GT R t v = go_bind (comparand R ''time.Time'' v (argTime R v)) (\<lambda>v2. ok (Time_After t v2))"

definition DatetimeValue_GTE :: "'f Runtime \<Rightarrow> Time \<Rightarrow> 'f Value option \<Rightarrow> bool go" where
  "DatetimeValue_GTE R t v = go_bind (comparand R ''time.Time'' v (argTime R v)) (\<lambda>v2. ok (Time_Equal t v2 \<or> Time_After t v2))"

definition DatetimeValue_LT :: "'f Runtime \<Rightarrow> Time \<Rightarrow> 'f Value option \<Rightarrow> bool go" where
  "DatetimeValue_LT R t v = go_bind (comparand R ''time.Time'' v (argTime R v)) (\<lambda>v2. ok (Time_Before t v2))"

definition DatetimeValue_LTE :: "'f Runtime \<Rightarrow> Time \<Rightarrow> 'f Value option \<Rightarrow> bool go" where
  "DatetimeValue_LTE R t v = go_bind (comparand R ''time.Time'' v (argTime R v)) (\<lambda>v2. ok (Time_Equal t v2 \<or> Time_Before t v2))"

definition TimeValue_Mul :: "'f Runtime \<Rightarrow> Time \<Rightarrow> 'f Value option \<Rightarrow> 'f Value option go" where
  "TimeValue_Mul R t v = fail_with (''mul operation is unsupported for time '' @ rtShow R (Some (TimeValue t)))"

definition TimeValue_Div :: "'f Runtime \<Rightarrow> Time \<Rightarrow> 'f Value option \<Rightarrow> 'f Value option go" where
  "TimeValue_Div R t v = fail_with (''div operation is unsupported for time '' @ rtShow R (Some (TimeValue t)))"

definition TimeValue_EQ :: "'f Runtime \<Rightarrow> Time \<Rightarrow> 'f Value option \<Rightarrow> bool go" where
  "TimeValue_EQ R t v = go_bind (comparand R ''time.Time'' v (argTime R v)) (\<lambda>v2. ok (Time_Equal t v2))"

definition TimeValue_GT :: "'f Runtime \<Rightarrow> Time \<Rightarrow> 'f Value option \<Rightarrow> bool go" where
  "TimeValue_GT R t v = go_bind (comparand R ''time.Time'' v (argTime R v)) (\<lambda>v2. ok (Time_After t v2))"

definition TimeValue_GTE :: "'f Runtime \<Rightarrow> Time \<Rightarrow> 'f Value option \<Rightarrow> bool go" where
  "TimeValue_GTE R t v = go_bind (comparand R ''time.Time'' v (argTime R v)) (\<lambda>v2. ok (Time_Equal t v2 \<or> Time_After t v2))"

definition TimeValue_LT :: "'f Runtime \<Rightarrow> Time \<Rightarrow> 'f Value option \<Rightarrow> bool go" where
  "TimeValue_LT R t v = go_bind (comparand R ''time.Time'' v (argTime R v)) (\<lambda>v2. ok (Time_Before t v2))"

definition TimeValue_LTE :: "'f Runtime \<Rightarrow> Time \<Rightarrow> 'f Value option \<Rightarrow> bool go" where
  "TimeValue_LTE R t v = go_bind (comparand R ''time.Time'' v (argTime R v)) (\<lambda>v2. ok (Time_Equal t v2 \<or> Time_Before t v2))"

definition TimestampValue_Mul :: "'f Runtime \<Rightarrow> Time \<Rightarrow> 'f Value option \<Rightarrow> 'f Value option go" where
  "TimestampValue_Mul R t v = fail_with (''mul operation is unsupported for timestamp '' @ rtShow R (Some (TimestampValue t)))"

definition TimestampValue_Div :: "'f Runtime \<Rightarrow> Time \<Rightarrow> 'f Value option \<Rightarrow> 'f Value option go" where
  "TimestampValue_Div R t v = fail_with (''div operation is unsupported for timestamp '' @ rtShow R (Some (TimestampValue t)))"

definition TimestampValue_EQ :: "'f Runtime \<Rightarrow> Time \<Rightarrow> 'f Value option \<Rightarrow> bool go" where
  "TimestampValue_EQ R t v = go_bind (comparand R ''time.Time'' v (argTime R v)) (\<lambda>v2. ok (Time_Equal t v2))"

definition TimestampValue_GT :: "'f Runtime \<Rightarrow> Time \<Rightarrow> 'f Value option \<Rightarrow> bool go" where
  "TimestampValue_GT R t v = go_bind (comparand R ''time.Time'' v (argTime R v)) (\<lambda>v2. ok (Time_After t v2))"

definition TimestampValue_GTE :: "'f Runtime \<Rightarrow> Time \<Rightarrow> 'f Value option \<Rightarrow> bool go" where
  "TimestampValue_GTE R t v = go_bind (comparand R ''time.Time'' v (argTime R v)) (\<lambda>v2. ok (Time_Equal t v2 \<or> Time_After t v2))"

definition TimestampValue_LT :: "'f Runtime \<Rightarrow> Time \<Rightarrow> 'f Value option \<Rightarrow> bool go" where
  "TimestampValue_LT R t v = go_bind (comparand R ''time.Time'' v (argTime R v)) (\<lambda>v2. ok (Time_Before t v2))"

definition TimestampValue_LTE :: "'f Runtime \<Rightarrow> Time \<Rightarrow> 'f Value option \<Rightarrow> bool go" where
  "TimestampValue_LTE R t v = go_bind (comparand R ''time.Time'' v (argTime R v)) (\<lambda>v2. ok (Time_Equal t v2 \<or> Time_Before t v2))"

section \<open>Intervals and safe values\<close>

definition IntervalValue_Add :: "IntervalFields \<Rightarrow> 'f Value option \<Rightarrow> 'f Value option go" where
  "IntervalValue_Add iv v = fail_with ''unsupported add operator for interval value''"

definition IntervalValue_Sub :: "IntervalFields \<Rightarrow> 'f Value option \<Rightarrow> 'f Value option go" where
  "IntervalValue_Sub iv v = fail_with ''unsupported sub operator for interval value''"

definition IntervalValue_Mul :: "IntervalFields \<Rightarrow> 'f Value option \<Rightarrow> 'f Value option go" where
  "IntervalValue_Mul iv v = fail_with ''unsupported mul operator for interval value''"

definition IntervalValue_Div :: "IntervalFields \<Rightarrow> 'f Value option \<Rightarrow> 'f Value option go" where
  "IntervalValue_Div iv v = fail_with ''unsupported div operator for interval value''"

definition IntervalValue_EQ :: "IntervalFields \<Rightarrow> 'f Value option \<Rightarrow> bool go" where
  "IntervalValue_EQ iv v = fail_with ''unsupported eq operator for interval value''"

definition IntervalValue_GT :: "IntervalFields \<Rightarrow> 'f Value option \<Rightarrow> bool go" where
  "IntervalValue_GT iv v = fail_with ''unsupported gt operator for interval value''"

definition IntervalValue_GTE :: "IntervalFields \<Rightarrow> 'f Value option \<Rightarrow> bool go" where
  "IntervalValue_GTE iv v = fail_with ''unsupporte gte operator for interval value''"

definition IntervalValue_LT :: "IntervalFields \<Rightarrow> 'f Value option \<Rightarrow> bool go" where
  "IntervalValue_LT iv v = fail_with ''unsupported lt operator for interval value''"

definition IntervalValue_LTE :: "IntervalFields \<Rightarrow> 'f Value option \<Rightarrow> bool go" where
  "IntervalValue_LTE iv v = fail_with ''unsupported lte operator for interval value''"

definition SafeValue_Add :: "'f Value option go \<Rightarrow> 'f Value option go" where
  "SafeValue_Add r = safely None r"

definition SafeValue_Sub :: "'f Value option go \<Rightarrow> 'f Value option go" where
  "SafeValue_Sub r = safely None r"

definition SafeValue_Mul :: "'f Value option go \<Rightarrow> 'f Value option go" where
  "SafeValue_Mul r = safely None r"

definition SafeValue_Div :: "'f Value option go \<Rightarrow> 'f Value option go" where
  "SafeValue_Div r = safely None r"

definition SafeValue_EQ :: "bool go \<Rightarrow> bool go" where
  "SafeValue_EQ r = safely False r"

definition SafeValue_GT :: "bool go \<Rightarrow> bool go" where
  "SafeValue_GT r = safely False r"

definition SafeValue_GTE :: "bool go \<Rightarrow> bool go" where
  "SafeValue_GTE r = safely False r"

definition SafeValue_LT :: "bool go \<Rightarrow> bool go" where
  "SafeValue_LT r = safely False r"

definition SafeValue_LTE :: "bool go \<Rightarrow> bool go" where
  "SafeValue_LTE r = safely False r"

section \<open>Dispatch of the arithmetic\<close>

primrec Value_Add :: "'f Runtime \<Rightarrow> 'f Value \<Rightarrow> 'f Value option \<Rightarrow> 'f Value option go" where
  "Value_Add R (IntValue iv) v = IntValue_Add R iv v"
| "Value_Add R (StringValue sv) v = StringValue_Add R sv v"
| "Value_Add R (BytesValue bv) v = BytesValue_Add R bv v"
| "Value_Add R (FloatValue fv) v = FloatValue_Add R fv v"
| "Value_Add R (NumericValue rat isBig) v = NumericValue_Add R rat isBig v"
| "Value_Add R (BoolValue bv) v = BoolValue_Add bv v"
| "Value_Add R (JsonValue jv) v = JsonValue_Add jv v"
| "Value_Add R (ArrayValue av) v = ArrayValue_Add R av v"
| "Value_Add R (StructValue keys vals m) v = StructValue_Add R keys vals m v"
| "Value_Add R (DateValue t) v = DateValue_Add t v"
| "Value_Add R (DatetimeValue t) v = DatetimeValue_Add t v"
| "Value_Add R (TimeValue t) v = TimeValue_Add R t v"
| "Value_Add R (TimestampValue t) v = TimestampValue_Add t v"
| "Value_Add R (IntervalValue iv) v = IntervalValue_Add iv v"
| "Value_Add R (SafeValue w) v = SafeValue_Add (Value_Add R w v)"

primrec Value_Sub :: "'f Runtime \<Rightarrow> 'f Value \<Rightarrow> 'f Value option \<Rightarrow> 'f Value option go" where
  "Value_Sub R (IntValue iv) v = IntValue_Sub R iv v"
| "Value_Sub R (StringValue sv) v = StringValue_Sub sv v"
| "Value_Sub R (BytesValue bv) v = BytesValue_Sub R bv v"
| "Value_Sub R (FloatValue fv) v = FloatValue_Sub R fv v"
| "Value_Sub R (NumericValue rat isBig) v = NumericValue_Sub R rat isBig v"
| "Value_Sub R (BoolValue bv) v = BoolValue_Sub bv v"
| "Value_Sub R (JsonValue jv) v = JsonValue_Sub jv v"
| "Value_Sub R (ArrayValue av) v = ArrayValue_Sub R av v"
| "Value_Sub R (StructValue keys vals m) v = StructValue_Sub R keys vals m v"
| "Value_Sub R (DateValue t) v = DateValue_Sub R t v"
| "Value_Sub R (DatetimeValue t) v = DatetimeValue_Sub R t v"
| "Value_Sub R (TimeValue t) v = TimeValue_Sub R t v"
| "Value_Sub R (TimestampValue t) v = TimestampValue_Sub R t v"
| "Value_Sub R (IntervalValue iv) v = IntervalValue_Sub iv v"
| "Value_Sub R (SafeValue w) v = SafeValue_Sub (Value_Sub R w v)"

primrec Value_Mul :: "'f Runtime \<Rightarrow> 'f Value \<Rightarrow> 'f Value option \<Rightarrow> 'f Value option go" where
  "Value_Mul R (IntValue iv) v = IntValue_Mul R iv v"
| "Value_Mul R (StringValue sv) v = StringValue_Mul sv v"
| "Value_Mul R (BytesValue bv) v = BytesValue_Mul R bv v"
| "Value_Mul R (FloatValue fv) v = FloatValue_Mul R fv v"
| "Value_Mul R (NumericValue rat isBig) v = NumericValue_Mul R rat isBig v"
| "Value_Mul R (BoolValue bv) v = BoolValue_Mul bv v"
| "Value_Mul R (JsonValue jv) v = JsonValue_Mul jv v"
| "Value_Mul R (ArrayValue av) v = ArrayValue_Mul R av v"
| "Value_Mul R (StructValue keys vals m) v = StructValue_Mul R keys vals m v"
| "Value_Mul R (DateValue t) v = DateValue_Mul R t v"
| "Value_Mul R (DatetimeValue t) v = DatetimeValue_Mul R t v"
| "Value_Mul R (TimeValue t) v = TimeValue_Mul R t v"
| "Value_Mul R (TimestampValue t) v = TimestampValue_Mul R t v"
| "Value_Mul R (IntervalValue iv) v = IntervalValue_Mul iv v"
| "Value_Mul R (SafeValue w) v = SafeValue_Mul (Value_Mul R w v)"

primrec Value_Div :: "'f Runtime \<Rightarrow> 'f Value \<Rightarrow> 'f Value option \<Rightarrow> 'f Value option go" where
  "Value_Div R (IntValue iv) v = IntValue_Div R iv v"
| "Value_Div R (StringValue sv) v = StringValue_Div sv v"
| "Value_Div R (BytesValue bv) v = BytesValue_Div R bv v"
| "Value_Div R (FloatValue fv) v = FloatValue_Div R fv v"
| "Value_Div R (NumericValue rat isBig) v = NumericValue_Div R rat isBig v"
| "Value_Div R (BoolValue bv) v = BoolValue_Div bv v"
| "Value_Div R (JsonValue jv) v = JsonValue_Div jv v"
| "Value_Div R (ArrayValue av) v = ArrayValue_Div R av v"
| "Value_Div R (StructValue keys vals m) v = StructValue_Div R keys vals m v"
| "Value_Div R (DateValue t) v = DateValue_Div R t v"
| "Value_Div R (DatetimeValue t) v = DatetimeValue_Div R t v"
| "Value_Div R (TimeValue t) v = TimeValue_Div R t v"
| "Value_Div R (TimestampValue t) v = TimestampValue_Div R t v"
| "Value_Div R (IntervalValue iv) v = IntervalValue_Div iv v"
| "Value_Div R (SafeValue w) v = SafeValue_Div (Value_Div R w v)"

section \<open>Dispatch of the comparisons\<close>

text \<open>
  The comparisons recurse into the argument's elements and fields, which are smaller than the
  argument.
\<close>

datatype CmpOp = EQ | GT | GTE | LT | LTE

lemma safely_Some: "safely d r = ok x \<longleftrightarrow> r = ok x \<or> (\<exists>msg. r = fail_with msg) \<and> x = d"
  by (auto simp: safely_def split: sum.splits go_error.splits)

lemma nilPanic_not_ok [simp]: "nilPanic \<noteq> ok x"
  by (simp add: nilPanic_def)

lemma onNil_ok: "onNil p f = ok y \<longleftrightarrow> (\<exists>x. p = Some x \<and> f x = ok y)"
  by (cases p) simp_all

lemma size_element: "x \<in> set xs \<Longrightarrow> f x < Suc (size_list f xs)"
  by (induction xs) auto

lemma element_size: "y \<in> set av \<Longrightarrow> size_option size y \<le> size_list (size_option size) av"
  using size_element [of y av "size_option size"] by simp

lemma field_size:
  "(k, y) \<in> set m \<Longrightarrow> size_option size y \<le> size_list (size_prod (\<lambda>_. 0) (size_option size)) m"
  using size_element [of "(k, y)" m "size_prod (\<lambda>_. 0) (size_option size)"] by simp

lemma element_smaller: "Some x \<in> set av \<Longrightarrow> size x < size (ArrayValue av)"
  using size_element [of "Some x" av "size_option size"] by simp

lemma field_smaller: "Some x \<in> set vals \<Longrightarrow> size x < size (StructValue keys vals m)"
  using size_element [of "Some x" vals "size_option size"] by simp

lemma mapped_smaller: "(k, Some x) \<in> set m \<Longrightarrow> size x < size (StructValue keys vals m)"
  using size_element [of "(k, Some x)" m "size_prod (\<lambda>_. 0) (size_option size)"] by simp

lemma ToArray_smaller:
  "Value_ToArray R v = ok (Some arr) \<Longrightarrow> Some x \<in> set arr \<Longrightarrow> size x < size v"
proof (induction v)
  case (ArrayValue av)
  then show ?case using element_smaller by (auto simp: ArrayValue_ToArray_def)
next
  case (SafeValue w)
  then show ?case by (fastforce simp: SafeValue_ToArray_def safely_Some)
qed (auto simp: IntValue_ToArray_def StringValue_ToArray_def BytesValue_ToArray_def FloatValue_ToArray_def
    NumericValue_ToArray_def BoolValue_ToArray_def JsonValue_ToArray_def StructValue_ToArray_def
    DateValue_ToArray_def DatetimeValue_ToArray_def TimeValue_ToArray_def TimestampValue_ToArray_def
    IntervalValue_ToArray_def split: if_splits)

lemma ArrayValue_ToStruct_parts:
  assumes "ArrayValue_ToStruct R av (map (map_option f) av) = ok (Some (keys, vals, m))"
    and "Some x \<in> set vals \<or> (k, Some x) \<in> set m"
  obtains w ks vs ms where "Some w \<in> set av" "f w = ok (Some (ks, vs, ms))" "Some x \<in> set vs"
proof -
  have "Some x \<in> set vals"
    using assms by (auto simp: ArrayValue_ToStruct_def go_bind_Inr_iff Let_def dest!: mapOfFields_in set_zip_rightD)
  then obtain sts st where sts: "goList (map (\<lambda>e. onNil e (\<lambda>r.
         go_bind (replaceError (''cannot convert an array of non-struct elements into struct: ''
           @ rtShow R (Some (ArrayValue av))) r) (\<lambda>st. onNil st (\<lambda>st.
           if length (fst (snd st)) < length (fst st) then panic ''index out of range'' else ok st))))
       (map (map_option f) av)) = ok sts"
    and st: "st \<in> set sts" "Some x \<in> set (take (length (fst st)) (fst (snd st)))"
    using assms(1) by (auto simp: ArrayValue_ToStruct_def go_bind_Inr_iff Let_def)
  obtain e where e: "e \<in> set av" "onNil (map_option f e) (\<lambda>r.
         go_bind (replaceError (''cannot convert an array of non-struct elements into struct: ''
           @ rtShow R (Some (ArrayValue av))) r) (\<lambda>st. onNil st (\<lambda>st.
           if length (fst (snd st)) < length (fst st) then panic ''index out of range'' else ok st))) = ok st"
    using sts st(1) by (rule goList_in) auto
  then obtain w where "e = Some w" "f w = ok (Some st)"
    by (auto simp: onNil_ok go_bind_Inr_iff replaceError_iff split: if_splits)
  then show ?thesis using e(1) st(2) that by (cases st) (auto dest: in_set_takeD)
qed

lemma ToStruct_smaller:
  "Value_ToStruct R v = ok (Some (keys, vals, m)) \<Longrightarrow> Some x \<in> set vals \<or> (k, Some x) \<in> set m \<Longrightarrow>
   size x < size v"
proof (induction v arbitrary: keys vals m x k)
  case (ArrayValue av)
  from ArrayValue.prems obtain w ks vs ms where
    w: "Some w \<in> set av" "Value_ToStruct R w = ok (Some (ks, vs, ms))" "Some x \<in> set vs"
    by (auto elim: ArrayValue_ToStruct_parts)
  have "size x < size w" by (rule ArrayValue.IH [OF w(1) _ w(2)]) (use w(3) in auto)
  then show ?case using element_smaller [OF w(1)] by simp
next
  case (StructValue ks vs ms)
  then show ?case using field_smaller mapped_smaller by (fastforce simp: StructValue_ToStruct_def)
next
  case (SafeValue w)
  then show ?case by (fastforce simp: SafeValue_ToStruct_def safely_Some)
qed (auto simp: IntValue_ToStruct_def StringValue_ToStruct_def BytesValue_ToStruct_def FloatValue_ToStruct_def
    NumericValue_ToStruct_def BoolValue_ToStruct_def JsonValue_ToStruct_def
    DateValue_ToStruct_def DatetimeValue_ToStruct_def TimeValue_ToStruct_def TimestampValue_ToStruct_def
    IntervalValue_ToStruct_def split: if_splits)

text \<open>The comparison of elements and fields is only asked for elements and fields.\<close>

lemma compareElements_cong:
  assumes "arg = arg'" "av = av'"
    and "\<And>arr x y. arg' = ok (Some arr) \<Longrightarrow> Some x \<in> set arr \<Longrightarrow> y \<in> set av' \<Longrightarrow> f x y = g x y"
  shows "compareElements f arg av = compareElements g arg' av'"
proof (cases arg')
  case (Inr p)
  have "map (\<lambda>(a, value). onNil a (\<lambda>x. f x value)) (zip arr av')
      = map (\<lambda>(a, value). onNil a (\<lambda>x. g x value)) (zip arr av')" if "p = Some arr" for arr
    using assms(3) Inr that by (auto simp: onNil_def split: option.split elim!: in_set_zipE)
  then show ?thesis using assms(1,2) Inr
    by (cases p) (simp_all add: compareElements_def del: map_eq_conv)
qed (use assms(1,2) in \<open>simp add: compareElements_def\<close>)

lemma compareFields_cong:
  assumes "arg = arg'" "m = m'"
    and "\<And>ks vs ms k x y. arg' = ok (Some (ks, vs, ms)) \<Longrightarrow> (k, Some x) \<in> set ms \<Longrightarrow>
      y = None \<or> (k, y) \<in> set m' \<Longrightarrow> f x y = g x y"
  shows "compareFields R f arg m = compareFields R g arg' m'"
proof -
  have eq: "map (\<lambda>key. onNil (Option.bind (map_of ms key) (\<lambda>a. a)) (\<lambda>x. f x (Option.bind (map_of m' key) (\<lambda>a. a)))) keys
      = map (\<lambda>key. onNil (Option.bind (map_of ms key) (\<lambda>a. a)) (\<lambda>x. g x (Option.bind (map_of m' key) (\<lambda>a. a)))) keys"
    if "arg' = ok (Some (ks, vs, ms))" for ks vs ms keys
  proof (rule map_cong [OF refl])
    fix key
    show "onNil (Option.bind (map_of ms key) (\<lambda>a. a)) (\<lambda>x. f x (Option.bind (map_of m' key) (\<lambda>a. a)))
      = onNil (Option.bind (map_of ms key) (\<lambda>a. a)) (\<lambda>x. g x (Option.bind (map_of m' key) (\<lambda>a. a)))"
    proof (cases "Option.bind (map_of ms key) (\<lambda>a. a)")
      case (Some x)
      then have "(key, Some x) \<in> set ms" by (auto simp: bind_eq_Some_conv dest: map_of_SomeD)
      moreover have "Option.bind (map_of m' key) (\<lambda>a. a) = None
          \<or> (key, Option.bind (map_of m' key) (\<lambda>a. a)) \<in> set m'"
        by (cases "map_of m' key") (auto dest: map_of_SomeD)
      ultimately show ?thesis using assms(3) [OF that] Some by simp
    qed simp
  qed
  show ?thesis
  proof (cases arg')
    case (Inr st)
    then show ?thesis using assms(1,2) eq
      by (cases st) (auto simp: compareFields_def simp del: map_eq_conv)
  qed (use assms(1,2) in \<open>simp add: compareFields_def\<close>)
qed

lemma ArrayValue_EQ_cong [fundef_cong]:
  "arg = arg' \<Longrightarrow> av = av' \<Longrightarrow>
   (\<And>arr x y. arg' = ok (Some arr) \<Longrightarrow> Some x \<in> set arr \<Longrightarrow> y \<in> set av' \<Longrightarrow> f x y = g x y) \<Longrightarrow>
   ArrayValue_EQ f arg av = ArrayValue_EQ g arg' av'"
  unfolding ArrayValue_EQ_def by (rule compareElements_cong)

lemma StructValue_EQ_cong [fundef_cong]:
  "arg = arg' \<Longrightarrow> m = m' \<Longrightarrow>
   (\<And>ks vs ms k x y. arg' = ok (Some (ks, vs, ms)) \<Longrightarrow> (k, Some x) \<in> set ms \<Longrightarrow>
     y = None \<or> (k, y) \<in> set m' \<Longrightarrow> f x y = g x y) \<Longrightarrow>
   StructValue_EQ R f arg m = StructValue_EQ R g arg' m'"
  unfolding StructValue_EQ_def by (rule compareFields_cong)

lemma ArrayValue_GT_cong [fundef_cong]:
  "arg = arg' \<Longrightarrow> av = av' \<Longrightarrow>
   (\<And>arr x y. arg' = ok (Some arr) \<Longrightarrow> Some x \<in> set arr \<Longrightarrow> y \<in> set av' \<Longrightarrow> f x y = g x y) \<Longrightarrow>
   ArrayValue_GT f arg av = ArrayValue_GT g arg' av'"
  unfolding ArrayValue_GT_def by (rule compareElements_cong)

lemma StructValue_GT_cong [fundef_cong]:
  "arg = arg' \<Longrightarrow> m = m' \<Longrightarrow>
   (\<And>ks vs ms k x y. arg' = ok (Some (ks, vs, ms)) \<Longrightarrow> (k, Some x) \<in> set ms \<Longrightarrow>
     y = None \<or> (k, y) \<in> set m' \<Longrightarrow> f x y = g x y) \<Longrightarrow>
   StructValue_GT R f arg m = StructValue_GT R g arg' m'"
  unfolding StructValue_GT_def by (rule compareFields_cong)

lemma ArrayValue_GTE_cong [fundef_cong]:
  "arg = arg' \<Longrightarrow> av = av' \<Longrightarrow>
   (\<And>arr x y. arg' = ok (Some arr) \<Longrightarrow> Some x \<in> set arr \<Longrightarrow> y \<in> set av' \<Longrightarrow> f x y = g x y) \<Longrightarrow>
   ArrayValue_GTE f arg av = ArrayValue_GTE g arg' av'"
  unfolding ArrayValue_GTE_def by (rule compareElements_cong)

lemma StructValue_GTE_cong [fundef_cong]:
  "arg = arg' \<Longrightarrow> m = m' \<Longrightarrow>
   (\<And>ks vs ms k x y. arg' = ok (Some (ks, vs, ms)) \<Longrightarrow> (k, Some x) \<in> set ms \<Longrightarrow>
     y = None \<or> (k, y) \<in> set m' \<Longrightarrow> f x y = g x y) \<Longrightarrow>
   StructValue_GTE R f arg m = StructValue_GTE R g arg' m'"
  unfolding StructValue_GTE_def by (rule compareFields_cong)

lemma ArrayValue_LT_cong [fundef_cong]:
  "arg = arg' \<Longrightarrow> av = av' \<Longrightarrow>
   (\<And>arr x y. arg' = ok (Some arr) \<Longrightarrow> Some x \<in> set arr \<Longrightarrow> y \<in> set av' \<Longrightarrow> f x y = g x y) \<Longrightarrow>
   ArrayValue_LT f arg av = ArrayValue_LT g arg' av'"
  unfolding ArrayValue_LT_def by (rule compareElements_cong)

lemma StructValue_LT_cong [fundef_cong]:
  "arg = arg' \<Longrightarrow> m = m' \<Longrightarrow>
   (\<And>ks vs ms k x y. arg' = ok (Some (ks, vs, ms)) \<Longrightarrow> (k, Some x) \<in> set ms \<Longrightarrow>
     y = None \<or> (k, y) \<in> set m' \<Longrightarrow> f x y = g x y) \<Longrightarrow>
   StructValue_LT R f arg m = StructValue_LT R g arg' m'"
  unfolding StructValue_LT_def by (rule compareFields_cong)

lemma ArrayValue_LTE_cong [fundef_cong]:
  "arg = arg' \<Longrightarrow> av = av' \<Longrightarrow>
   (\<And>arr x y. arg' = ok (Some arr) \<Longrightarrow> Some x \<in> set arr \<Longrightarrow> y \<in> set av' \<Longrightarrow> f x y = g x y) \<Longrightarrow>
   ArrayValue_LTE f arg av = ArrayValue_LTE g arg' av'"
  unfolding ArrayValue_LTE_def by (rule compareElements_cong)

lemma StructValue_LTE_cong [fundef_cong]:
  "arg = arg' \<Longrightarrow> m = m' \<Longrightarrow>
   (\<And>ks vs ms k x y. arg' = ok (Some (ks, vs, ms)) \<Longrightarrow> (k, Some x) \<in> set ms \<Longrightarrow>
     y = None \<or> (k, y) \<in> set m' \<Longrightarrow> f x y = g x y) \<Longrightarrow>
   StructValue_LTE R f arg m = StructValue_LTE R g arg' m'"
  unfolding StructValue_LTE_def by (rule compareFields_cong)

function Value_compare :: "'f Runtime \<Rightarrow> CmpOp \<Rightarrow> 'f Value \<Rightarrow> 'f Value option \<Rightarrow> bool go" where
  "Value_compare R op (IntValue iv) v = (case op of
     EQ \<Rightarrow> IntValue_EQ R iv v
   | GT \<Rightarrow> IntValue_GT R iv v
   | GTE \<Rightarrow> IntValue_GTE R iv v
   | LT \<Rightarrow> IntValue_LT R iv v
   | LTE \<Rightarrow> IntValue_LTE R iv v)"
| "Value_compare R op (StringValue sv) v = (case op of
     EQ \<Rightarrow> StringValue_EQ R sv v
   | GT \<Rightarrow> StringValue_GT R sv v
   | GTE \<Rightarrow> StringValue_GTE R sv v
   | LT \<Rightarrow> StringValue_LT R sv v
   | LTE \<Rightarrow> StringValue_LTE R sv v)"
| "Value_compare R op (BytesValue bv) v = (case op of
     EQ \<Rightarrow> BytesValue_EQ R bv v
   | GT \<Rightarrow> BytesValue_GT R bv v
   | GTE \<Rightarrow> BytesValue_GTE R bv v
   | LT \<Rightarrow> BytesValue_LT R bv v
   | LTE \<Rightarrow> BytesValue_LTE R bv v)"
| "Value_compare R op (FloatValue fv) v = (case op of
     EQ \<Rightarrow> FloatValue_EQ R fv v
   | GT \<Rightarrow> FloatValue_GT R fv v
   | GTE \<Rightarrow> FloatValue_GTE R fv v
   | LT \<Rightarrow> FloatValue_LT R fv v
   | LTE \<Rightarrow> FloatValue_LTE R fv v)"
| "Value_compare R op (NumericValue rat isBig) v = (case op of
     EQ \<Rightarrow> NumericValue_EQ R rat v
   | GT \<Rightarrow> NumericValue_GT R rat v
   | GTE \<Rightarrow> NumericValue_GTE R rat v
   | LT \<Rightarrow> NumericValue_LT R rat v
   | LTE \<Rightarrow> NumericValue_LTE R rat v)"
| "Value_compare R op (BoolValue bv) v = (case op of
     EQ \<Rightarrow> BoolValue_EQ R bv v
   | GT \<Rightarrow> BoolValue_GT bv v
   | GTE \<Rightarrow> BoolValue_GTE bv v
   | LT \<Rightarrow> BoolValue_LT bv v
   | LTE \<Rightarrow> BoolValue_LTE bv v)"
| "Value_compare R op (JsonValue jv) v = (case op of
     EQ \<Rightarrow> JsonValue_EQ jv v
   | GT \<Rightarrow> JsonValue_GT jv v
   | GTE \<Rightarrow> JsonValue_GTE jv v
   | LT \<Rightarrow> JsonValue_LT jv v
   | LTE \<Rightarrow> JsonValue_LTE jv v)"
| "Value_compare R op (ArrayValue av) v = (case op of
     EQ \<Rightarrow> ArrayValue_EQ (Value_compare R EQ) (argArray R v) av
   | GT \<Rightarrow> ArrayValue_GT (Value_compare R GT) (argArray R v) av
   | GTE \<Rightarrow> ArrayValue_GTE (Value_compare R GTE) (argArray R v) av
   | LT \<Rightarrow> ArrayValue_LT (Value_compare R LT) (argArray R v) av
   | LTE \<Rightarrow> ArrayValue_LTE (Value_compare R LTE) (argArray R v) av)"
| "Value_compare R op (StructValue keys vals m) v = (case op of
     EQ \<Rightarrow> StructValue_EQ R (Value_compare R EQ) (argStruct R v) m
   | GT \<Rightarrow> StructValue_GT R (Value_compare R GT) (argStruct R v) m
   | GTE \<Rightarrow> StructValue_GTE R (Value_compare R GTE) (argStruct R v) m
   | LT \<Rightarrow> StructValue_LT R (Value_compare R LT) (argStruct R v) m
   | LTE \<Rightarrow> StructValue_LTE R (Value_compare R LTE) (argStruct R v) m)"
| "Value_compare R op (DateValue t) v = (case op of
     EQ \<Rightarrow> DateValue_EQ R t v
   | GT \<Rightarrow> DateValue_GT R t v
   | GTE \<Rightarrow> DateValue_GTE R t v
   | LT \<Rightarrow> DateValue_LT R t v
   | LTE \<Rightarrow> DateValue_LTE R t v)"
| "Value_compare R op (DatetimeValue t) v = (case op of
     EQ \<Rightarrow> DatetimeValue_EQ R t v
   | GT \<Rightarrow> DatetimeValue_GT R t v
   | GTE \<Rightarrow> DatetimeValue_GTE R t v
   | LT \<Rightarrow> DatetimeValue_LT R t v
   | LTE \<Rightarrow> DatetimeValue_LTE R t v)"
| "Value_compare R op (TimeValue t) v = (case op of
     EQ \<Rightarrow> TimeValue_EQ R t v
   | GT \<Rightarrow> TimeValue_GT R t v
   | GTE \<Rightarrow> TimeValue_GTE R t v
   | LT \<Rightarrow> TimeValue_LT R t v
   | LTE \<Rightarrow> TimeValue_LTE R t v)"
| "Value_compare R op (TimestampValue t) v = (case op of
     EQ \<Rightarrow> TimestampValue_EQ R t v
   | GT \<Rightarrow> TimestampValue_GT R t v
   | GTE \<Rightarrow> TimestampValue_GTE R t v
   | LT \<Rightarrow> TimestampValue_LT R t v
   | LTE \<Rightarrow> TimestampValue_LTE R t v)"
| "Value_compare R op (IntervalValue iv) v = (case op of
     EQ \<Rightarrow> IntervalValue_EQ iv v
   | GT \<Rightarrow> IntervalValue_GT iv v
   | GTE \<Rightarrow> IntervalValue_GTE iv v
   | LT \<Rightarrow> IntervalValue_LT iv v
   | LTE \<Rightarrow> IntervalValue_LTE iv v)"
| "Value_compare R op (SafeValue w) v = (case op of
     EQ \<Rightarrow> SafeValue_EQ (Value_compare R EQ w v)
   | GT \<Rightarrow> SafeValue_GT (Value_compare R GT w v)
   | GTE \<Rightarrow> SafeValue_GTE (Value_compare R GTE w v)
   | LT \<Rightarrow> SafeValue_LT (Value_compare R LT w v)
   | LTE \<Rightarrow> SafeValue_LTE (Value_compare R LTE w v))"
  by pat_completeness auto

termination
  by (relation "measure (\<lambda>(R, op, x, v). size x + size_option size v)")
    (auto simp: argArray_def argStruct_def onNil_ok
      dest!: ToArray_smaller ToStruct_smaller [OF _ disjI2] dest: element_size field_size)

end
