(* ===== verification/Value_Codec.thy ===== *)
theory Value_Codec
  imports Value_Ops
begin

text \<open>
  How values travel through SQLite: \<open>internal/encoder.go\<close>, \<open>internal/decoder.go\<close> and the layouts of
  \<open>internal/codec.go\<close>. Integers, floats and booleans are passed as they are; every other value
  becomes the base 64 text of the JSON of a header and a body.

  The JSON package is a parameter, record \<open>Json\<close>: encoders and decoders for the two layout structs
  and for slices. So are \<open>strconv.Unquote\<close> and the name of a kind. A type of go-zetasql is what the code asks it for: its
  kind, its element type, the names and types of its fields; a value of go-zetasql is what its
  getters return.
\<close>

section \<open>Types and literals of the analyzer\<close>

datatype TypeKind =
    INT32 | INT64 | UINT32 | UINT64 | BOOL | FLOAT | DOUBLE | STRING | BYTES | DATE | TIMESTAMP
  | ENUM | TIME | DATETIME | GEOGRAPHY | NUMERIC | BIG_NUMERIC | INTERVAL | JSON | PROTO | EXTENDED
  | UNKNOWN | ARRAY | STRUCT

datatype (plugins only: code size) ZType =
    SimpleType TypeKind
  | ArrayType ZType
  | StructType "(string \<times> ZType) list"

definition ZType_Kind :: "ZType \<Rightarrow> TypeKind" where
  "ZType_Kind t = (case t of SimpleType k \<Rightarrow> k | ArrayType _ \<Rightarrow> ARRAY | StructType _ \<Rightarrow> STRUCT)"

datatype (plugins only: code size) ZValue =
  ZValue (zvIsNull: bool) (zvKind: TypeKind) (zvSQLLiteral: string) (zvStringValue: string)
    (zvToInt64: int) (zvDatetimeMicros: int) (zvTimeMicros: int) (zvUnixMicros: int) (zvJSONString: string)
    (zvElements: "ZValue list") (zvFields: "(string \<times> ZValue) list")

section \<open>Layouts\<close>

datatype ValueType =
    IntValueType | StringValueType | BytesValueType | FloatValueType | NumericValueType
  | BigNumericValueType | BoolValueType | JsonValueType | ArrayValueType | StructValueType
  | DateValueType | DatetimeValueType | TimeValueType | TimestampValueType | IntervalValueType

definition ValueType_string :: "ValueType \<Rightarrow> string" where
  "ValueType_string h =
     (case h of
        IntValueType \<Rightarrow> ''int64'' | StringValueType \<Rightarrow> ''string'' | BytesValueType \<Rightarrow> ''bytes''
      | FloatValueType \<Rightarrow> ''float'' | NumericValueType \<Rightarrow> ''numeric'' | BigNumericValueType \<Rightarrow> ''bignumeric''
      | BoolValueType \<Rightarrow> ''bool'' | JsonValueType \<Rightarrow> ''json'' | ArrayValueType \<Rightarrow> ''array''
      | StructValueType \<Rightarrow> ''struct'' | DateValueType \<Rightarrow> ''date'' | DatetimeValueType \<Rightarrow> ''datetime''
      | TimeValueType \<Rightarrow> ''time'' | TimestampValueType \<Rightarrow> ''timestamp'' | IntervalValueType \<Rightarrow> ''interval'')"

record ValueLayout =
  vlHeader :: string
  vlBody :: string

record 'f StructValueLayout =
  slKeys :: "string list"
  slValues :: "'f GoAny list"

record 'f Json =
  jsMarshalLayout :: "ValueLayout \<Rightarrow> string"
  jsUnmarshalLayout :: "string \<Rightarrow> ValueLayout go"
  jsMarshalSlice :: "'f GoAny list \<Rightarrow> string go"
  jsUnmarshalSlice :: "string \<Rightarrow> 'f GoAny list go"
  jsMarshalStruct :: "'f StructValueLayout \<Rightarrow> string go"
  jsUnmarshalStruct :: "string \<Rightarrow> 'f StructValueLayout go"
  jsUnquote :: "string \<Rightarrow> string go"
  jsBase64Error :: "string \<Rightarrow> string"
  jsKindName :: "TypeKind \<Rightarrow> string"

section \<open>Base 64\<close>

definition base64Value :: "char \<Rightarrow> nat option" where
  "base64Value c =
     (let n = (of_char c :: nat) in
      if 65 \<le> n \<and> n \<le> 90 then Some (n - 65)
      else if 97 \<le> n \<and> n \<le> 122 then Some (n - 97 + 26)
      else if 48 \<le> n \<and> n \<le> 57 then Some (n - 48 + 52)
      else if c = CHR ''+'' then Some 62
      else if c = CHR ''/'' then Some 63
      else None)"

definition base64Quad :: "nat \<Rightarrow> nat \<Rightarrow> nat \<Rightarrow> nat \<Rightarrow> string" where
  "base64Quad a b c d =
     (let n = ((a * 64 + b) * 64 + c) * 64 + d
      in [char_of (n div 65536), char_of (n div 256 mod 256), char_of (n mod 256)])"

fun base64Quads :: "string \<Rightarrow> string option" where
  "base64Quads [] = Some []"
| "base64Quads (a # b # c # d # s) =
     (case (base64Value a, base64Value b) of
        (Some x, Some y) \<Rightarrow>
          (case (base64Value c, base64Value d) of
             (Some z, Some w) \<Rightarrow> map_option (\<lambda>rest. base64Quad x y z w @ rest) (base64Quads s)
           | (Some z, None) \<Rightarrow> if d = CHR ''='' \<and> s = [] then Some (take 2 (base64Quad x y z 0)) else None
           | (None, None) \<Rightarrow>
               if c = CHR ''='' \<and> d = CHR ''='' \<and> s = [] then Some (take 1 (base64Quad x y 0 0)) else None
           | _ \<Rightarrow> None)
      | _ \<Rightarrow> None)"
| "base64Quads _ = None"

text \<open>Line breaks are skipped; the text of the error tells the position of the bad byte.\<close>

definition base64Decode :: "'f Json \<Rightarrow> string \<Rightarrow> string go" where
  "base64Decode J s =
     (case base64Quads (filter (\<lambda>c. c \<noteq> CHR 0x0A \<and> c \<noteq> CHR 0x0D) s) of
        Some b \<Rightarrow> ok b
      | None \<Rightarrow> fail_with (jsBase64Error J s))"

text \<open>An error with a prefix.\<close>

definition wrapGo :: "string \<Rightarrow> 'a go \<Rightarrow> 'a go" where
  "wrapGo msg r = (case r of Inl (GoErr e) \<Rightarrow> fail_with (msg @ '': '' @ e) | _ \<Rightarrow> r)"

lemma wrapGo_ok [simp]: "wrapGo msg (ok x) = ok x"
  by (simp add: wrapGo_def)

section \<open>Encoding\<close>

text \<open>
  The layout of a value; \<open>inner\<close> holds the encodings of the elements of an array or the values of a
  struct.
\<close>

definition layoutOf :: "ValueType \<Rightarrow> string \<Rightarrow> ValueLayout" where
  "layoutOf h b = \<lparr>vlHeader = ValueType_string h, vlBody = b\<rparr>"

definition valueLayoutFromValue ::
  "'f Runtime \<Rightarrow> 'f Json \<Rightarrow> 'f Value \<Rightarrow> 'f GoAny go list \<Rightarrow> ValueLayout go" where
  "valueLayoutFromValue R J v inner =
     (case v of
        StringValue vv \<Rightarrow> ok (layoutOf StringValueType vv)
      | BytesValue vv \<Rightarrow> ok (layoutOf BytesValueType (base64Encode vv))
      | NumericValue rat isBig \<Rightarrow> onNil rat (\<lambda>r.
          ok (layoutOf (if isBig then BigNumericValueType else NumericValueType) (ratMarshalText r)))
      | DateValue t \<Rightarrow> go_bind (DateValue_ToString t) (\<lambda>body. ok (layoutOf DateValueType body))
      | DatetimeValue t \<Rightarrow> go_bind (DatetimeValue_ToString t) (\<lambda>body. ok (layoutOf DatetimeValueType body))
      | TimeValue t \<Rightarrow> go_bind (TimeValue_ToString t) (\<lambda>body. ok (layoutOf TimeValueType body))
      | TimestampValue t \<Rightarrow> ok (layoutOf TimestampValueType (sprintInt (Time_UnixMicro t)))
      | IntervalValue iv \<Rightarrow> go_bind (IntervalValue_ToString R iv) (\<lambda>s. ok (layoutOf IntervalValueType s))
      | JsonValue vv \<Rightarrow> ok (layoutOf JsonValueType vv)
      | ArrayValue _ \<Rightarrow> go_bind (goList inner) (\<lambda>xs. go_bind (jsMarshalSlice J xs) (\<lambda>body.
          ok (layoutOf ArrayValueType body)))
      | StructValue keys _ _ \<Rightarrow> go_bind (goList inner) (\<lambda>xs.
          go_bind (jsMarshalStruct J \<lparr>slKeys = keys, slValues = xs\<rparr>) (\<lambda>body.
          ok (layoutOf StructValueType body)))
      | _ \<Rightarrow> fail_with (''unexpected value type to get value layout: '' @ typeName (Some v)))"

definition encodeLayout :: "'f Json \<Rightarrow> ValueLayout go \<Rightarrow> string go" where
  "encodeLayout J r = go_bind r (\<lambda>layout. ok (base64Encode (jsMarshalLayout J layout)))"

text \<open>A nil value is encoded as nil, inside arrays and structs too.\<close>

definition onNull :: "'b go \<Rightarrow> ('a \<Rightarrow> 'b go) \<Rightarrow> 'a option \<Rightarrow> 'b go" where
  "onNull d f p = (case p of None \<Rightarrow> d | Some x \<Rightarrow> f x)"

lemma onNull_cong [fundef_cong]:
  "d = d' \<Longrightarrow> p = q \<Longrightarrow> (\<And>x. q = Some x \<Longrightarrow> f x = g x) \<Longrightarrow> onNull d f p = onNull d' g q"
  by (cases q) (simp_all add: onNull_def)

fun encodeNonNull :: "'f Runtime \<Rightarrow> 'f Json \<Rightarrow> 'f Value \<Rightarrow> 'f GoAny go" where
  "encodeNonNull R J (IntValue i) = go_bind (IntValue_ToInt64 i) (\<lambda>i. ok (AnyInt i))"
| "encodeNonNull R J (FloatValue f) = go_bind (FloatValue_ToFloat64 f) (\<lambda>f. ok (AnyFloat f))"
| "encodeNonNull R J (BoolValue b) = go_bind (BoolValue_ToBool b) (\<lambda>b. ok (AnyBool b))"
| "encodeNonNull R J (SafeValue v) = encodeNonNull R J v"
| "encodeNonNull R J (ArrayValue av) =
     go_bind (encodeLayout J (valueLayoutFromValue R J (ArrayValue av)
       (map (onNull (ok AnyNil) (encodeNonNull R J)) av))) (\<lambda>s. ok (AnyString s))"
| "encodeNonNull R J (StructValue keys vals m) =
     go_bind (encodeLayout J (valueLayoutFromValue R J (StructValue keys vals m)
       (map (onNull (ok AnyNil) (encodeNonNull R J)) vals))) (\<lambda>s. ok (AnyString s))"
| "encodeNonNull R J v = go_bind (encodeLayout J (valueLayoutFromValue R J v [])) (\<lambda>s. ok (AnyString s))"

definition EncodeValue :: "'f Runtime \<Rightarrow> 'f Json \<Rightarrow> 'f Value option \<Rightarrow> 'f GoAny go" where
  "EncodeValue R J v = onNull (ok AnyNil) (encodeNonNull R J) v"

fun literalNonNull :: "'f Runtime \<Rightarrow> 'f Json \<Rightarrow> 'f Value \<Rightarrow> string go" where
  "literalNonNull R J (IntValue i) = go_bind (IntValue_ToInt64 i) (\<lambda>i64. ok (sprintInt i64))"
| "literalNonNull R J (FloatValue f) =
     go_bind (FloatValue_ToFloat64 f) (\<lambda>f64.
       let value = flShortest R f64 in
       ok (if \<not> containsStr value ''.'' \<and> \<not> containsStr value ''e'' then value @ ''.0'' else value))"
| "literalNonNull R J (BoolValue b) = go_bind (BoolValue_ToBool b) (\<lambda>b. ok (sprintBool b))"
| "literalNonNull R J (SafeValue v) = literalNonNull R J v"
| "literalNonNull R J v =
     go_bind (encodeNonNull R J v) (\<lambda>a.
       case a of AnyString s \<Rightarrow> ok ([CHR 0x22] @ s @ [CHR 0x22]) | _ \<Rightarrow> nilPanic)"

definition LiteralFromValue :: "'f Runtime \<Rightarrow> 'f Json \<Rightarrow> 'f Value option \<Rightarrow> string go" where
  "LiteralFromValue R J v = onNull (ok ''null'') (literalNonNull R J) v"

section \<open>Decoding\<close>

definition decodeTimestamp :: "'f Runtime \<Rightarrow> string \<Rightarrow> 'f Value option go" where
  "decodeTimestamp R body =
     go_bind (wrapGo (''failed to parse unixmicro for timestamp value '' @ body) (ParseInt (rtQuote R) body 10))
       (\<lambda>microsec.
       let microSecondsInSecond = Second sdiv Microsecond;
           sec = microsec sdiv microSecondsInSecond;
           remainder = microsec - sec * microSecondsInSecond
       in ok (Some (TimestampValue (time_Unix (rtLocal R) sec (remainder * Microsecond)))))"

definition parseInterval :: "'f Runtime \<Rightarrow> string \<Rightarrow> 'f Value option go" where
  "parseInterval R v =
     (if v = [] then fail_with ''interval value is empty''
      else go_bind (rtParseInterval R v) (\<lambda>interval.
        ok (Some (IntervalValue
          (if hd v = CHR ''-'' \<and> Months interval > 0
           then interval\<lparr>Months := - Months interval\<rparr> else interval)))))"

definition decodeField ::
  "('f GoAny \<Rightarrow> 'f Value option go) \<Rightarrow> string list \<Rightarrow> nat \<times> 'f GoAny \<Rightarrow> 'f Value option go" where
  "decodeField decode keys f =
     go_bind (decode (snd f)) (\<lambda>value.
     if length keys \<le> fst f then panic ''index out of range'' else ok value)"

text \<open>
  \<open>decodeFromValueLayout\<close>, with the decoder of the elements as an argument: it is \<open>DecodeValue\<close> itself.
  The elements are decoded one after the other; a missing key is an index out of range.
\<close>

definition decodeFromValueLayout ::
  "'f Runtime \<Rightarrow> 'f Json \<Rightarrow> ('f GoAny \<Rightarrow> 'f Value option go) \<Rightarrow> ValueLayout \<Rightarrow> 'f Value option go" where
  "decodeFromValueLayout R J decode layout =
     (let h = vlHeader layout; body = vlBody layout in
      if h = ValueType_string StringValueType then ok (Some (StringValue body))
      else if h = ValueType_string BytesValueType then
        go_bind (base64Decode J body) (\<lambda>decoded. ok (Some (BytesValue decoded)))
      else if h = ValueType_string NumericValueType then
        ok (Some (NumericValue (Some (rtRatOfString R body)) False))
      else if h = ValueType_string BigNumericValueType then
        ok (Some (NumericValue (Some (rtRatOfString R body)) True))
      else if h = ValueType_string DateValueType then
        go_bind (parseDate R body) (\<lambda>t. ok (Some (DateValue t)))
      else if h = ValueType_string DatetimeValueType then
        go_bind (parseDatetime R body) (\<lambda>t. ok (Some (DatetimeValue t)))
      else if h = ValueType_string TimeValueType then
        go_bind (parseTime R body) (\<lambda>t. ok (Some (TimeValue t)))
      else if h = ValueType_string TimestampValueType then decodeTimestamp R body
      else if h = ValueType_string IntervalValueType then parseInterval R body
      else if h = ValueType_string JsonValueType then ok (Some (JsonValue body))
      else if h = ValueType_string ArrayValueType then
        go_bind (wrapGo ''failed to decode array body'' (jsUnmarshalSlice J body)) (\<lambda>arr.
        go_bind (goList (map decode arr)) (\<lambda>values. ok (Some (ArrayValue values))))
      else if h = ValueType_string StructValueType then
        go_bind (jsUnmarshalStruct J body) (\<lambda>sl.
        go_bind (goList (map (decodeField decode (slKeys sl)) (List.enumerate 0 (slValues sl)))) (\<lambda>values.
        ok (Some (StructValue (slKeys sl) values (mapOfFields (zip (slKeys sl) values))))))
      else fail_with (''unexpected value header: '' @ h))"

definition decodeString ::
  "'f Runtime \<Rightarrow> 'f Json \<Rightarrow> ('f GoAny \<Rightarrow> 'f Value option go) \<Rightarrow> string \<Rightarrow> 'f Value option go" where
  "decodeString R J decode s =
     go_bind (wrapGo ''failed to decode value'' (base64Decode J s)) (\<lambda>decoded.
     go_bind (wrapGo ''failed to get value layout'' (jsUnmarshalLayout J decoded)) (\<lambda>layout.
     decodeFromValueLayout R J decode layout))"

text \<open>
  The text of a layout contains the texts of its elements, so the recursion of \<open>DecodeValue\<close> ends; as
  the JSON package is a parameter that is not visible here, the recursion is bounded by fuel.
\<close>

primrec DecodeValue :: "nat \<Rightarrow> 'f Runtime \<Rightarrow> 'f Json \<Rightarrow> 'f GoAny \<Rightarrow> 'f Value option go" where
  "DecodeValue 0 R J v = panic ''fuel''"
| "DecodeValue (Suc n) R J v =
     (case v of
        AnyNil \<Rightarrow> ok None
      | AnyInt i \<Rightarrow> ok (Some (IntValue i))
      | AnyFloat f \<Rightarrow> ok (Some (FloatValue f))
      | AnyBool b \<Rightarrow> ok (Some (BoolValue b))
      | AnyString s \<Rightarrow> decodeString R J (DecodeValue n R J) s
      | AnyBytes _ \<Rightarrow> fail_with ''unexpected value type: []uint8''
      | AnySlice _ \<Rightarrow> fail_with ''unexpected value type: []interface {}''
      | AnyFields _ \<Rightarrow> fail_with ''unexpected value type: []map[string]interface {}''
      | AnyMap _ \<Rightarrow> fail_with ''unexpected value type: map[string]interface {}'')"

end
