(* ===== verification/Value_Cast.thy ===== *)
theory Value_Cast
  imports Value_Codec
begin

text \<open>
  Where values come from: literals of the analyzer, casts and arguments given as Go values, the rest
  of \<open>internal/encoder.go\<close>.
\<close>

section \<open>Literals of the analyzer\<close>

definition intValueFromLiteral :: "'f Runtime \<Rightarrow> string \<Rightarrow> 'f Value option go" where
  "intValueFromLiteral R lit = go_bind (ParseInt (rtQuote R) lit 10) (\<lambda>v. ok (Some (IntValue v)))"

definition boolValueFromLiteral :: "'f Runtime \<Rightarrow> string \<Rightarrow> 'f Value option go" where
  "boolValueFromLiteral R lit = go_bind (ParseBool (rtQuote R) lit) (\<lambda>v. ok (Some (BoolValue v)))"

definition floatValueFromLiteral :: "'f Runtime \<Rightarrow> string \<Rightarrow> 'f Value option go" where
  "floatValueFromLiteral R lit = go_bind (flParse R lit) (\<lambda>v. ok (Some (FloatValue v)))"

definition stringValueFromLiteral :: "'f Json \<Rightarrow> string \<Rightarrow> 'f Value option go" where
  "stringValueFromLiteral J lit =
     go_bind (wrapGo ''failed to unquote from string literal'' (jsUnquote J lit)) (\<lambda>v. ok (Some (StringValue v)))"

definition bytesValueFromLiteral :: "'f Json \<Rightarrow> string \<Rightarrow> 'f Value option go" where
  "bytesValueFromLiteral J lit =
     (if lit = [] then panic ''slice bounds out of range''
      else (case jsUnquote J (drop 1 lit) of
              Inl (GoErr _) \<Rightarrow> ok (Some (BytesValue lit))
            | Inl e \<Rightarrow> Inl e
            | Inr unquoted \<Rightarrow> ok (Some (BytesValue unquoted))))"

definition dateValueFromLiteral :: "'f Runtime \<Rightarrow> int \<Rightarrow> 'f Value option go" where
  "dateValueFromLiteral R days =
     ok (Some (DateValue (time_Unix (rtLocal R) (wrap64 (wrap64 (days * 24) * (Hour sdiv Second))) 0)))"

text \<open>A field of a packed time: the bits of \<open>width\<close> from \<open>shift\<close> on.\<close>

definition packedField :: "nat \<Rightarrow> nat \<Rightarrow> int \<Rightarrow> int" where
  "packedField shift width b = b div 2 ^ shift mod 2 ^ width"

definition datetimeValueFromLiteral :: "int \<Rightarrow> 'f Value option go" where
  "datetimeValueFromLiteral bits =
     (let b = bits div 2 ^ 20
      in ok (Some (DatetimeValue (time_Date (packedField 26 14 b) (packedField 22 4 b) (packedField 17 5 b)
           (packedField 12 5 b) (packedField 6 6 b) (packedField 0 6 b) (packedField 0 20 bits * 1000) UTC))))"

definition timeValueFromLiteral :: "int \<Rightarrow> 'f Value option go" where
  "timeValueFromLiteral bits =
     (let b = bits div 2 ^ 20
      in ok (Some (TimeValue (time_Date 0 0 0
           (packedField 12 5 b) (packedField 6 6 b) (packedField 0 6 b) (packedField 0 20 bits * 1000) UTC))))"

definition timestampValueFromLiteral :: "Time \<Rightarrow> 'f Value option go" where
  "timestampValueFromLiteral t = ok (Some (TimestampValue t))"

text \<open>
  The regular expressions \<open>NUMERIC "(.+)"\<close> and \<open>INTERVAL "(.+)"\<close>: the leftmost match, with the longest
  text between the quotes that has no line break.
\<close>

definition quoteChar :: char where "quoteChar = CHR 0x22"

definition untilLastQuote :: "string \<Rightarrow> string option" where
  "untilLastQuote s =
     (let line = takeWhile (\<lambda>c. c \<noteq> CHR 0x0A) s;
          upto = dropWhile (\<lambda>c. c \<noteq> quoteChar) (rev line)
      in if 2 \<le> length upto then Some (rev (tl upto)) else None)"

fun quotedAfter :: "string \<Rightarrow> string \<Rightarrow> string option" where
  "quotedAfter key [] = None"
| "quotedAfter key (c # s) =
     (if hasPrefix (c # s) (key @ '' '' @ [quoteChar])
         \<and> untilLastQuote (drop (length key + 2) (c # s)) \<noteq> None
      then untilLastQuote (drop (length key + 2) (c # s))
      else quotedAfter key s)"

definition numericValueFromLiteral :: "'f Runtime \<Rightarrow> string \<Rightarrow> 'f Value option go" where
  "numericValueFromLiteral R lit =
     (case quotedAfter ''NUMERIC'' lit of
        None \<Rightarrow> fail_with (''unexpected numeric literal: '' @ lit)
      | Some numericLit \<Rightarrow>
          ok (Some (NumericValue (Some (rtRatOfString R numericLit)) (containsStr ''BIGNUMERIC'' lit))))"

definition jsonValueFromLiteral :: "string \<Rightarrow> 'f Value option go" where
  "jsonValueFromLiteral lit = ok (Some (JsonValue lit))"

definition intervalValueFromLiteral :: "'f Runtime \<Rightarrow> string \<Rightarrow> 'f Value option go" where
  "intervalValueFromLiteral R lit =
     (case quotedAfter ''INTERVAL'' lit of
        None \<Rightarrow> fail_with (''unexpected interval literal: '' @ lit)
      | Some intervalLit \<Rightarrow> parseInterval R intervalLit)"

text \<open>The elements and fields come as the results of \<open>ValueFromZetaSQLValue\<close>.\<close>

definition arrayValueFromLiteral :: "'f Value option go list \<Rightarrow> 'f Value option go" where
  "arrayValueFromLiteral elems =
     go_bind (goList (map (wrapGo ''failed to convert from zetasql value'') elems)) (\<lambda>values.
     ok (Some (ArrayValue values)))"

definition structValueFromLiteral :: "string list \<Rightarrow> 'f Value option go list \<Rightarrow> 'f Value option go" where
  "structValueFromLiteral names elems =
     go_bind (goList elems) (\<lambda>values.
     ok (Some (StructValue names values (mapOfFields (zip names values)))))"

definition timestampOfMicros :: "'f Runtime \<Rightarrow> int \<Rightarrow> 'f Value option go" where
  "timestampOfMicros R microsec =
     (let microSecondsInSecond = Second sdiv Microsecond;
          sec = microsec sdiv microSecondsInSecond;
          remainder = microsec - sec * microSecondsInSecond
      in timestampValueFromLiteral (time_Unix (rtLocal R) sec (remainder * Microsecond)))"

fun ValueFromZetaSQLValue :: "'f Runtime \<Rightarrow> 'f Json \<Rightarrow> ZValue \<Rightarrow> 'f Value option go" where
  "ValueFromZetaSQLValue R J (ZValue isNull kind lit str i64 datetime time micros json elems flds) =
     (if isNull then ok None
      else if kind \<in> {INT32, INT64, UINT32, UINT64} then intValueFromLiteral R lit
      else if kind = BOOL then boolValueFromLiteral R lit
      else if kind \<in> {FLOAT, DOUBLE} then floatValueFromLiteral R lit
      else if kind = STRING then ok (Some (StringValue str))
      else if kind = ENUM then stringValueFromLiteral J lit
      else if kind = BYTES then bytesValueFromLiteral J lit
      else if kind = DATE then dateValueFromLiteral R i64
      else if kind = DATETIME then datetimeValueFromLiteral datetime
      else if kind = TIME then timeValueFromLiteral time
      else if kind = TIMESTAMP then timestampOfMicros R micros
      else if kind \<in> {NUMERIC, BIG_NUMERIC} then numericValueFromLiteral R lit
      else if kind = INTERVAL then intervalValueFromLiteral R lit
      else if kind = JSON then jsonValueFromLiteral json
      else if kind = ARRAY then arrayValueFromLiteral (map (ValueFromZetaSQLValue R J) elems)
      else if kind = STRUCT then
        structValueFromLiteral (map fst flds) (map (\<lambda>f. ValueFromZetaSQLValue R J (snd f)) flds)
      else fail_with (''unsupported literal type: '' @ jsKindName J kind))"

definition LiteralFromZetaSQLValue :: "'f Runtime \<Rightarrow> 'f Json \<Rightarrow> ZValue \<Rightarrow> string go" where
  "LiteralFromZetaSQLValue R J v = go_bind (ValueFromZetaSQLValue R J v) (LiteralFromValue R J)"

section \<open>Casts\<close>

definition convertTimeValueToStringWithFormat :: "'f Runtime \<Rightarrow> 'f Value \<Rightarrow> Layout \<Rightarrow> 'f Value option go" where
  "convertTimeValueToStringWithFormat R v layout =
     go_bind (Value_ToTime R v) (\<lambda>t. ok (Some (StringValue (Time_Format (Time_UTC t) layout))))"

text \<open>The layout of a date or time that is cast to a string.\<close>

definition castLayout :: "'f Value \<Rightarrow> Layout option" where
  "castLayout v =
     (case v of
        DateValue _ \<Rightarrow> Some layoutDate
      | DatetimeValue _ \<Rightarrow> Some datetimeAsStringFormat
      | TimeValue _ \<Rightarrow> Some timeFormat
      | TimestampValue _ \<Rightarrow> Some timestampFormat
      | _ \<Rightarrow> None)"

definition castSimple :: "'f Runtime \<Rightarrow> 'f Json \<Rightarrow> TypeKind \<Rightarrow> 'f Value \<Rightarrow> 'f Value option go" where
  "castSimple R J kind v =
     (if kind \<in> {INT32, INT64, UINT32, UINT64} then
        go_bind (Value_ToInt64 R v) (\<lambda>i64. ok (Some (IntValue i64)))
      else if kind = BOOL then go_bind (Value_ToBool R v) (\<lambda>b. ok (Some (BoolValue b)))
      else if kind \<in> {FLOAT, DOUBLE} then go_bind (Value_ToFloat64 R v) (\<lambda>f64. ok (Some (FloatValue f64)))
      else if kind = STRING then
        (case castLayout v of
           Some layout \<Rightarrow> convertTimeValueToStringWithFormat R v layout
         | None \<Rightarrow> go_bind (Value_ToString R v) (\<lambda>s. ok (Some (StringValue s))))
      else if kind = ENUM then go_bind (Value_ToString R v) (\<lambda>s. ok (Some (StringValue s)))
      else if kind = BYTES then go_bind (Value_ToBytes R v) (\<lambda>b. ok (Some (BytesValue b)))
      else if kind = DATE then go_bind (Value_ToTime R v) (\<lambda>t. ok (Some (DateValue t)))
      else if kind = DATETIME then go_bind (Value_ToTime R v) (\<lambda>t. ok (Some (DatetimeValue t)))
      else if kind = TIME then go_bind (Value_ToTime R v) (\<lambda>t. ok (Some (TimeValue t)))
      else if kind = TIMESTAMP then go_bind (Value_ToTime R v) (\<lambda>t. ok (Some (TimestampValue t)))
      else if kind = INTERVAL then go_bind (Value_ToString R v) (parseInterval R)
      else if kind = NUMERIC then go_bind (Value_ToRat R v) (\<lambda>r. ok (Some (NumericValue r False)))
      else if kind = BIG_NUMERIC then go_bind (Value_ToRat R v) (\<lambda>r. ok (Some (NumericValue r True)))
      else if kind = JSON then go_bind (Value_ToJSON R v) (\<lambda>j. ok (Some (JsonValue j)))
      else if kind = GEOGRAPHY then ok (Some v)
      else if kind \<in> {ARRAY, STRUCT} then nilPanic
      else fail_with (''unsupported cast '' @ jsKindName J kind @ '' value''))"

text \<open>A struct made of the fields of all structs of an array.\<close>

definition castArrayToStruct :: "'f Runtime \<Rightarrow> 'f array \<Rightarrow> 'f Value option go" where
  "castArrayToStruct R values =
     go_bind (goList (map (\<lambda>v. onNil v (\<lambda>v. go_bind (Value_ToStruct R v) (\<lambda>st. onNil st (\<lambda>st.
         if length (fst (snd st)) < length (fst st) then panic ''index out of range'' else ok st)))) values)) (\<lambda>sts.
     ok (Some (StructValue (concat (map fst sts)) (concat (map (\<lambda>st. fst (snd st)) sts))
       (mapOfFields (concat (map (\<lambda>st. zip (fst st) (fst (snd st))) sts))))))"

text \<open>
  The fields of a struct cast: a nameless field is called after its position, a missing key gives
  NULL, and the map is the one of the source, in which a cast value replaces the old one.
\<close>

fun CastValue :: "'f Runtime \<Rightarrow> 'f Json \<Rightarrow> ZType \<Rightarrow> 'f Value option \<Rightarrow> 'f Value option go"
  and castFields ::
    "'f Runtime \<Rightarrow> 'f Json \<Rightarrow> (string \<times> ZType) list \<Rightarrow> nat \<Rightarrow> string list \<Rightarrow> 'f array \<Rightarrow>
     (string \<times> 'f Value option) list \<Rightarrow> 'f Value option go" where
  "CastValue R J t None = ok None"
| "CastValue R J (SimpleType kind) (Some v) = castSimple R J kind v"
| "CastValue R J (ArrayType elemType) (Some v) =
     go_bind (Value_ToArray R v) (\<lambda>array. onNil array (\<lambda>values.
     go_bind (goList (map (CastValue R J elemType) values)) (\<lambda>casted. ok (Some (ArrayValue casted)))))"
| "CastValue R J (StructType typ) (Some v) =
     (case v of
        ArrayValue values \<Rightarrow> castArrayToStruct R values
      | _ \<Rightarrow> go_bind (Value_ToStruct R v) (\<lambda>s. onNil s (\<lambda>s. castFields R J typ 0 [] [] (snd (snd s)))))"
| "castFields R J [] i keys values m = ok (Some (StructValue keys values m))"
| "castFields R J ((name, ty) # typ) i keys values m =
     (let key = (if name = [] then ''_field_'' @ sprintNat (i + 1) else name) in
      case map_of m key of
        None \<Rightarrow> castFields R J typ (i + 1) (keys @ [key]) (values @ [None]) m
      | Some value \<Rightarrow>
          go_bind (CastValue R J ty value) (\<lambda>casted.
          castFields R J typ (i + 1) (keys @ [key]) (values @ [casted]) (mapSet key casted m)))"

section \<open>Arguments given as Go values\<close>

text \<open>
  A Go value as reflection shows it; struct fields are exported. A nil pointer has no element to ask
  for a type.
\<close>

datatype (plugins only: code size) 'f GoValue =
    GInt int | GUint int | GFloat 'f | GBool bool | GString string
  | GBytes "string option"
  | GSlice "'f GoValue list"
  | GMap "('f GoValue \<times> 'f GoValue) list"
  | GTime Time
  | GStruct "(string \<times> 'f GoValue) list"
  | GPtr "'f GoValue option"
  | GInterface "'f GoValue option"
  | GOther string

definition isNullValue :: "'f GoValue option \<Rightarrow> bool" where
  "isNullValue v = (case v of None \<Rightarrow> True | Some (GBytes None) \<Rightarrow> True | _ \<Rightarrow> False)"

fun valueFromGoReflectValue :: "'f Runtime \<Rightarrow> 'f GoValue \<Rightarrow> 'f Value option go" where
  "valueFromGoReflectValue R (GInt i) = ok (Some (IntValue i))"
| "valueFromGoReflectValue R (GUint i) = ok (Some (IntValue (wrap64 i)))"
| "valueFromGoReflectValue R (GFloat f) = ok (Some (FloatValue f))"
| "valueFromGoReflectValue R (GBool b) = ok (Some (BoolValue b))"
| "valueFromGoReflectValue R (GString s) = ok (Some (StringValue s))"
| "valueFromGoReflectValue R (GBytes b) = ok (Some (BytesValue (case b of None \<Rightarrow> [] | Some s \<Rightarrow> s)))"
| "valueFromGoReflectValue R (GSlice xs) =
     go_bind (goList (map (valueFromGoReflectValue R) xs)) (\<lambda>elems. ok (Some (ArrayValue elems)))"
| "valueFromGoReflectValue R (GMap kvs) =
     go_bind (goList (map (\<lambda>kv. go_bind (valueFromGoReflectValue R (fst kv)) (\<lambda>key.
         go_bind (onNil key (Value_ToString R)) (\<lambda>k.
         go_bind (valueFromGoReflectValue R (snd kv)) (\<lambda>value. ok (k, value))))) kvs)) (\<lambda>entries.
     ok (Some (StructValue (map fst entries) (map snd entries) (mapOfFields entries))))"
| "valueFromGoReflectValue R (GTime t) = ok (Some (TimestampValue t))"
| "valueFromGoReflectValue R (GStruct fs) =
     go_bind (goList (map (\<lambda>f. go_bind (valueFromGoReflectValue R (snd f)) (\<lambda>value. ok (fst f, value))) fs))
       (\<lambda>entries. ok (Some (StructValue (map fst entries) (map snd entries) (mapOfFields entries))))"
| "valueFromGoReflectValue R (GPtr None) = panic ''reflect: call of reflect.Value.Type on zero Value''"
| "valueFromGoReflectValue R (GPtr (Some v)) = valueFromGoReflectValue R v"
| "valueFromGoReflectValue R (GInterface None) = ok None"
| "valueFromGoReflectValue R (GInterface (Some v)) =
     (if isNullValue (Some v) then ok None else valueFromGoReflectValue R v)"
| "valueFromGoReflectValue R (GOther kind) =
     fail_with (''cannot convert '' @ kind @ '' type to zetasqlite value type'')"

definition ValueFromGoValue :: "'f Runtime \<Rightarrow> 'f GoValue option \<Rightarrow> 'f Value option go" where
  "ValueFromGoValue R v =
     (if isNullValue v then ok None else onNil v (valueFromGoReflectValue R))"

definition EncodeGoValue :: "'f Runtime \<Rightarrow> 'f Json \<Rightarrow> ZType \<Rightarrow> 'f GoValue option \<Rightarrow> 'f GoAny go" where
  "EncodeGoValue R J t v =
     go_bind (ValueFromGoValue R v) (\<lambda>value.
     go_bind (CastValue R J t value) (\<lambda>casted.
     EncodeValue R J casted))"

definition EncodeGoValues ::
  "'f Runtime \<Rightarrow> 'f Json \<Rightarrow> 'f GoValue option list \<Rightarrow> ZType list \<Rightarrow> 'f GoAny list go" where
  "EncodeGoValues R J v params =
     (if length v \<noteq> length params then
        fail_with (''failed to match args values num ('' @ sprintNat (length v) @ '') and params num (''
          @ sprintNat (length params) @ '')'')
      else goList (map (\<lambda>(vv, t). EncodeGoValue R J t vv) (zip v params)))"

text \<open>A named argument keeps its name in lower case.\<close>

definition encodeNamedValue ::
  "'f Runtime \<Rightarrow> 'f Json \<Rightarrow> string \<times> 'f GoValue option \<Rightarrow> ZType \<Rightarrow> (string \<times> 'f GoAny) go" where
  "encodeNamedValue R J v param =
     go_bind (EncodeGoValue R J param (snd v)) (\<lambda>value. ok (toLower (fst v), value))"

definition EncodeNamedValues ::
  "'f Runtime \<Rightarrow> 'f Json \<Rightarrow> (string \<times> 'f GoValue option) list \<Rightarrow> ZType list \<Rightarrow> (string \<times> 'f GoAny) list go" where
  "EncodeNamedValues R J v params =
     (if length v \<noteq> length params then
        fail_with (''failed to match named values num ('' @ sprintNat (length v) @ '') and params num (''
          @ sprintNat (length params) @ '')'')
      else goList (map (\<lambda>(vv, t). wrapGo (''failed to convert value from '' @ fst vv) (encodeNamedValue R J vv t))
             (zip v params)))"

end
