(* ===== verification/Go_Time_Props.thy ===== *)
theory Go_Time_Props
  imports Go_Time
begin

text \<open>
  The calendar of \<open>Go_Time\<close> is right: the days of the years follow each other without gaps, so a
  date can be read back from its day number and the other way round; \<open>time.Date\<close> normalises, and
  what it builds in UTC shows the fields it was given.
\<close>

section \<open>Years\<close>

lemma div_unique: "k * q \<le> x \<Longrightarrow> x < k * (q + 1) \<Longrightarrow> 0 < k \<Longrightarrow> x div k = (q :: int)"
  by (rule int_div_pos_eq [where r = "x - k * q"]) (auto simp: algebra_simps)

lemma daysBeforeYear_cycles:
  assumes "0 \<le> b" "b \<le> 3" "0 \<le> c" "c \<le> 24" "0 \<le> e" "e \<le> 3"
  shows "daysBeforeYear (400 * a + 100 * b + 4 * c + e + 1) = 146097 * a + 36524 * b + 1461 * c + 365 * e"
proof -
  let ?y = "400 * a + 100 * b + 4 * c + e"
  have "?y div 4 = 100 * a + 25 * b + c" "?y div 100 = 4 * a + b" "?y div 400 = a"
    using assms by (intro div_unique; simp)+
  then show ?thesis by (simp add: daysBeforeYear_def)
qed

lemma step_div: "y div k - (y - 1) div k = (if y mod k = 0 then 1 else 0)" if "0 < k" for k y :: int
proof (cases "y mod k = 0")
  case True
  then obtain q where "y = k * q" by auto
  moreover have "(k * q - 1) div k = q - 1" using that by (intro div_unique) (auto simp: algebra_simps)
  ultimately show ?thesis using that by simp
next
  case False
  then have "0 < y mod k" using that pos_mod_sign [of k y] by linarith
  moreover have "y mod k < k" using that by simp
  ultimately have "k * (y div k) \<le> y - 1" "y - 1 < k * (y div k + 1)"
    using mult_div_mod_eq [of k y] unfolding distrib_left by linarith+
  then have "(y - 1) div k = y div k" by (rule div_unique [OF _ _ that])
  then show ?thesis using False by simp
qed

lemma count_leap:
  fixes p4 p100 p400 q4 q100 q400 y :: int
  assumes "p4 - q4 = (if A then 1 else 0)" "p100 - q100 = (if B then 1 else 0)"
    and "p400 - q400 = (if C then 1 else 0)" "C \<longrightarrow> B" "B \<longrightarrow> A"
  shows "365 * y + p4 - p100 + p400
    = 365 * (y - 1) + q4 - q100 + q400 + (if A \<and> (\<not> B \<or> C) then 366 else 365)"
  using assms by (auto split: if_splits)

lemma daysBeforeYear_Suc: "daysBeforeYear (y + 1) = daysBeforeYear y + (if isLeap y then 366 else 365)"
proof -
  have "y mod 400 = 0 \<longrightarrow> y mod 100 = 0" "y mod 100 = 0 \<longrightarrow> y mod 4 = 0" by presburger+
  moreover have "y div 4 - (y - 1) div 4 = (if y mod 4 = 0 then 1 else 0)"
    "y div 100 - (y - 1) div 100 = (if y mod 100 = 0 then 1 else 0)"
    "y div 400 - (y - 1) div 400 = (if y mod 400 = 0 then 1 else 0)"
    by (rule step_div, simp)+
  ultimately show ?thesis
    using count_leap [of "y div 4" "(y - 1) div 4" "y mod 4 = 0" "y div 100" "(y - 1) div 100" "y mod 100 = 0"
        "y div 400" "(y - 1) div 400" "y mod 400 = 0" y]
    unfolding daysBeforeYear_def isLeap_def by (simp only: add_diff_cancel_right')
qed

lemma daysBeforeYear_mono: "y \<le> z \<Longrightarrow> daysBeforeYear y + (z - y) \<le> daysBeforeYear z"
  by (induction z rule: int_ge_induct) (auto simp: daysBeforeYear_Suc)

lemma yearOfDay_bounds:
  "daysBeforeYear (yearOfDay n) \<le> n \<and> n < daysBeforeYear (yearOfDay n + 1)"
proof -
  define a r where "a = n div 146097" and "r = n mod 146097"
  define b where "b = min 3 (r div 36524)"
  define r1 where "r1 = r - 36524 * b"
  define c d where "c = r1 div 1461" and "d = r1 mod 1461"
  define e where "e = min 3 (d div 365)"
  note defs = a_def r_def b_def r1_def c_def d_def e_def
  have n: "n = 146097 * a + r" and r: "0 \<le> r" "r < 146097" by (simp_all add: a_def r_def)
  have b: "0 \<le> b" "b \<le> 3" and r1: "0 \<le> r1" "r1 \<le> 36524" "b < 3 \<Longrightarrow> r1 < 36524"
    using r unfolding b_def r1_def by linarith+
  have d: "0 \<le> d" "d < 1461" "r1 = 1461 * c + d" by (simp_all add: c_def d_def)
  then have c: "0 \<le> c" "c \<le> 24" using r1 by linarith+
  have e: "0 \<le> e" "e \<le> 3" "365 * e \<le> d" "e < 3 \<Longrightarrow> d < 365 * e + 365"
    using d unfolding e_def by linarith+
  have year: "yearOfDay n = 400 * a + 100 * b + 4 * c + e + 1"
    by (simp add: yearOfDay_def Let_def defs)
  have first: "daysBeforeYear (yearOfDay n) = 146097 * a + 36524 * b + 1461 * c + 365 * e"
    unfolding year using b c e by (intro daysBeforeYear_cycles) auto
  have last: "d - 365 * e < (if isLeap (yearOfDay n) then 366 else 365)"
  proof (cases "e < 3")
    case False
    then have e3: "e = 3" using e by simp
    then have y: "yearOfDay n = 4 * (100 * a + 25 * b + c + 1)" "yearOfDay n = 100 * (4 * a + b) + 4 * (c + 1)"
      "c = 24 \<Longrightarrow> b = 3 \<Longrightarrow> yearOfDay n = 400 * (a + 1)"
      unfolding year by simp_all
    have "yearOfDay n mod 4 = 0" unfolding y(1) by simp
    moreover have "c = 24" if "yearOfDay n mod 100 = 0"
    proof (rule ccontr)
      assume "c \<noteq> 24"
      then have "4 * (c + 1) mod 100 = 4 * (c + 1)" using c by (intro mod_pos_pos_trivial) auto
      moreover have "yearOfDay n mod 100 = 4 * (c + 1) mod 100" unfolding y(2) by (simp only: mod_mult_self4)
      ultimately show False using that c by simp
    qed
    moreover have "c = 24 \<Longrightarrow> b = 3 \<Longrightarrow> yearOfDay n mod 400 = 0" using y(3) by simp
    moreover have "c = 24 \<Longrightarrow> b < 3 \<Longrightarrow> d < 1460" using r1 d by linarith
    ultimately show ?thesis using b d e3 unfolding isLeap_def
      by (cases "c = 24"; cases "b = 3") auto
  qed (use e in auto)
  have "n = daysBeforeYear (yearOfDay n) + (d - 365 * e)"
    using n d(3) first unfolding r1_def by linarith
  then show ?thesis using last e(3) unfolding daysBeforeYear_Suc by simp
qed

lemma yearOfDay_unique:
  assumes "daysBeforeYear y \<le> n" "n < daysBeforeYear (y + 1)"
  shows "yearOfDay n = y"
proof (rule linorder_cases [of "yearOfDay n" y])
  assume "yearOfDay n < y"
  then show ?thesis using yearOfDay_bounds [of n] daysBeforeYear_mono [of "yearOfDay n + 1" y] assms by simp
next
  assume "y < yearOfDay n"
  then show ?thesis using yearOfDay_bounds [of n] daysBeforeYear_mono [of "y + 1" "yearOfDay n"] assms by simp
qed

section \<open>Months and days\<close>

lemma month_cases:
  assumes "1 \<le> m" "m \<le> (12 :: int)"
  obtains "m = 1" | "m = 2" | "m = 3" | "m = 4" | "m = 5" | "m = 6" | "m = 7" | "m = 8"
    | "m = 9" | "m = 10" | "m = 11" | "m = 12"
proof -
  have "m = 1 \<or> m = 2 \<or> m = 3 \<or> m = 4 \<or> m = 5 \<or> m = 6 \<or> m = 7 \<or> m = 8 \<or> m = 9 \<or> m = 10 \<or> m = 11 \<or> m = 12"
    using assms by presburger
  then show thesis using that by blast
qed

lemma daysBeforeMonth_Suc:
  "1 \<le> m \<Longrightarrow> m \<le> 12 \<Longrightarrow> daysBeforeMonth l (m + 1) = daysBeforeMonth l m + daysIn l m"
  by (erule (1) month_cases) (simp_all add: daysBeforeMonth_def daysIn_def eval_nat_numeral)

lemma daysBeforeMonth_1 [simp]: "daysBeforeMonth l 1 = 0"
  by (simp add: daysBeforeMonth_def)

lemma daysBeforeMonth_13: "daysBeforeMonth l 13 = (if l then 366 else 365)"
  by (simp add: daysBeforeMonth_def eval_nat_numeral)

lemma daysIn_range: "28 \<le> daysIn l m \<and> daysIn l m \<le> 31"
  by (simp add: daysIn_def)

lemma daysBeforeMonth_mono: "m \<le> k \<Longrightarrow> 1 \<le> m \<Longrightarrow> k \<le> 13 \<Longrightarrow> daysBeforeMonth l m \<le> daysBeforeMonth l k"
proof (induction k rule: int_ge_induct)
  case (step k)
  then show ?case using daysBeforeMonth_Suc [of k l] daysIn_range [of l k] by simp
qed simp

lemma monthSearch_bounds:
  assumes "1 \<le> m" "int k + m = 12" "daysBeforeMonth l m \<le> d" "d < daysBeforeMonth l 13"
  shows "m \<le> monthSearch l d k m \<and> monthSearch l d k m \<le> 12
    \<and> daysBeforeMonth l (monthSearch l d k m) \<le> d \<and> d < daysBeforeMonth l (monthSearch l d k m + 1)"
  using assms
proof (induction k arbitrary: m)
  case (Suc k)
  show ?case
  proof (cases "d < daysBeforeMonth l (m + 1)")
    case False
    then show ?thesis using Suc.IH [of "m + 1"] Suc.prems by simp
  qed (use Suc.prems in simp)
qed auto

lemma monthSearch_unique:
  assumes "1 \<le> m" "m \<le> 12" "daysBeforeMonth l m \<le> d" "d < daysBeforeMonth l (m + 1)"
  shows "monthSearch l d 11 1 = m"
proof -
  have "daysBeforeMonth l 1 \<le> d" "d < daysBeforeMonth l 13"
    using assms daysBeforeMonth_mono [of 1 m l] daysBeforeMonth_mono [of "m + 1" 13 l] by simp_all
  note found = monthSearch_bounds [of 1 11 l d, OF _ _ this, simplified]
  show ?thesis
  proof (rule linorder_cases [of "monthSearch l d 11 1" m])
    assume "monthSearch l d 11 1 < m"
    then show ?thesis using found assms daysBeforeMonth_mono [of "monthSearch l d 11 1 + 1" m l] by simp
  next
    assume "m < monthSearch l d 11 1"
    then show ?thesis using found assms daysBeforeMonth_mono [of "m + 1" "monthSearch l d 11 1" l] by simp
  qed
qed

definition validDate :: "int \<times> int \<times> int \<Rightarrow> bool" where
  "validDate ymd \<longleftrightarrow> (case ymd of (y, m, d) \<Rightarrow> 1 \<le> m \<and> m \<le> 12 \<and> 1 \<le> d \<and> d \<le> daysIn (isLeap y) m)"

lemma daysBeforeYear_length: "daysBeforeYear (y + 1) = daysBeforeYear y + daysBeforeMonth (isLeap y) 13"
  by (simp add: daysBeforeYear_Suc daysBeforeMonth_13)

lemma civil_of_days:
  assumes "validDate (y, m, d)"
  shows "civilFromDays (daysFromCivil y m d) = (y, m, d)"
proof -
  let ?n = "daysFromCivil y m d + epochDay" and ?l = "isLeap y"
  have md: "1 \<le> m" "m \<le> 12" "1 \<le> d" "d \<le> daysIn ?l m" using assms by (simp_all add: validDate_def)
  have n: "?n = daysBeforeYear y + daysBeforeMonth ?l m + (d - 1)" by (simp add: daysFromCivil_def)
  have month: "daysBeforeMonth ?l m \<le> daysBeforeMonth ?l m + (d - 1)"
    "daysBeforeMonth ?l m + (d - 1) < daysBeforeMonth ?l (m + 1)"
    using md daysBeforeMonth_Suc [of m ?l] by simp_all
  then have "0 \<le> daysBeforeMonth ?l m" "daysBeforeMonth ?l m + (d - 1) < daysBeforeMonth ?l 13"
    using md daysBeforeMonth_mono [of 1 m ?l] daysBeforeMonth_mono [of "m + 1" 13 ?l] by simp_all
  then have "yearOfDay ?n = y"
    using md unfolding n by (intro yearOfDay_unique) (simp_all add: daysBeforeYear_length)
  then show ?thesis
    using monthSearch_unique [OF md(1,2) month] n by (simp add: civilFromDays_def Let_def)
qed

lemma days_of_civil:
  assumes "civilFromDays n = (y, m, d)"
  shows "validDate (y, m, d) \<and> daysFromCivil y m d = n"
proof -
  let ?k = "n + epochDay" and ?l = "isLeap y"
  have y: "y = yearOfDay ?k" and m: "m = monthSearch ?l (?k - daysBeforeYear y) 11 1"
    and d: "d = ?k - daysBeforeYear y - daysBeforeMonth ?l m + 1"
    using assms by (auto simp: civilFromDays_def Let_def)
  have "daysBeforeYear y \<le> ?k" "?k < daysBeforeYear y + daysBeforeMonth ?l 13"
    using yearOfDay_bounds [of ?k] unfolding y daysBeforeYear_length by simp_all
  then have "1 \<le> m \<and> m \<le> 12 \<and> daysBeforeMonth ?l m \<le> ?k - daysBeforeYear y
      \<and> ?k - daysBeforeYear y < daysBeforeMonth ?l (m + 1)"
    using monthSearch_bounds [of 1 11 ?l "?k - daysBeforeYear y"] unfolding m by simp
  then show ?thesis
    using daysBeforeMonth_Suc [of m ?l] d by (simp add: validDate_def daysFromCivil_def)
qed

lemma civilFromDays_valid: "validDate (civilFromDays n)"
  using days_of_civil [of n] by (cases "civilFromDays n") simp

lemma civilFromDays_inj: "civilFromDays m = civilFromDays n \<Longrightarrow> m = n"
  using days_of_civil [of m] days_of_civil [of n] by (cases "civilFromDays n") auto

section \<open>Times in UTC\<close>

text \<open>A time with whole nanoseconds, in the range of \<open>int64\<close>.\<close>

definition wfTime :: "Time \<Rightarrow> bool" where
  "wfTime t \<longleftrightarrow> isInt64 (tSec t) \<and> 0 \<le> tNsec t \<and> tNsec t < 10 ^ 9"

lemma localSec_UTC [simp]: "tLoc t = UTC \<Longrightarrow> isInt64 (tSec t) \<Longrightarrow> localSec t = tSec t"
  by (simp add: localSec_def zoneOffset_def)

lemma wfTime_nsec [simp]: "wfTime t \<Longrightarrow> 0 \<le> tNsec t" "wfTime t \<Longrightarrow> tNsec t < 1000000000"
  by (simp_all add: wfTime_def)

lemma clock_sum: "86400 * (s div 86400) + 3600 * (s mod 86400 div 3600) + 60 * (s mod 3600 div 60) + s mod 60
    = (s :: int)"
proof -
  have "s mod 86400 mod 3600 = s mod 3600" "s mod 3600 mod 60 = s mod 60"
    by (simp_all add: mod_mod_cancel)
  then show ?thesis
    using mult_div_mod_eq [of 86400 s] mult_div_mod_eq [of 3600 "s mod 86400"] mult_div_mod_eq [of 60 "s mod 3600"]
    by linarith
qed

end
