(* ===== verification/Go_Time_Roundtrip.thy ===== *)
theory Go_Time_Roundtrip
  imports Go_Time_Format Go_Time_Props
begin

text \<open>
  What is formatted can be parsed: \<open>time.Date\<close> of the fields of a time is the time, every element of a
  layout reads back what it prints, and so do the layouts of dates, times of day and datetimes.
\<close>

section \<open>The fields of a time\<close>

lemma month_normal:
  assumes "1 \<le> m" "m \<le> (12 :: int)"
  shows "(m - 1) div 12 = 0" "(m - 1) mod 12 + 1 = m"
  using assms by (simp_all add: div_pos_pos_trivial mod_pos_pos_trivial)

lemma daysFromCivil_day: "daysFromCivil y m 1 + (d - 1) = daysFromCivil y m d"
  by (simp add: daysFromCivil_def)

lemma civil_date_valid: "validDate (Time_Year t, Time_Month t, Time_Day t)"
  using civilFromDays_valid [of "localSec t div 86400"]
  by (simp add: Time_Year_def Time_Month_def Time_Day_def Time_Date_def)

lemma civil_date_days: "daysFromCivil (Time_Year t) (Time_Month t) (Time_Day t) = localSec t div 86400"
  using days_of_civil [of "localSec t div 86400"]
  by (simp add: Time_Year_def Time_Month_def Time_Day_def Time_Date_def)

lemma civilSeconds_valid:
  assumes "validDate (y, m, d)"
  shows "civilSeconds y m d h mi s = wrap64 (86400 * daysFromCivil y m d + 3600 * h + 60 * mi + s)"
  using assms month_normal [of m] by (simp add: civilSeconds_def validDate_def daysFromCivil_day)

lemma civilSeconds_fields:
  "civilSeconds (Time_Year t) (Time_Month t) (Time_Day t) (Time_Hour t) (Time_Minute t) (Time_Second t)
    = wrap64 (localSec t)"
  using clock_sum [of "localSec t"]
  by (simp add: civilSeconds_valid [OF civil_date_valid] civil_date_days Time_Hour_def Time_Minute_def Time_Second_def)

lemma nsec_normal: "wfTime t \<Longrightarrow> tNsec t div 10 ^ 9 = 0" "wfTime t \<Longrightarrow> tNsec t mod 10 ^ 9 = tNsec t"
  unfolding wfTime_def by (simp_all add: div_pos_pos_trivial mod_pos_pos_trivial)

lemma time_Date_fields:
  assumes "wfTime t" "tLoc t = UTC"
  shows "time_Date (Time_Year t) (Time_Month t) (Time_Day t) (Time_Hour t) (Time_Minute t) (Time_Second t)
    (tNsec t) UTC = t"
proof -
  have "isInt64 (tSec t)" using assms(1) unfolding wfTime_def by (rule conjunct1)
  then show ?thesis
    using assms(2) nsec_normal [OF assms(1)] unfolding time_Date_def Let_def
    by (simp add: civilSeconds_fields)
qed

section \<open>Numbers in layouts\<close>

lemma appendInt_pos: "0 \<le> i \<Longrightarrow> appendInt w i = padNat w (nat i)"
  by (simp add: appendInt_def)

lemma appendInt_length: "0 < w \<Longrightarrow> 0 \<le> i \<Longrightarrow> i < 10 ^ w \<Longrightarrow> length (appendInt w i) = w"
  using padNat_length [of w "nat i"] by (simp add: appendInt_pos nat_less_iff)

lemma appendInt_digits: "0 \<le> i \<Longrightarrow> c \<in> set (appendInt w i) \<Longrightarrow> isDigitChar c"
  by (auto simp: appendInt_pos dest: padNat_digits)

lemma appendInt_value: "0 \<le> i \<Longrightarrow> int (digitsVal (appendInt w i)) = i"
  by (simp add: appendInt_pos)

lemma getnum_appendInt:
  assumes "0 \<le> i" "i < 100"
  shows "getnum (appendInt 2 i @ rest) fixed = Some (i, rest)"
proof -
  have len: "length (appendInt 2 i) = 2" using assms appendInt_length [of 2 i] by simp
  then obtain a b where ab: "appendInt 2 i = [a, b]"
    by (auto simp: numeral_2_eq_2 length_Suc_conv)
  then have "isDigitChar a" "isDigitChar b" using assms(1) appendInt_digits [of i _ 2] by auto
  moreover have "int (digitsVal [a, b]) = i" using assms(1) appendInt_value [of i 2] ab by simp
  ultimately show ?thesis by (simp add: ab getnum_def isDigitAt_def)
qed

lemma getnumIn_appendInt:
  "0 \<le> i \<Longrightarrow> i < 100 \<Longrightarrow> low \<le> i \<Longrightarrow> i \<le> high \<Longrightarrow>
   getnumIn (appendInt 2 i @ rest) fixed low high = Some (i, rest)"
  by (simp add: getnumIn_def getnum_appendInt)

lemma parse_year:
  assumes "0 \<le> i" "i < 10000"
  shows "parseItem LYear suffix (appendInt 4 i @ rest) p = Some (rest, p\<lparr>paYear := i\<rparr>)"
proof -
  have "length (appendInt 4 i) = 4" using assms appendInt_length [of 4 i] by simp
  then show ?thesis
    using assms(1) appendInt_digits [of i _ 4] appendInt_value [of i 4] by (auto simp: list_all_iff)
qed

lemma skip_char: "c \<noteq> CHR '' '' \<Longrightarrow> skip (c # rest) [c] = Some rest"
  by simp

lemma skip_blank: "rest = [] \<or> hd rest \<noteq> CHR '' '' \<Longrightarrow> skip (CHR '' '' # rest) '' '' = Some rest"
  by (cases rest) (simp_all add: cutspace_def)

section \<open>Fractions of a second\<close>

lemma trimZeros_replicate: "\<exists>k. s = trimZeros s @ replicate k CHR ''0''"
proof -
  define r where "r = rev s"
  have "takeWhile (\<lambda>x. x = CHR ''0'') r = replicate (length (takeWhile (\<lambda>x. x = CHR ''0'') r)) CHR ''0''"
    by (induction r) auto
  then have "r = replicate (length (takeWhile (\<lambda>x. x = CHR ''0'') r)) CHR ''0'' @ dropWhile (\<lambda>x. x = CHR ''0'') r"
    by (metis takeWhile_dropWhile_id)
  then have "rev r = rev (dropWhile (\<lambda>x. x = CHR ''0'') r) @ replicate (length (takeWhile (\<lambda>x. x = CHR ''0'') r)) CHR ''0''"
    by (metis rev_append rev_replicate)
  then show ?thesis unfolding r_def trimZeros_def trimRightChar_def by auto
qed

lemma digitsVal_replicate_zero: "digitsVal (replicate k CHR ''0'') = 0"
  using digitsVal_zeros [of k "[]"] by (simp add: digitsVal_def)

lemma trimZeros_value:
  assumes "length s \<le> 9"
  shows "parseNanoseconds (trimZeros s) = int (digitsVal s) * 10 ^ (9 - length s)"
proof -
  obtain k where k: "s = trimZeros s @ replicate k CHR ''0''" using trimZeros_replicate by blast
  then have len: "length s = length (trimZeros s) + k" by (metis length_append length_replicate)
  have "digitsVal s = digitsVal (trimZeros s) * 10 ^ k"
    using arg_cong [OF k, of digitsVal] by (simp add: digitsVal_append digitsVal_replicate_zero)
  then show ?thesis
    using assms len by (simp add: parseNanoseconds_def Let_def power_add [symmetric])
qed

lemma digitsVal_less: "(\<And>c. c \<in> set s \<Longrightarrow> isDigitChar c) \<Longrightarrow> digitsVal s < 10 ^ length s"
proof (induction s)
  case (Cons c s)
  have "digitVal c \<le> 9" using digitVal_less [of c] Cons.prems by simp
  then have "digitVal c * 10 ^ length s \<le> 9 * 10 ^ length s" by (rule mult_right_mono) simp
  moreover have "digitsVal s < 10 ^ length s" using Cons by simp
  ultimately show ?case unfolding digitsVal_Cons length_Cons power_Suc by linarith
qed (simp add: digitsVal_def)

lemma digitsVal_take:
  assumes "\<And>c. c \<in> set s \<Longrightarrow> isDigitChar c" "n \<le> length s" "10 ^ (length s - n) dvd digitsVal s"
  shows "digitsVal (take n s) * 10 ^ (length s - n) = digitsVal s"
proof -
  have sum: "digitsVal s = digitsVal (take n s) * 10 ^ (length s - n) + digitsVal (drop n s)"
    using digitsVal_append [of "take n s" "drop n s"] by simp
  have "digitsVal (drop n s) < 10 ^ (length s - n)"
    using digitsVal_less [of "drop n s"] assms(1) by (auto dest: in_set_dropD)
  moreover have "10 ^ (length s - n) dvd digitsVal (drop n s)"
    using assms(3) sum by (metis dvd_add_right_iff dvd_triv_right)
  ultimately show ?thesis using sum by (auto dest: dvd_imp_le)
qed

lemma formatFrac_value:
  assumes "0 \<le> ns" "ns < 10 ^ 9" "n \<le> 9" "10 ^ (9 - n) dvd ns"
  shows "parseNanoseconds (trimZeros (take n (padNat 9 (nat ns)))) = ns"
proof -
  have len: "length (padNat 9 (nat ns)) = 9"
    using assms(1,2) padNat_length [of 9 "nat ns"] by (simp add: nat_less_iff)
  have "10 ^ (9 - n) dvd nat ns" using assms(1,4) by (metis int_dvd_int_iff nat_0_le of_nat_numeral of_nat_power)
  then have "digitsVal (take n (padNat 9 (nat ns))) * 10 ^ (9 - n) = nat ns"
    using digitsVal_take [of "padNat 9 (nat ns)" n] padNat_digits [of _ 9 "nat ns"] assms(3) len by simp
  then have "int (digitsVal (take n (padNat 9 (nat ns)))) * 10 ^ (9 - n) = ns"
    using assms(1) by (metis int_nat_eq of_nat_mult of_nat_numeral of_nat_power)
  then show ?thesis using trimZeros_value [of "take n (padNat 9 (nat ns))"] len assms(3) by simp
qed

lemma trimZeros_set: "set (trimZeros s) \<subseteq> set s"
  unfolding trimZeros_def trimRightChar_def using set_dropWhileD by fastforce

lemma parse_frac:
  assumes "0 \<le> ns" "ns < 10 ^ 9" "n \<le> 9" "10 ^ (9 - n) dvd ns"
    and "rest = [] \<or> \<not> commaOrPeriod (hd rest) \<and> \<not> isDigitChar (hd rest)" "paNsec p = 0"
  shows "parseItem (LFrac k) suffix (formatFrac n ns @ rest) p = Some (rest, p\<lparr>paNsec := ns\<rparr>)"
proof -
  define ds where "ds = trimZeros (take n (padNat 9 (nat ns)))"
  have val: "parseNanoseconds ds = ns" unfolding ds_def by (rule formatFrac_value) (use assms in auto)
  have digits: "\<forall>c \<in> set ds. isDigitChar c"
    unfolding ds_def using trimZeros_set padNat_digits by (blast dest: in_set_takeD)
  have fmt: "formatFrac n ns = (if ds = [] then [] else CHR ''.'' # ds)"
    by (simp add: formatFrac_def ds_def Let_def)
  show ?thesis
  proof (cases "ds = []")
    case True
    then have "ns = 0" using val by (simp add: parseNanoseconds_def digitsVal_def)
    moreover have "parseFraction rest = None" using assms(5) by (cases rest) (auto simp: parseFraction_def)
    moreover have "p\<lparr>paNsec := 0\<rparr> = p" using assms(6) by (cases p) simp
    moreover have "formatFrac n ns = []" using True fmt by simp
    ultimately show ?thesis by simp
  next
    case False
    then obtain d ds' where d: "ds = d # ds'" by (cases ds) auto
    have "takeWhile isDigitChar (ds @ rest) = ds" "dropWhile isDigitChar (ds @ rest) = rest"
      using digits assms(5) by (cases rest; simp add: takeWhile_append2 dropWhile_append2)+
    then show ?thesis
      using val digits d
      by (simp add: fmt parseFraction_def commaOrPeriod_def isDigitAt_def)
  qed
qed

section \<open>The layouts\<close>

lemma layout_ranges:
  "0 \<le> Time_Month t" "Time_Month t < 100" "1 \<le> Time_Month t" "Time_Month t \<le> 12"
  "0 \<le> Time_Day t" "Time_Day t < 100" "1 \<le> Time_Day t" "Time_Day t \<le> daysIn (isLeap (Time_Year t)) (Time_Month t)"
  using civil_date_valid [of t] by (auto simp: validDate_def daysIn_def split: if_splits)

lemma clock_ranges:
  "0 \<le> Time_Hour t" "Time_Hour t < 100" "Time_Hour t \<le> 23" "0 \<le> Time_Minute t" "Time_Minute t < 100"
  "Time_Minute t \<le> 59" "0 \<le> Time_Second t" "Time_Second t < 100" "Time_Second t \<le> 59"
proof -
  have "0 \<le> s mod 86400 div 3600 \<and> s mod 86400 div 3600 < 24 \<and> 0 \<le> s mod 3600 div 60 \<and> s mod 3600 div 60 < 60
      \<and> 0 \<le> s mod 60 \<and> s mod 60 < 60" for s :: int
    by (auto simp: div_less_iff_less_mult pos_imp_zdiv_nonneg_iff)
  note this [of "localSec t"]
  then show "0 \<le> Time_Hour t" "Time_Hour t < 100" "Time_Hour t \<le> 23" "0 \<le> Time_Minute t" "Time_Minute t < 100"
    "Time_Minute t \<le> 59" "0 \<le> Time_Second t" "Time_Second t < 100" "Time_Second t \<le> 59"
    unfolding Time_Hour_def Time_Minute_def Time_Second_def by linarith+
qed

lemma parse_date:
  assumes "0 \<le> Time_Year t" "Time_Year t < 10000"
  shows "parseItems (layoutDate @ L) (Time_Format t layoutDate @ rest) p
    = parseItems L rest (p\<lparr>paYear := Time_Year t, paMonth := Time_Month t, paDay := Time_Day t\<rparr>)"
  using assms layout_ranges [of t] parse_year [of "Time_Year t"]
  by (simp add: layoutDate_def Time_Format_def getnum_appendInt getnumIn_appendInt
      del: parseItem.simps(2) skip.simps add: skip_char)

lemma parse_clock:
  assumes "wfTime t" "10 ^ (9 - n) dvd tNsec t" "n \<le> 9" "paNsec p = 0"
    and "rest = [] \<or> \<not> commaOrPeriod (hd rest) \<and> \<not> isDigitChar (hd rest)"
  shows "parseItems (layoutClock @ LFrac n # L) (Time_Format t (layoutClock @ [LFrac n]) @ rest) p
    = parseItems L rest (p\<lparr>paHour := Time_Hour t, paMinute := Time_Minute t, paSecond := Time_Second t,
        paNsec := tNsec t\<rparr>)"
proof -
  have "parseItem (LFrac n) L (formatFrac n (tNsec t) @ rest) q = Some (rest, q\<lparr>paNsec := tNsec t\<rparr>)"
    if "paNsec q = 0" for q
    using assms(1) unfolding wfTime_def by (intro parse_frac that assms) simp_all
  then show ?thesis
    using assms(4) clock_ranges [of t]
    by (simp add: layoutClock_def Time_Format_def getnumIn_appendInt
        del: parseItem.simps(8) skip.simps add: skip_char)
qed

lemma Time_Format_append: "Time_Format t (L @ M) = Time_Format t L @ Time_Format t M"
  by (simp add: Time_Format_def)

definition clockZero :: "Time \<Rightarrow> bool" where
  "clockZero t \<longleftrightarrow> Time_Hour t = 0 \<and> Time_Minute t = 0 \<and> Time_Second t = 0 \<and> tNsec t = 0"

text \<open>A midnight, in UTC, of a year with at most four digits.\<close>

definition plainYear :: "Time \<Rightarrow> bool" where
  "plainYear t \<longleftrightarrow> wfTime t \<and> tLoc t = UTC \<and> 0 \<le> Time_Year t \<and> Time_Year t < 10000"

lemma finish_fields:
  assumes "wfTime t" "tLoc t = UTC"
  shows "finishParse UTC local (emptyParsed\<lparr>paYear := Time_Year t, paMonth := Time_Month t, paDay := Time_Day t,
    paHour := Time_Hour t, paMinute := Time_Minute t, paSecond := Time_Second t, paNsec := tNsec t\<rparr>) = Some t"
  using layout_ranges [of t] time_Date_fields [OF assms]
  by (simp add: finishParse_def emptyParsed_def Let_def)

lemma date_roundtrip:
  assumes "plainYear t" "clockZero t"
  shows "time_Parse local layoutDate (Time_Format t layoutDate) = Some t"
  using assms parse_date [of t "[]" "[]" emptyParsed] finish_fields [of t local]
  by (simp add: time_Parse_def plainYear_def clockZero_def emptyParsed_def)

lemma clock_head: "\<exists>c cs. Time_Format t (layoutClock @ L) = c # cs \<and> isDigitChar c"
proof -
  have "length (appendInt 2 (Time_Hour t)) = 2" using clock_ranges [of t] appendInt_length [of 2 "Time_Hour t"] by simp
  then obtain a b where "appendInt 2 (Time_Hour t) = [a, b]" by (auto simp: numeral_2_eq_2 length_Suc_conv)
  then show ?thesis
    using clock_ranges [of t] appendInt_digits [of "Time_Hour t" a 2] by (simp add: Time_Format_def layoutClock_def)
qed

lemma skip_separator:
  assumes "c = CHR ''T'' \<or> c = CHR '' ''"
  shows "skip (c # Time_Format t (layoutClock @ L)) [c] = Some (Time_Format t (layoutClock @ L))"
proof -
  obtain a as where "Time_Format t (layoutClock @ L) = a # as" "isDigitChar a" using clock_head by blast
  moreover from this have "a \<noteq> CHR '' ''" by (auto simp: isDigitChar_def)
  ultimately show ?thesis using assms by (auto simp del: skip.simps intro: skip_char skip_blank)
qed

lemma datetime_items:
  assumes "plainYear t" "1000 dvd tNsec t" "c = CHR ''T'' \<or> c = CHR '' ''"
  shows "parseItems (layoutDate @ [LLit [c]] @ layoutClock @ [LFrac 6])
      (Time_Format t (layoutDate @ [LLit [c]] @ layoutClock @ [LFrac 6])) emptyParsed
    = Some (emptyParsed\<lparr>paYear := Time_Year t, paMonth := Time_Month t, paDay := Time_Day t,
    paHour := Time_Hour t, paMinute := Time_Minute t, paSecond := Time_Second t, paNsec := tNsec t\<rparr>)"
proof -
  define q where "q = emptyParsed\<lparr>paYear := Time_Year t, paMonth := Time_Month t, paDay := Time_Day t\<rparr>"
  have q: "paNsec q = 0" by (simp add: q_def emptyParsed_def)
  have split: "Time_Format t (layoutDate @ [LLit [c]] @ layoutClock @ [LFrac 6])
      = Time_Format t layoutDate @ c # Time_Format t (layoutClock @ [LFrac 6])"
    by (simp add: Time_Format_append) (simp add: Time_Format_def)
  have "parseItems (layoutDate @ [LLit [c]] @ layoutClock @ [LFrac 6])
      (Time_Format t (layoutDate @ [LLit [c]] @ layoutClock @ [LFrac 6])) emptyParsed
    = parseItems (LLit [c] # layoutClock @ [LFrac 6]) (c # Time_Format t (layoutClock @ [LFrac 6])) q"
    unfolding split q_def using assms(1) parse_date [of t "LLit [c] # layoutClock @ [LFrac 6]"]
    by (simp add: plainYear_def)
  also have "\<dots> = parseItems (layoutClock @ [LFrac 6]) (Time_Format t (layoutClock @ [LFrac 6])) q"
    by (simp add: skip_separator [OF assms(3)] del: skip.simps)
  also have "\<dots> = Some (q\<lparr>paHour := Time_Hour t, paMinute := Time_Minute t, paSecond := Time_Second t,
      paNsec := tNsec t\<rparr>)"
    using parse_clock [of t 6 q "[]" "[]"] assms(1,2) q by (simp add: plainYear_def)
  finally show ?thesis by (simp add: q_def)
qed

lemma datetime_roundtrip:
  assumes "plainYear t" "1000 dvd tNsec t" "c = CHR ''T'' \<or> c = CHR '' ''"
  shows "time_Parse local (layoutDate @ [LLit [c]] @ layoutClock @ [LFrac 6])
      (Time_Format t (layoutDate @ [LLit [c]] @ layoutClock @ [LFrac 6])) = Some t"
  using assms(1) finish_fields [of t local] unfolding time_Parse_def datetime_items [OF assms]
  by (simp add: plainYear_def)

lemma datetime_other_separator:
  assumes "plainYear t"
  shows "time_Parse local (layoutDate @ [LLit ''T''] @ L) (Time_Format t (layoutDate @ [LLit '' ''] @ M)) = None"
proof -
  have split: "Time_Format t (layoutDate @ [LLit '' ''] @ M) = Time_Format t layoutDate @ CHR '' '' # Time_Format t M"
    by (simp add: Time_Format_append) (simp add: Time_Format_def)
  show ?thesis
    unfolding split time_Parse_def using assms parse_date [of t "LLit ''T'' # L"] by (simp add: plainYear_def)
qed

text \<open>A time of day is parsed as one of the first of January of year 0.\<close>

lemma clock_roundtrip:
  assumes "wfTime t" "tLoc t = UTC" "Time_Date t = (0, 1, 1)" "1000 dvd tNsec t"
  shows "time_Parse local (layoutClock @ [LFrac 6]) (Time_Format t (layoutClock @ [LFrac 6])) = Some t"
  using time_Date_fields [OF assms(1,2)] parse_clock [of t 6 emptyParsed "[]" "[]"] assms
  by (simp add: time_Parse_def finishParse_def emptyParsed_def Let_def Time_Year_def Time_Month_def Time_Day_def
      daysIn_def)

end
