(* ===== verification/Value_Roundtrip.thy ===== *)
theory Value_Roundtrip
  imports Value_Cast Go_Time_Roundtrip
begin

text \<open>
  The way of a value through SQLite and back: what \<open>EncodeValue\<close> of \<open>internal/encoder.go\<close> writes,
  \<open>DecodeValue\<close> of \<open>internal/decoder.go\<close> reads. The JSON package keeps texts of ASCII characters and
  turns the integers of an array into floating point numbers; so an integer inside an array or a
  struct comes back as a floating point number.
\<close>

section \<open>Base 64\<close>

lemma base64_alphabet:
  "map of_char ''ABCDEFGHIJKLMNOPQRSTUVWXYZabcdefghijklmnopqrstuvwxyz0123456789+/''
    = [65..<91] @ [97..<123] @ [48..<58] @ [43, 47 :: nat]"
  by (simp add: upt_rec_numeral)

lemma nth_upt_append:
  "n < b - a \<Longrightarrow> ([a..<b] @ ys) ! n = a + n" "b - a \<le> n \<Longrightarrow> ([a..<b] @ ys) ! n = ys ! (n - (b - a))"
  by (simp_all add: nth_append)

lemma base64Char_code:
  assumes "n < 64"
  shows "of_char (base64Char n) = (if n < 26 then 65 + n else if n < 52 then n + 71
    else if n < 62 then n - 4 else if n = 62 then 43 else 47 :: nat)"
proof -
  have code: "of_char (base64Char n) = ([65..<91] @ [97..<123] @ [48..<58] @ [43, 47 :: nat]) ! n"
    unfolding base64Char_def base64_alphabet [symmetric] using assms by (subst nth_map) simp_all
  consider "n < 26" | "26 \<le> n" "n < 52" | "52 \<le> n" "n < 62" | "n = 62" | "n = 63" using assms by linarith
  then show ?thesis
  proof cases
    case 1
    then show ?thesis unfolding code by (subst nth_upt_append) simp_all
  next
    case 2
    then show ?thesis unfolding code by (subst nth_upt_append(2), simp, subst nth_upt_append(1)) simp_all
  next
    case 3
    then show ?thesis
      unfolding code by (subst nth_upt_append(2), simp, subst nth_upt_append(2), simp, subst nth_upt_append(1)) auto
  qed (unfold code, (subst nth_upt_append(2), simp)+, simp_all)
qed

lemma base64Value_Char:
  assumes "n < 64"
  shows "base64Value (base64Char n) = Some n"
proof -
  have char: "c = CHR ''+'' \<longleftrightarrow> of_char c = (43 :: nat)" "c = CHR ''/'' \<longleftrightarrow> of_char c = (47 :: nat)" for c
    using of_char_eq_iff [of c "CHR ''+''", where 'a = nat] of_char_eq_iff [of c "CHR ''/''", where 'a = nat] by simp_all
  consider "n < 26" | "26 \<le> n" "n < 52" | "52 \<le> n" "n < 62" | "n = 62" | "n = 63" using assms by linarith
  then show ?thesis
    unfolding base64Value_def Let_def char base64Char_code [OF assms] by cases auto
qed

lemma base64Char_plain:
  assumes "n < 64"
  shows "base64Char n \<noteq> CHR 0x0A" "base64Char n \<noteq> CHR 0x0D" "of_char (base64Char n) < (128 :: nat)"
  using base64Char_code [OF assms] assms by (auto split: if_splits)

lemma base64_digits:
  fixes n :: nat
  shows "((n div 262144 * 64 + n div 4096 mod 64) * 64 + n div 64 mod 64) * 64 + n mod 64 = n"
proof -
  have "n div 4096 = n div 64 div 64" "n div 262144 = n div 64 div 64 div 64"
    by (simp_all add: div_mult2_eq [symmetric])
  then show ?thesis by simp
qed

lemma base64_bytes:
  fixes a b c :: nat
  assumes "b < 256" "c < 256"
  shows "((a * 256 + b) * 256 + c) div 65536 = a" "((a * 256 + b) * 256 + c) div 256 mod 256 = b"
    "((a * 256 + b) * 256 + c) mod 256 = c"
proof -
  have *: "((a * 256 + b) * 256 + c) div 256 = a * 256 + b" using assms by simp
  have "((a * 256 + b) * 256 + c) div 65536 = ((a * 256 + b) * 256 + c) div 256 div 256"
    by (simp add: div_mult2_eq [symmetric])
  then show "((a * 256 + b) * 256 + c) div 65536 = a" using * assms by simp
  show "((a * 256 + b) * 256 + c) div 256 mod 256 = b" unfolding * using assms by simp
  show "((a * 256 + b) * 256 + c) mod 256 = c"
    using assms mod_mult_self3 [of "a * 256 + b" 256 c] by simp
qed

lemma char_byte: "(of_char c :: nat) < 256"
  using of_char_mod_256 [of c, where 'a = nat] mod_less_divisor [of 256 "of_char c"] by linarith

lemma base64_high:
  "(of_char a :: nat) * 16 div 64 < 64"
  "((of_char a :: nat) * 256 + of_char b) * 4 div 4096 < 64"
  "(((of_char a :: nat) * 256 + of_char b) * 256 + of_char c) div 262144 < 64"
proof -
  have le: "x * 16 < 64 * 64" "(x * 256 + y) * 4 < 64 * 4096" "(x * 256 + y) * 256 + z < 64 * 262144"
    if "x < 256" "y < 256" "z < 256" for x y z :: nat
    using that by (auto simp: algebra_simps)
  show "(of_char a :: nat) * 16 div 64 < 64" "((of_char a :: nat) * 256 + of_char b) * 4 div 4096 < 64"
    "(((of_char a :: nat) * 256 + of_char b) * 256 + of_char c) div 262144 < 64"
    by (rule less_mult_imp_div_less, rule le; rule char_byte)+
qed

lemma base64Quad_bytes:
  assumes "((x * 64 + y) * 64 + z) * 64 + w = (a * 256 + b) * 256 + c" "b < 256" "c < 256"
  shows "base64Quad x y z w = [char_of a, char_of b, char_of c]"
  unfolding base64Quad_def Let_def assms(1) using base64_bytes [of b c a] assms(2,3) by simp

lemma base64Value_pad [simp]: "base64Value CHR ''='' = None"
  by (simp add: base64Value_def Let_def)

lemma base64Quads_Encode: "base64Quads (base64Encode s) = Some s"
proof (induction s rule: base64Encode.induct)
  case (2 a)
  define n where "n = (of_char a :: nat) * 16"
  have eq: "((n div 64 * 64 + n mod 64) * 64 + 0) * 64 + 0 = (of_char a * 256 + 0) * 256 + 0"
    unfolding div_mult_mod_eq by (simp add: n_def)
  have "take 1 (base64Quad (n div 64) (n mod 64) 0 0) = [a]"
    by (simp add: base64Quad_bytes [OF eq])
  then show ?case
    using base64_high(1) [of a] unfolding base64Encode.simps Let_def n_def [symmetric] by (simp add: base64Value_Char)
next
  case (3 a b)
  define n where "n = ((of_char a :: nat) * 256 + of_char b) * 4"
  have "n div 4096 = n div 64 div 64" by (simp add: div_mult2_eq [symmetric])
  then have eq: "((n div 4096 * 64 + n div 64 mod 64) * 64 + n mod 64) * 64 + 0 = (of_char a * 256 + of_char b) * 256 + 0"
    by (simp add: n_def)
  then have "take 2 (base64Quad (n div 4096) (n div 64 mod 64) (n mod 64) 0) = [a, b]"
    by (simp add: base64Quad_bytes [OF eq] char_byte)
  then show ?case
    using base64_high(2) [of a b] unfolding base64Encode.simps Let_def n_def [symmetric] by (simp add: base64Value_Char)
next
  case (4 a b c s)
  define n where "n = ((of_char a :: nat) * 256 + of_char b) * 256 + of_char c"
  have eq: "((n div 262144 * 64 + n div 4096 mod 64) * 64 + n div 64 mod 64) * 64 + n mod 64
      = (of_char a * 256 + of_char b) * 256 + of_char c"
    unfolding base64_digits by (rule n_def)
  have "base64Quad (n div 262144) (n div 4096 mod 64) (n div 64 mod 64) (n mod 64) = [a, b, c]"
    by (simp add: base64Quad_bytes [OF eq] char_byte)
  then show ?case
    using 4 base64_high(3) [of a b c] unfolding base64Encode.simps Let_def n_def [symmetric]
    by (simp add: base64Value_Char)
qed simp

definition asciiText :: "string \<Rightarrow> bool" where
  "asciiText s \<longleftrightarrow> list_all (\<lambda>c. (of_char c :: nat) < 128) s"

lemma base64Encode_chars:
  "c \<in> set (base64Encode s) \<Longrightarrow> c \<noteq> CHR 0x0A \<and> c \<noteq> CHR 0x0D \<and> (of_char c :: nat) < 128"
  using base64Char_plain base64_high
  by (induction s rule: base64Encode.induct) (auto simp: Let_def)

lemma base64_roundtrip: "base64Decode J (base64Encode s) = ok s"
proof -
  have "filter (\<lambda>c. c \<noteq> CHR 0x0A \<and> c \<noteq> CHR 0x0D) (base64Encode s) = base64Encode s"
    using base64Encode_chars by (auto intro: filter_True)
  then show ?thesis by (simp add: base64Decode_def base64Quads_Encode)
qed

lemma base64Encode_ascii: "asciiText (base64Encode s)"
  using base64Encode_chars by (auto simp: asciiText_def list_all_iff)

section \<open>The JSON package\<close>

text \<open>What an array may hold: nothing but what \<open>EncodeValue\<close> returns, floating point numbers being finite.\<close>

primrec jsonItem :: "'f Runtime \<Rightarrow> 'f GoAny \<Rightarrow> bool" where
  "jsonItem R AnyNil \<longleftrightarrow> True"
| "jsonItem R (AnyInt i) \<longleftrightarrow> True"
| "jsonItem R (AnyString s) \<longleftrightarrow> asciiText s"
| "jsonItem R (AnyBytes s) \<longleftrightarrow> False"
| "jsonItem R (AnyFloat f) \<longleftrightarrow> flToRat R f \<noteq> None"
| "jsonItem R (AnyBool b) \<longleftrightarrow> True"
| "jsonItem R (AnySlice xs) \<longleftrightarrow> False"
| "jsonItem R (AnyFields xs) \<longleftrightarrow> False"
| "jsonItem R (AnyMap xs) \<longleftrightarrow> False"

text \<open>A number that is unmarshalled into an interface becomes a \<open>float64\<close>.\<close>

definition jsonNumber :: "'f Runtime \<Rightarrow> 'f GoAny \<Rightarrow> 'f GoAny" where
  "jsonNumber R a = (case a of AnyInt i \<Rightarrow> AnyFloat (flOfInt R i) | _ \<Rightarrow> a)"

definition jsonLaws :: "'f Runtime \<Rightarrow> 'f Json \<Rightarrow> bool" where
  "jsonLaws R J \<longleftrightarrow>
     (\<forall>l. asciiText (vlHeader l) \<and> asciiText (vlBody l) \<longrightarrow> jsUnmarshalLayout J (jsMarshalLayout J l) = ok l)
   \<and> (\<forall>xs. list_all (jsonItem R) xs \<longrightarrow>
        (\<exists>s. asciiText s \<and> jsMarshalSlice J xs = ok s \<and> jsUnmarshalSlice J s = ok (map (jsonNumber R) xs)))
   \<and> (\<forall>keys xs. list_all asciiText keys \<and> list_all (jsonItem R) xs \<longrightarrow>
        (\<exists>s. asciiText s \<and> jsMarshalStruct J \<lparr>slKeys = keys, slValues = xs\<rparr> = ok s
           \<and> jsUnmarshalStruct J s = ok \<lparr>slKeys = keys, slValues = map (jsonNumber R) xs\<rparr>))"

section \<open>Values that keep\<close>

definition wholeMicros :: "Time \<Rightarrow> bool" where
  "wholeMicros t \<longleftrightarrow> wfTime t \<and> 1000 dvd tNsec t"

primrec storable :: "'f Runtime \<Rightarrow> 'f Value \<Rightarrow> bool" where
  "storable R (IntValue i) \<longleftrightarrow> True"
| "storable R (StringValue s) \<longleftrightarrow> asciiText s"
| "storable R (BytesValue s) \<longleftrightarrow> True"
| "storable R (FloatValue f) \<longleftrightarrow> flToRat R f \<noteq> None"
| "storable R (NumericValue r isBig) \<longleftrightarrow>
     (case r of None \<Rightarrow> False | Some x \<Rightarrow> rtRatOfString R (ratMarshalText x) = x)"
| "storable R (BoolValue b) \<longleftrightarrow> True"
| "storable R (JsonValue s) \<longleftrightarrow> asciiText s"
| "storable R (ArrayValue xs) \<longleftrightarrow> list_all (\<lambda>x. x \<noteq> Some False) (map (map_option (storable R)) xs)"
| "storable R (StructValue keys vals m) \<longleftrightarrow> list_all asciiText keys \<and> length keys = length vals
     \<and> list_all (\<lambda>x. x \<noteq> Some False) (map (map_option (storable R)) vals)"
| "storable R (DateValue t) \<longleftrightarrow> plainYear t \<and> clockZero t"
| "storable R (DatetimeValue t) \<longleftrightarrow> plainYear t \<and> wholeMicros t"
| "storable R (TimeValue t) \<longleftrightarrow> wholeMicros t \<and> tLoc t = UTC \<and> Time_Date t = (0, 1, 1)"
| "storable R (TimestampValue t) \<longleftrightarrow> wholeMicros t \<and> tLoc t = rtLocal R \<and> isInt64 (tSec t * 10 ^ 6 + tNsec t div 10 ^ 3)"
| "storable R (IntervalValue i) \<longleftrightarrow> False"
| "storable R (SafeValue v) \<longleftrightarrow> storable R v"

text \<open>What comes back; \<open>nested\<close> tells whether the value is inside an array or a struct.\<close>

primrec stored :: "'f Runtime \<Rightarrow> bool \<Rightarrow> 'f Value \<Rightarrow> 'f Value" where
  "stored R nested (IntValue i) = (if nested then FloatValue (flOfInt R i) else IntValue i)"
| "stored R nested (StringValue s) = StringValue s"
| "stored R nested (BytesValue s) = BytesValue s"
| "stored R nested (FloatValue f) = FloatValue f"
| "stored R nested (NumericValue r isBig) = NumericValue r isBig"
| "stored R nested (BoolValue b) = BoolValue b"
| "stored R nested (JsonValue s) = JsonValue s"
| "stored R nested (ArrayValue xs) = ArrayValue (map (map_option (stored R True)) xs)"
| "stored R nested (StructValue keys vals m) =
     StructValue keys (map (map_option (stored R True)) vals) (mapOfFields (zip keys (map (map_option (stored R True)) vals)))"
| "stored R nested (DateValue t) = DateValue t"
| "stored R nested (DatetimeValue t) = DatetimeValue t"
| "stored R nested (TimeValue t) = TimeValue t"
| "stored R nested (TimestampValue t) = TimestampValue t"
| "stored R nested (IntervalValue i) = IntervalValue i"
| "stored R nested (SafeValue v) = stored R nested v"

section \<open>Texts\<close>

lemma asciiText_simps [simp]:
  "asciiText []" "asciiText (s @ t) \<longleftrightarrow> asciiText s \<and> asciiText t"
  "asciiText (c # s) \<longleftrightarrow> (of_char c :: nat) < 128 \<and> asciiText s"
  by (simp_all add: asciiText_def)

lemma asciiText_digits: "(\<And>c. c \<in> set s \<Longrightarrow> isDigitChar c) \<Longrightarrow> asciiText s"
  by (fastforce simp: asciiText_def list_all_iff isDigitChar_def)

lemma asciiText_numbers [simp]:
  "asciiText (sprintInt i)" "asciiText (appendInt w i)" "asciiText (formatFrac n ns)" "asciiText (ratMarshalText r)"
proof -
  show ints: "asciiText (sprintInt i)" for i
    by (auto simp: sprintInt_def intro!: asciiText_digits dest: sprintNat_digits)
  show "asciiText (appendInt w i)"
    by (auto simp: appendInt_def intro!: asciiText_digits dest: padNat_digits)
  have "set (trimZeros (take n (padNat 9 k))) \<subseteq> set (padNat 9 k)" for k
    using trimZeros_set [of "take n (padNat 9 k)"] set_take_subset [of n "padNat 9 k"] by blast
  then show "asciiText (formatFrac n ns)"
    by (auto simp: formatFrac_def Let_def intro!: asciiText_digits dest: padNat_digits)
  show "asciiText (ratMarshalText r)" by (simp add: ratMarshalText_def ints split: prod.split)
qed

lemma ascii_header [simp]: "asciiText (ValueType_string h)"
  by (cases h) (simp_all add: ValueType_string_def)

lemma ascii_times [simp]:
  "asciiText (Time_Format t layoutDate)" "asciiText (Time_Format t datetimeAsStringFormat)"
  "asciiText (Time_Format t timeFormat)"
  by (simp_all add: Time_Format_def datetimeAsStringFormat_def timeFormat_def layoutDate_def layoutClock_def
      layoutDateSpace_def)

section \<open>Decoding what was encoded\<close>

lemma decode_layout:
  assumes "jsonLaws R J" "asciiText (vlHeader l)" "asciiText (vlBody l)"
  shows "DecodeValue (Suc n) R J (AnyString (base64Encode (jsMarshalLayout J l)))
    = decodeFromValueLayout R J (DecodeValue n R J) l"
  using assms by (simp add: decodeString_def base64_roundtrip jsonLaws_def)

lemmas decodeHeaders = decodeFromValueLayout_def layoutOf_def ValueType_string_def Let_def

text \<open>The round trip of a value that is encoded as a text.\<close>

definition keeps :: "'f Runtime \<Rightarrow> 'f Json \<Rightarrow> nat \<Rightarrow> 'f Value \<Rightarrow> 'f GoAny \<Rightarrow> bool" where
  "keeps R J n v a \<longleftrightarrow> encodeNonNull R J v = ok a \<and> jsonItem R a
     \<and> DecodeValue n R J a = ok (Some (stored R False v))
     \<and> DecodeValue n R J (jsonNumber R a) = ok (Some (stored R True v))"

lemma keeps_text:
  assumes "jsonLaws R J" "asciiText b" "encodeNonNull R J v = ok (AnyString (base64Encode (jsMarshalLayout J (layoutOf h b))))"
    and "decodeFromValueLayout R J (DecodeValue n R J) (layoutOf h b) = ok (Some w)"
    and "stored R False v = w" "stored R True v = w"
  shows "\<exists>a. keeps R J (Suc n) v a"
proof -
  let ?a = "AnyString (base64Encode (jsMarshalLayout J (layoutOf h b)))"
  have "DecodeValue (Suc n) R J ?a = ok (Some w)"
    using decode_layout [OF assms(1), of "layoutOf h b" n] assms(2,4) by (simp add: layoutOf_def)
  then have "keeps R J (Suc n) v ?a"
    using assms base64Encode_ascii by (simp add: keeps_def jsonNumber_def del: DecodeValue.simps)
  then show ?thesis by blast
qed

lemma encode_text:
  "valueLayoutFromValue R J v [] = ok l \<Longrightarrow> encodeNonNull R J v = go_bind (encodeLayout J (valueLayoutFromValue R J v [])) (\<lambda>s. ok (AnyString s)) \<Longrightarrow>
   encodeNonNull R J v = ok (AnyString (base64Encode (jsMarshalLayout J l)))"
  by (simp add: encodeLayout_def)

lemma micros_whole:
  assumes "wholeMicros t"
  shows "(tNsec t div 10 ^ 3) * 1000 = tNsec t" "0 \<le> tNsec t div 10 ^ 3" "tNsec t div 10 ^ 3 < 10 ^ 6"
proof -
  have ns: "0 \<le> tNsec t" "tNsec t < 10 ^ 9" "1000 dvd tNsec t"
    using assms unfolding wholeMicros_def wfTime_def by blast+
  show "(tNsec t div 10 ^ 3) * 1000 = tNsec t" using ns(3) by simp
  show "0 \<le> tNsec t div 10 ^ 3" "tNsec t div 10 ^ 3 < 10 ^ 6"
    using ns(1,2) by (simp_all add: pos_imp_zdiv_nonneg_iff div_less_iff_less_mult)
qed

lemma time_Unix_nanos:
  assumes "wfTime t" "sec * 10 ^ 9 + nsec = nanos t"
  shows "time_Unix (tLoc t) sec nsec = t"
proof -
  have range: "isInt64 (tSec t)" "tNsec t div 10 ^ 9 = 0" "tNsec t mod 10 ^ 9 = tNsec t"
    using assms(1) nsec_normal [OF assms(1)] unfolding wfTime_def by simp_all
  have "nsec = tNsec t + (tSec t - sec) * 10 ^ 9" using assms(2) by (simp add: nanos_def algebra_simps)
  then have "nsec div 10 ^ 9 = tSec t - sec" "nsec mod 10 ^ 9 = tNsec t"
    using range(2,3) by (simp_all only: div_mult_self1 mod_mult_self1) simp
  then show ?thesis unfolding time_Unix_def using range(1) by simp
qed

lemma decode_timestamp:
  assumes "storable R (TimestampValue t)"
  shows "decodeTimestamp R (sprintInt (Time_UnixMicro t)) = ok (Some (TimestampValue t))"
proof -
  define m where "m = tSec t * 10 ^ 6 + tNsec t div 10 ^ 3"
  have t: "wholeMicros t" "tLoc t = rtLocal R" "isInt64 m" using assms by (simp_all add: m_def)
  have micro: "Time_UnixMicro t = m" using t(3) by (simp add: Time_UnixMicro_def m_def)
  have second: "Second sdiv Microsecond = 10 ^ 6" by (simp add: duration_defs signed_divide_int_def)
  have "(m sdiv 10 ^ 6) * 10 ^ 9 + (m - m sdiv 10 ^ 6 * 10 ^ 6) * 1000 = m * 1000" by simp
  also have "\<dots> = nanos t" using micros_whole(1) [OF t(1)] by (simp add: m_def nanos_def)
  finally have "time_Unix (tLoc t) (m sdiv 10 ^ 6) ((m - m sdiv 10 ^ 6 * 10 ^ 6) * 1000) = t"
    using t(1) unfolding wholeMicros_def by (intro time_Unix_nanos) simp_all
  then show ?thesis
    using t(2,3) unfolding decodeTimestamp_def micro ParseInt_sprintInt [OF t(3)] second Let_def
    by (simp add: Microsecond_def)
qed

lemma goList_all2:
  "(\<And>x. x \<in> set xs \<Longrightarrow> \<exists>a. f x = ok a \<and> Q x a) \<Longrightarrow> \<exists>as. goList (map f xs) = ok as \<and> list_all2 Q xs as"
proof (induction xs)
  case (Cons x xs)
  then obtain as where as: "goList (map f xs) = ok as" "list_all2 Q xs as" by force
  obtain a where "f x = ok a" "Q x a" using Cons.prems [of x] by auto
  with as show ?case by (intro exI [of _ "a # as"]) simp
qed simp

lemma goList_map_all2: "list_all2 (\<lambda>x a. f a = ok (g x)) xs as \<Longrightarrow> goList (map f as) = ok (map g xs)"
  by (induction xs as rule: list_all2_induct) simp_all

lemma goList_fields:
  "list_all2 (\<lambda>x a. f a = ok (g x)) xs as \<Longrightarrow> k + length xs \<le> length keys \<Longrightarrow>
   goList (map (decodeField f keys) (List.enumerate k as)) = ok (map g xs)"
  by (induction xs as arbitrary: k rule: list_all2_induct) (simp_all add: decodeField_def)

text \<open>Elements and fields: \<open>None\<close> is encoded as nil.\<close>

definition keepsItem :: "'f Runtime \<Rightarrow> 'f Json \<Rightarrow> nat \<Rightarrow> 'f Value option \<Rightarrow> 'f GoAny \<Rightarrow> bool" where
  "keepsItem R J n x a \<longleftrightarrow> jsonItem R a \<and> DecodeValue n R J (jsonNumber R a) = ok (map_option (stored R True) x)"

lemma keeps_items:
  assumes "\<And>v. Some v \<in> set xs \<Longrightarrow> \<exists>a. keeps R J n v a" "0 < n"
  shows "\<exists>as. goList (map (onNull (ok AnyNil) (encodeNonNull R J)) xs) = ok as \<and> list_all2 (keepsItem R J n) xs as"
proof (rule goList_all2)
  fix x assume x: "x \<in> set xs"
  obtain k where k: "n = Suc k" using assms(2) by (cases n) auto
  show "\<exists>a. onNull (ok AnyNil) (encodeNonNull R J) x = ok a \<and> keepsItem R J n x a"
  proof (cases x)
    case None
    then show ?thesis by (auto simp: onNull_def keepsItem_def jsonNumber_def k intro: exI [of _ AnyNil])
  next
    case (Some v)
    then show ?thesis using assms(1) [of v] x by (auto simp: onNull_def keepsItem_def keeps_def)
  qed
qed

lemma keepsItem_item: "list_all2 (keepsItem R J n) xs as \<Longrightarrow> list_all (jsonItem R) as"
  by (induction xs as rule: list_all2_induct) (simp_all add: keepsItem_def)

lemma keepsItem_decode:
  "list_all2 (keepsItem R J n) xs as \<Longrightarrow>
   list_all2 (\<lambda>x a. DecodeValue n R J a = ok (map_option (stored R True) x)) xs (map (jsonNumber R) as)"
  by (induction xs as rule: list_all2_induct) (simp_all add: keepsItem_def)

lemma storable_element:
  assumes "list_all (\<lambda>x. x \<noteq> Some False) (map (map_option P) xs)" "Some v \<in> set xs"
  shows "P v"
  using assms by (induction xs) auto

lemma keeps_array:
  assumes "jsonLaws R J" "0 < n" "\<And>v. Some v \<in> set xs \<Longrightarrow> \<exists>a. keeps R J n v a"
  shows "\<exists>a. keeps R J (Suc n) (ArrayValue xs) a"
proof -
  obtain as where as: "goList (map (onNull (ok AnyNil) (encodeNonNull R J)) xs) = ok as"
    "list_all2 (keepsItem R J n) xs as"
    using keeps_items [OF assms(3,2)] by blast
  obtain s where s: "asciiText s" "jsMarshalSlice J as = ok s" "jsUnmarshalSlice J s = ok (map (jsonNumber R) as)"
    using assms(1) keepsItem_item [OF as(2)] unfolding jsonLaws_def by blast
  have "goList (map (DecodeValue n R J) (map (jsonNumber R) as)) = ok (map (map_option (stored R True)) xs)"
    by (rule goList_map_all2 [OF keepsItem_decode [OF as(2)]])
  then have "decodeFromValueLayout R J (DecodeValue n R J) (layoutOf ArrayValueType s)
      = ok (Some (ArrayValue (map (map_option (stored R True)) xs)))"
    using s(3) by (simp add: decodeHeaders)
  moreover have "encodeNonNull R J (ArrayValue xs)
      = ok (AnyString (base64Encode (jsMarshalLayout J (layoutOf ArrayValueType s))))"
    using as(1) s(2) by (simp add: valueLayoutFromValue_def encodeLayout_def)
  ultimately show ?thesis using keeps_text [OF assms(1) s(1)] by simp
qed

lemma keeps_struct:
  assumes "jsonLaws R J" "0 < n" "\<And>v. Some v \<in> set vals \<Longrightarrow> \<exists>a. keeps R J n v a"
    and "list_all asciiText keys" "length keys = length vals"
  shows "\<exists>a. keeps R J (Suc n) (StructValue keys vals m) a"
proof -
  obtain as where as: "goList (map (onNull (ok AnyNil) (encodeNonNull R J)) vals) = ok as"
    "list_all2 (keepsItem R J n) vals as"
    using keeps_items [OF assms(3,2)] by blast
  obtain s where s: "asciiText s" "jsMarshalStruct J \<lparr>slKeys = keys, slValues = as\<rparr> = ok s"
    "jsUnmarshalStruct J s = ok \<lparr>slKeys = keys, slValues = map (jsonNumber R) as\<rparr>"
    using assms(1,4) keepsItem_item [OF as(2)] unfolding jsonLaws_def by blast
  have "goList (map (decodeField (DecodeValue n R J) keys) (List.enumerate 0 (map (jsonNumber R) as)))
      = ok (map (map_option (stored R True)) vals)"
    by (rule goList_fields [OF keepsItem_decode [OF as(2)]]) (simp add: assms(5))
  then have "decodeFromValueLayout R J (DecodeValue n R J) (layoutOf StructValueType s)
      = ok (Some (stored R True (StructValue keys vals m)))"
    using s(3) by (simp add: decodeHeaders)
  moreover have "encodeNonNull R J (StructValue keys vals m)
      = ok (AnyString (base64Encode (jsMarshalLayout J (layoutOf StructValueType s))))"
    using as(1) s(2) by (simp add: valueLayoutFromValue_def encodeLayout_def)
  ultimately show ?thesis using keeps_text [OF assms(1) s(1)] by simp
qed

lemma decode_dates:
  "storable R (DateValue t) \<Longrightarrow> parseDate R (Time_Format t layoutDate) = ok t"
  "storable R (DatetimeValue t) \<Longrightarrow> parseDatetime R (Time_Format t datetimeAsStringFormat) = ok t"
  "storable R (TimeValue t) \<Longrightarrow> parseTime R (Time_Format t timeFormat) = ok t"
  using datetime_roundtrip [of t "CHR '' ''" "rtLocal R"] datetime_other_separator [of t "rtLocal R"]
    date_roundtrip [of t "rtLocal R"] clock_roundtrip [of t "rtLocal R"]
  by (simp_all add: parseDate_def orTimeError_def parseDatetime_def datetimeDefaultFormat_def layoutDateT_def
      datetimeAsStringFormat_def layoutDateSpace_def parseTime_def timeFormat_def wholeMicros_def)

lemma keeps_scalars:
  "\<exists>a. keeps R J (Suc n) (IntValue i) a" "\<exists>a. keeps R J (Suc n) (BoolValue b) a"
  "flToRat R f \<noteq> None \<Longrightarrow> \<exists>a. keeps R J (Suc n) (FloatValue f) a"
  by (auto simp: keeps_def jsonNumber_def IntValue_ToInt64_def BoolValue_ToBool_def FloatValue_ToFloat64_def)

lemmas encode_simps = encodeLayout_def valueLayoutFromValue_def DateValue_ToString_def DatetimeValue_ToString_def
  TimeValue_ToString_def

lemma keeps_texts:
  assumes "jsonLaws R J"
  shows "asciiText s \<Longrightarrow> \<exists>a. keeps R J (Suc n) (StringValue s) a"
    and "\<exists>a. keeps R J (Suc n) (BytesValue s) a"
    and "asciiText s \<Longrightarrow> \<exists>a. keeps R J (Suc n) (JsonValue s) a"
    and "rtRatOfString R (ratMarshalText x) = x \<Longrightarrow> \<exists>a. keeps R J (Suc n) (NumericValue (Some x) isBig) a"
proof -
  show "\<exists>a. keeps R J (Suc n) (StringValue s) a" if "asciiText s"
    by (rule keeps_text [OF assms, where b = s and h = StringValueType and w = "StringValue s"])
      (use that in \<open>simp_all add: encode_simps decodeHeaders\<close>)
  show "\<exists>a. keeps R J (Suc n) (BytesValue s) a"
    by (rule keeps_text [OF assms, where b = "base64Encode s" and h = BytesValueType and w = "BytesValue s"])
      (simp_all add: encode_simps decodeHeaders base64_roundtrip base64Encode_ascii)
  show "\<exists>a. keeps R J (Suc n) (JsonValue s) a" if "asciiText s"
    by (rule keeps_text [OF assms, where b = s and h = JsonValueType and w = "JsonValue s"])
      (use that in \<open>simp_all add: encode_simps decodeHeaders\<close>)
  show "\<exists>a. keeps R J (Suc n) (NumericValue (Some x) isBig) a" if "rtRatOfString R (ratMarshalText x) = x"
    by (rule keeps_text [OF assms, where b = "ratMarshalText x"
          and h = "if isBig then BigNumericValueType else NumericValueType" and w = "NumericValue (Some x) isBig"])
      (use that in \<open>simp_all add: encode_simps decodeHeaders\<close>)
qed

lemma keeps_times:
  assumes "jsonLaws R J"
  shows "storable R (DateValue t) \<Longrightarrow> \<exists>a. keeps R J (Suc n) (DateValue t) a"
    and "storable R (DatetimeValue t) \<Longrightarrow> \<exists>a. keeps R J (Suc n) (DatetimeValue t) a"
    and "storable R (TimeValue t) \<Longrightarrow> \<exists>a. keeps R J (Suc n) (TimeValue t) a"
    and "storable R (TimestampValue t) \<Longrightarrow> \<exists>a. keeps R J (Suc n) (TimestampValue t) a"
proof -
  show "\<exists>a. keeps R J (Suc n) (DateValue t) a" if "storable R (DateValue t)"
    by (rule keeps_text [OF assms, where b = "Time_Format t layoutDate" and h = DateValueType and w = "DateValue t"])
      (simp_all add: encode_simps decodeHeaders decode_dates(1) [OF that])
  show "\<exists>a. keeps R J (Suc n) (DatetimeValue t) a" if "storable R (DatetimeValue t)"
    by (rule keeps_text [OF assms, where b = "Time_Format t datetimeAsStringFormat" and h = DatetimeValueType
          and w = "DatetimeValue t"])
      (simp_all add: encode_simps decodeHeaders decode_dates(2) [OF that])
  show "\<exists>a. keeps R J (Suc n) (TimeValue t) a" if "storable R (TimeValue t)"
    by (rule keeps_text [OF assms, where b = "Time_Format t timeFormat" and h = TimeValueType and w = "TimeValue t"])
      (simp_all add: encode_simps decodeHeaders decode_dates(3) [OF that])
  show "\<exists>a. keeps R J (Suc n) (TimestampValue t) a" if "storable R (TimestampValue t)"
    by (rule keeps_text [OF assms, where b = "sprintInt (Time_UnixMicro t)" and h = TimestampValueType
          and w = "TimestampValue t"])
      (simp_all add: encode_simps decodeHeaders decode_timestamp [OF that])
qed

lemma keeps_value:
  assumes "jsonLaws R J"
  shows "storable R v \<Longrightarrow> size v < n \<Longrightarrow> \<exists>a. keeps R J n v a"
proof (induction v arbitrary: n)
  case (ArrayValue xs)
  obtain k where k: "n = Suc k" "0 < k" using ArrayValue.prems(2) by (cases n) auto
  have "\<exists>a. keeps R J k v a" if "Some v \<in> set xs" for v
  proof (rule ArrayValue.IH [OF that])
    show "v \<in> set_option (Some v)" by simp
    show "storable R v" using ArrayValue.prems(1) that storable_element [of "storable R" xs v] by simp
    show "size v < k" using element_smaller [OF that] ArrayValue.prems(2) k(1) by simp
  qed
  then show ?case unfolding k(1) by (rule keeps_array [OF assms k(2)])
next
  case (StructValue keys vals m)
  obtain k where k: "n = Suc k" "0 < k" using StructValue.prems(2) by (cases n) auto
  have "\<exists>a. keeps R J k v a" if "Some v \<in> set vals" for v
  proof (rule StructValue.IH(1) [OF that])
    show "v \<in> set_option (Some v)" by simp
    show "storable R v" using StructValue.prems(1) that storable_element [of "storable R" vals v] by simp
    show "size v < k" using field_smaller [OF that, of keys m] StructValue.prems(2) k(1) by simp
  qed
  then show ?case unfolding k(1) using StructValue.prems(1) by (intro keeps_struct [OF assms k(2)]) simp_all
next
  case (SafeValue v)
  then show ?case by (auto simp: keeps_def)
next
  case (NumericValue r isBig)
  then obtain k x where "n = Suc k" "r = Some x" "rtRatOfString R (ratMarshalText x) = x"
    by (cases n) (auto split: option.splits)
  then show ?case using keeps_texts(4) [OF assms] by simp
next
  case (IntervalValue iv)
  then show ?case by simp
next
  case (IntValue i)
  then show ?case using keeps_scalars(1) by (cases n) simp_all
next
  case (BoolValue b)
  then show ?case using keeps_scalars(2) by (cases n) simp_all
next
  case (FloatValue f)
  then show ?case using keeps_scalars(3) by (cases n) simp_all
next
  case (StringValue s)
  then show ?case using keeps_texts(1) [OF assms] by (cases n) simp_all
next
  case (BytesValue s)
  then show ?case using keeps_texts(2) [OF assms] by (cases n) simp_all
next
  case (JsonValue s)
  then show ?case using keeps_texts(3) [OF assms] by (cases n) simp_all
next
  case (DateValue t)
  then show ?case using keeps_times(1) [OF assms] by (cases n) (simp_all del: storable.simps(10-13))
next
  case (DatetimeValue t)
  then show ?case using keeps_times(2) [OF assms] by (cases n) (simp_all del: storable.simps(10-13))
next
  case (TimeValue t)
  then show ?case using keeps_times(3) [OF assms] by (cases n) (simp_all del: storable.simps(10-13))
next
  case (TimestampValue t)
  then show ?case using keeps_times(4) [OF assms] by (cases n) (simp_all del: storable.simps(10-13))
qed

text \<open>C9: A storable value comes back from its encoding as \<open>stored\<close> says: unchanged, except that safe
  values are unwrapped, maps of structs are rebuilt from keys and values, and every integer inside an
  array or a struct is a floating point number. The size of the value is enough fuel.\<close>

theorem codec_roundtrip:
  assumes "jsonLaws R J" "storable R v" "size v < n"
  shows "\<exists>a. EncodeValue R J (Some v) = ok a \<and> DecodeValue n R J a = ok (Some (stored R False v))"
  using keeps_value [OF assms] by (auto simp: keeps_def EncodeValue_def onNull_def)

end
