(* ===== verification/Value_Demo.thy ===== *)
theory Value_Demo
  imports Value_Roundtrip
begin

text \<open>
  Concrete instances of the parameters, for the witnesses: a run time whose floating point numbers are
  integers, and a package that writes every text with a mark before each character, so that texts can
  be strung together. Both are executable and satisfy the laws the properties ask for.
\<close>

section \<open>A run time\<close>

definition readInt :: "string \<Rightarrow> int" where
  "readInt s = (if s \<noteq> [] \<and> hd s = CHR ''-'' then - int (digitsVal (tl s)) else int (digitsVal s))"

lemma readInt_sprintInt [simp]: "readInt (sprintInt i) = i"
proof -
  have "hd (sprintNat n) \<noteq> CHR ''-''" for n
    using sprintNat_digits [of "hd (sprintNat n)" n] by (metis hd_in_set not_digit_minus sprintNat_not_Nil)
  then show ?thesis by (simp add: readInt_def sprintInt_def)
qed

definition readRat :: "string \<Rightarrow> rat" where
  "readRat s = (case splitChar CHR ''/'' s of
     [a, b] \<Rightarrow> of_int (readInt a) / of_int (readInt b) | _ \<Rightarrow> of_int (readInt s))"

definition demoRuntime :: "int Runtime" where
  "demoRuntime = \<lparr>flAdd = (+), flSub = (-), flMul = (*), flDiv = (div), flEq = (=), flLess = (<),
     flOfInt = (\<lambda>i. i), flToInt = wrap64, flOfRat = floor, flToRat = (\<lambda>f. Some (of_int f)),
     flTrunc = (\<lambda>f. f), flShow = sprintInt, flFixed = sprintInt, flShortest = sprintInt,
     flParse = (\<lambda>s. ok (readInt s)), rtQuote = (\<lambda>s. s), rtShow = (\<lambda>v. []), rtRatOfString = readRat,
     rtIntervalString = (\<lambda>i. []), rtParseInterval = (\<lambda>s. ok noInterval), rtIntervalOfDuration = (\<lambda>d. noInterval),
     rtJsonUnmarshal = (\<lambda>s. None), rtKeyOrder = (\<lambda>ks. ks), rtTimeError = (\<lambda>s. s), rtLocal = UTC,
     rtLoadLocation = (\<lambda>s. if s = [] \<or> s = ''UTC'' then ok UTC else fail_with ''unknown time zone'')\<rparr>"

section \<open>A text package\<close>

definition packText :: "string \<Rightarrow> string" where
  "packText s = concat (map (\<lambda>c. [CHR ''c'', c]) s) @ ''e''"

definition packTexts :: "string list \<Rightarrow> string" where
  "packTexts ss = concat (map packText ss)"

fun unpackTexts :: "string \<Rightarrow> string \<Rightarrow> string list" where
  "unpackTexts acc (x # s) =
     (if x = CHR ''e'' then acc # unpackTexts [] s
      else (case s of c # t \<Rightarrow> unpackTexts (acc @ [c]) t | [] \<Rightarrow> []))"
| "unpackTexts acc [] = []"

lemma unpack_pack: "unpackTexts acc (packText s @ r) = (acc @ s) # unpackTexts [] r"
  by (induction s arbitrary: acc) (simp_all add: packText_def)

lemma unpackTexts_packTexts [simp]: "unpackTexts [] (packTexts ss) = ss"
  by (induction ss) (simp_all add: packTexts_def unpack_pack)

lemma asciiText_packTexts [simp]: "asciiText (packTexts ss) \<longleftrightarrow> list_all asciiText ss"
proof -
  have "asciiText (packText s) \<longleftrightarrow> asciiText s" for s
    by (induction s) (simp_all add: packText_def)
  then show ?thesis by (induction ss) (simp_all add: packTexts_def)
qed

definition itemText :: "int GoAny \<Rightarrow> string" where
  "itemText a = (case a of
       AnyInt i \<Rightarrow> CHR ''n'' # sprintInt i | AnyFloat i \<Rightarrow> CHR ''n'' # sprintInt i
     | AnyString s \<Rightarrow> CHR ''s'' # s | AnyBool b \<Rightarrow> (if b then ''t'' else ''f'') | _ \<Rightarrow> ''z'')"

definition itemOfText :: "string \<Rightarrow> int GoAny" where
  "itemOfText s = (case s of
       [] \<Rightarrow> AnyNil
     | c # t \<Rightarrow> if c = CHR ''n'' then AnyFloat (readInt t) else if c = CHR ''s'' then AnyString t
         else if c = CHR ''t'' then AnyBool True else if c = CHR ''f'' then AnyBool False else AnyNil)"

lemma itemOfText_itemText: "jsonItem R a \<Longrightarrow> itemOfText (itemText a) = jsonNumber demoRuntime a"
  by (cases a) (simp_all add: itemOfText_def itemText_def jsonNumber_def demoRuntime_def)

lemma asciiText_itemText: "jsonItem R a \<Longrightarrow> asciiText (itemText a)"
  by (cases a) (simp_all add: itemText_def)

definition demoJson :: "int Json" where
  "demoJson = \<lparr>jsMarshalLayout = (\<lambda>l. packTexts [vlHeader l, vlBody l]),
     jsUnmarshalLayout = (\<lambda>s. case unpackTexts [] s of
        [h, b] \<Rightarrow> ok \<lparr>vlHeader = h, vlBody = b\<rparr> | _ \<Rightarrow> fail_with ''layout''),
     jsMarshalSlice = (\<lambda>xs. ok (packTexts (map itemText xs))),
     jsUnmarshalSlice = (\<lambda>s. ok (map itemOfText (unpackTexts [] s))),
     jsMarshalStruct = (\<lambda>l. ok (packTexts [packTexts (slKeys l), packTexts (map itemText (slValues l))])),
     jsUnmarshalStruct = (\<lambda>s. case unpackTexts [] s of
        [k, v] \<Rightarrow> ok \<lparr>slKeys = unpackTexts [] k, slValues = map itemOfText (unpackTexts [] v)\<rparr>
      | _ \<Rightarrow> fail_with ''struct''),
     jsUnquote = (\<lambda>s. ok s), jsBase64Error = (\<lambda>s. s), jsKindName = (\<lambda>k. [])\<rparr>"

lemma demo_items:
  assumes "list_all (jsonItem demoRuntime) xs"
  shows "map itemOfText (map itemText xs) = map (jsonNumber demoRuntime) xs" "list_all asciiText (map itemText xs)"
  using assms itemOfText_itemText asciiText_itemText by (auto simp: list_all_iff)

lemma demo_jsonLaws: "jsonLaws demoRuntime demoJson"
proof -
  have "jsUnmarshalLayout demoJson (jsMarshalLayout demoJson l) = ok l" for l
    by (simp add: demoJson_def)
  moreover have "\<exists>s. asciiText s \<and> jsMarshalSlice demoJson xs = ok s
      \<and> jsUnmarshalSlice demoJson s = ok (map (jsonNumber demoRuntime) xs)"
    if "list_all (jsonItem demoRuntime) xs" for xs
    using demo_items [OF that] by (simp add: demoJson_def del: map_map)
  moreover have "\<exists>s. asciiText s \<and> jsMarshalStruct demoJson \<lparr>slKeys = keys, slValues = xs\<rparr> = ok s
      \<and> jsUnmarshalStruct demoJson s = ok \<lparr>slKeys = keys, slValues = map (jsonNumber demoRuntime) xs\<rparr>"
    if "list_all asciiText keys" "list_all (jsonItem demoRuntime) xs" for keys xs
    using that(1) demo_items [OF that(2)] by (simp add: demoJson_def del: map_map)
  ultimately show ?thesis unfolding jsonLaws_def by blast
qed

end
