(* ===== verification/Func_Zone.thy ===== *)
theory Func_Zone
  imports Value_Codec
begin

text \<open>
  Time zones: \<open>internal/util.go\<close>. The package keeps a map from names to locations that it has built or
  loaded; the functions that look up a zone take it and return it. \<open>time.LoadLocation\<close> is the parameter
  \<open>rtLoadLocation\<close>.
\<close>

type_synonym locationCache = "(string \<times> Location) list"

definition getCachedLocation :: "locationCache \<Rightarrow> string \<Rightarrow> Location option" where
  "getCachedLocation cache timeZone =
     (case map_of cache timeZone of
        Some loc \<Rightarrow> Some loc
      | None \<Rightarrow> map_of cache (''UTC'' @ timeZone))"

definition setLocationCache :: "string \<Rightarrow> Location \<Rightarrow> locationCache \<Rightarrow> locationCache" where
  "setLocationCache key loc cache = mapSet key loc cache"

text \<open>The leftmost match of \<open>([-+][0-9]{2}):([0-9]{2})\<close> and of \<open>([-+][0-9]{2})\<close>; the patterns are not anchored.\<close>

definition signedDigits :: "string \<Rightarrow> bool" where
  "signedDigits s \<longleftrightarrow> length s = 3 \<and> (hd s = CHR ''-'' \<or> hd s = CHR ''+'') \<and> list_all isDigitChar (tl s)"

fun timeZoneOffsetPattern :: "string \<Rightarrow> (string \<times> string) option" where
  "timeZoneOffsetPattern [] = None"
| "timeZoneOffsetPattern (c # s) =
     (if signedDigits (take 3 (c # s)) \<and> take 1 (drop 3 (c # s)) = '':''
         \<and> length (take 2 (drop 4 (c # s))) = 2 \<and> list_all isDigitChar (take 2 (drop 4 (c # s)))
      then Some (take 3 (c # s), take 2 (drop 4 (c # s)))
      else timeZoneOffsetPattern s)"

fun timeZoneOffsetPartialPattern :: "string \<Rightarrow> string option" where
  "timeZoneOffsetPartialPattern [] = None"
| "timeZoneOffsetPartialPattern (c # s) =
     (if signedDigits (take 3 (c # s)) then Some (take 3 (c # s)) else timeZoneOffsetPartialPattern s)"

text \<open>A location and the cache after the lookup. The minutes are added whatever the sign of the hours is.\<close>

definition toLocation :: "'f Runtime \<Rightarrow> string \<Rightarrow> locationCache \<Rightarrow> Location go \<times> locationCache" where
  "toLocation R timeZone cache =
     (case getCachedLocation cache timeZone of
        Some loc \<Rightarrow> (ok loc, cache)
      | None \<Rightarrow>
          (case timeZoneOffsetPattern timeZone of
             Some (offsetHour, offsetMin) \<Rightarrow>
               (case go_bind (ParseInt (rtQuote R) offsetHour 10) (\<lambda>hour.
                     go_bind (ParseInt (rtQuote R) offsetMin 10) (\<lambda>minute. ok (hour, minute))) of
                  Inl e \<Rightarrow> (Inl e, cache)
                | Inr (hour, minute) \<Rightarrow>
                    (let locName = ''UTC'' @ timeZone; loc = FixedZone locName (hour * 60 * 60 + minute * 60)
                     in (ok loc, setLocationCache locName loc cache)))
           | None \<Rightarrow>
               (case timeZoneOffsetPartialPattern timeZone of
                  Some offset \<Rightarrow>
                    (case ParseInt (rtQuote R) offset 10 of
                       Inl e \<Rightarrow> (Inl e, cache)
                     | Inr hour \<Rightarrow>
                         (let locName = ''UTC'' @ timeZone; loc = FixedZone locName (hour * 60 * 60)
                          in (ok loc, setLocationCache locName loc cache)))
                | None \<Rightarrow>
                    (case wrapGo (''failed to load location from '' @ timeZone) (rtLoadLocation R timeZone) of
                       Inl e \<Rightarrow> (Inl e, cache)
                     | Inr loc \<Rightarrow> (ok loc, setLocationCache timeZone loc cache)))))"

definition withLocation ::
  "'f Runtime \<Rightarrow> string \<Rightarrow> locationCache \<Rightarrow> (Location \<Rightarrow> 'a go) \<Rightarrow> 'a go \<times> locationCache" where
  "withLocation R zone cache f =
     (case toLocation R zone cache of (r, cache') \<Rightarrow> (go_bind r f, cache'))"

definition modifyTimeZone :: "Time \<Rightarrow> Location \<Rightarrow> Time go" where
  "modifyTimeZone t loc = parseTimestamp (Time_Format t (layoutDateT @ [LFrac 9])) loc"

definition timeFromUnixNano :: "'f Runtime \<Rightarrow> int \<Rightarrow> Time" where
  "timeFromUnixNano R unixNano = time_Unix (rtLocal R) 0 unixNano"

section \<open>The cache is transparent\<close>

lemma no_sign_prefix:
  assumes "c \<noteq> CHR ''-''" "c \<noteq> CHR ''+''"
  shows "timeZoneOffsetPattern (c # s) = timeZoneOffsetPattern s"
    "timeZoneOffsetPartialPattern (c # s) = timeZoneOffsetPartialPattern s"
  using assms by (simp_all add: signedDigits_def)

lemma pattern_UTC [simp]:
  "timeZoneOffsetPattern (''UTC'' @ s) = timeZoneOffsetPattern s"
  "timeZoneOffsetPartialPattern (''UTC'' @ s) = timeZoneOffsetPartialPattern s"
  by (simp_all add: no_sign_prefix del: timeZoneOffsetPattern.simps timeZoneOffsetPartialPattern.simps)

definition sameOffsets :: "Location go \<Rightarrow> Location go \<Rightarrow> bool" where
  "sameOffsets r q = (case (r, q) of
     (Inr l, Inr m) \<Rightarrow> (\<forall>sec. zoneOffset l sec = zoneOffset m sec) | _ \<Rightarrow> r = q)"

lemma sameOffsets_refl [simp]: "sameOffsets r r"
  by (cases r) (simp_all add: sameOffsets_def)

lemma sameOffsets_trans: "sameOffsets p q \<Longrightarrow> sameOffsets q r \<Longrightarrow> sameOffsets p r"
  by (cases p; cases q; cases r) (auto simp: sameOffsets_def)

lemma sameOffsets_Fixed [simp]: "sameOffsets (ok (FixedZone a off)) (ok (FixedZone b off))"
  by (simp add: sameOffsets_def FixedZone_def zoneOffset_def)

text \<open>The time zone database knows the empty name and \<open>UTC\<close>, and no longer name that starts with \<open>UTC\<close>.\<close>

definition zoneDatabase :: "'f Runtime \<Rightarrow> bool" where
  "zoneDatabase R \<longleftrightarrow> rtLoadLocation R [] = ok UTC \<and> rtLoadLocation R ''UTC'' = ok UTC
     \<and> (\<forall>name. name \<noteq> [] \<longrightarrow> \<not> is_ok (rtLoadLocation R (''UTC'' @ name)))"

definition cacheOk :: "'f Runtime \<Rightarrow> locationCache \<Rightarrow> bool" where
  "cacheOk R cache \<longleftrightarrow> (\<forall>key loc. map_of cache key = Some loc \<longrightarrow>
     sameOffsets (ok loc) (fst (toLocation R key [])))"

lemma getCachedLocation_empty [simp]: "getCachedLocation [] timeZone = None"
  by (simp add: getCachedLocation_def)

lemma map_of_mapSet [simp]: "map_of (mapSet k v m) = (map_of m)(k \<mapsto> v)"
proof (cases "k \<in> fst ` set m")
  case True
  have "map_of (map (\<lambda>(a, b). if a = k then (a, v) else (a, b)) m) x
      = (if x = k \<and> x \<in> fst ` set m then Some v else map_of m x)" for x
    by (induction m) (auto simp: rev_image_eqI)
  then show ?thesis using True by (intro ext) (simp add: mapSet_def)
next
  case False
  then have "map_of m k = None" by (simp add: map_of_eq_None_iff)
  with False show ?thesis by (intro ext) (auto simp: mapSet_def map_add_def split: option.split)
qed

lemma cacheOk_set:
  assumes "cacheOk R cache" "sameOffsets (ok loc) (fst (toLocation R key []))"
  shows "cacheOk R (setLocationCache key loc cache)"
  using assms by (auto simp: cacheOk_def setLocationCache_def split: if_splits)

text \<open>A name that is not in the cache is looked up as if the cache were empty.\<close>

lemma toLocation_miss:
  assumes "getCachedLocation cache timeZone = None"
  shows "fst (toLocation R timeZone cache) = fst (toLocation R timeZone [])"
  using assms by (auto simp: toLocation_def Let_def split: option.split sum.split)

lemma toLocation_UTC:
  assumes "zoneDatabase R" "is_ok (fst (toLocation R (''UTC'' @ name) []))"
  shows "sameOffsets (fst (toLocation R (''UTC'' @ name) [])) (fst (toLocation R name []))"
proof (cases "timeZoneOffsetPattern name = None \<and> timeZoneOffsetPartialPattern name = None")
  case True
  then have "is_ok (wrapGo (''failed to load location from UTC'' @ name) (rtLoadLocation R (''UTC'' @ name)))"
    using assms(2) pattern_UTC [of name] by (auto simp: toLocation_def is_ok_iff split: sum.splits)
  then have "name = []" using assms(1) unfolding zoneDatabase_def
    by (auto simp: wrapGo_def is_ok_def split: sum.splits go_error.splits)
  then show ?thesis using assms(1) True pattern_UTC [of "[]"] by (simp add: toLocation_def zoneDatabase_def)
next
  case False
  then show ?thesis
    using pattern_UTC [of name] by (auto simp: toLocation_def Let_def split: option.split sum.split)
qed

lemma toLocation_cache:
  assumes "cacheOk R cache"
  shows "cacheOk R (snd (toLocation R timeZone cache))"
proof (cases "getCachedLocation cache timeZone")
  case None
  have fixed: "cacheOk R (setLocationCache (''UTC'' @ timeZone) (FixedZone (''UTC'' @ timeZone) off) cache)"
    if "fst (toLocation R (''UTC'' @ timeZone) []) = ok (FixedZone n off)" for n off
    using that assms by (intro cacheOk_set) simp_all
  have loaded: "cacheOk R (setLocationCache timeZone loc cache)"
    if "fst (toLocation R timeZone []) = ok loc" for loc
    using that assms by (intro cacheOk_set) simp_all
  show ?thesis
    using None assms fixed loaded pattern_UTC [of timeZone]
    by (auto simp: toLocation_def Let_def split: option.splits sum.splits)
qed (use assms in \<open>simp add: toLocation_def\<close>)


section \<open>Offsets\<close>

lemma padNat2:
  assumes "n < 100"
  obtains a b where "padNat 2 n = [a, b]" "isDigitChar a" "isDigitChar b" "digitsVal [a, b] = n"
proof -
  have "length (padNat 2 n) = 2" using assms padNat_length [of 2 n] by simp
  then obtain a b where ab: "padNat 2 n = [a, b]" by (auto simp: numeral_2_eq_2 length_Suc_conv)
  have "isDigitChar a" "isDigitChar b" using padNat_digits [of a 2 n] padNat_digits [of b 2 n] ab by simp_all
  moreover have "digitsVal [a, b] = n" using digitsVal_padNat [of 2 n] ab by simp
  ultimately show thesis using that ab by blast
qed

lemma negative_offset:
  assumes "h < 100" "m < 100"
  shows "fst (toLocation R (''-'' @ padNat 2 h @ '':'' @ padNat 2 m) [])
    = ok (FixedZone (''UTC-'' @ padNat 2 h @ '':'' @ padNat 2 m) (- int h * 60 * 60 + int m * 60))"
proof -
  obtain a b where ab: "padNat 2 h = [a, b]" "isDigitChar a" "isDigitChar b" "digitsVal [a, b] = h"
    using padNat2 [OF assms(1)] .
  obtain c d where cd: "padNat 2 m = [c, d]" "isDigitChar c" "isDigitChar d" "digitsVal [c, d] = m"
    using padNat2 [OF assms(2)] .
  have "timeZoneOffsetPattern (''-'' @ [a, b] @ '':'' @ [c, d]) = Some (''-'' @ [a, b], [c, d])"
    using ab cd by (simp add: signedDigits_def)
  moreover have "ParseInt q (''-'' @ [a, b]) 10 = ok (- int h)" for q
    using ParseInt_minus_digits [of "[a, b]" q] ab assms(1) by auto
  moreover have "ParseInt q [c, d] 10 = ok (int m)" for q
    using ParseInt_digits [of "[c, d]" q] cd assms(2) by auto
  ultimately show ?thesis by (simp add: toLocation_def ab(1) cd(1) Let_def del: timeZoneOffsetPattern.simps)
qed

text \<open>The zone \<open>-hh:mm\<close> lies \<open>hh\<close> hours and \<open>mm\<close> minutes behind UTC only if there are no minutes: the
  code adds the minutes to the negative hours.\<close>

theorem negative_offset_minutes:
  assumes "h < 100" "m < 100"
  shows "sameOffsets (fst (toLocation R (''-'' @ padNat 2 h @ '':'' @ padNat 2 m) []))
      (ok (FixedZone name (- (int h * 3600 + int m * 60)))) \<longleftrightarrow> m = 0"
  unfolding negative_offset [OF assms] by (simp add: sameOffsets_def FixedZone_def zoneOffset_def)

end
