(* ===== verification/Func_Date.thy ===== *)
theory Func_Date
  imports Func_Zone
begin

text \<open>
  Intervals and dates: \<open>internal/function_interval.go\<close> and \<open>internal/function_date.go\<close>. A function that
  reads the clock takes the current time as the argument \<open>now\<close>; one that looks up a time zone takes
  and returns the cache of locations. The fields of an interval are \<open>int32\<close> and wrap around.
\<close>

section \<open>Intervals\<close>

definition INTERVAL :: "int \<Rightarrow> string \<Rightarrow> 'f Value option go" where
  "INTERVAL v part =
     (let n = wrap32 v in
      if part = ''YEAR'' then ok (Some (IntervalValue (noInterval\<lparr>Years := n\<rparr>)))
      else if part = ''MONTH'' then ok (Some (IntervalValue (noInterval\<lparr>Months := n\<rparr>)))
      else if part = ''DAY'' then ok (Some (IntervalValue (noInterval\<lparr>Days := n\<rparr>)))
      else if part = ''HOUR'' then ok (Some (IntervalValue (noInterval\<lparr>Hours := n\<rparr>)))
      else if part = ''MINUTE'' then ok (Some (IntervalValue (noInterval\<lparr>Minutes := n\<rparr>)))
      else if part = ''SECOND'' then ok (Some (IntervalValue (noInterval\<lparr>Seconds := n\<rparr>)))
      else if part = ''NANOSECOND'' then ok (Some (IntervalValue (noInterval\<lparr>SubSecondNanos := n\<rparr>)))
      else fail_with (''unexpected interval part: '' @ part))"

definition MAKE_INTERVAL :: "int \<Rightarrow> int \<Rightarrow> int \<Rightarrow> int \<Rightarrow> int \<Rightarrow> int \<Rightarrow> 'f Value option go" where
  "MAKE_INTERVAL year month day hour minute second =
     ok (Some (IntervalValue \<lparr>Years = wrap32 year, Months = wrap32 month, Days = wrap32 day,
       Hours = wrap32 hour, Minutes = wrap32 minute, Seconds = wrap32 second, SubSecondNanos = 0\<rparr>))"

text \<open>The receiver is changed in place and returned; the definitions give what it is afterwards.\<close>

definition JUSTIFY_DAYS :: "IntervalFields \<Rightarrow> IntervalFields" where
  "JUSTIFY_DAYS v =
     (let v = (if Days v > 29 then
                 v\<lparr>Months := wrap32 (Months v + Days v sdiv 30), Days := Days v smod 30\<rparr>
               else if Days v < - 29 then
                 v\<lparr>Months := wrap32 (Months v + Days v sdiv 30), Days := Days v smod 30\<rparr>
               else v)
      in if Months v > 11 then v\<lparr>Months := Months v - 12, Years := wrap32 (Years v + 1)\<rparr>
         else if Months v < - 11 then v\<lparr>Months := Months v + 12, Years := wrap32 (Years v - 1)\<rparr>
         else v)"

definition justifySeconds :: "IntervalFields \<Rightarrow> IntervalFields" where
  "justifySeconds v =
     (if Seconds v > 59 then
        v\<lparr>Minutes := wrap32 (Minutes v + Seconds v sdiv 60), Seconds := Seconds v smod 60\<rparr>
      else if Seconds v < - 59 then
        v\<lparr>Minutes := wrap32 (Minutes v + Seconds v sdiv 60), Seconds := Seconds v smod 60\<rparr>
      else v)"

definition justifyMinutes :: "IntervalFields \<Rightarrow> IntervalFields" where
  "justifyMinutes v =
     (if Minutes v > 59 then
        v\<lparr>Hours := wrap32 (Hours v + Minutes v sdiv 60), Minutes := Minutes v smod 60\<rparr>
      else if Minutes v < - 59 then
        v\<lparr>Hours := wrap32 (Hours v + Hours v sdiv 60), Minutes := Minutes v smod 60\<rparr>
      else v)"

definition justifyHours :: "IntervalFields \<Rightarrow> IntervalFields" where
  "justifyHours v =
     (if Hours v > 23 then
        v\<lparr>Days := wrap32 (Days v + Hours v sdiv 24), Hours := Hours v smod 24\<rparr>
      else if Hours v < - 23 then
        v\<lparr>Days := wrap32 (Days v + Hours v sdiv 24), Hours := Hours v smod 24\<rparr>
      else v)"

definition JUSTIFY_HOURS :: "IntervalFields \<Rightarrow> IntervalFields" where
  "JUSTIFY_HOURS v = justifyHours (justifyMinutes (justifySeconds v))"

definition JUSTIFY_INTERVAL :: "IntervalFields \<Rightarrow> IntervalFields" where
  "JUSTIFY_INTERVAL v = JUSTIFY_DAYS (JUSTIFY_HOURS v)"

section \<open>Dates\<close>

definition CURRENT_DATE_WITH_TIME :: "Time \<Rightarrow> 'f Value option go" where
  "CURRENT_DATE_WITH_TIME v = ok (Some (DateValue v))"

definition CURRENT_DATE ::
  "'f Runtime \<Rightarrow> Time \<Rightarrow> string \<Rightarrow> locationCache \<Rightarrow> 'f Value option go \<times> locationCache" where
  "CURRENT_DATE R now zone cache =
     withLocation R zone cache (\<lambda>loc. CURRENT_DATE_WITH_TIME (Time_In loc now))"

text \<open>An argument that is missing is an index out of range.\<close>

definition argAt :: "'f Value option list \<Rightarrow> nat \<Rightarrow> ('f Value option \<Rightarrow> 'a go) \<Rightarrow> 'a go" where
  "argAt args i f = (if i < length args then f (args ! i) else panic ''index out of range'')"

definition DATE ::
  "'f Runtime \<Rightarrow> 'f Value option list \<Rightarrow> locationCache \<Rightarrow> 'f Value option go \<times> locationCache" where
  "DATE R args cache =
     (if length args = 3 then
        (go_bind (argAt args 0 (argInt64 R)) (\<lambda>year.
         go_bind (argAt args 1 (argInt64 R)) (\<lambda>month.
         go_bind (argAt args 2 (argInt64 R)) (\<lambda>day.
         ok (Some (DateValue (AddDate (wrap64 (year - 1)) (wrap64 (month - 1)) (wrap64 (day - 1)) zeroTime)))))),
         cache)
      else if length args = 2 then
        (case go_bind (argAt args 0 (argTime R)) (\<lambda>t. go_bind (argAt args 1 (argString R)) (\<lambda>zone. ok (t, zone))) of
           Inl e \<Rightarrow> (Inl e, cache)
         | Inr (t, zone) \<Rightarrow> withLocation R zone cache (\<lambda>loc. ok (Some (DateValue (Time_In loc t)))))
      else (go_bind (argAt args 0 (argTime R)) (\<lambda>t. ok (Some (DateValue t))), cache))"

definition addMonth :: "Time \<Rightarrow> int \<Rightarrow> Time" where
  "addMonth t m =
     (let first = time_Date (Time_Year t) (Time_Month t) 1 0 0 0 0 (tLoc t);
          target = AddDate 0 m 0 first;
          after = time_Date (Time_Year target) (Time_Month target) (Time_Day t) 0 0 0 0 UTC
      in if Time_Month target \<noteq> Time_Month after then AddDate 0 (wrap64 (m + 1)) (- 1) first
         else AddDate 0 m 0 t)"

definition addYear :: "Time \<Rightarrow> int \<Rightarrow> Time" where
  "addYear t y =
     (let first = time_Date (Time_Year t) (Time_Month t) 1 0 0 0 0 (tLoc t);
          target = AddDate y 0 0 first;
          after = time_Date (Time_Year target) (Time_Month target) (Time_Day t) 0 0 0 0 (tLoc t)
      in if Time_Month target \<noteq> Time_Month after then AddDate y 1 (- 1) first
         else AddDate y 0 0 t)"

definition truncateToDay :: "Time \<Rightarrow> Time" where
  "truncateToDay t = time_Date (Time_Year t) (Time_Month t) (Time_Day t) 0 0 0 0 (tLoc t)"

definition diffDay :: "Time \<Rightarrow> Time \<Rightarrow> int" where
  "diffDay a b =
     (if Time_Sub a b < 24 * Hour then (if Time_Day a = Time_Day b then 0 else 1)
      else
        (let diff = Time_Sub (truncateToDay a) b
         in if diff smod (24 * Hour) > 0 then wrap64 (diff sdiv (24 * Hour) + 1) else diff sdiv (24 * Hour)))"

definition DATE_ADD :: "Time \<Rightarrow> int \<Rightarrow> string \<Rightarrow> 'f Value option go" where
  "DATE_ADD t v part =
     (if part = ''DAY'' then ok (Some (DateValue (AddDate 0 0 v t)))
      else if part = ''WEEK'' then ok (Some (DateValue (AddDate 0 0 (wrap64 (v * 7)) t)))
      else if part = ''MONTH'' then ok (Some (DateValue (addMonth t v)))
      else if part = ''YEAR'' then ok (Some (DateValue (addYear t v)))
      else if part = ''QUARTER'' then ok (Some (DateValue (addMonth t 3)))
      else fail_with (''unexpected part value '' @ part))"

definition DATE_SUB :: "Time \<Rightarrow> int \<Rightarrow> string \<Rightarrow> 'f Value option go" where
  "DATE_SUB t v part =
     (if part = ''DAY'' then ok (Some (DateValue (AddDate 0 0 (wrap64 (- v)) t)))
      else if part = ''WEEK'' then ok (Some (DateValue (AddDate 0 0 (wrap64 (wrap64 (- v) * 7)) t)))
      else if part = ''MONTH'' then ok (Some (DateValue (addMonth t (wrap64 (- v)))))
      else if part = ''YEAR'' then ok (Some (DateValue (addYear t (wrap64 (- v)))))
      else fail_with (''unexpected part value '' @ part))"

definition WeekPartToOffset :: "(string \<times> int) list" where
  "WeekPartToOffset =
     [(''WEEK'', 0), (''WEEK_MONDAY'', 1), (''WEEK_TUESDAY'', 2), (''WEEK_WEDNESDAY'', 3),
      (''WEEK_THURSDAY'', 4), (''WEEK_FRIDAY'', 5), (''WEEK_SATURDAY'', 6)]"

text \<open>The loop over the days that do not fill a week, from the last one back.\<close>

fun countDays :: "int \<Rightarrow> nat \<Rightarrow> int list \<Rightarrow> int list" where
  "countDays startingDay 0 counts = counts"
| "countDays startingDay (Suc r) counts =
     (let i = nat ((startingDay + int (Suc r)) smod 7)
      in countDays startingDay r (counts[i := wrap64 (counts ! i + 1)]))"

definition weekDiff :: "Time \<Rightarrow> Time \<Rightarrow> int \<Rightarrow> int" where
  "weekDiff a b boundary =
     (let isNegative = (Time_Unix b > Time_Unix a);
          (start, end') = (if isNegative then (a, b) else (b, a));
          days = wrap64 (Time_Unix end' - Time_Unix start) sdiv 24 sdiv 60 sdiv 60;
          fullWeeks = days sdiv 7;
          counts = fold (\<lambda>(_, day) counts. counts[nat day := fullWeeks]) WeekPartToOffset (replicate 7 0);
          result = countDays (Time_Weekday start) (nat (days smod 7)) counts ! nat boundary
      in if isNegative then wrap64 (- result) else result)"

definition DATE_DIFF :: "Time \<Rightarrow> Time \<Rightarrow> string \<Rightarrow> 'f Value option go" where
  "DATE_DIFF a b part =
     (let (yearISOA, weekA) = Time_ISOWeek a; (yearISOB, weekB) = Time_ISOWeek b in
      if hasPrefix part ''WEEK'' then
        (case map_of WeekPartToOffset part of
           None \<Rightarrow> fail_with (''unsupported week date part: '' @ part)
         | Some boundary \<Rightarrow> ok (Some (IntValue (weekDiff a b boundary))))
      else if part = ''DAY'' then
        ok (Some (IntValue (if Time_After a b then diffDay a b else wrap64 (- diffDay b a))))
      else if part = ''ISOWEEK'' then
        ok (Some (IntValue (wrap64 ((Time_Year a - Time_Year b) * 48 + weekA - weekB))))
      else if part = ''MONTH'' then
        ok (Some (IntValue (wrap64 (Time_Year a * 12 + Time_Month a - (Time_Year b * 12 + Time_Month b)))))
      else if part = ''YEAR'' then ok (Some (IntValue (wrap64 (Time_Year a - Time_Year b))))
      else if part = ''ISOYEAR'' then ok (Some (IntValue (wrap64 (yearISOA - yearISOB))))
      else fail_with (''unexpected part value '' @ part))"

text \<open>
  The loop back to the start of a week. In UTC it ends within six steps; in a location that repeats or
  skips a day it may take more, and \<open>None\<close> stands for a loop that does not end.
\<close>

partial_function (option) startOfWeekLoop :: "int \<Rightarrow> Time \<Rightarrow> Time option" where
  "startOfWeekLoop startOfWeek t =
     (if Time_Weekday t \<noteq> startOfWeek then startOfWeekLoop startOfWeek (AddDate 0 0 (- 1) t) else Some t)"

definition quarterStartMonths :: "int list" where
  "quarterStartMonths = [1, 4, 7, 10]"

text \<open>\<open>None\<close>: the function does not return.\<close>

definition DATE_TRUNC :: "Time \<Rightarrow> string \<Rightarrow> 'f Value option go option" where
  "DATE_TRUNC t part =
     (let (yearISO, weekISO) = Time_ISOWeek t;
          date = (\<lambda>d. Some (ok (Some (DateValue d)))) in
      if hasPrefix part ''WEEK'' then
        (case map_of WeekPartToOffset part of
           None \<Rightarrow> Some (fail_with (''unknown week part: '' @ part))
         | Some startOfWeek \<Rightarrow> Option.bind (startOfWeekLoop startOfWeek t) date)
      else if part = ''DAY'' then
        date (time_Date (Time_Year t) (Time_Month t) (Time_Day t) 0 0 0 0 (tLoc t))
      else if part = ''ISOWEEK'' then date (time_Date yearISO 0 (7 * weekISO) 0 0 0 0 (tLoc t))
      else if part = ''MONTH'' then
        date (AddDate (wrap64 (Time_Year t - 1)) (wrap64 (Time_Month t - 1)) 0 zeroTime)
      else if part = ''QUARTER'' then
        date (time_Date (Time_Year t) (quarterStartMonths ! nat ((Time_Month t - 1) sdiv 3)) 1 0 0 0 0 (tLoc t))
      else if part = ''YEAR'' then date (AddDate (wrap64 (Time_Year t - 1)) 0 0 zeroTime)
      else if part = ''ISOYEAR'' then
        (let firstDay = time_Date yearISO 1 1 0 0 0 0 (tLoc t)
         in date (AddDate 0 0 (1 - Time_Weekday firstDay) firstDay))
      else Some (fail_with (''unexpected part value '' @ part)))"

definition DATE_FROM_UNIX_DATE :: "'f Runtime \<Rightarrow> int \<Rightarrow> 'f Value option go" where
  "DATE_FROM_UNIX_DATE R unixdate =
     ok (Some (DateValue (time_Unix (rtLocal R) (wrap64 (wrap64 (unixdate * 24) * Hour) sdiv Second) 0)))"

definition LAST_DAY :: "Time \<Rightarrow> string \<Rightarrow> 'f Value option go" where
  "LAST_DAY t part =
     (let week = (\<lambda>n. ok (Some (DateValue (AddDate 0 0 (n - Time_Weekday t) t)))) in
      if part = ''YEAR'' then ok (Some (DateValue (time_Date (wrap64 (Time_Year t + 1)) 1 0 0 0 0 0 (tLoc t))))
      else if part = ''QUARTER'' then fail_with ''LAST_DAY: unimplemented QUARTER part''
      else if part = ''MONTH'' then ok (Some (DateValue (AddDate 0 1 (- Time_Day t) t)))
      else if part = ''WEEK'' then week 6
      else if part = ''WEEK_MONDAY'' then week 7
      else if part = ''WEEK_TUESDAY'' then week 8
      else if part = ''WEEK_WEDNESDAY'' then week 9
      else if part = ''WEEK_THURSDAY'' then week 10
      else if part = ''WEEK_FRIDAY'' then week 11
      else if part = ''WEEK_SATURDAY'' then week 12
      else if part = ''ISOWEEK'' then week 6
      else if part = ''ISOYEAR'' then ok (Some (DateValue (time_Date (wrap64 (Time_Year t + 1)) 1 0 0 0 0 0 (tLoc t))))
      else fail_with (''LAST_DAY: unexpected part '' @ part))"

definition UNIX_DATE :: "Time \<Rightarrow> 'f Value option go" where
  "UNIX_DATE t = ok (Some (IntValue (Time_Unix t sdiv (24 * Hour sdiv Second))))"

end
