(* ===== verification/Func_Time.thy ===== *)
theory Func_Time
  imports Func_Date
begin

text \<open>
  Times of day, datetimes and timestamps: \<open>internal/function_time.go\<close>, \<open>internal/function_datetime.go\<close> and
  \<open>internal/function_timestamp.go\<close>, without the functions that format and parse by directives.
\<close>

section \<open>Times of day\<close>

definition CURRENT_TIME_WITH_TIME :: "Time \<Rightarrow> 'f Value option go" where
  "CURRENT_TIME_WITH_TIME v = ok (Some (TimeValue v))"

definition CURRENT_TIME ::
  "'f Runtime \<Rightarrow> Time \<Rightarrow> string \<Rightarrow> locationCache \<Rightarrow> 'f Value option go \<times> locationCache" where
  "CURRENT_TIME R now zone cache =
     withLocation R zone cache (\<lambda>loc. CURRENT_TIME_WITH_TIME (Time_In loc now))"

text \<open>Integer arguments are converted in order before the empty zone is looked up.\<close>

definition intArgs :: "'f Runtime \<Rightarrow> 'f Value option list \<Rightarrow> int list go" where
  "intArgs R args = goList (map (argInt64 R) args)"

definition TIME ::
  "'f Runtime \<Rightarrow> 'f Value option list \<Rightarrow> locationCache \<Rightarrow> 'f Value option go \<times> locationCache" where
  "TIME R args cache =
     (if length args = 3 then
        (case intArgs R args of
           Inl e \<Rightarrow> (Inl e, cache)
         | Inr ns \<Rightarrow> withLocation R [] cache (\<lambda>loc.
             ok (Some (TimeValue (time_Date 0 0 0 (ns ! 0) (ns ! 1) (ns ! 2) 0 loc)))))
      else if length args \<noteq> 1 \<and> length args \<noteq> 2 then
        (fail_with (''TIME: invalid argument num '' @ sprintNat (length args)), cache)
      else
        (case args ! 0 of
           Some (TimestampValue t) \<Rightarrow>
             if length args = 2 then
               (case argString R (args ! 1) of
                  Inl e \<Rightarrow> (Inl e, cache)
                | Inr zone \<Rightarrow> withLocation R zone cache (\<lambda>loc. ok (Some (TimeValue (Time_In loc t)))))
             else (ok (Some (TimeValue (Time_UTC t))), cache)
         | Some (DatetimeValue t) \<Rightarrow> (ok (Some (TimeValue (Time_UTC t))), cache)
         | v \<Rightarrow> (fail_with (''TIME: invalid first argument type '' @ typeName v), cache)))"

definition TIME_ADD :: "Time \<Rightarrow> int \<Rightarrow> string \<Rightarrow> 'f Value option go" where
  "TIME_ADD t v part =
     (let add = (\<lambda>d. ok (Some (TimeValue (Time_Add d t)))) in
      if part = ''MICROSECOND'' then add (wrap64 (v * Microsecond))
      else if part = ''MILLISECOND'' then add (wrap64 (v * Millisecond))
      else if part = ''SECOND'' then add (wrap64 (v * Second))
      else if part = ''MINUTE'' then add (wrap64 (v * Minute))
      else if part = ''HOUR'' then add (wrap64 (v * Hour))
      else fail_with (''TIME_ADD: unexpected part value '' @ part))"

definition TIME_SUB :: "Time \<Rightarrow> int \<Rightarrow> string \<Rightarrow> 'f Value option go" where
  "TIME_SUB t v part =
     (let add = (\<lambda>d. ok (Some (TimeValue (Time_Add d t)))); n = wrap64 (- v) in
      if part = ''MICROSECOND'' then add (wrap64 (n * Microsecond))
      else if part = ''MILLISECOND'' then add (wrap64 (n * Millisecond))
      else if part = ''SECOND'' then add (wrap64 (n * Second))
      else if part = ''MINUTE'' then add (wrap64 (n * Minute))
      else if part = ''HOUR'' then add (wrap64 (n * Hour))
      else fail_with (''TIME_SUB: unexpected part value '' @ part))"

definition TIME_DIFF :: "Time \<Rightarrow> Time \<Rightarrow> string \<Rightarrow> 'f Value option go" where
  "TIME_DIFF a b part =
     (let diff = Time_Sub a b in
      if part = ''MICROSECOND'' then ok (Some (IntValue (wrap64 (diff sdiv Microsecond))))
      else if part = ''MILLISECOND'' then ok (Some (IntValue (wrap64 (diff sdiv Millisecond))))
      else if part = ''SECOND'' then ok (Some (IntValue (wrap64 (diff sdiv Second))))
      else if part = ''MINUTE'' then ok (Some (IntValue (wrap64 (diff sdiv Minute))))
      else if part = ''HOUR'' then ok (Some (IntValue (wrap64 (diff sdiv Hour))))
      else fail_with (''TIME_DIFF: unexpected part value '' @ part))"

definition TIME_TRUNC :: "Time \<Rightarrow> string \<Rightarrow> 'f Value option go" where
  "TIME_TRUNC t part =
     (let time = (\<lambda>v. ok (Some v)) in
      if part = ''MICROSECOND'' then time (TimeValue t)
      else if part = ''MILLISECOND'' then
        time (TimeValue (time_Date (Time_Year t) (Time_Month t) (Time_Day t) (Time_Hour t) (Time_Minute t) (Time_Second t - Time_Second t sdiv Microsecond) 0 (tLoc t)))
      else if part = ''SECOND'' then
        time (TimeValue (time_Date (Time_Year t) (Time_Month t) (Time_Day t) (Time_Hour t) (Time_Minute t) (Time_Second t sdiv Second) 0 (tLoc t)))
      else if part = ''MINUTE'' then time (TimeValue (time_Date (Time_Year t) (Time_Month t) (Time_Day t) (Time_Hour t) (Time_Minute t) 0 0 (tLoc t)))
      else if part = ''HOUR'' then time (TimeValue (time_Date (Time_Year t) (Time_Month t) (Time_Day t) (Time_Hour t) 0 0 0 (tLoc t)))
      else fail_with (''TIME_TRUNC: unexpected part value '' @ part))"

section \<open>Datetimes\<close>

definition CURRENT_DATETIME_WITH_TIME :: "Time \<Rightarrow> 'f Value option go" where
  "CURRENT_DATETIME_WITH_TIME v = ok (Some (DatetimeValue v))"

definition CURRENT_DATETIME ::
  "'f Runtime \<Rightarrow> Time \<Rightarrow> string \<Rightarrow> locationCache \<Rightarrow> 'f Value option go \<times> locationCache" where
  "CURRENT_DATETIME R now zone cache =
     withLocation R zone cache (\<lambda>loc. CURRENT_DATETIME_WITH_TIME (Time_In loc now))"

definition DATETIME ::
  "'f Runtime \<Rightarrow> 'f Value option list \<Rightarrow> locationCache \<Rightarrow> 'f Value option go \<times> locationCache" where
  "DATETIME R args cache =
     (if length args = 6 then
        (case intArgs R args of
           Inl e \<Rightarrow> (Inl e, cache)
         | Inr ns \<Rightarrow> withLocation R [] cache (\<lambda>loc.
             ok (Some (DatetimeValue (time_Date (ns ! 0) (ns ! 1) (ns ! 2) (ns ! 3) (ns ! 4) (ns ! 5) 0 loc)))))
      else if length args \<noteq> 1 \<and> length args \<noteq> 2 then
        (fail_with (''DATETIME: invalid argument num '' @ sprintNat (length args)), cache)
      else
        (case args ! 0 of
           Some (DateValue t) \<Rightarrow>
             (if length args = 2 then
                go_bind (wrapGo ''DATETIME: second argument must be time type'' (argTime R (args ! 1))) (\<lambda>t2.
                ok (Some (DatetimeValue (time_Date (Time_Year t) (Time_Month t) (Time_Day t)
                  (Time_Hour t2) (Time_Minute t2) (Time_Second t2) (Time_Nanosecond t2) (tLoc t2)))))
              else ok (Some (DatetimeValue t)), cache)
         | Some (TimestampValue t) \<Rightarrow>
             if length args = 2 then
               (case wrapGo ''DATETIME: second argument must be string type'' (argString R (args ! 1)) of
                  Inl e \<Rightarrow> (Inl e, cache)
                | Inr zone \<Rightarrow> withLocation R zone cache (\<lambda>loc. ok (Some (DatetimeValue (Time_In loc t)))))
             else (ok (Some (DatetimeValue (Time_UTC t))), cache)
         | v \<Rightarrow> (fail_with ''DATETIME: first argument must be DATE or TIMESTAMP type'', cache)))"

text \<open>The date of a result with the clock of another time.\<close>

definition dateOfValue :: "'f Runtime \<Rightarrow> string \<Rightarrow> 'f Value option go \<Rightarrow> Time go" where
  "dateOfValue R name r = go_bind (wrapGo name r) (\<lambda>date. wrapGo name (argTime R date))"

definition withClockOf :: "Time \<Rightarrow> Time \<Rightarrow> Time" where
  "withClockOf t date = time_Date (Time_Year date) (Time_Month date) (Time_Day date)
     (Time_Hour t) (Time_Minute t) (Time_Second t) (Time_Nanosecond t) (tLoc t)"

definition DATETIME_ADD :: "'f Runtime \<Rightarrow> Time \<Rightarrow> int \<Rightarrow> string \<Rightarrow> 'f Value option go" where
  "DATETIME_ADD R t v part =
     (let add = (\<lambda>d. ok (Some (DatetimeValue (Time_Add d t)))) in
      if part = ''MICROSECOND'' then add (wrap64 (v * Microsecond))
      else if part = ''MILLISECOND'' then add (wrap64 (v * Millisecond))
      else if part = ''SECOND'' then add (wrap64 (v * Second))
      else if part = ''MINUTE'' then add (wrap64 (v * Minute))
      else if part = ''HOUR'' then add (wrap64 (v * Hour))
      else go_bind (dateOfValue R ''DATETIME_ADD'' (DATE_ADD t v part)) (\<lambda>date.
        ok (Some (DatetimeValue (withClockOf t date)))))"

definition DATETIME_SUB :: "'f Runtime \<Rightarrow> Time \<Rightarrow> int \<Rightarrow> string \<Rightarrow> 'f Value option go" where
  "DATETIME_SUB R t v part =
     (let add = (\<lambda>d. ok (Some (DatetimeValue (Time_Add d t)))); n = wrap64 (- v) in
      if part = ''MICROSECOND'' then add (wrap64 (n * Microsecond))
      else if part = ''MILLISECOND'' then add (wrap64 (n * Millisecond))
      else if part = ''SECOND'' then add (wrap64 (n * Second))
      else if part = ''MINUTE'' then add (wrap64 (n * Minute))
      else if part = ''HOUR'' then add (wrap64 (n * Hour))
      else go_bind (dateOfValue R ''DATETIME_SUB'' (DATE_SUB t v part)) (\<lambda>date.
        ok (Some (DatetimeValue (withClockOf t date)))))"

definition DATETIME_DIFF :: "Time \<Rightarrow> Time \<Rightarrow> string \<Rightarrow> 'f Value option go" where
  "DATETIME_DIFF a b part =
     (let diff = Time_Sub a b in
      if part = ''MICROSECOND'' then ok (Some (IntValue (wrap64 (diff sdiv Microsecond))))
      else if part = ''MILLISECOND'' then ok (Some (IntValue (wrap64 (diff sdiv Millisecond))))
      else if part = ''SECOND'' then ok (Some (IntValue (wrap64 (diff sdiv Second))))
      else if part = ''MINUTE'' then ok (Some (IntValue (wrap64 (diff sdiv Minute))))
      else if part = ''HOUR'' then ok (Some (IntValue (wrap64 (diff sdiv Hour))))
      else wrapGo ''DATETIME_DIFF'' (DATE_DIFF a b part))"

text \<open>\<open>None\<close>: the loop of \<open>DATE_TRUNC\<close> does not end.\<close>

definition DATETIME_TRUNC :: "'f Runtime \<Rightarrow> Time \<Rightarrow> string \<Rightarrow> 'f Value option go option" where
  "DATETIME_TRUNC R t part =
     (let time = (\<lambda>v. Some (ok (Some v))) in
      if part = ''MICROSECOND'' then time (DatetimeValue t)
      else if part = ''MILLISECOND'' then
        time (DatetimeValue (time_Date (Time_Year t) (Time_Month t) (Time_Day t) (Time_Hour t) (Time_Minute t) (Time_Second t - Time_Second t sdiv Microsecond) 0 (tLoc t)))
      else if part = ''SECOND'' then
        time (DatetimeValue (time_Date (Time_Year t) (Time_Month t) (Time_Day t) (Time_Hour t) (Time_Minute t) (Time_Second t sdiv Second) 0 (tLoc t)))
      else if part = ''MINUTE'' then time (DatetimeValue (time_Date (Time_Year t) (Time_Month t) (Time_Day t) (Time_Hour t) (Time_Minute t) 0 0 (tLoc t)))
      else if part = ''HOUR'' then time (DatetimeValue (time_Date (Time_Year t) (Time_Month t) (Time_Day t) (Time_Hour t) 0 0 0 (tLoc t)))
      else map_option (\<lambda>r. go_bind (dateOfValue R ''DATETIME_TRUNC'' r) (\<lambda>d.
        ok (Some (DatetimeValue (time_Date (Time_Year d) (Time_Month d) (Time_Day d) (Time_Hour d) (Time_Minute d)
          (Time_Second d) (Time_Nanosecond d) (tLoc d)))))) (DATE_TRUNC t part))"

section \<open>Timestamps\<close>

definition CURRENT_TIMESTAMP_WITH_TIME :: "Time \<Rightarrow> 'f Value option go" where
  "CURRENT_TIMESTAMP_WITH_TIME v = ok (Some (TimestampValue v))"

definition CURRENT_TIMESTAMP ::
  "'f Runtime \<Rightarrow> Time \<Rightarrow> string \<Rightarrow> locationCache \<Rightarrow> 'f Value option go \<times> locationCache" where
  "CURRENT_TIMESTAMP R now zone cache =
     withLocation R zone cache (\<lambda>loc. CURRENT_TIMESTAMP_WITH_TIME (Time_In loc now))"

text \<open>The layout ends in the literal text \<open>+00\<close>.\<close>

definition STRING ::
  "'f Runtime \<Rightarrow> Time \<Rightarrow> string \<Rightarrow> locationCache \<Rightarrow> 'f Value option go \<times> locationCache" where
  "STRING R t zone cache =
     withLocation R zone cache (\<lambda>loc.
       ok (Some (StringValue (Time_Format (Time_In loc t) (layoutDateSpace @ [LFrac 9, LLit ''+00''])))))"

definition TIMESTAMP ::
  "'f Runtime \<Rightarrow> 'f Value option \<Rightarrow> string \<Rightarrow> locationCache \<Rightarrow> 'f Value option go \<times> locationCache" where
  "TIMESTAMP R v zone cache =
     withLocation R zone cache (\<lambda>loc.
       case v of
         Some (StringValue s) \<Rightarrow> go_bind (parseTimestamp s loc) (\<lambda>t. ok (Some (TimestampValue t)))
       | Some (DateValue t) \<Rightarrow> go_bind (modifyTimeZone t loc) (\<lambda>modified. ok (Some (TimestampValue modified)))
       | Some (DatetimeValue t) \<Rightarrow> go_bind (modifyTimeZone t loc) (\<lambda>modified. ok (Some (TimestampValue modified)))
       | _ \<Rightarrow> fail_with (''TIMESTAMP: invalid first argument type '' @ typeName v))"

definition TIMESTAMP_ADD :: "Time \<Rightarrow> int \<Rightarrow> string \<Rightarrow> 'f Value option go" where
  "TIMESTAMP_ADD t v part =
     (let add = (\<lambda>d. ok (Some (TimestampValue (Time_Add d t)))) in
      if part = ''MICROSECOND'' then add (wrap64 (v * Microsecond))
      else if part = ''MILLISECOND'' then add (wrap64 (v * Millisecond))
      else if part = ''SECOND'' then add (wrap64 (v * Second))
      else if part = ''MINUTE'' then add (wrap64 (v * Minute))
      else if part = ''HOUR'' then add (wrap64 (v * Hour))
      else if part = ''DAY'' then ok (Some (TimestampValue (AddDate 0 0 v t)))
      else fail_with (''TIMESTAMP_ADD: unexpected part value '' @ part))"

definition TIMESTAMP_SUB :: "Time \<Rightarrow> int \<Rightarrow> string \<Rightarrow> 'f Value option go" where
  "TIMESTAMP_SUB t v part =
     (let add = (\<lambda>d. ok (Some (TimestampValue (Time_Add d t)))); n = wrap64 (- v) in
      if part = ''MICROSECOND'' then add (wrap64 (n * Microsecond))
      else if part = ''MILLISECOND'' then add (wrap64 (n * Millisecond))
      else if part = ''SECOND'' then add (wrap64 (n * Second))
      else if part = ''MINUTE'' then add (wrap64 (n * Minute))
      else if part = ''HOUR'' then add (wrap64 (n * Hour))
      else if part = ''DAY'' then ok (Some (TimestampValue (AddDate 0 0 n t)))
      else fail_with (''TIMESTAMP_SUB: unexpected part value '' @ part))"

definition TIMESTAMP_DIFF :: "Time \<Rightarrow> Time \<Rightarrow> string \<Rightarrow> 'f Value option go" where
  "TIMESTAMP_DIFF a b part =
     (let diff = Time_Sub a b in
      if part = ''MICROSECOND'' then ok (Some (IntValue (wrap64 (diff sdiv Microsecond))))
      else if part = ''MILLISECOND'' then ok (Some (IntValue (wrap64 (diff sdiv Millisecond))))
      else if part = ''SECOND'' then ok (Some (IntValue (wrap64 (diff sdiv Second))))
      else if part = ''MINUTE'' then ok (Some (IntValue (wrap64 (diff sdiv Minute))))
      else if part = ''HOUR'' then ok (Some (IntValue (wrap64 (diff sdiv Hour))))
      else wrapGo ''TIMESTAMP_DIFF'' (DATE_DIFF a b part))"

definition truncTimestamp :: "'f Runtime \<Rightarrow> Location \<Rightarrow> Time \<Rightarrow> string \<Rightarrow> 'f Value option go option" where
  "truncTimestamp R loc t part =
     (let time = (\<lambda>v. Some (ok (Some v))) in
      if part = ''MICROSECOND'' then time (TimestampValue t)
      else if part = ''MILLISECOND'' then
        time (TimestampValue (time_Date (Time_Year t) (Time_Month t) (Time_Day t) (Time_Hour t) (Time_Minute t) (Time_Second t - Time_Second t sdiv Microsecond) 0 loc))
      else if part = ''SECOND'' then
        time (TimestampValue (time_Date (Time_Year t) (Time_Month t) (Time_Day t) (Time_Hour t) (Time_Minute t) (Time_Second t sdiv Second) 0 loc))
      else if part = ''MINUTE'' then time (TimestampValue (time_Date (Time_Year t) (Time_Month t) (Time_Day t) (Time_Hour t) (Time_Minute t) 0 0 loc))
      else if part = ''HOUR'' then time (TimestampValue (time_Date (Time_Year t) (Time_Month t) (Time_Day t) (Time_Hour t) 0 0 0 loc))
      else map_option (\<lambda>r. go_bind (dateOfValue R ''TIMESTAMP_TRUNC'' r) (\<lambda>d.
        ok (Some (TimestampValue (time_Date (Time_Year d) (Time_Month d) (Time_Day d) 0 0 0 0 loc)))))
        (DATE_TRUNC t part))"

definition TIMESTAMP_TRUNC ::
  "'f Runtime \<Rightarrow> Time \<Rightarrow> string \<Rightarrow> string \<Rightarrow> locationCache \<Rightarrow> 'f Value option go option \<times> locationCache" where
  "TIMESTAMP_TRUNC R t part zone cache =
     (case toLocation R zone cache of
        (Inl e, cache') \<Rightarrow> (Some (Inl e), cache')
      | (Inr loc, cache') \<Rightarrow> (truncTimestamp R loc (Time_In loc t) part, cache'))"

definition TIMESTAMP_SECONDS :: "'f Runtime \<Rightarrow> int \<Rightarrow> 'f Value option go" where
  "TIMESTAMP_SECONDS R sec = ok (Some (TimestampValue (time_Unix (rtLocal R) sec 0)))"

definition TIMESTAMP_MILLIS :: "'f Runtime \<Rightarrow> int \<Rightarrow> 'f Value option go" where
  "TIMESTAMP_MILLIS R sec = ok (Some (TimestampValue (time_UnixMicro (rtLocal R) (wrap64 (sec * 1000)))))"

definition TIMESTAMP_MICROS :: "'f Runtime \<Rightarrow> int \<Rightarrow> 'f Value option go" where
  "TIMESTAMP_MICROS R sec = ok (Some (TimestampValue (time_UnixMicro (rtLocal R) sec)))"

definition UNIX_SECONDS :: "Time \<Rightarrow> 'f Value option go" where
  "UNIX_SECONDS t = ok (Some (IntValue (Time_Unix t)))"

definition UNIX_MILLIS :: "Time \<Rightarrow> 'f Value option go" where
  "UNIX_MILLIS t = ok (Some (IntValue (Time_UnixMilli t)))"

definition UNIX_MICROS :: "Time \<Rightarrow> 'f Value option go" where
  "UNIX_MICROS t = ok (Some (IntValue (Time_UnixMicro t)))"

end
