(* ===== verification/Value_Props.thy ===== *)
theory Value_Props
  imports Value_Cast Go_Time_Props
begin

text \<open>
  What the values of \<open>internal/value.go\<close> promise: the range of the integers, the order of scalars and of
  arrays, and which conversions give the number the name of the method announces.
\<close>

section \<open>Conversions to integers\<close>

lemma abs_sdiv:
  fixes a b :: int
  assumes "0 < b"
  shows "\<bar>a sdiv b\<bar> = \<bar>a\<bar> div b"
proof -
  have "a sdiv b = sgn a * (\<bar>a\<bar> div b)" using assms by (simp add: signed_divide_int_def)
  moreover have "0 \<le> \<bar>a\<bar> div b" using assms by (simp add: pos_imp_zdiv_nonneg_iff)
  ultimately show ?thesis by (cases "a = 0") (simp_all add: abs_mult)
qed

text \<open>\<open>NumericValue.ToInt64\<close> reads the numerator of the fraction. It is the number, cut off
  towards zero, exactly when the number is an integer; \<open>3 / 2\<close> becomes \<open>3\<close>.\<close>

theorem numeric_to_int64:
  assumes "isInt64 (fst (quotient_of r))"
  shows "NumericValue_ToInt64 (Some r) = ok (fst (quotient_of r) sdiv snd (quotient_of r))
    \<longleftrightarrow> r \<in> \<int>"
proof -
  obtain a b where ab: "quotient_of r = (a, b)" by (cases "quotient_of r")
  have b: "0 < b" "coprime a b" using quotient_of_denom_pos [OF ab] quotient_of_coprime [OF ab] by auto
  have "a = a sdiv b \<longleftrightarrow> b = 1"
  proof
    assume eq: "a = a sdiv b"
    show "b = 1"
    proof (rule ccontr)
      assume "b \<noteq> 1"
      then have b2: "2 \<le> b" using b by simp
      have "\<bar>a sdiv b\<bar> = \<bar>a\<bar> div b" using b by (simp add: abs_sdiv)
      then have "\<bar>a\<bar> = \<bar>a\<bar> div b" using eq by simp
      moreover have "\<bar>a\<bar> div b \<le> \<bar>a\<bar> div 2" using b2 by (intro zdiv_mono2) auto
      ultimately have "\<bar>a\<bar> \<le> \<bar>a\<bar> div 2" by simp
      then have "a = 0" by linarith
      then show False using b \<open>b \<noteq> 1\<close> by simp
    qed
  qed (simp add: signed_divide_int_def sgn_mult abs_sgn)
  moreover have "b = 1 \<longleftrightarrow> r \<in> \<int>"
  proof
    assume "b = 1"
    then have "r = of_int a" using quotient_of_div [OF ab] by simp
    then show "r \<in> \<int>" by simp
  next
    assume "r \<in> \<int>"
    then obtain i where "r = of_int i" by (auto elim: Ints_cases)
    then have "quotient_of r = (i, 1)" by simp
    then show "b = 1" using ab by simp
  qed
  ultimately show ?thesis using assms ab by (auto simp: NumericValue_ToInt64_def)
qed

section \<open>Timestamps from numbers\<close>

lemma nanos_time_Unix: "isInt64 (sec + nsec div 10 ^ 9) \<Longrightarrow> nanos (time_Unix loc sec nsec) = sec * 10 ^ 9 + nsec"
  by (simp add: nanos_def time_Unix_def)

lemma nanos_Time_UTC [simp]: "nanos (Time_UTC t) = nanos t"
  by (simp add: nanos_def Time_UTC_def Time_In_def)

lemma sdiv_rest:
  fixes v k :: int
  assumes "0 < k"
  shows "\<bar>v - v sdiv k * k\<bar> < k" "v - v sdiv k * k = 0 \<longleftrightarrow> v mod k = 0" "\<bar>v sdiv k\<bar> \<le> \<bar>v\<bar>"
proof -
  have q: "v sdiv k = sgn v * (\<bar>v\<bar> div k)"
    using assms by (simp add: signed_divide_int_def)
  have rest: "v - v sdiv k * k = sgn v * (\<bar>v\<bar> mod k)"
    unfolding q minus_mult_div_eq_mod [symmetric] by (simp add: algebra_simps abs_sgn)
  show "\<bar>v - v sdiv k * k\<bar> < k"
    unfolding rest using assms by (simp add: abs_mult sgn_if)
  have "\<bar>v\<bar> mod k = 0 \<longleftrightarrow> v mod k = 0" by (simp add: dvd_eq_mod_eq_0 [symmetric])
  then show "v - v sdiv k * k = 0 \<longleftrightarrow> v mod k = 0"
    unfolding rest by (auto simp: sgn_if)
  show "\<bar>v sdiv k\<bar> \<le> \<bar>v\<bar>"
    using assms zdiv_mono2 [of "\<bar>v\<bar>" 1 k] by (simp add: abs_sdiv)
qed

text \<open>\<open>TimestampFromInt64Value\<close> splits a number of microseconds into seconds and a rest, and then
  multiplies the rest by the nanoseconds of a millisecond: the instant is right exactly when the
  number is a whole number of seconds.\<close>

theorem timestamp_from_int:
  assumes "isInt64 v"
  shows "map_sum id nanos (TimestampFromInt64Value R v) = ok (v * 1000) \<longleftrightarrow> v mod 10 ^ 6 = 0"
proof -
  define s r where "s = v sdiv 10 ^ 6" and "r = v - s * 10 ^ 6"
  have r: "\<bar>r\<bar> < 10 ^ 6" "r = 0 \<longleftrightarrow> v mod 10 ^ 6 = 0"
    unfolding r_def s_def using sdiv_rest [of "10 ^ 6" v] by simp_all
  have s: "\<bar>s * 10 ^ 6\<bar> \<le> 2 ^ 63 + 10 ^ 6"
    using assms r(1) unfolding r_def isInt64_def by linarith
  have small: "isInt64 r" "isInt64 (r * 10 ^ 6)" "isInt64 (s + r * 10 ^ 6 div 10 ^ 9)"
  proof -
    have "- 1000000 < r" "r < 1000000" using r(1) by auto
    then have "- 1000 \<le> r div 1000" "r div 1000 \<le> 1000" by linarith+
    then show "isInt64 (s + r * 10 ^ 6 div 10 ^ 9)" using s by (auto simp: isInt64_def)
    show "isInt64 r" "isInt64 (r * 10 ^ 6)" using r(1) by (auto simp: isInt64_def)
  qed
  have "TimestampFromInt64Value R v = ok (Time_UTC (time_Unix (rtLocal R) s (r * 10 ^ 6)))"
  proof -
    have ms: "Millisecond = 10 ^ 6" "v sdiv Millisecond = s" "v - s * Millisecond = r"
      unfolding Millisecond_def s_def r_def by (rule refl)+
    show ?thesis
      unfolding TimestampFromInt64Value_def Let_def ms(2,3) unfolding ms(1) by (simp only: wrap64_id small)
  qed
  then have "map_sum id nanos (TimestampFromInt64Value R v) = ok (s * 10 ^ 9 + r * 10 ^ 6)"
    using small by (simp only: map_sum.simps nanos_Time_UTC nanos_time_Unix)
  moreover have "v * 1000 = s * 10 ^ 9 + r * 1000" by (simp add: r_def algebra_simps)
  ultimately show ?thesis using r(2) by auto
qed

section \<open>Comparison of arrays\<close>

text \<open>The comparison of two arrays of integers of the same length compares the elements of the
  argument with those of the receiver: \<open>xs.GT(ys)\<close> is true exactly when every element of \<open>ys\<close> is greater
  than the one of \<open>xs\<close> at its place.\<close>

theorem array_gt_reversed:
  assumes "length xs = length ys"
  shows "Value_compare R GT (ArrayValue (map (Some \<circ> IntValue) xs)) (Some (ArrayValue (map (Some \<circ> IntValue) ys)))
    = ok (list_all2 (<) xs ys)"
proof -
  have "goEvery (map (\<lambda>(a, value). onNil a (\<lambda>x. Value_compare R GT x value))
      (zip (map (Some \<circ> IntValue) ys) (map (Some \<circ> IntValue) xs))) = ok (list_all2 (<) xs ys)"
    using assms
    by (induction xs ys rule: list_induct2)
      (simp_all add: IntValue_GT_def comparand_def argInt64_def IntValue_ToInt64_def)
  then show ?thesis
    using assms by (simp add: ArrayValue_GT_def compareElements_def argArray_def ArrayValue_ToArray_def)
qed

section \<open>Equality of values\<close>

text \<open>Values without floating point numbers and times, the shapes of two values being equal.\<close>

inductive sameShape :: "'f Value \<Rightarrow> 'f Value \<Rightarrow> bool" where
  ints: "sameShape (IntValue i) (IntValue j)"
| strings: "sameShape (StringValue s) (StringValue t)"
| bytes: "sameShape (BytesValue s) (BytesValue t)"
| bools: "sameShape (BoolValue b) (BoolValue c)"
| arrays: "\<forall>x \<in> set xs. \<forall>y \<in> set ys. \<exists>v w. x = Some v \<and> y = Some w \<and> sameShape v w \<Longrightarrow>
    sameShape (ArrayValue xs) (ArrayValue ys)"

inductive_simps sameShape_simps [simp]:
  "sameShape (IntValue i) w" "sameShape (StringValue s) w" "sameShape (BytesValue s) w"
  "sameShape (BoolValue b) w" "sameShape (ArrayValue xs) w"

lemmas scalar_EQ = IntValue_EQ_def StringValue_EQ_def BytesValue_EQ_def BoolValue_EQ_def comparand_def
  argInt64_def argString_def argBytes_def argBool_def IntValue_ToInt64_def StringValue_ToString_def
  BytesValue_ToBytes_def BoolValue_ToBool_def

lemma goEvery_all:
  "(\<And>x. x \<in> set xs \<Longrightarrow> f x = ok (P x)) \<Longrightarrow> goEvery (map f xs) = ok (list_all P xs)"
  by (induction xs) auto

lemma array_EQ:
  assumes "\<And>x y. x \<in> set xs \<Longrightarrow> y \<in> set ys \<Longrightarrow>
    \<exists>v w. x = Some v \<and> y = Some w \<and> Value_compare R EQ w (Some v) = ok (w = v)"
  shows "Value_compare R EQ (ArrayValue xs) (Some (ArrayValue ys)) = ok (xs = ys)"
proof -
  have "(case p of (a, b) \<Rightarrow> onNil a (\<lambda>x. Value_compare R EQ x b)) = ok (fst p = snd p)"
    if p: "p \<in> set (zip ys xs)" for p
  proof -
    obtain a b where ab: "p = (a, b)" "a \<in> set ys" "b \<in> set xs"
      using p by (metis prod.collapse set_zip_leftD set_zip_rightD)
    then show ?thesis using assms [of b a] by auto
  qed
  then have "goEvery (map (\<lambda>(a, b). onNil a (\<lambda>x. Value_compare R EQ x b)) (zip ys xs))
    = ok (list_all (\<lambda>p. fst p = snd p) (zip ys xs))"
    by (rule goEvery_all)
  moreover have "length xs = length ys \<Longrightarrow> list_all (\<lambda>p. fst p = snd p) (zip ys xs) \<longleftrightarrow> xs = ys"
    by (induction xs ys rule: list_induct2) auto
  ultimately show ?thesis
    by (auto simp: ArrayValue_EQ_def compareElements_def argArray_def ArrayValue_ToArray_def)
qed

text \<open>C11: On integers, strings, bytes, booleans and arrays of them, nested to any depth, \<open>EQ\<close> is
  equality and never fails.\<close>

theorem eq_is_equality:
  assumes "sameShape v w"
  shows "Value_compare R EQ v (Some w) = ok (v = w)"
proof -
  have "Value_compare R EQ v (Some w) = ok (v = w) \<and> Value_compare R EQ w (Some v) = ok (w = v)"
    using assms
  proof (induction rule: sameShape.induct)
    case (arrays xs ys)
    have "Value_compare R EQ (ArrayValue xs) (Some (ArrayValue ys)) = ok (xs = ys)"
      by (rule array_EQ) (use arrays in blast)
    moreover have "Value_compare R EQ (ArrayValue ys) (Some (ArrayValue xs)) = ok (ys = xs)"
      by (rule array_EQ) (use arrays in blast)
    ultimately show ?case by simp
  qed (auto simp: scalar_EQ)
  then show ?thesis by simp
qed

section \<open>Values stay in range\<close>

text \<open>Every integer in the value is an \<open>int64\<close> and every time an instant.\<close>

primrec wfValue :: "'f Value \<Rightarrow> bool" where
  "wfValue (IntValue i) \<longleftrightarrow> isInt64 i"
| "wfValue (StringValue s) \<longleftrightarrow> True"
| "wfValue (BytesValue s) \<longleftrightarrow> True"
| "wfValue (FloatValue f) \<longleftrightarrow> True"
| "wfValue (NumericValue r isBig) \<longleftrightarrow> True"
| "wfValue (BoolValue b) \<longleftrightarrow> True"
| "wfValue (JsonValue s) \<longleftrightarrow> True"
| "wfValue (ArrayValue xs) \<longleftrightarrow> list_all (\<lambda>x. x \<noteq> Some False) (map (map_option wfValue) xs)"
| "wfValue (StructValue keys vals m) \<longleftrightarrow> list_all (\<lambda>x. x \<noteq> Some False) (map (map_option wfValue) vals)"
| "wfValue (DateValue t) \<longleftrightarrow> wfTime t"
| "wfValue (DatetimeValue t) \<longleftrightarrow> wfTime t"
| "wfValue (TimeValue t) \<longleftrightarrow> wfTime t"
| "wfValue (TimestampValue t) \<longleftrightarrow> wfTime t"
| "wfValue (IntervalValue i) \<longleftrightarrow> True"
| "wfValue (SafeValue v) \<longleftrightarrow> wfValue v"

lemma isInt64_bit [simp]: "isInt64 0" "isInt64 1"
  by (simp_all add: isInt64_def)

lemma isInt64_int: "n < 2 ^ 63 \<Longrightarrow> isInt64 (int n)" "n \<le> 2 ^ 63 \<Longrightarrow> isInt64 (- int n)"
proof -
  assume "n < 2 ^ 63"
  then have "int n < 2 ^ 63" using of_nat_less_iff [where 'a = int, of n "2 ^ 63"] by simp
  then show "isInt64 (int n)" by (simp add: isInt64_def)
next
  assume "n \<le> 2 ^ 63"
  then have "int n \<le> 2 ^ 63" using of_nat_le_iff [where 'a = int, of n "2 ^ 63"] by simp
  then show "isInt64 (- int n)" by (simp add: isInt64_def)
qed

lemma range_check:
  "(if \<not> neg \<and> n \<ge> h then Inl a else if neg \<and> n > h then Inl b else Inr (if neg then - int n else int n)) = Inr i \<Longrightarrow>
   (i = int n \<and> n < h) \<or> (i = - int n \<and> n \<le> h)"
  by (auto split: if_splits)

lemma ParseInt_in:
  assumes "ParseInt quote s base = ok i"
  shows "isInt64 i"
proof (cases "ParseUint (if s \<noteq> [] \<and> hd s \<in> set ''+-'' then tl s else s) base")
  case (Inl e)
  then show ?thesis using assms unfolding ParseInt_def Let_def by simp
next
  case (Inr n)
  have "(i = int n \<and> n < 2 ^ 63) \<or> (i = - int n \<and> n \<le> 2 ^ 63)"
    by (rule range_check [OF assms [unfolded ParseInt_def Let_def Inr sum.case]])
  then show ?thesis by (elim disjE conjE) (simp_all only: isInt64_int)
qed

lemma mod_second: "0 \<le> x mod 10 ^ 9" "x mod 10 ^ 9 < (10 ^ 9 :: int)"
  by (rule pos_mod_sign pos_mod_bound, rule zero_less_power, rule zero_less_numeral)+

lemma wfTime_time_Date [simp]: "wfTime (time_Date y mo d h mi s ns loc)"
proof -
  have "tNsec (time_Date y mo d h mi s ns loc) = ns mod 10 ^ 9" "isInt64 (tSec (time_Date y mo d h mi s ns loc))"
    by (simp_all add: time_Date_def Let_def civilSeconds_def split: Location.split prod.split)
  then show ?thesis unfolding wfTime_def by (simp only: mod_second simp_thms)
qed

lemma wfTime_Time_Add [simp]: "wfTime (Time_Add d t)"
proof -
  have "tNsec (Time_Add d t) = (tNsec t + d) mod 10 ^ 9" "isInt64 (tSec (Time_Add d t))"
    by (simp_all add: Time_Add_def Let_def)
  then show ?thesis unfolding wfTime_def by (simp only: mod_second simp_thms)
qed

lemma wfTime_sec: "wfTime t \<Longrightarrow> isInt64 (tSec t)"
  unfolding wfTime_def by (rule conjunct1)

lemma wfTime_arith [simp]: "wfTime (AddDate y m d t)" "wfTime (shiftByInterval sign iv t)"
  by (simp_all add: AddDate_def shiftByInterval_def)

lemmas ToInt64_defs = IntValue_ToInt64_def StringValue_ToInt64_def BytesValue_ToInt64_def FloatValue_ToInt64_def
  NumericValue_ToInt64_def BoolValue_ToInt64_def JsonValue_ToInt64_def ArrayValue_ToInt64_def
  StructValue_ToInt64_def DateValue_ToInt64_def DatetimeValue_ToInt64_def TimeValue_ToInt64_def
  TimestampValue_ToInt64_def IntervalValue_ToInt64_def SafeValue_ToInt64_def

text \<open>Every conversion to an integer gives an \<open>int64\<close>, provided the conversion of floating point
  numbers does.\<close>

theorem to_int64_range:
  assumes "\<And>f. isInt64 (flToInt R f)" "wfValue v" "Value_ToInt64 R v = ok i"
  shows "isInt64 i"
  using assms(2,3)
proof (induction v arbitrary: i)
  case (SafeValue v)
  then show ?case by (auto simp: ToInt64_defs safely_Some)
next
  case (StringValue s)
  then show ?case by (auto simp only: Value_ToInt64.simps ToInt64_defs isInt64_bit Inr_inject dest: ParseInt_in split: if_split_asm)
next
  case (BytesValue s)
  then show ?case by (auto simp only: Value_ToInt64.simps ToInt64_defs isInt64_bit Inr_inject dest: ParseInt_in split: if_split_asm)
next
  case (JsonValue s)
  then show ?case by (simp only: Value_ToInt64.simps ToInt64_defs ParseInt_in)
next
  case (FloatValue f) then show ?case using assms(1) [of f] by (simp add: ToInt64_defs)
next
  case (NumericValue r b) then show ?case by (cases r) (auto simp: ToInt64_defs)
next
  case (BoolValue b) then show ?case by (cases b) (simp_all add: ToInt64_defs)
qed (auto simp: ToInt64_defs Time_Unix_def wfTime_sec)

lemmas arith_fails = StringValue_Sub_def StringValue_Mul_def StringValue_Div_def
  BytesValue_Sub_def BytesValue_Mul_def BytesValue_Div_def
  BoolValue_Add_def BoolValue_Sub_def BoolValue_Mul_def BoolValue_Div_def
  JsonValue_Add_def JsonValue_Sub_def JsonValue_Mul_def JsonValue_Div_def
  ArrayValue_Add_def ArrayValue_Sub_def ArrayValue_Mul_def ArrayValue_Div_def
  StructValue_Add_def StructValue_Sub_def StructValue_Mul_def StructValue_Div_def
  DateValue_Mul_def DateValue_Div_def DatetimeValue_Mul_def DatetimeValue_Div_def
  TimeValue_Add_def TimeValue_Sub_def TimeValue_Mul_def TimeValue_Div_def
  TimestampValue_Mul_def TimestampValue_Div_def
  IntervalValue_Add_def IntervalValue_Sub_def IntervalValue_Mul_def IntervalValue_Div_def

lemmas arith_results = IntValue_Add_def IntValue_Sub_def IntValue_Mul_def IntValue_Div_def
  StringValue_Add_def BytesValue_Add_def
  FloatValue_Add_def FloatValue_Sub_def FloatValue_Mul_def FloatValue_Div_def
  NumericValue_Add_def NumericValue_Sub_def NumericValue_Mul_def NumericValue_Div_def
  DateValue_Add_def DateValue_Sub_def DatetimeValue_Add_def DatetimeValue_Sub_def
  TimestampValue_Add_def TimestampValue_Sub_def
  SafeValue_Add_def SafeValue_Sub_def SafeValue_Mul_def SafeValue_Div_def

lemma wf_Add: "Value_Add R x y = ok (Some z) \<Longrightarrow> wfValue z"
  by (induction x arbitrary: z)
    (auto simp: arith_fails arith_results go_bind_Inr_iff onNil_ok safely_Some
      split: option.splits Value.splits if_splits)

lemma wf_Sub: "Value_Sub R x y = ok (Some z) \<Longrightarrow> wfValue z"
  by (induction x arbitrary: z)
    (auto simp: arith_fails arith_results go_bind_Inr_iff onNil_ok safely_Some
      split: option.splits Value.splits if_splits)

lemma wf_Mul: "Value_Mul R x y = ok (Some z) \<Longrightarrow> wfValue z"
  by (induction x arbitrary: z)
    (auto simp: arith_fails arith_results go_bind_Inr_iff onNil_ok safely_Some split: if_splits)

lemma wf_Div: "Value_Div R x y = ok (Some z) \<Longrightarrow> wfValue z"
  by (induction x arbitrary: z)
    (auto simp: arith_fails arith_results go_bind_Inr_iff onNil_ok safely_Some
      split: if_splits sum.splits go_error.splits)


end
