(* ===== verification/Date_Props.thy ===== *)
theory Date_Props
  imports Func_Time Go_Time_Roundtrip Value_Props
begin

text \<open>
  What the date functions of \<open>internal/function_date.go\<close>, \<open>internal/function_time.go\<close> and
  \<open>internal/function_interval.go\<close> compute, for times in UTC: the calendar arithmetic of months, weeks and
  days, and the functions that miss what they announce.
\<close>

section \<open>Building times in UTC\<close>

text \<open>The day number of a normalised date, and the range of years in which nothing wraps around.\<close>

definition monthDay :: "int \<Rightarrow> int \<Rightarrow> int \<Rightarrow> int" where
  "monthDay y m d = daysFromCivil (y + (m - 1) div 12) ((m - 1) mod 12 + 1) 1 + (d - 1)"

definition safeYear :: "int \<Rightarrow> bool" where
  "safeYear y \<longleftrightarrow> - 100000000 \<le> y \<and> y \<le> 100000000"

lemma daysBeforeYear_bounds:
  assumes "safeYear y"
  shows "- 40000000000 \<le> daysBeforeYear y" "daysBeforeYear y \<le> 40000000000"
proof -
  have y: "- 100000000 \<le> y" "y \<le> 100000000" using assms unfolding safeYear_def by simp_all
  have "- 30000000 \<le> (y - 1) div 4" "(y - 1) div 4 \<le> 30000000" "- 30000000 \<le> (y - 1) div 100"
    "(y - 1) div 100 \<le> 30000000" "- 30000000 \<le> (y - 1) div 400" "(y - 1) div 400 \<le> 30000000"
    using y by linarith+
  moreover have "- 40000000000 \<le> 365 * (y - 1) + p - q + r \<and> 365 * (y - 1) + p - q + r \<le> 40000000000"
    if "- 30000000 \<le> p" "p \<le> 30000000" "- 30000000 \<le> q" "q \<le> 30000000" "- 30000000 \<le> r" "r \<le> 30000000" for p q r
    using y that unfolding right_diff_distrib by (intro conjI; linarith)
  ultimately show "- 40000000000 \<le> daysBeforeYear y" "daysBeforeYear y \<le> 40000000000"
    unfolding daysBeforeYear_def by blast+
qed

lemma daysBeforeMonth_range:
  assumes "1 \<le> m" "m \<le> 12"
  shows "0 \<le> daysBeforeMonth l m \<and> daysBeforeMonth l m \<le> 366"
  using assms daysBeforeMonth_mono [of 1 m l] daysBeforeMonth_mono [of m 13 l] daysBeforeMonth_13 [of l]
  by (auto split: if_splits)

lemma month_mod: "1 \<le> (m - 1) mod 12 + 1" "(m - 1) mod 12 + 1 \<le> (12 :: int)"
  using pos_mod_sign [of 12 "m - 1"] pos_mod_bound [of 12 "m - 1"] by linarith+

lemma monthDay_bounds:
  assumes "safeYear (y + (m - 1) div 12)" "\<bar>d\<bar> \<le> 10000000000"
  shows "\<bar>monthDay y m d\<bar> \<le> 60000000000"
proof -
  note daysBeforeYear_bounds [OF assms(1)]
    daysBeforeMonth_range [OF month_mod [of m], of "isLeap (y + (m - 1) div 12)"]
  then show ?thesis
    using assms(2) unfolding monthDay_def daysFromCivil_def epochDay_def by linarith
qed

text \<open>A time of day below 24 hours does not carry.\<close>

definition clockSeconds :: "int \<Rightarrow> int \<Rightarrow> int \<Rightarrow> int" where
  "clockSeconds h mi s = 3600 * h + 60 * mi + s"

lemma time_Date_UTC:
  assumes "safeYear (y + (m - 1) div 12)" "\<bar>d\<bar> \<le> 10000000000"
    and "0 \<le> clockSeconds h mi s" "clockSeconds h mi s < 86400" "0 \<le> ns" "ns < 10 ^ 9"
  shows "time_Date y m d h mi s ns UTC
    = \<lparr>tSec = 86400 * monthDay y m d + clockSeconds h mi s, tNsec = ns, tLoc = UTC\<rparr>"
proof -
  have "ns div 10 ^ 9 = 0" "ns mod 10 ^ 9 = ns"
    using assms(5,6) by (simp_all add: div_pos_pos_trivial mod_pos_pos_trivial)
  moreover have "isInt64 (86400 * monthDay y m d + clockSeconds h mi s)"
    using monthDay_bounds [OF assms(1,2)] assms(3,4) by (auto simp: isInt64_def)
  ultimately show ?thesis
    by (simp add: time_Date_def civilSeconds_def monthDay_def clockSeconds_def Let_def algebra_simps)
qed

lemma localSec_day:
  assumes "tLoc t = UTC" "tSec t = 86400 * n + c" "0 \<le> c" "c < 86400" "\<bar>n\<bar> \<le> 60000000000"
  shows "localSec t div 86400 = n" "localSec t mod 86400 = c"
proof -
  have "isInt64 (tSec t)" using assms by (auto simp: isInt64_def)
  then have "localSec t = c + n * 86400" using assms by simp
  then show "localSec t div 86400 = n" "localSec t mod 86400 = c"
    using assms(3,4) by (simp_all add: div_pos_pos_trivial mod_pos_pos_trivial)
qed

text \<open>The date of a time that was built from a year, a month and a day.\<close>

lemma Time_Date_built:
  assumes "safeYear (y + (m - 1) div 12)" "\<bar>d\<bar> \<le> 10000000000"
    and "0 \<le> clockSeconds h mi s" "clockSeconds h mi s < 86400" "0 \<le> ns" "ns < 10 ^ 9"
  shows "Time_Date (time_Date y m d h mi s ns UTC) = civilFromDays (monthDay y m d)"
  using localSec_day(1) [OF _ _ assms(3,4) monthDay_bounds [OF assms(1,2)], of "time_Date y m d h mi s ns UTC"]
  by (simp add: time_Date_UTC [OF assms] Time_Date_def)

lemma monthDay_valid: "validDate (y, m, d) \<Longrightarrow> monthDay y m d = daysFromCivil y m d"
  using month_normal [of m] by (simp add: monthDay_def validDate_def daysFromCivil_day)

section \<open>Adding months and years\<close>

text \<open>The date \<open>m\<close> months after a date, with the day cut to the length of the month.\<close>

definition monthsLater :: "int \<times> int \<times> int \<Rightarrow> int \<Rightarrow> int \<times> int \<times> int" where
  "monthsLater ymd n = (case ymd of (y, m, d) \<Rightarrow>
     (let k = 12 * y + (m - 1) + n; y' = k div 12; m' = k mod 12 + 1
      in (y', m', min d (daysIn (isLeap y') m'))))"

definition plainTime :: "Time \<Rightarrow> bool" where
  "plainTime t \<longleftrightarrow> wfTime t \<and> tLoc t = UTC \<and> - 1000000 \<le> Time_Year t \<and> Time_Year t \<le> 1000000"

lemma carry_month:
  "y + (m + n - 1) div 12 = (12 * y + (m - 1) + n) div 12" "(m + n - 1) mod 12 = (12 * y + (m - 1) + n) mod (12 :: int)"
proof -
  have eq: "12 * y + (m - 1) + n = (m + n - 1) + y * 12" by simp
  show "y + (m + n - 1) div 12 = (12 * y + (m - 1) + n) div 12" unfolding eq by simp
  show "(m + n - 1) mod 12 = (12 * y + (m - 1) + n) mod 12" unfolding eq by simp
qed

lemma monthDay_carry:
  "monthDay y (m + n) d = monthDay ((12 * y + (m - 1) + n) div 12) ((12 * y + (m - 1) + n) mod 12 + 1) d"
  using month_normal [OF month_mod [of "m + n"]] unfolding monthDay_def carry_month(1) [of y m n]
  by (simp add: carry_month(2) [of m n y])

lemma monthsLater_parts:
  assumes "monthsLater (y, m, d) n = (y', m', d')"
  shows "y' = (12 * y + (m - 1) + n) div 12" "m' = (12 * y + (m - 1) + n) mod 12 + 1" "d' = min d (daysIn (isLeap y') m')"
    "1 \<le> m'" "m' \<le> 12"
  using assms pos_mod_sign [of 12 "12 * y + (m - 1) + n"] pos_mod_bound [of 12 "12 * y + (m - 1) + n"]
  by (auto simp: monthsLater_def Let_def)

text \<open>The day after the last one of a month is the first of the next.\<close>

lemma daysIn_next: "1 \<le> m \<Longrightarrow> m \<le> 12 \<Longrightarrow> monthDay y (m + 1) 0 = daysFromCivil y m (daysIn (isLeap y) m)"
proof -
  assume m: "1 \<le> m" "m \<le> 12"
  show ?thesis
  proof (cases "m = 12")
    case True
    then show ?thesis
      by (simp add: monthDay_def daysFromCivil_def daysBeforeYear_length daysIn_def daysBeforeMonth_def)
  next
    case False
    then have "monthDay y (m + 1) 0 = daysFromCivil y (m + 1) 0"
      using m by (simp add: monthDay_def div_pos_pos_trivial mod_pos_pos_trivial daysFromCivil_def)
    then show ?thesis using m False daysBeforeMonth_Suc [of m "isLeap y"] by (simp add: daysFromCivil_def)
  qed
qed

lemma plain_year_safe: "plainTime t \<Longrightarrow> \<bar>n\<bar> \<le> 1000000 \<Longrightarrow> safeYear ((12 * Time_Year t + (Time_Month t - 1) + n) div 12)"
  using layout_ranges [of t] unfolding plainTime_def safeYear_def by (intro conjI; linarith)

lemma clock_fields:
  assumes "wfTime t"
  shows "0 \<le> clockSeconds (Time_Hour t) (Time_Minute t) (Time_Second t)"
    "clockSeconds (Time_Hour t) (Time_Minute t) (Time_Second t) < 86400" "0 \<le> tNsec t" "tNsec t < 10 ^ 9"
  using clock_ranges [of t] assms unfolding clockSeconds_def wfTime_def by linarith+

lemma AddDate_plain:
  assumes "plainTime t" "\<bar>n\<bar> \<le> 1000000" "\<bar>d\<bar> \<le> 1000000"
  shows "AddDate 0 n d t = time_Date (Time_Year t) (Time_Month t + n) (Time_Day t + d)
    (Time_Hour t) (Time_Minute t) (Time_Second t) (tNsec t) UTC"
proof -
  have "isInt64 (Time_Year t)" "isInt64 (Time_Month t + n)" "isInt64 (Time_Day t + d)"
    using assms layout_ranges [of t] unfolding plainTime_def isInt64_def by auto
  then show ?thesis using assms(1) by (simp add: AddDate_def plainTime_def)
qed

lemma AddDate_date:
  assumes "plainTime t" "\<bar>n\<bar> \<le> 1000000" "\<bar>d\<bar> \<le> 1000000"
  shows "Time_Date (AddDate 0 n d t)
    = civilFromDays (monthDay ((12 * Time_Year t + (Time_Month t - 1) + n) div 12)
        ((12 * Time_Year t + (Time_Month t - 1) + n) mod 12 + 1) (Time_Day t + d))"
proof -
  have wf: "wfTime t" using assms(1) by (simp add: plainTime_def)
  have "\<bar>Time_Day t + d\<bar> \<le> 10000000000" using assms(3) layout_ranges [of t] by linarith
  then show ?thesis
    unfolding AddDate_plain [OF assms] monthDay_carry [symmetric]
    using plain_year_safe [OF assms(1,2)]
    by (intro Time_Date_built clock_fields [OF wf]) (simp_all only: carry_month(1))
qed

lemma built_first:
  assumes "plainTime t"
  defines "first \<equiv> time_Date (Time_Year t) (Time_Month t) 1 0 0 0 0 UTC"
  shows "plainTime first" "Time_Date first = (Time_Year t, Time_Month t, 1)"
proof -
  have m: "1 \<le> Time_Month t" "Time_Month t \<le> 12" using layout_ranges [of t] by simp_all
  then have valid: "validDate (Time_Year t, Time_Month t, 1)" by (simp add: validDate_def daysIn_def)
  have "safeYear (Time_Year t + (Time_Month t - 1) div 12)"
    using assms(1) month_normal [OF m] unfolding plainTime_def safeYear_def by simp
  then have "Time_Date first = civilFromDays (monthDay (Time_Year t) (Time_Month t) 1)"
    unfolding first_def by (intro Time_Date_built) (simp_all add: clockSeconds_def)
  then show date: "Time_Date first = (Time_Year t, Time_Month t, 1)"
    by (simp only: monthDay_valid [OF valid] civil_of_days [OF valid])
  have "tLoc first = UTC" by (simp add: first_def time_Date_def Let_def)
  moreover have "wfTime first"
    using time_Date_fields [of t] assms(1) unfolding first_def wfTime_def time_Date_def Let_def
    by (simp add: civilSeconds_def)
  ultimately show "plainTime first" using assms(1) date by (simp add: plainTime_def Time_Year_def)
qed

lemma monthDay_succ:
  "k = 12 * y + (m - 1) + n \<Longrightarrow> monthDay (k div 12) (k mod 12 + 1 + 1) d = monthDay y (m + (n + 1)) d"
  using monthDay_carry [of "k div 12" "k mod 12 + 1" 1 d] monthDay_carry [of y m "n + 1" d]
  by (simp add: algebra_simps)

lemma civil_overflow:
  assumes "1 \<le> m" "m \<le> 12" "daysIn (isLeap y) m < d" "d \<le> 31"
  shows "civilFromDays (monthDay y m d) = (y, m + 1, d - daysIn (isLeap y) m)"
proof -
  have m: "m < 12" using assms by (cases "m = 12") (auto simp: daysIn_def)
  have "monthDay y m d = daysFromCivil y (m + 1) (d - daysIn (isLeap y) m)"
    using month_normal [OF assms(1,2)] daysBeforeMonth_Suc [OF assms(1,2), of "isLeap y"]
    by (simp add: monthDay_def daysFromCivil_def)
  moreover have "validDate (y, m + 1, d - daysIn (isLeap y) m)"
    using assms m by (auto simp: validDate_def daysIn_def split: if_splits)
  ultimately show ?thesis by (simp only: civil_of_days)
qed

text \<open>C12: Adding months to a date moves it to the same day of the target month, or to its last day if the
  month is shorter; this is \<open>addMonth\<close>, on which \<open>DATE_ADD\<close> and \<open>DATE_SUB\<close> rest.\<close>

theorem addMonth_date:
  assumes "plainTime t" "\<bar>n\<bar> \<le> 100000"
  shows "Time_Date (addMonth t n) = monthsLater (Time_Date t) n"
proof -
  define y m d where "y = Time_Year t" and "m = Time_Month t" and "d = Time_Day t"
  define k where "k = 12 * y + (m - 1) + n"
  define y' m' where "y' = k div 12" and "m' = k mod 12 + 1"
  define first where "first = time_Date y m 1 0 0 0 0 UTC"
  have date: "Time_Date t = (y, m, d)" by (simp add: y_def m_def d_def Time_Year_def Time_Month_def Time_Day_def)
  have m': "1 \<le> m'" "m' \<le> 12" using pos_mod_sign [of 12 k] pos_mod_bound [of 12 k] unfolding m'_def by linarith+
  have d: "1 \<le> d" "d \<le> 31" using layout_ranges [of t] unfolding d_def by (auto simp: daysIn_def split: if_splits)
  have later: "monthsLater (Time_Date t) n = (y', m', min d (daysIn (isLeap y') m'))"
    by (simp add: date monthsLater_def k_def y'_def m'_def Let_def)
  note first = built_first [OF assms(1), folded y_def m_def, folded first_def]
  have fields: "Time_Year first = y" "Time_Month first = m" "Time_Day first = 1"
    using first(2) by (simp_all add: Time_Year_def Time_Month_def Time_Day_def)
  have valid: "validDate (y', m', 1)" using m' by (auto simp: validDate_def daysIn_def)
  have target: "Time_Date (AddDate 0 n 0 first) = (y', m', 1)"
    using AddDate_date [OF first(1), of n 0] assms(2)
    by (simp only: fields k_def [symmetric] y'_def [symmetric] m'_def [symmetric] monthDay_valid [OF valid]
        civil_of_days [OF valid] add_0_right abs_zero)
  then have target_fields: "Time_Year (AddDate 0 n 0 first) = y'" "Time_Month (AddDate 0 n 0 first) = m'"
    by (simp_all add: Time_Year_def Time_Month_def)
  have safe: "safeYear (y' + (m' - 1) div 12)"
    using plain_year_safe [OF assms(1), of n] assms(2) month_normal [OF m'] by (simp add: y'_def k_def y_def m_def)
  have after: "Time_Date (time_Date y' m' d 0 0 0 0 UTC) = civilFromDays (monthDay y' m' d)"
    using d by (intro Time_Date_built [OF safe]) (simp_all add: clockSeconds_def)
  have n: "wrap64 (n + 1) = n + 1" using assms(2) by (auto simp: isInt64_def intro!: wrap64_id)
  have clamped: "Time_Date (AddDate 0 (n + 1) (- 1) first) = (y', m', daysIn (isLeap y') m')"
  proof -
    have v: "validDate (y', m', daysIn (isLeap y') m')" using m' by (auto simp: validDate_def daysIn_def)
    have "Time_Date (AddDate 0 (n + 1) (- 1) first) = civilFromDays (monthDay y (m + (n + 1)) 0)"
      using AddDate_date [OF first(1), of "n + 1" "- 1", unfolded fields monthDay_carry [symmetric]] assms(2) by simp
    also have "monthDay y (m + (n + 1)) 0 = monthDay y' (m' + 1) 0"
      unfolding y'_def m'_def by (rule monthDay_succ [OF k_def, symmetric])
    finally show ?thesis by (simp only: daysIn_next [OF m'] civil_of_days [OF v])
  qed
  have kept: "Time_Date (AddDate 0 n 0 t) = civilFromDays (monthDay y' m' d)"
    using AddDate_date [OF assms(1), of n 0, folded y_def m_def d_def, folded k_def, folded y'_def m'_def] assms(2)
    by simp
  have loc: "tLoc t = UTC" using assms(1) by (simp add: plainTime_def)
  have unfold: "addMonth t n = (if m' \<noteq> Time_Month (time_Date y' m' d 0 0 0 0 UTC)
      then AddDate 0 (n + 1) (- 1) first else AddDate 0 n 0 t)"
    unfolding addMonth_def Let_def loc y_def [symmetric] m_def [symmetric] d_def [symmetric] first_def [symmetric] n
    using target_fields by simp
  show ?thesis
  proof (cases "d \<le> daysIn (isLeap y') m'")
    case True
    then have v: "validDate (y', m', d)" using m' d by (simp add: validDate_def)
    have same: "civilFromDays (monthDay y' m' d) = (y', m', d)" by (simp only: monthDay_valid [OF v] civil_of_days [OF v])
    then have "Time_Month (time_Date y' m' d 0 0 0 0 UTC) = m'" using after by (simp add: Time_Month_def)
    then show ?thesis using unfold kept same later True by simp
  next
    case False
    then have "civilFromDays (monthDay y' m' d) = (y', m' + 1, d - daysIn (isLeap y') m')"
      using civil_overflow [OF m'] d by simp
    then have "Time_Month (time_Date y' m' d 0 0 0 0 UTC) = m' + 1" using after by (simp add: Time_Month_def)
    then show ?thesis using unfold clamped later False by simp
  qed
qed

section \<open>Adding days\<close>

lemma year_bound: "\<bar>365 * Time_Year t\<bar> \<le> \<bar>localSec t div 86400\<bar> + 1000000"
proof -
  define y where "y = Time_Year t"
  have n: "localSec t div 86400 = daysBeforeYear y + daysBeforeMonth (isLeap y) (Time_Month t) + Time_Day t - 1 - epochDay"
    using civil_date_days [of t] by (simp add: daysFromCivil_def y_def)
  have rest: "0 \<le> daysBeforeMonth (isLeap y) (Time_Month t) \<and> daysBeforeMonth (isLeap y) (Time_Month t) \<le> 366"
    by (intro daysBeforeMonth_range layout_ranges)
  have d: "1 \<le> Time_Day t" "Time_Day t < 100" by (intro layout_ranges)+
  consider (pos) "1 \<le> y" | (neg) "y \<le> 0" by linarith
  then show ?thesis
  proof cases
    case pos
    have "365 * y - 365 - 2 \<le> daysBeforeYear y" unfolding daysBeforeYear_def right_diff_distrib using pos by linarith
    then show ?thesis using n rest d pos unfolding epochDay_def y_def by linarith
  next
    case neg
    have "daysBeforeYear y \<le> 365 * y - 365 + 2" unfolding daysBeforeYear_def right_diff_distrib using neg by linarith
    then show ?thesis using n rest d neg unfolding epochDay_def y_def by linarith
  qed
qed

lemma Year_in: "isInt64 (Time_Year t)"
proof -
  have "isInt64 (localSec t)" by (simp add: localSec_def)
  then have "\<bar>localSec t div 86400\<bar> \<le> 2 ^ 62" unfolding isInt64_def by auto
  then show ?thesis using year_bound [of t] unfolding isInt64_def by auto
qed

lemma AddDate_days:
  assumes "wfTime t" "tLoc t = UTC" "\<bar>d\<bar> \<le> 2 ^ 40" "isInt64 (tSec t + 86400 * d)"
  shows "AddDate 0 0 d t = t\<lparr>tSec := tSec t + 86400 * d\<rparr>"
proof -
  have s: "isInt64 (tSec t)" using assms(1) unfolding wfTime_def by (rule conjunct1)
  have "isInt64 (Time_Day t + d)" "isInt64 (Time_Month t)"
    using layout_ranges [of t] assms(3) unfolding isInt64_def by auto
  moreover have "civilSeconds (Time_Year t) (Time_Month t) (Time_Day t + d) (Time_Hour t) (Time_Minute t) (Time_Second t)
      = wrap64 (tSec t + 86400 * d)"
  proof -
    have "civilSeconds (Time_Year t) (Time_Month t) (Time_Day t + d) (Time_Hour t) (Time_Minute t) (Time_Second t)
      = wrap64 (86400 * (localSec t div 86400) + 86400 * d + 3600 * Time_Hour t + 60 * Time_Minute t + Time_Second t)"
      using month_normal [of "Time_Month t"] layout_ranges [of t] civil_date_days [of t]
        daysFromCivil_day [of "Time_Year t" "Time_Month t" "Time_Day t"]
      by (simp add: civilSeconds_def algebra_simps)
    moreover have "86400 * (localSec t div 86400) + 86400 * d + 3600 * Time_Hour t + 60 * Time_Minute t + Time_Second t
        = tSec t + 86400 * d"
      using clock_sum [of "localSec t"] localSec_UTC [OF assms(2) s]
      unfolding Time_Hour_def Time_Minute_def Time_Second_def by linarith
    ultimately show ?thesis by (simp only:)
  qed
  ultimately show ?thesis
    using assms(2,4) Year_in [of t] nsec_normal [OF assms(1)]
    by (simp add: AddDate_def time_Date_def Let_def)
qed

section \<open>Weeks\<close>

lemma wfTime_moved: "wfTime t \<Longrightarrow> isInt64 s \<Longrightarrow> wfTime (t\<lparr>tSec := s\<rparr>)"
  unfolding wfTime_def by simp

lemma Weekday_UTC: "tLoc t = UTC \<Longrightarrow> isInt64 (tSec t) \<Longrightarrow> Time_Weekday t = (tSec t div 86400 + 4) mod 7"
  by (simp add: Time_Weekday_def weekdayOfDay_def)

lemma Weekday_range: "0 \<le> Time_Weekday t" "Time_Weekday t < 7"
  by (simp_all add: Time_Weekday_def weekdayOfDay_def)

lemma weekday_same: "(a - w) mod 7 = 0 \<Longrightarrow> 0 \<le> a \<Longrightarrow> a < 7 \<Longrightarrow> 0 \<le> w \<Longrightarrow> w < 7 \<Longrightarrow> a = (w :: int)"
  by presburger

lemma weekday_before:
  assumes "((n + 4) mod 7 - w) mod 7 = int (Suc k)"
  shows "((n + 3) mod 7 - w) mod 7 = int k"
proof -
  have x: "(n + 4 - w) mod 7 = int k + 1" using assms by (simp add: mod_diff_left_eq)
  have "(n + 3 - w) mod 7 = ((n + 4 - w) mod 7 - 1) mod 7" by (simp add: mod_diff_left_eq algebra_simps)
  also have "\<dots> = int k" using pos_mod_bound [of 7 "n + 4 - w"] unfolding x by (simp add: mod_pos_pos_trivial)
  finally show ?thesis by (simp add: mod_diff_left_eq)
qed

text \<open>C14: Truncating a date to its week, in UTC, returns: the loop of \<open>DATE_TRUNC\<close> ends, within six steps, on
  the last day before or at the date that has the weekday the part names, at the same time of day.\<close>

theorem startOfWeek_ends:
  assumes "wfTime t" "tLoc t = UTC" "isInt64 (tSec t - 6 * 86400)" "0 \<le> w" "w < 7"
  shows "startOfWeekLoop w t = Some (t\<lparr>tSec := tSec t - 86400 * ((Time_Weekday t - w) mod 7)\<rparr>)"
proof -
  define k where "k = nat ((Time_Weekday t - w) mod 7)"
  have "startOfWeekLoop w u = Some (u\<lparr>tSec := tSec u - 86400 * int k\<rparr>)"
    if "wfTime u" "tLoc u = UTC" "isInt64 (tSec u - 86400 * int k)" "(Time_Weekday u - w) mod 7 = int k" for u
    using that
  proof (induction k arbitrary: u)
    case 0
    have "isInt64 (tSec u)" using "0.prems"(1) unfolding wfTime_def by (rule conjunct1)
    then have "Time_Weekday u = w" using weekday_same [OF "0.prems"(4) [simplified]] Weekday_range [of u] assms(4,5) by simp
    then show ?case by (simp add: startOfWeekLoop.simps)
  next
    case (Suc k)
    define u' where "u' = u\<lparr>tSec := tSec u + 86400 * (- 1)\<rparr>"
    have s: "isInt64 (tSec u)" using Suc.prems(1) unfolding wfTime_def by (rule conjunct1)
    have s': "isInt64 (tSec u + 86400 * (- 1))" using s Suc.prems(3) unfolding isInt64_def by auto
    have step: "AddDate 0 0 (- 1) u = u'" unfolding u'_def by (rule AddDate_days [OF Suc.prems(1,2) _ s']) simp
    have "tSec u' div 86400 = tSec u div 86400 - 1" by (simp add: u'_def)
    then have day: "Time_Weekday u' = (tSec u div 86400 + 3) mod 7"
      using Weekday_UTC [of u'] s' Suc.prems(2) by (simp add: u'_def add.commute)
    have "Time_Weekday u \<noteq> w" using Suc.prems(4) by auto
    then have "startOfWeekLoop w u = startOfWeekLoop w u'" by (simp add: startOfWeekLoop.simps [of w u] step)
    also have "\<dots> = Some (u'\<lparr>tSec := tSec u' - 86400 * int k\<rparr>)"
    proof (rule Suc.IH)
      show "wfTime u'" unfolding u'_def by (rule wfTime_moved [OF Suc.prems(1) s'])
      show "tLoc u' = UTC" using Suc.prems(2) by (simp add: u'_def)
      show "isInt64 (tSec u' - 86400 * int k)" using Suc.prems(3) by (simp add: u'_def algebra_simps)
      show "(Time_Weekday u' - w) mod 7 = int k"
        using weekday_before [OF Suc.prems(4) [unfolded Weekday_UTC [OF Suc.prems(2) s]]] unfolding day .
    qed
    finally show ?case by (simp add: u'_def algebra_simps)
  qed
  moreover have k: "int k = (Time_Weekday t - w) mod 7" by (simp add: k_def)
  moreover have "isInt64 (tSec t - 86400 * int k)"
  proof -
    have "0 \<le> int k" "int k \<le> 6"
      using k pos_mod_bound [of 7 "Time_Weekday t - w"] pos_mod_sign [of 7 "Time_Weekday t - w"] by linarith+
    then show ?thesis using assms(1,3) unfolding wfTime_def isInt64_def by auto
  qed
  ultimately show ?thesis using assms(1,2) by metis
qed

text \<open>The loop over the rest of the days counts each weekday at most once.\<close>

lemma countDays_length [simp]: "length (countDays s r cs) = length cs"
  by (induction r arbitrary: cs) (simp_all add: Let_def)

lemma smod_pos: "0 \<le> a \<Longrightarrow> 0 < b \<Longrightarrow> a smod b = a mod (b :: int)"
  by (cases "a = 0") (simp_all add: signed_modulo_int_def)

lemma weekday_index:
  assumes "0 \<le> s" "r \<le> 6" "i < 7"
  shows "nat ((s + int (Suc r)) smod 7) = i \<longleftrightarrow> (s + int (Suc r)) mod 7 = int i" "nat ((s + int (Suc r)) smod 7) < 7"
  using assms by (auto simp: smod_pos)

lemma countDays_other:
  assumes "0 \<le> s" "length cs = 7" "i < 7" "r \<le> 6" "\<And>j. 1 \<le> j \<Longrightarrow> j \<le> r \<Longrightarrow> (s + int j) mod 7 \<noteq> int i"
  shows "countDays s r cs ! i = cs ! i"
  using assms
proof (induction r arbitrary: cs)
  case (Suc r)
  have "nat ((s + int (Suc r)) smod 7) \<noteq> i" using weekday_index(1) [of s r i] Suc.prems(1-4) Suc.prems(5) [of "Suc r"] by simp
  then show ?case using Suc by (simp add: Let_def)
qed simp

lemma countDays_one:
  assumes "0 \<le> s" "length cs = 7" "i < 7" "r \<le> 6" "1 \<le> j" "j \<le> r" "(s + int j) mod 7 = int i"
  shows "countDays s r cs ! i = wrap64 (cs ! i + 1)"
  using assms
proof (induction r arbitrary: cs)
  case (Suc r)
  show ?case
  proof (cases "j = Suc r")
    case True
    have other: "(s + int j') mod 7 \<noteq> int i" if "1 \<le> j'" "j' \<le> r" for j'
    proof
      assume "(s + int j') mod 7 = int i"
      then have "(s + int j) mod 7 = (s + int j') mod 7" using Suc.prems(7) by simp
      then have "(int j - int j') mod 7 = 0" by (simp add: mod_eq_dvd_iff)
      then show False using that True Suc.prems(4) by (simp add: mod_pos_pos_trivial)
    qed
    have "nat ((s + int (Suc r)) smod 7) = i" using weekday_index(1) [of s r i] Suc.prems True by auto
    then show ?thesis using countDays_other [of s _ i r] other Suc.prems by (simp add: Let_def)
  next
    case False
    have "nat ((s + int (Suc r)) smod 7) \<noteq> i"
    proof
      assume "nat ((s + int (Suc r)) smod 7) = i"
      then have "(s + int (Suc r)) mod 7 = (s + int j) mod 7" using weekday_index(1) [of s r i] Suc.prems by auto
      then have "(int (Suc r) - int j) mod 7 = 0" by (simp add: mod_eq_dvd_iff)
      then show False using False Suc.prems(4-6) by (simp add: mod_pos_pos_trivial)
    qed
    then show ?thesis using Suc False by (simp add: Let_def)
  qed
qed simp

lemma div_carry: "(x + d) div 7 - x div 7 = d div 7 + (if 7 \<le> x mod 7 + d mod 7 then 1 else (0 :: int))"
  unfolding div_add1_eq [of x d]
  using pos_mod_bound [of 7 x] pos_mod_bound [of 7 d] pos_mod_sign [of 7 x] pos_mod_sign [of 7 d]
  by (cases "7 \<le> x mod 7 + d mod 7") (auto intro!: div_unique div_pos_pos_trivial)

lemma boundary_met:
  assumes "0 \<le> k" "k < 7" "0 \<le> r" "r < (7 :: int)"
  shows "(\<exists>j. 1 \<le> j \<and> j \<le> r \<and> ((n + 4) mod 7 + j) mod 7 = k) \<longleftrightarrow> 7 \<le> (n + 4 - k) mod 7 + r"
proof -
  define s where "s = (n + 4) mod 7"
  have s: "0 \<le> s" "s < 7" by (simp_all add: s_def)
  have "(n + 4 - k) mod 7 = (s - k) mod 7" by (simp add: s_def mod_diff_left_eq)
  then have carry: "(n + 4 - k) mod 7 = (if k \<le> s then s - k else s - k + 7)"
    using s assms(1,2) mod_pos_pos_trivial [of "s - k" 7] mod_pos_pos_trivial [of "s - k + 7" 7] by auto
  have hit: "(s + j) mod 7 = k \<longleftrightarrow> s + j = k \<or> s + j = k + 7" if "1 \<le> j" "j \<le> r" for j
  proof -
    have "s + j < 14" using s that assms(4) by linarith
    then show ?thesis
      using s that assms(1,2) mod_pos_pos_trivial [of "s + j" 7] mod_pos_pos_trivial [of "s + j - 7" 7] by (cases "s + j < 7") auto
  qed
  show ?thesis
  proof
    assume "\<exists>j. 1 \<le> j \<and> j \<le> r \<and> ((n + 4) mod 7 + j) mod 7 = k"
    then obtain j where "1 \<le> j" "j \<le> r" "s + j = k \<or> s + j = k + 7" using hit by (auto simp: s_def)
    then show "7 \<le> (n + 4 - k) mod 7 + r" unfolding carry using assms(4) s by auto
  next
    assume met: "7 \<le> (n + 4 - k) mod 7 + r"
    define j where "j = (if k \<le> s then k + 7 - s else k - s)"
    have "1 \<le> j" "j \<le> r" "s + j = k \<or> s + j = k + 7" using met s assms(1,2) unfolding carry j_def by (auto split: if_splits)
    then show "\<exists>j. 1 \<le> j \<and> j \<le> r \<and> ((n + 4) mod 7 + j) mod 7 = k" using hit [of j] by (auto simp: s_def)
  qed
qed

lemma countDays_boundaries:
  assumes "0 \<le> k" "k < 7" "0 \<le> days" "isInt64 days"
  shows "countDays ((n + 4) mod 7) (nat (days smod 7)) (replicate 7 (days sdiv 7)) ! nat k
    = (n + days + 4 - k) div 7 - (n + 4 - k) div 7"
proof -
  define r where "r = days mod 7"
  have r: "0 \<le> r" "r < 7" by (simp_all add: r_def)
  have day: "days smod 7 = r" "days sdiv 7 = days div 7" using assms(3) by (simp_all add: r_def smod_pos sdiv_pos)
  have v: "n + days + 4 - k = n + 4 - k + days" by simp
  have split: "(n + 4 - k + days) div 7 - (n + 4 - k) div 7 = days div 7 + (if 7 \<le> (n + 4 - k) mod 7 + r then 1 else 0)"
    unfolding r_def by (rule div_carry)
  show ?thesis
  proof (cases "7 \<le> (n + 4 - k) mod 7 + r")
    case True
    then obtain j where j: "1 \<le> j" "j \<le> r" "((n + 4) mod 7 + j) mod 7 = k" using boundary_met [OF assms(1,2) r] by auto
    then have "countDays ((n + 4) mod 7) (nat r) (replicate 7 (days div 7)) ! nat k = wrap64 (days div 7 + 1)"
      using countDays_one [of "(n + 4) mod 7" "replicate 7 (days div 7)" "nat k" "nat r" "nat j"] assms(1,2) r by simp
    moreover have "isInt64 (days div 7 + 1)" using assms(3,4) unfolding isInt64_def by auto
    ultimately show ?thesis using split True unfolding v by (simp add: day)
  next
    case False
    have "((n + 4) mod 7 + int j) mod 7 \<noteq> int (nat k)" if "1 \<le> j" "j \<le> nat r" for j
    proof
      assume "((n + 4) mod 7 + int j) mod 7 = int (nat k)"
      then have "\<exists>j. 1 \<le> j \<and> j \<le> r \<and> ((n + 4) mod 7 + j) mod 7 = k"
        using that assms(1) by (intro exI [of _ "int j"]) auto
      then show False using False boundary_met [OF assms(1,2) r] by blast
    qed
    then have "countDays ((n + 4) mod 7) (nat r) (replicate 7 (days div 7)) ! nat k = days div 7"
      using countDays_other [of "(n + 4) mod 7" "replicate 7 (days div 7)" "nat k" "nat r"] assms(1,2) r by simp
    then show ?thesis using split False unfolding v by (simp add: day)
  qed
qed

lemma fullWeeks_counts:
  "fold (\<lambda>(_, day) counts. counts[nat day := f]) WeekPartToOffset (replicate 7 0) = replicate 7 (f :: int)"
  by (simp add: WeekPartToOffset_def eval_nat_numeral)

lemma whole_days:
  assumes "s \<le> e" "isInt64 (e - s)" "s mod 86400 = e mod 86400"
  shows "wrap64 (e - s) sdiv 24 sdiv 60 sdiv 60 = e div 86400 - s div 86400" "isInt64 (e div 86400 - s div 86400)"
proof -
  have "e - s = 86400 * (e div 86400 - s div 86400)"
    using mult_div_mod_eq [of 86400 e] mult_div_mod_eq [of 86400 s] assms(3) unfolding right_diff_distrib by linarith
  then show "wrap64 (e - s) sdiv 24 sdiv 60 sdiv 60 = e div 86400 - s div 86400" "isInt64 (e div 86400 - s div 86400)"
    using assms(1,2) by (auto simp: sdiv_pos isInt64_def)
qed

text \<open>C13: \<open>DATE_DIFF\<close> by weeks counts the boundaries between the two days, for each first day of the week:
  the difference of the numbers of the weeks that hold them.\<close>

theorem weekDiff_boundaries:
  assumes "isInt64 (tSec a)" "isInt64 (tSec b)" "isInt64 (tSec a - tSec b)" "isInt64 (tSec b - tSec a)"
    and "tLoc a = UTC" "tLoc b = UTC" "tSec a mod 86400 = tSec b mod 86400" "0 \<le> k" "k < 7"
  shows "weekDiff a b k = (tSec a div 86400 + 4 - k) div 7 - (tSec b div 86400 + 4 - k) div 7"
proof -
  have forward: "countDays (Time_Weekday u) (nat (days smod 7)) (replicate 7 (days sdiv 7)) ! nat k
      = (tSec v div 86400 + 4 - k) div 7 - (tSec u div 86400 + 4 - k) div 7"
    if "days = tSec v div 86400 - tSec u div 86400" "0 \<le> days" "isInt64 days" "tLoc u = UTC" "isInt64 (tSec u)" for u v days
    using countDays_boundaries [OF assms(8,9) that(2,3), of "tSec u div 86400"] that(1)
    by (simp add: Weekday_UTC [OF that(4,5)])
  show ?thesis
  proof (cases "tSec b > tSec a")
    case True
    have le: "tSec a div 86400 \<le> tSec b div 86400" using True by (simp add: zdiv_mono1)
    have "weekDiff a b k = wrap64 (- ((tSec b div 86400 + 4 - k) div 7 - (tSec a div 86400 + 4 - k) div 7))"
      using forward [of "tSec b div 86400 - tSec a div 86400" b a] le whole_days [of "tSec a" "tSec b"] True assms
      by (simp add: weekDiff_def fullWeeks_counts Let_def Time_Unix_def)
    moreover have "isInt64 ((tSec a div 86400 + 4 - k) div 7 - (tSec b div 86400 + 4 - k) div 7)"
      using assms(1,2,8,9) unfolding isInt64_def by auto
    ultimately show ?thesis by simp
  next
    case False
    have le: "tSec b div 86400 \<le> tSec a div 86400" using False by (simp add: zdiv_mono1)
    then show ?thesis
      using forward [of "tSec a div 86400 - tSec b div 86400" a b] whole_days [of "tSec b" "tSec a"] False assms
      by (simp add: weekDiff_def fullWeeks_counts Let_def Time_Unix_def)
  qed
qed

section \<open>Dates from day numbers\<close>

lemma sdiv_cancel: "0 < k \<Longrightarrow> (a * k) sdiv k = (a :: int)"
  by (simp add: signed_divide_int_def abs_mult sgn_mult mult_sgn_abs)

lemma sdiv_small: "\<bar>a\<bar> < k \<Longrightarrow> a sdiv k = (0 :: int)"
  by (simp add: signed_divide_int_def)

text \<open>C16: \<open>DATE_FROM_UNIX_DATE\<close> gives the date of a day number, and \<open>UNIX_DATE\<close> gives the number back,
  exactly for the 106751 days before and after the epoch: the product with the nanoseconds of a day
  overflows for all others, which are the dates before 1677 and after 2262.\<close>

theorem unix_date_roundtrip:
  assumes "rtLocal R = UTC" "isInt64 n"
  shows "go_bind (DATE_FROM_UNIX_DATE R n) (\<lambda>v. case v of Some (DateValue t) \<Rightarrow> UNIX_DATE t | _ \<Rightarrow> panic [])
    = ok (Some (IntValue n)) \<longleftrightarrow> \<bar>n\<bar> \<le> 106751"
proof -
  define w where "w = wrap64 (wrap64 (n * 24) * Hour)"
  have w: "w = wrap64 (n * 86400000000000)" by (simp add: w_def Hour_def int64_simps algebra_simps)
  have range: "isInt64 w" by (simp add: w_def)
  have sec: "\<bar>w sdiv Second\<bar> \<le> 9223372037"
    using range unfolding signed_divide_int_def isInt64_def Second_def by (auto simp: abs_mult sgn_if)
  then have "isInt64 (w sdiv Second)" unfolding isInt64_def by auto
  then have eval: "go_bind (DATE_FROM_UNIX_DATE R n) (\<lambda>v. case v of Some (DateValue t) \<Rightarrow> UNIX_DATE t | _ \<Rightarrow> panic [])
      = ok (Some (IntValue ((w sdiv Second) sdiv 86400)))"
    by (simp add: DATE_FROM_UNIX_DATE_def UNIX_DATE_def time_Unix_def Time_Unix_def w_def [symmetric] assms(1))
      (simp add: Hour_def Second_def)
  have small: "\<bar>(w sdiv Second) sdiv 86400\<bar> \<le> 106751"
    using zdiv_mono1 [OF sec, of 86400] by (simp add: abs_sdiv)
  have "(w sdiv Second) sdiv 86400 = n" if "\<bar>n\<bar> \<le> 106751"
  proof -
    have "isInt64 (n * 86400000000000)" using that unfolding isInt64_def by auto
    then have "w = (n * 86400) * 10 ^ 9" by (simp add: w)
    then have "w sdiv Second = n * 86400" unfolding Second_def by (simp only: sdiv_cancel zero_less_power zero_less_numeral)
    then show ?thesis by (simp only: sdiv_cancel zero_less_numeral)
  qed
  then show ?thesis using small unfolding eval by auto
qed

section \<open>Normalising intervals\<close>

definition intervalSeconds :: "IntervalFields \<Rightarrow> int" where
  "intervalSeconds v = 60 * (60 * (24 * Days v + Hours v) + Minutes v) + Seconds v"

definition moderateInterval :: "IntervalFields \<Rightarrow> bool" where
  "moderateInterval v \<longleftrightarrow> \<bar>Days v\<bar> \<le> 10 ^ 9 \<and> \<bar>Hours v\<bar> \<le> 10 ^ 9 \<and> \<bar>Minutes v\<bar> \<le> 10 ^ 9 \<and> \<bar>Seconds v\<bar> \<le> 10 ^ 9"

lemma minutes_kept: "60 * (h + m sdiv 60) + m smod 60 = 60 * h + (m :: int)"
  using mult_sdiv_smod_eq [of 60 m] by (simp add: algebra_simps)

lemma hours_kept: "24 * (d + h sdiv 24) + h smod 24 = 24 * d + (h :: int)"
  using mult_sdiv_smod_eq [of 24 h] by (simp add: algebra_simps)

lemma carried_in: "\<bar>a\<bar> \<le> 105 * 10 ^ 7 \<Longrightarrow> \<bar>b\<bar> \<le> 105 * 10 ^ 7 \<Longrightarrow> 24 \<le> k \<Longrightarrow> isInt32 (a + b sdiv k)"
  using zdiv_mono2 [of "\<bar>b\<bar>" 24 k] abs_sdiv [of k b] unfolding isInt32_def by auto

lemma justifySeconds_parts:
  assumes "moderateInterval v"
  defines "m \<equiv> Minutes v + Seconds v sdiv 60"
  shows "Minutes (justifySeconds v) = m" "60 * m + Seconds (justifySeconds v) = 60 * Minutes v + Seconds v"
    "Hours (justifySeconds v) = Hours v" "Days (justifySeconds v) = Days v" "\<bar>m\<bar> \<le> 105 * 10 ^ 7"
proof -
  have small: "\<bar>Minutes v\<bar> \<le> 10 ^ 9" "\<bar>Seconds v\<bar> \<le> 10 ^ 9"
    using assms(1) unfolding moderateInterval_def by simp_all
  then have "isInt32 m" unfolding m_def by (intro carried_in) simp_all
  moreover have "Seconds v sdiv 60 = 0" if "\<not> Seconds v > 59" "\<not> Seconds v < - 59" using that by (intro sdiv_small) simp
  ultimately show "Minutes (justifySeconds v) = m" "60 * m + Seconds (justifySeconds v) = 60 * Minutes v + Seconds v"
    "Hours (justifySeconds v) = Hours v" "Days (justifySeconds v) = Days v"
    using minutes_kept [of "Minutes v" "Seconds v"] by (auto simp: justifySeconds_def m_def)
  show "\<bar>m\<bar> \<le> 105 * 10 ^ 7" using small zdiv_mono1 [OF small(2), of 60] abs_sdiv [of 60 "Seconds v"] by (simp add: m_def)
qed

lemma justifyMinutes_parts:
  assumes "\<bar>Hours v\<bar> \<le> 10 ^ 9" "\<bar>Minutes v\<bar> \<le> 105 * 10 ^ 7"
  shows "60 * Hours (justifyMinutes v) + Minutes (justifyMinutes v) = 60 * Hours v + Minutes v
      + 60 * (if Minutes v < - 59 then Hours v sdiv 60 - Minutes v sdiv 60 else 0)"
    "Seconds (justifyMinutes v) = Seconds v" "Days (justifyMinutes v) = Days v" "\<bar>Hours (justifyMinutes v)\<bar> \<le> 105 * 10 ^ 7"
proof -
  have "isInt32 (Hours v + Minutes v sdiv 60)" "isInt32 (Hours v + Hours v sdiv 60)"
    using assms by (intro carried_in; simp)+
  moreover have "\<bar>Minutes v sdiv 60\<bar> \<le> 2 * 10 ^ 7" "\<bar>Hours v sdiv 60\<bar> \<le> 2 * 10 ^ 7"
    using zdiv_mono1 [OF assms(1), of 60] zdiv_mono1 [OF assms(2), of 60] by (simp_all add: abs_sdiv)
  ultimately show "60 * Hours (justifyMinutes v) + Minutes (justifyMinutes v) = 60 * Hours v + Minutes v
      + 60 * (if Minutes v < - 59 then Hours v sdiv 60 - Minutes v sdiv 60 else 0)"
    "Seconds (justifyMinutes v) = Seconds v" "Days (justifyMinutes v) = Days v" "\<bar>Hours (justifyMinutes v)\<bar> \<le> 105 * 10 ^ 7"
    using minutes_kept [of "Hours v" "Minutes v"] assms(1) by (auto simp: justifyMinutes_def algebra_simps)
qed

lemma justifyHours_parts:
  assumes "\<bar>Days v\<bar> \<le> 10 ^ 9" "\<bar>Hours v\<bar> \<le> 105 * 10 ^ 7"
  shows "24 * Days (justifyHours v) + Hours (justifyHours v) = 24 * Days v + Hours v"
    "Minutes (justifyHours v) = Minutes v" "Seconds (justifyHours v) = Seconds v"
  using assms carried_in [of "Days v" "Hours v" 24] hours_kept [of "Days v" "Hours v"]
  by (auto simp: justifyHours_def)

text \<open>\<open>JUSTIFY_HOURS\<close> keeps the length of an interval unless the minutes, with the minutes in the seconds,
  are below minus 59: then it carries a sixtieth of the hours instead of the minutes.\<close>

theorem justify_hours_length:
  assumes "moderateInterval v"
  shows "intervalSeconds (JUSTIFY_HOURS v) = intervalSeconds v
    \<longleftrightarrow> (let m = Minutes v + Seconds v sdiv 60 in m < - 59 \<longrightarrow> Hours v sdiv 60 = m sdiv 60)"
proof -
  define m where "m = Minutes v + Seconds v sdiv 60"
  define v1 where "v1 = justifySeconds v"
  define v2 where "v2 = justifyMinutes v1"
  have small: "\<bar>Days v\<bar> \<le> 10 ^ 9" "\<bar>Hours v\<bar> \<le> 10 ^ 9" using assms unfolding moderateInterval_def by simp_all
  note v1 = justifySeconds_parts [OF assms, folded m_def v1_def]
  note v2 = justifyMinutes_parts [of v1, unfolded v1, OF small(2) v1(5), folded v2_def]
  note v3 = justifyHours_parts [of v2, unfolded v2, OF small(1) v2(4)]
  have "intervalSeconds (JUSTIFY_HOURS v) = intervalSeconds v
      + 3600 * (if m < - 59 then Hours v sdiv 60 - m sdiv 60 else 0)"
    using v1(2) v2(1) v3 unfolding JUSTIFY_HOURS_def v1_def [symmetric] v2_def [symmetric] intervalSeconds_def distrib_left by linarith
  then show ?thesis unfolding m_def [symmetric] by (simp add: Let_def)
qed

section \<open>The functions built on them\<close>

text \<open>The last day of the month, at the same time of day.\<close>

lemma last_day_of_month:
  assumes "plainTime t"
  shows "\<exists>u. LAST_DAY t ''MONTH'' = ok (Some (DateValue u))
    \<and> Time_Date u = (Time_Year t, Time_Month t, daysIn (isLeap (Time_Year t)) (Time_Month t))"
proof -
  have m: "1 \<le> Time_Month t" "Time_Month t \<le> 12" by (intro layout_ranges)+
  then have v: "validDate (Time_Year t, Time_Month t, daysIn (isLeap (Time_Year t)) (Time_Month t))"
    by (auto simp: validDate_def daysIn_def)
  have "\<bar>- Time_Day t\<bar> \<le> 1000000" using layout_ranges [of t] by linarith
  then have "Time_Date (AddDate 0 1 (- Time_Day t) t) = civilFromDays (monthDay (Time_Year t) (Time_Month t + 1) 0)"
    using AddDate_date [OF assms, of 1 "- Time_Day t", folded monthDay_carry] by simp
  also have "\<dots> = (Time_Year t, Time_Month t, daysIn (isLeap (Time_Year t)) (Time_Month t))"
    by (simp only: daysIn_next [OF m] civil_of_days [OF v])
  finally show ?thesis by (simp add: LAST_DAY_def Let_def)
qed

text \<open>Truncating to a second divides the seconds by the nanoseconds of a second, which leaves none: the
  result is that of truncating to a minute.\<close>

lemma second_lost: "Time_Second t sdiv Second = 0"
  using clock_ranges [of t] by (intro sdiv_small) (simp add: Second_def)

lemma trunc_second_is_minute: "TIME_TRUNC t ''SECOND'' = TIME_TRUNC t ''MINUTE''"
  by (simp add: TIME_TRUNC_def second_lost Let_def)

lemma trunc_timestamp_second_is_minute:
  "TIMESTAMP_TRUNC R t ''SECOND'' zone cache = TIMESTAMP_TRUNC R t ''MINUTE'' zone cache"
  by (simp add: TIMESTAMP_TRUNC_def truncTimestamp_def second_lost Let_def split: prod.split sum.split)

text \<open>A quarter is three months; how many of them is not looked at.\<close>

lemma quarter_adds_one: "DATE_ADD t n ''QUARTER'' = DATE_ADD t 3 ''MONTH''"
  by (simp add: DATE_ADD_def)

end
