(* ===== verification/Catalog_Spec.thy ===== *)
theory Catalog_Spec
  imports Value_Codec Transform_Merge Name_Path
begin

text \<open>
  The specs of the catalog, \<open>internal/spec.go\<close>: types, columns, tables and functions, the SQLite schema of
  a table and the text of a function call. The functions that build a spec from nodes of the analyzer
  are not here. What the library go-zetasql does with a type (array and struct types, the names
  of kinds) and the analyzer that a templated function calls are parameters. The pointers that the
  code tests or that a spec read from JSON may lack, the types and the body, are options.
\<close>

section \<open>Types\<close>

datatype SignatureArgumentKind =
  ArgTypeFixed | ArgTypeAny1 | ArgTypeAny2 | ArgArrayTypeAny1 | ArgTypeArbitrary | ArgTypeOther int

datatype (plugins only: code size) Type =
  Type (tyName: string) (tyKind: TypeKind) (tySignatureKind: SignatureArgumentKind)
    (tyElementType: "Type option") (tyFieldTypes: "(string \<times> Type option) list")

type_synonym NameWithType = "string \<times> Type option"

text \<open>The constructors of the library: an array of arrays, for example, is an error.\<close>

record TypeFactory =
  tfArray :: "ZType \<Rightarrow> ZType go"
  tfStruct :: "(string \<times> ZType) list \<Rightarrow> ZType go"
  tfKindString :: "TypeKind \<Rightarrow> string"

fun Type_ToZetaSQLType :: "TypeFactory \<Rightarrow> Type \<Rightarrow> ZType go" where
  "Type_ToZetaSQLType F (Type name kind sig elem fieldTypes) =
     (if kind = ARRAY then onNil elem (\<lambda>e. go_bind (Type_ToZetaSQLType F e) (tfArray F))
      else if kind = STRUCT then
        go_bind (goList (map (\<lambda>(name, t). onNil t (\<lambda>t. go_bind (Type_ToZetaSQLType F t) (\<lambda>z. ok (name, z)))) fieldTypes))
          (tfStruct F)
      else ok (SimpleType kind))"

text \<open>A templated argument has a kind, a fixed one a type and perhaps a name.\<close>

datatype FunctionArgumentType = Templated SignatureArgumentKind | FixedArgument ZType "string option"

definition Type_FunctionArgumentType :: "TypeFactory \<Rightarrow> Type \<Rightarrow> FunctionArgumentType go" where
  "Type_FunctionArgumentType F t =
     (if tySignatureKind t \<noteq> ArgTypeFixed then ok (Templated (tySignatureKind t))
      else go_bind (Type_ToZetaSQLType F t) (\<lambda>typ. ok (FixedArgument typ None)))"

definition NameWithType_FunctionArgumentType :: "TypeFactory \<Rightarrow> NameWithType \<Rightarrow> FunctionArgumentType go" where
  "NameWithType_FunctionArgumentType F arg = (case arg of (name, t) \<Rightarrow> onNil t (\<lambda>t.
     if tySignatureKind t \<noteq> ArgTypeFixed then ok (Templated (tySignatureKind t))
     else go_bind (Type_ToZetaSQLType F t) (\<lambda>typ. ok (FixedArgument typ (Some name)))))"

definition Type_IsArray :: "Type \<Rightarrow> bool" where
  "Type_IsArray t \<longleftrightarrow> tyKind t = ARRAY"

definition Type_IsStruct :: "Type \<Rightarrow> bool" where
  "Type_IsStruct t \<longleftrightarrow> tyKind t = STRUCT"

definition AvailableAutoIndex :: "Type \<Rightarrow> bool" where
  "AvailableAutoIndex t \<longleftrightarrow> tyKind t \<notin> {BYTES, JSON, ARRAY, STRUCT, GEOGRAPHY, PROTO, EXTENDED}"

datatype GoType = GoInt64 | GoBool | GoFloat64 | GoString | GoSlice GoType | GoMap

fun GoReflectType :: "Type \<Rightarrow> GoType go" where
  "GoReflectType (Type name kind sig elem fieldTypes) =
     (if kind \<in> {INT32, INT64, UINT32, UINT64} then ok GoInt64
      else if kind = BOOL then ok GoBool
      else if kind \<in> {FLOAT, DOUBLE} then ok GoFloat64
      else if kind \<in> {BYTES, STRING, NUMERIC, BIG_NUMERIC, DATE, DATETIME, TIME, TIMESTAMP, INTERVAL, JSON} then ok GoString
      else if kind = ARRAY then onNil elem (\<lambda>e. go_bind (GoReflectType e) (\<lambda>g. ok (GoSlice g)))
      else if kind = STRUCT then ok GoMap
      else fail_with (''cannot convert '' @ name @ '' to reflect.Type''))"

fun FormatType :: "TypeFactory \<Rightarrow> Type \<Rightarrow> string go" where
  "FormatType F (Type name kind sig elem fieldTypes) =
     (if kind = STRUCT then
        go_bind (goList (map (\<lambda>(name, t). onNil t (\<lambda>t. go_bind (FormatType F t)
            (\<lambda>s. ok ([CHR 0x60] @ name @ [CHR 0x60] @ '' '' @ s)))) fieldTypes))
          (\<lambda>formatTypes. ok (''STRUCT<'' @ joinStrings '','' formatTypes @ ''>''))
      else if kind = ARRAY then onNil elem (\<lambda>e. go_bind (FormatType F e) (\<lambda>s. ok (''ARRAY<'' @ s @ ''>'')))
      else ok (tfKindString F kind))"

section \<open>Columns and tables\<close>

definition quoted :: "string \<Rightarrow> string" where
  "quoted name = [CHR 0x60] @ name @ [CHR 0x60]"

record ColumnSpec =
  csName :: string
  csType :: "Type option"
  csIsNotNull :: bool

definition columnTypeName :: "TypeKind \<Rightarrow> string" where
  "columnTypeName kind = (case kind of
       INT32 \<Rightarrow> ''INT'' | INT64 \<Rightarrow> ''INT'' | UINT32 \<Rightarrow> ''INT'' | UINT64 \<Rightarrow> ''INT'' | ENUM \<Rightarrow> ''INT''
     | BOOL \<Rightarrow> ''BOOLEAN'' | FLOAT \<Rightarrow> ''FLOAT'' | BYTES \<Rightarrow> ''BLOB'' | DOUBLE \<Rightarrow> ''DOUBLE'' | JSON \<Rightarrow> ''JSON''
     | UNKNOWN \<Rightarrow> ''UNKNOWN'' | _ \<Rightarrow> ''TEXT'')"

definition ColumnSpec_SQLiteSchema :: "ColumnSpec \<Rightarrow> string go" where
  "ColumnSpec_SQLiteSchema s = onNil (csType s) (\<lambda>t.
     (let schema = quoted (csName s) @ '' '' @ columnTypeName (tyKind t)
      in ok (if csIsNotNull s then schema @ '' NOT NULL'' else schema)))"

datatype CreateMode = CreateDefaultMode | CreateOrReplaceMode | CreateIfNotExistsMode | CreateModeOther int

record TableSpec =
  tsIsTemp :: bool
  tsIsView :: bool
  tsNamePath :: "string list"
  tsColumns :: "ColumnSpec list"
  tsPrimaryKey :: "string list"
  tsCreateMode :: CreateMode
  tsQuery :: string
  tsUpdatedAt :: Time
  tsCreatedAt :: Time

definition TableSpec_Column :: "TableSpec \<Rightarrow> string \<Rightarrow> ColumnSpec option" where
  "TableSpec_Column s name = find (\<lambda>col. csName col = name) (tsColumns s)"

definition TableName :: "TableSpec \<Rightarrow> string" where
  "TableName s = formatPath (tsNamePath s)"

definition viewSQLiteSchema :: "TableSpec \<Rightarrow> string" where
  "viewSQLiteSchema s =
     (let stmt = (case tsCreateMode s of
            CreateDefaultMode \<Rightarrow> ''CREATE VIEW'' | CreateOrReplaceMode \<Rightarrow> ''CREATE VIEW''
          | CreateIfNotExistsMode \<Rightarrow> ''CREATE VIEW IF NOT EXISTS'' | CreateModeOther _ \<Rightarrow> [])
      in stmt @ '' '' @ quoted (TableName s) @ '' AS '' @ tsQuery s)"

definition TableSpec_SQLiteSchema :: "TableSpec \<Rightarrow> string go" where
  "TableSpec_SQLiteSchema s =
     (if tsIsView s then ok (viewSQLiteSchema s)
      else if tsQuery s \<noteq> [] then ok (''CREATE TABLE '' @ quoted (TableName s) @ '' AS '' @ tsQuery s)
      else go_bind (goList (map ColumnSpec_SQLiteSchema (tsColumns s))) (\<lambda>columns.
        (let primaryKeys = map (\<lambda>key. key @ '' COLLATE zetasqlite_collate'') (tsPrimaryKey s);
             columns = (if tsPrimaryKey s \<noteq> [] then columns @ [''PRIMARY KEY ('' @ joinStrings '','' primaryKeys @ '')''] else columns);
             clustering = (if tsPrimaryKey s \<noteq> [] then ''WITHOUT ROWID'' else []);
             stmt = (case tsCreateMode s of
               CreateDefaultMode \<Rightarrow> ''CREATE TABLE'' | CreateOrReplaceMode \<Rightarrow> ''CREATE TABLE''
             | CreateIfNotExistsMode \<Rightarrow> ''CREATE TABLE IF NOT EXISTS'' | CreateModeOther _ \<Rightarrow> [])
         in ok (stmt @ '' '' @ quoted (TableName s) @ '' ('' @ joinStrings '','' columns @ '') '' @ clustering))))"

section \<open>Functions\<close>

record FunctionSpec =
  fnIsTemp :: bool
  fnNamePath :: "string list"
  fnLanguage :: string
  fnArgs :: "NameWithType list"
  fnReturn :: "Type option"
  fnBody :: "SQLExpression option"
  fnCode :: string
  fnIsAggregate :: bool
  fnUpdatedAt :: Time
  fnCreatedAt :: Time

definition FuncName :: "FunctionSpec \<Rightarrow> string" where
  "FuncName s = formatPath (fnNamePath s)"

text \<open>The text of an expression; writing a nil pointer panics.\<close>

definition expressionText :: "SQLExpression \<Rightarrow> string go" where
  "expressionText e = onNil (SQLExpression_String e) ok"

text \<open>A templated function has no body: its call is analyzed with the types of the arguments at hand.\<close>

definition definedArguments :: "TypeFactory \<Rightarrow> NameWithType list \<Rightarrow> Type ArgumentInfo list \<Rightarrow> string list go" where
  "definedArguments F specArgs arguments =
     goList (map (\<lambda>(i, arg). go_bind (onNil (aiType arg) (FormatType F)) (\<lambda>typeName.
       if i < length specArgs then ok (fst (specArgs ! i) @ '' '' @ typeName) else panic ''index out of range''))
       (zip [0..<length arguments] arguments))"

definition runtimeDefinedFunc :: "FunctionSpec \<Rightarrow> string list \<Rightarrow> string" where
  "runtimeDefinedFunc s definedArgs =
     ''CREATE FUNCTION '' @ quoted (joinStrings ''.'' (fnNamePath s)) @ ''('' @ joinStrings '','' definedArgs @ '') as ('' @ fnCode s @ '')''"

definition substituteArg :: "SQLExpression list \<Rightarrow> SQLExpression go \<Rightarrow> nat \<times> NameWithType \<Rightarrow> SQLExpression go" where
  "substituteArg argValues body arg = (case arg of (i, name, _) \<Rightarrow>
     go_bind body (\<lambda>body.
     if i < length argValues then
       go_bind (expressionText body) (\<lambda>s. go_bind (expressionText (argValues ! i)) (\<lambda>v.
         ok (NewLiteralExpression (replaceAll (CHR ''@'' # name) v s))))
     else panic ''index out of range''))"

definition callBody ::
  "TypeFactory \<Rightarrow> (string \<Rightarrow> FunctionSpec go) \<Rightarrow> FunctionSpec \<Rightarrow> Type FunctionSignature option \<Rightarrow> SQLExpression go" where
  "callBody F analyze s signature = (case fnBody s of
       Some body \<Rightarrow> ok body
     | None \<Rightarrow> onNil signature (\<lambda>sig. go_bind (definedArguments F (fnArgs s) (fsArguments sig)) (\<lambda>definedArgs.
         go_bind (analyze (runtimeDefinedFunc s definedArgs)) (\<lambda>runtimeSpec. onNil (fnBody runtimeSpec) ok))))"

definition CallSQL ::
  "TypeFactory \<Rightarrow> (string \<Rightarrow> FunctionSpec go) \<Rightarrow> FunctionSpec \<Rightarrow> Type FunctionSignature option \<Rightarrow> SQLExpression list
    \<Rightarrow> SQLExpression go" where
  "CallSQL F analyze s signature argValues =
     go_bind (callBody F analyze s signature) (\<lambda>body.
     go_bind (foldl (substituteArg argValues) (ok body) (zip [0..<length (fnArgs s)] (fnArgs s))) (\<lambda>body.
     go_bind (expressionText body) (\<lambda>s. ok (NewLiteralExpression (''( '' @ s @ '' )'')))))"

end
