(* ===== verification/Catalog.thy ===== *)
theory Catalog
  imports Catalog_Spec
begin

text \<open>
  The catalog of tables and functions: \<open>internal/catalog.go\<close> and \<open>internal/wildcard_table.go\<close>. The catalog of
  the library go-zetasql, in which specs are registered under every suffix of their path, is the
  parameter \<open>SimpleCatalog\<close>: a registered sub catalog is changed through its pointer, which is \<open>scPutCatalog\<close>
  here. The connection to SQLite, JSON and the clock are parameters too. The two maps of the code are
  association lists; their iteration order is a parameter where the code ranges over one. An operation
  that fails has changed the catalog up to that point.
\<close>

section \<open>State\<close>

datatype (plugins only: code size) SimpleTable = SimpleTable (stName: string) (stColumns: "(string \<times> ZType) list")

datatype FunctionMode = ScalarMode | AggregateMode

datatype SimpleFunction =
  SimpleFunction (sfName: string) (sfMode: FunctionMode) (sfArguments: "FunctionArgumentType list")
    (sfResult: FunctionArgumentType)

record 'c SimpleCatalog =
  scNew :: "string \<Rightarrow> 'c"
  scCatalog :: "'c \<Rightarrow> string \<Rightarrow> 'c option"
  scPutCatalog :: "string \<Rightarrow> 'c \<Rightarrow> 'c \<Rightarrow> 'c"
  scAddTable :: "SimpleTable \<Rightarrow> 'c \<Rightarrow> 'c"
  scFindTable :: "'c \<Rightarrow> string list \<Rightarrow> SimpleTable option"
  scAddFunction :: "SimpleFunction \<Rightarrow> 'c \<Rightarrow> 'c"
  scFindFunction :: "'c \<Rightarrow> string list \<Rightarrow> SimpleFunction option"

record 'c Catalog =
  catTables :: "TableSpec list"
  catFunctions :: "FunctionSpec list"
  catCatalog :: 'c
  catTableMap :: "(string \<times> TableSpec) list"
  catFuncMap :: "(string \<times> FunctionSpec) list"
  catLastSyncedAt :: Time

definition catalogName :: string where
  "catalogName = ''zetasqlite''"

definition formatNamePath :: "string list \<Rightarrow> string" where
  "formatNamePath path = joinStrings ''_'' path"

definition trimmedLastPath :: "string list \<Rightarrow> string list" where
  "trimmedLastPath path = (if path = [] then path else butlast path)"

section \<open>Registering specs\<close>

definition createSimpleTable :: "TypeFactory \<Rightarrow> string \<Rightarrow> TableSpec \<Rightarrow> SimpleTable go" where
  "createSimpleTable F tableName spec =
     go_bind (goList (map (\<lambda>column. onNil (csType column) (\<lambda>t.
         go_bind (Type_ToZetaSQLType F t) (\<lambda>typ. ok (csName column, typ)))) (tsColumns spec)))
       (\<lambda>columns. ok (SimpleTable tableName columns))"

definition existsTable :: "'c SimpleCatalog \<Rightarrow> 'c \<Rightarrow> string \<Rightarrow> bool" where
  "existsTable S cat name \<longleftrightarrow> scFindTable S cat [name] \<noteq> None"

definition existsFunction :: "'c SimpleCatalog \<Rightarrow> 'c \<Rightarrow> string \<Rightarrow> bool" where
  "existsFunction S cat name \<longleftrightarrow> scFindFunction S cat [name] \<noteq> None"

definition copyTableSpec :: "TableSpec \<Rightarrow> string list \<Rightarrow> TableSpec" where
  "copyTableSpec spec path =
     \<lparr>tsIsTemp = False, tsIsView = False, tsNamePath = path, tsColumns = tsColumns spec, tsPrimaryKey = [],
      tsCreateMode = tsCreateMode spec, tsQuery = [], tsUpdatedAt = zeroTime, tsCreatedAt = zeroTime\<rparr>"

definition copyFunctionSpec :: "FunctionSpec \<Rightarrow> string list \<Rightarrow> FunctionSpec" where
  "copyFunctionSpec spec path =
     \<lparr>fnIsTemp = False, fnNamePath = path, fnLanguage = fnLanguage spec, fnArgs = fnArgs spec,
      fnReturn = fnReturn spec, fnBody = fnBody spec, fnCode = fnCode spec, fnIsAggregate = False,
      fnUpdatedAt = zeroTime, fnCreatedAt = zeroTime\<rparr>"

text \<open>A table is added unless there is one of its name.\<close>

definition addSimpleTable ::
  "TypeFactory \<Rightarrow> 'c SimpleCatalog \<Rightarrow> string \<Rightarrow> TableSpec \<Rightarrow> 'c \<Rightarrow> unit go \<times> 'c" where
  "addSimpleTable F S tableName spec cat =
     (if existsTable S cat tableName then (ok (), cat)
      else case createSimpleTable F tableName spec of
          Inl e \<Rightarrow> (Inl e, cat)
        | Inr table \<Rightarrow> (ok (), scAddTable S table cat))"

definition addSimpleFunction ::
  "TypeFactory \<Rightarrow> 'c SimpleCatalog \<Rightarrow> string \<Rightarrow> FunctionSpec \<Rightarrow> 'c \<Rightarrow> unit go \<times> 'c" where
  "addSimpleFunction F S funcName spec cat =
     (if existsFunction S cat funcName then (ok (), cat)
      else case go_bind (goList (map (NameWithType_FunctionArgumentType F) (fnArgs spec))) (\<lambda>argTypes.
            go_bind (onNil (fnReturn spec) (Type_FunctionArgumentType F)) (\<lambda>retType. ok (argTypes, retType))) of
          Inl e \<Rightarrow> (Inl e, cat)
        | Inr (argTypes, retType) \<Rightarrow>
            (ok (), scAddFunction S (SimpleFunction funcName
               (if fnIsAggregate spec then AggregateMode else ScalarMode) argTypes retType) cat))"

text \<open>
  The recursion over the path: the shorter path is added to the catalog itself and to the sub catalog
  of the first name. The sub catalog is registered before anything else happens to it.
\<close>

definition subCatalog :: "'c SimpleCatalog \<Rightarrow> string \<Rightarrow> 'c \<Rightarrow> 'c" where
  "subCatalog S name cat = (case scCatalog S cat name of Some sub \<Rightarrow> sub | None \<Rightarrow> scNew S name)"

definition registered :: "'c SimpleCatalog \<Rightarrow> string \<Rightarrow> 'c \<Rightarrow> 'c" where
  "registered S name cat = (case scCatalog S cat name of Some _ \<Rightarrow> cat | None \<Rightarrow> scPutCatalog S name (scNew S name) cat)"

definition inSubCatalog ::
  "'c SimpleCatalog \<Rightarrow> string \<Rightarrow> ('c \<Rightarrow> unit go \<times> 'c) \<Rightarrow> 'c \<Rightarrow> unit go \<times> 'c" where
  "inSubCatalog S name f cat = (case f (subCatalog S name cat) of (r, sub) \<Rightarrow> (r, scPutCatalog S name sub cat))"

definition thenDo :: "unit go \<times> 'c \<Rightarrow> ('c \<Rightarrow> unit go \<times> 'c) \<Rightarrow> unit go \<times> 'c" where
  "thenDo m f = (case m of (Inl e, cat) \<Rightarrow> (Inl e, cat) | (Inr _, cat) \<Rightarrow> f cat)"

definition wrapFirst :: "string \<Rightarrow> unit go \<times> 'c \<Rightarrow> unit go \<times> 'c" where
  "wrapFirst msg m = (case m of (r, cat) \<Rightarrow> (wrapGo msg r, cat))"

fun addTableSpecRecursive ::
  "TypeFactory \<Rightarrow> 'c SimpleCatalog \<Rightarrow> string list \<Rightarrow> TableSpec \<Rightarrow> 'c \<Rightarrow> unit go \<times> 'c" where
  "addTableSpecRecursive F S [] spec cat = (fail_with ''table name is not found'', cat)"
| "addTableSpecRecursive F S [tableName] spec cat = addSimpleTable F S tableName spec cat"
| "addTableSpecRecursive F S (p # q # path) spec cat =
     (let spec' = copyTableSpec spec (q # path) in
      thenDo (thenDo (addSimpleTable F S (joinStrings ''.'' (p # q # path)) spec (registered S p cat))
        (\<lambda>cat. wrapFirst ''failed to add table spec to root catalog'' (addTableSpecRecursive F S (q # path) spec' cat)))
        (\<lambda>cat. wrapFirst ''failed to add table spec to parent catalog''
          (inSubCatalog S p (addTableSpecRecursive F S (q # path) spec') cat)))"

fun addFunctionSpecRecursive ::
  "TypeFactory \<Rightarrow> 'c SimpleCatalog \<Rightarrow> string list \<Rightarrow> FunctionSpec \<Rightarrow> 'c \<Rightarrow> unit go \<times> 'c" where
  "addFunctionSpecRecursive F S [] spec cat = (fail_with ''function name is not found'', cat)"
| "addFunctionSpecRecursive F S [funcName] spec cat = addSimpleFunction F S funcName spec cat"
| "addFunctionSpecRecursive F S (p # q # path) spec cat =
     (let spec' = copyFunctionSpec spec (q # path) in
      thenDo (wrapFirst ''failed to add function spec to root catalog''
          (addFunctionSpecRecursive F S (q # path) spec' (registered S p cat)))
        (\<lambda>cat. wrapFirst ''failed to add function spec to parent catalog''
          (inSubCatalog S p (addFunctionSpecRecursive F S (q # path) spec') cat)))"

text \<open>A spec with a known name only replaces the entry of the map.\<close>

definition addTableSpec ::
  "TypeFactory \<Rightarrow> 'c SimpleCatalog \<Rightarrow> TableSpec \<Rightarrow> 'c Catalog \<Rightarrow> unit go \<times> 'c Catalog" where
  "addTableSpec F S spec c =
     (let tableName = TableName spec; c' = c\<lparr>catTableMap := mapSet tableName spec (catTableMap c)\<rparr> in
      if map_of (catTableMap c) tableName \<noteq> None then (ok (), c')
      else (case addTableSpecRecursive F S (tsNamePath spec) spec (catCatalog c) of
          (r, cat) \<Rightarrow> (r, c'\<lparr>catTables := catTables c @ [spec], catCatalog := cat\<rparr>)))"

definition addFunctionSpec ::
  "TypeFactory \<Rightarrow> 'c SimpleCatalog \<Rightarrow> FunctionSpec \<Rightarrow> 'c Catalog \<Rightarrow> unit go \<times> 'c Catalog" where
  "addFunctionSpec F S spec c =
     (let funcName = FuncName spec; c' = c\<lparr>catFuncMap := mapSet funcName spec (catFuncMap c)\<rparr> in
      if map_of (catFuncMap c) funcName \<noteq> None then (ok (), c')
      else (case addFunctionSpecRecursive F S (fnNamePath spec) spec (catCatalog c) of
          (r, cat) \<Rightarrow> (r, c'\<lparr>catFunctions := catFunctions c @ [spec], catCatalog := cat\<rparr>)))"

section \<open>Deleting specs\<close>

fun addAll :: "('s \<Rightarrow> 'c Catalog \<Rightarrow> unit go \<times> 'c Catalog) \<Rightarrow> 's list \<Rightarrow> 'c Catalog \<Rightarrow> unit go \<times> 'c Catalog" where
  "addAll add [] c = (ok (), c)"
| "addAll add (s # ss) c = thenDo (add s c) (addAll add ss)"

definition emptyCatalog :: "'c SimpleCatalog \<Rightarrow> Time \<Rightarrow> 'c Catalog" where
  "emptyCatalog S synced =
     \<lparr>catTables = [], catFunctions = [], catCatalog = scNew S catalogName, catTableMap = [], catFuncMap = [],
      catLastSyncedAt = synced\<rparr>"

definition resetCatalog ::
  "TypeFactory \<Rightarrow> 'c SimpleCatalog \<Rightarrow> TableSpec list \<Rightarrow> FunctionSpec list \<Rightarrow> 'c Catalog \<Rightarrow> unit go \<times> 'c Catalog" where
  "resetCatalog F S tables functions c =
     thenDo (addAll (addTableSpec F S) tables (emptyCatalog S (catLastSyncedAt c))) (addAll (addFunctionSpec F S) functions)"

definition deleteTableSpecByName ::
  "TypeFactory \<Rightarrow> 'c SimpleCatalog \<Rightarrow> string \<Rightarrow> 'c Catalog \<Rightarrow> unit go \<times> 'c Catalog" where
  "deleteTableSpecByName F S name c =
     (case map_of (catTableMap c) name of
        None \<Rightarrow> (fail_with (''failed to find table spec from map by '' @ name), c)
      | Some spec \<Rightarrow>
          resetCatalog F S (filter (\<lambda>table. formatNamePath (tsNamePath spec) \<noteq> formatNamePath (tsNamePath table)) (catTables c))
            (catFunctions c) c)"

definition deleteFunctionSpecByName ::
  "TypeFactory \<Rightarrow> 'c SimpleCatalog \<Rightarrow> string \<Rightarrow> 'c Catalog \<Rightarrow> unit go \<times> 'c Catalog" where
  "deleteFunctionSpecByName F S name c =
     (case map_of (catFuncMap c) name of
        None \<Rightarrow> (fail_with (''failed to find function spec from map by '' @ name), c)
      | Some spec \<Rightarrow>
          resetCatalog F S (catTables c)
            (filter (\<lambda>function. formatNamePath (fnNamePath spec) \<noteq> formatNamePath (fnNamePath function)) (catFunctions c)) c)"

section \<open>A new catalog\<close>

definition fixedArg :: "string \<Rightarrow> string \<Rightarrow> TypeKind \<Rightarrow> SignatureArgumentKind \<Rightarrow> NameWithType" where
  "fixedArg name tname kind sig = (name, Some (Type tname kind sig None []))"

definition builtinSpec :: "string \<Rightarrow> bool \<Rightarrow> NameWithType list \<Rightarrow> Type \<Rightarrow> FunctionSpec" where
  "builtinSpec name isAggregate args ret =
     \<lparr>fnIsTemp = False, fnNamePath = [name], fnLanguage = ''SQL'', fnArgs = args, fnReturn = Some ret, fnBody = None,
      fnCode = [], fnIsAggregate = isAggregate, fnUpdatedAt = zeroTime, fnCreatedAt = zeroTime\<rparr>"

text \<open>A field that the code leaves out is the zero value: the kind 0 is \<open>UNKNOWN\<close>.\<close>

definition MISSING_FUNCTIONS :: "FunctionSpec list" where
  "MISSING_FUNCTIONS =
     [builtinSpec ''contains_substr'' False
        [fixedArg ''expression'' ''expression'' STRING ArgTypeArbitrary,
         fixedArg ''search_value_literal'' ''search_value_literal'' STRING ArgTypeFixed]
        (Type ''BOOL'' BOOL ArgTypeFixed None []),
      builtinSpec ''array_slice'' False
        [fixedArg ''array_to_slice'' ''array_to_slice'' ARRAY ArgArrayTypeAny1,
         fixedArg ''start_offset'' ''start_offset'' INT64 ArgTypeFixed,
         fixedArg ''end_offset'' ''end_offset'' INT64 ArgTypeFixed]
        (Type [] ARRAY ArgArrayTypeAny1 None []),
      builtinSpec ''array_first'' False [fixedArg ''array'' ''array'' ARRAY ArgArrayTypeAny1]
        (Type [] UNKNOWN ArgTypeAny1 None []),
      builtinSpec ''array_last'' False [fixedArg ''array'' ''array'' ARRAY ArgArrayTypeAny1]
        (Type [] UNKNOWN ArgTypeAny1 None []),
      builtinSpec ''min_by'' True [fixedArg ''x'' ''x'' UNKNOWN ArgTypeAny1, fixedArg ''y'' ''y'' UNKNOWN ArgTypeAny2]
        (Type [] UNKNOWN ArgTypeAny1 None []),
      builtinSpec ''max_by'' True [fixedArg ''x'' ''x'' UNKNOWN ArgTypeAny1, fixedArg ''y'' ''y'' UNKNOWN ArgTypeAny2]
        (Type [] UNKNOWN ArgTypeAny1 None [])]"

definition NewCatalog :: "TypeFactory \<Rightarrow> 'c SimpleCatalog \<Rightarrow> 'c Catalog go" where
  "NewCatalog F S =
     (case addAll (addFunctionSpec F S) MISSING_FUNCTIONS (emptyCatalog S zeroTime) of
        (Inl e, _) \<Rightarrow> Inl e
      | (Inr _, c) \<Rightarrow> ok c)"

section \<open>Looking up functions\<close>

definition getFunctions :: "NamePath \<Rightarrow> 'c Catalog \<Rightarrow> FunctionSpec list" where
  "getFunctions namePath c =
     (if NamePath_empty namePath then catFunctions c
      else filter (\<lambda>fn. length (fnNamePath fn) = 1
          \<or> containsStr (formatNamePath (trimmedLastPath (fnNamePath fn))) (formatNamePath (np_path namePath)))
        (catFunctions c))"

section \<open>The copy in the database\<close>

text \<open>
  Specs that are not temporary are kept in a table of the database as JSON. The statements sent to
  the connection, the texts and the clock are parameters; a statement may fail and may have changed
  the state \<open>'d\<close> of the database.
\<close>

datatype CatalogSpecKind = TableSpecKind | ViewSpecKind | FunctionSpecKind | OtherSpecKind string

record 'd Conn =
  cnCreateTables :: "'d \<Rightarrow> unit go \<times> 'd"
  cnUpsert :: "string \<Rightarrow> CatalogSpecKind \<Rightarrow> string \<Rightarrow> 'd \<Rightarrow> unit go \<times> 'd"
  cnDelete :: "string \<Rightarrow> 'd \<Rightarrow> unit go \<times> 'd"
  cnUpdatedSince :: "Time \<Rightarrow> 'd \<Rightarrow> (string \<times> CatalogSpecKind \<times> string) list go"
  cnTableJson :: "TableSpec \<Rightarrow> string go"
  cnFunctionJson :: "FunctionSpec \<Rightarrow> string go"
  cnReadTable :: "string \<Rightarrow> TableSpec go"
  cnReadFunction :: "string \<Rightarrow> FunctionSpec go"

definition saveTableSpec :: "'d Conn \<Rightarrow> TableSpec \<Rightarrow> 'd \<Rightarrow> unit go \<times> 'd" where
  "saveTableSpec conn spec d =
     (case wrapGo ''failed to encode table spec'' (cnTableJson conn spec) of
        Inl e \<Rightarrow> (Inl e, d)
      | Inr encoded \<Rightarrow> wrapFirst ''failed to save a new table spec''
          (cnUpsert conn (TableName spec) (if tsIsView spec then ViewSpecKind else TableSpecKind) encoded d))"

definition saveFunctionSpec :: "'d Conn \<Rightarrow> FunctionSpec \<Rightarrow> 'd \<Rightarrow> unit go \<times> 'd" where
  "saveFunctionSpec conn spec d =
     (case wrapGo ''failed to encode function spec'' (cnFunctionJson conn spec) of
        Inl e \<Rightarrow> (Inl e, d)
      | Inr encoded \<Rightarrow> wrapFirst ''failed to save a new function spec''
          (cnUpsert conn (FuncName spec) FunctionSpecKind encoded d))"

definition onDatabase :: "('d \<Rightarrow> unit go \<times> 'd) \<Rightarrow> 'c \<times> 'd \<Rightarrow> unit go \<times> 'c \<times> 'd" where
  "onDatabase f cd = (case f (snd cd) of (r, d) \<Rightarrow> (r, fst cd, d))"

definition onCatalog :: "('c \<Rightarrow> unit go \<times> 'c) \<Rightarrow> 'c \<times> 'd \<Rightarrow> unit go \<times> 'c \<times> 'd" where
  "onCatalog f cd = (case f (fst cd) of (r, c) \<Rightarrow> (r, c, snd cd))"

definition AddNewTableSpec ::
  "TypeFactory \<Rightarrow> 'c SimpleCatalog \<Rightarrow> 'd Conn \<Rightarrow> TableSpec \<Rightarrow> 'c Catalog \<times> 'd \<Rightarrow> unit go \<times> 'c Catalog \<times> 'd" where
  "AddNewTableSpec F S conn spec cd =
     thenDo (onCatalog (addTableSpec F S spec) cd)
       (\<lambda>cd. if tsIsTemp spec then (ok (), cd) else onDatabase (saveTableSpec conn spec) cd)"

definition AddNewFunctionSpec ::
  "TypeFactory \<Rightarrow> 'c SimpleCatalog \<Rightarrow> 'd Conn \<Rightarrow> FunctionSpec \<Rightarrow> 'c Catalog \<times> 'd \<Rightarrow> unit go \<times> 'c Catalog \<times> 'd" where
  "AddNewFunctionSpec F S conn spec cd =
     thenDo (onCatalog (addFunctionSpec F S spec) cd)
       (\<lambda>cd. if fnIsTemp spec then (ok (), cd) else onDatabase (saveFunctionSpec conn spec) cd)"

definition DeleteTableSpec ::
  "TypeFactory \<Rightarrow> 'c SimpleCatalog \<Rightarrow> 'd Conn \<Rightarrow> string \<Rightarrow> 'c Catalog \<times> 'd \<Rightarrow> unit go \<times> 'c Catalog \<times> 'd" where
  "DeleteTableSpec F S conn name cd =
     thenDo (onCatalog (deleteTableSpecByName F S name) cd) (onDatabase (cnDelete conn name))"

definition DeleteFunctionSpec ::
  "TypeFactory \<Rightarrow> 'c SimpleCatalog \<Rightarrow> 'd Conn \<Rightarrow> string \<Rightarrow> 'c Catalog \<times> 'd \<Rightarrow> unit go \<times> 'c Catalog \<times> 'd" where
  "DeleteFunctionSpec F S conn name cd =
     thenDo (onCatalog (deleteFunctionSpecByName F S name) cd) (onDatabase (cnDelete conn name))"

definition loadTableSpec ::
  "TypeFactory \<Rightarrow> 'c SimpleCatalog \<Rightarrow> 'd Conn \<Rightarrow> string \<Rightarrow> 'c Catalog \<Rightarrow> unit go \<times> 'c Catalog" where
  "loadTableSpec F S conn spec c =
     (case wrapGo ''failed to decode table spec'' (cnReadTable conn spec) of
        Inl e \<Rightarrow> (Inl e, c)
      | Inr v \<Rightarrow> wrapFirst ''failed to add table spec to catalog'' (addTableSpec F S v c))"

definition loadFunctionSpec ::
  "TypeFactory \<Rightarrow> 'c SimpleCatalog \<Rightarrow> 'd Conn \<Rightarrow> string \<Rightarrow> 'c Catalog \<Rightarrow> unit go \<times> 'c Catalog" where
  "loadFunctionSpec F S conn spec c =
     (case wrapGo ''failed to decode function spec'' (cnReadFunction conn spec) of
        Inl e \<Rightarrow> (Inl e, c)
      | Inr v \<Rightarrow> wrapFirst ''failed to add function spec to catalog'' (addFunctionSpec F S v c))"

definition loadRow ::
  "TypeFactory \<Rightarrow> 'c SimpleCatalog \<Rightarrow> 'd Conn \<Rightarrow> string \<times> CatalogSpecKind \<times> string \<Rightarrow> 'c Catalog \<Rightarrow> unit go \<times> 'c Catalog" where
  "loadRow F S conn row c = (case row of (name, kind, spec) \<Rightarrow>
     (case kind of
        TableSpecKind \<Rightarrow> wrapFirst ''failed to load table spec'' (loadTableSpec F S conn spec c)
      | ViewSpecKind \<Rightarrow> wrapFirst ''failed to load table spec'' (loadTableSpec F S conn spec c)
      | FunctionSpecKind \<Rightarrow> wrapFirst ''failed to load function spec'' (loadFunctionSpec F S conn spec c)
      | OtherSpecKind k \<Rightarrow> (fail_with (''unknown catalog spec kind '' @ k), c)))"

text \<open>The rows changed since the last successful call are read; \<open>now\<close> is the clock before the query.\<close>

definition Sync ::
  "TypeFactory \<Rightarrow> 'c SimpleCatalog \<Rightarrow> 'd Conn \<Rightarrow> Time \<Rightarrow> 'c Catalog \<times> 'd \<Rightarrow> unit go \<times> 'c Catalog \<times> 'd" where
  "Sync F S conn now cd =
     thenDo (onDatabase (\<lambda>d. wrapFirst ''failed to create catalog tables'' (cnCreateTables conn d)) cd) (\<lambda>(c, d).
       case wrapGo ''failed to query load catalog'' (cnUpdatedSince conn (catLastSyncedAt c) d) of
         Inl e \<Rightarrow> (Inl e, c, d)
       | Inr rows \<Rightarrow>
           thenDo (onCatalog (addAll (loadRow F S conn) rows) (c, d)) (\<lambda>(c, d).
             (ok (), c\<lparr>catLastSyncedAt := now\<rparr>, d)))"

end
