(* ===== verification/Wildcard_Table.thy ===== *)
theory Wildcard_Table
  imports Catalog Ir_Types
begin

text \<open>
  Wildcard tables: \<open>internal/wildcard_table.go\<close>, and \<open>extractWildcardTableAsSetOp\<close> of
  \<open>internal/coordinator_extractor.go\<close>, which turns one into the union of its tables. The package \<open>regexp\<close>,
  the order in which the map of tables is visited, \<open>sort.Slice\<close>, which leaves the order of equals open,
  and the clock are parameters.
\<close>

definition tableSuffixColumnName :: string where
  "tableSuffixColumnName = ''_TABLE_SUFFIX''"

definition isWildcardTable :: "string list \<Rightarrow> bool" where
  "isWildcardTable path \<longleftrightarrow> path \<noteq> [] \<and> last path \<noteq> [] \<and> last (last path) = CHR ''*''"

record WildcardTable =
  wtSpec :: TableSpec
  wtTables :: "TableSpec list"
  wtPrefix :: string

record WildcardEnv =
  weCompile :: "string \<Rightarrow> (string \<Rightarrow> bool) go"
  weRange :: "(string \<times> TableSpec) list \<Rightarrow> (string \<times> TableSpec) list"
  weSort :: "(TableSpec \<Rightarrow> TableSpec \<Rightarrow> bool) \<Rightarrow> TableSpec list \<Rightarrow> TableSpec list"

definition existsColumn :: "TableSpec \<Rightarrow> string \<Rightarrow> bool" where
  "existsColumn table column \<longleftrightarrow> list_ex (\<lambda>col. csName col = column) (tsColumns table)"

definition WildcardTable_Name :: "WildcardTable \<Rightarrow> string" where
  "WildcardTable_Name t = joinStrings ''.'' (tsNamePath (wtSpec t))"

definition WildcardTable_FullName :: "WildcardTable \<Rightarrow> string" where
  "WildcardTable_FullName t = TableName (wtSpec t)"

definition WildcardTable_NumColumns :: "WildcardTable \<Rightarrow> nat" where
  "WildcardTable_NumColumns t = length (tsColumns (wtSpec t))"

text \<open>A column whose type the library refuses is nil.\<close>

definition columnOfSpec :: "TypeFactory \<Rightarrow> string \<Rightarrow> ColumnSpec \<Rightarrow> (string \<times> string \<times> ZType) option go" where
  "columnOfSpec F table col = onNil (csType col) (\<lambda>t.
     (case Type_ToZetaSQLType F t of
        Inr typ \<Rightarrow> ok (Some (table, csName col, typ))
      | Inl (GoErr _) \<Rightarrow> ok None
      | Inl (GoPanic m) \<Rightarrow> panic m))"

definition WildcardTable_Column :: "TypeFactory \<Rightarrow> WildcardTable \<Rightarrow> nat \<Rightarrow> (string \<times> string \<times> ZType) option go" where
  "WildcardTable_Column F t idx =
     (if idx < length (tsColumns (wtSpec t)) then columnOfSpec F (WildcardTable_Name t) (tsColumns (wtSpec t) ! idx)
      else panic ''index out of range'')"

definition WildcardTable_FindColumnByName :: "TypeFactory \<Rightarrow> WildcardTable \<Rightarrow> string \<Rightarrow> (string \<times> string \<times> ZType) option go" where
  "WildcardTable_FindColumnByName F t name =
     (case find (\<lambda>col. csName col = name) (tsColumns (wtSpec t)) of
        None \<Rightarrow> ok None
      | Some col \<Rightarrow> columnOfSpec F (TableName (wtSpec t)) col)"

definition newestFirst :: "TableSpec \<Rightarrow> TableSpec \<Rightarrow> bool" where
  "newestFirst a b \<longleftrightarrow> wrap64 (nanos (tsCreatedAt a)) > wrap64 (nanos (tsCreatedAt b))"

definition matchedSpecs :: "WildcardEnv \<Rightarrow> (string \<Rightarrow> bool) \<Rightarrow> (string \<times> TableSpec) list \<Rightarrow> TableSpec list" where
  "matchedSpecs W matches tableMap =
     weSort W newestFirst (map snd (filter (\<lambda>(name, spec). matches name) (weRange W tableMap)))"

text \<open>The last name of the newest table is cut to as many bytes as the path has names but one.\<close>

definition wildcardSpec :: "string list \<Rightarrow> int \<Rightarrow> TableSpec \<Rightarrow> TableSpec go" where
  "wildcardSpec path now spec =
     (if tsNamePath spec = [] then panic ''index out of range''
      else let lastNamePath = last (tsNamePath spec); n = length path - 1 in
        if length lastNamePath < n then panic ''slice bounds out of range''
        else ok (spec\<lparr>tsNamePath := butlast (tsNamePath spec) @ [take n lastNamePath @ ''_wildcard_'' @ sprintInt now],
          tsColumns := tsColumns spec @ [\<lparr>csName = tableSuffixColumnName,
            csType = Some (Type [] STRING ArgTypeFixed None []), csIsNotNull = False\<rparr>]\<rparr>))"

definition wildcardPrefix :: "string \<Rightarrow> string \<Rightarrow> string" where
  "wildcardPrefix firstIdentifier name =
     (if hasPrefix name (firstIdentifier @ ''.'') then name else firstIdentifier @ ''.'' @ name)"

definition createWildcardTable :: "WildcardEnv \<Rightarrow> string list \<Rightarrow> int \<Rightarrow> 'c Catalog \<Rightarrow> WildcardTable go" where
  "createWildcardTable W path now c =
     (let name = trimRightChar (CHR ''*'') (joinStrings ''_'' path) in
      go_bind (wrapGo (''failed to compile '' @ name) (weCompile W name)) (\<lambda>matches.
      case matchedSpecs W matches (catTableMap c) of
        [] \<Rightarrow> fail_with ''failed to find matched tables by wildcard''
      | spec # specs \<Rightarrow> go_bind (wildcardSpec path now spec) (\<lambda>wildcardTable.
          ok \<lparr>wtSpec = wildcardTable, wtTables = spec # specs, wtPrefix = wildcardPrefix (hd (tsNamePath spec)) name\<rparr>)))"

datatype FoundTable = FoundSimple SimpleTable | FoundWildcard WildcardTable

text \<open>\<open>None\<close>: the catalog of the library finds no table, with an error of its own.\<close>

definition FindTable :: "'c SimpleCatalog \<Rightarrow> WildcardEnv \<Rightarrow> string list \<Rightarrow> int \<Rightarrow> 'c Catalog \<Rightarrow> FoundTable option go" where
  "FindTable S W path now c =
     (if isWildcardTable path then go_bind (createWildcardTable W path now c) (\<lambda>t. ok (Some (FoundWildcard t)))
      else ok (map_option FoundSimple (scFindTable S (catCatalog c) path)))"

section \<open>The union of the tables\<close>

definition tableSuffix :: "WildcardTable \<Rightarrow> TableSpec \<Rightarrow> string" where
  "tableSuffix t tableSpec =
     (let fullName = TableName tableSpec in
      if length fullName > length (wtPrefix t) then drop (length (wtPrefix t)) fullName else [])"

text \<open>The identifiers of columns by name; the last column of a name wins, and 0 stands for a missing one.\<close>

definition columnIdsByName :: "ColumnData list \<Rightarrow> string \<Rightarrow> int" where
  "columnIdsByName columns name =
     (case find (\<lambda>col. cdaName col = name) (rev columns) of None \<Rightarrow> 0 | Some col \<Rightarrow> cdaID col)"

definition wildcardItem ::
  "TypeFactory \<Rightarrow> (string \<Rightarrow> 'v) \<Rightarrow> ColumnData list \<Rightarrow> WildcardTable \<Rightarrow> TableSpec \<Rightarrow> ColumnSpec
    \<Rightarrow> (ZType, 'v) ExpressionData SelectItemData go" where
  "wildcardItem F stringValue columns t tableSpec col =
     (if csName col = tableSuffixColumnName then
        ok (SelectItemData (ExpressionData ExpressionTypeLiteral None
              (Some (LiteralData (Some (stringValue (tableSuffix t tableSpec))) ''STRING'' None)) None None None None None None)
            tableSuffixColumnName)
      else if existsColumn tableSpec (csName col) then
        go_bind (wrapGo ''failed to extract zetasqlite type'' (onNil (csType col) (Type_ToZetaSQLType F))) (\<lambda>typ.
          ok (SelectItemData (ExpressionData ExpressionTypeColumn None None None None
                (Some (ColumnRefData None (Some typ) [] (csName col) (columnIdsByName columns (csName col)) (TableName tableSpec)))
                None None None)
              (csName col)))
      else ok (SelectItemData (ExpressionData ExpressionTypeLiteral None (Some (LiteralData None [] None)) None None None None None None)
            (csName col)))"

definition wildcardStatement ::
  "TypeFactory \<Rightarrow> (string \<Rightarrow> 'v) \<Rightarrow> ColumnData list \<Rightarrow> WildcardTable \<Rightarrow> TableSpec \<Rightarrow> (ZType, 'v) StatementData go" where
  "wildcardStatement F stringValue columns t tableSpec =
     go_bind (goList (map (wildcardItem F stringValue columns t tableSpec) (tsColumns (wtSpec t)))) (\<lambda>selectItems.
       let tableScanData = ScanData ScanTypeTable [] (Some (TableScanData (TableName tableSpec) [] [] selectItems))
             None None None None None None None None None None None None None None
       in ok (StatementData StatementTypeSelect (Some (SelectData selectItems (Some tableScanData) None [] None [] None None))
            None None None None None None))"

definition extractWildcardTableAsSetOp ::
  "TypeFactory \<Rightarrow> (string \<Rightarrow> 'v) \<Rightarrow> WildcardTable \<Rightarrow> ColumnData list \<Rightarrow> (ZType, 'v) ScanData go" where
  "extractWildcardTableAsSetOp F stringValue t columns =
     go_bind (goList (map (wildcardStatement F stringValue columns t) (wtTables t))) (\<lambda>items.
       ok (ScanData ScanTypeSetOp columns None None None None None None None
         (Some (SetOperationData ''UNION'' ''ALL'' items)) None None None None None None None))"

end
