(* ===== verification/Catalog_Props.thy ===== *)
theory Catalog_Props
  imports Wildcard_Table Func_Zone
begin

text \<open>
  What the catalog promises: the map of specs and the list of specs name the same tables, every
  operation keeps that, and a table is registered under every suffix of its path. Also where it falls
  short: names joined with underscores, specs that come back, and the names of wildcard tables.
\<close>

section \<open>The invariant of the maps\<close>

text \<open>
  A store of named things: a list in the order of registration and a map. The contract is stated for
  any such store, and both the tables and the functions of the catalog are one.
\<close>

locale spec_store =
  fixes specs :: "'m \<Rightarrow> 's list"
    and entries :: "'m \<Rightarrow> (string \<times> 's) list"
    and name_of :: "'s \<Rightarrow> string"
    and add :: "'s \<Rightarrow> 'm \<Rightarrow> 'm"
  assumes add_known: "map_of (entries m) (name_of s) \<noteq> None \<Longrightarrow> specs (add s m) = specs m"
    and add_new: "map_of (entries m) (name_of s) = None \<Longrightarrow> specs (add s m) = specs m @ [s]"
    and add_entries: "entries (add s m) = mapSet (name_of s) s (entries m)"
begin

definition consistent :: "'m \<Rightarrow> bool" where
  "consistent m \<longleftrightarrow> distinct (map name_of (specs m))
     \<and> (\<forall>n. map_of (entries m) n \<noteq> None \<longleftrightarrow> n \<in> name_of ` set (specs m))
     \<and> (\<forall>n s. map_of (entries m) n = Some s \<longrightarrow> name_of s = n)"

lemma consistent_names: "consistent m \<Longrightarrow> map_of (entries m) n \<noteq> None \<longleftrightarrow> n \<in> name_of ` set (specs m)"
  by (simp add: consistent_def)

lemma consistent_entry: "consistent m \<Longrightarrow> map_of (entries m) n = Some s \<Longrightarrow> name_of s = n"
  by (simp add: consistent_def)

lemma lookup_add: "map_of (entries (add s m)) n = (if n = name_of s then Some s else map_of (entries m) n)"
  by (simp add: add_entries)

lemma consistent_add:
  assumes "consistent m"
  shows "consistent (add s m)"
proof (cases "map_of (entries m) (name_of s) = None")
  case True
  then have "name_of s \<notin> name_of ` set (specs m)" using consistent_names [OF assms, of "name_of s"] by blast
  then show ?thesis using assms True by (auto simp: consistent_def add_new add_entries)
next
  case False
  then show ?thesis using assms by (auto simp: consistent_def add_known add_entries)
qed

lemma consistent_addAll: "consistent m \<Longrightarrow> consistent (fold add ss m)"
  by (induction ss arbitrary: m) (simp_all add: consistent_add)

text \<open>Adding specs of distinct new names in turn appends them and makes each the entry of its name.\<close>

lemma new_later:
  assumes "distinct (map name_of (s # ss))" "\<And>t. t \<in> set (s # ss) \<Longrightarrow> map_of (entries m) (name_of t) = None" "t \<in> set ss"
  shows "map_of (entries (add s m)) (name_of t) = None"
  using assms by (auto simp: lookup_add image_iff)

lemma specs_addAll:
  assumes "distinct (map name_of ss)" "\<And>s. s \<in> set ss \<Longrightarrow> map_of (entries m) (name_of s) = None"
  shows "specs (fold add ss m) = specs m @ ss"
  using assms
proof (induction ss arbitrary: m)
  case (Cons s ss)
  have "map_of (entries m) (name_of s) = None" using Cons.prems(2) by simp
  then show ?case using Cons.IH [of "add s m"] Cons.prems new_later [OF Cons.prems] by (simp add: add_new)
qed simp

lemma lookup_addAll:
  assumes "distinct (map name_of ss)"
  shows "map_of (entries (fold add ss m)) n
    = (case find (\<lambda>s. name_of s = n) ss of Some s \<Rightarrow> Some s | None \<Rightarrow> map_of (entries m) n)"
  using assms
proof (induction ss arbitrary: m)
  case (Cons s ss)
  have "find (\<lambda>t. name_of t = n) ss = None" if "n = name_of s"
    using Cons.prems that by (auto simp: find_None_iff image_iff)
  then show ?case using Cons by (auto simp: lookup_add split: option.split)
qed simp

end

text \<open>Adding a spec changes list and map in the same way whether its registration succeeds or not.\<close>

lemma tables_addTableSpec:
  "catTables (snd (addTableSpec F S s c)) = (if map_of (catTableMap c) (TableName s) = None then catTables c @ [s] else catTables c)"
  "catTableMap (snd (addTableSpec F S s c)) = mapSet (TableName s) s (catTableMap c)"
  "catFunctions (snd (addTableSpec F S s c)) = catFunctions c" "catFuncMap (snd (addTableSpec F S s c)) = catFuncMap c"
  by (auto simp: addTableSpec_def Let_def split: prod.split)

lemma functions_addFunctionSpec:
  "catFunctions (snd (addFunctionSpec F S s c)) = (if map_of (catFuncMap c) (FuncName s) = None then catFunctions c @ [s] else catFunctions c)"
  "catFuncMap (snd (addFunctionSpec F S s c)) = mapSet (FuncName s) s (catFuncMap c)"
  "catTables (snd (addFunctionSpec F S s c)) = catTables c" "catTableMap (snd (addFunctionSpec F S s c)) = catTableMap c"
  by (auto simp: addFunctionSpec_def Let_def split: prod.split)

interpretation tables: spec_store catTables catTableMap TableName "\<lambda>s c. snd (addTableSpec F S s c)"
  for F :: TypeFactory and S :: "'c SimpleCatalog"
  by unfold_locales (simp_all add: tables_addTableSpec)

interpretation routines: spec_store catFunctions catFuncMap FuncName "\<lambda>s c. snd (addFunctionSpec F S s c)"
  for F :: TypeFactory and S :: "'c SimpleCatalog"
  by unfold_locales (simp_all add: functions_addFunctionSpec)

definition catalogOk :: "'c Catalog \<Rightarrow> bool" where
  "catalogOk c \<longleftrightarrow> distinct (map TableName (catTables c))
     \<and> (\<forall>n. map_of (catTableMap c) n \<noteq> None \<longleftrightarrow> n \<in> TableName ` set (catTables c))
     \<and> (\<forall>n s. map_of (catTableMap c) n = Some s \<longrightarrow> TableName s = n)
     \<and> distinct (map FuncName (catFunctions c))
     \<and> (\<forall>n. map_of (catFuncMap c) n \<noteq> None \<longleftrightarrow> n \<in> FuncName ` set (catFunctions c))
     \<and> (\<forall>n s. map_of (catFuncMap c) n = Some s \<longrightarrow> FuncName s = n)"

lemma catalogOk_stores: "catalogOk c \<longleftrightarrow> tables.consistent c \<and> routines.consistent c"
  by (simp only: catalogOk_def tables.consistent_def routines.consistent_def conj_assoc)

lemma thenDo_ok: "fst (thenDo m f) = ok () \<longleftrightarrow> fst m = ok () \<and> fst (f (snd m)) = ok ()"
  by (auto simp: thenDo_def split: prod.split sum.split)

lemma thenDo_keeps: "P (snd m) \<Longrightarrow> (\<And>c. P c \<Longrightarrow> P (snd (f c))) \<Longrightarrow> P (snd (thenDo m f))"
  by (auto simp: thenDo_def split: prod.split sum.split)

lemma addAll_keeps:
  assumes "P c" "\<And>s c. P c \<Longrightarrow> P (snd (add s c))"
  shows "P (snd (addAll add ss c))"
  using assms(1)
proof (induction ss arbitrary: c)
  case (Cons s ss)
  have "P (snd (add s c))" using Cons.prems by (rule assms(2))
  then show ?case unfolding addAll.simps using Cons.IH by (rule thenDo_keeps)
qed simp

lemma addAll_ok: "fst (addAll add ss c) = ok () \<Longrightarrow> snd (addAll add ss c) = fold (\<lambda>s c. snd (add s c)) ss c"
  by (induction ss arbitrary: c) (auto simp: thenDo_def split: prod.splits sum.splits)

lemma catalogOk_addTableSpec: "catalogOk c \<Longrightarrow> catalogOk (snd (addTableSpec F S s c))"
  using tables.consistent_add [of c F S s]
  by (simp add: catalogOk_stores routines.consistent_def tables_addTableSpec)

lemma catalogOk_addFunctionSpec: "catalogOk c \<Longrightarrow> catalogOk (snd (addFunctionSpec F S s c))"
  using routines.consistent_add [of c F S s]
  by (simp add: catalogOk_stores tables.consistent_def functions_addFunctionSpec)

lemma catalogOk_empty: "catalogOk (emptyCatalog S t)"
  by (simp add: catalogOk_def emptyCatalog_def)

lemma catalogOk_resetCatalog: "catalogOk (snd (resetCatalog F S ts fs c))"
  unfolding resetCatalog_def
proof (rule thenDo_keeps)
  show "catalogOk (snd (addAll (addTableSpec F S) ts (emptyCatalog S (catLastSyncedAt c))))"
    by (rule addAll_keeps [where P = catalogOk, OF catalogOk_empty catalogOk_addTableSpec])
  show "catalogOk (snd (addAll (addFunctionSpec F S) fs c))" if "catalogOk c" for c
    by (rule addAll_keeps [where P = catalogOk, OF that catalogOk_addFunctionSpec])
qed

lemma snd_wrapFirst [simp]: "snd (wrapFirst msg m) = snd m"
  by (simp add: wrapFirst_def split: prod.split)

lemma catalogOk_loadRow: "catalogOk c \<Longrightarrow> catalogOk (snd (loadRow F S conn row c))"
  by (auto simp: loadRow_def loadTableSpec_def loadFunctionSpec_def
      catalogOk_addTableSpec catalogOk_addFunctionSpec split: prod.split sum.split CatalogSpecKind.split)

lemma onCatalog_parts [simp]:
  "fst (onCatalog f cd) = fst (f (fst cd))" "snd (onCatalog f cd) = (snd (f (fst cd)), snd cd)"
  by (simp_all add: onCatalog_def split_beta)

lemma onDatabase_keeps [simp]: "fst (snd (onDatabase f cd)) = fst cd"
  by (simp add: onDatabase_def split_beta)

text \<open>C17: Every operation of the catalog keeps its invariant, whether it succeeds or fails on the way: the
  list of tables and the map of tables have the same names, each once, and so have the functions.\<close>

theorem catalog_invariant:
  assumes "catalogOk (fst cd)"
  shows "catalogOk (fst (snd (AddNewTableSpec F S conn spec cd)))
    \<and> catalogOk (fst (snd (AddNewFunctionSpec F S conn fn cd)))
    \<and> catalogOk (fst (snd (DeleteTableSpec F S conn name cd)))
    \<and> catalogOk (fst (snd (DeleteFunctionSpec F S conn name cd)))
    \<and> catalogOk (fst (snd (Sync F S conn now cd)))"
proof (intro conjI)
  let ?ok = "\<lambda>cd. catalogOk (fst cd)"
  show "catalogOk (fst (snd (AddNewTableSpec F S conn spec cd)))"
    unfolding AddNewTableSpec_def
    by (rule thenDo_keeps [where P = ?ok]) (simp_all add: assms catalogOk_addTableSpec)
  show "catalogOk (fst (snd (AddNewFunctionSpec F S conn fn cd)))"
    unfolding AddNewFunctionSpec_def
    by (rule thenDo_keeps [where P = ?ok]) (simp_all add: assms catalogOk_addFunctionSpec)
  have "catalogOk (snd (deleteTableSpecByName F S name (fst cd)))"
    using assms by (auto simp: deleteTableSpecByName_def catalogOk_resetCatalog split: option.split)
  then show "catalogOk (fst (snd (DeleteTableSpec F S conn name cd)))"
    unfolding DeleteTableSpec_def by (intro thenDo_keeps [where P = ?ok]) simp_all
  have "catalogOk (snd (deleteFunctionSpecByName F S name (fst cd)))"
    using assms by (auto simp: deleteFunctionSpecByName_def catalogOk_resetCatalog split: option.split)
  then show "catalogOk (fst (snd (DeleteFunctionSpec F S conn name cd)))"
    unfolding DeleteFunctionSpec_def by (intro thenDo_keeps [where P = ?ok]) simp_all
  show "catalogOk (fst (snd (Sync F S conn now cd)))"
    unfolding Sync_def
  proof (rule thenDo_keeps [where P = ?ok])
    show "catalogOk (fst (snd (onDatabase (\<lambda>d. wrapFirst ''failed to create catalog tables'' (cnCreateTables conn d)) cd)))"
      using assms by simp
    have "catalogOk (c\<lparr>catLastSyncedAt := now\<rparr>)" if "catalogOk c" for c
      using that by (simp add: catalogOk_def)
    moreover have "catalogOk (snd (addAll (loadRow F S conn) rows c))" if "catalogOk c" for rows c
      by (rule addAll_keeps [where P = catalogOk, OF that catalogOk_loadRow])
    ultimately show "catalogOk (fst (snd ((\<lambda>(c, d).
         case wrapGo ''failed to query load catalog'' (cnUpdatedSince conn (catLastSyncedAt c) d) of
           Inl e \<Rightarrow> (Inl e, c, d)
         | Inr rows \<Rightarrow> thenDo (onCatalog (addAll (loadRow F S conn) rows) (c, d)) (\<lambda>(c, d).
               (ok (), c\<lparr>catLastSyncedAt := now\<rparr>, d))) cd)))" if "catalogOk (fst cd)" for cd
      using that by (cases cd) (auto simp: onCatalog_def thenDo_def split_beta split: sum.splits)
  qed
qed

section \<open>Deleting brings back old specs\<close>

lemma tableMap_addFunctions: "catTableMap (fold (\<lambda>s c. snd (addFunctionSpec F S s c)) fs c) = catTableMap c"
  by (induction fs arbitrary: c) (simp_all add: functions_addFunctionSpec)

lemma reset_tableMap:
  assumes "fst (resetCatalog F S ts fs c) = ok ()" "distinct (map TableName ts)"
  shows "map_of (catTableMap (snd (resetCatalog F S ts fs c))) n = find (\<lambda>s. TableName s = n) ts"
proof -
  let ?c = "addAll (addTableSpec F S) ts (emptyCatalog S (catLastSyncedAt c))"
  have ok: "fst ?c = ok ()" "fst (addAll (addFunctionSpec F S) fs (snd ?c)) = ok ()"
    using assms(1) unfolding resetCatalog_def thenDo_ok by simp_all
  have "snd (resetCatalog F S ts fs c) = snd (addAll (addFunctionSpec F S) fs (snd ?c))"
    using ok(1) unfolding resetCatalog_def thenDo_def by (simp add: split_beta)
  also have "catTableMap \<dots> = catTableMap (fold (\<lambda>s c. snd (addTableSpec F S s c)) ts (emptyCatalog S (catLastSyncedAt c)))"
    unfolding addAll_ok [OF ok(2)] tableMap_addFunctions by (simp only: addAll_ok [OF ok(1)])
  finally show ?thesis
    using tables.lookup_addAll [OF assms(2), where F = F and S = S and m = "emptyCatalog S (catLastSyncedAt c)" and n = n]
    by (simp add: emptyCatalog_def split: option.splits)
qed

lemma formatPath_NamePath: "formatNamePath path = formatPath path"
  by (simp add: formatNamePath_def formatPath_def)

lemma find_filter: "find P (filter Q xs) = find (\<lambda>x. Q x \<and> P x) xs"
  by (induction xs) auto

text \<open>C19: Deleting a table removes its name and keeps all others, but every other name is given the spec it
  was first registered with: the catalog is rebuilt from the list, which an update of a spec does
  not change.\<close>

theorem delete_restores_first_specs:
  assumes "catalogOk c" "map_of (catTableMap c) name = Some spec" "fst (deleteTableSpecByName F S name c) = ok ()"
  shows "map_of (catTableMap (snd (deleteTableSpecByName F S name c))) n
    = (if n = name then None else find (\<lambda>s. TableName s = n) (catTables c))"
proof -
  let ?ts = "filter (\<lambda>t. formatNamePath (tsNamePath spec) \<noteq> formatNamePath (tsNamePath t)) (catTables c)"
  have name: "formatNamePath (tsNamePath spec) = name"
    using assms(1,2) by (simp add: catalogOk_def formatPath_NamePath TableName_def)
  have ts: "?ts = filter (\<lambda>t. TableName t \<noteq> name) (catTables c)"
    unfolding name by (rule filter_cong) (auto simp: TableName_def formatPath_NamePath)
  have "distinct (map TableName ?ts)" using assms(1) by (simp add: ts catalogOk_def distinct_map_filter)
  moreover have "deleteTableSpecByName F S name c = resetCatalog F S ?ts (catFunctions c) c"
    using assms(2) by (simp add: deleteTableSpecByName_def)
  ultimately have "map_of (catTableMap (snd (deleteTableSpecByName F S name c))) n = find (\<lambda>s. TableName s = n) ?ts"
    using reset_tableMap [of F S ?ts "catFunctions c" c n] assms(3) by simp
  also have "\<dots> = (if n = name then None else find (\<lambda>s. TableName s = n) (catTables c))"
    unfolding ts find_filter
    by (auto simp: find_None_iff intro!: arg_cong [where f = "\<lambda>P. find P (catTables c)"] ext)
  finally show ?thesis .
qed

section \<open>Registration under every suffix\<close>

text \<open>
  What the code relies on of the library's catalog: a registered sub catalog or table is found again,
  and nothing else changes. Names that differ only in what \<open>key\<close> forgets, the case, are one name.
\<close>

definition catalogLaws :: "'c SimpleCatalog \<Rightarrow> (string \<Rightarrow> string) \<Rightarrow> bool" where
  "catalogLaws S key \<longleftrightarrow>
     (\<forall>c name sub n. scCatalog S (scPutCatalog S name sub c) n = (if key n = key name then Some sub else scCatalog S c n))
     \<and> (\<forall>c name sub path. scFindTable S (scPutCatalog S name sub c) path = scFindTable S c path)
     \<and> (\<forall>c t n. scFindTable S (scAddTable S t c) [n] = (if key n = key (stName t) then Some t else scFindTable S c [n]))
     \<and> (\<forall>c t n. scCatalog S (scAddTable S t c) n = scCatalog S c n)
     \<and> (\<forall>c m n. key m = key n \<longrightarrow> scCatalog S c m = scCatalog S c n)"

lemma catalogLawsD:
  assumes "catalogLaws S key"
  shows "scCatalog S (scPutCatalog S name sub c) n = (if key n = key name then Some sub else scCatalog S c n)"
    "scFindTable S (scPutCatalog S name sub c) path = scFindTable S c path"
    "scFindTable S (scAddTable S t c) [n] = (if key n = key (stName t) then Some t else scFindTable S c [n])"
    "scCatalog S (scAddTable S t c) n = scCatalog S c n"
    "key m = key n \<Longrightarrow> scCatalog S c m = scCatalog S c n"
  using assms unfolding catalogLaws_def by blast+

text \<open>Looking a table up through the sub catalogs.\<close>

fun findIn :: "'c SimpleCatalog \<Rightarrow> 'c \<Rightarrow> string list \<Rightarrow> SimpleTable option" where
  "findIn S c [] = None"
| "findIn S c [t] = scFindTable S c [t]"
| "findIn S c (p # q # path) = Option.bind (scCatalog S c p) (\<lambda>sub. findIn S sub (q # path))"

definition grows :: "'c SimpleCatalog \<Rightarrow> 'c \<Rightarrow> 'c \<Rightarrow> bool" where
  "grows S c d \<longleftrightarrow> (\<forall>path. findIn S c path \<noteq> None \<longrightarrow> findIn S d path \<noteq> None)"

lemma grows_refl [simp]: "grows S c c"
  by (simp add: grows_def)

lemma grows_trans: "grows S a b \<Longrightarrow> grows S b c \<Longrightarrow> grows S a c"
  by (simp add: grows_def)

lemma grows_single: "grows S c d \<Longrightarrow> existsTable S c n \<Longrightarrow> existsTable S d n"
  using findIn.simps(2) [of S] unfolding grows_def existsTable_def by metis

lemma findIn_cases:
  obtains "path = []" | t where "path = [t]" | p q ps where "path = p # q # ps"
  by (cases path; cases "tl path") auto

lemma grows_sub:
  assumes "catalogLaws S key" "grows S (subCatalog S p c) sub"
  shows "grows S c (scPutCatalog S p sub c)"
  unfolding grows_def
proof (intro allI impI)
  fix path
  assume found: "findIn S c path \<noteq> None"
  show "findIn S (scPutCatalog S p sub c) path \<noteq> None"
  proof (cases path rule: findIn_cases)
    case (3 a b path')
    then obtain old where old: "scCatalog S c a = Some old" "findIn S old (b # path') \<noteq> None"
      using found by (cases "scCatalog S c a") simp_all
    show ?thesis
    proof (cases "key a = key p")
      case True
      then have "scCatalog S c p = Some old" using catalogLawsD(5) [OF assms(1) True] old(1) by simp
      then have "findIn S sub (b # path') \<noteq> None" using assms(2) old(2) by (simp add: grows_def subCatalog_def)
      then show ?thesis using 3 True by (simp add: catalogLawsD(1) [OF assms(1)])
    next
      case False
      then show ?thesis using old 3 by (simp add: catalogLawsD(1) [OF assms(1)])
    qed
  qed (use found in \<open>simp_all add: catalogLawsD(2) [OF assms(1)]\<close>)
qed

lemma grows_addTable:
  assumes "catalogLaws S key"
  shows "grows S c (scAddTable S t c)"
  unfolding grows_def
proof (intro allI impI)
  fix path
  assume "findIn S c path \<noteq> None"
  then show "findIn S (scAddTable S t c) path \<noteq> None"
    by (cases path rule: findIn_cases) (simp_all add: catalogLawsD(3,4) [OF assms])
qed

lemma addSimpleTable_ok:
  assumes "catalogLaws S key" "addSimpleTable F S name spec c = (ok (), d)"
  shows "existsTable S d name" "grows S c d"
proof -
  consider "existsTable S c name" "d = c" | t where "createSimpleTable F name spec = ok t" "d = scAddTable S t c"
    using assms(2) by (auto simp: addSimpleTable_def split: if_splits sum.splits)
  then have "existsTable S d name \<and> grows S c d"
  proof cases
    case (2 t)
    then have "stName t = name" by (auto simp: createSimpleTable_def go_bind_Inr_iff)
    then show ?thesis
      using 2 grows_addTable [OF assms(1)] by (simp add: existsTable_def catalogLawsD(3) [OF assms(1)])
  qed simp
  then show "existsTable S d name" "grows S c d" by simp_all
qed

lemma registered_ok:
  assumes "catalogLaws S key"
  shows "grows S c (registered S p c)" "scCatalog S (registered S p c) p \<noteq> None"
    "subCatalog S p (registered S p c) = subCatalog S p c"
  using grows_sub [OF assms, of p c "subCatalog S p c"]
  by (auto simp: registered_def subCatalog_def catalogLawsD(1) [OF assms] split: option.splits)

lemma thenDo_split: "thenDo m f = (ok (), d) \<Longrightarrow> \<exists>c. m = (ok (), c) \<and> f c = (ok (), d)"
  by (cases m) (auto simp: thenDo_def split: sum.splits)

lemma wrapFirst_split: "wrapFirst msg m = (ok (), d) \<Longrightarrow> m = (ok (), d)"
  by (cases m) (auto simp: wrapFirst_def wrapGo_def split: sum.splits go_error.splits)

lemma inSubCatalog_split:
  "inSubCatalog S p f c = (ok (), d) \<Longrightarrow> \<exists>sub. f (subCatalog S p c) = (ok (), sub) \<and> d = scPutCatalog S p sub c"
  by (auto simp: inSubCatalog_def split: prod.splits)

definition foundUnder :: "'c SimpleCatalog \<Rightarrow> 'c \<Rightarrow> string list \<Rightarrow> bool" where
  "foundUnder S c path \<longleftrightarrow> existsTable S c (joinStrings ''.'' path) \<and> findIn S c path \<noteq> None"

lemma grows_found: "grows S c d \<Longrightarrow> foundUnder S c path \<Longrightarrow> foundUnder S d path"
  using grows_single by (auto simp: foundUnder_def grows_def)

lemma recursive_run:
  assumes "addTableSpecRecursive F S (p # q # path) spec c = (ok (), d)"
  obtains c1 c2 sub where
    "addSimpleTable F S (joinStrings ''.'' (p # q # path)) spec (registered S p c) = (ok (), c1)"
    "addTableSpecRecursive F S (q # path) (copyTableSpec spec (q # path)) c1 = (ok (), c2)"
    "addTableSpecRecursive F S (q # path) (copyTableSpec spec (q # path)) (subCatalog S p c2) = (ok (), sub)"
    "d = scPutCatalog S p sub c2"
  using assms unfolding addTableSpecRecursive.simps Let_def
  by (elim thenDo_split [THEN exE] conjE) (drule wrapFirst_split inSubCatalog_split | erule exE conjE | assumption)+

lemma registers_suffixes:
  assumes "catalogLaws S key" "addTableSpecRecursive F S path spec c = (ok (), d)"
  shows "grows S c d \<and> (\<forall>i < length path. foundUnder S d (drop i path))"
  using assms
proof (induction F S path spec c arbitrary: d rule: addTableSpecRecursive.induct)
  case (2 F S t spec c)
  then show ?case
    using addSimpleTable_ok [OF "2.prems"(1), of F t spec c d] by (auto simp: foundUnder_def existsTable_def)
next
  case (3 F S p q path spec c)
  let ?spec = "copyTableSpec spec (q # path)"
  obtain c1 c2 sub where run:
    "addSimpleTable F S (joinStrings ''.'' (p # q # path)) spec (registered S p c) = (ok (), c1)"
    "addTableSpecRecursive F S (q # path) ?spec c1 = (ok (), c2)"
    and sub: "addTableSpecRecursive F S (q # path) ?spec (subCatalog S p c2) = (ok (), sub)" "d = scPutCatalog S p sub c2"
    using "3.prems"(2) by (rule recursive_run)
  have root: "grows S c1 c2" "\<forall>i < length (q # path). foundUnder S c2 (drop i (q # path))"
    using "3.IH"(1) [OF refl "3.prems"(1) run(2)] by simp_all
  have parent: "grows S (subCatalog S p c2) sub" "foundUnder S sub (q # path)"
    using "3.IH"(2) [OF refl "3.prems"(1) sub(1)] by auto
  have step: "grows S c2 d" unfolding sub(2) by (rule grows_sub [OF "3.prems"(1) parent(1)])
  note added = addSimpleTable_ok [OF "3.prems"(1) run(1)]
  have "existsTable S d (joinStrings ''.'' (p # q # path))"
    by (rule grows_single [OF step grows_single [OF root(1) added(1)]])
  moreover have "findIn S d (p # q # path) \<noteq> None"
    using parent(2) by (simp add: sub(2) foundUnder_def catalogLawsD(1) [OF "3.prems"(1)])
  ultimately have "foundUnder S d (drop 0 (p # q # path))" unfolding foundUnder_def by simp
  moreover have "foundUnder S d (drop i (q # path))" if "i < length (q # path)" for i
    using root(2) that grows_found [OF step] by blast
  ultimately have "foundUnder S d (drop i (p # q # path))" if "i < length (p # q # path)" for i
    using that by (cases i) simp_all
  moreover have "grows S c d"
    by (rule grows_trans [OF grows_trans [OF registered_ok(1) [OF "3.prems"(1)] added(2)] grows_trans [OF root(1) step]])
  ultimately show ?case by blast
qed simp

text \<open>C18: A new table is found under every suffix of its path: in the catalog itself by the joined name, and
  through the sub catalogs name by name.\<close>

theorem table_under_every_suffix:
  assumes "catalogLaws S key" "map_of (catTableMap c) (TableName spec) = None"
    and "fst (addTableSpec F S spec c) = ok ()" "i < length (tsNamePath spec)"
  shows "existsTable S (catCatalog (snd (addTableSpec F S spec c))) (joinStrings ''.'' (drop i (tsNamePath spec)))
    \<and> findIn S (catCatalog (snd (addTableSpec F S spec c))) (drop i (tsNamePath spec)) \<noteq> None"
proof -
  let ?r = "addTableSpecRecursive F S (tsNamePath spec) spec (catCatalog c)"
  have new: "fst (addTableSpec F S spec c) = fst ?r" "catCatalog (snd (addTableSpec F S spec c)) = snd ?r"
    using assms(2) by (simp_all add: addTableSpec_def Let_def split_beta)
  have "?r = (ok (), snd ?r)" using assms(3) unfolding new by (cases ?r) simp
  from registers_suffixes [OF assms(1) this] show ?thesis using assms(4) unfolding new foundUnder_def by blast
qed

section \<open>Wildcard tables\<close>

text \<open>The suffix of a table under a wildcard is right when the pattern leaves out the first name of the
  path. When the pattern has it, the prefix has it twice and the suffix loses as many bytes again.\<close>

theorem wildcard_suffix:
  assumes "wtPrefix t = wildcardPrefix first base" "\<not> hasPrefix base (first @ ''.'')"
    and "TableName short = first @ ''_'' @ base @ suffix" "TableName full = base @ suffix"
  shows "tableSuffix t short = suffix \<and> tableSuffix t full = drop (length first + 1) suffix"
proof -
  have "length (wtPrefix t) = length first + 1 + length base"
    using assms(1,2) by (simp add: wildcardPrefix_def)
  then show ?thesis using assms(3,4) by (auto simp: tableSuffix_def Let_def)
qed

text \<open>Looking up a wildcard panics when the newest matching table has a last name shorter than the number
  of names before the last in the pattern, and only then if it matches anything; otherwise the name
  of the wildcard table keeps that many bytes of it.\<close>

theorem wildcard_name_panics:
  assumes "weCompile W (trimRightChar (CHR ''*'') (joinStrings ''_'' path)) = ok matches"
    and "matchedSpecs W matches (catTableMap c) = spec # specs" "tsNamePath spec \<noteq> []"
  shows "(\<exists>msg. createWildcardTable W path now c = panic msg) \<longleftrightarrow> length (last (tsNamePath spec)) < length path - 1"
  using assms by (auto simp: createWildcardTable_def wildcardSpec_def Let_def)

end
