(* ===== verification/Catalog_Demo.thy ===== *)
theory Catalog_Demo
  imports Catalog_Props
begin

text \<open>
  A catalog of the library for the witnesses, which shows that the laws of \<open>catalogLaws\<close> can hold, a
  connection that keeps names and texts, and the properties of the catalog at concrete specs.
\<close>

datatype (plugins only: code size) demoCat =
  DemoCat (dcTables: "(string \<times> SimpleTable) list") (dcFunctions: "(string \<times> SimpleFunction) list")
    (dcCatalogs: "(string \<times> demoCat) list")

definition demoCatalog :: "demoCat SimpleCatalog" where
  "demoCatalog =
     \<lparr>scNew = (\<lambda>_. DemoCat [] [] []), scCatalog = (\<lambda>c. map_of (dcCatalogs c)),
      scPutCatalog = (\<lambda>n sub c. DemoCat (dcTables c) (dcFunctions c) ((n, sub) # dcCatalogs c)),
      scAddTable = (\<lambda>t c. DemoCat ((stName t, t) # dcTables c) (dcFunctions c) (dcCatalogs c)),
      scFindTable = (\<lambda>c path. case path of [n] \<Rightarrow> map_of (dcTables c) n | _ \<Rightarrow> None),
      scAddFunction = (\<lambda>f c. DemoCat (dcTables c) ((sfName f, f) # dcFunctions c) (dcCatalogs c)),
      scFindFunction = (\<lambda>c path. case path of [n] \<Rightarrow> map_of (dcFunctions c) n | _ \<Rightarrow> None)\<rparr>"

lemma demo_catalogLaws: "catalogLaws demoCatalog id"
  by (simp add: catalogLaws_def demoCatalog_def split: list.split)

definition demoFactory :: TypeFactory where
  "demoFactory = \<lparr>tfArray = (\<lambda>t. ok (ArrayType t)), tfStruct = (\<lambda>fs. ok (StructType fs)), tfKindString = (\<lambda>k. [])\<rparr>"

definition demoTable :: "string list \<Rightarrow> string \<Rightarrow> TableSpec" where
  "demoTable path column =
     \<lparr>tsIsTemp = True, tsIsView = False, tsNamePath = path,
      tsColumns = [\<lparr>csName = column, csType = Some (Type [] INT64 ArgTypeFixed None []), csIsNotNull = False\<rparr>],
      tsPrimaryKey = [], tsCreateMode = CreateDefaultMode, tsQuery = [], tsUpdatedAt = zeroTime, tsCreatedAt = zeroTime\<rparr>"

definition demoConn :: "string list Conn" where
  "demoConn =
     \<lparr>cnCreateTables = (\<lambda>d. (ok (), d)), cnUpsert = (\<lambda>n _ _ d. (ok (), n # d)), cnDelete = (\<lambda>n d. (ok (), removeAll n d)),
      cnUpdatedSince = (\<lambda>_ _. ok []), cnTableJson = (\<lambda>s. ok (TableName s)), cnFunctionJson = (\<lambda>s. ok (FuncName s)),
      cnReadTable = (\<lambda>s. ok (demoTable [s] ''c'')), cnReadFunction = (\<lambda>s. fail_with ''function'')\<rparr>"

definition demoTwo :: "demoCat Catalog" where
  "demoTwo = snd (addAll (addTableSpec demoFactory demoCatalog)
     [demoTable [''d'', ''t''] ''old'', demoTable [''d'', ''u''] ''c'', demoTable [''d'', ''t''] ''new''] (emptyCatalog demoCatalog zeroTime))"

lemma demoTwo_ok: "catalogOk demoTwo"
  unfolding demoTwo_def by (rule addAll_keeps [where P = catalogOk, OF catalogOk_empty catalogOk_addTableSpec])

theorem catalog_invariant_witness:
  "catalogOk (fst (snd (AddNewTableSpec demoFactory demoCatalog demoConn (demoTable [''d'', ''v''] ''c'') (demoTwo, []))))"
  using catalog_invariant [of "(demoTwo, [])" demoFactory demoCatalog demoConn "demoTable [''d'', ''v''] ''c''"] demoTwo_ok
  by simp

theorem delete_restores_first_specs_witness:
  "map_option tsColumns (map_of (catTableMap demoTwo) ''d_t'') = Some (tsColumns (demoTable [''d'', ''t''] ''new''))
   \<and> map_option tsColumns (map_of (catTableMap (snd (deleteTableSpecByName demoFactory demoCatalog ''d_u'' demoTwo))) ''d_t'')
       = Some (tsColumns (demoTable [''d'', ''t''] ''old''))"
proof
  show "map_option tsColumns (map_of (catTableMap demoTwo) ''d_t'') = Some (tsColumns (demoTable [''d'', ''t''] ''new''))"
    by code_simp
  have u: "map_of (catTableMap demoTwo) ''d_u'' \<noteq> None" "is_ok (fst (deleteTableSpecByName demoFactory demoCatalog ''d_u'' demoTwo))"
    by code_simp+
  then obtain spec where spec: "map_of (catTableMap demoTwo) ''d_u'' = Some spec" by blast
  have deleted: "fst (deleteTableSpecByName demoFactory demoCatalog ''d_u'' demoTwo) = ok ()"
    using u(2) unfolding is_ok_iff by auto
  have "map_option tsColumns (find (\<lambda>s. TableName s = ''d_t'') (catTables demoTwo)) = Some (tsColumns (demoTable [''d'', ''t''] ''old''))"
    by code_simp
  then show "map_option tsColumns (map_of (catTableMap (snd (deleteTableSpecByName demoFactory demoCatalog ''d_u'' demoTwo))) ''d_t'')
      = Some (tsColumns (demoTable [''d'', ''t''] ''old''))"
    unfolding delete_restores_first_specs [OF demoTwo_ok spec deleted] by simp
qed

theorem table_under_every_suffix_witness:
  "existsTable demoCatalog (catCatalog (snd (addTableSpec demoFactory demoCatalog (demoTable [''p'', ''d'', ''t''] ''c'')
     (emptyCatalog demoCatalog zeroTime)))) ''d.t''"
proof -
  let ?s = "demoTable [''p'', ''d'', ''t''] ''c''" and ?c = "emptyCatalog demoCatalog zeroTime"
  have "is_ok (fst (addTableSpec demoFactory demoCatalog ?s ?c))" by code_simp
  then have "fst (addTableSpec demoFactory demoCatalog ?s ?c) = ok ()" unfolding is_ok_iff by auto
  from table_under_every_suffix [OF demo_catalogLaws _ this, of 1] show ?thesis
    by (simp add: emptyCatalog_def demoTable_def)
qed

definition demoWildcard :: WildcardTable where
  "demoWildcard = \<lparr>wtSpec = demoTable [''p'', ''t_1''] ''c'', wtTables = [], wtPrefix = ''p.p_t_''\<rparr>"

theorem wildcard_suffix_witness: "tableSuffix demoWildcard (demoTable [''p'', ''t_2024''] ''c'') = ''24''"
proof -
  have names: "TableName (demoTable [''p'', ''t_2024''] ''c'') = ''p_t_'' @ ''2024''"
    "TableName (demoTable [''p'', ''p'', ''t_2024''] ''c'') = ''p'' @ ''_'' @ ''p_t_'' @ ''2024''" by code_simp+
  have "wtPrefix demoWildcard = wildcardPrefix ''p'' ''p_t_''" "\<not> hasPrefix ''p_t_'' (''p'' @ ''.'')"
    by (simp_all add: demoWildcard_def wildcardPrefix_def)
  from wildcard_suffix [OF this names(2,1)] show ?thesis by simp
qed

definition demoWildcardEnv :: WildcardEnv where
  "demoWildcardEnv = \<lparr>weCompile = (\<lambda>p. ok (\<lambda>s. containsStr s p)), weRange = (\<lambda>m. m), weSort = (\<lambda>_ ts. ts)\<rparr>"

theorem wildcard_name_panics_witness:
  "\<exists>msg. createWildcardTable demoWildcardEnv [''p'', ''d'', ''*''] 0
     (snd (addTableSpec demoFactory demoCatalog (demoTable [''p'', ''d'', ''t''] ''c'') (emptyCatalog demoCatalog zeroTime))) = panic msg"
proof -
  let ?s = "demoTable [''p'', ''d'', ''t''] ''c''"
  let ?c = "snd (addTableSpec demoFactory demoCatalog ?s (emptyCatalog demoCatalog zeroTime))"
  have name: "trimRightChar (CHR ''*'') (joinStrings ''_'' [''p'', ''d'', ''*'']) = ''p_d_''" by code_simp
  have entry: "catTableMap ?c = [(''p_d_t'', ?s)]"
    by (simp add: tables_addTableSpec emptyCatalog_def mapSet_def TableName_def formatPath_def demoTable_def)
  have "weCompile demoWildcardEnv (trimRightChar (CHR ''*'') (joinStrings ''_'' [''p'', ''d'', ''*''])) = ok (\<lambda>s. containsStr s ''p_d_'')"
    unfolding name by (simp add: demoWildcardEnv_def)
  moreover have "matchedSpecs demoWildcardEnv (\<lambda>s. containsStr s ''p_d_'') (catTableMap ?c) = ?s # []"
    unfolding entry by (simp add: matchedSpecs_def demoWildcardEnv_def)
  ultimately show ?thesis
    by (subst wildcard_name_panics [where spec = ?s and specs = "[]"]) (simp_all add: demoTable_def)
qed

end
