(* ===== verification/Func_Aggregate.thy ===== *)
theory Func_Aggregate
  imports Value_Cast
begin

text \<open>
  Aggregate functions: \<open>internal/function_aggregate.go\<close> and \<open>internal/function_aggregate_option.go\<close>.
  Each struct of the code is the record of its accumulator, with a \<open>Step\<close> per row, which returns the new
  accumulator, and a \<open>Done\<close> for the result; a step that fails ends the query, so what it leaves behind
  is not modelled. A field of type \<open>sync.Once\<close> has no counterpart where the field it guards is an option.

  Parameters: JSON, the statistics of \<open>gonum\<close>, the sketches of \<open>go-hll\<close> with \<open>murmur3\<close>, \<open>sort.Slice\<close>, which may
  visit and order equal elements as it likes, and the order in which a map is visited. A comparison function
  given to the sort is told the element that is first at that moment, because the code reads it.
\<close>

section \<open>Loops over a state\<close>

fun goFold :: "('a \<Rightarrow> 's \<Rightarrow> 's go) \<Rightarrow> 'a list \<Rightarrow> 's \<Rightarrow> 's go" where
  "goFold f [] s = ok s"
| "goFold f (x # xs) s = go_bind (f x s) (goFold f xs)"

lemma goFold_append [simp]: "goFold f (xs @ ys) s = go_bind (goFold f xs s) (goFold f ys)"
  by (induction xs arbitrary: s) (simp_all add: go_bind_def split: sum.split)

lemma goFold_map: "goFold f (map h xs) = goFold (\<lambda>x. f (h x)) xs"
proof (induction xs)
  case (Cons x xs)
  show ?case by (rule ext) (simp add: Cons.IH)
qed (simp add: fun_eq_iff)

lemma goFold_ok: "(\<And>x s. x \<in> set xs \<Longrightarrow> f x s = ok (g x s)) \<Longrightarrow> goFold f xs s = ok (fold g xs s)"
  by (induction xs arbitrary: s) simp_all

section \<open>Options\<close>

record 'f AggregateHavingModifier =
  hmKind :: string
  hmValue :: "'f Value"

type_synonym 'f AggregateOrderBy = "'f Value option \<times> bool"

text \<open>A pointer to an \<open>AggregateOrderBy\<close> read from JSON may be nil.\<close>

record 'f AggregatorOption =
  aoDistinct :: bool
  aoIgnoreNulls :: bool
  aoLimit :: "int option"
  aoOrderBy :: "'f AggregateOrderBy option list"
  aoHavingModifier :: "'f AggregateHavingModifier option"

definition noOption :: "'f AggregatorOption" where
  "noOption = \<lparr>aoDistinct = False, aoIgnoreNulls = False, aoLimit = None, aoOrderBy = [], aoHavingModifier = None\<rparr>"

text \<open>The value of an option, as it is written to and read from JSON.\<close>

datatype (plugins only: code size) 'f OptionPayload =
    NoPayload
  | LimitPayload int
  | OrderByPayload "'f Value option" bool
  | ValuePayload "'f Value option"

text \<open>What \<open>json.Unmarshal\<close> reads from a text: the type, and the value as the struct of each case asks for it.\<close>

record 'f OptionJson =
  ojMarshal :: "string \<Rightarrow> 'f OptionPayload \<Rightarrow> string"
  ojType :: "string \<Rightarrow> string go"
  ojLimit :: "string \<Rightarrow> int go"
  ojOrderBy :: "string \<Rightarrow> ('f GoValue option \<times> bool) option go"
  ojValue :: "string \<Rightarrow> 'f GoValue option go"

definition AggregatorFuncOptionDistinct :: string where
  "AggregatorFuncOptionDistinct = ''aggregate_distinct''"
definition AggregatorFuncOptionLimit :: string where
  "AggregatorFuncOptionLimit = ''aggregate_limit''"
definition AggregatorFuncOptionOrderBy :: string where
  "AggregatorFuncOptionOrderBy = ''aggregate_order_by''"
definition AggregatorFuncOptionIgnoreNulls :: string where
  "AggregatorFuncOptionIgnoreNulls = ''aggregate_ignore_nulls''"
definition AggregatorFuncOptionHavingMax :: string where
  "AggregatorFuncOptionHavingMax = ''aggregate_having_max''"
definition AggregatorFuncOptionHavingMin :: string where
  "AggregatorFuncOptionHavingMin = ''aggregate_having_min''"

text \<open>A SQL call like \<open>zetasqlite_distinct()\<close> travels as the JSON of its option.\<close>

definition DISTINCT :: "'f OptionJson \<Rightarrow> 'f Value option go" where
  "DISTINCT J = ok (Some (StringValue (ojMarshal J AggregatorFuncOptionDistinct NoPayload)))"

definition LIMIT :: "'f OptionJson \<Rightarrow> int \<Rightarrow> 'f Value option go" where
  "LIMIT J limit = ok (Some (StringValue (ojMarshal J AggregatorFuncOptionLimit (LimitPayload limit))))"

definition IGNORE_NULLS :: "'f OptionJson \<Rightarrow> 'f Value option go" where
  "IGNORE_NULLS J = ok (Some (StringValue (ojMarshal J AggregatorFuncOptionIgnoreNulls NoPayload)))"

definition ORDER_BY :: "'f OptionJson \<Rightarrow> 'f Value option \<Rightarrow> bool \<Rightarrow> 'f Value option go" where
  "ORDER_BY J value isAsc =
     ok (Some (StringValue (ojMarshal J AggregatorFuncOptionOrderBy (OrderByPayload value isAsc))))"

definition HAVING_MAX :: "'f OptionJson \<Rightarrow> 'f Value option \<Rightarrow> 'f Value option go" where
  "HAVING_MAX J value = ok (Some (StringValue (ojMarshal J AggregatorFuncOptionHavingMax (ValuePayload value))))"

definition HAVING_MIN :: "'f OptionJson \<Rightarrow> 'f Value option \<Rightarrow> 'f Value option go" where
  "HAVING_MIN J value = ok (Some (StringValue (ojMarshal J AggregatorFuncOptionHavingMin (ValuePayload value))))"

definition AggregateOrderBy_UnmarshalJSON ::
  "'f Runtime \<Rightarrow> 'f GoValue option \<times> bool \<Rightarrow> 'f AggregateOrderBy go" where
  "AggregateOrderBy_UnmarshalJSON R v = go_bind (ValueFromGoValue R (fst v)) (\<lambda>value. ok (value, snd v))"

text \<open>An option read back: its type, and its value where the type asks for one.\<close>

datatype (plugins only: code size) 'f AggregatorFuncOption =
    DistinctOption | IgnoreNullsOption
  | LimitOption int
  | OrderByOption "'f AggregateOrderBy option"
  | HavingOption string "'f Value option"
  | OtherOption

definition AggregatorFuncOption_UnmarshalJSON ::
  "'f Runtime \<Rightarrow> 'f OptionJson \<Rightarrow> string \<Rightarrow> 'f AggregatorFuncOption go" where
  "AggregatorFuncOption_UnmarshalJSON R J b = go_bind (ojType J b) (\<lambda>typ.
     if typ = AggregatorFuncOptionDistinct then ok DistinctOption
     else if typ = AggregatorFuncOptionIgnoreNulls then ok IgnoreNullsOption
     else if typ = AggregatorFuncOptionLimit then go_bind (ojLimit J b) (\<lambda>value. ok (LimitOption value))
     else if typ = AggregatorFuncOptionOrderBy then
       go_bind (ojOrderBy J b) (\<lambda>value. case value of
           None \<Rightarrow> ok (OrderByOption None)
         | Some v \<Rightarrow> go_bind (AggregateOrderBy_UnmarshalJSON R v) (\<lambda>o'. ok (OrderByOption (Some o'))))
     else if typ = AggregatorFuncOptionHavingMax \<or> typ = AggregatorFuncOptionHavingMin then
       go_bind (ojValue J b) (\<lambda>value. go_bind (ValueFromGoValue R value) (\<lambda>havingValue.
         ok (HavingOption (if typ = AggregatorFuncOptionHavingMax then ''MAX'' else ''MIN'') havingValue)))
     else ok OtherOption)"

definition parseOption :: "'f Runtime \<Rightarrow> 'f OptionJson \<Rightarrow> 'f Value \<Rightarrow> 'f AggregatorFuncOption go" where
  "parseOption R J arg = (case Value_ToString R arg of
     Inr text' \<Rightarrow> (case AggregatorFuncOption_UnmarshalJSON R J text' of
         Inl (GoErr _) \<Rightarrow> ok OtherOption | r \<Rightarrow> r)
   | Inl (GoErr _) \<Rightarrow> ok OtherOption
   | Inl (GoPanic m) \<Rightarrow> panic m)"

text \<open>
  Every argument whose text is the JSON of an option is one. The value of a HAVING modifier that is NULL
  is a nil interface, on which the type assertion panics.
\<close>

definition parseArgument ::
  "'f Runtime \<Rightarrow> 'f OptionJson \<Rightarrow> 'f Value option \<Rightarrow> 'f Value option list \<times> 'f AggregatorOption
    \<Rightarrow> ('f Value option list \<times> 'f AggregatorOption) go" where
  "parseArgument R J arg s = (case s of (filteredArgs, opt) \<Rightarrow>
     (case arg of
        None \<Rightarrow> ok (filteredArgs @ [None], opt)
      | Some a \<Rightarrow> go_bind (parseOption R J a) (\<lambda>v. case v of
            DistinctOption \<Rightarrow> ok (filteredArgs, opt\<lparr>aoDistinct := True\<rparr>)
          | IgnoreNullsOption \<Rightarrow> ok (filteredArgs, opt\<lparr>aoIgnoreNulls := True\<rparr>)
          | LimitOption i64 \<Rightarrow> ok (filteredArgs, opt\<lparr>aoLimit := Some i64\<rparr>)
          | OrderByOption o' \<Rightarrow> ok (filteredArgs, opt\<lparr>aoOrderBy := aoOrderBy opt @ [o']\<rparr>)
          | HavingOption kind value \<Rightarrow> (case value of
                None \<Rightarrow> panic ''interface conversion: interface is nil, not internal.Value''
              | Some x \<Rightarrow> ok (filteredArgs, opt\<lparr>aoHavingModifier := Some \<lparr>hmKind = kind, hmValue = x\<rparr>\<rparr>))
          | OtherOption \<Rightarrow> ok (filteredArgs @ [Some a], opt))))"

definition parseAggregateOptions ::
  "'f Runtime \<Rightarrow> 'f OptionJson \<Rightarrow> 'f Value option list \<Rightarrow> ('f Value option list \<times> 'f AggregatorOption) go" where
  "parseAggregateOptions R J args = goFold (parseArgument R J) args ([], noOption)"

section \<open>Sorting and limiting collected values\<close>

record 'f OrderedValue =
  ovOrderBy :: "'f AggregateOrderBy option list"
  ovValue :: "'f Value option"

type_synonym 'a Sort = "('a \<Rightarrow> 'a \<Rightarrow> 'a \<Rightarrow> bool go) \<Rightarrow> 'a list \<Rightarrow> 'a list go"

definition indexPanic :: "'a go" where
  "indexPanic = panic ''index out of range''"

text \<open>The keys of the two values and, for their number and direction, those of the first.\<close>

fun orderedLess ::
  "'f Runtime \<Rightarrow> 'f AggregateOrderBy option list \<Rightarrow> 'f AggregateOrderBy option list
    \<Rightarrow> 'f AggregateOrderBy option list \<Rightarrow> bool go" where
  "orderedLess R [] is js = ok False"
| "orderedLess R (f # fs) (i # is) (j # js) =
     onNil i (\<lambda>(iV, _). onNil j (\<lambda>(jV, _). onNil f (\<lambda>(_, isAsc).
       case iV of None \<Rightarrow> ok isAsc | Some iv \<Rightarrow>
       (case jV of None \<Rightarrow> ok (\<not> isAsc) | Some jv \<Rightarrow>
         go_bind (safely False (Value_compare R EQ iv (Some jv))) (\<lambda>isEqual.
           if isEqual then orderedLess R fs is js
           else safely False (Value_compare R (if isAsc then LT else GT) iv (Some jv)))))))"
| "orderedLess R (f # fs) is js = indexPanic"

definition sortAggregatedValues ::
  "'f Runtime \<Rightarrow> 'f OrderedValue Sort \<Rightarrow> 'f OrderedValue list \<Rightarrow> 'f AggregatorOption option \<Rightarrow> 'f OrderedValue list go" where
  "sortAggregatedValues R sortSlice values opt =
     (if (case opt of Some o' \<Rightarrow> aoOrderBy o' = [] | None \<Rightarrow> False) then ok values
      else sortSlice (\<lambda>first a b. orderedLess R (ovOrderBy first) (ovOrderBy a) (ovOrderBy b)) values)"

definition limitValues :: "'f AggregatorOption option \<Rightarrow> 'a list \<Rightarrow> 'a list go" where
  "limitValues opt values = (case opt of None \<Rightarrow> ok values | Some o' \<Rightarrow>
     (case aoLimit o' of None \<Rightarrow> ok values | Some limit \<Rightarrow>
        (let minLen = min limit (int (length values)) in
         if minLen < 0 then panic ''slice bounds out of range'' else ok (take (nat minLen) values))))"

section \<open>What the accumulators take from libraries\<close>

type_synonym 'f Counted = "'f Value option \<times> 'f Value option"

record 'f AggEnv =
  aeSortOrdered :: "'f OrderedValue Sort"
  aeSortCounted :: "'f Counted Sort"
  aeRange :: "'f Counted list \<Rightarrow> 'f Counted list"
  aeSortValues :: "'f Value option Sort"
  aeFloor :: "'f \<Rightarrow> 'f"
  aeCeil :: "'f \<Rightarrow> 'f"
  aeSameTime :: "Time \<Rightarrow> Time \<Rightarrow> bool"
  aeCorrelation :: "'f list \<Rightarrow> 'f list \<Rightarrow> 'f"
  aeCovariance :: "'f list \<Rightarrow> 'f list \<Rightarrow> 'f"
  aePopStdDev :: "'f list \<Rightarrow> 'f"
  aeStdDev :: "'f list \<Rightarrow> 'f"
  aePopVariance :: "'f list \<Rightarrow> 'f"
  aeVariance :: "'f list \<Rightarrow> 'f"

text \<open>
  \<open>==\<close> on two values of the interface type. Values that are pointers are the same only if they are one
  object, and the two values here come from different rows; \<open>[]byte\<close> cannot be compared; and
  whether two times are equal structs depends on their pointers to a location (\<open>aeSameTime\<close>).
\<close>

primrec sameNonNil :: "'f Runtime \<Rightarrow> 'f AggEnv \<Rightarrow> 'f Value \<Rightarrow> 'f Value option \<Rightarrow> bool go" where
  "sameNonNil R E (IntValue a) w = (case w of Some (IntValue b) \<Rightarrow> ok (a = b) | _ \<Rightarrow> ok False)"
| "sameNonNil R E (StringValue a) w = (case w of Some (StringValue b) \<Rightarrow> ok (a = b) | _ \<Rightarrow> ok False)"
| "sameNonNil R E (BytesValue a) w = (case w of Some (BytesValue b) \<Rightarrow> panic ''comparing uncomparable type internal.BytesValue'' | _ \<Rightarrow> ok False)"
| "sameNonNil R E (FloatValue a) w = (case w of Some (FloatValue b) \<Rightarrow> ok (flEq R a b) | _ \<Rightarrow> ok False)"
| "sameNonNil R E (BoolValue a) w = (case w of Some (BoolValue b) \<Rightarrow> ok (a = b) | _ \<Rightarrow> ok False)"
| "sameNonNil R E (JsonValue a) w = (case w of Some (JsonValue b) \<Rightarrow> ok (a = b) | _ \<Rightarrow> ok False)"
| "sameNonNil R E (DateValue a) w = (case w of Some (DateValue b) \<Rightarrow> ok (aeSameTime E a b) | _ \<Rightarrow> ok False)"
| "sameNonNil R E (DatetimeValue a) w = (case w of Some (DatetimeValue b) \<Rightarrow> ok (aeSameTime E a b) | _ \<Rightarrow> ok False)"
| "sameNonNil R E (TimeValue a) w = (case w of Some (TimeValue b) \<Rightarrow> ok (aeSameTime E a b) | _ \<Rightarrow> ok False)"
| "sameNonNil R E (TimestampValue a) w = (case w of Some (TimestampValue b) \<Rightarrow> ok (aeSameTime E a b) | _ \<Rightarrow> ok False)"
| "sameNonNil R E (NumericValue rat isBig) w = ok False"
| "sameNonNil R E (ArrayValue av) w = ok False"
| "sameNonNil R E (StructValue ks vs m) w = ok False"
| "sameNonNil R E (IntervalValue iv) w = ok False"
| "sameNonNil R E (SafeValue sv) w = ok False"

definition sameValue :: "'f Runtime \<Rightarrow> 'f AggEnv \<Rightarrow> 'f Value option \<Rightarrow> 'f Value option \<Rightarrow> bool go" where
  "sameValue R E v w = (case v of None \<Rightarrow> ok (case w of None \<Rightarrow> True | Some _ \<Rightarrow> False) | Some x \<Rightarrow> sameNonNil R E x w)"

text \<open>A method of a nil value panics.\<close>

definition onValue :: "'f Value option \<Rightarrow> 's go \<Rightarrow> ('f Value \<Rightarrow> 's go) \<Rightarrow> 's go" where
  "onValue v none f = (case v of None \<Rightarrow> none | Some x \<Rightarrow> f x)"

lemma onValue_simps [simp]: "onValue None s f = s" "onValue (Some x) s f = f x"
  by (simp_all add: onValue_def)

section \<open>Collecting values\<close>

definition ARRAY_Step :: "'f Value option \<Rightarrow> 'f AggregatorOption \<Rightarrow> 'f array \<Rightarrow> 'f array go" where
  "ARRAY_Step v opt values = ok (values @ [v])"

definition ARRAY_Done :: "'f array \<Rightarrow> 'f Value option go" where
  "ARRAY_Done values = ok (Some (ArrayValue values))"

record 'f Collected =
  clOpt :: "'f AggregatorOption option"
  clValues :: "'f OrderedValue list"

definition noneCollected :: "'f Collected" where
  "noneCollected = \<lparr>clOpt = None, clValues = []\<rparr>"

definition onceSet :: "'a option \<Rightarrow> 'a \<Rightarrow> 'a option" where
  "onceSet p x = (case p of None \<Rightarrow> Some x | Some y \<Rightarrow> Some y)"

definition collect :: "'f array \<Rightarrow> 'f AggregatorOption \<Rightarrow> 'f Collected \<Rightarrow> 'f Collected" where
  "collect vs opt f =
     f\<lparr>clOpt := onceSet (clOpt f) opt,
       clValues := clValues f @ map (\<lambda>v. \<lparr>ovOrderBy = aoOrderBy opt, ovValue = v\<rparr>) vs\<rparr>"

text \<open>The values in order, as many as the option of the first row allows.\<close>

definition collectedValues :: "'f Runtime \<Rightarrow> 'f AggEnv \<Rightarrow> 'f Collected \<Rightarrow> 'f array go" where
  "collectedValues R E f =
     go_bind (sortAggregatedValues R (aeSortOrdered E) (clValues f) (clOpt f)) (\<lambda>values.
     go_bind (limitValues (clOpt f) values) (\<lambda>values. ok (map ovValue values)))"

definition ARRAY_AGG_Step :: "'f Value option \<Rightarrow> 'f AggregatorOption \<Rightarrow> 'f Collected \<Rightarrow> 'f Collected go" where
  "ARRAY_AGG_Step v opt f =
     onValue v (fail_with ''ARRAY_AGG: input value must be not null'') (\<lambda>x. ok (collect [Some x] opt f))"

definition ARRAY_AGG_Done :: "'f Runtime \<Rightarrow> 'f AggEnv \<Rightarrow> 'f Collected \<Rightarrow> 'f Value option go" where
  "ARRAY_AGG_Done R E f = go_bind (collectedValues R E f) (\<lambda>values. ok (Some (ArrayValue values)))"

definition ARRAY_CONCAT_AGG_Step :: "'f array option \<Rightarrow> 'f AggregatorOption \<Rightarrow> 'f Collected \<Rightarrow> 'f Collected go" where
  "ARRAY_CONCAT_AGG_Step v opt f = (case v of
     None \<Rightarrow> fail_with ''ARRAY_CONCAT_AGG: NULL value unsupported''
   | Some values \<Rightarrow> ok (collect values opt f))"

definition ARRAY_CONCAT_AGG_Done :: "'f Runtime \<Rightarrow> 'f AggEnv \<Rightarrow> 'f Collected \<Rightarrow> 'f Value option go" where
  "ARRAY_CONCAT_AGG_Done R E f = go_bind (collectedValues R E f) (\<lambda>values. ok (Some (ArrayValue values)))"

record 'f StringAgg =
  saOnce :: "(string \<times> 'f AggregatorOption) option"
  saValues :: "'f OrderedValue list"

definition STRING_AGG_Step ::
  "'f Value option \<Rightarrow> string \<Rightarrow> 'f AggregatorOption \<Rightarrow> 'f StringAgg \<Rightarrow> 'f StringAgg go" where
  "STRING_AGG_Step v delim opt f = onValue v (ok f) (\<lambda>x.
     ok (f\<lparr>saOnce := onceSet (saOnce f) (if delim = [] then '','' else delim, opt),
           saValues := saValues f @ [\<lparr>ovOrderBy = aoOrderBy opt, ovValue = Some x\<rparr>]\<rparr>))"

definition STRING_AGG_Done :: "'f Runtime \<Rightarrow> 'f AggEnv \<Rightarrow> 'f StringAgg \<Rightarrow> 'f Value option go" where
  "STRING_AGG_Done R E f =
     (let opt = map_option snd (saOnce f); delim = (case saOnce f of None \<Rightarrow> [] | Some (d, _) \<Rightarrow> d) in
      go_bind (sortAggregatedValues R (aeSortOrdered E) (saValues f) opt) (\<lambda>values.
      go_bind (limitValues opt values) (\<lambda>values.
      go_bind (goList (map (\<lambda>v. onNil (ovValue v) (Value_ToString R)) values)) (\<lambda>texts.
      ok (if texts = [] then None else Some (StringValue (joinStrings delim texts)))))))"

section \<open>Any value\<close>

text \<open>The values with their HAVING values; both are never nil.\<close>

record 'f AnyValue =
  avOpt :: "'f AggregatorOption option"
  avValue :: "'f Value option"
  avHavingValues :: "('f Value \<times> 'f Value) list"

definition ANY_VALUE_Step :: "'f Value option \<Rightarrow> 'f AggregatorOption \<Rightarrow> 'f AnyValue \<Rightarrow> 'f AnyValue go" where
  "ANY_VALUE_Step v opt f = onValue v (ok f) (\<lambda>x.
     (let f' = f\<lparr>avOpt := onceSet (avOpt f) opt\<rparr> in
      case aoHavingModifier opt of
        Some m \<Rightarrow> ok (f'\<lparr>avHavingValues := avHavingValues f @ [(x, hmValue m)]\<rparr>)
      | None \<Rightarrow> ok (f'\<lparr>avValue := onceSet (avValue f) x\<rparr>)))"

text \<open>The extreme HAVING value, then the first value that has it.\<close>

definition updateTarget :: "'f Runtime \<Rightarrow> string \<Rightarrow> 'f Value \<Rightarrow> 'f Value option \<Rightarrow> 'f Value option go" where
  "updateTarget R kind havingValue target = (case target of
     None \<Rightarrow> ok (Some havingValue)
   | Some t \<Rightarrow>
       go_bind (Value_compare R (if kind = ''MAX'' then GT else LT) havingValue (Some t)) (\<lambda>shouldUpdate.
       ok (Some (if shouldUpdate then havingValue else t))))"

fun firstWithTarget ::
  "'f Runtime \<Rightarrow> 'f Value option \<Rightarrow> 'f Value option \<Rightarrow> ('f Value \<times> 'f Value) list \<Rightarrow> 'f Value option go" where
  "firstWithTarget R target value [] = ok value"
| "firstWithTarget R target value ((x, havingValue) # xs) =
     go_bind (Value_compare R EQ havingValue target) (\<lambda>eq.
       if eq then ok (Some x) else firstWithTarget R target value xs)"

definition ANY_VALUE_Done :: "'f Runtime \<Rightarrow> 'f AnyValue \<Rightarrow> 'f Value option go" where
  "ANY_VALUE_Done R f = (case Option.bind (avOpt f) aoHavingModifier of
     None \<Rightarrow> ok (avValue f)
   | Some m \<Rightarrow>
       if avHavingValues f = [] then ok (avValue f)
       else go_bind (goFold (updateTarget R (hmKind m)) (map snd (avHavingValues f)) None) (\<lambda>target.
         firstWithTarget R target (avValue f) (avHavingValues f)))"

section \<open>Numbers and truth values\<close>

definition addTo :: "'f Runtime \<Rightarrow> 'f Value option \<Rightarrow> 'f Value \<Rightarrow> 'f Value option go" where
  "addTo R acc v = (case acc of None \<Rightarrow> ok (Some v) | Some s \<Rightarrow> Value_Add R s (Some v))"

record 'f Average =
  agSum :: "'f Value option"
  agNum :: int

definition AVG_Step :: "'f Runtime \<Rightarrow> 'f Value option \<Rightarrow> 'f AggregatorOption \<Rightarrow> 'f Average \<Rightarrow> 'f Average go" where
  "AVG_Step R v opt f = onValue v (ok f) (\<lambda>x.
     go_bind (addTo R (agSum f) x) (\<lambda>added. ok \<lparr>agSum = added, agNum = wrap64 (agNum f + 1)\<rparr>))"

definition AVG_Done :: "'f Runtime \<Rightarrow> 'f Average \<Rightarrow> 'f Value option go" where
  "AVG_Done R f = onValue (agSum f) (ok None) (\<lambda>sum.
     go_bind (Value_ToFloat64 R sum) (\<lambda>base. ok (Some (FloatValue (flDiv R base (flOfInt R (agNum f)))))))"

definition SUM_Step :: "'f Runtime \<Rightarrow> 'f Value option \<Rightarrow> 'f AggregatorOption \<Rightarrow> 'f Value option \<Rightarrow> 'f Value option go" where
  "SUM_Step R v opt acc = onValue v (ok acc) (addTo R acc)"

definition SUM_Done :: "'f Value option \<Rightarrow> 'f Value option go" where
  "SUM_Done acc = ok acc"

definition BIT_AND_AGG_Step ::
  "'f Runtime \<Rightarrow> 'f Value option \<Rightarrow> 'f AggregatorOption \<Rightarrow> 'f Value option \<Rightarrow> 'f Value option go" where
  "BIT_AND_AGG_Step R v opt value = onValue v (ok value) (\<lambda>x.
     go_bind (Value_ToInt64 R x) (\<lambda>i64. case value of
         None \<Rightarrow> ok (Some (IntValue i64))
       | Some cur \<Rightarrow> go_bind (Value_ToInt64 R cur) (\<lambda>curI64. ok (Some (IntValue (and curI64 i64))))))"

definition BIT_AND_AGG_Done :: "'f Value option \<Rightarrow> 'f Value option go" where
  "BIT_AND_AGG_Done value = ok value"

definition BIT_OR_AGG_Step :: "'f Runtime \<Rightarrow> 'f Value option \<Rightarrow> 'f AggregatorOption \<Rightarrow> int \<Rightarrow> int go" where
  "BIT_OR_AGG_Step R v opt value = onValue v (ok value) (\<lambda>x.
     go_bind (Value_ToInt64 R x) (\<lambda>i64. ok (if value = - 1 then i64 else or value i64)))"

definition BIT_OR_AGG_Done :: "int \<Rightarrow> 'f Value option go" where
  "BIT_OR_AGG_Done value = ok (Some (IntValue value))"

definition BIT_XOR_AGG_Step :: "'f Runtime \<Rightarrow> 'f Value option \<Rightarrow> 'f AggregatorOption \<Rightarrow> int \<Rightarrow> int go" where
  "BIT_XOR_AGG_Step R v opt value = onValue v (ok value) (\<lambda>x.
     go_bind (Value_ToInt64 R x) (\<lambda>i64. ok (if value = 1 then i64 else xor value i64)))"

definition BIT_XOR_AGG_Done :: "int \<Rightarrow> 'f Value option go" where
  "BIT_XOR_AGG_Done value = ok (Some (IntValue value))"

definition countOne :: "'f Runtime \<Rightarrow> 'f Value option \<Rightarrow> 'f Value option go" where
  "countOne R count = addTo R count (IntValue 1)"

definition COUNT_Step :: "'f Runtime \<Rightarrow> 'f Value option \<Rightarrow> 'f AggregatorOption \<Rightarrow> 'f Value option \<Rightarrow> 'f Value option go" where
  "COUNT_Step R v opt count = onValue v (ok count) (\<lambda>_. countOne R count)"

definition COUNT_Done :: "'f Value option \<Rightarrow> 'f Value option go" where
  "COUNT_Done count = ok (Some (case count of None \<Rightarrow> IntValue 0 | Some c \<Rightarrow> c))"

definition COUNT_STAR_Step :: "'f AggregatorOption \<Rightarrow> int \<Rightarrow> int go" where
  "COUNT_STAR_Step opt count = ok (wrap64 (count + 1))"

definition COUNT_STAR_Done :: "int \<Rightarrow> 'f Value option go" where
  "COUNT_STAR_Done count = ok (Some (IntValue count))"

definition COUNTIF_Step ::
  "'f Runtime \<Rightarrow> 'f Value option \<Rightarrow> 'f AggregatorOption \<Rightarrow> 'f Value option \<Rightarrow> 'f Value option go" where
  "COUNTIF_Step R cond opt count = onValue cond (ok count) (\<lambda>x.
     go_bind (Value_ToBool R x) (\<lambda>b. if b then countOne R count else ok count))"

definition COUNTIF_Done :: "'f Value option \<Rightarrow> 'f Value option go" where
  "COUNTIF_Done count = ok (Some (case count of None \<Rightarrow> IntValue 0 | Some c \<Rightarrow> c))"

definition LOGICAL_AND_Step :: "'f Runtime \<Rightarrow> 'f Value option \<Rightarrow> 'f AggregatorOption \<Rightarrow> bool \<Rightarrow> bool go" where
  "LOGICAL_AND_Step R cond opt v = onValue cond (ok v) (\<lambda>x.
     go_bind (Value_ToBool R x) (\<lambda>b. ok (if \<not> b then False else v)))"

definition LOGICAL_AND_Done :: "bool \<Rightarrow> 'f Value option go" where
  "LOGICAL_AND_Done v = ok (Some (BoolValue v))"

definition LOGICAL_OR_Step :: "'f Runtime \<Rightarrow> 'f Value option \<Rightarrow> 'f AggregatorOption \<Rightarrow> bool \<Rightarrow> bool go" where
  "LOGICAL_OR_Step R cond opt v = onValue cond (ok v) (\<lambda>x.
     go_bind (Value_ToBool R x) (\<lambda>b. ok (if b then True else v)))"

definition LOGICAL_OR_Done :: "bool \<Rightarrow> 'f Value option go" where
  "LOGICAL_OR_Done v = ok (Some (BoolValue v))"

text \<open>The field \<open>initialized\<close> is set with the value, which is then never nil.\<close>

definition MAX_Step :: "'f Runtime \<Rightarrow> 'f Value option \<Rightarrow> 'f AggregatorOption \<Rightarrow> 'f Value option \<Rightarrow> 'f Value option go" where
  "MAX_Step R v opt m = onValue v (ok m) (\<lambda>x. case m of
     None \<Rightarrow> ok (Some x)
   | Some cur \<Rightarrow> go_bind (Value_compare R GT x (Some cur)) (\<lambda>cond. ok (Some (if cond then x else cur))))"

definition MAX_Done :: "'f Value option \<Rightarrow> 'f Value option go" where
  "MAX_Done m = ok m"

definition MIN_Step :: "'f Runtime \<Rightarrow> 'f Value option \<Rightarrow> 'f AggregatorOption \<Rightarrow> 'f Value option \<Rightarrow> 'f Value option go" where
  "MIN_Step R v opt m = onValue v (ok m) (\<lambda>x. case m of
     None \<Rightarrow> ok (Some x)
   | Some cur \<Rightarrow> go_bind (Value_compare R LT x (Some cur)) (\<lambda>cond. ok (Some (if cond then x else cur))))"

definition MIN_Done :: "'f Value option \<Rightarrow> 'f Value option go" where
  "MIN_Done m = ok m"

end
