(* ===== verification/Func_Approx.thy ===== *)
theory Func_Approx
  imports Func_Aggregate
begin

text \<open>
  The aggregates of \<open>internal/function_aggregate.go\<close> over collected numbers, the approximate ones, and the
  sketches. The aliases \<open>STDDEV\<close> and \<open>VARIANCE\<close> of the code are its \<open>STDDEV_SAMP\<close> and \<open>VAR_SAMP\<close>.
\<close>

section \<open>Statistics\<close>

definition collectPair ::
  "'f Runtime \<Rightarrow> 'f Value option \<Rightarrow> 'f Value option \<Rightarrow> ('f \<times> 'f) list \<Rightarrow> ('f \<times> 'f) list go" where
  "collectPair R x y f = onValue x (ok f) (\<lambda>x. onValue y (ok f) (\<lambda>y.
     go_bind (Value_ToFloat64 R x) (\<lambda>vx. go_bind (Value_ToFloat64 R y) (\<lambda>vy. ok (f @ [(vx, vy)])))))"

definition CORR_Step ::
  "'f Runtime \<Rightarrow> 'f Value option \<Rightarrow> 'f Value option \<Rightarrow> 'f AggregatorOption \<Rightarrow> ('f \<times> 'f) list \<Rightarrow> ('f \<times> 'f) list go" where
  "CORR_Step R x y opt f = collectPair R x y f"

definition CORR_Done :: "'f AggEnv \<Rightarrow> ('f \<times> 'f) list \<Rightarrow> 'f Value option go" where
  "CORR_Done E f = ok (if f = [] then None else Some (FloatValue (aeCorrelation E (map fst f) (map snd f))))"

definition COVAR_POP_Step ::
  "'f Runtime \<Rightarrow> 'f Value option \<Rightarrow> 'f Value option \<Rightarrow> 'f AggregatorOption \<Rightarrow> ('f \<times> 'f) list \<Rightarrow> ('f \<times> 'f) list go" where
  "COVAR_POP_Step R x y opt f = collectPair R x y f"

definition COVAR_POP_Done :: "'f AggEnv \<Rightarrow> ('f \<times> 'f) list \<Rightarrow> 'f Value option go" where
  "COVAR_POP_Done E f = ok (if f = [] then None else Some (FloatValue (aeCovariance E (map fst f) (map snd f))))"

definition COVAR_SAMP_Step ::
  "'f Runtime \<Rightarrow> 'f Value option \<Rightarrow> 'f Value option \<Rightarrow> 'f AggregatorOption \<Rightarrow> ('f \<times> 'f) list \<Rightarrow> ('f \<times> 'f) list go" where
  "COVAR_SAMP_Step R x y opt f = collectPair R x y f"

definition COVAR_SAMP_Done :: "'f AggEnv \<Rightarrow> ('f \<times> 'f) list \<Rightarrow> 'f Value option go" where
  "COVAR_SAMP_Done E f = ok (if f = [] then None else Some (FloatValue (aeCovariance E (map fst f) (map snd f))))"

definition collectFloat :: "'f Runtime \<Rightarrow> 'f Value option \<Rightarrow> 'f list \<Rightarrow> 'f list go" where
  "collectFloat R v f = onValue v (ok f) (\<lambda>x. go_bind (Value_ToFloat64 R x) (\<lambda>f64. ok (f @ [f64])))"

definition STDDEV_POP_Step :: "'f Runtime \<Rightarrow> 'f Value option \<Rightarrow> 'f AggregatorOption \<Rightarrow> 'f list \<Rightarrow> 'f list go" where
  "STDDEV_POP_Step R v opt f = collectFloat R v f"

definition STDDEV_POP_Done :: "'f AggEnv \<Rightarrow> 'f list \<Rightarrow> 'f Value option go" where
  "STDDEV_POP_Done E f = ok (if f = [] then None else Some (FloatValue (aePopStdDev E f)))"

definition STDDEV_SAMP_Step :: "'f Runtime \<Rightarrow> 'f Value option \<Rightarrow> 'f AggregatorOption \<Rightarrow> 'f list \<Rightarrow> 'f list go" where
  "STDDEV_SAMP_Step R v opt f = collectFloat R v f"

definition STDDEV_SAMP_Done :: "'f AggEnv \<Rightarrow> 'f list \<Rightarrow> 'f Value option go" where
  "STDDEV_SAMP_Done E f = ok (if f = [] then None else Some (FloatValue (aeStdDev E f)))"

definition VAR_POP_Step :: "'f Runtime \<Rightarrow> 'f Value option \<Rightarrow> 'f AggregatorOption \<Rightarrow> 'f list \<Rightarrow> 'f list go" where
  "VAR_POP_Step R v opt f = collectFloat R v f"

definition VAR_POP_Done :: "'f AggEnv \<Rightarrow> 'f list \<Rightarrow> 'f Value option go" where
  "VAR_POP_Done E f = ok (if f = [] then None else Some (FloatValue (aePopVariance E f)))"

definition VAR_SAMP_Step :: "'f Runtime \<Rightarrow> 'f Value option \<Rightarrow> 'f AggregatorOption \<Rightarrow> 'f list \<Rightarrow> 'f list go" where
  "VAR_SAMP_Step R v opt f = collectFloat R v f"

definition VAR_SAMP_Done :: "'f AggEnv \<Rightarrow> 'f list \<Rightarrow> 'f Value option go" where
  "VAR_SAMP_Done E f = ok (if f = [] then None else Some (FloatValue (aeVariance E f)))"

section \<open>Approximate aggregates\<close>

text \<open>The map of the texts seen; nil before the first row, which reads as empty.\<close>

definition APPROX_COUNT_DISTINCT_Step ::
  "'f Runtime \<Rightarrow> 'f Value option \<Rightarrow> 'f AggregatorOption \<Rightarrow> string list \<Rightarrow> string list go" where
  "APPROX_COUNT_DISTINCT_Step R v opt valueMap = onValue v (ok valueMap) (\<lambda>x.
     go_bind (Value_ToString R x) (\<lambda>value. ok (List.insert value valueMap)))"

definition APPROX_COUNT_DISTINCT_Done :: "string list \<Rightarrow> 'f Value option go" where
  "APPROX_COUNT_DISTINCT_Done valueMap = ok (Some (IntValue (int (length valueMap))))"

record 'f Quantiles =
  qtValues :: "'f array"
  qtNum :: "int option"

definition APPROX_QUANTILES_Step ::
  "'f Value option \<Rightarrow> int \<Rightarrow> 'f AggregatorOption \<Rightarrow> 'f Quantiles \<Rightarrow> 'f Quantiles go" where
  "APPROX_QUANTILES_Step v num opt f = ok \<lparr>qtValues = qtValues f @ [v], qtNum = onceSet (qtNum f) num\<rparr>"

definition indexed :: "'a list \<Rightarrow> int \<Rightarrow> 'a go" where
  "indexed xs i = (if 0 \<le> i \<and> i < int (length xs) then ok (xs ! nat i) else indexPanic)"

definition quantileAt :: "'f Runtime \<Rightarrow> 'f array \<Rightarrow> 'f \<Rightarrow> 'f Value option go" where
  "quantileAt R values i =
     (let fIdx = flMul R (flOfInt R (int (length values))) (flDiv R i (flOfInt R 100));
          idx = flToInt R fIdx;
          idx = (if flLess R (flOfInt R idx) fIdx then wrap64 (idx + 1) else idx)
      in if idx > 0 then indexed values (idx - 1) else indexed values idx)"

text \<open>The loop over a floating point variable need not end: \<open>None\<close> where it does not.\<close>

partial_function (option) quantileLoop ::
  "'f Runtime \<Rightarrow> 'f array \<Rightarrow> 'f \<Rightarrow> 'f \<Rightarrow> 'f array \<Rightarrow> 'f array go option" where
  "quantileLoop R values ratio i quantiles =
     (if flLess R i (flOfInt R 100) then
        (case quantileAt R values i of
           Inl e \<Rightarrow> Some (Inl e)
         | Inr q \<Rightarrow> quantileLoop R values ratio (flAdd R i ratio) (quantiles @ [q]))
      else Some (ok quantiles))"

definition APPROX_QUANTILES_Done :: "'f Runtime \<Rightarrow> 'f Quantiles \<Rightarrow> 'f Value option go option" where
  "APPROX_QUANTILES_Done R f =
     (let values = qtValues f; num = (case qtNum f of None \<Rightarrow> 0 | Some n \<Rightarrow> n) in
      if values = [] then Some (ok None)
      else if num = 0 then Some (ok (Some (ArrayValue [hd values])))
      else if num = 1 then Some (ok (Some (ArrayValue [hd values, last values])))
      else map_option (\<lambda>r. go_bind r (\<lambda>quantiles. ok (Some (ArrayValue (quantiles @ [last values])))))
        (quantileLoop R values (flDiv R (flOfInt R 100) (flOfInt R num)) (flOfInt R 0) []))"

text \<open>
  A map from values to a struct of two fields, the second of which changes. A value that is not
  comparable cannot be a key.
\<close>

record 'f TopCount =
  tcMap :: "'f Counted list"
  tcNum :: "int option"

definition hashable :: "'f Value option \<Rightarrow> unit go" where
  "hashable v = (case v of Some (BytesValue b) \<Rightarrow> panic ''hash of unhashable type internal.BytesValue'' | _ \<Rightarrow> ok ())"

fun updateCounted ::
  "'f Runtime \<Rightarrow> 'f AggEnv \<Rightarrow> 'f Value option \<Rightarrow> ('f Value option \<Rightarrow> 'f Value option go) \<Rightarrow> 'f Value option
    \<Rightarrow> 'f Counted list \<Rightarrow> 'f Counted list go" where
  "updateCounted R E v f new [] = ok [(v, new)]"
| "updateCounted R E v f new ((k, c) # m) = go_bind (sameValue R E k v) (\<lambda>same.
     if same then go_bind (f c) (\<lambda>c'. ok ((k, c') # m))
     else go_bind (updateCounted R E v f new m) (\<lambda>m'. ok ((k, c) # m')))"

definition countUp :: "'f Runtime \<Rightarrow> 'f Value option \<Rightarrow> 'f Value option go" where
  "countUp R c = onNil c (\<lambda>c. go_bind (safely 0 (Value_ToInt64 R c)) (\<lambda>cur. ok (Some (IntValue (wrap64 (cur + 1))))))"

definition APPROX_TOP_COUNT_Step ::
  "'f Runtime \<Rightarrow> 'f AggEnv \<Rightarrow> 'f Value option \<Rightarrow> int \<Rightarrow> 'f AggregatorOption \<Rightarrow> 'f TopCount \<Rightarrow> 'f TopCount go" where
  "APPROX_TOP_COUNT_Step R E v num opt f = go_bind (hashable v) (\<lambda>_.
     go_bind (updateCounted R E v (countUp R) (Some (IntValue 1)) (tcMap f)) (\<lambda>m.
     ok \<lparr>tcMap = m, tcNum = onceSet (tcNum f) num\<rparr>))"

definition countedStruct :: "string \<Rightarrow> 'f Counted \<Rightarrow> 'f Value option" where
  "countedStruct name c = (case c of (v, n) \<Rightarrow>
     Some (StructValue [''value'', name] [v, n] [(''value'', v), (name, n)]))"

text \<open>The first of the sorted entries; the entries are first visited in the order of the map.\<close>

definition topCounted ::
  "'f AggEnv \<Rightarrow> string \<Rightarrow> string \<Rightarrow> ('f Counted \<Rightarrow> 'f Counted \<Rightarrow> bool go) \<Rightarrow> 'f TopCount \<Rightarrow> 'f Value option go" where
  "topCounted E func name order f =
     (let num = (case tcNum f of None \<Rightarrow> 0 | Some n \<Rightarrow> n) in
      if tcMap f = [] then ok None
      else if int (length (tcMap f)) < num then
        fail_with (func @ '': required number is larger than number of input values'')
      else go_bind (aeSortCounted E (\<lambda>_. order) (aeRange E (tcMap f))) (\<lambda>values.
        if num < 0 then panic ''slice bounds out of range''
        else ok (Some (ArrayValue (map (countedStruct name) (take (nat num) values))))))"

definition APPROX_TOP_COUNT_Done :: "'f Runtime \<Rightarrow> 'f AggEnv \<Rightarrow> 'f TopCount \<Rightarrow> 'f Value option go" where
  "APPROX_TOP_COUNT_Done R E f = topCounted E ''APPROX_TOP_COUNT'' ''count''
     (\<lambda>a b. onNil (snd a) (\<lambda>x. safely False (Value_compare R GT x (snd b)))) f"

definition addWeight :: "'f Runtime \<Rightarrow> 'f Value option \<Rightarrow> 'f Value option \<Rightarrow> 'f Value option go" where
  "addWeight R weight c = onValue weight (ok c) (\<lambda>w. addTo R c w)"

definition APPROX_TOP_SUM_Step ::
  "'f Runtime \<Rightarrow> 'f AggEnv \<Rightarrow> 'f Value option \<Rightarrow> 'f Value option \<Rightarrow> int \<Rightarrow> 'f AggregatorOption
    \<Rightarrow> 'f TopCount \<Rightarrow> 'f TopCount go" where
  "APPROX_TOP_SUM_Step R E v weight num opt f = go_bind (hashable v) (\<lambda>_.
     go_bind (updateCounted R E v (addWeight R weight) weight (tcMap f)) (\<lambda>m.
     ok \<lparr>tcMap = m, tcNum = onceSet (tcNum f) num\<rparr>))"

definition APPROX_TOP_SUM_Done :: "'f Runtime \<Rightarrow> 'f AggEnv \<Rightarrow> 'f TopCount \<Rightarrow> 'f Value option go" where
  "APPROX_TOP_SUM_Done R E f = topCounted E ''APPROX_TOP_SUM'' ''sum''
     (\<lambda>a b. onValue (snd a) (ok False) (\<lambda>x. onValue (snd b) (ok True) (\<lambda>y.
        safely False (Value_compare R GT x (Some y))))) f"

section \<open>Sketches\<close>

text \<open>\<open>hllNew\<close> gives a sketch also where it fails; the step drops its error when it returns nil at its end.\<close>

record 'h Hll =
  hllNew :: "int \<Rightarrow> 'h \<times> string option"
  hllAddRaw :: "int \<Rightarrow> 'h \<Rightarrow> 'h"
  hllUnion :: "'h \<Rightarrow> 'h \<Rightarrow> 'h"
  hllToBytes :: "'h \<Rightarrow> string"
  hllCardinality :: "'h \<Rightarrow> int"
  hllFromBytes :: "string \<Rightarrow> 'h go"
  murmurSum64 :: "string \<Rightarrow> int"

definition hashedInput :: "'f Runtime \<Rightarrow> 'h Hll \<Rightarrow> 'f Value option \<Rightarrow> int go" where
  "hashedInput R H input = (case input of
     Some (IntValue i) \<Rightarrow> go_bind (Value_ToString R (IntValue i)) (\<lambda>s. ok (murmurSum64 H s))
   | Some (NumericValue r isBig) \<Rightarrow> go_bind (Value_ToBytes R (NumericValue r isBig)) (\<lambda>b. ok (murmurSum64 H b))
   | Some (StringValue t) \<Rightarrow> go_bind (Value_ToString R (StringValue t)) (\<lambda>s. ok (murmurSum64 H s))
   | Some (BytesValue t) \<Rightarrow> go_bind (Value_ToBytes R (BytesValue t)) (\<lambda>b. ok (murmurSum64 H b))
   | _ \<Rightarrow> ok 0)"

definition HLL_COUNT_INIT_Step ::
  "'f Runtime \<Rightarrow> 'h Hll \<Rightarrow> 'f Value option \<Rightarrow> int \<Rightarrow> 'f AggregatorOption \<Rightarrow> 'h option \<Rightarrow> 'h option go" where
  "HLL_COUNT_INIT_Step R H input precision opt f =
     (let h = (case f of None \<Rightarrow> fst (hllNew H precision) | Some h \<Rightarrow> h) in
      go_bind (hashedInput R H input) (\<lambda>v. ok (Some (hllAddRaw H v h))))"

definition HLL_COUNT_INIT_Done :: "'h Hll \<Rightarrow> 'h option \<Rightarrow> 'f Value option go" where
  "HLL_COUNT_INIT_Done H f = ok (map_option (\<lambda>h. BytesValue (hllToBytes H h)) f)"

definition mergeSketch :: "'h Hll \<Rightarrow> string \<Rightarrow> 'h option \<Rightarrow> 'h option go" where
  "mergeSketch H sketch f = go_bind (hllFromBytes H sketch) (\<lambda>h.
     ok (Some (case f of None \<Rightarrow> h | Some g \<Rightarrow> hllUnion H g h)))"

definition HLL_COUNT_MERGE_Step :: "'h Hll \<Rightarrow> string \<Rightarrow> 'f AggregatorOption \<Rightarrow> 'h option \<Rightarrow> 'h option go" where
  "HLL_COUNT_MERGE_Step H sketch opt f = mergeSketch H sketch f"

definition HLL_COUNT_MERGE_Done :: "'h Hll \<Rightarrow> 'h option \<Rightarrow> 'f Value option go" where
  "HLL_COUNT_MERGE_Done H f = ok (Some (IntValue (case f of None \<Rightarrow> 0 | Some h \<Rightarrow> wrap64 (hllCardinality H h))))"

definition HLL_COUNT_MERGE_PARTIAL_Step :: "'h Hll \<Rightarrow> string \<Rightarrow> 'f AggregatorOption \<Rightarrow> 'h option \<Rightarrow> 'h option go" where
  "HLL_COUNT_MERGE_PARTIAL_Step H sketch opt f = mergeSketch H sketch f"

definition HLL_COUNT_MERGE_PARTIAL_Done :: "'h Hll \<Rightarrow> 'h option \<Rightarrow> 'f Value option go" where
  "HLL_COUNT_MERGE_PARTIAL_Done H f = ok (map_option (\<lambda>h. BytesValue (hllToBytes H h)) f)"

definition HLL_COUNT_EXTRACT :: "'h Hll \<Rightarrow> string \<Rightarrow> 'f Value option go" where
  "HLL_COUNT_EXTRACT H sketch = go_bind (hllFromBytes H sketch) (\<lambda>h. ok (Some (IntValue (wrap64 (hllCardinality H h)))))"

end
