(* ===== verification/Aggregate_Bind.thy ===== *)
theory Aggregate_Bind
  imports Func_Approx
begin

text \<open>
  \<open>internal/function_bind.go\<close>, aggregates: \<open>Aggregator\<close>, which SQLite calls once per row and once for the
  result, and the table of aggregate functions, which checks the arguments of each and hands them to its
  accumulator. \<open>args[i]\<close> panics where the row has too few arguments.
\<close>

section \<open>Rows\<close>

definition existsNull :: "'f Value option list \<Rightarrow> bool" where
  "existsNull args = list_ex (\<lambda>v. case v of None \<Rightarrow> True | Some _ \<Rightarrow> False) args"

definition convertArgs :: "nat \<Rightarrow> 'f Runtime \<Rightarrow> 'f Json \<Rightarrow> 'f GoAny list \<Rightarrow> 'f Value option list go" where
  "convertArgs n R K args = goList (map (DecodeValue n R K) args)"

record ('f, 's) AggregateFunction =
  afInit :: 's
  afStep :: "'f Value option list \<Rightarrow> 'f AggregatorOption \<Rightarrow> 's \<Rightarrow> 's go"
  afDone :: "'s \<Rightarrow> 'f Value option go option"

record 's Aggregator =
  distinctMap :: "string list"
  distinctNil :: bool
  agState :: 's

definition newAggregator ::
  "'s \<Rightarrow> ('f Value option list \<Rightarrow> 'f AggregatorOption \<Rightarrow> 's \<Rightarrow> 's go) \<Rightarrow> ('s \<Rightarrow> 'f Value option go)
    \<Rightarrow> ('f, 's) AggregateFunction" where
  "newAggregator s step done' = \<lparr>afInit = s, afStep = step, afDone = (\<lambda>s. Some (done' s))\<rparr>"

definition initialAggregator :: "('f, 's) AggregateFunction \<Rightarrow> 's Aggregator" where
  "initialAggregator A = \<lparr>distinctMap = [], distinctNil = False, agState = afInit A\<rparr>"

definition nonNull :: "'f Value option list \<Rightarrow> 'f Value option list" where
  "nonNull values = filter (\<lambda>v. case v of None \<Rightarrow> False | Some _ \<Rightarrow> True) values"

text \<open>Whether a row is the first with its first argument, and the aggregator that has seen it.\<close>

definition distinctRow ::
  "'f Runtime \<Rightarrow> 'f Value option list \<Rightarrow> 's Aggregator \<Rightarrow> (bool \<times> 's Aggregator) go" where
  "distinctRow R values a = (case values of
     [] \<Rightarrow> fail_with ''DISTINCT option required at least one argument''
   | None # _ \<Rightarrow> ok (\<not> distinctNil a, a\<lparr>distinctNil := True\<rparr>)
   | Some v # _ \<Rightarrow> go_bind (Value_ToString R v) (\<lambda>key.
       ok (key \<notin> set (distinctMap a), a\<lparr>distinctMap := List.insert key (distinctMap a)\<rparr>)))"

definition stepRow ::
  "'f Runtime \<Rightarrow> ('f, 's) AggregateFunction \<Rightarrow> 'f Value option list \<Rightarrow> 'f AggregatorOption
    \<Rightarrow> 's Aggregator \<Rightarrow> 's Aggregator go" where
  "stepRow R A values opt a =
     (let values' = (if aoIgnoreNulls opt then nonNull values else values) in
      if aoIgnoreNulls opt \<and> values' = [] then ok a
      else go_bind (if aoDistinct opt then distinctRow R values' a else ok (True, a)) (\<lambda>(new, a').
        if new then go_bind (afStep A values' opt (agState a')) (\<lambda>s. ok (a'\<lparr>agState := s\<rparr>)) else ok a'))"

definition Aggregator_Step ::
  "nat \<Rightarrow> 'f Runtime \<Rightarrow> 'f Json \<Rightarrow> 'f OptionJson \<Rightarrow> ('f, 's) AggregateFunction \<Rightarrow> 'f GoAny list
    \<Rightarrow> 's Aggregator \<Rightarrow> 's Aggregator go" where
  "Aggregator_Step n R K J A stepArgs a =
     go_bind (convertArgs n R K stepArgs) (\<lambda>values.
     go_bind (parseAggregateOptions R J values) (\<lambda>(values, opt). stepRow R A values opt a))"

definition Aggregator_WindowValue ::
  "'f Runtime \<Rightarrow> 'f Json \<Rightarrow> ('f, 's) AggregateFunction \<Rightarrow> 's Aggregator \<Rightarrow> 'f GoAny go option" where
  "Aggregator_WindowValue R K A a =
     map_option (\<lambda>r. go_bind r (EncodeValue R K)) (afDone A (agState a))"

text \<open>A query: every row in turn, with the options among its arguments, then the result.\<close>

definition runAggregate ::
  "'f Runtime \<Rightarrow> ('f, 's) AggregateFunction \<Rightarrow> ('f Value option list \<times> 'f AggregatorOption) list
    \<Rightarrow> 'f Value option go option" where
  "runAggregate R A rows =
     (case goFold (\<lambda>(values, opt). stepRow R A values opt) rows (initialAggregator A) of
        Inl e \<Rightarrow> Some (Inl e)
      | Inr a \<Rightarrow> afDone A (agState a))"

section \<open>The functions\<close>

definition withArg :: "nat \<Rightarrow> 'a list \<Rightarrow> ('a \<Rightarrow> 'b go) \<Rightarrow> 'b go" where
  "withArg i args f = (if i < length args then f (args ! i) else indexPanic)"

lemma withArg_simps [simp]:
  "withArg 0 (x # xs) f = f x" "withArg (Suc i) (x # xs) f = withArg i xs f"
  by (simp_all add: withArg_def)

definition bindArray :: "('f, 'f array) AggregateFunction" where
  "bindArray = newAggregator [] (\<lambda>args opt fn. withArg 0 args (\<lambda>v. ARRAY_Step v opt fn))
     ARRAY_Done"

definition bindAnyValue :: "'f Runtime \<Rightarrow> ('f, 'f AnyValue) AggregateFunction" where
  "bindAnyValue R = newAggregator \<lparr>avOpt = None, avValue = None, avHavingValues = []\<rparr> (\<lambda>args opt fn. withArg 0 args (\<lambda>v. ANY_VALUE_Step v opt fn))
     (ANY_VALUE_Done R)"

definition bindArrayAgg :: "'f Runtime \<Rightarrow> 'f AggEnv \<Rightarrow> ('f, 'f Collected) AggregateFunction" where
  "bindArrayAgg R E = newAggregator noneCollected (\<lambda>args opt fn. withArg 0 args (\<lambda>v. ARRAY_AGG_Step v opt fn))
     (ARRAY_AGG_Done R E)"

definition bindArrayConcatAgg :: "'f Runtime \<Rightarrow> 'f AggEnv \<Rightarrow> ('f, 'f Collected) AggregateFunction" where
  "bindArrayConcatAgg R E = newAggregator noneCollected (\<lambda>args opt fn. withArg 0 args (\<lambda>v. onValue v (ok fn) (\<lambda>x.
       go_bind (Value_ToArray R x) (\<lambda>array. ARRAY_CONCAT_AGG_Step array opt fn))))
     (ARRAY_CONCAT_AGG_Done R E)"

definition bindAvg :: "'f Runtime \<Rightarrow> ('f, 'f Average) AggregateFunction" where
  "bindAvg R = newAggregator \<lparr>agSum = None, agNum = 0\<rparr> (\<lambda>args opt fn. withArg 0 args (\<lambda>v. AVG_Step R v opt fn))
     (AVG_Done R)"

definition bindCount :: "'f Runtime \<Rightarrow> ('f, 'f Value option) AggregateFunction" where
  "bindCount R = newAggregator None (\<lambda>args opt fn. withArg 0 args (\<lambda>v. COUNT_Step R v opt fn))
     COUNT_Done"

definition bindCountStar :: "('f, int) AggregateFunction" where
  "bindCountStar = newAggregator 0 (\<lambda>args opt fn. COUNT_STAR_Step opt fn)
     COUNT_STAR_Done"

definition bindBitAndAgg :: "'f Runtime \<Rightarrow> ('f, 'f Value option) AggregateFunction" where
  "bindBitAndAgg R = newAggregator None (\<lambda>args opt fn. withArg 0 args (\<lambda>v. BIT_AND_AGG_Step R v opt fn))
     BIT_AND_AGG_Done"

definition bindBitOrAgg :: "'f Runtime \<Rightarrow> ('f, int) AggregateFunction" where
  "bindBitOrAgg R = newAggregator (- 1) (\<lambda>args opt fn. withArg 0 args (\<lambda>v. BIT_OR_AGG_Step R v opt fn))
     BIT_OR_AGG_Done"

definition bindBitXorAgg :: "'f Runtime \<Rightarrow> ('f, int) AggregateFunction" where
  "bindBitXorAgg R = newAggregator 1 (\<lambda>args opt fn. withArg 0 args (\<lambda>v. BIT_XOR_AGG_Step R v opt fn))
     BIT_XOR_AGG_Done"

definition bindCountIf :: "'f Runtime \<Rightarrow> ('f, 'f Value option) AggregateFunction" where
  "bindCountIf R = newAggregator None (\<lambda>args opt fn. withArg 0 args (\<lambda>v. COUNTIF_Step R v opt fn))
     COUNTIF_Done"

definition bindLogicalAnd :: "'f Runtime \<Rightarrow> ('f, bool) AggregateFunction" where
  "bindLogicalAnd R = newAggregator True (\<lambda>args opt fn. withArg 0 args (\<lambda>v. LOGICAL_AND_Step R v opt fn))
     LOGICAL_AND_Done"

definition bindLogicalOr :: "'f Runtime \<Rightarrow> ('f, bool) AggregateFunction" where
  "bindLogicalOr R = newAggregator False (\<lambda>args opt fn. withArg 0 args (\<lambda>v. LOGICAL_OR_Step R v opt fn))
     LOGICAL_OR_Done"

definition bindMax :: "'f Runtime \<Rightarrow> ('f, 'f Value option) AggregateFunction" where
  "bindMax R = newAggregator None (\<lambda>args opt fn. withArg 0 args (\<lambda>v. MAX_Step R v opt fn))
     MAX_Done"

definition bindMin :: "'f Runtime \<Rightarrow> ('f, 'f Value option) AggregateFunction" where
  "bindMin R = newAggregator None (\<lambda>args opt fn. withArg 0 args (\<lambda>v. MIN_Step R v opt fn))
     MIN_Done"

definition bindStringAgg :: "'f Runtime \<Rightarrow> 'f AggEnv \<Rightarrow> ('f, 'f StringAgg) AggregateFunction" where
  "bindStringAgg R E = newAggregator \<lparr>saOnce = None, saValues = []\<rparr> (\<lambda>args opt fn. if length args = 1 then withArg 0 args (\<lambda>v. STRING_AGG_Step v [] opt fn)
     else withArg 1 args (\<lambda>d. go_bind (onNil d (Value_ToString R)) (\<lambda>delim.
       withArg 0 args (\<lambda>v. STRING_AGG_Step v delim opt fn))))
     (STRING_AGG_Done R E)"

definition bindSum :: "'f Runtime \<Rightarrow> ('f, 'f Value option) AggregateFunction" where
  "bindSum R = newAggregator None (\<lambda>args opt fn. withArg 0 args (\<lambda>v. SUM_Step R v opt fn))
     SUM_Done"

definition bindCorr :: "'f Runtime \<Rightarrow> 'f AggEnv \<Rightarrow> ('f, ('f \<times> 'f) list) AggregateFunction" where
  "bindCorr R E = newAggregator [] (\<lambda>args opt fn. withArg 0 args (\<lambda>x. withArg 1 args (\<lambda>y. CORR_Step R x y opt fn)))
     (CORR_Done E)"

definition bindCovarPop :: "'f Runtime \<Rightarrow> 'f AggEnv \<Rightarrow> ('f, ('f \<times> 'f) list) AggregateFunction" where
  "bindCovarPop R E = newAggregator [] (\<lambda>args opt fn. withArg 0 args (\<lambda>x. withArg 1 args (\<lambda>y. COVAR_POP_Step R x y opt fn)))
     (COVAR_POP_Done E)"

definition bindCovarSamp :: "'f Runtime \<Rightarrow> 'f AggEnv \<Rightarrow> ('f, ('f \<times> 'f) list) AggregateFunction" where
  "bindCovarSamp R E = newAggregator [] (\<lambda>args opt fn. withArg 0 args (\<lambda>x. withArg 1 args (\<lambda>y. COVAR_SAMP_Step R x y opt fn)))
     (COVAR_SAMP_Done E)"

definition bindStddevPop :: "'f Runtime \<Rightarrow> 'f AggEnv \<Rightarrow> ('f, 'f list) AggregateFunction" where
  "bindStddevPop R E = newAggregator [] (\<lambda>args opt fn. withArg 0 args (\<lambda>v. STDDEV_POP_Step R v opt fn))
     (STDDEV_POP_Done E)"

definition bindStddevSamp :: "'f Runtime \<Rightarrow> 'f AggEnv \<Rightarrow> ('f, 'f list) AggregateFunction" where
  "bindStddevSamp R E = newAggregator [] (\<lambda>args opt fn. withArg 0 args (\<lambda>v. STDDEV_SAMP_Step R v opt fn))
     (STDDEV_SAMP_Done E)"

definition bindStddev :: "'f Runtime \<Rightarrow> 'f AggEnv \<Rightarrow> ('f, 'f list) AggregateFunction" where
  "bindStddev R E = newAggregator [] (\<lambda>args opt fn. withArg 0 args (\<lambda>v. STDDEV_SAMP_Step R v opt fn))
     (STDDEV_SAMP_Done E)"

definition bindVarPop :: "'f Runtime \<Rightarrow> 'f AggEnv \<Rightarrow> ('f, 'f list) AggregateFunction" where
  "bindVarPop R E = newAggregator [] (\<lambda>args opt fn. withArg 0 args (\<lambda>v. VAR_POP_Step R v opt fn))
     (VAR_POP_Done E)"

definition bindVarSamp :: "'f Runtime \<Rightarrow> 'f AggEnv \<Rightarrow> ('f, 'f list) AggregateFunction" where
  "bindVarSamp R E = newAggregator [] (\<lambda>args opt fn. withArg 0 args (\<lambda>v. VAR_SAMP_Step R v opt fn))
     (VAR_SAMP_Done E)"

definition bindVariance :: "'f Runtime \<Rightarrow> 'f AggEnv \<Rightarrow> ('f, 'f list) AggregateFunction" where
  "bindVariance R E = newAggregator [] (\<lambda>args opt fn. withArg 0 args (\<lambda>v. VAR_SAMP_Step R v opt fn))
     (VAR_SAMP_Done E)"

definition bindApproxCountDistinct :: "'f Runtime \<Rightarrow> ('f, string list) AggregateFunction" where
  "bindApproxCountDistinct R = newAggregator [] (\<lambda>args opt fn. withArg 0 args (\<lambda>v. APPROX_COUNT_DISTINCT_Step R v opt fn))
     APPROX_COUNT_DISTINCT_Done"

definition numberArg :: "'f Runtime \<Rightarrow> string \<Rightarrow> 'f Value option \<Rightarrow> int go" where
  "numberArg R func v = onValue v (fail_with (func @ '': number must be not null'')) (Value_ToInt64 R)"

definition bindApproxQuantiles :: "'f Runtime \<Rightarrow> ('f, 'f Quantiles) AggregateFunction" where
  "bindApproxQuantiles R =
     \<lparr>afInit = \<lparr>qtValues = [], qtNum = None\<rparr>,
      afStep = (\<lambda>args opt fn. withArg 1 args (\<lambda>n. go_bind (numberArg R ''APPROX_QUANTILES'' n) (\<lambda>num.
        withArg 0 args (\<lambda>v. APPROX_QUANTILES_Step v num opt fn)))),
      afDone = APPROX_QUANTILES_Done R\<rparr>"

definition bindApproxTopCount :: "'f Runtime \<Rightarrow> 'f AggEnv \<Rightarrow> ('f, 'f TopCount) AggregateFunction" where
  "bindApproxTopCount R E = newAggregator \<lparr>tcMap = [], tcNum = None\<rparr> (\<lambda>args opt fn. withArg 1 args (\<lambda>n. go_bind (numberArg R ''APPROX_TOP_COUNT'' n) (\<lambda>num.
       withArg 0 args (\<lambda>v. APPROX_TOP_COUNT_Step R E v num opt fn))))
     (APPROX_TOP_COUNT_Done R E)"

definition bindApproxTopSum :: "'f Runtime \<Rightarrow> 'f AggEnv \<Rightarrow> ('f, 'f TopCount) AggregateFunction" where
  "bindApproxTopSum R E = newAggregator \<lparr>tcMap = [], tcNum = None\<rparr> (\<lambda>args opt fn. withArg 2 args (\<lambda>n. go_bind (numberArg R ''APPROX_TOP_SUM'' n) (\<lambda>num.
       withArg 0 args (\<lambda>v. withArg 1 args (\<lambda>weight. APPROX_TOP_SUM_Step R E v weight num opt fn)))))
     (APPROX_TOP_SUM_Done R E)"

definition bindHllCountInit :: "'f Runtime \<Rightarrow> 'h Hll \<Rightarrow> ('f, 'h option) AggregateFunction" where
  "bindHllCountInit R H = newAggregator None (\<lambda>args opt fn. if length args = 2 then withArg 1 args (\<lambda>p. onValue p (ok fn) (\<lambda>p. go_bind (Value_ToInt64 R p) (\<lambda>precision.
       withArg 0 args (\<lambda>v. HLL_COUNT_INIT_Step R H v precision opt fn))))
     else withArg 0 args (\<lambda>v. HLL_COUNT_INIT_Step R H v 15 opt fn))
     (HLL_COUNT_INIT_Done H)"

definition bindHllCountMerge :: "'f Runtime \<Rightarrow> 'h Hll \<Rightarrow> ('f, 'h option) AggregateFunction" where
  "bindHllCountMerge R H = newAggregator None (\<lambda>args opt fn. withArg 0 args (\<lambda>v. onValue v (ok fn) (\<lambda>x.
       go_bind (Value_ToBytes R x) (\<lambda>b. HLL_COUNT_MERGE_Step H b opt fn))))
     (HLL_COUNT_MERGE_Done H)"

definition bindHllCountMergePartial :: "'f Runtime \<Rightarrow> 'h Hll \<Rightarrow> ('f, 'h option) AggregateFunction" where
  "bindHllCountMergePartial R H = newAggregator None (\<lambda>args opt fn. withArg 0 args (\<lambda>v. onValue v (ok fn) (\<lambda>x.
       go_bind (Value_ToBytes R x) (\<lambda>b. HLL_COUNT_MERGE_PARTIAL_Step H b opt fn))))
     (HLL_COUNT_MERGE_PARTIAL_Done H)"

definition bindHllCountExtract :: "'f Runtime \<Rightarrow> 'h Hll \<Rightarrow> 'f Value option list \<Rightarrow> 'f Value option go" where
  "bindHllCountExtract R H args = withArg 0 args (\<lambda>v. onValue v (ok None) (\<lambda>x.
     go_bind (Value_ToBytes R x) (HLL_COUNT_EXTRACT H)))"

section \<open>The functions that make options\<close>

definition bindDistinct :: "'f OptionJson \<Rightarrow> 'f Value option list \<Rightarrow> 'f Value option go" where
  "bindDistinct J args = (if \<not> List.null args then fail_with (''DISTINCT: invalid argument num '' @ sprintNat (length args))
     else DISTINCT J)"

definition bindLimit :: "'f Runtime \<Rightarrow> 'f OptionJson \<Rightarrow> 'f Value option list \<Rightarrow> 'f Value option go" where
  "bindLimit R J args = (case args of
     [v] \<Rightarrow> onNil v (\<lambda>x. go_bind (Value_ToInt64 R x) (LIMIT J))
   | _ \<Rightarrow> fail_with (''LIMIT: invalid argument num '' @ sprintNat (length args)))"

definition bindIgnoreNulls :: "'f OptionJson \<Rightarrow> 'f Value option list \<Rightarrow> 'f Value option go" where
  "bindIgnoreNulls J args = (if \<not> List.null args then fail_with (''IGNORE_NULLS: invalid argument num '' @ sprintNat (length args))
     else IGNORE_NULLS J)"

definition bindOrderBy :: "'f Runtime \<Rightarrow> 'f OptionJson \<Rightarrow> 'f Value option list \<Rightarrow> 'f Value option go" where
  "bindOrderBy R J args = (case args of
     [v, asc] \<Rightarrow> onNil asc (\<lambda>x. go_bind (Value_ToBool R x) (ORDER_BY J v))
   | _ \<Rightarrow> fail_with (''ORDER_BY: invalid argument num '' @ sprintNat (length args)))"

definition bindHavingMax :: "'f OptionJson \<Rightarrow> 'f Value option list \<Rightarrow> 'f Value option go" where
  "bindHavingMax J args = (case args of
     [v] \<Rightarrow> HAVING_MAX J v
   | _ \<Rightarrow> fail_with (''HAVING_MAX: invalid argument num '' @ sprintNat (length args)))"

definition bindHavingMin :: "'f OptionJson \<Rightarrow> 'f Value option list \<Rightarrow> 'f Value option go" where
  "bindHavingMin J args = (case args of
     [v] \<Rightarrow> HAVING_MIN J v
   | _ \<Rightarrow> fail_with (''HAVING_MIN: invalid argument num '' @ sprintNat (length args)))"

end
