(* ===== verification/Func_Window.thy ===== *)
theory Func_Window
  imports Aggregate_Bind "HOL-Library.Signed_Division"
begin

text \<open>
  Window functions: \<open>internal/function_window_option.go\<close>, the values of the rows in the current frame,
  and \<open>internal/function_window.go\<close>, one struct per function. A struct without fields has only a \<open>Done\<close>; the
  others are a record of their fields.
\<close>

section \<open>The frame\<close>

record 'f WindowFuncAggregatedStatus =
  wsValues :: "'f array"
  wsOpt :: "'f AggregatorOption"

definition newWindowFuncAggregatedStatus :: "'f WindowFuncAggregatedStatus" where
  "newWindowFuncAggregatedStatus = \<lparr>wsValues = [], wsOpt = noOption\<rparr>"

definition WindowFuncAggregatedStatus_IgnoreNulls :: "'f WindowFuncAggregatedStatus \<Rightarrow> bool" where
  "WindowFuncAggregatedStatus_IgnoreNulls s = aoIgnoreNulls (wsOpt s)"

definition WindowFuncAggregatedStatus_Distinct :: "'f WindowFuncAggregatedStatus \<Rightarrow> bool" where
  "WindowFuncAggregatedStatus_Distinct s = aoDistinct (wsOpt s)"

text \<open>With DISTINCT a NULL that is not ignored is asked for its text, which panics.\<close>

fun relevant :: "'f Runtime \<Rightarrow> bool \<Rightarrow> bool \<Rightarrow> string list \<Rightarrow> 'f array \<Rightarrow> 'f array go" where
  "relevant R ignoreNulls once seen [] = ok []"
| "relevant R ignoreNulls once seen (v # vs) =
     (if ignoreNulls \<and> Option.is_none v then relevant R ignoreNulls once seen vs
      else if once then go_bind (onNil v (Value_ToString R)) (\<lambda>key.
        if key \<in> set seen then relevant R ignoreNulls once seen vs
        else go_bind (relevant R ignoreNulls once (key # seen) vs) (\<lambda>ws. ok (v # ws)))
      else go_bind (relevant R ignoreNulls once seen vs) (\<lambda>ws. ok (v # ws)))"

definition RelevantValues :: "'f Runtime \<Rightarrow> 'f WindowFuncAggregatedStatus \<Rightarrow> 'f array go" where
  "RelevantValues R s =
     relevant R (WindowFuncAggregatedStatus_IgnoreNulls s) (WindowFuncAggregatedStatus_Distinct s) [] (wsValues s)"

definition WindowFuncAggregatedStatus_Step ::
  "'f Value option \<Rightarrow> 'f WindowFuncAggregatedStatus \<Rightarrow> 'f WindowFuncAggregatedStatus go" where
  "WindowFuncAggregatedStatus_Step value' s = ok (s\<lparr>wsValues := wsValues s @ [value']\<rparr>)"

text \<open>The loop over the values from index \<open>i\<close>: the first that is the value is cut out.\<close>

fun removeFirst ::
  "'f Runtime \<Rightarrow> 'f AggEnv \<Rightarrow> 'f Value option \<Rightarrow> 'f array \<Rightarrow> nat \<Rightarrow> 'f array \<Rightarrow> 'f array go" where
  "removeFirst R E value' all' i [] = ok all'"
| "removeFirst R E value' all' i (v # vs) = go_bind (sameValue R E v value') (\<lambda>same.
     if same then (let j = (if int (length all') = int i - 1 then i else i + 1) in ok (take i all' @ drop j all'))
     else removeFirst R E value' all' (i + 1) vs)"

definition WindowFuncAggregatedStatus_Inverse ::
  "'f Runtime \<Rightarrow> 'f AggEnv \<Rightarrow> 'f Value option \<Rightarrow> 'f WindowFuncAggregatedStatus \<Rightarrow> 'f WindowFuncAggregatedStatus go" where
  "WindowFuncAggregatedStatus_Inverse R E value' s =
     go_bind (removeFirst R E value' (wsValues s) 0 (wsValues s)) (\<lambda>vs. ok (s\<lparr>wsValues := vs\<rparr>))"

section \<open>Aggregates over the frame\<close>

definition WINDOW_ANY_VALUE_Done :: "'f WindowFuncAggregatedStatus \<Rightarrow> 'f Value option go" where
  "WINDOW_ANY_VALUE_Done agg = ok (case wsValues agg of [] \<Rightarrow> None | v # _ \<Rightarrow> v)"

text \<open>An error of \<open>RelevantValues\<close> is dropped here, and the array is then nil, like an empty one.\<close>

definition WINDOW_ARRAY_AGG_Done :: "'f Runtime \<Rightarrow> 'f WindowFuncAggregatedStatus \<Rightarrow> 'f Value option go" where
  "WINDOW_ARRAY_AGG_Done R agg = go_bind (safely [] (RelevantValues R agg)) (\<lambda>vs. ok (Some (ArrayValue vs)))"

definition averageStep ::
  "'f Runtime \<Rightarrow> 'f Value option \<Rightarrow> int \<times> 'f Value option \<Rightarrow> (int \<times> 'f Value option) go" where
  "averageStep R v s = (case s of (cnt, acc) \<Rightarrow> onValue v (ok s) (\<lambda>x.
     (case acc of
        None \<Rightarrow> go_bind (Value_ToFloat64 R x) (\<lambda>f64. ok (cnt + 1, Some (FloatValue f64)))
      | Some a \<Rightarrow> go_bind (Value_Add R a (Some x)) (\<lambda>added. ok (cnt + 1, added)))))"

definition WINDOW_AVG_Done :: "'f Runtime \<Rightarrow> 'f WindowFuncAggregatedStatus \<Rightarrow> 'f Value option go" where
  "WINDOW_AVG_Done R agg = go_bind (RelevantValues R agg) (\<lambda>vs.
     go_bind (goFold (averageStep R) vs (0, None)) (\<lambda>(cnt, acc).
     onValue acc (ok None) (\<lambda>a. Value_Div R a (Some (FloatValue (flOfInt R cnt))))))"

definition WINDOW_COUNT_Step ::
  "'f array \<Rightarrow> 'f WindowFuncAggregatedStatus \<Rightarrow> 'f WindowFuncAggregatedStatus go" where
  "WINDOW_COUNT_Step vs agg = (case vs of
     (Some v) # _ \<Rightarrow> ok (agg\<lparr>wsValues := wsValues agg @ [Some v]\<rparr>)
   | _ \<Rightarrow> ok agg)"

definition WINDOW_COUNT_Done :: "'f Runtime \<Rightarrow> 'f WindowFuncAggregatedStatus \<Rightarrow> 'f Value option go" where
  "WINDOW_COUNT_Done R agg = go_bind (RelevantValues R agg) (\<lambda>vs. ok (Some (IntValue (int (length vs)))))"

definition WINDOW_COUNT_STAR_Done :: "'f Runtime \<Rightarrow> 'f WindowFuncAggregatedStatus \<Rightarrow> 'f Value option go" where
  "WINDOW_COUNT_STAR_Done R agg = go_bind (RelevantValues R agg) (\<lambda>vs. ok (Some (IntValue (int (length vs)))))"

definition countTrue :: "'f Runtime \<Rightarrow> 'f Value option \<Rightarrow> int \<Rightarrow> int go" where
  "countTrue R v count = onValue v (ok count) (\<lambda>x.
     go_bind (Value_ToBool R x) (\<lambda>cond. ok (if cond then wrap64 (count + 1) else count)))"

definition WINDOW_COUNTIF_Done :: "'f Runtime \<Rightarrow> 'f WindowFuncAggregatedStatus \<Rightarrow> 'f Value option go" where
  "WINDOW_COUNTIF_Done R agg = go_bind (RelevantValues R agg) (\<lambda>vs.
     go_bind (goFold (countTrue R) vs 0) (\<lambda>count. ok (Some (IntValue count))))"

definition extremeStep :: "'f Runtime \<Rightarrow> CmpOp \<Rightarrow> 'f Value option \<Rightarrow> 'f Value option \<Rightarrow> 'f Value option go" where
  "extremeStep R op v m = onValue v (ok m) (\<lambda>x. case m of
     None \<Rightarrow> ok (Some x)
   | Some cur \<Rightarrow> go_bind (Value_compare R op x (Some cur)) (\<lambda>cond. ok (Some (if cond then x else cur))))"

definition WINDOW_MAX_Done :: "'f Runtime \<Rightarrow> 'f WindowFuncAggregatedStatus \<Rightarrow> 'f Value option go" where
  "WINDOW_MAX_Done R agg = go_bind (RelevantValues R agg) (\<lambda>vs. goFold (extremeStep R GT) vs None)"

definition WINDOW_MIN_Done :: "'f Runtime \<Rightarrow> 'f WindowFuncAggregatedStatus \<Rightarrow> 'f Value option go" where
  "WINDOW_MIN_Done R agg = go_bind (RelevantValues R agg) (\<lambda>vs. goFold (extremeStep R LT) vs None)"

text \<open>The field \<open>delim\<close>.\<close>

definition WINDOW_STRING_AGG_ParseArguments :: "'f Runtime \<Rightarrow> 'f array \<Rightarrow> string \<Rightarrow> string go" where
  "WINDOW_STRING_AGG_ParseArguments R args delim =
     (if length args > 1 then onNil (args ! 1) (Value_ToString R) else ok '','')"

definition textStep :: "'f Runtime \<Rightarrow> 'f Value option \<Rightarrow> string list \<Rightarrow> string list go" where
  "textStep R v strValues = onValue v (ok strValues) (\<lambda>x. go_bind (Value_ToString R x) (\<lambda>t. ok (strValues @ [t])))"

definition WINDOW_STRING_AGG_Done ::
  "'f Runtime \<Rightarrow> string \<Rightarrow> 'f WindowFuncAggregatedStatus \<Rightarrow> 'f Value option go" where
  "WINDOW_STRING_AGG_Done R delim agg = go_bind (RelevantValues R agg) (\<lambda>vs.
     go_bind (goFold (textStep R) vs []) (\<lambda>strValues.
     ok (if strValues = [] then None else Some (StringValue (joinStrings delim strValues)))))"

definition WINDOW_SUM_Done :: "'f Runtime \<Rightarrow> 'f WindowFuncAggregatedStatus \<Rightarrow> 'f Value option go" where
  "WINDOW_SUM_Done R agg = go_bind (RelevantValues R agg) (\<lambda>vs.
     goFold (\<lambda>v acc. onValue v (ok acc) (addTo R acc)) vs None)"

text \<open>A NULL in the frame has no \<open>ToBool\<close>: it panics.\<close>

fun allTrue :: "'f Runtime \<Rightarrow> 'f array \<Rightarrow> bool go" where
  "allTrue R [] = ok True"
| "allTrue R (v # vs) = go_bind (onNil v (Value_ToBool R)) (\<lambda>b. if b then allTrue R vs else ok False)"

fun anyTrue :: "'f Runtime \<Rightarrow> 'f array \<Rightarrow> bool go" where
  "anyTrue R [] = ok False"
| "anyTrue R (v # vs) = go_bind (onNil v (Value_ToBool R)) (\<lambda>b. if b then ok True else anyTrue R vs)"

definition WINDOW_LOGICAL_AND_Done :: "'f Runtime \<Rightarrow> 'f WindowFuncAggregatedStatus \<Rightarrow> 'f Value option go" where
  "WINDOW_LOGICAL_AND_Done R agg = go_bind (RelevantValues R agg) (\<lambda>vs.
     go_bind (allTrue R vs) (\<lambda>b. ok (Some (BoolValue b))))"

definition WINDOW_LOGICAL_OR_Done :: "'f Runtime \<Rightarrow> 'f WindowFuncAggregatedStatus \<Rightarrow> 'f Value option go" where
  "WINDOW_LOGICAL_OR_Done R agg = go_bind (RelevantValues R agg) (\<lambda>vs.
     go_bind (anyTrue R vs) (\<lambda>b. ok (Some (BoolValue b))))"

section \<open>Values at a position\<close>

definition WINDOW_FIRST_VALUE_Done :: "'f Runtime \<Rightarrow> 'f WindowFuncAggregatedStatus \<Rightarrow> 'f Value option go" where
  "WINDOW_FIRST_VALUE_Done R agg = go_bind (RelevantValues R agg) (\<lambda>vs. ok (if vs = [] then None else hd vs))"

definition WINDOW_LAST_VALUE_Done :: "'f Runtime \<Rightarrow> 'f WindowFuncAggregatedStatus \<Rightarrow> 'f Value option go" where
  "WINDOW_LAST_VALUE_Done R agg = go_bind (RelevantValues R agg) (\<lambda>vs. ok (if vs = [] then None else last vs))"

record 'f Offset =
  ofOffset :: int
  ofDefaultValue :: "'f Value option"

definition offsetArgument :: "'f Runtime \<Rightarrow> string \<Rightarrow> 'f Value option \<Rightarrow> int go" where
  "offsetArgument R func arg = onValue arg
     (fail_with (func @ '': constant integer expression must be not null value'')) (\<lambda>a.
     go_bind (wrapGo func (Value_ToInt64 R a)) (\<lambda>offset.
       if offset < 0 then
         fail_with (func @ '': Argument 2 to '' @ func @ '' must be at least 0; got '' @ sprintInt offset)
       else ok offset))"

definition WINDOW_LEAD_ParseArguments :: "'f Runtime \<Rightarrow> 'f array \<Rightarrow> 'f Offset \<Rightarrow> 'f Offset go" where
  "WINDOW_LEAD_ParseArguments R args f =
     (if length args > 3 then
        fail_with (''LEAD: expected at most 3 arguments; got ['' @ sprintNat (length args) @ '']'')
      else go_bind (if length args > 1 then offsetArgument R ''LEAD'' (args ! 1) else ok 1) (\<lambda>offset.
        ok \<lparr>ofOffset = offset, ofDefaultValue = (if length args > 2 then args ! 2 else None)\<rparr>))"

definition WINDOW_LEAD_Done :: "'f Offset \<Rightarrow> 'f WindowFuncAggregatedStatus \<Rightarrow> 'f Value option go" where
  "WINDOW_LEAD_Done f agg =
     (if int (length (wsValues agg)) - 1 < ofOffset f then ok (ofDefaultValue f)
      else indexed (wsValues agg) (ofOffset f))"

definition WINDOW_LAG_ParseArguments :: "'f Runtime \<Rightarrow> 'f array \<Rightarrow> 'f Offset \<Rightarrow> 'f Offset go" where
  "WINDOW_LAG_ParseArguments R args f =
     (if length args > 3 then
        fail_with (''LEAD: expected at most 3 arguments; got ['' @ sprintNat (length args) @ '']'')
      else go_bind (if length args > 1 then offsetArgument R ''LAG'' (args ! 1) else ok 1) (\<lambda>offset.
        ok \<lparr>ofOffset = offset, ofDefaultValue = (if length args > 2 then args ! 2 else None)\<rparr>))"

definition WINDOW_LAG_Done :: "'f Offset \<Rightarrow> 'f WindowFuncAggregatedStatus \<Rightarrow> 'f Value option go" where
  "WINDOW_LAG_Done f agg =
     (if int (length (wsValues agg)) - 1 < ofOffset f then ok (ofDefaultValue f)
      else indexed (wsValues agg) (int (length (wsValues agg)) - ofOffset f - 1))"

text \<open>The field \<open>n\<close>, counted from 0; it is not checked to be positive.\<close>

definition WINDOW_NTH_VALUE_ParseArguments :: "'f Runtime \<Rightarrow> 'f array \<Rightarrow> int \<Rightarrow> int go" where
  "WINDOW_NTH_VALUE_ParseArguments R args f = withArg 1 args (\<lambda>arg. onValue arg
     (fail_with ''NTH_VALUE: constant integer expression must be not null value'') (\<lambda>a.
     go_bind (wrapGo ''NTH_VALUE'' (Value_ToInt64 R a)) (\<lambda>n. ok (wrap64 (n - 1)))))"

definition WINDOW_NTH_VALUE_Done :: "'f Runtime \<Rightarrow> int \<Rightarrow> 'f WindowFuncAggregatedStatus \<Rightarrow> 'f Value option go" where
  "WINDOW_NTH_VALUE_Done R n agg = go_bind (RelevantValues R agg) (\<lambda>vs.
     if int (length vs) - 1 < n then ok None else indexed vs n)"

end
