(* ===== verification/Func_Rank.thy ===== *)
theory Func_Rank
  imports Func_Window
begin

text \<open>
  The rest of \<open>internal/function_window.go\<close>: percentiles, the functions that count rows, and statistics. The
  aliases \<open>WINDOW_STDDEV\<close> and \<open>WINDOW_VARIANCE\<close> are \<open>WINDOW_STDDEV_SAMP\<close> and \<open>WINDOW_VAR_SAMP\<close>.
\<close>

section \<open>Percentiles\<close>

text \<open>\<open>cond, _ := v.LT(w)\<close>: an error reads as false.\<close>

definition compares :: "'f Runtime \<Rightarrow> CmpOp \<Rightarrow> 'f Value option \<Rightarrow> 'f Value option \<Rightarrow> bool go" where
  "compares R op v w = onNil v (\<lambda>x. safely False (Value_compare R op x w))"

definition checkPercentile :: "'f Runtime \<Rightarrow> string \<Rightarrow> 'f Value option \<Rightarrow> unit go" where
  "checkPercentile R func percentile =
     go_bind (compares R LT percentile (Some (IntValue 0))) (\<lambda>cond.
     if cond then fail_with (func @ '': percentile value must be greater than zero'')
     else go_bind (compares R GT percentile (Some (IntValue 1))) (\<lambda>cond.
       if cond then fail_with (func @ '': percentile value must be less than one'') else ok ()))"

definition WINDOW_PERCENTILE_CONT_ParseArguments ::
  "'f array \<Rightarrow> 'f Value option \<Rightarrow> 'f Value option go" where
  "WINDOW_PERCENTILE_CONT_ParseArguments args f = withArg 1 args ok"

text \<open>The values that are not NULL, with their integers.\<close>

definition presentInts :: "'f Runtime \<Rightarrow> 'f array \<Rightarrow> ('f Value \<times> int) list go" where
  "presentInts R vs = goList (map (\<lambda>v. go_bind (Value_ToInt64 R v) (\<lambda>i. ok (v, i))) (List.map_filter id vs))"

definition keepExtreme :: "'f Runtime \<Rightarrow> CmpOp \<Rightarrow> 'f Value \<Rightarrow> 'f Value \<Rightarrow> 'f Value go" where
  "keepExtreme R op v m = go_bind (safely False (Value_compare R op v (Some m))) (\<lambda>cond. ok (if cond then v else m))"

text \<open>The interpolation between the rows around the row number.\<close>

definition interpolate ::
  "'f Runtime \<Rightarrow> 'f AggEnv \<Rightarrow> int list \<Rightarrow> 'f \<Rightarrow> ('f \<times> 'f \<times> 'f Value \<times> 'f Value) go" where
  "interpolate R E ints rowNumber =
     (let floorRowNumber = aeFloor E rowNumber; ceilingRowNumber = aeCeil E rowNumber; one = flOfInt R 1 in
      go_bind (indexed ints (flToInt R (flSub R floorRowNumber one))) (\<lambda>low.
      go_bind (indexed ints (flToInt R (flSub R ceilingRowNumber one))) (\<lambda>high.
      ok (floorRowNumber, ceilingRowNumber, FloatValue (flOfInt R low), FloatValue (flOfInt R high)))))"

definition WINDOW_PERCENTILE_CONT_Done ::
  "'f Runtime \<Rightarrow> 'f AggEnv \<Rightarrow> 'f Value option \<Rightarrow> 'f WindowFuncAggregatedStatus \<Rightarrow> 'f Value option go" where
  "WINDOW_PERCENTILE_CONT_Done R E percentile agg =
     go_bind (checkPercentile R ''PERCENTILE_CONT'' percentile) (\<lambda>_.
     go_bind (RelevantValues R agg) (\<lambda>vs.
     go_bind (presentInts R vs) (\<lambda>filtered.
     if filtered = [] then ok None
     else go_bind (onNil percentile (Value_ToFloat64 R)) (\<lambda>p.
       let n = length filtered;
           rowNumber = flAdd R (flOfInt R 1) (flMul R p (flOfInt R (int n - 1)))
       in go_bind (interpolate R E (sort (map snd filtered)) rowNumber)
            (\<lambda>(floorRowNumber, ceilingRowNumber, floorValue, ceilingValue).
          go_bind (goFold (keepExtreme R GT) (map fst filtered) (fst (hd filtered))) (\<lambda>maxValue.
          go_bind (goFold (keepExtreme R LT) (map fst filtered) (fst (hd filtered))) (\<lambda>minValue.
          go_bind (safely False (Value_compare R EQ maxValue (Some (IntValue 0)))) (\<lambda>zero.
          if zero then ok (Some (FloatValue (flOfInt R 0)))
          else if flEq R ceilingRowNumber floorRowNumber \<and> flEq R ceilingRowNumber rowNumber then ok (Some floorValue)
          else
            go_bind (Value_Mul R ceilingValue (Some (FloatValue (flSub R rowNumber floorRowNumber)))) (\<lambda>leftSide.
            go_bind (Value_Mul R floorValue (Some (FloatValue (flSub R ceilingRowNumber rowNumber)))) (\<lambda>rightSide.
            onNil leftSide (\<lambda>l. Value_Add R l rightSide)))))))))))"

definition WINDOW_PERCENTILE_DISC_ParseArguments ::
  "'f array \<Rightarrow> 'f Value option \<Rightarrow> 'f Value option go" where
  "WINDOW_PERCENTILE_DISC_ParseArguments args f = withArg 1 args ok"

definition discreteLess :: "'f Runtime \<Rightarrow> 'f Value option \<Rightarrow> 'f Value option \<Rightarrow> bool go" where
  "discreteLess R a b = onValue a (ok True) (\<lambda>x. onValue b (ok False) (\<lambda>y. safely False (Value_compare R LT x (Some y))))"

text \<open>Index 0 of the sorted values is taken for no value.\<close>

definition WINDOW_PERCENTILE_DISC_Done ::
  "'f Runtime \<Rightarrow> 'f AggEnv \<Rightarrow> 'f Value option \<Rightarrow> 'f WindowFuncAggregatedStatus \<Rightarrow> 'f Value option go" where
  "WINDOW_PERCENTILE_DISC_Done R E percentile agg =
     go_bind (checkPercentile R ''PERCENTILE_DISC'' percentile) (\<lambda>_.
     go_bind (RelevantValues R agg) (\<lambda>vs.
     if List.null vs then ok None
     else go_bind (aeSortValues E (\<lambda>_. discreteLess R) vs) (\<lambda>sorted.
       go_bind (onNil percentile (\<lambda>p. Value_Mul R p (Some (IntValue (int (length vs)))))) (\<lambda>pickPoint.
       go_bind (compares R EQ pickPoint (Some (IntValue 0))) (\<lambda>zero.
       if zero then indexed sorted 0
       else go_bind (onNil pickPoint (Value_ToFloat64 R)) (\<lambda>fIdx.
         let idx = flToInt R fIdx;
             idx = (if flLess R (flOfInt R idx) fIdx then wrap64 (idx + 1) else idx);
             idx = wrap64 (idx - 1)
         in if idx > 0 then indexed sorted idx else ok None))))))"

section \<open>Counting rows\<close>

definition WINDOW_RANK_Done :: "'f Runtime \<Rightarrow> 'f WindowFuncAggregatedStatus \<Rightarrow> 'f Value option go" where
  "WINDOW_RANK_Done R agg = go_bind (RelevantValues R agg) (\<lambda>vs. ok (Some (IntValue (int (length vs)))))"

text \<open>The fields \<open>nStep\<close>, \<open>nTotal\<close> and, for NTILE, \<open>nParam\<close> and \<open>iRow\<close>; \<open>nValue\<close> is only a local name.\<close>

record Counters =
  nStep :: int
  nTotal :: int

definition noRows :: Counters where
  "noRows = \<lparr>nStep = 0, nTotal = 0\<rparr>"

definition WINDOW_DENSE_RANK_Step :: "Counters \<Rightarrow> Counters go" where
  "WINDOW_DENSE_RANK_Step f = ok (f\<lparr>nStep := 1\<rparr>)"

definition WINDOW_DENSE_RANK_Done :: "Counters \<Rightarrow> ('f Value option \<times> Counters) go" where
  "WINDOW_DENSE_RANK_Done f =
     (let f' = (if nStep f \<noteq> 0 then f\<lparr>nTotal := wrap64 (nTotal f + 1)\<rparr> else f) in
      ok (Some (IntValue (nTotal f')), f'))"

definition WINDOW_PERCENT_RANK_Step :: "Counters \<Rightarrow> Counters go" where
  "WINDOW_PERCENT_RANK_Step f = ok (f\<lparr>nTotal := wrap64 (nTotal f + 1)\<rparr>)"

definition WINDOW_PERCENT_RANK_Inverse :: "Counters \<Rightarrow> Counters go" where
  "WINDOW_PERCENT_RANK_Inverse f = ok (f\<lparr>nStep := wrap64 (nStep f + 1)\<rparr>)"

definition WINDOW_PERCENT_RANK_Done :: "'f Runtime \<Rightarrow> Counters \<Rightarrow> 'f Value option go" where
  "WINDOW_PERCENT_RANK_Done R f =
     ok (Some (FloatValue (if nTotal f > 1 then flDiv R (flOfInt R (nStep f)) (flOfInt R (wrap64 (nTotal f - 1)))
       else flOfInt R 0)))"

definition WINDOW_CUME_DIST_Step :: "Counters \<Rightarrow> Counters go" where
  "WINDOW_CUME_DIST_Step f = ok (f\<lparr>nTotal := wrap64 (nTotal f + 1)\<rparr>)"

definition WINDOW_CUME_DIST_Inverse :: "Counters \<Rightarrow> Counters go" where
  "WINDOW_CUME_DIST_Inverse f = ok (f\<lparr>nStep := wrap64 (nStep f + 1)\<rparr>)"

definition WINDOW_CUME_DIST_Done :: "'f Runtime \<Rightarrow> Counters \<Rightarrow> 'f Value option go" where
  "WINDOW_CUME_DIST_Done R f = ok (Some (FloatValue (flDiv R (flOfInt R (nStep f)) (flOfInt R (nTotal f)))))"

record Ntile =
  ntParam :: int
  ntTotal :: int
  ntRow :: int

definition WINDOW_NTILE_ParseArguments :: "'f Runtime \<Rightarrow> 'f array \<Rightarrow> Ntile \<Rightarrow> Ntile go" where
  "WINDOW_NTILE_ParseArguments R args f = (case args of
     [] \<Rightarrow> fail_with ''NTILE: must provide one argument''
   | arg # _ \<Rightarrow> onValue arg (fail_with ''NTILE: constant integer expression must be not null value'') (\<lambda>a.
       go_bind (wrapGo ''NTILE: error parsing argument'' (Value_ToInt64 R a)) (\<lambda>n.
         if n \<le> 0 then fail_with ''NTILE: constant integer expression must be positive value''
         else ok (f\<lparr>ntParam := n\<rparr>))))"

definition WINDOW_NTILE_Step :: "Ntile \<Rightarrow> Ntile go" where
  "WINDOW_NTILE_Step f = ok (f\<lparr>ntTotal := wrap64 (ntTotal f + 1)\<rparr>)"

definition WINDOW_NTILE_Inverse :: "Ntile \<Rightarrow> Ntile go" where
  "WINDOW_NTILE_Inverse f = ok (f\<lparr>ntRow := wrap64 (ntRow f + 1)\<rparr>)"

definition WINDOW_NTILE_Done :: "Ntile \<Rightarrow> 'f Value option go" where
  "WINDOW_NTILE_Done f =
     (if ntParam f = 0 then panic ''integer divide by zero''
      else let nSize = wrap64 (ntTotal f sdiv ntParam f) in
        if nSize = 0 then ok (Some (IntValue (wrap64 (ntRow f + 1))))
        else let nLarge = wrap64 (ntTotal f - ntParam f * nSize); iSmall = wrap64 (nLarge * (nSize + 1)) in
          if wrap64 (nLarge * (nSize + 1) + (ntParam f - nLarge) * nSize) \<noteq> ntTotal f then fail_with ''assertion failed''
          else if ntRow f < iSmall then
            (if wrap64 (nSize + 1) = 0 then panic ''integer divide by zero''
             else ok (Some (IntValue (wrap64 (1 + ntRow f sdiv wrap64 (nSize + 1))))))
          else ok (Some (IntValue (wrap64 (1 + nLarge + wrap64 (ntRow f - iSmall) sdiv nSize)))))"

definition WINDOW_ROW_NUMBER_Done :: "'f WindowFuncAggregatedStatus \<Rightarrow> 'f Value option go" where
  "WINDOW_ROW_NUMBER_Done agg = ok (Some (IntValue (int (length (wsValues agg)))))"

section \<open>Statistics\<close>

definition pairOf :: "'f Runtime \<Rightarrow> string \<Rightarrow> 'f Value option \<Rightarrow> ('f \<times> 'f) go" where
  "pairOf R func v = go_bind (onNil v (Value_ToArray R)) (\<lambda>arr. onNil arr (\<lambda>xs. case xs of
     [a, b] \<Rightarrow> go_bind (onNil a (Value_ToFloat64 R)) (\<lambda>x1. go_bind (onNil b (Value_ToFloat64 R)) (\<lambda>x2. ok (x1, x2)))
   | _ \<Rightarrow> fail_with (''invalid '' @ func @ '' arguments'')))"

definition statOfPairs ::
  "'f Runtime \<Rightarrow> string \<Rightarrow> ('f list \<Rightarrow> 'f list \<Rightarrow> 'f) \<Rightarrow> 'f WindowFuncAggregatedStatus \<Rightarrow> 'f Value option go" where
  "statOfPairs R func stat agg = go_bind (RelevantValues R agg) (\<lambda>vs.
     if length vs < 2 then ok None
     else go_bind (goList (map (pairOf R func) vs)) (\<lambda>ps. ok (Some (FloatValue (stat (map fst ps) (map snd ps))))))"

definition WINDOW_CORR_Done :: "'f Runtime \<Rightarrow> 'f AggEnv \<Rightarrow> 'f WindowFuncAggregatedStatus \<Rightarrow> 'f Value option go" where
  "WINDOW_CORR_Done R E agg = statOfPairs R ''corr'' (aeCorrelation E) agg"

definition WINDOW_COVAR_POP_Done :: "'f Runtime \<Rightarrow> 'f AggEnv \<Rightarrow> 'f WindowFuncAggregatedStatus \<Rightarrow> 'f Value option go" where
  "WINDOW_COVAR_POP_Done R E agg = statOfPairs R ''covar_pop'' (aeCovariance E) agg"

definition WINDOW_COVAR_SAMP_Done :: "'f Runtime \<Rightarrow> 'f AggEnv \<Rightarrow> 'f WindowFuncAggregatedStatus \<Rightarrow> 'f Value option go" where
  "WINDOW_COVAR_SAMP_Done R E agg = statOfPairs R ''covar_samp'' (aeCovariance E) agg"

definition statOfFloats ::
  "'f Runtime \<Rightarrow> ('f list \<Rightarrow> 'f) \<Rightarrow> 'f WindowFuncAggregatedStatus \<Rightarrow> 'f Value option go" where
  "statOfFloats R stat agg = go_bind (RelevantValues R agg) (\<lambda>vs.
     if length vs < 2 then ok None
     else go_bind (goList (map (\<lambda>v. onNil v (Value_ToFloat64 R)) vs)) (\<lambda>fs. ok (Some (FloatValue (stat fs)))))"

definition WINDOW_STDDEV_POP_Done :: "'f Runtime \<Rightarrow> 'f AggEnv \<Rightarrow> 'f WindowFuncAggregatedStatus \<Rightarrow> 'f Value option go" where
  "WINDOW_STDDEV_POP_Done R E agg = statOfFloats R (aePopStdDev E) agg"

definition WINDOW_STDDEV_SAMP_Done :: "'f Runtime \<Rightarrow> 'f AggEnv \<Rightarrow> 'f WindowFuncAggregatedStatus \<Rightarrow> 'f Value option go" where
  "WINDOW_STDDEV_SAMP_Done R E agg = statOfFloats R (aeStdDev E) agg"

definition WINDOW_VAR_POP_Done :: "'f Runtime \<Rightarrow> 'f AggEnv \<Rightarrow> 'f WindowFuncAggregatedStatus \<Rightarrow> 'f Value option go" where
  "WINDOW_VAR_POP_Done R E agg = statOfFloats R (aePopVariance E) agg"

definition WINDOW_VAR_SAMP_Done :: "'f Runtime \<Rightarrow> 'f AggEnv \<Rightarrow> 'f WindowFuncAggregatedStatus \<Rightarrow> 'f Value option go" where
  "WINDOW_VAR_SAMP_Done R E agg = statOfFloats R (aeVariance E) agg"

end
