(* ===== verification/Window_Bind.thy ===== *)
theory Window_Bind
  imports Func_Rank
begin

text \<open>
  \<open>internal/function_bind.go\<close>, window functions. SQLite calls \<open>Step\<close> for each row that enters the frame,
  \<open>WindowInverse\<close> for each row that leaves it and \<open>WindowValue\<close> for the value of the current row. The
  interfaces a struct may implement beside \<open>Done\<close> are optional components of \<open>WindowImpl\<close>.
\<close>

section \<open>The three kinds of window functions\<close>

record ('f, 'i) WindowImpl =
  wiInit :: 'i
  wiParseArguments :: "('f array \<Rightarrow> 'i \<Rightarrow> 'i go) option"
  wiStep :: "('f array \<Rightarrow> 'f WindowFuncAggregatedStatus \<Rightarrow> 'i \<Rightarrow> ('f WindowFuncAggregatedStatus \<times> 'i) go) option"
  wiInverse :: "('f array \<Rightarrow> 'f WindowFuncAggregatedStatus \<Rightarrow> 'i \<Rightarrow> ('f WindowFuncAggregatedStatus \<times> 'i) go) option"
  wiDone :: "'f WindowFuncAggregatedStatus \<Rightarrow> 'i \<Rightarrow> ('f Value option \<times> 'i) go"

text \<open>The frame, the struct, and whether its arguments have been parsed.\<close>

record ('f, 'i) WindowState =
  wdAgg :: "'f WindowFuncAggregatedStatus"
  wdImpl :: 'i
  wdParsed :: bool

record ('f, 'i) WindowAggregator =
  waInit :: "('f, 'i) WindowState"
  waStep :: "'f array \<Rightarrow> ('f, 'i) WindowState \<Rightarrow> ('f, 'i) WindowState go"
  waInverse :: "'f array \<Rightarrow> ('f, 'i) WindowState \<Rightarrow> ('f, 'i) WindowState go"
  waDone :: "('f, 'i) WindowState \<Rightarrow> ('f Value option \<times> ('f, 'i) WindowState) go"

definition initialWindow :: "('f, 'i) WindowImpl \<Rightarrow> ('f, 'i) WindowState" where
  "initialWindow impl = \<lparr>wdAgg = newWindowFuncAggregatedStatus, wdImpl = wiInit impl, wdParsed = False\<rparr>"

definition doneWindow ::
  "('f, 'i) WindowImpl \<Rightarrow> ('f, 'i) WindowState \<Rightarrow> ('f Value option \<times> ('f, 'i) WindowState) go" where
  "doneWindow impl s = go_bind (wiDone impl (wdAgg s) (wdImpl s)) (\<lambda>(v, i). ok (v, s\<lparr>wdImpl := i\<rparr>))"

definition onFrame ::
  "('f WindowFuncAggregatedStatus \<Rightarrow> 'f WindowFuncAggregatedStatus go) \<Rightarrow> ('f, 'i) WindowState \<Rightarrow> ('f, 'i) WindowState go" where
  "onFrame f s = go_bind (f (wdAgg s)) (\<lambda>agg. ok (s\<lparr>wdAgg := agg\<rparr>))"

text \<open>A custom step or inverse of the struct, or the default on the frame.\<close>

definition customOr ::
  "('f array \<Rightarrow> 'f WindowFuncAggregatedStatus \<Rightarrow> 'i \<Rightarrow> ('f WindowFuncAggregatedStatus \<times> 'i) go) option
    \<Rightarrow> 'f array \<Rightarrow> (('f, 'i) WindowState \<Rightarrow> ('f, 'i) WindowState go) \<Rightarrow> ('f, 'i) WindowState \<Rightarrow> ('f, 'i) WindowState go" where
  "customOr custom vs default' s = (case custom of
     None \<Rightarrow> default' s
   | Some f \<Rightarrow> go_bind (f vs (wdAgg s) (wdImpl s)) (\<lambda>(agg, i). ok (s\<lparr>wdAgg := agg, wdImpl := i\<rparr>)))"

definition setOption :: "'f AggregatorOption \<Rightarrow> ('f, 'i) WindowState \<Rightarrow> ('f, 'i) WindowState" where
  "setOption opt s = s\<lparr>wdAgg := (wdAgg s)\<lparr>wsOpt := opt\<rparr>\<rparr>"

definition parseOnce :: "('f, 'i) WindowImpl \<Rightarrow> 'f array \<Rightarrow> ('f, 'i) WindowState \<Rightarrow> ('f, 'i) WindowState go" where
  "parseOnce impl vs s =
     (if wdParsed s then ok s
      else case wiParseArguments impl of
          None \<Rightarrow> ok (s\<lparr>wdParsed := True\<rparr>)
        | Some parse \<Rightarrow> go_bind (parse vs (wdImpl s)) (\<lambda>i. ok (s\<lparr>wdImpl := i, wdParsed := True\<rparr>)))"

definition singleStep ::
  "'f Runtime \<Rightarrow> 'f OptionJson \<Rightarrow> ('f, 'i) WindowImpl \<Rightarrow> 'f array \<Rightarrow> ('f, 'i) WindowState \<Rightarrow> ('f, 'i) WindowState go" where
  "singleStep R J impl args s = go_bind (parseAggregateOptions R J args) (\<lambda>(vs, opt).
     go_bind (wrapGo ''failed to parse aggregate options'' (parseOnce impl vs (setOption opt s))) (\<lambda>s.
     customOr (wiStep impl) vs (\<lambda>s. withArg 0 vs (\<lambda>v. onFrame (WindowFuncAggregatedStatus_Step v) s)) s))"

definition newSingleItemWindowAggregator ::
  "'f Runtime \<Rightarrow> 'f AggEnv \<Rightarrow> 'f OptionJson \<Rightarrow> ('f, 'i) WindowImpl \<Rightarrow> ('f, 'i) WindowAggregator" where
  "newSingleItemWindowAggregator R E J impl =
     \<lparr>waInit = initialWindow impl,
      waStep = singleStep R J impl,
      waInverse = (\<lambda>args s. customOr (wiInverse impl) args
        (\<lambda>s. withArg 0 args (\<lambda>v. onFrame (WindowFuncAggregatedStatus_Inverse R E v) s)) s),
      waDone = doneWindow impl\<rparr>"

text \<open>Both arguments become one array; a row leaves the frame as the value nil, which is never in it.\<close>

definition newTupleItemWindowAggregator ::
  "'f Runtime \<Rightarrow> 'f AggEnv \<Rightarrow> 'f OptionJson \<Rightarrow> ('f, 'i) WindowImpl \<Rightarrow> ('f, 'i) WindowAggregator" where
  "newTupleItemWindowAggregator R E J impl =
     \<lparr>waInit = initialWindow impl,
      waStep = (\<lambda>args s.
        if length args < 2 then fail_with ''must provide both x and y values''
        else go_bind (wrapGo ''failed to parse aggregate options'' (parseAggregateOptions R J args)) (\<lambda>(vs, opt).
          withArg 0 vs (\<lambda>x. withArg 1 vs (\<lambda>y.
            onValue x (ok (setOption opt s)) (\<lambda>x. onValue y (ok (setOption opt s)) (\<lambda>y.
              onFrame (WindowFuncAggregatedStatus_Step (Some (ArrayValue [Some x, Some y]))) (setOption opt s))))))),
      waInverse = (\<lambda>args s. onFrame (WindowFuncAggregatedStatus_Inverse R E None) s),
      waDone = doneWindow impl\<rparr>"

definition newWindowAggregatorWithoutArguments ::
  "'f Runtime \<Rightarrow> 'f AggEnv \<Rightarrow> ('f, 'i) WindowImpl \<Rightarrow> ('f, 'i) WindowAggregator" where
  "newWindowAggregatorWithoutArguments R E impl =
     \<lparr>waInit = initialWindow impl,
      waStep = (\<lambda>args s. customOr (wiStep impl) args (onFrame (WindowFuncAggregatedStatus_Step (Some (IntValue 1)))) s),
      waInverse = (\<lambda>args s. customOr (wiInverse impl) args
        (onFrame (WindowFuncAggregatedStatus_Inverse R E (Some (IntValue 1)))) s),
      waDone = doneWindow impl\<rparr>"

section \<open>What SQLite calls\<close>

definition WindowAggregator_Step ::
  "nat \<Rightarrow> 'f Runtime \<Rightarrow> 'f Json \<Rightarrow> ('f, 'i) WindowAggregator \<Rightarrow> 'f GoAny list \<Rightarrow> ('f, 'i) WindowState
    \<Rightarrow> ('f, 'i) WindowState go" where
  "WindowAggregator_Step n R K A stepArgs s = go_bind (convertArgs n R K stepArgs) (\<lambda>vs. waStep A vs s)"

definition WindowAggregator_WindowInverse ::
  "nat \<Rightarrow> 'f Runtime \<Rightarrow> 'f Json \<Rightarrow> ('f, 'i) WindowAggregator \<Rightarrow> 'f GoAny list \<Rightarrow> ('f, 'i) WindowState
    \<Rightarrow> ('f, 'i) WindowState go" where
  "WindowAggregator_WindowInverse n R K A stepArgs s = go_bind (convertArgs n R K stepArgs) (\<lambda>vs. waInverse A vs s)"

definition WindowAggregator_WindowValue ::
  "'f Runtime \<Rightarrow> 'f Json \<Rightarrow> ('f, 'i) WindowAggregator \<Rightarrow> ('f, 'i) WindowState \<Rightarrow> ('f GoAny \<times> ('f, 'i) WindowState) go" where
  "WindowAggregator_WindowValue R K A s = go_bind (waDone A s) (\<lambda>(ret, s). go_bind (EncodeValue R K ret) (\<lambda>a. ok (a, s)))"

section \<open>The functions\<close>

text \<open>A struct without fields, and a frame that its step or inverse leaves alone.\<close>

definition plainImpl :: "('f WindowFuncAggregatedStatus \<Rightarrow> 'f Value option go) \<Rightarrow> ('f, unit) WindowImpl" where
  "plainImpl done' = \<lparr>wiInit = (), wiParseArguments = None, wiStep = None, wiInverse = None,
     wiDone = (\<lambda>agg i. go_bind (done' agg) (\<lambda>v. ok (v, i)))\<rparr>"

definition parsingImpl ::
  "'i \<Rightarrow> ('f array \<Rightarrow> 'i \<Rightarrow> 'i go) \<Rightarrow> ('i \<Rightarrow> 'f WindowFuncAggregatedStatus \<Rightarrow> 'f Value option go) \<Rightarrow> ('f, 'i) WindowImpl" where
  "parsingImpl i0 parse done' = \<lparr>wiInit = i0, wiParseArguments = Some parse, wiStep = None, wiInverse = None,
     wiDone = (\<lambda>agg i. go_bind (done' i agg) (\<lambda>v. ok (v, i)))\<rparr>"

definition onImpl :: "('i \<Rightarrow> 'i go) \<Rightarrow> 'f array \<Rightarrow> 'f WindowFuncAggregatedStatus \<Rightarrow> 'i \<Rightarrow> ('f WindowFuncAggregatedStatus \<times> 'i) go" where
  "onImpl f vs agg i = go_bind (f i) (\<lambda>i. ok (agg, i))"

definition bindWindowAnyValue :: "'f Runtime \<Rightarrow> 'f AggEnv \<Rightarrow> 'f OptionJson \<Rightarrow> ('f, unit) WindowAggregator" where
  "bindWindowAnyValue R E J = newSingleItemWindowAggregator R E J (plainImpl WINDOW_ANY_VALUE_Done)"

definition bindWindowArrayAgg :: "'f Runtime \<Rightarrow> 'f AggEnv \<Rightarrow> 'f OptionJson \<Rightarrow> ('f, unit) WindowAggregator" where
  "bindWindowArrayAgg R E J = newSingleItemWindowAggregator R E J (plainImpl (WINDOW_ARRAY_AGG_Done R))"

definition bindWindowAvg :: "'f Runtime \<Rightarrow> 'f AggEnv \<Rightarrow> 'f OptionJson \<Rightarrow> ('f, unit) WindowAggregator" where
  "bindWindowAvg R E J = newSingleItemWindowAggregator R E J (plainImpl (WINDOW_AVG_Done R))"

definition bindWindowCount :: "'f Runtime \<Rightarrow> 'f AggEnv \<Rightarrow> 'f OptionJson \<Rightarrow> ('f, unit) WindowAggregator" where
  "bindWindowCount R E J = newSingleItemWindowAggregator R E J
     ((plainImpl (WINDOW_COUNT_Done R))\<lparr>wiStep := Some (\<lambda>vs agg i. go_bind (WINDOW_COUNT_Step vs agg) (\<lambda>agg. ok (agg, i)))\<rparr>)"

definition bindWindowCountStar :: "'f Runtime \<Rightarrow> 'f AggEnv \<Rightarrow> ('f, unit) WindowAggregator" where
  "bindWindowCountStar R E = newWindowAggregatorWithoutArguments R E (plainImpl (WINDOW_COUNT_STAR_Done R))"

definition bindWindowCountIf :: "'f Runtime \<Rightarrow> 'f AggEnv \<Rightarrow> 'f OptionJson \<Rightarrow> ('f, unit) WindowAggregator" where
  "bindWindowCountIf R E J = newSingleItemWindowAggregator R E J (plainImpl (WINDOW_COUNTIF_Done R))"

definition bindWindowLogicalAnd :: "'f Runtime \<Rightarrow> 'f AggEnv \<Rightarrow> 'f OptionJson \<Rightarrow> ('f, unit) WindowAggregator" where
  "bindWindowLogicalAnd R E J = newSingleItemWindowAggregator R E J (plainImpl (WINDOW_LOGICAL_AND_Done R))"

definition bindWindowLogicalOr :: "'f Runtime \<Rightarrow> 'f AggEnv \<Rightarrow> 'f OptionJson \<Rightarrow> ('f, unit) WindowAggregator" where
  "bindWindowLogicalOr R E J = newSingleItemWindowAggregator R E J (plainImpl (WINDOW_LOGICAL_OR_Done R))"

definition bindWindowMax :: "'f Runtime \<Rightarrow> 'f AggEnv \<Rightarrow> 'f OptionJson \<Rightarrow> ('f, unit) WindowAggregator" where
  "bindWindowMax R E J = newSingleItemWindowAggregator R E J (plainImpl (WINDOW_MAX_Done R))"

definition bindWindowMin :: "'f Runtime \<Rightarrow> 'f AggEnv \<Rightarrow> 'f OptionJson \<Rightarrow> ('f, unit) WindowAggregator" where
  "bindWindowMin R E J = newSingleItemWindowAggregator R E J (plainImpl (WINDOW_MIN_Done R))"

definition bindWindowStringAgg :: "'f Runtime \<Rightarrow> 'f AggEnv \<Rightarrow> 'f OptionJson \<Rightarrow> ('f, string) WindowAggregator" where
  "bindWindowStringAgg R E J = newSingleItemWindowAggregator R E J 
     (parsingImpl [] (WINDOW_STRING_AGG_ParseArguments R) (WINDOW_STRING_AGG_Done R))"

definition bindWindowSum :: "'f Runtime \<Rightarrow> 'f AggEnv \<Rightarrow> 'f OptionJson \<Rightarrow> ('f, unit) WindowAggregator" where
  "bindWindowSum R E J = newSingleItemWindowAggregator R E J (plainImpl (WINDOW_SUM_Done R))"

definition bindWindowCorr :: "'f Runtime \<Rightarrow> 'f AggEnv \<Rightarrow> 'f OptionJson \<Rightarrow> ('f, unit) WindowAggregator" where
  "bindWindowCorr R E J = newTupleItemWindowAggregator R E J (plainImpl (WINDOW_CORR_Done R E))"

definition bindWindowCovarPop :: "'f Runtime \<Rightarrow> 'f AggEnv \<Rightarrow> 'f OptionJson \<Rightarrow> ('f, unit) WindowAggregator" where
  "bindWindowCovarPop R E J = newTupleItemWindowAggregator R E J (plainImpl (WINDOW_COVAR_POP_Done R E))"

definition bindWindowCovarSamp :: "'f Runtime \<Rightarrow> 'f AggEnv \<Rightarrow> 'f OptionJson \<Rightarrow> ('f, unit) WindowAggregator" where
  "bindWindowCovarSamp R E J = newTupleItemWindowAggregator R E J (plainImpl (WINDOW_COVAR_SAMP_Done R E))"

definition bindWindowStddevPop :: "'f Runtime \<Rightarrow> 'f AggEnv \<Rightarrow> 'f OptionJson \<Rightarrow> ('f, unit) WindowAggregator" where
  "bindWindowStddevPop R E J = newSingleItemWindowAggregator R E J (plainImpl (WINDOW_STDDEV_POP_Done R E))"

definition bindWindowStddevSamp :: "'f Runtime \<Rightarrow> 'f AggEnv \<Rightarrow> 'f OptionJson \<Rightarrow> ('f, unit) WindowAggregator" where
  "bindWindowStddevSamp R E J = newSingleItemWindowAggregator R E J (plainImpl (WINDOW_STDDEV_SAMP_Done R E))"

definition bindWindowStddev :: "'f Runtime \<Rightarrow> 'f AggEnv \<Rightarrow> 'f OptionJson \<Rightarrow> ('f, unit) WindowAggregator" where
  "bindWindowStddev R E J = newSingleItemWindowAggregator R E J (plainImpl (WINDOW_STDDEV_SAMP_Done R E))"

definition bindWindowVarPop :: "'f Runtime \<Rightarrow> 'f AggEnv \<Rightarrow> 'f OptionJson \<Rightarrow> ('f, unit) WindowAggregator" where
  "bindWindowVarPop R E J = newSingleItemWindowAggregator R E J (plainImpl (WINDOW_VAR_POP_Done R E))"

definition bindWindowVarSamp :: "'f Runtime \<Rightarrow> 'f AggEnv \<Rightarrow> 'f OptionJson \<Rightarrow> ('f, unit) WindowAggregator" where
  "bindWindowVarSamp R E J = newSingleItemWindowAggregator R E J (plainImpl (WINDOW_VAR_SAMP_Done R E))"

definition bindWindowVariance :: "'f Runtime \<Rightarrow> 'f AggEnv \<Rightarrow> 'f OptionJson \<Rightarrow> ('f, unit) WindowAggregator" where
  "bindWindowVariance R E J = newSingleItemWindowAggregator R E J (plainImpl (WINDOW_VAR_SAMP_Done R E))"

definition bindWindowFirstValue :: "'f Runtime \<Rightarrow> 'f AggEnv \<Rightarrow> 'f OptionJson \<Rightarrow> ('f, unit) WindowAggregator" where
  "bindWindowFirstValue R E J = newSingleItemWindowAggregator R E J (plainImpl (WINDOW_FIRST_VALUE_Done R))"

definition bindWindowLastValue :: "'f Runtime \<Rightarrow> 'f AggEnv \<Rightarrow> 'f OptionJson \<Rightarrow> ('f, unit) WindowAggregator" where
  "bindWindowLastValue R E J = newSingleItemWindowAggregator R E J (plainImpl (WINDOW_LAST_VALUE_Done R))"

definition bindWindowLead :: "'f Runtime \<Rightarrow> 'f AggEnv \<Rightarrow> 'f OptionJson \<Rightarrow> ('f, 'f Offset) WindowAggregator" where
  "bindWindowLead R E J = newSingleItemWindowAggregator R E J 
     (parsingImpl \<lparr>ofOffset = 0, ofDefaultValue = None\<rparr> (WINDOW_LEAD_ParseArguments R) WINDOW_LEAD_Done)"

definition bindWindowNthValue :: "'f Runtime \<Rightarrow> 'f AggEnv \<Rightarrow> 'f OptionJson \<Rightarrow> ('f, int) WindowAggregator" where
  "bindWindowNthValue R E J = newSingleItemWindowAggregator R E J 
     (parsingImpl 0 (WINDOW_NTH_VALUE_ParseArguments R) (WINDOW_NTH_VALUE_Done R))"

definition bindWindowLag :: "'f Runtime \<Rightarrow> 'f AggEnv \<Rightarrow> 'f OptionJson \<Rightarrow> ('f, 'f Offset) WindowAggregator" where
  "bindWindowLag R E J = newSingleItemWindowAggregator R E J 
     (parsingImpl \<lparr>ofOffset = 0, ofDefaultValue = None\<rparr> (WINDOW_LAG_ParseArguments R) WINDOW_LAG_Done)"

definition bindWindowPercentileCont :: "'f Runtime \<Rightarrow> 'f AggEnv \<Rightarrow> 'f OptionJson \<Rightarrow> ('f, 'f Value option) WindowAggregator" where
  "bindWindowPercentileCont R E J = newSingleItemWindowAggregator R E J 
     (parsingImpl None WINDOW_PERCENTILE_CONT_ParseArguments (WINDOW_PERCENTILE_CONT_Done R E))"

definition bindWindowPercentileDisc :: "'f Runtime \<Rightarrow> 'f AggEnv \<Rightarrow> 'f OptionJson \<Rightarrow> ('f, 'f Value option) WindowAggregator" where
  "bindWindowPercentileDisc R E J = newSingleItemWindowAggregator R E J 
     (parsingImpl None WINDOW_PERCENTILE_DISC_ParseArguments (WINDOW_PERCENTILE_DISC_Done R E))"

definition bindWindowRank :: "'f Runtime \<Rightarrow> 'f AggEnv \<Rightarrow> ('f, unit) WindowAggregator" where
  "bindWindowRank R E = newWindowAggregatorWithoutArguments R E (plainImpl (WINDOW_RANK_Done R))"

definition bindWindowDenseRank :: "'f Runtime \<Rightarrow> 'f AggEnv \<Rightarrow> ('f, Counters) WindowAggregator" where
  "bindWindowDenseRank R E = newWindowAggregatorWithoutArguments R E 
     \<lparr>wiInit = noRows, wiParseArguments = None, wiStep = Some (onImpl WINDOW_DENSE_RANK_Step), wiInverse = None,
      wiDone = (\<lambda>agg i. WINDOW_DENSE_RANK_Done i)\<rparr>"

definition bindWindowPercentRank :: "'f Runtime \<Rightarrow> 'f AggEnv \<Rightarrow> ('f, Counters) WindowAggregator" where
  "bindWindowPercentRank R E = newWindowAggregatorWithoutArguments R E 
     \<lparr>wiInit = noRows, wiParseArguments = None, wiStep = Some (onImpl WINDOW_PERCENT_RANK_Step),
      wiInverse = Some (onImpl WINDOW_PERCENT_RANK_Inverse),
      wiDone = (\<lambda>agg i. go_bind (WINDOW_PERCENT_RANK_Done R i) (\<lambda>v. ok (v, i)))\<rparr>"

definition bindWindowCumeDist :: "'f Runtime \<Rightarrow> 'f AggEnv \<Rightarrow> ('f, Counters) WindowAggregator" where
  "bindWindowCumeDist R E = newWindowAggregatorWithoutArguments R E 
     \<lparr>wiInit = noRows, wiParseArguments = None, wiStep = Some (onImpl WINDOW_CUME_DIST_Step),
      wiInverse = Some (onImpl WINDOW_CUME_DIST_Inverse),
      wiDone = (\<lambda>agg i. go_bind (WINDOW_CUME_DIST_Done R i) (\<lambda>v. ok (v, i)))\<rparr>"

definition bindWindowNtile :: "'f Runtime \<Rightarrow> 'f AggEnv \<Rightarrow> 'f OptionJson \<Rightarrow> ('f, Ntile) WindowAggregator" where
  "bindWindowNtile R E J = newSingleItemWindowAggregator R E J 
     \<lparr>wiInit = \<lparr>ntParam = 0, ntTotal = 0, ntRow = 0\<rparr>, wiParseArguments = Some (WINDOW_NTILE_ParseArguments R),
      wiStep = Some (onImpl WINDOW_NTILE_Step), wiInverse = Some (onImpl WINDOW_NTILE_Inverse),
      wiDone = (\<lambda>agg i. go_bind (WINDOW_NTILE_Done i) (\<lambda>v. ok (v, i)))\<rparr>"

definition bindWindowRowNumber :: "'f Runtime \<Rightarrow> 'f AggEnv \<Rightarrow> ('f, unit) WindowAggregator" where
  "bindWindowRowNumber R E = newWindowAggregatorWithoutArguments R E (plainImpl WINDOW_ROW_NUMBER_Done)"

end
