(* ===== verification/Aggregate_Props.thy ===== *)
theory Aggregate_Props
  imports Aggregate_Bind Value_Props "HOL-Library.Sublist" "HOL-Library.Multiset"
begin

text \<open>
  What queries with one aggregate give: the aggregates of integers, the option DISTINCT, the order of
  collected values, HAVING, and the sentinels of the aggregates on bits.
\<close>

section \<open>Queries without DISTINCT and IGNORE NULLS\<close>

definition plainOption :: "'f AggregatorOption \<Rightarrow> bool" where
  "plainOption opt \<longleftrightarrow> \<not> aoDistinct opt \<and> \<not> aoIgnoreNulls opt"

lemma plain_noOption [simp]: "plainOption noOption"
  by (simp add: plainOption_def noOption_def)

lemma stepRow_plain:
  "plainOption opt \<Longrightarrow> stepRow R A values opt a = go_bind (afStep A values opt (agState a)) (\<lambda>s. ok (a\<lparr>agState := s\<rparr>))"
  by (simp add: stepRow_def plainOption_def)

lemma goFold_plain:
  assumes "\<forall>(values, opt) \<in> set rows. plainOption opt"
  shows "goFold (\<lambda>(values, opt). stepRow R A values opt) rows a
    = go_bind (goFold (\<lambda>(values, opt). afStep A values opt) rows (agState a)) (\<lambda>s. ok (a\<lparr>agState := s\<rparr>))"
  using assms
proof (induction rows arbitrary: a)
  case (Cons r rows)
  obtain vs opt where r: "r = (vs, opt)" by (cases r)
  then have "plainOption opt" using Cons.prems by simp
  then show ?case
    using Cons unfolding r by (cases "afStep A vs opt (agState a)") (simp_all add: stepRow_plain)
qed simp

lemma run_plain:
  assumes "\<forall>(values, opt) \<in> set rows. plainOption opt"
  shows "runAggregate R A rows
    = (case goFold (\<lambda>(values, opt). afStep A values opt) rows (afInit A) of Inl e \<Rightarrow> Some (Inl e) | Inr s \<Rightarrow> afDone A s)"
  unfolding runAggregate_def goFold_plain [OF assms] initialAggregator_def
  by (cases "goFold (\<lambda>(values, opt). afStep A values opt) rows (afInit A)") simp_all

text \<open>A fold over represented states.\<close>

lemma goFold_rep:
  assumes "\<And>v s. v \<in> set vs \<Longrightarrow> f v (rep s) = ok (rep (g v s))"
  shows "goFold f vs (rep s) = ok (rep (fold g vs s))"
  using assms by (induction vs arbitrary: s) simp_all

section \<open>Integers\<close>

definition intRow :: "int option \<Rightarrow> 'f Value option list \<times> 'f AggregatorOption" where
  "intRow v = ([map_option IntValue v], noOption)"

definition present :: "'a option list \<Rightarrow> 'a list" where
  "present vs = map the (filter (\<lambda>v. v \<noteq> None) vs)"

lemma present_simps [simp]: "present [] = []" "present (None # vs) = present vs" "present (Some x # vs) = x # present vs"
  by (simp_all add: present_def)

definition onPresent :: "('a \<Rightarrow> 's \<Rightarrow> 's) \<Rightarrow> 'a option \<Rightarrow> 's \<Rightarrow> 's" where
  "onPresent g v s = (case v of None \<Rightarrow> s | Some x \<Rightarrow> g x s)"

lemma fold_onPresent: "fold (onPresent g) vs s = fold g (present vs) s"
proof (induction vs arbitrary: s)
  case (Cons v vs)
  then show ?case by (cases v) (simp_all add: onPresent_def)
qed simp

text \<open>The accumulators that start with their first value.\<close>

definition startWith :: "('a \<Rightarrow> 'a \<Rightarrow> 'a) \<Rightarrow> 'a \<Rightarrow> 'a option \<Rightarrow> 'a option" where
  "startWith h x s = (case s of None \<Rightarrow> Some x | Some a \<Rightarrow> Some (h a x))"

lemma fold_startWith_Some: "fold (startWith h) xs (Some a) = Some (fold (\<lambda>x a. h a x) xs a)"
  by (induction xs arbitrary: a) (simp_all add: startWith_def)

lemma startWith_None [simp]: "startWith h x None = Some x"
  by (simp add: startWith_def)

lemma fold_wrap64_sum: "isInt64 a \<Longrightarrow> fold (\<lambda>x a. wrap64 (a + x)) xs a = wrap64 (a + sum_list xs)"
proof (induction xs arbitrary: a)
  case (Cons x xs)
  then show ?case by (simp add: int64_simps add.assoc)
qed simp

lemma fold_max: "fold (\<lambda>x a. if a < x then x else a) xs (a::int) = Max (set (a # xs))"
proof -
  have "(\<lambda>x a. if a < x then x else a) = (max :: int \<Rightarrow> int \<Rightarrow> int)" by (auto simp: fun_eq_iff max_def)
  then show ?thesis by (simp only: Max.set_eq_fold)
qed

lemma fold_min: "fold (\<lambda>x a. if x < a then x else a) xs (a::int) = Min (set (a # xs))"
proof -
  have "(\<lambda>x a. if x < a then x else a) = (min :: int \<Rightarrow> int \<Rightarrow> int)" by (auto simp: fun_eq_iff min_def)
  then show ?thesis by (simp only: Min.set_eq_fold)
qed

text \<open>Each step on a row with an integer or NULL, and the whole query.\<close>

lemma run_ints:
  assumes init: "afInit A = rep s0"
    and step: "\<And>v s. v \<in> set vs \<Longrightarrow> afStep A [map_option IntValue v] noOption (rep s) = ok (rep (onPresent g v s))"
  shows "runAggregate R A (map intRow vs) = afDone A (rep (fold g (present vs) s0))"
proof -
  have "goFold (\<lambda>(values, opt). afStep A values opt) (map intRow vs) (rep s0)
    = goFold (\<lambda>v. afStep A [map_option IntValue v] noOption) vs (rep s0)"
    by (simp add: goFold_map intRow_def)
  also have "\<dots> = ok (rep (fold (onPresent g) vs s0))"
    by (rule goFold_rep) (rule step)
  finally have "goFold (\<lambda>(values, opt). afStep A values opt) (map intRow vs) (rep s0) = ok (rep (fold g (present vs) s0))"
    by (simp add: fold_onPresent)
  then show ?thesis by (subst run_plain) (auto simp: intRow_def init)
qed

lemmas int_steps = onPresent_def startWith_def addTo_def countOne_def IntValue_Add_def argInt64_def comparand_def
  IntValue_GT_def IntValue_LT_def IntValue_ToInt64_def

lemma run_count: "runAggregate R (bindCount R) (map intRow vs) = Some (ok (Some (IntValue (wrap64 (int (length (present vs)))))))"
proof -
  let ?g = "\<lambda>_ s. startWith (\<lambda>a x. wrap64 (a + x)) 1 s"
  have "fold (\<lambda>_::int. startWith (\<lambda>a x. wrap64 (a + x)) 1) xs s
      = (if xs = [] then s else Some (wrap64 (int (length xs) + (case s of None \<Rightarrow> 0 | Some a \<Rightarrow> a))))" for xs s
    by (induction xs arbitrary: s) (auto simp: startWith_def int64_simps add_ac split: option.split)
  moreover have "runAggregate R (bindCount R) (map intRow vs)
      = afDone (bindCount R) (map_option IntValue (fold ?g (present vs) None))"
    by (rule run_ints) (auto simp: bindCount_def newAggregator_def COUNT_Step_def int_steps split: option.split)
  ultimately show ?thesis by (simp add: bindCount_def newAggregator_def COUNT_Done_def)
qed

lemma run_sum:
  assumes "list_all isInt64 (present vs)"
  shows "runAggregate R (bindSum R) (map intRow vs)
    = Some (ok (if present vs = [] then None else Some (IntValue (wrap64 (sum_list (present vs))))))"
proof -
  have "runAggregate R (bindSum R) (map intRow vs)
      = afDone (bindSum R) (map_option IntValue (fold (startWith (\<lambda>a x. wrap64 (a + x))) (present vs) None))"
    by (rule run_ints) (auto simp: bindSum_def newAggregator_def SUM_Step_def int_steps split: option.split)
  then show ?thesis
    using assms by (cases "present vs") (simp_all add: bindSum_def newAggregator_def SUM_Done_def fold_startWith_Some fold_wrap64_sum)
qed

lemma run_max: "runAggregate R (bindMax R) (map intRow vs)
    = Some (ok (if present vs = [] then None else Some (IntValue (Max (set (present vs))))))"
proof -
  have "runAggregate R (bindMax R) (map intRow vs)
      = afDone (bindMax R) (map_option IntValue (fold (startWith (\<lambda>a x. if a < x then x else a)) (present vs) None))"
    by (rule run_ints) (auto simp: bindMax_def newAggregator_def MAX_Step_def int_steps split: option.split)
  then show ?thesis
    by (cases "present vs") (simp_all add: bindMax_def newAggregator_def MAX_Done_def fold_startWith_Some fold_max)
qed

lemma run_min: "runAggregate R (bindMin R) (map intRow vs)
    = Some (ok (if present vs = [] then None else Some (IntValue (Min (set (present vs))))))"
proof -
  have "runAggregate R (bindMin R) (map intRow vs)
      = afDone (bindMin R) (map_option IntValue (fold (startWith (\<lambda>a x. if x < a then x else a)) (present vs) None))"
    by (rule run_ints) (auto simp: bindMin_def newAggregator_def MIN_Step_def int_steps split: option.split)
  then show ?thesis
    by (cases "present vs") (simp_all add: bindMin_def newAggregator_def MIN_Done_def fold_startWith_Some fold_min)
qed

text \<open>C23: COUNT, SUM, MAX and MIN of a column of integers disregard the NULLs and give the number, the sum
  (wrapped at 64 bits), the greatest and the least of the others; without any other, NULL, and COUNT 0.\<close>

theorem integer_aggregates:
  assumes "list_all isInt64 (present vs)"
  shows "runAggregate R (bindCount R) (map intRow vs) = Some (ok (Some (IntValue (wrap64 (int (length (present vs)))))))
    \<and> runAggregate R (bindSum R) (map intRow vs)
        = Some (ok (if present vs = [] then None else Some (IntValue (wrap64 (sum_list (present vs))))))
    \<and> runAggregate R (bindMax R) (map intRow vs)
        = Some (ok (if present vs = [] then None else Some (IntValue (Max (set (present vs))))))
    \<and> runAggregate R (bindMin R) (map intRow vs)
        = Some (ok (if present vs = [] then None else Some (IntValue (Min (set (present vs))))))"
  using assms by (simp add: run_count run_sum run_max run_min)

section \<open>Bits\<close>

text \<open>A sentinel: the value that an accumulator takes for "no row yet".\<close>

definition sentinelStep :: "(int \<Rightarrow> int \<Rightarrow> int) \<Rightarrow> int \<Rightarrow> int \<Rightarrow> int \<Rightarrow> int" where
  "sentinelStep h e x a = (if a = e then x else h a x)"

lemma run_bits:
  "runAggregate R (bindBitXorAgg R) (map intRow vs) = Some (ok (Some (IntValue (fold (sentinelStep xor 1) (present vs) 1))))"
  "runAggregate R (bindBitOrAgg R) (map intRow vs) = Some (ok (Some (IntValue (fold (sentinelStep or (- 1)) (present vs) (- 1)))))"
proof -
  have "runAggregate R (bindBitXorAgg R) (map intRow vs)
      = afDone (bindBitXorAgg R) (id (fold (sentinelStep xor 1) (present vs) 1))"
    by (rule run_ints)
      (auto simp: bindBitXorAgg_def newAggregator_def BIT_XOR_AGG_Step_def int_steps sentinelStep_def split: option.split)
  then show "runAggregate R (bindBitXorAgg R) (map intRow vs) = Some (ok (Some (IntValue (fold (sentinelStep xor 1) (present vs) 1))))"
    by (simp add: bindBitXorAgg_def newAggregator_def BIT_XOR_AGG_Done_def)
  have "runAggregate R (bindBitOrAgg R) (map intRow vs)
      = afDone (bindBitOrAgg R) (id (fold (sentinelStep or (- 1)) (present vs) (- 1)))"
    by (rule run_ints)
      (auto simp: bindBitOrAgg_def newAggregator_def BIT_OR_AGG_Step_def int_steps sentinelStep_def split: option.split)
  then show "runAggregate R (bindBitOrAgg R) (map intRow vs) = Some (ok (Some (IntValue (fold (sentinelStep or (- 1)) (present vs) (- 1)))))"
    by (simp add: bindBitOrAgg_def newAggregator_def BIT_OR_AGG_Done_def)
qed

lemma sentinel_until:
  assumes "\<And>p. p \<in> set (prefixes xs) \<Longrightarrow> p \<noteq> xs \<Longrightarrow> fold (\<lambda>x a. h a x) p a \<noteq> e"
  shows "fold (sentinelStep h e) xs a = fold (\<lambda>x a. h a x) xs a"
  using assms
proof (induction xs arbitrary: a)
  case (Cons x xs)
  have "a \<noteq> e" using Cons.prems [of "[]"] by simp
  moreover have "fold (\<lambda>x a. h a x) p (h a x) \<noteq> e" if "p \<in> set (prefixes xs)" "p \<noteq> xs" for p
    using Cons.prems [of "x # p"] that by simp
  ultimately show ?case using Cons.IH [of "h a x"] by (simp add: sentinelStep_def)
qed simp

lemma xor_until:
  assumes "xs \<noteq> []" "\<And>p. p \<in> set (prefixes xs) \<Longrightarrow> p \<noteq> [] \<Longrightarrow> p \<noteq> xs \<Longrightarrow> fold xor p 0 \<noteq> (1::int)"
  shows "fold (sentinelStep xor 1) xs 1 = fold xor xs 0"
proof -
  have comm: "(\<lambda>x a. xor a x) = (xor :: int \<Rightarrow> int \<Rightarrow> int)" by (simp add: fun_eq_iff xor.commute)
  obtain x ys where xs: "xs = x # ys" using assms(1) by (cases xs) auto
  have "fold (sentinelStep xor 1) ys x = fold (\<lambda>x a. xor a x) ys x"
  proof (rule sentinel_until)
    fix p assume "p \<in> set (prefixes ys)" "p \<noteq> ys"
    then show "fold (\<lambda>x a. xor a x) p x \<noteq> 1" using assms(2) [of "x # p"] by (simp add: xs comm)
  qed
  then show ?thesis by (simp add: xs sentinelStep_def comm)
qed

text \<open>C26: BIT_XOR_AGG is the exclusive or of its values if that of no earlier ones is 1. Where it is 1, which the
  accumulator takes for the start, everything so far is forgotten.\<close>

theorem bit_xor_restarts:
  "(present vs \<noteq> [] \<and> (\<forall>p \<in> set (prefixes (present vs)). p \<noteq> [] \<longrightarrow> p \<noteq> present vs \<longrightarrow> fold xor p 0 \<noteq> 1)
     \<longrightarrow> runAggregate R (bindBitXorAgg R) (map intRow vs) = Some (ok (Some (IntValue (fold xor (present vs) 0)))))
   \<and> (runAggregate R (bindBitXorAgg R) (map intRow vs) = Some (ok (Some (IntValue 1)))
     \<longrightarrow> runAggregate R (bindBitXorAgg R) (map intRow (vs @ ws)) = runAggregate R (bindBitXorAgg R) (map intRow ws))"
proof (intro conjI impI)
  assume "present vs \<noteq> [] \<and> (\<forall>p \<in> set (prefixes (present vs)). p \<noteq> [] \<longrightarrow> p \<noteq> present vs \<longrightarrow> fold xor p 0 \<noteq> 1)"
  then show "runAggregate R (bindBitXorAgg R) (map intRow vs) = Some (ok (Some (IntValue (fold xor (present vs) 0))))"
    by (auto simp: run_bits intro: xor_until)
next
  assume "runAggregate R (bindBitXorAgg R) (map intRow vs) = Some (ok (Some (IntValue 1)))"
  moreover have "present (vs @ ws) = present vs @ present ws" by (simp add: present_def)
  ultimately show "runAggregate R (bindBitXorAgg R) (map intRow (vs @ ws)) = runAggregate R (bindBitXorAgg R) (map intRow ws)"
    by (simp only: run_bits fold_append o_apply) simp
qed

section \<open>DISTINCT\<close>

fun firstBy :: "('r \<Rightarrow> 'k) \<Rightarrow> 'k list \<Rightarrow> 'r list \<Rightarrow> 'r list" where
  "firstBy key seen [] = []"
| "firstBy key seen (r # rs) =
     (if key r \<in> set seen then firstBy key seen rs else r # firstBy key (key r # seen) rs)"

definition rowKey :: "'f Runtime \<Rightarrow> 'f Value option list \<Rightarrow> string option" where
  "rowKey R vs = map_option (\<lambda>v. projr (Value_ToString R v)) (hd vs)"

definition seenBy :: "'s Aggregator \<Rightarrow> string option list \<Rightarrow> bool" where
  "seenBy a seen \<longleftrightarrow> distinctNil a = (None \<in> set seen) \<and> (\<forall>k. k \<in> set (distinctMap a) \<longleftrightarrow> Some k \<in> set seen)"

lemma stepRow_distinct:
  assumes "aoDistinct opt" "\<not> aoIgnoreNulls opt" "vs \<noteq> []" "\<forall>v. hd vs = Some v \<longrightarrow> is_ok (Value_ToString R v)"
    and "seenBy a seen"
  obtains b where "seenBy b (rowKey R vs # seen)" "agState b = agState a"
    and "stepRow R A vs opt a = (if rowKey R vs \<in> set seen then ok b
      else go_bind (afStep A vs opt (agState a)) (\<lambda>s. ok (b\<lparr>agState := s\<rparr>)))"
proof (cases "hd vs")
  case None
  then obtain xs where "vs = None # xs" using assms(3) by (cases vs) auto
  then show ?thesis
    using assms by (intro that [of "a\<lparr>distinctNil := True\<rparr>"])
      (auto simp: stepRow_def distinctRow_def rowKey_def seenBy_def)
next
  case (Some v)
  then obtain xs where vs: "vs = Some v # xs" using assms(3) by (cases vs) auto
  obtain key where key: "Value_ToString R v = ok key" using assms(4) Some by (auto simp: is_ok_iff)
  show ?thesis
    using assms by (intro that [of "a\<lparr>distinctMap := List.insert key (distinctMap a)\<rparr>"])
      (auto simp: stepRow_def distinctRow_def rowKey_def seenBy_def vs key)
qed

definition distinctRowOk :: "'f Runtime \<Rightarrow> 'f Value option list \<times> 'f AggregatorOption \<Rightarrow> bool" where
  "distinctRowOk R row = (case row of (vs, opt) \<Rightarrow>
     aoDistinct opt \<and> \<not> aoIgnoreNulls opt \<and> vs \<noteq> [] \<and> (\<forall>v. hd vs = Some v \<longrightarrow> is_ok (Value_ToString R v)))"

lemma seenBy_agState [simp]: "seenBy (b\<lparr>agState := s\<rparr>) seen = seenBy b seen"
  by (simp add: seenBy_def)

lemma seenBy_again: "k \<in> set seen \<Longrightarrow> seenBy b (k # seen) = seenBy b seen"
  by (auto simp: seenBy_def)

lemma goFold_distinct:
  assumes "list_all (distinctRowOk R) rows" "seenBy a seen"
  shows "map_sum id agState (goFold (\<lambda>(vs, opt). stepRow R A vs opt) rows a)
    = goFold (\<lambda>(vs, opt). afStep A vs opt) (firstBy (rowKey R \<circ> fst) seen rows) (agState a)"
  using assms
proof (induction rows arbitrary: a seen)
  case (Cons r rows)
  obtain vs opt where r: "r = (vs, opt)" by (cases r)
  have "aoDistinct opt" "\<not> aoIgnoreNulls opt" "vs \<noteq> []" "\<forall>v. hd vs = Some v \<longrightarrow> is_ok (Value_ToString R v)"
    using Cons.prems(1) by (auto simp: r distinctRowOk_def)
  from stepRow_distinct [OF this Cons.prems(2), where A = A]
  obtain b where b: "seenBy b (rowKey R vs # seen)" "agState b = agState a"
    and step: "stepRow R A vs opt a = (if rowKey R vs \<in> set seen then ok b
      else go_bind (afStep A vs opt (agState a)) (\<lambda>s. ok (b\<lparr>agState := s\<rparr>)))" by blast
  have rows: "list_all (distinctRowOk R) rows" using Cons.prems(1) by simp
  show ?case
  proof (cases "rowKey R vs \<in> set seen")
    case True
    then show ?thesis using Cons.IH [OF rows, of b seen] b step by (simp add: r seenBy_again)
  next
    case False
    then show ?thesis
      using Cons.IH [OF rows, of "b\<lparr>agState := s\<rparr>" "rowKey R vs # seen" for s] b step
      by (cases "afStep A vs opt (agState a)") (simp_all add: r)
  qed
qed simp

text \<open>C22: An aggregate with DISTINCT is the aggregate of the rows that are the first with the text of their first
  argument; NULL is one such text of its own.\<close>

theorem distinct_first_rows:
  assumes "list_all (distinctRowOk R) rows"
  shows "runAggregate R A rows
    = (case goFold (\<lambda>(vs, opt). afStep A vs opt) (firstBy (rowKey R \<circ> fst) [] rows) (afInit A) of
         Inl e \<Rightarrow> Some (Inl e) | Inr s \<Rightarrow> afDone A s)"
proof -
  have "seenBy (initialAggregator A) []" by (simp add: seenBy_def initialAggregator_def)
  from goFold_distinct [OF assms this, where A = A]
  have eq: "goFold (\<lambda>(vs, opt). afStep A vs opt) (firstBy (rowKey R \<circ> fst) [] rows) (afInit A)
    = map_sum id agState (goFold (\<lambda>(vs, opt). stepRow R A vs opt) rows (initialAggregator A))"
    by (simp add: initialAggregator_def)
  show ?thesis
    unfolding runAggregate_def eq
    by (cases "goFold (\<lambda>(vs, opt). stepRow R A vs opt) rows (initialAggregator A)") simp_all
qed

section \<open>ORDER BY and LIMIT\<close>

text \<open>
  What \<open>sort.Slice\<close> promises: where the comparison is that of integer keys, the result is the slice in the
  order of the keys. Nothing is said of the order of equal keys.
\<close>

definition sortsByKey :: "'a Sort \<Rightarrow> bool" where
  "sortsByKey S \<longleftrightarrow> (\<forall>order (key :: 'a \<Rightarrow> int) xs.
     (\<forall>f \<in> set xs. \<forall>a \<in> set xs. \<forall>b \<in> set xs. order f a b = ok (key a < key b)) \<longrightarrow>
     (\<exists>ys. S order xs = ok ys \<and> mset ys = mset xs \<and> sorted (map key ys)))"

lemma sortsByKeyD:
  assumes "sortsByKey S"
    and "\<And>f a b. f \<in> set xs \<Longrightarrow> a \<in> set xs \<Longrightarrow> b \<in> set xs \<Longrightarrow> order f a b = ok (key a < (key b :: int))"
  shows "\<exists>ys. S order xs = ok ys \<and> mset ys = mset xs \<and> sorted (map key ys)"
  using assms(1) unfolding sortsByKey_def
  by (drule_tac spec [where x = order], drule_tac spec [where x = key], drule_tac spec [where x = xs]) (simp add: assms(2))

definition keyedOption :: "bool \<Rightarrow> int option \<Rightarrow> int \<Rightarrow> 'f AggregatorOption" where
  "keyedOption asc limit k = noOption\<lparr>aoLimit := limit, aoOrderBy := [Some (Some (IntValue k), asc)]\<rparr>"

definition keyedRow :: "bool \<Rightarrow> int option \<Rightarrow> int \<times> 'f Value \<Rightarrow> 'f Value option list \<times> 'f AggregatorOption" where
  "keyedRow asc limit kv = ([Some (snd kv)], keyedOption asc limit (fst kv))"

definition keyedValue :: "bool \<Rightarrow> int \<times> 'f Value \<Rightarrow> 'f OrderedValue" where
  "keyedValue asc kv = \<lparr>ovOrderBy = [Some (Some (IntValue (fst kv)), asc)], ovValue = Some (snd kv)\<rparr>"

definition directed :: "bool \<Rightarrow> int \<Rightarrow> int" where
  "directed asc k = (if asc then k else - k)"

definition keyOf :: "'f OrderedValue \<Rightarrow> int" where
  "keyOf v = (case ovOrderBy v of (Some (Some (IntValue k), _)) # _ \<Rightarrow> k | _ \<Rightarrow> 0)"

definition unkeyed :: "'f OrderedValue \<Rightarrow> int \<times> 'f Value" where
  "unkeyed v = (keyOf v, the (ovValue v))"

lemma keyOf_keyedValue [simp]: "keyOf (keyedValue asc kv) = fst kv"
  and unkeyed_keyedValue [simp]: "unkeyed (keyedValue asc kv) = kv"
  by (simp_all add: keyOf_def unkeyed_def keyedValue_def)

lemma keyed_less:
  "orderedLess R (ovOrderBy (keyedValue asc f)) (ovOrderBy (keyedValue asc a)) (ovOrderBy (keyedValue asc b))
    = ok (directed asc (fst a) < directed asc (fst b))"
  by (auto simp: keyedValue_def directed_def IntValue_EQ_def IntValue_LT_def IntValue_GT_def argInt64_def comparand_def
      IntValue_ToInt64_def safely_def)

lemma sort_keyed:
  assumes "sortsByKey (aeSortOrdered E)" "aoOrderBy opt \<noteq> []"
  obtains kvs' where "mset kvs' = mset kvs" "sorted (map (\<lambda>kv. directed asc (fst kv)) kvs')"
    and "sortAggregatedValues R (aeSortOrdered E) (map (keyedValue asc) kvs) (Some opt) = ok (map (keyedValue asc) kvs')"
proof -
  let ?less = "\<lambda>first a b. orderedLess R (ovOrderBy first) (ovOrderBy a) (ovOrderBy b)"
  let ?xs = "map (keyedValue asc) kvs"
  have "?less f a b = ok (directed asc (keyOf a) < directed asc (keyOf b))"
    if "f \<in> set ?xs" "a \<in> set ?xs" "b \<in> set ?xs" for f a b
    using that keyed_less [of R asc] by auto
  then obtain ys where ys: "aeSortOrdered E ?less ?xs = ok ys" "mset ys = mset ?xs"
      "sorted (map (\<lambda>v. directed asc (keyOf v)) ys)"
    using sortsByKeyD [OF assms(1), of ?xs ?less "\<lambda>v. directed asc (keyOf v)"] by blast
  have "set ys = set ?xs" using ys(2) by (rule mset_eq_setD)
  then have recovered: "map (keyedValue asc) (map unkeyed ys) = ys"
    by (auto intro!: map_idI)
  have "mset (map unkeyed ys) = mset kvs" using ys(2) by (simp add: image_mset.compositionality comp_def)
  moreover have "sorted (map (\<lambda>kv. directed asc (fst kv)) (map unkeyed ys))"
    using ys(3) by (simp add: unkeyed_def comp_def)
  ultimately show ?thesis
    using that [of "map unkeyed ys"] ys(1) assms(2) recovered by (simp add: sortAggregatedValues_def)
qed

lemma array_step:
  "(case keyedRow asc limit kv of (vs, opt) \<Rightarrow> afStep (bindArrayAgg R E) vs opt) f
    = ok \<lparr>clOpt = onceSet (clOpt f) (keyedOption asc limit (fst kv)), clValues = clValues f @ [keyedValue asc kv]\<rparr>"
  by (simp add: keyedRow_def bindArrayAgg_def newAggregator_def ARRAY_AGG_Step_def collect_def keyedValue_def keyedOption_def)

lemma array_init:
  "afInit (bindArrayAgg R E) = \<lparr>clOpt = None, clValues = []\<rparr>"
  "afDone (bindArrayAgg R E) f = Some (ARRAY_AGG_Done R E f)"
  by (simp_all add: bindArrayAgg_def newAggregator_def noneCollected_def)

lemma collect_keyed:
  "goFold (\<lambda>(vs, opt). afStep (bindArrayAgg R E) vs opt) (map (keyedRow asc limit) kvs) f
    = ok \<lparr>clOpt = (case kvs of [] \<Rightarrow> clOpt f | kv # _ \<Rightarrow> onceSet (clOpt f) (keyedOption asc limit (fst kv))),
         clValues = clValues f @ map (keyedValue asc) kvs\<rparr>"
proof (induction kvs arbitrary: f)
  case (Cons kv kvs)
  show ?case
    by (simp only: list.map goFold.simps array_step go_bind_simps Cons.IH) (simp add: onceSet_def split: list.split option.split)
qed simp

text \<open>C21: ARRAY_AGG with ORDER BY an integer and LIMIT gives the values in the order of their keys, ascending or
  descending, and the first of them up to the limit.\<close>

theorem array_agg_ordered:
  fixes R :: "'f Runtime"
  assumes "sortsByKey (aeSortOrdered E)" "kvs \<noteq> []" "\<forall>n. limit = Some n \<longrightarrow> 0 \<le> n"
  shows "\<exists>kvs'. mset kvs' = mset kvs \<and> sorted (map (\<lambda>kv. directed asc (fst kv)) kvs')
    \<and> runAggregate R (bindArrayAgg R E) (map (keyedRow asc limit) kvs)
      = Some (ok (Some (ArrayValue (map (Some \<circ> snd)
          (case limit of None \<Rightarrow> kvs' | Some n \<Rightarrow> take (nat n) kvs')))))"
proof -
  let ?opt = "keyedOption asc limit (fst (hd kvs)) :: 'f AggregatorOption"
  obtain kvs' where kvs': "mset kvs' = mset kvs" "sorted (map (\<lambda>kv. directed asc (fst kv)) kvs')"
    and sort: "sortAggregatedValues R (aeSortOrdered E) (map (keyedValue asc) kvs) (Some ?opt)
      = ok (map (keyedValue asc) kvs')"
    using assms(1) by (rule sort_keyed [where opt = ?opt and kvs = kvs and asc = asc]) (simp_all add: keyedOption_def)
  have "limitValues (Some ?opt) (map (keyedValue asc) kvs')
      = ok (map (keyedValue asc) (case limit of None \<Rightarrow> kvs' | Some n \<Rightarrow> take (nat n) kvs'))"
    using assms(3) by (auto simp: limitValues_def keyedOption_def Let_def min_def take_map split: option.split)
  moreover have "map ovValue (map (keyedValue asc) xs) = map (Some \<circ> snd) xs" for xs :: "(int \<times> 'f Value) list"
    by (simp add: keyedValue_def)
  ultimately have "ARRAY_AGG_Done R E \<lparr>clOpt = Some ?opt, clValues = map (keyedValue asc) kvs\<rparr>
      = ok (Some (ArrayValue (map (Some \<circ> snd) (case limit of None \<Rightarrow> kvs' | Some n \<Rightarrow> take (nat n) kvs'))))"
    by (simp only: ARRAY_AGG_Done_def collectedValues_def Collected.simps sort go_bind_simps)
  moreover have "\<forall>(vs, opt) \<in> set (map (keyedRow asc limit) kvs). plainOption opt"
    by (auto simp: keyedRow_def keyedOption_def plainOption_def noOption_def)
  ultimately have "runAggregate R (bindArrayAgg R E) (map (keyedRow asc limit) kvs)
      = Some (ok (Some (ArrayValue (map (Some \<circ> snd) (case limit of None \<Rightarrow> kvs' | Some n \<Rightarrow> take (nat n) kvs')))))"
    using assms(2) by (cases kvs) (simp_all only: run_plain collect_keyed array_init sum.case list.case list.sel
        Collected.simps onceSet_def option.case append_Nil not_False_eq_True simp_thms)
  then show ?thesis using kvs' by blast
qed

end
