(* ===== verification/Window_Props.thy ===== *)
theory Window_Props
  imports Window_Bind Aggregate_Props
begin

text \<open>
  What window functions compute while their frame moves: the values in the frame are those of the rows
  in it, as long as a value can be told from others (locale \<open>frame_queue\<close>); the frame of pairs only grows;
  the buckets of NTILE; and the first value of PERCENTILE_DISC.
\<close>

section \<open>Moving a frame\<close>

text \<open>
  SQLite moves a frame over the rows of a partition in their order: the next row enters at the end, or the
  oldest leaves. The state is the number of rows that have entered and left, and that of the function.
\<close>

datatype FrameMove = Enter | Leave

definition frameMove ::
  "('v \<Rightarrow> 's \<Rightarrow> 's go) \<Rightarrow> ('v \<Rightarrow> 's \<Rightarrow> 's go) \<Rightarrow> 'v list \<Rightarrow> FrameMove \<Rightarrow> nat \<times> nat \<times> 's \<Rightarrow> (nat \<times> nat \<times> 's) go" where
  "frameMove push pop rows m s = (case s of (a, b, t) \<Rightarrow> (case m of
     Enter \<Rightarrow> go_bind (push (rows ! a) t) (\<lambda>t. ok (a + 1, b, t))
   | Leave \<Rightarrow> go_bind (pop (rows ! b) t) (\<lambda>t. ok (a, b + 1, t))))"

fun legalMoves :: "nat \<Rightarrow> nat \<Rightarrow> nat \<Rightarrow> FrameMove list \<Rightarrow> bool" where
  "legalMoves n a b [] \<longleftrightarrow> True"
| "legalMoves n a b (Enter # ms) \<longleftrightarrow> a < n \<and> legalMoves n (a + 1) b ms"
| "legalMoves n a b (Leave # ms) \<longleftrightarrow> b < a \<and> legalMoves n a (b + 1) ms"

definition entered :: "FrameMove list \<Rightarrow> nat" where
  "entered ms = length (filter (\<lambda>m. case m of Enter \<Rightarrow> True | Leave \<Rightarrow> False) ms)"

definition left :: "FrameMove list \<Rightarrow> nat" where
  "left ms = length (filter (\<lambda>m. case m of Enter \<Rightarrow> False | Leave \<Rightarrow> True) ms)"

lemma moves_count [simp]:
  "entered [] = 0" "entered (Enter # ms) = entered ms + 1" "entered (Leave # ms) = entered ms"
  "left [] = 0" "left (Enter # ms) = left ms" "left (Leave # ms) = left ms + 1"
  by (simp_all add: entered_def left_def)

definition inFrame :: "FrameMove list \<Rightarrow> 'v list \<Rightarrow> 'v list" where
  "inFrame ms rows = drop (left ms) (take (entered ms) rows)"

text \<open>The interface of the frame to the functions over it: what a row adds, and that the oldest row takes it away.\<close>

locale frame_queue =
  fixes push :: "'v \<Rightarrow> 's \<Rightarrow> 's go"
    and pop :: "'v \<Rightarrow> 's \<Rightarrow> 's go"
    and contents :: "'s \<Rightarrow> 'w list"
    and item :: "'v \<Rightarrow> 'w"
    and valid :: "'s \<Rightarrow> bool"
    and comparable :: "'v \<Rightarrow> bool"
  assumes push_contents: "comparable v \<Longrightarrow> valid s \<Longrightarrow> \<exists>t. push v s = ok t \<and> valid t \<and> contents t = contents s @ [item v]"
    and pop_contents: "comparable v \<Longrightarrow> valid s \<Longrightarrow> contents s = item v # ws \<Longrightarrow> \<exists>t. pop v s = ok t \<and> valid t \<and> contents t = ws"
begin

lemma frame_from:
  assumes "list_all comparable rows" "legalMoves (length rows) a b ms" "a \<le> length rows" "b \<le> a"
    and "valid s" "contents s = map item (drop b (take a rows))"
  shows "\<exists>t. goFold (frameMove push pop rows) ms (a, b, s) = ok (a + entered ms, b + left ms, t)
    \<and> valid t \<and> contents t = map item (drop (b + left ms) (take (a + entered ms) rows))"
  using assms(2-)
proof (induction ms arbitrary: a b s)
  case (Cons m ms)
  show ?case
  proof (cases m)
    case Enter
    then have a: "a < length rows" "legalMoves (length rows) (a + 1) b ms" using Cons.prems(1) by auto
    have "comparable (rows ! a)" using assms(1) a(1) by (simp add: list_all_length)
    from push_contents [OF this Cons.prems(4)] obtain t where
      t: "push (rows ! a) s = ok t" "valid t" "contents t = contents s @ [item (rows ! a)]" by blast
    moreover have "contents t = map item (drop b (take (a + 1) rows))"
      using t(3) Cons.prems(3,5) a(1) by (simp add: take_Suc_conv_app_nth)
    ultimately show ?thesis
      using Cons.IH [OF a(2), of t] Cons.prems(3) a(1) by (simp add: Enter frameMove_def)
  next
    case Leave
    then have b: "b < a" "legalMoves (length rows) a (b + 1) ms" using Cons.prems(1) by auto
    have "b < length rows" using b(1) Cons.prems(2) by simp
    then have "comparable (rows ! b)" using assms(1) by (simp add: list_all_length)
    moreover have "drop b (take a rows) = rows ! b # drop (b + 1) (take a rows)"
      using b(1) Cons.prems(2) by (simp add: Cons_nth_drop_Suc [symmetric])
    ultimately obtain t where
      t: "pop (rows ! b) s = ok t" "valid t" "contents t = map item (drop (b + 1) (take a rows))"
      using pop_contents [of "rows ! b" s] Cons.prems(4,5) by auto
    then show ?thesis
      using Cons.IH [OF b(2) Cons.prems(2), of t] b(1) by (simp add: Leave frameMove_def)
  qed
qed simp

lemma frame_holds:
  assumes "list_all comparable rows" "legalMoves (length rows) 0 0 ms" "valid s" "contents s = []"
  shows "\<exists>t. goFold (frameMove push pop rows) ms (0, 0, s) = ok (entered ms, left ms, t)
    \<and> valid t \<and> contents t = map item (inFrame ms rows)"
  using frame_from [of rows 0 0 ms s] assms by (simp add: inFrame_def)

end

text \<open>The frame itself, for values that are equal to themselves: not pointers, bytes or NaN.\<close>

lemma removeFirst_head:
  "sameValue R E v v = ok True \<Longrightarrow> removeFirst R E v (v # vs) 0 (v # vs) = ok vs"
  by simp

interpretation frame: frame_queue WindowFuncAggregatedStatus_Step "WindowFuncAggregatedStatus_Inverse R E"
  wsValues "\<lambda>v. v" "\<lambda>_. True" "\<lambda>v. sameValue R E v v = ok True" for R E
  by unfold_locales
    (simp_all add: WindowFuncAggregatedStatus_Step_def WindowFuncAggregatedStatus_Inverse_def removeFirst_head del: removeFirst.simps)

text \<open>A window function of one argument without options, its frame as the values of its rows.\<close>

definition singleRow :: "'f Runtime \<Rightarrow> 'f AggEnv \<Rightarrow> 'f OptionJson \<Rightarrow> 'f array \<Rightarrow> bool" where
  "singleRow R E J args \<longleftrightarrow> args \<noteq> [] \<and> parseAggregateOptions R J args = ok (args, noOption)
     \<and> sameValue R E (hd args) (hd args) = ok True"

definition frameOf :: "('f, 'i) WindowState \<Rightarrow> 'f array" where
  "frameOf s = wsValues (wdAgg s)"

definition unoptioned :: "('f, 'i) WindowState \<Rightarrow> bool" where
  "unoptioned s \<longleftrightarrow> wsOpt (wdAgg s) = noOption"

lemma withArg_hd: "args \<noteq> [] \<Longrightarrow> withArg 0 args f = f (hd args)"
  by (cases args) simp_all

interpretation single: frame_queue
  "waStep (newSingleItemWindowAggregator R E J (plainImpl d))" "waInverse (newSingleItemWindowAggregator R E J (plainImpl d))"
  "frameOf :: ('f, unit) WindowState \<Rightarrow> 'f array" hd unoptioned "singleRow R E J" for R :: "'f Runtime" and E J d
proof unfold_locales
  fix v :: "'f array" and s :: "('f, unit) WindowState"
  assume v: "singleRow R E J v" and s: "unoptioned s"
  show "\<exists>t. waStep (newSingleItemWindowAggregator R E J (plainImpl d)) v s = ok t \<and> unoptioned t \<and> frameOf t = frameOf s @ [hd v]"
    using v s
    by (simp add: singleRow_def newSingleItemWindowAggregator_def plainImpl_def singleStep_def parseOnce_def customOr_def
        withArg_hd onFrame_def WindowFuncAggregatedStatus_Step_def setOption_def unoptioned_def frameOf_def)
next
  fix v :: "'f array" and s :: "('f, unit) WindowState" and ws
  assume v: "singleRow R E J v" and s: "unoptioned s" and ws: "frameOf s = hd v # ws"
  obtain t where "WindowFuncAggregatedStatus_Inverse R E (hd v) (wdAgg s) = ok t" "wsValues t = ws"
    using frame.pop_contents [of R E "hd v" "wdAgg s" ws] v ws by (auto simp: singleRow_def frameOf_def)
  moreover from this have "wsOpt t = wsOpt (wdAgg s)"
    by (auto simp: WindowFuncAggregatedStatus_Inverse_def go_bind_Inr_iff)
  ultimately show "\<exists>t. waInverse (newSingleItemWindowAggregator R E J (plainImpl d)) v s = ok t \<and> unoptioned t \<and> frameOf t = ws"
    using v s by (auto simp: singleRow_def newSingleItemWindowAggregator_def plainImpl_def customOr_def withArg_hd onFrame_def
        unoptioned_def frameOf_def)
qed

section \<open>Sliding sums and extremes\<close>

definition intColumn :: "int option list \<Rightarrow> 'f array list" where
  "intColumn col = map (\<lambda>i. [map_option IntValue i]) col"

definition notAnOption :: "'f Runtime \<Rightarrow> 'f OptionJson \<Rightarrow> 'f Value \<Rightarrow> bool" where
  "notAnOption R J v \<longleftrightarrow> parseOption R J v = ok OtherOption"

lemma intColumn_rows:
  assumes "\<And>i. notAnOption R J (IntValue i)"
  shows "list_all (singleRow R E J) (intColumn col)"
proof -
  have "singleRow R E J [map_option IntValue i]" for i
    using assms
    by (cases i) (simp_all add: singleRow_def parseAggregateOptions_def parseArgument_def notAnOption_def sameValue_def)
  then show ?thesis by (simp add: intColumn_def list_all_iff)
qed

lemma inFrame_map: "inFrame ms (map f xs) = map f (inFrame ms xs)"
  by (simp add: inFrame_def take_map drop_map)

lemma single_frame:
  fixes R :: "'f Runtime"
  assumes "\<And>i. notAnOption R J (IntValue i)" "legalMoves (length col) 0 0 ms"
    and "W = newSingleItemWindowAggregator R E J (plainImpl d)"
  shows "\<exists>s. goFold (frameMove (waStep W) (waInverse W) (intColumn col)) ms (0, 0, waInit W) = ok (entered ms, left ms, s)
    \<and> unoptioned s \<and> frameOf s = map (map_option IntValue) (inFrame ms col)"
proof -
  have "unoptioned (waInit W)" "frameOf (waInit W) = []"
    by (simp_all add: assms(3) newSingleItemWindowAggregator_def initialWindow_def newWindowFuncAggregatedStatus_def
        unoptioned_def frameOf_def)
  moreover have "map hd (inFrame ms (intColumn col :: 'f array list)) = map (map_option IntValue) (inFrame ms col)"
    by (simp add: intColumn_def inFrame_map comp_def)
  ultimately show ?thesis
    using single.frame_holds [of R E J "intColumn col" ms "waInit W" d] intColumn_rows [OF assms(1), where E = E and col = "col"] assms(2)
    by (simp add: assms(3) intColumn_def)
qed

lemma relevant_all: "relevant R False False seen vs = ok vs"
  by (induction vs) simp_all

lemma relevant_plain: "wsOpt agg = noOption \<Longrightarrow> RelevantValues R agg = ok (wsValues agg)"
  by (simp add: RelevantValues_def WindowFuncAggregatedStatus_IgnoreNulls_def WindowFuncAggregatedStatus_Distinct_def
      noOption_def relevant_all)

lemma done_plain:
  assumes "d (wdAgg s) = ok v" "W = newSingleItemWindowAggregator R E J (plainImpl d)"
  shows "waDone W s = ok (v, s)"
  by (simp add: assms newSingleItemWindowAggregator_def plainImpl_def doneWindow_def)

lemma fold_sum_values:
  "goFold (\<lambda>v acc. onValue v (ok acc) (addTo R acc)) (map (map_option IntValue) vs) (map_option IntValue s)
    = ok (map_option IntValue (fold (startWith (\<lambda>a x. wrap64 (a + x))) (present vs) s))"
  unfolding goFold_map fold_onPresent [symmetric]
  by (rule goFold_rep) (auto simp: int_steps split: option.split)

lemma fold_extreme_values:
  "goFold (extremeStep R GT) (map (map_option IntValue) vs) (map_option IntValue s)
    = ok (map_option IntValue (fold (startWith (\<lambda>a x. if a < x then x else a)) (present vs) s))"
  "goFold (extremeStep R LT) (map (map_option IntValue) vs) (map_option IntValue s)
    = ok (map_option IntValue (fold (startWith (\<lambda>a x. if x < a then x else a)) (present vs) s))"
  unfolding goFold_map fold_onPresent [symmetric]
  by (rule goFold_rep, auto simp: extremeStep_def int_steps split: option.split)+

definition sumOf :: "int list \<Rightarrow> 'f Value option" where
  "sumOf xs = (if xs = [] then None else Some (IntValue (wrap64 (sum_list xs))))"

definition maxOf :: "int list \<Rightarrow> 'f Value option" where
  "maxOf xs = (if xs = [] then None else Some (IntValue (Max (set xs))))"

definition minOf :: "int list \<Rightarrow> 'f Value option" where
  "minOf xs = (if xs = [] then None else Some (IntValue (Min (set xs))))"

lemma done_ints:
  assumes "unoptioned s" "frameOf s = map (map_option IntValue) vs"
  shows "list_all isInt64 (present vs) \<Longrightarrow> WINDOW_SUM_Done R (wdAgg s) = ok (sumOf (present vs))"
    and "WINDOW_MAX_Done R (wdAgg s) = ok (maxOf (present vs))"
    and "WINDOW_MIN_Done R (wdAgg s) = ok (minOf (present vs))"
proof -
  have r: "RelevantValues R (wdAgg s) = ok (map (map_option IntValue) vs)"
    using assms by (simp add: relevant_plain unoptioned_def frameOf_def)
  show "list_all isInt64 (present vs) \<Longrightarrow> WINDOW_SUM_Done R (wdAgg s) = ok (sumOf (present vs))"
    using fold_sum_values [of R vs None]
    by (cases "present vs") (simp_all add: WINDOW_SUM_Done_def r sumOf_def fold_startWith_Some fold_wrap64_sum)
  show "WINDOW_MAX_Done R (wdAgg s) = ok (maxOf (present vs))"
    using fold_extreme_values(1) [of R vs None]
    by (cases "present vs") (simp_all add: WINDOW_MAX_Done_def r maxOf_def fold_startWith_Some fold_max)
  show "WINDOW_MIN_Done R (wdAgg s) = ok (minOf (present vs))"
    using fold_extreme_values(2) [of R vs None]
    by (cases "present vs") (simp_all add: WINDOW_MIN_Done_def r minOf_def fold_startWith_Some fold_min)
qed

lemma present_inFrame: "list_all isInt64 (present col) \<Longrightarrow> list_all isInt64 (present (inFrame ms col))"
  by (auto simp: list_all_iff present_def inFrame_def dest!: in_set_dropD in_set_takeD)

text \<open>What a window function of one argument gives after moving its frame over a column of integers.\<close>

definition slides ::
  "('f, unit) WindowAggregator \<Rightarrow> int option list \<Rightarrow> FrameMove list \<Rightarrow> 'f Value option \<Rightarrow> bool" where
  "slides W col ms v \<longleftrightarrow> (\<exists>s. goFold (frameMove (waStep W) (waInverse W) (intColumn col)) ms (0, 0, waInit W)
       = ok (entered ms, left ms, s) \<and> waDone W s = ok (v, s))"

lemma slidesI:
  fixes R :: "'f Runtime"
  assumes "\<And>i. notAnOption R J (IntValue i)" "legalMoves (length col) 0 0 ms"
    and "W = newSingleItemWindowAggregator R E J (plainImpl d)"
    and "\<And>s :: ('f, unit) WindowState. unoptioned s \<Longrightarrow> frameOf s = map (map_option IntValue) (inFrame ms col) \<Longrightarrow> d (wdAgg s) = ok v"
  shows "slides W col ms v"
proof -
  obtain s where s: "goFold (frameMove (waStep W) (waInverse W) (intColumn col)) ms (0, 0, waInit W) = ok (entered ms, left ms, s)"
      "unoptioned s" "frameOf s = map (map_option IntValue) (inFrame ms col)"
    using single_frame [OF assms(1,2,3)] by blast
  have "d (wdAgg s) = ok v" by (rule assms(4) [OF s(2,3)])
  then have "waDone W s = ok (v, s)" using assms(3) by (rule done_plain)
  then show ?thesis unfolding slides_def using s(1) by blast
qed

text \<open>C20: While a frame moves over a column of integers in any way SQLite may move it, SUM, MAX and MIN give the
  sum, the greatest and the least of the integers of the rows in the frame, and NULL if there is none.\<close>

theorem sliding_aggregates:
  assumes "\<And>i. notAnOption R J (IntValue i)" "legalMoves (length col) 0 0 ms" "list_all isInt64 (present col)"
  shows "slides (bindWindowSum R E J) col ms (sumOf (present (inFrame ms col)))
    \<and> slides (bindWindowMax R E J) col ms (maxOf (present (inFrame ms col)))
    \<and> slides (bindWindowMin R E J) col ms (minOf (present (inFrame ms col)))"
proof (intro conjI)
  show "slides (bindWindowSum R E J) col ms (sumOf (present (inFrame ms col)))"
    by (rule slidesI [OF assms(1,2) bindWindowSum_def]) (rule done_ints(1) [OF _ _ present_inFrame [OF assms(3)]])
  show "slides (bindWindowMax R E J) col ms (maxOf (present (inFrame ms col)))"
    by (rule slidesI [OF assms(1,2) bindWindowMax_def]) (rule done_ints(2))
  show "slides (bindWindowMin R E J) col ms (minOf (present (inFrame ms col)))"
    by (rule slidesI [OF assms(1,2) bindWindowMin_def]) (rule done_ints(3))
qed

section \<open>Frames of pairs\<close>

definition pairColumn :: "('f Value \<times> 'f Value) list \<Rightarrow> 'f array list" where
  "pairColumn ps = map (\<lambda>(x, y). [Some x, Some y]) ps"

definition pairValue :: "'f Value \<times> 'f Value \<Rightarrow> 'f Value option" where
  "pairValue p = (case p of (x, y) \<Rightarrow> Some (ArrayValue [Some x, Some y]))"

definition plainPair :: "'f Runtime \<Rightarrow> 'f OptionJson \<Rightarrow> 'f Value \<times> 'f Value \<Rightarrow> bool" where
  "plainPair R J p \<longleftrightarrow> notAnOption R J (fst p) \<and> notAnOption R J (snd p)"

lemma removeFirst_none: "list_all (\<lambda>v. v \<noteq> None) vs \<Longrightarrow> removeFirst R E None ws i vs = ok ws"
proof (induction vs arbitrary: i)
  case (Cons v vs)
  then obtain x where "v = Some x" by auto
  then show ?case using Cons by (cases x) (simp_all add: sameValue_def)
qed simp

lemma pair_step:
  assumes "plainPair R J p" "W = newTupleItemWindowAggregator R E J impl"
  shows "\<exists>t. waStep W (case p of (x, y) \<Rightarrow> [Some x, Some y]) s = ok t \<and> frameOf t = frameOf s @ [pairValue p]"
  using assms
  by (cases p)
    (simp add: newTupleItemWindowAggregator_def plainPair_def notAnOption_def parseAggregateOptions_def parseArgument_def
      onFrame_def WindowFuncAggregatedStatus_Step_def setOption_def frameOf_def pairValue_def)

lemma pair_inverse:
  assumes "list_all (\<lambda>v. v \<noteq> None) (frameOf s)" "W = newTupleItemWindowAggregator R E J impl"
  shows "waInverse W args s = ok s"
  using assms by (simp add: newTupleItemWindowAggregator_def onFrame_def WindowFuncAggregatedStatus_Inverse_def
      removeFirst_none frameOf_def)

lemma pairs_from:
  assumes "list_all (plainPair R J) ps" "W = newTupleItemWindowAggregator R E J impl"
    and "legalMoves (length ps) a b ms" "a \<le> length ps" "frameOf s = map pairValue (take a ps)"
  shows "\<exists>t. goFold (frameMove (waStep W) (waInverse W) (pairColumn ps)) ms (a, b, s) = ok (a + entered ms, b + left ms, t)
    \<and> frameOf t = map pairValue (take (a + entered ms) ps)"
  using assms(3-)
proof (induction ms arbitrary: a b s)
  case (Cons m ms)
  show ?case
  proof (cases m)
    case Enter
    then have a: "a < length ps" "legalMoves (length ps) (a + 1) b ms" using Cons.prems(1) by auto
    obtain t where t: "waStep W (case ps ! a of (x, y) \<Rightarrow> [Some x, Some y]) s = ok t" "frameOf t = frameOf s @ [pairValue (ps ! a)]"
      using pair_step [OF _ assms(2), of "ps ! a" s] assms(1) a(1) by (auto simp: list_all_length)
    have "frameOf t = map pairValue (take (a + 1) ps)" using t(2) Cons.prems(3) a(1) by (simp add: take_Suc_conv_app_nth)
    then show ?thesis using Cons.IH [OF a(2), of t] t(1) a(1) by (simp add: Enter frameMove_def pairColumn_def)
  next
    case Leave
    have "list_all (\<lambda>v. v \<noteq> None) (frameOf s)"
      by (auto simp: Cons.prems(3) list_all_iff pairValue_def)
    from pair_inverse [OF this assms(2)] show ?thesis
      using Cons.IH [of a "b + 1" s] Cons.prems by (simp add: Leave frameMove_def)
  qed
qed simp

text \<open>C25: The frame of a window function of two arguments (CORR, COVAR_POP, COVAR_SAMP) never loses a row: after any
  moves it holds all pairs that have entered, not those of the rows in the frame.\<close>

theorem pair_window_grows:
  assumes "list_all (plainPair R J) ps" "legalMoves (length ps) 0 0 ms"
  shows "\<exists>s. goFold (frameMove (waStep (bindWindowCorr R E J)) (waInverse (bindWindowCorr R E J)) (pairColumn ps)) ms
      (0, 0, waInit (bindWindowCorr R E J)) = ok (entered ms, left ms, s)
    \<and> frameOf s = map pairValue (take (entered ms) ps)"
  using pairs_from [OF assms(1) bindWindowCorr_def [of R E J] assms(2), of "waInit (bindWindowCorr R E J)"]
  by (simp add: frameOf_def bindWindowCorr_def newTupleItemWindowAggregator_def initialWindow_def newWindowFuncAggregatedStatus_def)

section \<open>The buckets of NTILE\<close>

lemma int_div_le: "0 \<le> a \<Longrightarrow> 0 < b \<Longrightarrow> a div b \<le> (a :: int)"
  using zdiv_mono2 [of a 1 b] by simp

lemma ntile_value:
  assumes "0 < p" "p \<le> n" "n < 2 ^ 62" "0 \<le> r" "r < n"
  shows "WINDOW_NTILE_Done \<lparr>ntParam = p, ntTotal = n, ntRow = r\<rparr>
    = ok (Some (IntValue (if r < n mod p * (n div p + 1) then 1 + r div (n div p + 1)
        else 1 + n mod p + (r - n mod p * (n div p + 1)) div (n div p))))"
proof -
  let ?s = "n div p" and ?m = "n mod p"
  have s: "0 < ?s" using assms(1,2) by (simp add: pos_imp_zdiv_pos_iff)
  have n: "n = p * ?s + ?m" by simp
  have m: "0 \<le> ?m" "?m < p" using assms(1) by simp_all
  have ms: "?m * (?s + 1) \<le> n"
  proof -
    have "?m * ?s \<le> p * ?s" using m(2) s by (intro mult_right_mono) simp_all
    moreover have "?m * (?s + 1) = ?m * ?s + ?m" by (simp add: distrib_left)
    ultimately show ?thesis using n by linarith
  qed
  have "p * ?s \<le> n" using n m(1) by linarith
  have sn: "?s \<le> n" using assms(1,2) by (intro int_div_le) simp_all
  have wrap: "wrap64 i = i" if "0 \<le> i" "i \<le> n + 1" for i
    using that assms(3) by (intro wrap64_id) (simp add: isInt64_def)
  have total: "?m * (?s + 1) + (p - ?m) * ?s = n"
    using n by (simp add: algebra_simps)
  have k1: "wrap64 (1 + r div (?s + 1)) = 1 + r div (?s + 1)"
    using assms(4,5) s by (intro wrap) (auto simp: pos_imp_zdiv_nonneg_iff intro: order_trans [OF int_div_le])
  have k2: "wrap64 (1 + ?m + (r - ?m * (?s + 1)) div ?s) = 1 + ?m + (r - ?m * (?s + 1)) div ?s"
    if "\<not> r < ?m * (?s + 1)"
  proof (rule wrap)
    show "0 \<le> 1 + ?m + (r - ?m * (?s + 1)) div ?s" using that m s by (simp add: pos_imp_zdiv_nonneg_iff)
    have "(r - ?m * (?s + 1)) div ?s \<le> r - ?m * (?s + 1)" using that s by (intro int_div_le) simp_all
    moreover have "?m * (?s + 1) \<ge> ?m" using m s by (simp add: mult_le_cancel_left1)
    ultimately show "1 + ?m + (r - ?m * (?s + 1)) div ?s \<le> n + 1" using assms(5) by linarith
  qed
  have L: "n - p * ?s = ?m" by (rule minus_mult_div_eq_mod)
  have d: "n sdiv p = ?s" "r sdiv (?s + 1) = r div (?s + 1)"
    using assms s by (simp_all add: sdiv_pos)
  have d2: "(r - ?m * (?s + 1)) sdiv ?s = (r - ?m * (?s + 1)) div ?s" if "\<not> r < ?m * (?s + 1)"
    using that s by (intro sdiv_pos) simp_all
  have mn: "0 \<le> ?m * (?s + 1)" using m(1) s by (intro mult_nonneg_nonneg) simp_all
  have w: "wrap64 ?s = ?s" "wrap64 ?m = ?m" "wrap64 (?m * (?s + 1)) = ?m * (?s + 1)" "wrap64 (?s + 1) = ?s + 1"
      "wrap64 n = n"
    using s m sn ms mn assms(2) by (intro wrap; linarith)+
  have w2: "wrap64 (r - ?m * (?s + 1)) = r - ?m * (?s + 1)" if "\<not> r < ?m * (?s + 1)"
    using that mn assms(5) by (intro wrap) simp_all
  have nz: "p \<noteq> 0" "?s \<noteq> 0" "?s + 1 \<noteq> 0" using assms(1) s by simp_all
  show ?thesis
  proof (cases "r < ?m * (?s + 1)")
    case True
    then show ?thesis
      by (simp only: WINDOW_NTILE_Done_def Ntile.simps Let_def d w L total nz k1 if_True if_False simp_thms)
  next
    case False
    then show ?thesis
      by (simp only: WINDOW_NTILE_Done_def Ntile.simps Let_def d w L total nz d2 w2 k2 if_True if_False simp_thms)
  qed
qed

lemma div_interval: "0 < d \<Longrightarrow> i div d = j \<longleftrightarrow> j * d \<le> i \<and> i < (j + 1) * (d :: int)"
proof
  assume d: "0 < d" and "j * d \<le> i \<and> i < (j + 1) * d"
  then have "i = d * j + (i - d * j)" "0 \<le> i - d * j" "i - d * j < d" by (simp_all add: algebra_simps)
  then show "i div d = j" by (rule int_div_pos_eq)
next
  assume d: "0 < d" and j: "i div d = j"
  have "i = d * j + i mod d" unfolding j [symmetric] by simp
  moreover have "0 \<le> i mod d" "i mod d < d" using d by simp_all
  ultimately show "j * d \<le> i \<and> i < (j + 1) * d" unfolding distrib_right mult.commute [of j d] by linarith
qed

text \<open>C24: NTILE splits the rows of a partition of n rows, at least as many as there are buckets, into runs: bucket k
  begins after the rows of the buckets before it and has n / p rows, one more if k is at most n mod p.\<close>

theorem ntile_buckets:
  assumes "0 < p" "p \<le> n" "n < 2 ^ 62" "1 \<le> k" "k \<le> p"
  shows "{r. 0 \<le> r \<and> r < n \<and> WINDOW_NTILE_Done \<lparr>ntParam = p, ntTotal = n, ntRow = r\<rparr> = ok (Some (IntValue k))}
    = {(k - 1) * (n div p) + min (k - 1) (n mod p) ..<
       (k - 1) * (n div p) + min (k - 1) (n mod p) + n div p + (if k \<le> n mod p then 1 else 0)}"
proof -
  define s where "s = n div p"
  define m where "m = n mod p"
  have s: "0 < s" using assms(1,2) by (simp add: s_def pos_imp_zdiv_pos_iff)
  have m: "0 \<le> m" "m < p" using assms(1) by (simp_all add: m_def)
  have n: "n = p * s + m" by (simp add: s_def m_def)
  have eq: "0 \<le> r \<and> r < n \<and> WINDOW_NTILE_Done \<lparr>ntParam = p, ntTotal = n, ntRow = r\<rparr> = ok (Some (IntValue k))
      \<longleftrightarrow> 0 \<le> r \<and> r < n \<and> (if r < m * (s + 1) then 1 + r div (s + 1) = k else 1 + m + (r - m * (s + 1)) div s = k)" for r
    using ntile_value [OF assms(1-3), of r] by (auto simp: s_def m_def)
  have ends: "m * (s + 1) \<le> n" "p * s = n - m"
    using m s n mult_right_mono [of m p s] by (simp_all add: distrib_left)
  have long: "1 + r div (s + 1) = k \<longleftrightarrow> (k - 1) * (s + 1) \<le> r \<and> r < k * (s + 1)" for r
    using div_interval [of "s + 1" r "k - 1"] s by auto
  have short: "1 + m + (r - m * (s + 1)) div s = k \<longleftrightarrow> (k - 1) * s + m \<le> r \<and> r < k * s + m" for r
    using div_interval [OF s, of "r - m * (s + 1)" "k - 1 - m"] by (auto simp: algebra_simps)
  show ?thesis
  proof (cases "k \<le> m")
    case True
    have "k * (s + 1) \<le> m * (s + 1)" using True s by (intro mult_right_mono) simp_all
    moreover have "0 \<le> (k - 1) * (s + 1)" using assms(4) s by simp
    moreover have "1 + m + (r - m * (s + 1)) div s \<noteq> k" if "\<not> r < m * (s + 1)" for r
      using that s True pos_imp_zdiv_nonneg_iff [of s "r - m * (s + 1)"] by linarith
    ultimately have run: "0 \<le> r \<and> r < n \<and> (if r < m * (s + 1) then 1 + r div (s + 1) = k else 1 + m + (r - m * (s + 1)) div s = k)
        \<longleftrightarrow> (k - 1) * (s + 1) \<le> r \<and> r < k * (s + 1)" for r
      using ends(1) long [of r] by (cases "r < m * (s + 1)") auto
    have lo: "(k - 1) * (n div p) + min (k - 1) (n mod p) = (k - 1) * (s + 1)"
      using True by (simp add: s_def [symmetric] m_def [symmetric] min_def distrib_left)
    have hi: "(k - 1) * (s + 1) + n div p + (if k \<le> n mod p then 1 else 0) = k * (s + 1)"
      using True by (simp add: s_def [symmetric] m_def [symmetric] distrib_left left_diff_distrib)
    show ?thesis unfolding eq run lo hi by auto
  next
    case False
    have k: "m * (s + 1) \<le> (k - 1) * s + m" "k * s + m \<le> n"
      using False s assms(5) mult_right_mono [of m "k - 1" s] mult_right_mono [of k p s] n by (simp_all add: distrib_left)
    have mk: "m * (s + 1) \<le> (k - 1) * (s + 1)" using False s by (intro mult_right_mono) simp_all
    have other: "1 + r div (s + 1) \<noteq> k" if "r < m * (s + 1)" for r
      unfolding long using that mk by linarith
    have "0 \<le> (k - 1) * s + m" using m s assms(4) by (intro add_nonneg_nonneg mult_nonneg_nonneg) simp_all
    then have run: "0 \<le> r \<and> r < n \<and> (if r < m * (s + 1) then 1 + r div (s + 1) = k else 1 + m + (r - m * (s + 1)) div s = k)
        \<longleftrightarrow> (k - 1) * s + m \<le> r \<and> r < k * s + m" for r
      unfolding short using k other [of r] by (cases "r < m * (s + 1)") auto
    have lo: "(k - 1) * (n div p) + min (k - 1) (n mod p) = (k - 1) * s + m"
      using False by (simp add: s_def [symmetric] m_def [symmetric] min_def)
    have hi: "(k - 1) * s + m + n div p + (if k \<le> n mod p then 1 else 0) = k * s + m"
      using False by (simp add: s_def [symmetric] m_def [symmetric] left_diff_distrib)
    show ?thesis unfolding eq run lo hi by auto
  qed
qed

end
