(* ===== verification/Window_Demo.thy ===== *)
theory Window_Demo
  imports Window_Props Value_Demo
begin

text \<open>Instances of the parameters of aggregates and window functions, with an insertion sort, and the witnesses.\<close>

fun insertBy :: "('a \<Rightarrow> 'a \<Rightarrow> bool go) \<Rightarrow> 'a \<Rightarrow> 'a list \<Rightarrow> 'a list" where
  "insertBy order x [] = [x]"
| "insertBy order x (y # ys) = (if order y x = ok True then y # insertBy order x ys else x # y # ys)"

definition demoSort :: "'a Sort" where
  "demoSort order xs = (case xs of [] \<Rightarrow> ok [] | f # _ \<Rightarrow> ok (foldr (insertBy (order f)) xs []))"

lemma mset_insertBy [simp]: "mset (insertBy order x ys) = add_mset x (mset ys)"
  by (induction ys) simp_all

lemma sorted_insertBy:
  assumes "\<forall>y \<in> set ys. order y x = ok (key y < (key x :: int))" "sorted (map key ys)"
  shows "sorted (map key (insertBy order x ys))"
  using assms
proof (induction ys)
  case (Cons y ys)
  have "set (insertBy order x ys) = insert x (set ys)" by (metis mset_insertBy set_mset_add_mset_insert set_mset_mset)
  then show ?case using Cons by auto
qed simp

lemma sortsByKey_demo: "sortsByKey demoSort"
  unfolding sortsByKey_def
proof (intro allI impI)
  fix order and key :: "'a \<Rightarrow> int" and xs :: "'a list"
  assume order: "\<forall>f \<in> set xs. \<forall>a \<in> set xs. \<forall>b \<in> set xs. order f a b = ok (key a < key b)"
  have folded: "mset (foldr (insertBy (order f)) ys []) = mset ys
      \<and> sorted (map key (foldr (insertBy (order f)) ys []))" if "f \<in> set xs" "set ys \<subseteq> set xs" for f ys
    using that(2)
  proof (induction ys)
    case (Cons y ys)
    then have IH: "mset (foldr (insertBy (order f)) ys []) = mset ys" "sorted (map key (foldr (insertBy (order f)) ys []))" by simp_all
    have "\<forall>z \<in> set (foldr (insertBy (order f)) ys []). order f z y = ok (key z < key y)"
      using mset_eq_setD [OF IH(1)] Cons.prems that(1) order by auto
    then show ?case using IH by (simp add: sorted_insertBy)
  qed simp
  show "\<exists>ys. demoSort order xs = ok ys \<and> mset ys = mset xs \<and> sorted (map key ys)"
  proof (cases xs)
    case (Cons f ys)
    then show ?thesis using folded [of f xs] by (simp add: demoSort_def)
  qed (simp add: demoSort_def)
qed

definition demoAggEnv :: "int AggEnv" where
  "demoAggEnv = \<lparr>aeSortOrdered = demoSort, aeSortCounted = demoSort, aeRange = id, aeSortValues = demoSort,
     aeFloor = id, aeCeil = id, aeSameTime = (\<lambda>t u. nanos t = nanos u), aeCorrelation = (\<lambda>xs ys. 0),
     aeCovariance = (\<lambda>xs ys. 0), aePopStdDev = (\<lambda>xs. 0), aeStdDev = (\<lambda>xs. 0), aePopVariance = (\<lambda>xs. 0),
     aeVariance = (\<lambda>xs. 0)\<rparr>"

text \<open>No text is an option: \<open>json.Unmarshal\<close> refuses a number for a struct.\<close>

definition demoOptionJson :: "int OptionJson" where
  "demoOptionJson = \<lparr>ojMarshal = (\<lambda>typ v. typ), ojType = (\<lambda>b. fail_with ''cannot unmarshal''),
     ojLimit = (\<lambda>b. fail_with ''cannot unmarshal''), ojOrderBy = (\<lambda>b. fail_with ''cannot unmarshal''),
     ojValue = (\<lambda>b. fail_with ''cannot unmarshal'')\<rparr>"

lemma demo_notAnOption: "notAnOption demoRuntime demoOptionJson (IntValue i)"
  by (simp add: notAnOption_def parseOption_def IntValue_ToString_def AggregatorFuncOption_UnmarshalJSON_def demoOptionJson_def)

section \<open>Witnesses\<close>

theorem integer_aggregates_witness:
  "runAggregate demoRuntime (bindSum demoRuntime) (map intRow [Some 3, None, Some 4]) = Some (ok (Some (IntValue 7)))
    \<and> runAggregate demoRuntime (bindMax demoRuntime) (map intRow [Some 3, None, Some 4]) = Some (ok (Some (IntValue 4)))"
  using integer_aggregates [of "[Some 3, None, Some 4]" demoRuntime] by (simp add: isInt64_def)

theorem bit_xor_restarts_witness:
  "runAggregate demoRuntime (bindBitXorAgg demoRuntime) (map intRow [Some 6, Some 3]) = Some (ok (Some (IntValue 5)))
    \<and> runAggregate demoRuntime (bindBitXorAgg demoRuntime) (map intRow [Some 1, Some 2]) = Some (ok (Some (IntValue 2)))"
proof
  show "runAggregate demoRuntime (bindBitXorAgg demoRuntime) (map intRow [Some 6, Some 3]) = Some (ok (Some (IntValue 5)))"
    using bit_xor_restarts [of "[Some 6, Some 3]" demoRuntime "[]"] by simp
  have "runAggregate demoRuntime (bindBitXorAgg demoRuntime) (map intRow [Some 1]) = Some (ok (Some (IntValue 1)))"
      "runAggregate demoRuntime (bindBitXorAgg demoRuntime) (map intRow [Some 2]) = Some (ok (Some (IntValue 2)))"
    by (simp_all only: run_bits) (simp_all add: sentinelStep_def)
  then show "runAggregate demoRuntime (bindBitXorAgg demoRuntime) (map intRow [Some 1, Some 2]) = Some (ok (Some (IntValue 2)))"
    using bit_xor_restarts [of "[Some 1]" demoRuntime "[Some 2]"] by simp
qed

definition distinctOption :: "int AggregatorOption" where
  "distinctOption = noOption\<lparr>aoDistinct := True\<rparr>"

theorem distinct_first_rows_witness:
  "runAggregate demoRuntime (bindSum demoRuntime)
      [([Some (IntValue 3)], distinctOption), ([Some (IntValue 4)], distinctOption), ([Some (IntValue 3)], distinctOption)]
    = Some (ok (Some (IntValue 7)))"
proof -
  have "sprintInt 3 = ''3''" "sprintInt 4 = ''4''" by code_simp+
  then show ?thesis
    using distinct_first_rows [of demoRuntime "[([Some (IntValue 3)], distinctOption), ([Some (IntValue 4)], distinctOption),
        ([Some (IntValue 3)], distinctOption)]" "bindSum demoRuntime"]
    by (simp add: distinctRowOk_def distinctOption_def noOption_def rowKey_def IntValue_ToString_def bindSum_def
        newAggregator_def SUM_Step_def SUM_Done_def int_steps wrap64_def)
qed

theorem array_agg_ordered_witness:
  "runAggregate demoRuntime (bindArrayAgg demoRuntime demoAggEnv)
      (map (keyedRow False (Some 1)) [(1, BoolValue False), (2, BoolValue True)])
    = Some (ok (Some (ArrayValue [Some (BoolValue True)])))"
proof -
  obtain kvs where kvs: "mset kvs = mset [(1, BoolValue False), (2, BoolValue True)]"
      "sorted (map (\<lambda>kv. directed False (fst kv)) kvs)"
    and run: "runAggregate demoRuntime (bindArrayAgg demoRuntime demoAggEnv)
        (map (keyedRow False (Some 1)) [(1, BoolValue False), (2, BoolValue True)])
      = Some (ok (Some (ArrayValue (map (Some \<circ> snd) (take 1 kvs)))))"
    using array_agg_ordered [of demoAggEnv "[(1, BoolValue False), (2, BoolValue True)]" "Some 1" False demoRuntime]
    by (auto simp: demoAggEnv_def sortsByKey_demo)
  have "length kvs = 2" using mset_eq_length [OF kvs(1)] by simp
  then obtain a b where ab: "kvs = [a, b]" by (auto simp: length_Suc_conv numeral_2_eq_2)
  then have "a = (2, BoolValue True)" using kvs by (auto simp: directed_def add_eq_conv_ex)
  then show ?thesis using run ab by simp
qed

text \<open>A column 5, NULL, 7: all rows enter, the first leaves.\<close>

definition demoMoves :: "FrameMove list" where
  "demoMoves = [Enter, Enter, Enter, Leave]"

theorem sliding_aggregates_witness:
  "slides (bindWindowSum demoRuntime demoAggEnv demoOptionJson) [Some 5, None, Some 7] demoMoves (Some (IntValue 7))"
  using sliding_aggregates [where R = demoRuntime and J = demoOptionJson and E = demoAggEnv
      and col = "[Some 5, None, Some 7]" and ms = demoMoves]
  by (simp add: demo_notAnOption demoMoves_def isInt64_def inFrame_def sumOf_def)

theorem pair_window_grows_witness:
  "\<exists>s. goFold (frameMove (waStep (bindWindowCorr demoRuntime demoAggEnv demoOptionJson))
        (waInverse (bindWindowCorr demoRuntime demoAggEnv demoOptionJson))
        (pairColumn [(IntValue 1, IntValue 2), (IntValue 3, IntValue 4)])) [Enter, Enter, Leave]
      (0, 0, waInit (bindWindowCorr demoRuntime demoAggEnv demoOptionJson)) = ok (2, 1, s)
    \<and> frameOf s = [pairValue (IntValue 1, IntValue 2), pairValue (IntValue 3, IntValue 4)]"
  using pair_window_grows [where R = demoRuntime and J = demoOptionJson and E = demoAggEnv
      and ps = "[(IntValue 1, IntValue 2), (IntValue 3, IntValue 4)]" and ms = "[Enter, Enter, Leave]"]
  by (simp add: plainPair_def demo_notAnOption numeral_2_eq_2 del: goFold.simps)

theorem ntile_buckets_witness:
  "{r. 0 \<le> r \<and> r < 5 \<and> WINDOW_NTILE_Done \<lparr>ntParam = 3, ntTotal = 5, ntRow = r\<rparr> = ok (Some (IntValue 3))} = {4 ..< (5 :: int)}"
  using ntile_buckets [of 3 5 3] by simp

end
