(* ===== verification/Go_Utf8.thy ===== *)
theory Go_Utf8
  imports Go_Int
begin

text \<open>
  Runes: the conversions between \<open>string\<close> and \<open>[]rune\<close> of Go and \<open>utf8.DecodeRune\<close>. A string is a sequence of
  bytes; a byte that is not part of the UTF-8 of a code point is read as U+FFFD, and a rune that is not a code
  point is written as U+FFFD.
\<close>

definition byteAt :: "char \<Rightarrow> nat" where
  "byteAt c = of_char c"

definition byteOf :: "nat \<Rightarrow> char" where
  "byteOf n = char_of n"

lemma byteAt_less [simp]: "byteAt c < 256"
  by (simp add: byteAt_def)

lemma byteAt_byteOf [simp]: "n < 256 \<Longrightarrow> byteAt (byteOf n) = n"
  by (simp add: byteAt_def byteOf_def)

definition runeError :: nat where
  "runeError = 0xFFFD"

definition validRune :: "nat \<Rightarrow> bool" where
  "validRune r \<longleftrightarrow> r < 0xD800 \<or> 0xDFFF < r \<and> r < 0x110000"

section \<open>Encoding\<close>

definition encodeRune :: "nat \<Rightarrow> string" where
  "encodeRune r' =
     (let r = (if validRune r' then r' else runeError) in
      if r < 0x80 then [byteOf r]
      else if r < 0x800 then [byteOf (0xC0 + r div 0x40), byteOf (0x80 + r mod 0x40)]
      else if r < 0x10000 then
        [byteOf (0xE0 + r div 0x1000), byteOf (0x80 + r div 0x40 mod 0x40), byteOf (0x80 + r mod 0x40)]
      else [byteOf (0xF0 + r div 0x40000), byteOf (0x80 + r div 0x1000 mod 0x40), byteOf (0x80 + r div 0x40 mod 0x40),
        byteOf (0x80 + r mod 0x40)])"

definition stringOfRunes :: "nat list \<Rightarrow> string" where
  "stringOfRunes rs = concat (map encodeRune rs)"

text \<open>\<open>string(rune(i))\<close>: the integer is first cut to 32 bits.\<close>

definition runeOfInt :: "int \<Rightarrow> nat" where
  "runeOfInt i = (if wrap32 i < 0 then runeError else nat (wrap32 i))"

section \<open>Decoding\<close>

definition contByte :: "nat \<Rightarrow> bool" where
  "contByte b \<longleftrightarrow> 0x80 \<le> b \<and> b < 0xC0"

text \<open>The second byte has a narrower range after some first bytes.\<close>

definition secondByte :: "nat \<Rightarrow> nat \<Rightarrow> bool" where
  "secondByte b0 b1 \<longleftrightarrow> contByte b1 \<and> (b0 = 0xE0 \<longrightarrow> 0xA0 \<le> b1) \<and> (b0 = 0xED \<longrightarrow> b1 < 0xA0)
     \<and> (b0 = 0xF0 \<longrightarrow> 0x90 \<le> b1) \<and> (b0 = 0xF4 \<longrightarrow> b1 < 0x90)"

definition decodeRune :: "nat list \<Rightarrow> nat \<times> nat" where
  "decodeRune bs = (case bs of
     [] \<Rightarrow> (runeError, 0)
   | b0 # r \<Rightarrow>
       if b0 < 0x80 then (b0, 1)
       else if 0xC2 \<le> b0 \<and> b0 < 0xE0 then
         (case r of b1 # _ \<Rightarrow> if contByte b1 then ((b0 - 0xC0) * 0x40 + (b1 - 0x80), 2) else (runeError, 1)
          | _ \<Rightarrow> (runeError, 1))
       else if 0xE0 \<le> b0 \<and> b0 < 0xF0 then
         (case r of b1 # b2 # _ \<Rightarrow>
            if secondByte b0 b1 \<and> contByte b2
            then ((b0 - 0xE0) * 0x1000 + (b1 - 0x80) * 0x40 + (b2 - 0x80), 3) else (runeError, 1)
          | _ \<Rightarrow> (runeError, 1))
       else if 0xF0 \<le> b0 \<and> b0 < 0xF5 then
         (case r of b1 # b2 # b3 # _ \<Rightarrow>
            if secondByte b0 b1 \<and> contByte b2 \<and> contByte b3
            then ((b0 - 0xF0) * 0x40000 + (b1 - 0x80) * 0x1000 + (b2 - 0x80) * 0x40 + (b3 - 0x80), 4)
            else (runeError, 1)
          | _ \<Rightarrow> (runeError, 1))
       else (runeError, 1))"

lemma decodeRune_size: "bs \<noteq> [] \<Longrightarrow> 0 < snd (decodeRune bs)"
  by (auto simp: decodeRune_def split: list.splits)

text \<open>The runes of a string, each with the bytes it was read from.\<close>

function runeChunks :: "string \<Rightarrow> (nat \<times> string) list" where
  "runeChunks s = (if s = [] then [] else
     (case decodeRune (map byteAt s) of (r, n) \<Rightarrow> (r, take n s) # runeChunks (drop n s)))"
  by pat_completeness auto
termination
  apply (relation "measure length")
   apply simp
  subgoal for s using decodeRune_size [of "map byteAt s"] by (cases "decodeRune (map byteAt s)") auto
  done

declare runeChunks.simps [simp del]

definition runesOf :: "string \<Rightarrow> nat list" where
  "runesOf s = map fst (runeChunks s)"

definition explode :: "string \<Rightarrow> string list" where
  "explode s = map snd (runeChunks s)"

lemma concat_explode [simp]: "concat (explode s) = s"
  unfolding explode_def
proof (induction s rule: runeChunks.induct)
  case (1 s)
  then show ?case by (cases "decodeRune (map byteAt s)") (subst runeChunks.simps, auto)
qed

section \<open>Round trip\<close>

lemma decode_encode:
  assumes "validRune r"
  shows "decodeRune (map byteAt (encodeRune r) @ bs) = (r, length (encodeRune r))"
proof -
  consider "r < 0x80" | "0x80 \<le> r" "r < 0x800" | "0x800 \<le> r" "r < 0x10000" | "0x10000 \<le> r" by linarith
  then show ?thesis
  proof cases
    case 1
    then show ?thesis using assms by (simp add: encodeRune_def decodeRune_def)
  next
    case 2
    define a where "a = r div 0x40"
    define b where "b = r mod 0x40"
    have r: "r = a * 0x40 + b" "b < 0x40" by (simp_all add: a_def b_def)
    have "2 \<le> a" "a < 0x20" using 2 r by linarith+
    then show ?thesis
      using assms 2 r(2) by (simp add: encodeRune_def decodeRune_def contByte_def flip: a_def b_def) (simp add: r(1))
  next
    case 3
    define q where "q = r div 0x40"
    define a where "a = q div 0x40"
    define b where "b = q mod 0x40"
    define c where "c = r mod 0x40"
    have abc: "r div 0x1000 = a" "r div 0x40 mod 0x40 = b" "r mod 0x40 = c"
      by (simp_all add: a_def b_def c_def q_def div_mult2_eq [symmetric])
    have r: "r = q * 0x40 + c" "q = a * 0x40 + b" "b < 0x40" "c < 0x40"
      by (simp_all add: q_def a_def b_def c_def)
    have "a < 0x10" "a = 0 \<Longrightarrow> 0x20 \<le> b" "a = 0xD \<Longrightarrow> b < 0x20"
      using 3 r assms by (simp_all add: validRune_def)
    then show ?thesis
      using assms 3 r(3,4)
      by (simp add: encodeRune_def decodeRune_def secondByte_def contByte_def abc) (simp add: r(1,2))
  next
    case 4
    define q where "q = r div 0x40"
    define p where "p = q div 0x40"
    define a where "a = p div 0x40"
    define b where "b = p mod 0x40"
    define c where "c = q mod 0x40"
    define d where "d = r mod 0x40"
    have abcd: "r div 0x40000 = a" "r div 0x1000 mod 0x40 = b" "r div 0x40 mod 0x40 = c" "r mod 0x40 = d"
      by (simp_all add: a_def b_def c_def d_def p_def q_def div_mult2_eq [symmetric])
    have r: "r = q * 0x40 + d" "q = p * 0x40 + c" "p = a * 0x40 + b" "b < 0x40" "c < 0x40" "d < 0x40"
      by (simp_all add: q_def p_def a_def b_def c_def d_def)
    have "a < 5" "a = 0 \<Longrightarrow> 0x10 \<le> b" "a = 4 \<Longrightarrow> b < 0x10"
      using 4 r assms by (simp_all add: validRune_def)
    then show ?thesis
      using assms 4 r(4,5,6)
      by (simp add: encodeRune_def decodeRune_def secondByte_def contByte_def abcd) (simp add: r(1,2,3))
  qed
qed

lemma encodeRune_nonempty: "encodeRune r \<noteq> []"
  by (simp add: encodeRune_def Let_def)

text \<open>Reading what was written: the runes, if they are code points.\<close>

lemma runesOf_string: "list_all validRune rs \<Longrightarrow> runesOf (stringOfRunes rs) = rs"
proof (induction rs)
  case (Cons r rs)
  have "decodeRune (map byteAt (stringOfRunes (r # rs))) = (r, length (encodeRune r))"
    using Cons.prems by (simp add: stringOfRunes_def decode_encode)
  then show ?case using Cons encodeRune_nonempty
    by (subst runesOf_def, subst runeChunks.simps) (simp add: runesOf_def [symmetric], simp add: stringOfRunes_def)
qed (simp add: runesOf_def stringOfRunes_def runeChunks.simps)

definition validUtf8 :: "string \<Rightarrow> bool" where
  "validUtf8 s \<longleftrightarrow> stringOfRunes (runesOf s) = s \<and> list_all validRune (runesOf s)"

lemma validUtf8_string: "list_all validRune rs \<Longrightarrow> validUtf8 (stringOfRunes rs)"
  by (simp add: validUtf8_def runesOf_string)

text \<open>ASCII: one byte per rune.\<close>

lemma chunks_ascii: "list_all (\<lambda>c. byteAt c < 0x80) s \<Longrightarrow> runeChunks s = map (\<lambda>c. (byteAt c, [c])) s"
proof (induction s)
  case (Cons c s)
  then show ?case by (subst runeChunks.simps) (simp add: decodeRune_def)
qed (simp add: runeChunks.simps)

lemma runesOf_ascii: "list_all (\<lambda>c. byteAt c < 0x80) s \<Longrightarrow> runesOf s = map byteAt s"
  by (simp add: runesOf_def chunks_ascii)

lemma stringOfRunes_ascii: "list_all (\<lambda>r. r < 0x80) rs \<Longrightarrow> stringOfRunes rs = map byteOf rs"
  by (induction rs) (simp_all add: stringOfRunes_def encodeRune_def validRune_def)

lemma byteOf_byteAt [simp]: "byteOf (byteAt c) = c"
  by (simp add: byteAt_def byteOf_def)

lemma ascii_validUtf8: "list_all (\<lambda>c. byteAt c < 0x80) s \<Longrightarrow> validUtf8 s"
  by (force simp: validUtf8_def runesOf_ascii stringOfRunes_ascii list_all_iff validRune_def comp_def map_idI)

end
