(* ===== verification/Func_String.thy ===== *)
theory Func_String
  imports Func_Approx Go_Utf8
begin

text \<open>
  Strings and bytes: \<open>internal/function_string.go\<close>, but for \<open>FORMAT\<close>, whose directives are not modelled.
  Most functions have one branch for each of the two types and reject any other value, nil included.

  Parameters, collected in \<open>TextEnv\<close>: the case of letters outside ASCII, the normal forms of
  \<open>golang.org/x/text\<close>, base 32, and the regular expressions of the type \<open>'re\<close>.
\<close>

record 're TextEnv =
  teLower :: "string \<Rightarrow> string"
  teUpper :: "string \<Rightarrow> string"
  teNorm :: "string \<Rightarrow> string \<Rightarrow> string"
  teBase32 :: "string \<Rightarrow> string"
  teUnbase32 :: "string \<Rightarrow> string go"
  reCompile :: "string \<Rightarrow> 're go"
  reMatch :: "'re \<Rightarrow> string \<Rightarrow> bool"
  reFindAll :: "'re \<Rightarrow> string \<Rightarrow> int \<Rightarrow> string list list"
  reFindAllIndex :: "'re \<Rightarrow> string \<Rightarrow> int \<Rightarrow> int list list"
  reReplaceAll :: "'re \<Rightarrow> string \<Rightarrow> string \<Rightarrow> string"

section \<open>The standard library\<close>

definition goSlice :: "'a list \<Rightarrow> int \<Rightarrow> int \<Rightarrow> 'a list go" where
  "goSlice xs i j =
     (if 0 \<le> i \<and> i \<le> j \<and> j \<le> int (length xs) then ok (drop (nat i) (take (nat j) xs))
      else panic ''slice bounds out of range'')"

definition asciiChar :: "char \<Rightarrow> bool" where
  "asciiChar c \<longleftrightarrow> byteAt c < 0x80"

definition upperChar :: "char \<Rightarrow> char" where
  "upperChar c = (if 97 \<le> byteAt c \<and> byteAt c \<le> 122 then byteOf (byteAt c - 32) else c)"

definition stringsToLower :: "'re TextEnv \<Rightarrow> string \<Rightarrow> string" where
  "stringsToLower T s = (if list_all asciiChar s then map lowerChar s else teLower T s)"

definition stringsToUpper :: "'re TextEnv \<Rightarrow> string \<Rightarrow> string" where
  "stringsToUpper T s = (if list_all asciiChar s then map upperChar s else teUpper T s)"

definition goRepeat :: "string \<Rightarrow> string \<Rightarrow> int \<Rightarrow> string go" where
  "goRepeat pkg s n =
     (if n < 0 then panic (pkg @ '': negative Repeat count'')
      else if maxInt64 < int (length s) * n then panic (pkg @ '': Repeat output length overflow'')
      else ok (concat (replicate (nat n) s)))"

text \<open>With an empty pattern, replacements go before every rune and at the end, and pieces are runes.\<close>

definition stringsReplaceAll :: "string \<Rightarrow> string \<Rightarrow> string \<Rightarrow> string" where
  "stringsReplaceAll s old new =
     (if old = [] then concat (map (\<lambda>c. new @ c) (explode s)) @ new else replaceAll old new s)"

definition stringsSplit :: "string \<Rightarrow> string \<Rightarrow> string list" where
  "stringsSplit s sep = (if sep = [] then explode s else splitAt sep 0 s)"

text \<open>Bytes are dropped by the rune they are read as.\<close>

definition stringsTrimLeft :: "string \<Rightarrow> string \<Rightarrow> string" where
  "stringsTrimLeft s cutset = concat (map snd (dropWhile (\<lambda>(r, _). r \<in> set (runesOf cutset)) (runeChunks s)))"

definition stringsTrimRight :: "string \<Rightarrow> string \<Rightarrow> string" where
  "stringsTrimRight s cutset =
     concat (map snd (rev (dropWhile (\<lambda>(r, _). r \<in> set (runesOf cutset)) (rev (runeChunks s)))))"

definition stringsTrim :: "string \<Rightarrow> string \<Rightarrow> string" where
  "stringsTrim s cutset = stringsTrimRight (stringsTrimLeft s cutset) cutset"

definition trimLeftSpace :: "string \<Rightarrow> string" where
  "trimLeftSpace s = stripLeft spaceSeqs s"

definition trimRightSpace :: "string \<Rightarrow> string" where
  "trimRightSpace s = rev (stripLeft (map rev spaceSeqs) (rev s))"

text \<open>Hexadecimal digits, and the text of a byte that is none: \<open>%#U\<close> of the rune of that number.\<close>

definition hexValue :: "char \<Rightarrow> nat option" where
  "hexValue c =
     (let n = byteAt c in
      if 48 \<le> n \<and> n \<le> 57 then Some (n - 48)
      else if 97 \<le> n \<and> n \<le> 102 then Some (n - 87)
      else if 65 \<le> n \<and> n \<le> 70 then Some (n - 55)
      else None)"

definition invalidByteError :: "char \<Rightarrow> string" where
  "invalidByteError c =
     (let n = byteAt c in
      ''encoding/hex: invalid byte: U+00'' @ map upperChar [hexChar (n div 16), hexChar (n mod 16)]
        @ (if 0x20 \<le> n \<and> n < 0x7F \<or> 0xA1 \<le> n \<and> n \<noteq> 0xAD
           then '' '' @ [CHR 0x27] @ encodeRune n @ [CHR 0x27] else []))"

definition hexEncode :: "string \<Rightarrow> string" where
  "hexEncode s = concat (map (\<lambda>c. [hexChar (byteAt c div 16), hexChar (byteAt c mod 16)]) s)"

fun hexDecode :: "string \<Rightarrow> string go" where
  "hexDecode (p # q # s) =
     (case (hexValue p, hexValue q) of
        (None, _) \<Rightarrow> fail_with (invalidByteError p)
      | (_, None) \<Rightarrow> fail_with (invalidByteError q)
      | (Some a, Some b) \<Rightarrow> go_bind (hexDecode s) (\<lambda>r. ok (byteOf (16 * a + b) # r)))"
| "hexDecode [] = ok []"
| "hexDecode [p] =
     (case hexValue p of None \<Rightarrow> fail_with (invalidByteError p) | _ \<Rightarrow> fail_with ''encoding/hex: odd length hex string'')"

section \<open>Strings or bytes\<close>

definition onText :: "string \<Rightarrow> (string \<Rightarrow> 'a go) \<Rightarrow> (string \<Rightarrow> 'a go) \<Rightarrow> 'f Value option \<Rightarrow> 'a go" where
  "onText msg f g v = (case v of Some (StringValue s) \<Rightarrow> f s | Some (BytesValue b) \<Rightarrow> g b | _ \<Rightarrow> fail_with msg)"

lemma onText_simps [simp]:
  "onText msg f g (Some (StringValue s)) = f s" "onText msg f g (Some (BytesValue s)) = g s"
  "onText msg f g (Some (IntValue i)) = fail_with msg" "onText msg f g None = fail_with msg"
  by (simp_all add: onText_def)

abbreviation okString :: "string \<Rightarrow> 'f Value option go" where
  "okString s \<equiv> ok (Some (StringValue s))"

abbreviation okBytes :: "string \<Rightarrow> 'f Value option go" where
  "okBytes s \<equiv> ok (Some (BytesValue s))"

abbreviation okInt :: "int \<Rightarrow> 'f Value option go" where
  "okInt i \<equiv> ok (Some (IntValue i))"

abbreviation okBool :: "bool \<Rightarrow> 'f Value option go" where
  "okBool b \<equiv> ok (Some (BoolValue b))"

text \<open>The text, or the bytes, of another argument; using a nil one panics.\<close>

abbreviation textArg :: "'f Runtime \<Rightarrow> 'f Value option \<Rightarrow> string go" where
  "textArg R v \<equiv> onNil v (Value_ToString R)"

abbreviation bytesArg :: "'f Runtime \<Rightarrow> 'f Value option \<Rightarrow> string go" where
  "bytesArg R v \<equiv> onNil v (Value_ToBytes R)"

section \<open>Code points\<close>

definition ASCII :: "string \<Rightarrow> 'f Value option go" where
  "ASCII v = (case v of [] \<Rightarrow> indexPanic | c # _ \<Rightarrow> okInt (int (byteAt c)))"

definition BYTE_LENGTH :: "string \<Rightarrow> 'f Value option go" where
  "BYTE_LENGTH v = okInt (int (length v))"

definition CHAR_LENGTH :: "string \<Rightarrow> 'f Value option go" where
  "CHAR_LENGTH v = okInt (int (length (runesOf v)))"

definition CHR_rune :: "int \<Rightarrow> 'f Value option go" where
  "CHR_rune v = (if v = 0 then okString [] else okString (encodeRune (runeOfInt v)))"

definition CODE_POINTS_TO_BYTES :: "'f Runtime \<Rightarrow> 'f array \<Rightarrow> 'f Value option go" where
  "CODE_POINTS_TO_BYTES R v =
     go_bind (goList (map (\<lambda>vv. go_bind (onNil vv (Value_ToInt64 R)) (\<lambda>i64. ok (byteOf (nat (i64 mod 256))))) v))
       (\<lambda>bytes. okBytes bytes)"

fun codePoints :: "'f Runtime \<Rightarrow> 'f array \<Rightarrow> nat list \<Rightarrow> 'f Value option go" where
  "codePoints R [] runes = okString (stringOfRunes runes)"
| "codePoints R (None # vs) runes = ok None"
| "codePoints R (Some vv # vs) runes =
     go_bind (Value_ToInt64 R vv) (\<lambda>i64.
       if i64 = 0 then codePoints R vs runes else codePoints R vs (runes @ [runeOfInt i64]))"

definition CODE_POINTS_TO_STRING :: "'f Runtime \<Rightarrow> 'f array \<Rightarrow> 'f Value option go" where
  "CODE_POINTS_TO_STRING R v = codePoints R v []"

definition TO_CODE_POINTS :: "'f Value option \<Rightarrow> 'f Value option go" where
  "TO_CODE_POINTS v = onText ''TO_CODE_POINTS: value type is must be STRING or BYTES type''
     (\<lambda>s. ok (Some (ArrayValue (map (\<lambda>r. Some (IntValue (int r))) (runesOf s)))))
     (\<lambda>b. ok (Some (ArrayValue (map (\<lambda>bb. Some (IntValue (int (byteAt bb)))) b)))) v"

definition UNICODE :: "string \<Rightarrow> 'f Value option go" where
  "UNICODE v = (case runesOf v of [] \<Rightarrow> okInt 0 | r # _ \<Rightarrow> okInt (int r))"

definition SAFE_CONVERT_BYTES_TO_STRING :: "string \<Rightarrow> 'f Value option go" where
  "SAFE_CONVERT_BYTES_TO_STRING value = okString (stringOfRunes (runesOf value))"

section \<open>Texts\<close>

definition COLLATE :: "string \<Rightarrow> string \<Rightarrow> 'f Value option go" where
  "COLLATE v spec =
     (case splitChar CHR '':'' spec of
        [_, attribute] \<Rightarrow>
          if attribute = ''ci'' then okString v
          else fail_with (''COLLATE: unsupported collation attribute '' @ attribute)
      | _ \<Rightarrow> fail_with (''COLLATE: unexpected spec literal '' @ spec))"

definition CONCAT :: "'f Runtime \<Rightarrow> 'f array \<Rightarrow> 'f Value option go" where
  "CONCAT R args =
     go_bind (goList (map (\<lambda>v. case v of None \<Rightarrow> ok [] | Some x \<Rightarrow> Value_ToBytes R x) args)) (\<lambda>parts.
     case args of
       [] \<Rightarrow> indexPanic
     | v # _ \<Rightarrow> onText ''CONCAT: argument type must be STRING or BYTES''
         (\<lambda>_. okString (concat parts)) (\<lambda>_. okBytes (concat parts)) v)"

definition normalForm :: "'re TextEnv \<Rightarrow> string \<Rightarrow> string \<Rightarrow> 'f Value option go" where
  "normalForm T v mode =
     (if mode \<in> {''NFC'', ''NFD'', ''NFKC'', ''NFKD''} then okString (teNorm T mode v)
      else fail_with (''unexpected normalize mode '' @ mode))"

definition NORMALIZE :: "'re TextEnv \<Rightarrow> string \<Rightarrow> string \<Rightarrow> 'f Value option go" where
  "NORMALIZE T v mode = normalForm T v mode"

definition NORMALIZE_AND_CASEFOLD :: "'re TextEnv \<Rightarrow> string \<Rightarrow> string \<Rightarrow> 'f Value option go" where
  "NORMALIZE_AND_CASEFOLD T v mode = normalForm T (stringsToLower T v) mode"

definition foldedText :: "'f Runtime \<Rightarrow> 're TextEnv \<Rightarrow> string \<Rightarrow> string go" where
  "foldedText R T v =
     go_bind (wrapGo ''CONTAINS_SUBSTR: could not normalize and casefold value'' (NORMALIZE_AND_CASEFOLD T v ''NFKC'')) (\<lambda>n.
     wrapGo ''CONTAINS_SUBSTR: could not convert expression to string'' (textArg R n))"

definition CONTAINS_SUBSTR :: "'f Runtime \<Rightarrow> 're TextEnv \<Rightarrow> string \<Rightarrow> string \<Rightarrow> 'f Value option go" where
  "CONTAINS_SUBSTR R T value' search =
     go_bind (foldedText R T value') (\<lambda>normalizedValue.
     go_bind (foldedText R T search) (\<lambda>normalizedSearch.
     okBool (containsStr normalizedValue normalizedSearch)))"

definition ENDS_WITH :: "'f Runtime \<Rightarrow> 'f Value option \<Rightarrow> 'f Value option \<Rightarrow> 'f Value option go" where
  "ENDS_WITH R v ends = onText ''ENDS_WITH: argument type must be STRING or BYTES''
     (\<lambda>s. go_bind (textArg R ends) (\<lambda>e. okBool (hasSuffix s e)))
     (\<lambda>b. go_bind (bytesArg R ends) (\<lambda>e. okBool (hasSuffix b e))) v"

definition STARTS_WITH :: "'f Runtime \<Rightarrow> 'f Value option \<Rightarrow> 'f Value option \<Rightarrow> 'f Value option go" where
  "STARTS_WITH R v starts = onText ''ENDS_WITH: argument type must be STRING or BYTES''
     (\<lambda>s. go_bind (textArg R starts) (\<lambda>p. okBool (hasPrefix s p)))
     (\<lambda>b. go_bind (bytesArg R starts) (\<lambda>p. okBool (hasPrefix b p))) v"

definition STRPOS :: "'f Runtime \<Rightarrow> 'f Value option \<Rightarrow> 'f Value option \<Rightarrow> 'f Value option go" where
  "STRPOS R v search = onText ''STRPOS: argument type must be STRING or BYTES''
     (\<lambda>s. go_bind (textArg R search) (\<lambda>p. okInt (strIndex s p + 1)))
     (\<lambda>b. go_bind (bytesArg R search) (\<lambda>p. okInt (strIndex b p + 1))) v"

definition FROM_BASE32 :: "'re TextEnv \<Rightarrow> string \<Rightarrow> 'f Value option go" where
  "FROM_BASE32 T v = go_bind (teUnbase32 T v) (\<lambda>b. okBytes b)"

definition FROM_BASE64 :: "'f Json \<Rightarrow> string \<Rightarrow> 'f Value option go" where
  "FROM_BASE64 J v = go_bind (base64Decode J v) (\<lambda>b. okBytes b)"

definition FROM_HEX :: "string \<Rightarrow> 'f Value option go" where
  "FROM_HEX v = go_bind (hexDecode (if length v mod 2 \<noteq> 0 then CHR ''0'' # v else v)) (\<lambda>b. okBytes b)"

definition TO_BASE32 :: "'re TextEnv \<Rightarrow> string \<Rightarrow> 'f Value option go" where
  "TO_BASE32 T v = okString (teBase32 T v)"

definition TO_BASE64 :: "string \<Rightarrow> 'f Value option go" where
  "TO_BASE64 v = okString (base64Encode v)"

definition TO_HEX :: "string \<Rightarrow> 'f Value option go" where
  "TO_HEX v = okString (hexEncode v)"

definition defaultInitcapDelimiters :: "nat list" where
  "defaultInitcapDelimiters = map byteAt
     ('' [](){}/|'' @ [CHR 0x5C] @ ''<>!?@'' @ [CHR 0x22] @ ''^#$&~_,.:;*%+-'')"

definition isDelim :: "nat \<Rightarrow> nat list \<Rightarrow> bool" where
  "isDelim v delimiters \<longleftrightarrow> list_ex (\<lambda>delim. v = delim) delimiters"

text \<open>A delimiter takes the rune after it along, in upper case.\<close>

fun initcapLoop :: "(string \<Rightarrow> string) \<Rightarrow> (string \<Rightarrow> string) \<Rightarrow> nat list \<Rightarrow> bool \<Rightarrow> nat list \<Rightarrow> nat list" where
  "initcapLoop lower upper delims isFirst [] = []"
| "initcapLoop lower upper delims isFirst (r # src) =
     (let out = (if isFirst then runesOf (upper (encodeRune r)) else if isDelim r delims then [r]
                 else runesOf (lower (encodeRune r)))
      in case src of
           [] \<Rightarrow> out
         | n # rest \<Rightarrow>
             if isDelim n delims then out @ initcapLoop lower upper delims False src
             else if isDelim r delims then
               out @ runesOf (upper (encodeRune n)) @ initcapLoop lower upper delims False rest
             else out @ initcapLoop lower upper delims False src)"

definition INITCAP :: "'re TextEnv \<Rightarrow> string \<Rightarrow> nat list option \<Rightarrow> 'f Value option go" where
  "INITCAP T value' delimiters =
     (let delims = (case delimiters of None \<Rightarrow> defaultInitcapDelimiters | Some d \<Rightarrow> d)
      in okString (stringOfRunes (initcapLoop (stringsToLower T) (stringsToUpper T) delims True (runesOf value'))))"

section \<open>Positions\<close>

text \<open>\<open>int(math.Abs(float64(position)))\<close>\<close>

definition absInt :: "'f Runtime \<Rightarrow> int \<Rightarrow> int" where
  "absInt R position =
     (let f = flOfInt R position; zero = flOfInt R 0 in flToInt R (if flLess R f zero then flSub R zero f else f))"

text \<open>The number of the byte at which the occurrence starts, counted from \<open>i\<close>.\<close>

function instrLoop :: "string \<Rightarrow> int \<Rightarrow> int \<Rightarrow> nat \<Rightarrow> string \<Rightarrow> nat option" where
  "instrLoop search occurrence found i src =
     (if length src \<le> i then None
      else let idx = strIndex (drop i src) search;
               found' = (if idx \<ge> 0 then found + 1 else found);
               i' = (if idx \<ge> 0 then i + nat idx else i)
           in if found' = occurrence then Some i' else instrLoop search occurrence found' (i' + 1) src)"
  by pat_completeness auto
termination
  by (relation "measure (\<lambda>(search, occurrence, found, i, src). length src - i)") auto

declare instrLoop.simps [simp del]

definition instrText :: "'f Runtime \<Rightarrow> int \<Rightarrow> int \<Rightarrow> string \<Rightarrow> string \<Rightarrow> 'f Value option go" where
  "instrText R position occurrence src search =
     (let pos = absInt R position; len = int (length src)
      in if pos \<ge> len then
           fail_with (''INSTR: invalid position number. position '' @ sprintInt pos
             @ '' is larger than source value length '' @ sprintInt len)
         else go_bind (if position < 0 then goSlice src 0 (wrap64 (len - pos + 1)) else goSlice src (wrap64 (pos - 1)) len) (\<lambda>src.
           case instrLoop search occurrence 0 0 src of
             None \<Rightarrow> okInt 0
           | Some i \<Rightarrow> okInt (if position < 0 then len - int i - 1 else pos + int i)))"

definition INSTR :: "'f Runtime \<Rightarrow> 'f Value option \<Rightarrow> 'f Value option \<Rightarrow> int \<Rightarrow> int \<Rightarrow> 'f Value option go" where
  "INSTR R source search position occurrence =
     (if position = 0 then fail_with ''INSTR: invalid position number. position is must be large than zero value''
      else if occurrence \<le> 0 then
        fail_with (''INSTR: invalid occurrence number. occurrence is must be large than zero value. but specified ''
          @ sprintInt occurrence)
      else onText ''INSTR: source and search type are must be STRING or BYTES type''
        (\<lambda>src. case search of
             Some (StringValue s) \<Rightarrow> instrText R position occurrence src s
           | _ \<Rightarrow> fail_with ''INSTR: source and search are must be same type'')
        (\<lambda>src. case search of
             Some (BytesValue s) \<Rightarrow> instrText R position occurrence src s
           | _ \<Rightarrow> fail_with ''INSTR: source and search are must be same type'') source)"

definition substrPos :: "int \<Rightarrow> int \<Rightarrow> int" where
  "substrPos pos strlen =
     (if pos = 0 \<or> pos < - strlen then 0
      else if pos > strlen then strlen
      else if pos > 0 then pos - 1
      else strlen + pos)"

definition substrLen :: "int option \<Rightarrow> int \<Rightarrow> int go" where
  "substrLen len strlen =
     (case len of
        None \<Rightarrow> ok strlen
      | Some l \<Rightarrow> if l < 0 then fail_with ''SUBSTR: length must be positive number'' else ok (min l strlen))"

definition substrText :: "string \<Rightarrow> int \<Rightarrow> int \<Rightarrow> int option \<Rightarrow> string go" where
  "substrText v strlen pos len =
     (let startIdx = substrPos pos strlen
      in go_bind (substrLen len strlen) (\<lambda>actualLen. goSlice v startIdx (min (startIdx + actualLen) strlen)))"

definition SUBSTR :: "'f Value option \<Rightarrow> int \<Rightarrow> int option \<Rightarrow> 'f Value option go" where
  "SUBSTR v pos len = onText ''STRPOS: argument type must be STRING or BYTES''
     (\<lambda>s. go_bind (substrText s (int (length (runesOf s))) pos len) (\<lambda>t. okString t))
     (\<lambda>b. go_bind (substrText b (int (length b)) pos len) (\<lambda>t. okBytes t)) v"

section \<open>Parts and padding\<close>

definition LEFT :: "'f Value option \<Rightarrow> int \<Rightarrow> 'f Value option go" where
  "LEFT v len =
     (if len < 0 then fail_with ''LEFT: unexpected length value. length must be positive number''
      else onText ''LEFT: value type is must be STRING or BYTES type''
        (\<lambda>s. let runes = runesOf s in
           if int (length runes) \<le> len then ok v else okString (stringOfRunes (take (nat len) runes)))
        (\<lambda>b. if int (length b) \<le> len then ok v else okBytes (take (nat len) b)) v)"

definition RIGHT :: "'f Value option \<Rightarrow> int \<Rightarrow> 'f Value option go" where
  "RIGHT v len =
     (if len < 0 then fail_with ''RIGHT: unexpected length value. length must be positive number''
      else onText ''RIGHT: value must be STRING or BYTES''
        (\<lambda>s. let runes = runesOf s in
           if int (length runes) \<le> len then ok v
           else okString (stringOfRunes (drop (length runes - nat len) runes)))
        (\<lambda>b. if int (length b) \<le> len then ok v else okBytes (drop (length b - nat len) b)) v)"

definition LENGTH_text :: "'f Value option \<Rightarrow> 'f Value option go" where
  "LENGTH_text v = onText ''LENGTH: value type is must be STRING or BYTES type''
     (\<lambda>s. okInt (int (length (runesOf s)))) (\<lambda>b. okInt (int (length b))) v"

definition divByZero :: "'a go" where
  "divByZero = panic ''integer divide by zero''"

text \<open>
  The padding of a STRING. A pattern that is too short is repeated; an empty one divides by zero.
\<close>

definition padRunes :: "'f Runtime \<Rightarrow> int \<Rightarrow> 'f Value option \<Rightarrow> nat list go" where
  "padRunes R remainLen pattern =
     (case pattern of
        None \<Rightarrow> go_bind (goRepeat ''strings'' '' '' remainLen) (\<lambda>s. ok (runesOf s))
      | Some p \<Rightarrow> go_bind (Value_ToString R p) (\<lambda>p.
          let pat = runesOf p; n = int (length pat)
          in if remainLen - n > 0 then
               if n = 0 then divByZero
               else go_bind (goRepeat ''strings'' (stringOfRunes pat) ((remainLen - n) div n + 2)) (\<lambda>s. ok (runesOf s))
             else ok pat))"

text \<open>That of BYTES: a pattern that need not be repeated is never assigned, so the slice is empty.\<close>

definition padBytes :: "'f Runtime \<Rightarrow> int \<Rightarrow> 'f Value option \<Rightarrow> string go" where
  "padBytes R remainLen pattern =
     (case pattern of
        None \<Rightarrow> goRepeat ''bytes'' '' '' remainLen
      | Some p \<Rightarrow> go_bind (Value_ToBytes R p) (\<lambda>p.
          let n = int (length p)
          in if remainLen - n > 0 then
               if n = 0 then divByZero else goRepeat ''bytes'' p ((remainLen - n) div n + 2)
             else ok []))"

definition padded ::
  "'f Runtime \<Rightarrow> (string \<Rightarrow> string \<Rightarrow> string) \<Rightarrow> string \<Rightarrow> int \<Rightarrow> 'f Value option \<Rightarrow> 'f Value option \<Rightarrow> 'f Value option go" where
  "padded R join msg returnLength pattern v = onText msg
     (\<lambda>s. let runes = runesOf s; n = int (length runes) in
        if n \<ge> returnLength then go_bind (goSlice runes 0 returnLength) (\<lambda>r. okString (stringOfRunes r))
        else go_bind (padRunes R (returnLength - n) pattern) (\<lambda>pat.
             go_bind (goSlice pat 0 (returnLength - n)) (\<lambda>p. okString (join s (stringOfRunes p)))))
     (\<lambda>b. let n = int (length b) in
        if n \<ge> returnLength then go_bind (goSlice b 0 returnLength) (\<lambda>r. okBytes r)
        else go_bind (padBytes R (returnLength - n) pattern) (\<lambda>pat.
             go_bind (goSlice pat 0 (returnLength - n)) (\<lambda>p. okBytes (join b p)))) v"

definition LPAD :: "'f Runtime \<Rightarrow> 'f Value option \<Rightarrow> int \<Rightarrow> 'f Value option \<Rightarrow> 'f Value option go" where
  "LPAD R originalValue returnLength pattern =
     padded R (\<lambda>s p. p @ s) ''LPAD: original value type is must be STRING or BYTES type'' returnLength pattern originalValue"

definition RPAD :: "'f Runtime \<Rightarrow> 'f Value option \<Rightarrow> int \<Rightarrow> 'f Value option \<Rightarrow> 'f Value option go" where
  "RPAD R originalValue returnLength pattern =
     (if returnLength < 0 then fail_with ''RPAD: unexpected returnLength value. returnLength must be positive number''
      else padded R (\<lambda>s p. s @ p) ''RPAD: originalValue must be STRING or BYTES'' returnLength pattern originalValue)"

section \<open>Case, trimming, repetition\<close>

definition LOWER :: "'re TextEnv \<Rightarrow> 'f Value option \<Rightarrow> 'f Value option go" where
  "LOWER T v = (if v = None then ok None else
     onText ''LOWER: value type is must be STRING or BYTES type''
       (\<lambda>s. okString (stringsToLower T s)) (\<lambda>b. okBytes (stringsToLower T b)) v)"

definition UPPER :: "'re TextEnv \<Rightarrow> 'f Value option \<Rightarrow> 'f Value option go" where
  "UPPER T v = onText ''UPPER: value type is must be STRING or BYTES type''
     (\<lambda>s. okString (stringsToUpper T s)) (\<lambda>b. okBytes (stringsToUpper T b)) v"

definition trimmed ::
  "'f Runtime \<Rightarrow> (string \<Rightarrow> string) \<Rightarrow> (string \<Rightarrow> string \<Rightarrow> string) \<Rightarrow> string \<Rightarrow> string
     \<Rightarrow> 'f Value option \<Rightarrow> 'f Value option \<Rightarrow> 'f Value option go" where
  "trimmed R spaces chars name msg cutsetV v =
     go_bind (case cutsetV of None \<Rightarrow> ok [] | Some c \<Rightarrow> Value_ToBytes R c) (\<lambda>cutset.
     onText (name @ msg)
       (\<lambda>s. okString (if cutsetV = None then spaces s else chars s cutset))
       (\<lambda>b. if cutsetV = None then fail_with (name @ '': must set_of_characters_to_remove when trimming bytes'')
            else okBytes (chars b cutset)) v)"

definition LTRIM :: "'f Runtime \<Rightarrow> 'f Value option \<Rightarrow> 'f Value option \<Rightarrow> 'f Value option go" where
  "LTRIM R v cutsetV = trimmed R trimLeftSpace stringsTrimLeft ''LTRIM'' '': value type is must be STRING or BYTES type'' cutsetV v"

definition RTRIM :: "'f Runtime \<Rightarrow> 'f Value option \<Rightarrow> 'f Value option \<Rightarrow> 'f Value option go" where
  "RTRIM R v cutsetV = trimmed R trimRightSpace stringsTrimRight ''RTRIM'' '': value1 must be STRING or BYTES'' cutsetV v"

definition TRIM :: "'f Runtime \<Rightarrow> 'f Value option \<Rightarrow> 'f Value option \<Rightarrow> 'f Value option go" where
  "TRIM R v cutsetV = trimmed R trimSpace stringsTrim ''TRIM'' '': expression type is must be STRING or BYTES type'' cutsetV v"

definition REPEAT :: "'f Value option \<Rightarrow> int \<Rightarrow> 'f Value option go" where
  "REPEAT v repetitions = onText ''REPEAT: originalValue must be STRING or BYTES''
     (\<lambda>s. go_bind (goRepeat ''strings'' s repetitions) (\<lambda>t. okString t))
     (\<lambda>b. go_bind (goRepeat ''bytes'' b repetitions) (\<lambda>t. okBytes t)) v"

definition REVERSE :: "'f Value option \<Rightarrow> 'f Value option go" where
  "REVERSE v = onText ''REVERSE: value must be STRING or BYTES''
     (\<lambda>s. okString (stringOfRunes (rev (runesOf s)))) (\<lambda>b. okBytes (rev b)) v"

definition REPLACE :: "'f Runtime \<Rightarrow> 'f Value option \<Rightarrow> 'f Value option \<Rightarrow> 'f Value option \<Rightarrow> 'f Value option go" where
  "REPLACE R v fromValue toValue = onText ''REPLACE: originalValue must be STRING or BYTES''
     (\<lambda>s. go_bind (textArg R fromValue) (\<lambda>old. go_bind (textArg R toValue) (\<lambda>new. okString (stringsReplaceAll s old new))))
     (\<lambda>b. go_bind (bytesArg R fromValue) (\<lambda>old. go_bind (bytesArg R toValue) (\<lambda>new. okBytes (stringsReplaceAll b old new)))) v"

definition SPLIT :: "'f Runtime \<Rightarrow> 'f Value option \<Rightarrow> 'f Value option \<Rightarrow> 'f Value option go" where
  "SPLIT R v delimValue = onText ''SPLIT: value must be STRING or BYTES''
     (\<lambda>s. go_bind (case delimValue of None \<Rightarrow> ok '','' | Some d \<Rightarrow> Value_ToString R d) (\<lambda>delim.
        ok (Some (ArrayValue (map (\<lambda>p. Some (StringValue p)) (stringsSplit s delim))))))
     (\<lambda>b. case delimValue of
        None \<Rightarrow> fail_with ''SPLIT: delimiter must be specified for bytes value''
      | Some d \<Rightarrow> go_bind (Value_ToBytes R d) (\<lambda>delim.
          ok (Some (ArrayValue (map (\<lambda>p. Some (BytesValue p)) (stringsSplit b delim)))))) v"

end
