(* ===== verification/Func_Regexp.thy ===== *)
theory Func_Regexp
  imports Func_String
begin

text \<open>
  The functions of \<open>internal/function_string.go\<close> on regular expressions, and those that rewrite a text
  rune by rune. A regular expression is compiled by the parameter \<open>TextEnv\<close>; it may fail.
\<close>

section \<open>Regular expressions\<close>

definition REGEXP_CONTAINS :: "'re TextEnv \<Rightarrow> string \<Rightarrow> string \<Rightarrow> 'f Value option go" where
  "REGEXP_CONTAINS T v expr = go_bind (reCompile T expr) (\<lambda>re. okBool (reMatch T re v))"

text \<open>The last group of the wanted match; NULL when there are fewer matches.\<close>

definition extracted ::
  "'re TextEnv \<Rightarrow> 're \<Rightarrow> int \<Rightarrow> int \<Rightarrow> int \<Rightarrow> (string \<Rightarrow> 'f Value) \<Rightarrow> string \<Rightarrow> 'f Value option go" where
  "extracted T re pos len occurrence mk v =
     (if pos \<ge> len then ok None
      else go_bind (goSlice v pos (int (length v))) (\<lambda>rest.
        let matches = reFindAll T re rest occurrence
        in if int (length matches) < occurrence then ok None
           else go_bind (indexed matches (occurrence - 1)) (\<lambda>match.
                go_bind (indexed match (int (length match) - 1)) (\<lambda>group. ok (Some (mk group))))))"

definition REGEXP_EXTRACT ::
  "'re TextEnv \<Rightarrow> 'f Value option \<Rightarrow> string \<Rightarrow> int \<Rightarrow> int \<Rightarrow> 'f Value option go" where
  "REGEXP_EXTRACT T v expr position occurrence =
     (if position \<le> 0 then fail_with ''REGEXP_EXTRACT: unexpected position number. position must be positive number''
      else if occurrence \<le> 0 then
        fail_with ''REGEXP_EXTRACT: unexpected occurrence number. occurrence must be positive number''
      else go_bind (reCompile T expr) (\<lambda>re.
        onText ''REGEXP_EXTRACT: value argument must be STRING or BYTES''
          (\<lambda>s. extracted T re (position - 1) (int (length (runesOf s))) occurrence StringValue s)
          (\<lambda>b. extracted T re (position - 1) (int (length b)) occurrence BytesValue b) v))"

definition extractAll :: "'re TextEnv \<Rightarrow> 're \<Rightarrow> (string \<Rightarrow> 'f Value) \<Rightarrow> string \<Rightarrow> 'f Value option go" where
  "extractAll T re mk v =
     go_bind (goList (map (\<lambda>match. go_bind (indexed match (int (length match) - 1)) (\<lambda>group. ok (Some (mk group))))
       (reFindAll T re v (- 1)))) (\<lambda>groups. ok (Some (ArrayValue groups)))"

definition REGEXP_EXTRACT_ALL :: "'re TextEnv \<Rightarrow> 'f Value option \<Rightarrow> string \<Rightarrow> 'f Value option go" where
  "REGEXP_EXTRACT_ALL T v expr = go_bind (reCompile T expr) (\<lambda>re.
     onText ''REGEXP_EXTRACT_ALL: value argument must be STRING or BYTES''
       (extractAll T re StringValue) (extractAll T re BytesValue) v)"

definition matchPosition :: "'re TextEnv \<Rightarrow> 're \<Rightarrow> int \<Rightarrow> int \<Rightarrow> int \<Rightarrow> int \<Rightarrow> string \<Rightarrow> 'f Value option go" where
  "matchPosition T re pos len occurrence occurrencePos source =
     (if pos \<ge> len then okInt 0
      else go_bind (goSlice source pos (int (length source))) (\<lambda>rest.
        let matches = reFindAllIndex T re rest occurrence
        in if int (length matches) < occurrence then okInt 0
           else go_bind (indexed matches (occurrence - 1)) (\<lambda>match.
                if int (length match) \<le> occurrencePos then okInt 0
                else go_bind (indexed match occurrencePos) (\<lambda>p. okInt (wrap64 (pos + p + 1))))))"

definition REGEXP_INSTR ::
  "'f Runtime \<Rightarrow> 're TextEnv \<Rightarrow> 'f Value option \<Rightarrow> 'f Value option \<Rightarrow> int \<Rightarrow> int \<Rightarrow> int \<Rightarrow> 'f Value option go" where
  "REGEXP_INSTR R T sourceValue exprValue position occurrence occurrencePos =
     (if position \<le> 0 then fail_with ''REGEXP_INSTR: unexpected position number. position must be positive number''
      else if occurrence \<le> 0 then
        fail_with ''REGEXP_INSTR: unexpected occurrence number. occurrence must be positive number''
      else onText ''REGEXP_INSTR: source value must be STRING or BYTES''
        (\<lambda>s. go_bind (textArg R exprValue) (\<lambda>expr. go_bind (reCompile T expr) (\<lambda>re.
           matchPosition T re (position - 1) (int (length (runesOf s))) occurrence occurrencePos s)))
        (\<lambda>b. go_bind (bytesArg R exprValue) (\<lambda>expr. go_bind (reCompile T expr) (\<lambda>re.
           matchPosition T re (position - 1) (int (length b)) occurrence occurrencePos b))) sourceValue)"

text \<open>
  A reference to a group, \<open>\1\<close>, becomes \<open>${1}\<close>. The brace is closed by the first byte that is no digit; at
  the end of the text it never is, and the digits after the first are copied a second time.
\<close>

fun groupDigits :: "string \<Rightarrow> (string \<times> string) option" where
  "groupDigits [] = None"
| "groupDigits (c # s) =
     (if isDigitChar c then map_option (\<lambda>(ds, rest). (c # ds, rest)) (groupDigits s) else Some ([], c # s))"

lemma groupDigits_size: "groupDigits s = Some (ds, rest) \<Longrightarrow> length rest \<le> length s"
  by (induction s arbitrary: ds) (fastforce split: if_splits)+

function normalizeReplacement :: "string \<Rightarrow> string go" where
  "normalizeReplacement [] = ok []"
| "normalizeReplacement (c # s) =
     (if c = CHR 0x5C then
        (case s of
           [] \<Rightarrow> indexPanic
         | d # s' \<Rightarrow>
             if isDigitChar d \<and> d \<noteq> CHR ''0'' then
               (case groupDigits s' of
                  Some (ds, rest) \<Rightarrow>
                    go_bind (normalizeReplacement rest) (\<lambda>t. ok (''${'' @ d # ds @ ''}'' @ t))
                | None \<Rightarrow> go_bind (normalizeReplacement s') (\<lambda>t. ok (''${'' @ d # s' @ t)))
             else go_bind (normalizeReplacement s') (\<lambda>t. ok (CHR 0x5C # d # t)))
      else go_bind (normalizeReplacement s) (\<lambda>t. ok (c # t)))"
  by pat_completeness auto
termination
  by (relation "measure length") (auto dest!: groupDigits_size)

definition replacedMatches :: "'re TextEnv \<Rightarrow> string go \<Rightarrow> string go \<Rightarrow> (string \<Rightarrow> 'f Value) \<Rightarrow> string \<Rightarrow> 'f Value option go" where
  "replacedMatches T expr replacement mk v =
     go_bind expr (\<lambda>expr. go_bind replacement (\<lambda>replacement. go_bind (reCompile T expr) (\<lambda>re.
     go_bind (normalizeReplacement replacement) (\<lambda>repl. ok (Some (mk (reReplaceAll T re v repl)))))))"

definition REGEXP_REPLACE ::
  "'f Runtime \<Rightarrow> 're TextEnv \<Rightarrow> 'f Value option \<Rightarrow> 'f Value option \<Rightarrow> 'f Value option \<Rightarrow> 'f Value option go" where
  "REGEXP_REPLACE R T v exprValue replacementValue =
     onText (''REGEXP_REPLACE: value must be STRING or BYTES, '' @ rtShow R v)
       (replacedMatches T (textArg R exprValue) (textArg R replacementValue) StringValue)
       (replacedMatches T (bytesArg R exprValue) (bytesArg R replacementValue) BytesValue) v"

section \<open>SOUNDEX\<close>

definition soundexMap :: "(char \<times> char) list" where
  "soundexMap = zip ''ABCDEFGHIJKLMNOPQRSTUVWXYZ'' ''01230120022455012623010202''"

definition isLetterByte :: "nat \<Rightarrow> bool" where
  "isLetterByte r \<longleftrightarrow> 65 \<le> r \<and> r \<le> 90 \<or> 97 \<le> r \<and> r \<le> 122"

definition soundexCode :: "nat \<Rightarrow> char" where
  "soundexCode r = (case map_of soundexMap (upperChar (byteOf r)) of Some c \<Rightarrow> c | None \<Rightarrow> CHR 0x00)"

text \<open>The runes that are a letter of one byte, up to the fourth character of the code.\<close>

fun soundexLoop :: "nat list \<Rightarrow> string \<Rightarrow> char \<Rightarrow> string" where
  "soundexLoop [] soundex prevCode = soundex"
| "soundexLoop (r # runes) soundex prevCode =
     (if \<not> isLetterByte r then soundexLoop runes soundex prevCode
      else let code = soundexCode r in
        if soundex = [] then soundexLoop runes [byteOf r] code
        else if code = prevCode \<or> code = CHR ''0'' then soundexLoop runes soundex prevCode
        else if length soundex = 3 then soundex @ [code]
        else soundexLoop runes (soundex @ [code]) code)"

definition SOUNDEX :: "string \<Rightarrow> 'f Value option go" where
  "SOUNDEX v =
     (let soundex = soundexLoop (runesOf v) [] (CHR 0x00)
      in okString (if soundex = [] then [] else soundex @ replicate (4 - length soundex) CHR ''0''))"

section \<open>TRANSLATE\<close>

text \<open>One replacement over the whole text for each source rune in turn.\<close>

fun translateLoop ::
  "('c \<Rightarrow> string) \<Rightarrow> ('c \<Rightarrow> string) \<Rightarrow> 'c list \<Rightarrow> 'c list \<Rightarrow> 'c list \<Rightarrow> string \<Rightarrow> string go" where
  "translateLoop enc shown seen [] targets e = ok e"
| "translateLoop enc shown seen (s # sources) targets e =
     (if s \<in> set seen then fail_with (''TRANSLATE: found duplicated source character: '' @ shown s)
      else translateLoop enc shown (s # seen) sources (tl targets)
        (stringsReplaceAll e (enc s) (case targets of [] \<Rightarrow> [] | t # _ \<Rightarrow> enc t)))"

definition TRANSLATE ::
  "'f Value option \<Rightarrow> 'f Value option \<Rightarrow> 'f Value option \<Rightarrow> 'f Value option go" where
  "TRANSLATE expr source target = onText ''TRANSLATE: expression type is must be STRING or BYTES type''
     (\<lambda>e. case source of
        Some (StringValue s) \<Rightarrow>
          (case target of
             Some (StringValue t) \<Rightarrow>
               go_bind (translateLoop encodeRune encodeRune [] (runesOf s) (runesOf t) e) (\<lambda>r. okString r)
           | _ \<Rightarrow> fail_with ''TRANSLATE: target characters must be STRING type'')
      | _ \<Rightarrow> fail_with ''TRANSLATE: source characters must be STRING type'')
     (\<lambda>e. case source of
        Some (BytesValue s) \<Rightarrow>
          (case target of
             Some (BytesValue t) \<Rightarrow>
               go_bind (translateLoop (\<lambda>c. [c]) (\<lambda>c. encodeRune (byteAt c)) [] s t e) (\<lambda>r. okBytes r)
           | _ \<Rightarrow> fail_with ''TRANSLATE: target characters must be BYTES type'')
      | _ \<Rightarrow> fail_with ''TRANSLATE: source characters must be BYTES type'') expr"

end
