(* ===== verification/Func_Array.thy ===== *)
theory Func_Array
  imports Func_Approx
begin

text \<open>
  Arrays: \<open>internal/function_array.go\<close>. The three functions that generate an array run the same loop over
  different steps, here \<open>generateLoop\<close>. It need not end: the result is \<open>None\<close> where it does not.
\<close>

definition ARRAY_CONCAT :: "'f Runtime \<Rightarrow> 'f array \<Rightarrow> 'f Value option go" where
  "ARRAY_CONCAT R args =
     go_bind (goList (map (\<lambda>arg. go_bind (onNil arg (Value_ToArray R)) (\<lambda>subarr. onNil subarr ok)) args)) (\<lambda>arrs.
     ok (Some (ArrayValue (concat arrs))))"

definition ARRAY_FIRST :: "'f array \<Rightarrow> 'f Value option go" where
  "ARRAY_FIRST v = indexed v 0"

definition ARRAY_LAST :: "'f array \<Rightarrow> 'f Value option go" where
  "ARRAY_LAST v = indexed v (int (length v) - 1)"

text \<open>Negative offsets count from the end; the end is inclusive.\<close>

definition ARRAY_SLICE :: "'f array \<Rightarrow> int \<Rightarrow> int \<Rightarrow> 'f Value option go" where
  "ARRAY_SLICE v startOffset endOffset =
     (let arrLen = int (length v);
          start = (if startOffset < 0 then wrap64 (arrLen + startOffset) else startOffset);
          end' = (if endOffset < 0 then wrap64 (arrLen + endOffset) else endOffset);
          start = (if start < 0 then 0 else start);
          end' = (if end' \<ge> arrLen then arrLen - 1 else end')
      in if start > end' \<or> start \<ge> arrLen then ok (Some (ArrayValue []))
         else ok (Some (ArrayValue (drop (nat start) (take (nat (end' + 1)) v)))))"

definition ARRAY_LENGTH :: "'f array \<Rightarrow> 'f Value option go" where
  "ARRAY_LENGTH v = ok (Some (IntValue (int (length v))))"

definition elementText :: "'f Runtime \<Rightarrow> string list \<Rightarrow> 'f Value option \<Rightarrow> string list go" where
  "elementText R nullText v = (case v of
     None \<Rightarrow> ok (take 1 nullText)
   | Some x \<Rightarrow> go_bind (Value_Format R (CHR ''t'') x) (\<lambda>t. ok [t]))"

definition ARRAY_TO_STRING :: "'f Runtime \<Rightarrow> 'f array \<Rightarrow> string \<Rightarrow> string list \<Rightarrow> 'f Value option go" where
  "ARRAY_TO_STRING R arr delim nullText =
     go_bind (goList (map (elementText R nullText) arr)) (\<lambda>elems. ok (Some (StringValue (joinStrings delim (concat elems)))))"

definition ARRAY_REVERSE :: "'f array \<Rightarrow> 'f Value option go" where
  "ARRAY_REVERSE v = ok (Some (ArrayValue (rev v)))"

section \<open>Generated arrays\<close>

partial_function (option) generateLoop ::
  "'f Runtime \<Rightarrow> bool \<Rightarrow> 'f Value \<Rightarrow> ('f Value \<Rightarrow> 'f Value option go) \<Rightarrow> 'f Value \<Rightarrow> 'f array \<Rightarrow> 'f array go option" where
  "generateLoop R isLT end' next' cur arr =
     (case next' cur of
        Inl e \<Rightarrow> Some (Inl e)
      | Inr None \<Rightarrow> Some nilPanic
      | Inr (Some after) \<Rightarrow>
          (case Value_compare R (if isLT then LTE else GTE) after (Some end') of
             Inl e \<Rightarrow> Some (Inl e)
           | Inr cond \<Rightarrow>
               if cond then generateLoop R isLT end' next' after (arr @ [Some cur])
               else Some (ok (arr @ [Some cur]))))"

text \<open>An array in the direction of the step only; an empty one otherwise.\<close>

definition generateFrom ::
  "'f Runtime \<Rightarrow> 'f Value \<Rightarrow> 'f Value \<Rightarrow> bool go \<Rightarrow> ('f Value \<Rightarrow> 'f Value option go) \<Rightarrow> 'f Value option go option" where
  "generateFrom R start end' isPositive next' =
     (case go_bind (Value_compare R LTE start (Some end')) (\<lambda>isLT. go_bind isPositive (\<lambda>p. ok (isLT, p))) of
        Inl e \<Rightarrow> Some (Inl e)
      | Inr (isLT, p) \<Rightarrow>
          if isLT \<and> \<not> p \<or> \<not> isLT \<and> p then Some (ok (Some (ArrayValue [])))
          else map_option (\<lambda>r. go_bind r (\<lambda>vs. ok (Some (ArrayValue vs)))) (generateLoop R isLT end' next' start []))"

definition generateArray ::
  "'f Runtime \<Rightarrow> 'f Value option \<Rightarrow> 'f Value option \<Rightarrow> 'f Value option \<Rightarrow> 'f Value option go option" where
  "generateArray R start end' step =
     (case (start, end', step) of
        (Some s, Some e, Some k) \<Rightarrow>
          generateFrom R s e (Value_compare R GT k (Some (IntValue 0))) (\<lambda>cur. Value_Add R cur (Some k))
      | _ \<Rightarrow> Some (ok None))"

definition GENERATE_ARRAY ::
  "'f Runtime \<Rightarrow> 'f Value option \<Rightarrow> 'f Value option \<Rightarrow> 'f array \<Rightarrow> 'f Value option go option" where
  "GENERATE_ARRAY R start end' step =
     generateArray R start end' (case step of [] \<Rightarrow> Some (IntValue 1) | k # _ \<Rightarrow> k)"

definition nextDate :: "int \<Rightarrow> string \<Rightarrow> 'f Value \<Rightarrow> 'f Value option go" where
  "nextDate step interval cur = (case cur of
     DateValue d \<Rightarrow> DateValue_AddDateWithInterval d step interval
   | _ \<Rightarrow> panic ''interface conversion: internal.Value is not internal.DateValue'')"

definition generateDateArray ::
  "'f Runtime \<Rightarrow> 'f Value option \<Rightarrow> 'f Value option \<Rightarrow> int \<Rightarrow> string \<Rightarrow> 'f Value option go option" where
  "generateDateArray R start end' step interval =
     (case (start, end') of
        (Some s, Some e) \<Rightarrow>
          if step = 0 then Some (ok None) else generateFrom R s e (ok (step > 0)) (nextDate step interval)
      | _ \<Rightarrow> Some (ok None))"

definition GENERATE_DATE_ARRAY ::
  "'f Runtime \<Rightarrow> 'f Value option \<Rightarrow> 'f Value option \<Rightarrow> 'f array \<Rightarrow> 'f Value option go option" where
  "GENERATE_DATE_ARRAY R start end' step =
     (case step of
        [] \<Rightarrow> generateDateArray R start end' 1 ''DAY''
      | [k] \<Rightarrow> (case onNil k (Value_ToInt64 R) of
          Inl e \<Rightarrow> Some (Inl e) | Inr stepV \<Rightarrow> generateDateArray R start end' stepV ''DAY'')
      | [k, i] \<Rightarrow> (case go_bind (onNil k (Value_ToInt64 R)) (\<lambda>stepV. go_bind (onNil i (Value_ToString R)) (\<lambda>t. ok (stepV, t))) of
          Inl e \<Rightarrow> Some (Inl e) | Inr (stepV, intervalV) \<Rightarrow> generateDateArray R start end' stepV intervalV)
      | _ \<Rightarrow> Some (fail_with (''invalid step value '' @ rtShow R (Some (ArrayValue step)))))"

definition nextTimestamp :: "int \<Rightarrow> string \<Rightarrow> 'f Value \<Rightarrow> 'f Value option go" where
  "nextTimestamp step part cur = (case cur of
     TimestampValue t \<Rightarrow> TimestampValue_AddValueWithPart t step part
   | _ \<Rightarrow> panic ''interface conversion: internal.Value is not internal.TimestampValue'')"

definition GENERATE_TIMESTAMP_ARRAY ::
  "'f Runtime \<Rightarrow> 'f Value option \<Rightarrow> 'f Value option \<Rightarrow> int \<Rightarrow> string \<Rightarrow> 'f Value option go option" where
  "GENERATE_TIMESTAMP_ARRAY R start end' step part =
     (case (start, end') of
        (Some s, Some e) \<Rightarrow>
          if step = 0 then Some (ok None) else generateFrom R s e (ok (step > 0)) (nextTimestamp step part)
      | _ \<Rightarrow> Some (ok None))"

section \<open>Arithmetic progressions\<close>

lemmas loop_steps = IntValue_Add_def IntValue_LTE_def IntValue_GTE_def IntValue_GT_def argInt64_def comparand_def
  IntValue_ToInt64_def

definition progression :: "int \<Rightarrow> int \<Rightarrow> nat \<Rightarrow> 'f array" where
  "progression a k n = map (\<lambda>i. Some (IntValue (a + int i * k))) [0..<n]"

lemma progression_Suc: "progression a k (Suc n) = Some (IntValue a) # progression (a + k) k n"
  by (simp add: progression_def upt_conv_Cons map_Suc_upt [symmetric] comp_def distrib_right add_ac del: upt_Suc)

lemma loop_up:
  assumes "0 < k" "isInt64 a" "isInt64 (b + k)" "a \<le> b"
  shows "generateLoop R True (IntValue b) (\<lambda>cur. Value_Add R cur (Some (IntValue k))) (IntValue a) acc
    = Some (ok (acc @ progression a k (nat ((b - a) div k) + 1)))"
  using assms(2,4)
proof (induction "nat ((b - a) div k)" arbitrary: a acc)
  case 0
  then have "b - a < k" using assms(1) pos_imp_zdiv_pos_iff [of k "b - a"] by linarith
  then have "b < a + k" "isInt64 (a + k)" using 0 assms(1,3) by (auto simp: isInt64_def)
  then show ?case using 0(1) by (subst generateLoop.simps, simp add: loop_steps progression_Suc) (simp add: progression_def)
next
  case (Suc n)
  then have "0 < (b - a) div k" by linarith
  then have "k \<le> b - a" using assms(1) pos_imp_zdiv_pos_iff [of k "b - a"] by linarith
  then have up: "a + k \<le> b" "isInt64 (a + k)" using Suc.prems assms(1,3) by (auto simp: isInt64_def)
  have "(b - (a + k)) div k = (b - a) div k - 1" using assms(1) div_add_self2 [of k "b - a - k"] by (simp add: algebra_simps)
  then have n: "n = nat ((b - (a + k)) div k)" using Suc(2) by linarith
  show ?case
    using Suc.hyps(1) [OF n up(2,1)] up Suc(2)
    by (subst generateLoop.simps) (simp add: loop_steps n [symmetric] progression_Suc)
qed

lemma loop_down:
  assumes "k < 0" "isInt64 a" "isInt64 (b + k)" "b \<le> a"
  shows "generateLoop R False (IntValue b) (\<lambda>cur. Value_Add R cur (Some (IntValue k))) (IntValue a) acc
    = Some (ok (acc @ progression a k (nat ((a - b) div (- k)) + 1)))"
  using assms(2,4)
proof (induction "nat ((a - b) div (- k))" arbitrary: a acc)
  case 0
  then have "a - b < - k" using assms(1) pos_imp_zdiv_pos_iff [of "- k" "a - b"] by linarith
  then have "a + k < b" "isInt64 (a + k)" using 0 assms(1,3) by (auto simp: isInt64_def)
  then show ?case using 0(1) by (subst generateLoop.simps, simp add: loop_steps progression_Suc) (simp add: progression_def)
next
  case (Suc n)
  then have "0 < (a - b) div (- k)" by linarith
  then have "- k \<le> a - b" using assms(1) pos_imp_zdiv_pos_iff [of "- k" "a - b"] by linarith
  then have down: "b \<le> a + k" "isInt64 (a + k)" using Suc.prems assms(1,3) by (auto simp: isInt64_def)
  have "(a + k - b) div (- k) = (a - b) div (- k) - 1"
    using assms(1) div_add_self2 [of "- k" "a + k - b"] by (simp add: algebra_simps)
  then have n: "n = nat ((a + k - b) div (- k))" using Suc(2) by linarith
  show ?case
    using Suc.hyps(1) [OF n down(2,1)] down Suc(2)
    by (subst generateLoop.simps) (simp add: loop_steps n [symmetric] progression_Suc)
qed

text \<open>The loop that never leaves: its results would satisfy a false invariant.\<close>

lemma loop_diverges:
  fixes R :: "'f Runtime"
  assumes "\<And>a. wrapped a \<Longrightarrow> isInt64 a"
    and "\<And>a. wrapped a \<Longrightarrow> wrapped (wrap64 (a + k)) \<and> (if isLT then wrap64 (a + k) \<le> b else b \<le> wrap64 (a + k))"
    and "wrapped a"
  shows "generateLoop R isLT (IntValue b) (\<lambda>cur. Value_Add R cur (Some (IntValue k))) (IntValue a) acc = None"
proof -
  let ?P = "\<lambda>R' lt e nx cur (arr :: 'f array) (y :: 'f array go). lt = isLT \<longrightarrow> e = IntValue b
      \<longrightarrow> nx = (\<lambda>cur. Value_Add R' cur (Some (IntValue k))) \<longrightarrow> (\<forall>a. cur = IntValue a \<longrightarrow> \<not> wrapped a)"
  have "?P R lt e nx cur arr y" if "generateLoop R lt e nx cur arr = Some y" for lt e nx cur arr y
    using that
  proof (induction rule: generateLoop.raw_induct [where P = ?P, rotated, consumes 1])
    fix loop :: "'f Runtime \<Rightarrow> bool \<Rightarrow> 'f Value \<Rightarrow> ('f Value \<Rightarrow> 'f Value option go) \<Rightarrow> 'f Value \<Rightarrow> 'f array
      \<Rightarrow> 'f array go option" and lt nx y and R' :: "'f Runtime" and e cur :: "'f Value" and arr :: "'f array"
    assume IH: "\<And>R'' isLT' e' nx' cur' arr' y'. loop R'' isLT' e' nx' cur' arr' = Some y' \<Longrightarrow> ?P R'' isLT' e' nx' cur' arr' y'"
    assume step: "(case nx cur of Inl e \<Rightarrow> Some (Inl e) | Inr None \<Rightarrow> Some nilPanic
        | Inr (Some after) \<Rightarrow>
            (case Value_compare R' (if lt then LTE else GTE) after (Some e) of Inl e \<Rightarrow> Some (Inl e)
             | Inr cond \<Rightarrow> if cond then loop R' lt e nx after (arr @ [Some cur]) else Some (ok (arr @ [Some cur])))) = Some y"
    show "?P R' lt e nx cur arr y"
    proof (intro impI allI notI)
      fix a
      assume args: "lt = isLT" "e = IntValue b" "nx = (\<lambda>cur. Value_Add R' cur (Some (IntValue k)))" "cur = IntValue a" "wrapped a"
      have "loop R' lt e nx (IntValue (wrap64 (a + k))) (arr @ [Some cur]) = Some y"
        using step assms(2) [OF args(5)] by (cases isLT) (simp_all add: args loop_steps)
      from IH [OF this] show False using args assms(2) [OF args(5)] by simp
    qed
  qed
  then show ?thesis using assms(3) by (cases "generateLoop R isLT (IntValue b) (\<lambda>cur. Value_Add R cur (Some (IntValue k))) (IntValue a) acc") auto
qed

end
