(* ===== verification/Func_Operator.thy ===== *)
theory Func_Operator
  imports Func_Regexp Func_Array Func_Zone Aggregate_Bind Catalog_Spec
begin

text \<open>
  Operators and the functions of SQL conditions: \<open>internal/function.go\<close> and \<open>internal/function_bit.go\<close>.
  An argument that is a nil interface panics where a method of it is called. Names that are constructors
  or keywords here end in \<open>_op\<close>. \<open>GENERATE_UUID\<close> is random and left out.
\<close>

section \<open>Arithmetic and comparison\<close>

definition ADD :: "'f Runtime \<Rightarrow> 'f Value option \<Rightarrow> 'f Value option \<Rightarrow> 'f Value option go" where
  "ADD R a b = onNil a (\<lambda>a. Value_Add R a b)"

definition SUB :: "'f Runtime \<Rightarrow> 'f Value option \<Rightarrow> 'f Value option \<Rightarrow> 'f Value option go" where
  "SUB R a b = onNil a (\<lambda>a. Value_Sub R a b)"

definition MUL :: "'f Runtime \<Rightarrow> 'f Value option \<Rightarrow> 'f Value option \<Rightarrow> 'f Value option go" where
  "MUL R a b = onNil a (\<lambda>a. Value_Mul R a b)"

definition OP_DIV :: "'f Runtime \<Rightarrow> 'f Value option \<Rightarrow> 'f Value option \<Rightarrow> 'f Value option go" where
  "OP_DIV R a b = onNil a (\<lambda>a. Value_Div R a b)"

definition compared :: "'f Runtime \<Rightarrow> CmpOp \<Rightarrow> (bool \<Rightarrow> bool) \<Rightarrow> 'f Value option \<Rightarrow> 'f Value option \<Rightarrow> 'f Value option go" where
  "compared R op f a b = go_bind (onNil a (\<lambda>a. Value_compare R op a b)) (\<lambda>cond. okBool (f cond))"

definition EQ_op :: "'f Runtime \<Rightarrow> 'f Value option \<Rightarrow> 'f Value option \<Rightarrow> 'f Value option go" where
  "EQ_op R a b = compared R EQ (\<lambda>c. c) a b"

definition NOT_EQ :: "'f Runtime \<Rightarrow> 'f Value option \<Rightarrow> 'f Value option \<Rightarrow> 'f Value option go" where
  "NOT_EQ R a b = compared R EQ Not a b"

definition GT_op :: "'f Runtime \<Rightarrow> 'f Value option \<Rightarrow> 'f Value option \<Rightarrow> 'f Value option go" where
  "GT_op R a b = compared R GT (\<lambda>c. c) a b"

definition GTE_op :: "'f Runtime \<Rightarrow> 'f Value option \<Rightarrow> 'f Value option \<Rightarrow> 'f Value option go" where
  "GTE_op R a b = compared R GTE (\<lambda>c. c) a b"

definition LT_op :: "'f Runtime \<Rightarrow> 'f Value option \<Rightarrow> 'f Value option \<Rightarrow> 'f Value option go" where
  "LT_op R a b = compared R LT (\<lambda>c. c) a b"

definition LTE_op :: "'f Runtime \<Rightarrow> 'f Value option \<Rightarrow> 'f Value option \<Rightarrow> 'f Value option go" where
  "LTE_op R a b = compared R LTE (\<lambda>c. c) a b"

definition BETWEEN :: "'f Runtime \<Rightarrow> 'f Value option \<Rightarrow> 'f Value option \<Rightarrow> 'f Value option \<Rightarrow> 'f Value option go" where
  "BETWEEN R target start end' =
     go_bind (onNil target (\<lambda>t. Value_compare R GTE t start)) (\<lambda>greaterThanStart.
     go_bind (onNil target (\<lambda>t. Value_compare R LTE t end')) (\<lambda>lessThanEnd.
     okBool (greaterThanStart \<and> lessThanEnd)))"

section \<open>Bits\<close>

abbreviation intArg :: "'f Runtime \<Rightarrow> 'f Value option \<Rightarrow> int go" where
  "intArg R v \<equiv> onNil v (Value_ToInt64 R)"

definition onInts :: "'f Runtime \<Rightarrow> (int \<Rightarrow> int \<Rightarrow> int go) \<Rightarrow> 'f Value option \<Rightarrow> 'f Value option \<Rightarrow> 'f Value option go" where
  "onInts R f a b = go_bind (intArg R a) (\<lambda>va. go_bind (intArg R b) (\<lambda>vb. go_bind (f va vb) (\<lambda>i. okInt i)))"

definition shiftLeft :: "int \<Rightarrow> int \<Rightarrow> int go" where
  "shiftLeft va vb =
     (if vb < 0 then panic ''negative shift amount'' else ok (if 64 \<le> vb then 0 else wrap64 (va * 2 ^ nat vb)))"

definition shiftRight :: "int \<Rightarrow> int \<Rightarrow> int go" where
  "shiftRight va vb =
     (if vb < 0 then panic ''negative shift amount''
      else ok (if 64 \<le> vb then (if va < 0 then - 1 else 0) else va div 2 ^ nat vb))"

definition BIT_NOT :: "'f Runtime \<Rightarrow> 'f Value option \<Rightarrow> 'f Value option go" where
  "BIT_NOT R a = go_bind (intArg R a) (\<lambda>v. okInt (not v))"

definition BIT_LEFT_SHIFT :: "'f Runtime \<Rightarrow> 'f Value option \<Rightarrow> 'f Value option \<Rightarrow> 'f Value option go" where
  "BIT_LEFT_SHIFT R a b = onInts R shiftLeft a b"

definition BIT_RIGHT_SHIFT :: "'f Runtime \<Rightarrow> 'f Value option \<Rightarrow> 'f Value option \<Rightarrow> 'f Value option go" where
  "BIT_RIGHT_SHIFT R a b = onInts R shiftRight a b"

definition BIT_AND :: "'f Runtime \<Rightarrow> 'f Value option \<Rightarrow> 'f Value option \<Rightarrow> 'f Value option go" where
  "BIT_AND R a b = onInts R (\<lambda>x y. ok (and x y)) a b"

definition BIT_OR :: "'f Runtime \<Rightarrow> 'f Value option \<Rightarrow> 'f Value option \<Rightarrow> 'f Value option go" where
  "BIT_OR R a b = onInts R (\<lambda>x y. ok (or x y)) a b"

definition BIT_XOR :: "'f Runtime \<Rightarrow> 'f Value option \<Rightarrow> 'f Value option \<Rightarrow> 'f Value option go" where
  "BIT_XOR R a b = onInts R (\<lambda>x y. ok (xor x y)) a b"

fun onesCount :: "nat \<Rightarrow> int" where
  "onesCount n = (if n = 0 then 0 else int (n mod 2) + onesCount (n div 2))"

declare onesCount.simps [simp del]

definition BIT_COUNT :: "'f Runtime \<Rightarrow> 'f Value option \<Rightarrow> 'f Value option go" where
  "BIT_COUNT R v = (case v of
     Some (BytesValue b) \<Rightarrow> okInt (sum_list (map (\<lambda>vv. onesCount (byteAt vv)) b))
   | _ \<Rightarrow> go_bind (intArg R v) (\<lambda>vv. okInt (onesCount (nat (vv mod 2 ^ 64)))))"

section \<open>Conditions\<close>

abbreviation boolArg :: "'f Runtime \<Rightarrow> 'f Value option \<Rightarrow> bool go" where
  "boolArg R v \<equiv> onNil v (Value_ToBool R)"

text \<open>The first argument with the given truth value decides; else a NULL among them does.\<close>

fun decided :: "'f Runtime \<Rightarrow> bool \<Rightarrow> 'f array \<Rightarrow> bool go" where
  "decided R b [] = ok False"
| "decided R b (None # vs) = decided R b vs"
| "decided R b (Some v # vs) = go_bind (Value_ToBool R v) (\<lambda>cond. if cond = b then ok True else decided R b vs)"

definition AND_op :: "'f Runtime \<Rightarrow> 'f array \<Rightarrow> 'f Value option go" where
  "AND_op R args = go_bind (decided R False args) (\<lambda>d.
     if d then okBool False else if existsNull args then ok None else okBool True)"

definition OR_op :: "'f Runtime \<Rightarrow> 'f array \<Rightarrow> 'f Value option go" where
  "OR_op R args = go_bind (decided R True args) (\<lambda>d.
     if d then okBool True else if existsNull args then ok None else okBool False)"

definition NOT_op :: "'f Runtime \<Rightarrow> 'f Value option \<Rightarrow> 'f Value option go" where
  "NOT_op R a = go_bind (intArg R a) (\<lambda>v. okBool (v = 0))"

definition IS_NULL :: "'f Value option \<Rightarrow> 'f Value option go" where
  "IS_NULL a = okBool (case a of None \<Rightarrow> True | Some _ \<Rightarrow> False)"

definition IS_TRUE :: "'f Runtime \<Rightarrow> 'f Value option \<Rightarrow> 'f Value option go" where
  "IS_TRUE R a = go_bind (boolArg R a) (\<lambda>b. okBool b)"

definition IS_FALSE :: "'f Runtime \<Rightarrow> 'f Value option \<Rightarrow> 'f Value option go" where
  "IS_FALSE R a = go_bind (boolArg R a) (\<lambda>b. okBool (\<not> b))"

definition IS_DISTINCT_FROM :: "'f Runtime \<Rightarrow> 'f Value option \<Rightarrow> 'f Value option \<Rightarrow> 'f Value option go" where
  "IS_DISTINCT_FROM R a b = (case (a, b) of
     (None, None) \<Rightarrow> okBool False | (None, _) \<Rightarrow> okBool True | (_, None) \<Rightarrow> okBool True
   | (Some x, Some _) \<Rightarrow> go_bind (Value_compare R EQ x b) (\<lambda>cond. okBool (\<not> cond)))"

definition IS_NOT_DISTINCT_FROM :: "'f Runtime \<Rightarrow> 'f Value option \<Rightarrow> 'f Value option \<Rightarrow> 'f Value option go" where
  "IS_NOT_DISTINCT_FROM R a b = (case (a, b) of
     (None, None) \<Rightarrow> okBool True | (None, _) \<Rightarrow> okBool False | (_, None) \<Rightarrow> okBool False
   | (Some x, Some _) \<Rightarrow> go_bind (Value_compare R EQ x b) (\<lambda>cond. okBool cond))"

fun COALESCE :: "'f array \<Rightarrow> 'f Value option go" where
  "COALESCE [] = ok None"
| "COALESCE (None # args) = COALESCE args"
| "COALESCE (Some arg # args) = ok (Some arg)"

definition IF_op :: "'f Runtime \<Rightarrow> 'f Value option \<Rightarrow> 'f Value option \<Rightarrow> 'f Value option \<Rightarrow> 'f Value option go" where
  "IF_op R cond trueV falseV = (case cond of
     None \<Rightarrow> ok falseV
   | Some c \<Rightarrow> go_bind (Value_ToBool R c) (\<lambda>b. ok (if b then trueV else falseV)))"

definition IFNULL :: "'f Value option \<Rightarrow> 'f Value option \<Rightarrow> 'f Value option go" where
  "IFNULL expr nullResult = (case expr of None \<Rightarrow> ok nullResult | Some _ \<Rightarrow> ok expr)"

definition NULLIF :: "'f Runtime \<Rightarrow> 'f Value option \<Rightarrow> 'f Value option \<Rightarrow> 'f Value option go" where
  "NULLIF R expr exprToMatch = (case expr of
     None \<Rightarrow> ok None
   | Some x \<Rightarrow> go_bind (Value_compare R EQ x exprToMatch) (\<lambda>cond. ok (if cond then None else expr)))"

section \<open>Membership and patterns\<close>

fun IN_op :: "'f Runtime \<Rightarrow> 'f Value option \<Rightarrow> 'f array \<Rightarrow> 'f Value option go" where
  "IN_op R a [] = okBool False"
| "IN_op R a (None # vs) = IN_op R a vs"
| "IN_op R a (Some v # vs) = go_bind (onNil a (\<lambda>x. Value_compare R EQ x (Some v))) (\<lambda>cond.
     if cond then okBool True else IN_op R a vs)"

text \<open>An element of the array that is NULL has no method to call.\<close>

fun ArrayValue_Has :: "'f Runtime \<Rightarrow> 'f array \<Rightarrow> 'f Value option \<Rightarrow> bool go" where
  "ArrayValue_Has R [] v = ok False"
| "ArrayValue_Has R (val # vals) v =
     go_bind (onNil val (\<lambda>x. Value_compare R EQ x v)) (\<lambda>cond. if cond then ok True else ArrayValue_Has R vals v)"

definition onArray :: "'f Runtime \<Rightarrow> 'f Value option \<Rightarrow> ('f array \<Rightarrow> 'a go) \<Rightarrow> 'a go" where
  "onArray R v f = go_bind (onNil v (Value_ToArray R)) (\<lambda>array. onNil array f)"

definition ARRAY_IN :: "'f Runtime \<Rightarrow> 'f Value option \<Rightarrow> 'f Value option \<Rightarrow> 'f Value option go" where
  "ARRAY_IN R a b = onArray R b (\<lambda>array. go_bind (ArrayValue_Has R array a) (\<lambda>cond. okBool cond))"

text \<open>\<open>regexp.QuoteMeta\<close> does not escape the percent sign, nor the underscore.\<close>

definition QuoteMeta :: "string \<Rightarrow> string" where
  "QuoteMeta s = concat (map (\<lambda>c. if c = CHR 0x5C \<or> c \<in> set ''.+*?()|[]{}^$'' then [CHR 0x5C, c] else [c]) s)"

definition LIKE :: "'f Runtime \<Rightarrow> 're TextEnv \<Rightarrow> 'f Value option \<Rightarrow> 'f Value option \<Rightarrow> 'f Value option go" where
  "LIKE R T a b =
     go_bind (textArg R a) (\<lambda>va. go_bind (textArg R b) (\<lambda>vb.
     let wildcard = stringsReplaceAll (QuoteMeta vb) ''%'' ''.*''; matchLimits = ''^'' @ wildcard @ ''$''
     in go_bind (reCompile T matchLimits) (\<lambda>re. okBool (reMatch T re va))))"

section \<open>Arrays and structs\<close>

definition STRUCT_FIELD :: "'f Runtime \<Rightarrow> 'f Value option \<Rightarrow> int \<Rightarrow> 'f Value option go" where
  "STRUCT_FIELD R v idx =
     go_bind (onNil v (Value_ToStruct R)) (\<lambda>sv. case sv of
       None \<Rightarrow> ok None
     | Some (_, vals, _) \<Rightarrow>
         if idx < 0 \<or> int (length vals) \<le> idx then
           fail_with (''struct field index '' @ sprintInt idx @ '' out of range (struct has ''
             @ sprintInt (int (length vals)) @ '' fields)'')
         else ok (vals ! nat idx))"

definition ARRAY_OFFSET :: "'f Runtime \<Rightarrow> 'f Value option \<Rightarrow> int \<Rightarrow> 'f Value option go" where
  "ARRAY_OFFSET R v idx = onArray R v (\<lambda>array.
     if idx < 0 \<or> int (length array) \<le> idx then fail_with (''OFFSET('' @ sprintInt idx @ '') is out of range'')
     else ok (array ! nat idx))"

definition ARRAY_SAFE_OFFSET :: "'f Runtime \<Rightarrow> 'f Value option \<Rightarrow> int \<Rightarrow> 'f Value option go" where
  "ARRAY_SAFE_OFFSET R v idx = onArray R v (\<lambda>array.
     if idx < 0 \<or> int (length array) \<le> idx then ok None else ok (array ! nat idx))"

definition ARRAY_ORDINAL :: "'f Runtime \<Rightarrow> 'f Value option \<Rightarrow> int \<Rightarrow> 'f Value option go" where
  "ARRAY_ORDINAL R v idx = onArray R v (\<lambda>array.
     if idx < 1 \<or> int (length array) < idx then fail_with (''ORDINAL('' @ sprintInt idx @ '') is out of range'')
     else ok (array ! nat (idx - 1)))"

definition ARRAY_SAFE_ORDINAL :: "'f Runtime \<Rightarrow> 'f Value option \<Rightarrow> int \<Rightarrow> 'f Value option go" where
  "ARRAY_SAFE_ORDINAL R v idx = onArray R v (\<lambda>array.
     if idx < 1 \<or> int (length array) < idx then ok None else ok (array ! nat (idx - 1)))"

definition MAKE_ARRAY :: "'f array \<Rightarrow> 'f Value option go" where
  "MAKE_ARRAY args = ok (Some (ArrayValue args))"

text \<open>Keys and values alternate; a key that is left over is ignored.\<close>

fun structFields :: "'f Runtime \<Rightarrow> nat \<Rightarrow> 'f array \<Rightarrow> (string \<times> 'f Value option) list go" where
  "structFields R i (key # v # args) =
     go_bind (textArg R key) (\<lambda>k.
     go_bind (structFields R (i + 1) args) (\<lambda>fields.
     ok ((if k = [] then ''_field_'' @ sprintNat (i + 1) else k, v) # fields)))"
| "structFields R i _ = ok []"

definition MAKE_STRUCT :: "'f Runtime \<Rightarrow> 'f array \<Rightarrow> 'f Value option go" where
  "MAKE_STRUCT R args = go_bind (structFields R 0 args) (\<lambda>fields.
     ok (Some (StructValue (map fst fields) (map snd fields) (mapOfFields fields))))"

section \<open>EXTRACT\<close>

definition extractInterval :: "IntervalFields \<Rightarrow> string \<Rightarrow> 'f Value option go" where
  "extractInterval vv part =
     (if part = ''YEAR'' then okInt (Years vv)
      else if part = ''MONTH'' then okInt (Months vv)
      else if part = ''DAY'' then okInt (Days vv)
      else if part = ''HOUR'' then okInt (Hours vv)
      else if part = ''MINUTE'' then okInt (Minutes vv)
      else if part = ''SECOND'' then okInt (Seconds vv)
      else if part = ''MILLISECOND'' then okInt (SubSecondNanos vv sdiv 1000000)
      else if part = ''MICROSECOND'' then okInt (SubSecondNanos vv sdiv 1000)
      else fail_with (''EXTRACT: unexpected part '' @ part @ '' for interval''))"

definition quarterOfDay :: "int \<Rightarrow> int" where
  "quarterOfDay day = (if day \<le> 91 then 1 else if day \<le> 91 * 2 then 2 else if day \<le> 91 * 3 then 3 else 4)"

definition extractTime :: "Time \<Rightarrow> string \<Rightarrow> 'f Value option go" where
  "extractTime t part =
     (if part = ''ISOYEAR'' then okInt (fst (Time_ISOWeek t))
      else if part = ''YEAR'' then okInt (Time_Year t)
      else if part = ''MONTH'' then okInt (Time_Month t)
      else if part = ''ISOWEEK'' then okInt (snd (Time_ISOWeek t))
      else if part = ''WEEK'' then okInt (snd (Time_ISOWeek (AddDate 0 0 (- Time_Weekday t) t)))
      else if part = ''DAY'' then okInt (Time_Day t)
      else if part = ''DAYOFYEAR'' then okInt (Time_YearDay t)
      else if part = ''DAYOFWEEK'' then okInt (Time_Weekday t + 1)
      else if part = ''QUARTER'' then okInt (quarterOfDay (Time_YearDay t))
      else if part = ''HOUR'' then okInt (Time_Hour t)
      else if part = ''MINUTE'' then okInt (Time_Minute t)
      else if part = ''SECOND'' then okInt (Time_Second t)
      else if part = ''MILLISECOND'' then okInt (Time_Nanosecond t sdiv 1000000)
      else if part = ''MICROSECOND'' then okInt (Time_Nanosecond t sdiv 1000)
      else if part = ''DATE'' then ok (Some (DateValue t))
      else if part = ''DATETIME'' then ok (Some (DatetimeValue t))
      else if part = ''TIME'' then ok (Some (TimeValue t))
      else fail_with (''EXTRACT: unexpected part '' @ part @ '' for data/datetime/time/timestamp''))"

definition EXTRACT ::
  "'f Runtime \<Rightarrow> 'f Value option \<Rightarrow> string \<Rightarrow> string \<Rightarrow> locationCache \<Rightarrow> 'f Value option go \<times> locationCache" where
  "EXTRACT R v part zone cache = (case v of
     Some (IntervalValue iv) \<Rightarrow> (extractInterval iv part, cache)
   | Some (DateValue t) \<Rightarrow> (extractTime t part, cache)
   | Some (DatetimeValue t) \<Rightarrow> (extractTime t part, cache)
   | Some (TimeValue t) \<Rightarrow> (extractTime t part, cache)
   | Some (TimestampValue t) \<Rightarrow> withLocation R zone cache (\<lambda>loc. extractTime (Time_In loc t) part)
   | _ \<Rightarrow> (fail_with ''EXTRACT: value type must be INTERVAL or DATE or DATETIME or TIME or TIMESTAMP'', cache))"

section \<open>CAST\<close>

text \<open>A value goes through its own type first. A safe cast turns the errors of the casts into NULL.\<close>

definition CAST :: "'f Runtime \<Rightarrow> 'f Json \<Rightarrow> TypeFactory \<Rightarrow> 'f Value option \<Rightarrow> Type \<Rightarrow> Type \<Rightarrow> bool \<Rightarrow> 'f Value option go" where
  "CAST R J F expr fromType toType isSafeCast =
     go_bind (wrapGo ''failed to get zetasql type from cast base type'' (Type_ToZetaSQLType F fromType)) (\<lambda>from.
     go_bind (wrapGo ''failed to get zetasql type from cast target type'' (Type_ToZetaSQLType F toType)) (\<lambda>to'.
     let casted = go_bind (CastValue R J from expr) (CastValue R J to')
     in if isSafeCast then safely None casted else casted))"

end
