(* ===== verification/Operator_Bind.thy ===== *)
theory Operator_Bind
  imports Func_Operator Func_Time
begin

text \<open>
  \<open>internal/function_bind.go\<close>, functions of operators, conditions, arrays, dates and times: each checks the
  number of its arguments, gives NULL if one is NULL where SQL asks for that, converts the arguments in
  order, and calls the function. An argument that is missing is an index out of range.
\<close>

section \<open>Arguments\<close>

definition argNum :: "(nat \<Rightarrow> bool) \<Rightarrow> string \<Rightarrow> 'f array \<Rightarrow> 'a go \<Rightarrow> 'a go" where
  "argNum wanted name args r =
     (if wanted (length args) then r
      else fail_with (name @ '': invalid argument num '' @ sprintNat (length args)))"

text \<open>A NULL among the arguments, or as the first of them, is the result.\<close>

definition unlessNull :: "'f array \<Rightarrow> 'f Value option go \<Rightarrow> 'f Value option go" where
  "unlessNull args r = (if existsNull args then ok None else r)"

definition unlessFirst :: "'f array \<Rightarrow> 'f Value option go \<Rightarrow> 'f Value option go" where
  "unlessFirst args r = withArg 0 args (\<lambda>v. case v of None \<Rightarrow> ok None | Some _ \<Rightarrow> r)"

definition optArg :: "nat \<Rightarrow> 'f array \<Rightarrow> 'f Value option" where
  "optArg i args = (if i < length args then args ! i else None)"

abbreviation intAt :: "'f Runtime \<Rightarrow> 'f array \<Rightarrow> nat \<Rightarrow> int go" where
  "intAt R args i \<equiv> withArg i args (argInt64 R)"

abbreviation textAt :: "'f Runtime \<Rightarrow> 'f array \<Rightarrow> nat \<Rightarrow> string go" where
  "textAt R args i \<equiv> withArg i args (argString R)"

abbreviation bytesAt :: "'f Runtime \<Rightarrow> 'f array \<Rightarrow> nat \<Rightarrow> string go" where
  "bytesAt R args i \<equiv> withArg i args (argBytes R)"

abbreviation boolAt :: "'f Runtime \<Rightarrow> 'f array \<Rightarrow> nat \<Rightarrow> bool go" where
  "boolAt R args i \<equiv> withArg i args (argBool R)"

abbreviation timeAt :: "'f Runtime \<Rightarrow> 'f array \<Rightarrow> nat \<Rightarrow> Time go" where
  "timeAt R args i \<equiv> withArg i args (argTime R)"

abbreviation arrayAt :: "'f Runtime \<Rightarrow> 'f array \<Rightarrow> nat \<Rightarrow> 'f array option go" where
  "arrayAt R args i \<equiv> withArg i args (argArray R)"

lemma existsNull_simps [simp]:
  "existsNull [] = False" "existsNull (None # args) = True" "existsNull (Some v # args) = existsNull args"
  by (simp_all add: existsNull_def)

lemma existsNull_iff: "existsNull args \<longleftrightarrow> None \<in> set args"
  by (auto simp: existsNull_def list_ex_iff split: option.splits)

lemmas bind_simps = argNum_def unlessNull_def unlessFirst_def optArg_def argInt64_def argString_def argBytes_def
  argBool_def argTime_def argArray_def

section \<open>Operators\<close>

definition bindAdd :: "'f Runtime \<Rightarrow> 'f array \<Rightarrow> 'f Value option go" where
  "bindAdd R args = unlessNull args (withArg 0 args (\<lambda>a. withArg 1 args (\<lambda>b. ADD R a b)))"

definition bindSub :: "'f Runtime \<Rightarrow> 'f array \<Rightarrow> 'f Value option go" where
  "bindSub R args = unlessNull args (withArg 0 args (\<lambda>a. withArg 1 args (\<lambda>b. SUB R a b)))"

definition bindMul :: "'f Runtime \<Rightarrow> 'f array \<Rightarrow> 'f Value option go" where
  "bindMul R args = unlessNull args (withArg 0 args (\<lambda>a. withArg 1 args (\<lambda>b. MUL R a b)))"

definition bindOpDiv :: "'f Runtime \<Rightarrow> 'f array \<Rightarrow> 'f Value option go" where
  "bindOpDiv R args = unlessNull args (withArg 0 args (\<lambda>a. withArg 1 args (\<lambda>b. OP_DIV R a b)))"

definition bindEqual :: "'f Runtime \<Rightarrow> 'f array \<Rightarrow> 'f Value option go" where
  "bindEqual R args = unlessNull args (withArg 0 args (\<lambda>a. withArg 1 args (\<lambda>b. EQ_op R a b)))"

definition bindNotEqual :: "'f Runtime \<Rightarrow> 'f array \<Rightarrow> 'f Value option go" where
  "bindNotEqual R args = unlessNull args (withArg 0 args (\<lambda>a. withArg 1 args (\<lambda>b. NOT_EQ R a b)))"

definition bindGreater :: "'f Runtime \<Rightarrow> 'f array \<Rightarrow> 'f Value option go" where
  "bindGreater R args = unlessNull args (withArg 0 args (\<lambda>a. withArg 1 args (\<lambda>b. GT_op R a b)))"

definition bindGreaterOrEqual :: "'f Runtime \<Rightarrow> 'f array \<Rightarrow> 'f Value option go" where
  "bindGreaterOrEqual R args = unlessNull args (withArg 0 args (\<lambda>a. withArg 1 args (\<lambda>b.
     GTE_op R a b)))"

definition bindLess :: "'f Runtime \<Rightarrow> 'f array \<Rightarrow> 'f Value option go" where
  "bindLess R args = unlessNull args (withArg 0 args (\<lambda>a. withArg 1 args (\<lambda>b. LT_op R a b)))"

definition bindLessOrEqual :: "'f Runtime \<Rightarrow> 'f array \<Rightarrow> 'f Value option go" where
  "bindLessOrEqual R args = unlessNull args (withArg 0 args (\<lambda>a. withArg 1 args (\<lambda>b. LTE_op R a b)))"

definition bindBitNot :: "'f Runtime \<Rightarrow> 'f array \<Rightarrow> 'f Value option go" where
  "bindBitNot R args = unlessNull args (withArg 0 args (\<lambda>a. BIT_NOT R a))"

definition bindBitLeftShift :: "'f Runtime \<Rightarrow> 'f array \<Rightarrow> 'f Value option go" where
  "bindBitLeftShift R args = unlessNull args (withArg 0 args (\<lambda>a. withArg 1 args (\<lambda>b.
     BIT_LEFT_SHIFT R a b)))"

definition bindBitRightShift :: "'f Runtime \<Rightarrow> 'f array \<Rightarrow> 'f Value option go" where
  "bindBitRightShift R args = unlessNull args (withArg 0 args (\<lambda>a. withArg 1 args (\<lambda>b.
     BIT_RIGHT_SHIFT R a b)))"

definition bindBitAnd :: "'f Runtime \<Rightarrow> 'f array \<Rightarrow> 'f Value option go" where
  "bindBitAnd R args = unlessNull args (withArg 0 args (\<lambda>a. withArg 1 args (\<lambda>b. BIT_AND R a b)))"

definition bindBitOr :: "'f Runtime \<Rightarrow> 'f array \<Rightarrow> 'f Value option go" where
  "bindBitOr R args = unlessNull args (withArg 0 args (\<lambda>a. withArg 1 args (\<lambda>b. BIT_OR R a b)))"

definition bindBitXor :: "'f Runtime \<Rightarrow> 'f array \<Rightarrow> 'f Value option go" where
  "bindBitXor R args = unlessNull args (withArg 0 args (\<lambda>a. withArg 1 args (\<lambda>b. BIT_XOR R a b)))"

definition bindBitCount :: "'f Runtime \<Rightarrow> 'f array \<Rightarrow> 'f Value option go" where
  "bindBitCount R args = unlessNull args (withArg 0 args (\<lambda>a. BIT_COUNT R a))"

section \<open>Conditions\<close>

definition bindIsDistinctFrom :: "'f Runtime \<Rightarrow> 'f array \<Rightarrow> 'f Value option go" where
  "bindIsDistinctFrom R args = withArg 0 args (\<lambda>a. withArg 1 args (\<lambda>b. IS_DISTINCT_FROM R a b))"

definition bindIsNotDistinctFrom :: "'f Runtime \<Rightarrow> 'f array \<Rightarrow> 'f Value option go" where
  "bindIsNotDistinctFrom R args = withArg 0 args (\<lambda>a. withArg 1 args (\<lambda>b.
     IS_NOT_DISTINCT_FROM R a b))"

definition bindLike ::
  "'f Runtime \<Rightarrow> 're TextEnv \<Rightarrow> 'f array \<Rightarrow> 'f Value option go" where
  "bindLike R T args = unlessNull args (withArg 0 args (\<lambda>a. withArg 1 args (\<lambda>b. LIKE R T a b)))"

definition bindBetween :: "'f Runtime \<Rightarrow> 'f array \<Rightarrow> 'f Value option go" where
  "bindBetween R args = unlessNull args (withArg 0 args (\<lambda>a. withArg 1 args (\<lambda>b. withArg 2 args
     (\<lambda>c. BETWEEN R a b c))))"

definition bindIn :: "'f Runtime \<Rightarrow> 'f array \<Rightarrow> 'f Value option go" where
  "bindIn R args = unlessNull args (withArg 0 args (\<lambda>a. IN_op R a (drop 1 args)))"

definition bindIsNull :: "'f array \<Rightarrow> 'f Value option go" where
  "bindIsNull args = withArg 0 args (\<lambda>a. IS_NULL a)"

definition bindIsTrue :: "'f Runtime \<Rightarrow> 'f array \<Rightarrow> 'f Value option go" where
  "bindIsTrue R args = unlessNull args (withArg 0 args (\<lambda>a. IS_TRUE R a))"

definition bindIsFalse :: "'f Runtime \<Rightarrow> 'f array \<Rightarrow> 'f Value option go" where
  "bindIsFalse R args = unlessNull args (withArg 0 args (\<lambda>a. IS_FALSE R a))"

definition bindNot :: "'f Runtime \<Rightarrow> 'f array \<Rightarrow> 'f Value option go" where
  "bindNot R args = unlessNull args (withArg 0 args (\<lambda>a. NOT_op R a))"

definition bindAnd :: "'f Runtime \<Rightarrow> 'f array \<Rightarrow> 'f Value option go" where
  "bindAnd R args = AND_op R args"

definition bindOr :: "'f Runtime \<Rightarrow> 'f array \<Rightarrow> 'f Value option go" where
  "bindOr R args = OR_op R args"

definition bindIf :: "'f Runtime \<Rightarrow> 'f array \<Rightarrow> 'f Value option go" where
  "bindIf R args = argNum (\<lambda>n. n = 3) ''IF'' args (withArg 0 args (\<lambda>a. withArg 1 args (\<lambda>b.
     withArg 2 args (\<lambda>c. IF_op R a b c))))"

definition bindIfNull :: "'f array \<Rightarrow> 'f Value option go" where
  "bindIfNull args = argNum (\<lambda>n. n = 2) ''IFNULL'' args (withArg 0 args (\<lambda>a. withArg 1 args
     (\<lambda>b. IFNULL a b)))"

definition bindNullIf :: "'f Runtime \<Rightarrow> 'f array \<Rightarrow> 'f Value option go" where
  "bindNullIf R args = argNum (\<lambda>n. n = 2) ''NULLIF'' args (withArg 0 args (\<lambda>a. withArg 1 args
     (\<lambda>b. NULLIF R a b)))"

definition bindError :: "'f Runtime \<Rightarrow> 'f array \<Rightarrow> 'f Value option go" where
  "bindError R args = withArg 0 args (\<lambda>v. case v of
     None \<Rightarrow> ok None | Some x \<Rightarrow> go_bind (Value_ToString R x) (\<lambda>msg. fail_with msg))"

definition bindCoalesce :: "'f array \<Rightarrow> 'f Value option go" where
  "bindCoalesce args = argNum (\<lambda>n. n \<noteq> 0) ''COALESCE'' args (COALESCE args)"

text \<open>The types of a cast are JSON texts, read by the parameter \<open>unmarshalType\<close>.\<close>

definition bindCast ::
  "'f Runtime \<Rightarrow> 'f Json \<Rightarrow> TypeFactory \<Rightarrow> (string \<Rightarrow> Type go) \<Rightarrow> 'f array \<Rightarrow> 'f Value option go" where
  "bindCast R J F unmarshalType args = argNum (\<lambda>n. n = 4) ''CAST'' args
     (go_bind (textAt R args 1) (\<lambda>jsonEncodedFromType.
      go_bind (textAt R args 2) (\<lambda>jsonEncodedToType.
      go_bind (unmarshalType jsonEncodedFromType) (\<lambda>fromType.
      go_bind (unmarshalType jsonEncodedToType) (\<lambda>toType.
      go_bind (boolAt R args 3) (\<lambda>isSafeCast.
      withArg 0 args (\<lambda>v. CAST R J F v fromType toType isSafeCast)))))))"

section \<open>Arrays and structs\<close>

definition bindInArray :: "'f Runtime \<Rightarrow> 'f array \<Rightarrow> 'f Value option go" where
  "bindInArray R args = unlessNull args (withArg 0 args (\<lambda>a. withArg 1 args (\<lambda>b. ARRAY_IN R a b)))"

definition bindStructField :: "'f Runtime \<Rightarrow> 'f array \<Rightarrow> 'f Value option go" where
  "bindStructField R args = unlessNull args (go_bind (intAt R args 1) (\<lambda>i64. withArg 0 args (\<lambda>v.
     STRUCT_FIELD R v i64)))"

definition bindArrayAtOffset :: "'f Runtime \<Rightarrow> 'f array \<Rightarrow> 'f Value option go" where
  "bindArrayAtOffset R args = unlessNull args (go_bind (intAt R args 1) (\<lambda>i64. withArg 0 args (\<lambda>v.
     ARRAY_OFFSET R v i64)))"

definition bindSafeArrayAtOffset :: "'f Runtime \<Rightarrow> 'f array \<Rightarrow> 'f Value option go" where
  "bindSafeArrayAtOffset R args = unlessNull args (go_bind (intAt R args 1) (\<lambda>i64. withArg 0 args
     (\<lambda>v. ARRAY_SAFE_OFFSET R v i64)))"

definition bindArrayAtOrdinal :: "'f Runtime \<Rightarrow> 'f array \<Rightarrow> 'f Value option go" where
  "bindArrayAtOrdinal R args = unlessNull args (go_bind (intAt R args 1) (\<lambda>i64. withArg 0 args (\<lambda>v.
     ARRAY_ORDINAL R v i64)))"

definition bindSafeArrayAtOrdinal :: "'f Runtime \<Rightarrow> 'f array \<Rightarrow> 'f Value option go" where
  "bindSafeArrayAtOrdinal R args = unlessNull args (go_bind (intAt R args 1) (\<lambda>i64. withArg 0 args
     (\<lambda>v. ARRAY_SAFE_ORDINAL R v i64)))"

definition bindMakeArray :: "'f array \<Rightarrow> 'f Value option go" where
  "bindMakeArray args = MAKE_ARRAY args"

definition bindArrayFirst :: "'f Runtime \<Rightarrow> 'f array \<Rightarrow> 'f Value option go" where
  "bindArrayFirst R args = argNum (\<lambda>n. n = 1) ''ARRAY_FIRST'' args (unlessNull args (go_bind
     (arrayAt R args 0) (\<lambda>arr. onNil arr (\<lambda>arr. if arr = []
     then fail_with ''ARRAY_FIRST: cannot get the first element of an empty array'' else ARRAY_FIRST arr))))"

definition bindArrayLast :: "'f Runtime \<Rightarrow> 'f array \<Rightarrow> 'f Value option go" where
  "bindArrayLast R args = argNum (\<lambda>n. n = 1) ''ARRAY_LAST'' args (unlessNull args (go_bind (arrayAt R args 0)
     (\<lambda>arr. onNil arr (\<lambda>arr. if arr = []
     then fail_with ''ARRAY_LAST: cannot get the first element of an empty array'' else ARRAY_LAST arr))))"

definition bindArraySlice :: "'f Runtime \<Rightarrow> 'f array \<Rightarrow> 'f Value option go" where
  "bindArraySlice R args = argNum (\<lambda>n. n = 3) ''ARRAY_SLICE'' args (unlessNull args (go_bind
     (arrayAt R args 0) (\<lambda>arr. go_bind (intAt R args 1) (\<lambda>startOffset. go_bind (intAt R args 2)
     (\<lambda>endOffset. onNil arr (\<lambda>arr. ARRAY_SLICE arr startOffset endOffset))))))"

definition bindArrayLength :: "'f Runtime \<Rightarrow> 'f array \<Rightarrow> 'f Value option go" where
  "bindArrayLength R args = argNum (\<lambda>n. n = 1) ''ARRAY_LENGTH'' args (unlessNull args (go_bind
     (arrayAt R args 0) (\<lambda>arr. onNil arr ARRAY_LENGTH)))"

definition bindArrayReverse :: "'f Runtime \<Rightarrow> 'f array \<Rightarrow> 'f Value option go" where
  "bindArrayReverse R args = argNum (\<lambda>n. n = 1) ''ARRAY_REVERSE'' args (unlessNull args (go_bind
     (arrayAt R args 0) (\<lambda>arr. onNil arr ARRAY_REVERSE)))"

definition bindMakeStruct :: "'f Runtime \<Rightarrow> 'f array \<Rightarrow> 'f Value option go" where
  "bindMakeStruct R args =
     (if length args mod 2 \<noteq> 0 then fail_with (''MAKE_STRUCT: unexpected argument num '' @ sprintNat (length args))
      else MAKE_STRUCT R args)"

definition bindArrayConcat :: "'f Runtime \<Rightarrow> 'f array \<Rightarrow> 'f Value option go" where
  "bindArrayConcat R args =
     (if args = [] then fail_with ''ARRAY_CONCAT: required arguments'' else unlessNull args (ARRAY_CONCAT R args))"

definition bindArrayToString :: "'f Runtime \<Rightarrow> 'f array \<Rightarrow> 'f Value option go" where
  "bindArrayToString R args = argNum (\<lambda>n. 2 \<le> n) ''ARRAY_TO_STRING'' args (unlessNull args
     (go_bind (arrayAt R args 0) (\<lambda>arr. go_bind (textAt R args 1) (\<lambda>delim.
      go_bind (if length args = 3 then go_bind (textAt R args 2) (\<lambda>t. ok [t]) else ok []) (\<lambda>nullText.
      onNil arr (\<lambda>arr. ARRAY_TO_STRING R arr delim nullText))))))"

text \<open>The generators need not end; a NULL argument gives an empty array.\<close>

definition emptyIfNull :: "'f array \<Rightarrow> 'f Value option go option \<Rightarrow> 'f Value option go option" where
  "emptyIfNull args r = (if existsNull args then Some (ok (Some (ArrayValue []))) else r)"

definition bindGenerateArray :: "'f Runtime \<Rightarrow> 'f array \<Rightarrow> 'f Value option go option" where
  "bindGenerateArray R args = (case args of
     [a, b] \<Rightarrow> emptyIfNull args (GENERATE_ARRAY R a b [])
   | [a, b, c] \<Rightarrow> emptyIfNull args (GENERATE_ARRAY R a b [c])
   | _ \<Rightarrow> Some (fail_with (''GENERATE_ARRAY: invalid argument num '' @ sprintNat (length args))))"

definition bindGenerateDateArray :: "'f Runtime \<Rightarrow> 'f array \<Rightarrow> 'f Value option go option" where
  "bindGenerateDateArray R args = (case args of
     a # b # step \<Rightarrow> emptyIfNull args (GENERATE_DATE_ARRAY R a b step)
   | _ \<Rightarrow> Some (fail_with (''GENERATE_DATE_ARRAY: invalid argument num '' @ sprintNat (length args))))"

definition bindGenerateTimestampArray :: "'f Runtime \<Rightarrow> 'f array \<Rightarrow> 'f Value option go option" where
  "bindGenerateTimestampArray R args = (case args of
     [a, b, c, d] \<Rightarrow> emptyIfNull args
       (case go_bind (argInt64 R c) (\<lambda>step. go_bind (argString R d) (\<lambda>part. ok (step, part))) of
          Inl e \<Rightarrow> Some (Inl e)
        | Inr (step, part) \<Rightarrow> GENERATE_TIMESTAMP_ARRAY R a b step part)
   | _ \<Rightarrow> Some (fail_with (''GENERATE_TIMESTAMP_ARRAY: invalid argument num '' @ sprintNat (length args))))"

section \<open>Intervals, dates and times\<close>

definition bindInterval :: "'f Runtime \<Rightarrow> 'f array \<Rightarrow> 'f Value option go" where
  "bindInterval R args = go_bind (intAt R args 0) (\<lambda>value'. go_bind (textAt R args 1) (\<lambda>part.
     INTERVAL value' part))"

definition bindMakeInterval :: "'f Runtime \<Rightarrow> 'f array \<Rightarrow> 'f Value option go" where
  "bindMakeInterval R args = go_bind (intAt R args 0) (\<lambda>year. go_bind (intAt R args 1) (\<lambda>month.
     go_bind (intAt R args 2) (\<lambda>day. go_bind (intAt R args 3) (\<lambda>hour. go_bind (intAt R args 4)
     (\<lambda>minute. go_bind (intAt R args 5) (\<lambda>second.
     MAKE_INTERVAL year month day hour minute second))))))"

text \<open>The name Go prints for the dynamic type of a value.\<close>

definition goType :: "'f Value option \<Rightarrow> string" where
  "goType v = (case v of
     None \<Rightarrow> ''<nil>'' | Some (IntValue _) \<Rightarrow> ''internal.IntValue'' | Some (StringValue _) \<Rightarrow> ''internal.StringValue''
   | Some (BytesValue _) \<Rightarrow> ''internal.BytesValue'' | Some (FloatValue _) \<Rightarrow> ''internal.FloatValue''
   | Some (NumericValue _ _) \<Rightarrow> ''*internal.NumericValue'' | Some (BoolValue _) \<Rightarrow> ''internal.BoolValue''
   | Some (JsonValue _) \<Rightarrow> ''internal.JsonValue'' | Some (ArrayValue _) \<Rightarrow> ''*internal.ArrayValue''
   | Some (StructValue _ _ _) \<Rightarrow> ''*internal.StructValue'' | Some (DateValue _) \<Rightarrow> ''internal.DateValue''
   | Some (DatetimeValue _) \<Rightarrow> ''internal.DatetimeValue'' | Some (TimeValue _) \<Rightarrow> ''internal.TimeValue''
   | Some (TimestampValue _) \<Rightarrow> ''internal.TimestampValue'' | Some (IntervalValue _) \<Rightarrow> ''*internal.IntervalValue''
   | Some (SafeValue _) \<Rightarrow> ''*internal.SafeValue'')"

definition onInterval :: "string \<Rightarrow> (IntervalFields \<Rightarrow> IntervalFields) \<Rightarrow> 'f array \<Rightarrow> 'f Value option go" where
  "onInterval name f args = withArg 0 args (\<lambda>v. case v of
     Some (IntervalValue i) \<Rightarrow> ok (Some (IntervalValue (f i)))
   | _ \<Rightarrow> fail_with (name @ '': unexpected argument type '' @ goType v))"

definition bindJustifyDays :: "'f array \<Rightarrow> 'f Value option go" where
  "bindJustifyDays args = onInterval ''JUSTIFY_DAYS'' JUSTIFY_DAYS args"

definition bindJustifyHours :: "'f array \<Rightarrow> 'f Value option go" where
  "bindJustifyHours args = onInterval ''JUSTIFY_HOURS'' JUSTIFY_HOURS args"

definition bindJustifyInterval :: "'f array \<Rightarrow> 'f Value option go" where
  "bindJustifyInterval args = onInterval ''JUSTIFY_INTERVAL'' JUSTIFY_INTERVAL args"

definition bindDateAdd :: "'f Runtime \<Rightarrow> 'f array \<Rightarrow> 'f Value option go" where
  "bindDateAdd R args = argNum (\<lambda>n. n = 3) ''DATE_ADD'' args (unlessNull args (go_bind (timeAt R args 0)
     (\<lambda>t. go_bind (intAt R args 1) (\<lambda>num. go_bind (textAt R args 2) (\<lambda>part.
     DATE_ADD t num part)))))"

definition bindDateSub :: "'f Runtime \<Rightarrow> 'f array \<Rightarrow> 'f Value option go" where
  "bindDateSub R args = argNum (\<lambda>n. n = 3) ''DATE_SUB'' args (unlessNull args (go_bind (timeAt R args 0)
     (\<lambda>t. go_bind (intAt R args 1) (\<lambda>num. go_bind (textAt R args 2) (\<lambda>part.
     DATE_SUB t num part)))))"

definition bindDateDiff :: "'f Runtime \<Rightarrow> 'f array \<Rightarrow> 'f Value option go" where
  "bindDateDiff R args = argNum (\<lambda>n. n = 3) ''DATE_DIFF'' args (unlessNull args (go_bind (timeAt R args 0)
     (\<lambda>t. go_bind (timeAt R args 1) (\<lambda>t2. go_bind (textAt R args 2) (\<lambda>part.
     DATE_DIFF t t2 part)))))"

definition bindDatetimeAdd :: "'f Runtime \<Rightarrow> 'f array \<Rightarrow> 'f Value option go" where
  "bindDatetimeAdd R args = argNum (\<lambda>n. n = 3) ''DATETIME_ADD'' args (unlessNull args (go_bind
     (timeAt R args 0) (\<lambda>t. go_bind (intAt R args 1) (\<lambda>num. go_bind (textAt R args 2) (\<lambda>part.
     DATETIME_ADD R t num part)))))"

definition bindDatetimeSub :: "'f Runtime \<Rightarrow> 'f array \<Rightarrow> 'f Value option go" where
  "bindDatetimeSub R args = argNum (\<lambda>n. n = 3) ''DATETIME_SUB'' args (unlessNull args (go_bind
     (timeAt R args 0) (\<lambda>t. go_bind (intAt R args 1) (\<lambda>num. go_bind (textAt R args 2) (\<lambda>part.
     DATETIME_SUB R t num part)))))"

definition bindDatetimeDiff :: "'f Runtime \<Rightarrow> 'f array \<Rightarrow> 'f Value option go" where
  "bindDatetimeDiff R args = argNum (\<lambda>n. n = 3) ''DATETIME_DIFF'' args (unlessNull args (go_bind
     (timeAt R args 0) (\<lambda>t. go_bind (timeAt R args 1) (\<lambda>t2. go_bind (textAt R args 2) (\<lambda>part.
     DATETIME_DIFF t t2 part)))))"

definition bindTimeAdd :: "'f Runtime \<Rightarrow> 'f array \<Rightarrow> 'f Value option go" where
  "bindTimeAdd R args = argNum (\<lambda>n. n = 3) ''TIME_ADD'' args (unlessNull args (go_bind (timeAt R args 0)
     (\<lambda>t. go_bind (intAt R args 1) (\<lambda>num. go_bind (textAt R args 2) (\<lambda>part.
     TIME_ADD t num part)))))"

definition bindTimeSub :: "'f Runtime \<Rightarrow> 'f array \<Rightarrow> 'f Value option go" where
  "bindTimeSub R args = argNum (\<lambda>n. n = 3) ''TIME_SUB'' args (unlessNull args (go_bind (timeAt R args 0)
     (\<lambda>t. go_bind (intAt R args 1) (\<lambda>num. go_bind (textAt R args 2) (\<lambda>part.
     TIME_SUB t num part)))))"

definition bindTimeDiff :: "'f Runtime \<Rightarrow> 'f array \<Rightarrow> 'f Value option go" where
  "bindTimeDiff R args = argNum (\<lambda>n. n = 3) ''TIME_DIFF'' args (unlessNull args (go_bind (timeAt R args 0)
     (\<lambda>t. go_bind (timeAt R args 1) (\<lambda>t2. go_bind (textAt R args 2) (\<lambda>part.
     TIME_DIFF t t2 part)))))"

definition bindTimestampAdd :: "'f Runtime \<Rightarrow> 'f array \<Rightarrow> 'f Value option go" where
  "bindTimestampAdd R args = argNum (\<lambda>n. n = 3) ''TIMESTAMP_ADD'' args (unlessNull args (go_bind
     (timeAt R args 0) (\<lambda>t. go_bind (intAt R args 1) (\<lambda>num. go_bind (textAt R args 2) (\<lambda>part.
     TIMESTAMP_ADD t num part)))))"

definition bindTimestampSub :: "'f Runtime \<Rightarrow> 'f array \<Rightarrow> 'f Value option go" where
  "bindTimestampSub R args = argNum (\<lambda>n. n = 3) ''TIMESTAMP_SUB'' args (unlessNull args (go_bind
     (timeAt R args 0) (\<lambda>t. go_bind (intAt R args 1) (\<lambda>num. go_bind (textAt R args 2) (\<lambda>part.
     TIMESTAMP_SUB t num part)))))"

definition bindTimestampDiff :: "'f Runtime \<Rightarrow> 'f array \<Rightarrow> 'f Value option go" where
  "bindTimestampDiff R args = argNum (\<lambda>n. n = 3) ''TIMESTAMP_DIFF'' args (unlessNull args (go_bind
     (timeAt R args 0) (\<lambda>t. go_bind (timeAt R args 1) (\<lambda>t2. go_bind (textAt R args 2) (\<lambda>part.
     TIMESTAMP_DIFF t t2 part)))))"

definition bindTimeTrunc :: "'f Runtime \<Rightarrow> 'f array \<Rightarrow> 'f Value option go" where
  "bindTimeTrunc R args = argNum (\<lambda>n. n = 2) ''TIME_TRUNC'' args (unlessNull args (go_bind (timeAt R args 0)
     (\<lambda>t. go_bind (textAt R args 1) (\<lambda>part. TIME_TRUNC t part))))"

definition bindDateFromUnixDate :: "'f Runtime \<Rightarrow> 'f array \<Rightarrow> 'f Value option go" where
  "bindDateFromUnixDate R args = argNum (\<lambda>n. n = 1) ''DATE_FROM_UNIX_DATE'' args (unlessNull args (go_bind
     (intAt R args 0) (\<lambda>unixdate. DATE_FROM_UNIX_DATE R unixdate)))"

definition bindLastDay :: "'f Runtime \<Rightarrow> 'f array \<Rightarrow> 'f Value option go" where
  "bindLastDay R args = argNum (\<lambda>n. n = 1 \<or> n = 2) ''LAST_DAY'' args (unlessNull args (go_bind
     (timeAt R args 0) (\<lambda>t. go_bind (if length args = 2 then textAt R args 1 else ok ''MONTH'')
     (\<lambda>part. LAST_DAY t part))))"

definition bindUnixDate :: "'f Runtime \<Rightarrow> 'f array \<Rightarrow> 'f Value option go" where
  "bindUnixDate R args = argNum (\<lambda>n. n = 1) ''UNIX_DATE'' args (unlessNull args (go_bind (timeAt R args 0)
     (\<lambda>t. UNIX_DATE t)))"

definition bindTimestampSeconds :: "'f Runtime \<Rightarrow> 'f array \<Rightarrow> 'f Value option go" where
  "bindTimestampSeconds R args = argNum (\<lambda>n. n = 1) ''TIMESTAMP_SECONDS'' args (unlessNull args (go_bind
     (intAt R args 0) (\<lambda>num. TIMESTAMP_SECONDS R num)))"

definition bindTimestampMillis :: "'f Runtime \<Rightarrow> 'f array \<Rightarrow> 'f Value option go" where
  "bindTimestampMillis R args = argNum (\<lambda>n. n = 1) ''TIMESTAMP_MILLIS'' args (unlessNull args (go_bind
     (intAt R args 0) (\<lambda>num. TIMESTAMP_MILLIS R num)))"

definition bindTimestampMicros :: "'f Runtime \<Rightarrow> 'f array \<Rightarrow> 'f Value option go" where
  "bindTimestampMicros R args = argNum (\<lambda>n. n = 1) ''TIMESTAMP_MICROS'' args (unlessNull args (go_bind
     (intAt R args 0) (\<lambda>num. TIMESTAMP_MICROS R num)))"

definition bindUnixSeconds :: "'f Runtime \<Rightarrow> 'f array \<Rightarrow> 'f Value option go" where
  "bindUnixSeconds R args = argNum (\<lambda>n. n = 1) ''UNIX_SECONDS'' args (unlessNull args (go_bind
     (timeAt R args 0) (\<lambda>t. UNIX_SECONDS t)))"

definition bindUnixMillis :: "'f Runtime \<Rightarrow> 'f array \<Rightarrow> 'f Value option go" where
  "bindUnixMillis R args = argNum (\<lambda>n. n = 1) ''UNIX_MILLIS'' args (unlessNull args (go_bind
     (timeAt R args 0) (\<lambda>t. UNIX_MILLIS t)))"

definition bindUnixMicros :: "'f Runtime \<Rightarrow> 'f array \<Rightarrow> 'f Value option go" where
  "bindUnixMicros R args = argNum (\<lambda>n. n = 1) ''UNIX_MICROS'' args (unlessNull args (go_bind
     (timeAt R args 0) (\<lambda>t. UNIX_MICROS t)))"

definition bindDateTrunc :: "'f Runtime \<Rightarrow> 'f array \<Rightarrow> 'f Value option go option" where
  "bindDateTrunc R args =
     (if length args \<noteq> 2 then Some (fail_with (''DATE_TRUNC: invalid argument num '' @ sprintNat (length args)))
      else if existsNull args then Some (ok None)
      else (case go_bind (timeAt R args 0) (\<lambda>t. go_bind (textAt R args 1) (\<lambda>part. ok (t, part))) of
              Inl e \<Rightarrow> Some (Inl e)
            | Inr (t, part) \<Rightarrow> DATE_TRUNC t part))"

definition bindDatetimeTrunc :: "'f Runtime \<Rightarrow> 'f array \<Rightarrow> 'f Value option go option" where
  "bindDatetimeTrunc R args =
     (if length args \<noteq> 2 then Some (fail_with (''DATETIME_TRUNC: invalid argument num '' @ sprintNat (length args)))
      else if existsNull args then Some (ok None)
      else (case go_bind (timeAt R args 0) (\<lambda>t. go_bind (textAt R args 1) (\<lambda>part. ok (t, part))) of
              Inl e \<Rightarrow> Some (Inl e)
            | Inr (t, part) \<Rightarrow> DATETIME_TRUNC R t part))"

section \<open>Functions that look up a time zone\<close>

text \<open>They pass the cache of zones on; \<open>now\<close> is the time of the clock.\<close>

definition withCache :: "'a go \<Rightarrow> locationCache \<Rightarrow> ('a \<Rightarrow> 'b go \<times> locationCache) \<Rightarrow> 'b go \<times> locationCache" where
  "withCache r cache f = (case r of Inl e \<Rightarrow> (Inl e, cache) | Inr x \<Rightarrow> f x)"

definition bindCurrent ::
  "string \<Rightarrow> (Time \<Rightarrow> 'f Value option go) \<Rightarrow> (string \<Rightarrow> locationCache \<Rightarrow> 'f Value option go \<times> locationCache)
     \<Rightarrow> 'f Runtime \<Rightarrow> 'f array \<Rightarrow> locationCache \<Rightarrow> 'f Value option go \<times> locationCache" where
  "bindCurrent name withTime current R args cache =
     (if args = [] then current [] cache
      else if length args = 2 then
        withCache (go_bind (intAt R args 0) (\<lambda>unixNano. go_bind (textAt R args 1) (\<lambda>zone. ok (unixNano, zone)))) cache
          (\<lambda>(unixNano, zone). withLocation R zone cache (\<lambda>loc. withTime (Time_In loc (timeFromUnixNano R unixNano))))
      else (case hd args of
              Some (IntValue unixNano) \<Rightarrow> (withTime (timeFromUnixNano R unixNano), cache)
            | Some (StringValue zone) \<Rightarrow> current zone cache
            | v \<Rightarrow> (fail_with (name @ '': unexpected argument type '' @ goType v), cache)))"

definition bindCurrentDate ::
  "'f Runtime \<Rightarrow> Time \<Rightarrow> 'f array \<Rightarrow> locationCache \<Rightarrow> 'f Value option go \<times> locationCache" where
  "bindCurrentDate R now = bindCurrent ''CURRENT_DATE'' CURRENT_DATE_WITH_TIME (CURRENT_DATE R now) R"

definition bindCurrentDatetime ::
  "'f Runtime \<Rightarrow> Time \<Rightarrow> 'f array \<Rightarrow> locationCache \<Rightarrow> 'f Value option go \<times> locationCache" where
  "bindCurrentDatetime R now = bindCurrent ''CURRENT_DATETIME'' CURRENT_DATETIME_WITH_TIME (CURRENT_DATETIME R now) R"

definition bindCurrentTime ::
  "'f Runtime \<Rightarrow> Time \<Rightarrow> 'f array \<Rightarrow> locationCache \<Rightarrow> 'f Value option go \<times> locationCache" where
  "bindCurrentTime R now = bindCurrent ''CURRENT_TIME'' CURRENT_TIME_WITH_TIME (CURRENT_TIME R now) R"

definition bindCurrentTimestamp ::
  "'f Runtime \<Rightarrow> Time \<Rightarrow> 'f array \<Rightarrow> locationCache \<Rightarrow> 'f Value option go \<times> locationCache" where
  "bindCurrentTimestamp R now = bindCurrent ''CURRENT_TIMESTAMP'' CURRENT_TIMESTAMP_WITH_TIME (CURRENT_TIMESTAMP R now) R"

definition bindDate :: "'f Runtime \<Rightarrow> 'f array \<Rightarrow> locationCache \<Rightarrow> 'f Value option go \<times> locationCache" where
  "bindDate R args cache = (if existsNull args then (ok None, cache) else DATE R args cache)"

definition bindDatetime :: "'f Runtime \<Rightarrow> 'f array \<Rightarrow> locationCache \<Rightarrow> 'f Value option go \<times> locationCache" where
  "bindDatetime R args cache = (if existsNull args then (ok None, cache) else DATETIME R args cache)"

definition bindTime :: "'f Runtime \<Rightarrow> 'f array \<Rightarrow> locationCache \<Rightarrow> 'f Value option go \<times> locationCache" where
  "bindTime R args cache = (if existsNull args then (ok None, cache) else TIME R args cache)"

definition zoneAt :: "'f Runtime \<Rightarrow> string \<Rightarrow> 'f array \<Rightarrow> nat \<Rightarrow> string go" where
  "zoneAt R zone args i = (if length args = Suc i then textAt R args i else ok zone)"

definition bindTimestamp :: "'f Runtime \<Rightarrow> 'f array \<Rightarrow> locationCache \<Rightarrow> 'f Value option go \<times> locationCache" where
  "bindTimestamp R args cache =
     (if length args \<noteq> 1 \<and> length args \<noteq> 2 then
        (fail_with (''TIMESTAMP: invalid argument num '' @ sprintNat (length args)), cache)
      else if existsNull args then (ok None, cache)
      else withCache (zoneAt R [] args 1) cache (\<lambda>zone. TIMESTAMP R (hd args) zone cache))"

definition bindTimestampTrunc ::
  "'f Runtime \<Rightarrow> 'f array \<Rightarrow> locationCache \<Rightarrow> 'f Value option go option \<times> locationCache" where
  "bindTimestampTrunc R args cache =
     (if length args \<noteq> 2 \<and> length args \<noteq> 3 then
        (Some (fail_with (''TIMESTAMP_TRUNC: invalid argument num '' @ sprintNat (length args))), cache)
      else if existsNull args then (Some (ok None), cache)
      else (case go_bind (timeAt R args 0) (\<lambda>t. go_bind (textAt R args 1) (\<lambda>part.
                 go_bind (zoneAt R [] args 2) (\<lambda>zone. ok (t, part, zone)))) of
              Inl e \<Rightarrow> (Some (Inl e), cache)
            | Inr (t, part, zone) \<Rightarrow> TIMESTAMP_TRUNC R t part zone cache))"

definition bindExtract :: "'f Runtime \<Rightarrow> 'f array \<Rightarrow> locationCache \<Rightarrow> 'f Value option go \<times> locationCache" where
  "bindExtract R args cache =
     (if existsNull args then (ok None, cache)
      else withCache (go_bind (textAt R args 1) (\<lambda>part. go_bind (zoneAt R ''UTC'' args 2) (\<lambda>zone.
             withArg 0 args (\<lambda>v. ok (v, part, zone))))) cache
        (\<lambda>(v, part, zone). EXTRACT R v part zone cache))"

definition bindExtractDate :: "'f Runtime \<Rightarrow> 'f array \<Rightarrow> locationCache \<Rightarrow> 'f Value option go \<times> locationCache" where
  "bindExtractDate R args cache =
     (if existsNull args then (ok None, cache)
      else withCache (go_bind (zoneAt R ''UTC'' args 1) (\<lambda>zone. withArg 0 args (\<lambda>v. ok (v, zone)))) cache
        (\<lambda>(v, zone). EXTRACT R v ''DATE'' zone cache))"

end
