(* ===== verification/String_Bind.thy ===== *)
theory String_Bind
  imports Operator_Bind
begin

text \<open>
  \<open>internal/function_bind.go\<close>, functions of strings and bytes, but for \<open>FORMAT\<close>.
\<close>

definition bindAscii :: "'f Runtime \<Rightarrow> 'f array \<Rightarrow> 'f Value option go" where
  "bindAscii R args = argNum (\<lambda>n. n = 1) ''ASCII'' args (unlessFirst args (go_bind (textAt R args 0)
     (\<lambda>ascii. (if ascii = [] then okInt 0 else ASCII ascii))))"

definition bindByteLength :: "'f Runtime \<Rightarrow> 'f array \<Rightarrow> 'f Value option go" where
  "bindByteLength R args = argNum (\<lambda>n. n = 1) ''BYTE_LENGTH'' args (unlessFirst args (go_bind
     (bytesAt R args 0) (\<lambda>v. BYTE_LENGTH v)))"

definition bindCharLength :: "'f Runtime \<Rightarrow> 'f array \<Rightarrow> 'f Value option go" where
  "bindCharLength R args = argNum (\<lambda>n. n = 1) ''CHAR_LENGTH'' args (unlessFirst args (go_bind
     (bytesAt R args 0) (\<lambda>v. CHAR_LENGTH v)))"

definition bindChr :: "'f Runtime \<Rightarrow> 'f array \<Rightarrow> 'f Value option go" where
  "bindChr R args = argNum (\<lambda>n. n = 1) ''CHR'' args (unlessFirst args (go_bind (intAt R args 0) (\<lambda>v.
     CHR_rune v)))"

definition bindCodePointsToBytes :: "'f Runtime \<Rightarrow> 'f array \<Rightarrow> 'f Value option go" where
  "bindCodePointsToBytes R args = argNum (\<lambda>n. n = 1) ''CODE_POINTS_TO_BYTES'' args (unlessFirst args (go_bind
     (arrayAt R args 0) (\<lambda>v. onNil v (CODE_POINTS_TO_BYTES R))))"

definition bindCodePointsToString :: "'f Runtime \<Rightarrow> 'f array \<Rightarrow> 'f Value option go" where
  "bindCodePointsToString R args = argNum (\<lambda>n. n = 1) ''CODE_POINTS_TO_STRING'' args (unlessFirst args
     (go_bind (arrayAt R args 0) (\<lambda>v. onNil v (CODE_POINTS_TO_STRING R))))"

definition bindEndsWith :: "'f Runtime \<Rightarrow> 'f array \<Rightarrow> 'f Value option go" where
  "bindEndsWith R args = argNum (\<lambda>n. n = 2) ''ENDS_WITH'' args (unlessNull args (withArg 0 args (\<lambda>a.
     withArg 1 args (\<lambda>b. ENDS_WITH R a b))))"

definition bindStartsWith :: "'f Runtime \<Rightarrow> 'f array \<Rightarrow> 'f Value option go" where
  "bindStartsWith R args = argNum (\<lambda>n. n = 2) ''STARTS_WITH'' args (unlessNull args (withArg 0 args
     (\<lambda>a. withArg 1 args (\<lambda>b. STARTS_WITH R a b))))"

definition bindStrpos :: "'f Runtime \<Rightarrow> 'f array \<Rightarrow> 'f Value option go" where
  "bindStrpos R args = argNum (\<lambda>n. n = 2) ''STRPOS'' args (unlessNull args (withArg 0 args (\<lambda>a.
     withArg 1 args (\<lambda>b. STRPOS R a b))))"

definition bindFromBase32 ::
  "'f Runtime \<Rightarrow> 're TextEnv \<Rightarrow> 'f array \<Rightarrow> 'f Value option go" where
  "bindFromBase32 R T args = argNum (\<lambda>n. n = 1) ''FROM_BASE32'' args (unlessFirst args (go_bind
     (textAt R args 0) (\<lambda>v. FROM_BASE32 T v)))"

definition bindFromBase64 ::
  "'f Runtime \<Rightarrow> 'f Json \<Rightarrow> 'f array \<Rightarrow> 'f Value option go" where
  "bindFromBase64 R J args = argNum (\<lambda>n. n = 1) ''FROM_BASE64'' args (unlessFirst args (go_bind
     (textAt R args 0) (\<lambda>v. FROM_BASE64 J v)))"

definition bindFromHex :: "'f Runtime \<Rightarrow> 'f array \<Rightarrow> 'f Value option go" where
  "bindFromHex R args = argNum (\<lambda>n. n = 1) ''FROM_HEX'' args (unlessFirst args (go_bind (textAt R args 0)
     (\<lambda>v. FROM_HEX v)))"

definition bindToBase32 ::
  "'f Runtime \<Rightarrow> 're TextEnv \<Rightarrow> 'f array \<Rightarrow> 'f Value option go" where
  "bindToBase32 R T args = argNum (\<lambda>n. n = 1) ''TO_BASE32'' args (unlessNull args (go_bind (bytesAt R args 0)
     (\<lambda>b. TO_BASE32 T b)))"

definition bindToBase64 :: "'f Runtime \<Rightarrow> 'f array \<Rightarrow> 'f Value option go" where
  "bindToBase64 R args = argNum (\<lambda>n. n = 1) ''TO_BASE64'' args (unlessNull args (go_bind (bytesAt R args 0)
     (\<lambda>b. TO_BASE64 b)))"

definition bindToHex :: "'f Runtime \<Rightarrow> 'f array \<Rightarrow> 'f Value option go" where
  "bindToHex R args = argNum (\<lambda>n. n = 1) ''TO_HEX'' args (unlessNull args (go_bind (bytesAt R args 0)
     (\<lambda>b. TO_HEX b)))"

definition bindInstr :: "'f Runtime \<Rightarrow> 'f array \<Rightarrow> 'f Value option go" where
  "bindInstr R args = argNum (\<lambda>n. n = 2 \<or> n = 3 \<or> n = 4) ''INSTR'' args (unlessNull args (go_bind
     (if 3 \<le> length args then intAt R args 2 else ok 0) (\<lambda>position. go_bind (if length args = 4
     then intAt R args 3 else ok 1) (\<lambda>occurrence. withArg 0 args (\<lambda>a. withArg 1 args (\<lambda>b.
     INSTR R a b position occurrence))))))"

definition bindLeft :: "'f Runtime \<Rightarrow> 'f array \<Rightarrow> 'f Value option go" where
  "bindLeft R args = argNum (\<lambda>n. n = 2) ''LEFT'' args (unlessNull args (go_bind (intAt R args 1)
     (\<lambda>len. withArg 0 args (\<lambda>v. LEFT v len))))"

definition bindRight :: "'f Runtime \<Rightarrow> 'f array \<Rightarrow> 'f Value option go" where
  "bindRight R args = unlessNull args (go_bind (intAt R args 1) (\<lambda>len. withArg 0 args (\<lambda>v.
     RIGHT v len)))"

definition bindLength :: "'f array \<Rightarrow> 'f Value option go" where
  "bindLength args = argNum (\<lambda>n. n = 1) ''LENGTH'' args (unlessFirst args (withArg 0 args (\<lambda>v.
     LENGTH_text v)))"

definition bindLpad :: "'f Runtime \<Rightarrow> 'f array \<Rightarrow> 'f Value option go" where
  "bindLpad R args = argNum (\<lambda>n. n = 2 \<or> n = 3) ''LPAD'' args (unlessNull args (go_bind (intAt R args 1)
     (\<lambda>len. withArg 0 args (\<lambda>v. LPAD R v len (optArg 2 args)))))"

definition bindRpad :: "'f Runtime \<Rightarrow> 'f array \<Rightarrow> 'f Value option go" where
  "bindRpad R args = unlessNull args (go_bind (intAt R args 1) (\<lambda>len. withArg 0 args (\<lambda>v.
     RPAD R v len (optArg 2 args))))"

definition bindLower :: "'re TextEnv \<Rightarrow> 'f array \<Rightarrow> 'f Value option go" where
  "bindLower T args = argNum (\<lambda>n. n = 1) ''LOWER'' args (unlessNull args (withArg 0 args (\<lambda>v.
     LOWER T v)))"

definition bindUpper :: "'re TextEnv \<Rightarrow> 'f array \<Rightarrow> 'f Value option go" where
  "bindUpper T args = argNum (\<lambda>n. n = 1) ''UPPER'' args (unlessFirst args (withArg 0 args (\<lambda>v.
     UPPER T v)))"

definition bindLtrim :: "'f Runtime \<Rightarrow> 'f array \<Rightarrow> 'f Value option go" where
  "bindLtrim R args = argNum (\<lambda>n. n = 1 \<or> n = 2) ''LTRIM'' args (unlessNull args (withArg 0 args
     (\<lambda>v. LTRIM R v (optArg 1 args))))"

definition bindRtrim :: "'f Runtime \<Rightarrow> 'f array \<Rightarrow> 'f Value option go" where
  "bindRtrim R args = argNum (\<lambda>n. n = 1 \<or> n = 2) ''RTRIM'' args (unlessNull args (withArg 0 args
     (\<lambda>v. RTRIM R v (optArg 1 args))))"

definition bindTrim :: "'f Runtime \<Rightarrow> 'f array \<Rightarrow> 'f Value option go" where
  "bindTrim R args = argNum (\<lambda>n. n = 1 \<or> n = 2) ''TRIM'' args (unlessNull args (withArg 0 args
     (\<lambda>v. TRIM R v (optArg 1 args))))"

definition bindNormalize ::
  "'f Runtime \<Rightarrow> 're TextEnv \<Rightarrow> 'f array \<Rightarrow> 'f Value option go" where
  "bindNormalize R T args = argNum (\<lambda>n. n = 1 \<or> n = 2) ''NORMALIZE'' args (unlessNull args (go_bind
     (if length args = 2 then textAt R args 1 else ok ''NFC'') (\<lambda>mode. go_bind (textAt R args 0) (\<lambda>v.
     NORMALIZE T v mode))))"

definition bindNormalizeAndCasefold ::
  "'f Runtime \<Rightarrow> 're TextEnv \<Rightarrow> 'f array \<Rightarrow> 'f Value option go" where
  "bindNormalizeAndCasefold R T args = argNum (\<lambda>n. n = 1 \<or> n = 2) ''NORMALIZE_AND_CASEFOLD'' args
     (unlessNull args (go_bind (if length args = 2 then textAt R args 1 else ok ''NFC'') (\<lambda>mode. go_bind
     (textAt R args 0) (\<lambda>v. NORMALIZE_AND_CASEFOLD T v mode))))"

definition bindRegexpContains ::
  "'f Runtime \<Rightarrow> 're TextEnv \<Rightarrow> 'f array \<Rightarrow> 'f Value option go" where
  "bindRegexpContains R T args = unlessNull args (go_bind (textAt R args 0) (\<lambda>v. go_bind (textAt R args 1)
     (\<lambda>regexp. REGEXP_CONTAINS T v regexp)))"

definition bindRegexpExtract ::
  "'f Runtime \<Rightarrow> 're TextEnv \<Rightarrow> 'f array \<Rightarrow> 'f Value option go" where
  "bindRegexpExtract R T args = unlessNull args (go_bind (textAt R args 1) (\<lambda>regexp. go_bind
     (if 2 < length args then intAt R args 2 else ok 1) (\<lambda>pos. go_bind (if 3 < length args
     then intAt R args 3 else ok 1) (\<lambda>occurrence. withArg 0 args (\<lambda>v.
     REGEXP_EXTRACT T v regexp pos occurrence)))))"

definition bindRegexpExtractAll ::
  "'f Runtime \<Rightarrow> 're TextEnv \<Rightarrow> 'f array \<Rightarrow> 'f Value option go" where
  "bindRegexpExtractAll R T args = unlessNull args (go_bind (textAt R args 1) (\<lambda>regexp. withArg 0 args
     (\<lambda>v. REGEXP_EXTRACT_ALL T v regexp)))"

definition bindRegexpInstr ::
  "'f Runtime \<Rightarrow> 're TextEnv \<Rightarrow> 'f array \<Rightarrow> 'f Value option go" where
  "bindRegexpInstr R T args = unlessNull args (go_bind (if 2 < length args then intAt R args 2 else ok 1)
     (\<lambda>pos. go_bind (if 3 < length args then intAt R args 3 else ok 1) (\<lambda>occurrence. go_bind
     (if 4 < length args then intAt R args 4 else ok 0) (\<lambda>occurrencePos. withArg 0 args (\<lambda>v.
     withArg 1 args (\<lambda>expr. REGEXP_INSTR R T v expr pos occurrence occurrencePos))))))"

definition bindRegexpReplace ::
  "'f Runtime \<Rightarrow> 're TextEnv \<Rightarrow> 'f array \<Rightarrow> 'f Value option go" where
  "bindRegexpReplace R T args = unlessNull args (withArg 0 args (\<lambda>v. withArg 1 args (\<lambda>expr.
     withArg 2 args (\<lambda>repl. REGEXP_REPLACE R T v expr repl))))"

definition bindReplace :: "'f Runtime \<Rightarrow> 'f array \<Rightarrow> 'f Value option go" where
  "bindReplace R args = unlessNull args (withArg 0 args (\<lambda>v. withArg 1 args (\<lambda>old. withArg 2 args
     (\<lambda>new. REPLACE R v old new))))"

definition bindRepeat :: "'f Runtime \<Rightarrow> 'f array \<Rightarrow> 'f Value option go" where
  "bindRepeat R args = unlessNull args (go_bind (intAt R args 1) (\<lambda>repetitions. withArg 0 args (\<lambda>v.
     REPEAT v repetitions)))"

definition bindReverse :: "'f array \<Rightarrow> 'f Value option go" where
  "bindReverse args = unlessNull args (withArg 0 args (\<lambda>v. REVERSE v))"

definition bindSafeConvertBytesToString :: "'f Runtime \<Rightarrow> 'f array \<Rightarrow> 'f Value option go" where
  "bindSafeConvertBytesToString R args = unlessNull args (go_bind (bytesAt R args 0) (\<lambda>v.
     SAFE_CONVERT_BYTES_TO_STRING v))"

definition bindSoundex :: "'f Runtime \<Rightarrow> 'f array \<Rightarrow> 'f Value option go" where
  "bindSoundex R args = unlessNull args (go_bind (textAt R args 0) (\<lambda>v. SOUNDEX v))"

definition bindSplit :: "'f Runtime \<Rightarrow> 'f array \<Rightarrow> 'f Value option go" where
  "bindSplit R args = (if existsNull args then ok (Some (ArrayValue [])) else withArg 0 args (\<lambda>v. SPLIT R v
     (optArg 1 args)))"

definition bindSubstr :: "'f Runtime \<Rightarrow> 'f array \<Rightarrow> 'f Value option go" where
  "bindSubstr R args = argNum (\<lambda>n. n = 2 \<or> n = 3) ''SUBSTR'' args (unlessNull args (go_bind
     (intAt R args 1) (\<lambda>pos. go_bind (if length args = 3 then go_bind (intAt R args 2) (\<lambda>v. ok
     (Some v)) else ok None) (\<lambda>len. withArg 0 args (\<lambda>v. SUBSTR v pos len)))))"

definition bindTranslate :: "'f array \<Rightarrow> 'f Value option go" where
  "bindTranslate args = argNum (\<lambda>n. n = 3) ''TRANSLATE'' args (unlessNull args (withArg 0 args (\<lambda>a.
     withArg 1 args (\<lambda>b. withArg 2 args (\<lambda>c. TRANSLATE a b c)))))"

definition bindUnicode :: "'f Runtime \<Rightarrow> 'f array \<Rightarrow> 'f Value option go" where
  "bindUnicode R args = argNum (\<lambda>n. n = 1) ''UNICODE'' args (unlessFirst args (go_bind (textAt R args 0)
     (\<lambda>v. UNICODE v)))"

definition bindInitcap ::
  "'f Runtime \<Rightarrow> 're TextEnv \<Rightarrow> 'f array \<Rightarrow> 'f Value option go" where
  "bindInitcap R T args = argNum (\<lambda>n. n = 1 \<or> n = 2) ''INITCAP'' args (unlessNull args (go_bind
     (if length args = 2 then go_bind (textAt R args 1) (\<lambda>v. ok (Some (runesOf v))) else ok None)
     (\<lambda>delimiters. go_bind (textAt R args 0) (\<lambda>v. INITCAP T v delimiters))))"

definition bindConcat :: "'f Runtime \<Rightarrow> 'f array \<Rightarrow> 'f Value option go" where
  "bindConcat R args = argNum (\<lambda>n. 1 \<le> n) ''CONCAT'' args (unlessNull args (CONCAT R args))"

definition bindCollate :: "'f Runtime \<Rightarrow> 'f array \<Rightarrow> 'f Value option go" where
  "bindCollate R args = argNum (\<lambda>n. n = 2) ''COLLATE'' args (unlessFirst args
     (if optArg 1 args = None then fail_with ''COLLATE: collation_specification must be string literal''
      else go_bind (wrapGo ''COLLATE: value must be string'' (textAt R args 0)) (\<lambda>v.
        go_bind (wrapGo ''COLLATE: collation_specification must be string literal'' (textAt R args 1)) (\<lambda>spec.
        COLLATE v spec))))"

definition bindToCodePoints :: "'f array \<Rightarrow> 'f Value option go" where
  "bindToCodePoints args = argNum (\<lambda>n. n = 1) ''TO_CODE_POINTS'' args
     (withArg 0 args (\<lambda>v. case v of None \<Rightarrow> ok (Some (ArrayValue [])) | Some _ \<Rightarrow> TO_CODE_POINTS v))"

text \<open>
  A struct is searched field by field; the result of a field that is a struct with a NULL and no match is
  nil, and comparing it panics.
\<close>

function substrIn :: "'f Runtime \<Rightarrow> 're TextEnv \<Rightarrow> 'f Value \<Rightarrow> 'f Value \<Rightarrow> 'f Value option go"
  and substrFields :: "'f Runtime \<Rightarrow> 're TextEnv \<Rightarrow> 'f Value \<Rightarrow> bool \<Rightarrow> 'f array \<Rightarrow> 'f Value option go" where
  "substrIn R T search v = (case v of
     StructValue _ vals _ \<Rightarrow> substrFields R T search False vals
   | _ \<Rightarrow> go_bind (Value_ToString R v) (\<lambda>t. go_bind (Value_ToString R search) (\<lambda>s. CONTAINS_SUBSTR R T t s)))"
| "substrFields R T search nullExists [] = (if nullExists then ok None else okBool False)"
| "substrFields R T search nullExists (None # vals) = substrFields R T search True vals"
| "substrFields R T search nullExists (Some v # vals) =
     go_bind (substrIn R T search v) (\<lambda>result.
     go_bind (onNil result (\<lambda>r. Value_compare R EQ r (Some (BoolValue True)))) (\<lambda>contained.
     if contained then okBool True else substrFields R T search nullExists vals))"
  by pat_completeness auto
termination
  by (relation "measure (\<lambda>x. case x of Inl (R, T, search, v) \<Rightarrow> size v
      | Inr (R, T, search, b, vals) \<Rightarrow> size_list (size_option size) vals)") auto

definition bindContainsSubstr :: "'f Runtime \<Rightarrow> 're TextEnv \<Rightarrow> 'f array \<Rightarrow> 'f Value option go" where
  "bindContainsSubstr R T args = withArg 1 args (\<lambda>search. case search of
     None \<Rightarrow> fail_with ''CONTAINS_SUBSTR: search literal must be not null''
   | Some s \<Rightarrow> unlessNull args (withArg 0 args (\<lambda>v. onNil v (substrIn R T s))))"

end
