(* ===== verification/Bind_Props.thy ===== *)
theory Bind_Props
  imports String_Bind
begin

text \<open>
  The conditions of SQL as its three-valued logic has them, compared with the functions SQLite calls, and
  the positions \<open>INSTR\<close> returns.
\<close>

section \<open>Three-valued logic\<close>

fun kand :: "bool option \<Rightarrow> bool option \<Rightarrow> bool option" where
  "kand (Some False) y = Some False"
| "kand x (Some False) = Some False"
| "kand (Some True) (Some True) = Some True"
| "kand x y = None"

fun kor :: "bool option \<Rightarrow> bool option \<Rightarrow> bool option" where
  "kor (Some True) y = Some True"
| "kor x (Some True) = Some True"
| "kor (Some False) (Some False) = Some False"
| "kor x y = None"

lemma kand_Some [simp]: "kand (Some p) (Some q) = Some (p \<and> q)"
  by (cases p; cases q) simp_all

definition truth :: "bool option \<Rightarrow> 'f Value option" where
  "truth b = map_option BoolValue b"

lemma truth_simps [simp]: "truth None = None" "truth (Some b) = Some (BoolValue b)"
  by (simp_all add: truth_def)

lemma truth_inject [simp]: "truth x = truth y \<longleftrightarrow> x = y"
  by (cases x; cases y) simp_all

lemma decided_truth: "decided R b (map truth bs) = ok (Some b \<in> set bs)"
proof (induction bs)
  case (Cons x bs)
  then show ?case by (cases x) (auto simp: BoolValue_ToBool_def)
qed simp

lemma existsNull_truth: "existsNull (map truth bs) \<longleftrightarrow> None \<in> set bs"
proof (induction bs)
  case (Cons x bs)
  then show ?case by (cases x) simp_all
qed simp

lemma foldr_kand: "foldr kand bs (Some True) =
    (if Some False \<in> set bs then Some False else if None \<in> set bs then None else Some True)"
proof (induction bs)
  case (Cons x bs)
  then show ?case by (cases x rule: option.exhaust; cases "the x") auto
qed simp

lemma foldr_kor: "foldr kor bs (Some False) =
    (if Some True \<in> set bs then Some True else if None \<in> set bs then None else Some False)"
proof (induction bs)
  case (Cons x bs)
  then show ?case by (cases x rule: option.exhaust; cases "the x") auto
qed simp

text \<open>C7: \<open>AND\<close>, \<open>OR\<close> and \<open>NOT\<close> of truth values and NULLs are those of Kleene's three-valued logic, for any
  number of arguments; none of them fails.\<close>

theorem logic_is_kleene:
  "bindAnd R (map truth bs) = ok (truth (foldr kand bs (Some True)))
    \<and> bindOr R (map truth bs) = ok (truth (foldr kor bs (Some False)))
    \<and> bindNot R [truth b] = ok (truth (map_option Not b))"
proof (intro conjI)
  show "bindAnd R (map truth bs) = ok (truth (foldr kand bs (Some True)))"
    by (simp add: bindAnd_def AND_op_def decided_truth existsNull_truth foldr_kand)
  show "bindOr R (map truth bs) = ok (truth (foldr kor bs (Some False)))"
    by (simp add: bindOr_def OR_op_def decided_truth existsNull_truth foldr_kor)
  show "bindNot R [truth b] = ok (truth (map_option Not b))"
    by (cases b) (simp_all add: bindNot_def bind_simps NOT_op_def BoolValue_ToInt64_def)
qed

section \<open>IN and BETWEEN\<close>

definition intOrNull :: "int option \<Rightarrow> 'f Value option" where
  "intOrNull i = map_option IntValue i"

definition kcompare :: "(int \<Rightarrow> int \<Rightarrow> bool) \<Rightarrow> int option \<Rightarrow> int option \<Rightarrow> bool option" where
  "kcompare f x y = (case (x, y) of (Some i, Some j) \<Rightarrow> Some (f i j) | _ \<Rightarrow> None)"

definition sqlIn :: "int option \<Rightarrow> int option list \<Rightarrow> bool option" where
  "sqlIn x ys = foldr kor (map (kcompare (=) x) ys) (Some False)"

definition sqlBetween :: "int option \<Rightarrow> int option \<Rightarrow> int option \<Rightarrow> bool option" where
  "sqlBetween x a b = kand (kcompare (\<ge>) x a) (kcompare (\<le>) x b)"

lemma existsNull_ints: "existsNull (map intOrNull ys) \<longleftrightarrow> None \<in> set ys"
proof (induction ys)
  case (Cons y ys)
  then show ?case by (cases y) (simp_all add: intOrNull_def)
qed simp

lemma IN_ints: "None \<notin> set ys \<Longrightarrow> IN_op R (Some (IntValue i)) (map intOrNull ys) = okBool (Some i \<in> set ys)"
proof (induction ys)
  case (Cons y ys)
  then show ?case by (cases y) (auto simp: intOrNull_def loop_steps IntValue_EQ_def)
qed simp

lemma bindIn_ints: "bindIn R (map intOrNull (x # ys)) =
    ok (truth (if x = None \<or> None \<in> set ys then None else Some (x \<in> set ys)))"
proof (cases x)
  case (Some i)
  then show ?thesis
    by (simp add: bindIn_def bind_simps existsNull_ints IN_ints) (simp add: intOrNull_def existsNull_ints IN_ints)
qed (simp add: bindIn_def bind_simps intOrNull_def)

lemma sqlIn_eq: "ys \<noteq> [] \<Longrightarrow> sqlIn x ys =
    (case x of None \<Rightarrow> None
     | Some i \<Rightarrow> if Some i \<in> set ys then Some True else if None \<in> set ys then None else Some False)"
  unfolding sqlIn_def foldr_kor
  by (auto simp: kcompare_def image_iff split: option.splits)

text \<open>C8: \<open>IN\<close> of integers is that of SQL's three-valued logic exactly unless the value is in the list and a NULL
  is, too, where it gives NULL instead of true; \<open>BETWEEN\<close> is that of the logic exactly unless one bound is NULL
  and the value is outside the other, where it gives NULL instead of false.\<close>

theorem null_in_conditions:
  assumes "ys \<noteq> []"
  shows "(bindIn R (map intOrNull (x # ys)) = ok (truth (sqlIn x ys))
      \<longleftrightarrow> \<not> (x \<noteq> None \<and> x \<in> set ys \<and> None \<in> set ys))
    \<and> (bindBetween R [intOrNull x, intOrNull a, intOrNull b] = ok (truth (sqlBetween x a b))
      \<longleftrightarrow> \<not> (a = None \<and> kcompare (>) x b = Some True \<or> b = None \<and> kcompare (<) x a = Some True))"
proof (intro conjI)
  show "bindIn R (map intOrNull (x # ys)) = ok (truth (sqlIn x ys))
      \<longleftrightarrow> \<not> (x \<noteq> None \<and> x \<in> set ys \<and> None \<in> set ys)"
    unfolding bindIn_ints sqlIn_eq [OF assms] by (cases x) simp_all
  show "bindBetween R [intOrNull x, intOrNull a, intOrNull b] = ok (truth (sqlBetween x a b))
      \<longleftrightarrow> \<not> (a = None \<and> kcompare (>) x b = Some True \<or> b = None \<and> kcompare (<) x a = Some True)"
    by (cases x; cases a; cases b)
      (auto simp: bindBetween_def bind_simps intOrNull_def BETWEEN_def sqlBetween_def kcompare_def loop_steps
        numeral_2_eq_2 split: bool.splits)
qed

section \<open>Positions\<close>

lemma strIndex_found:
  "0 \<le> strIndex s p \<Longrightarrow> hasPrefix (drop (nat (strIndex s p)) s) p
    \<and> (\<forall>m < nat (strIndex s p). \<not> hasPrefix (drop m s) p)"
proof (induction s)
  case (Cons x s)
  show ?case
  proof (cases "hasPrefix (x # s) p")
    case False
    then have i: "0 \<le> strIndex s p" using Cons.prems by (auto simp: Let_def split: if_splits)
    have "\<not> hasPrefix (drop m (x # s)) p" if "m < Suc (nat (strIndex s p))" for m
      using that False Cons.IH [OF i] by (cases m) simp_all
    then show ?thesis using False i Cons.IH [OF i] by (simp add: nat_add_distrib)
  qed simp
qed (simp split: if_splits)

lemma strIndex_none: "strIndex s p < 0 \<Longrightarrow> \<not> hasPrefix (drop m s) p"
proof (induction s arbitrary: m)
  case Nil
  then show ?case by (cases p) simp_all
next
  case (Cons x s)
  then show ?case by (cases m) (auto simp: Let_def split: if_splits)
qed

lemma strIndex_none_later:
  assumes "strIndex s p < 0"
  shows "strIndex (drop k s) p < 0"
proof (rule ccontr)
  assume "\<not> strIndex (drop k s) p < 0"
  then have "hasPrefix (drop (nat (strIndex (drop k s) p)) (drop k s)) p"
    using strIndex_found [of "drop k s" p] by simp
  then show False using strIndex_none [OF assms, of "nat (strIndex (drop k s) p) + k"] by (simp add: add.commute)
qed

lemma instrLoop_none:
  assumes "strIndex s p < 0" "0 < occurrence"
  shows "instrLoop p occurrence 0 i s = None"
proof (induction "length s - i" arbitrary: i)
  case 0
  then show ?case by (subst instrLoop.simps) simp
next
  case (Suc n)
  then have "instrLoop p occurrence 0 (i + 1) s = None" by simp
  then show ?case using assms strIndex_none_later [OF assms(1), of i] by (subst instrLoop.simps) simp
qed

lemma instrLoop_first:
  "s \<noteq> [] \<Longrightarrow> instrLoop p 1 0 0 s = (if strIndex s p < 0 then None else Some (nat (strIndex s p)))"
  using instrLoop_none [of s p 1 0] by (auto simp: instrLoop.simps)


end
