(* ===== verification/String_Props.thy ===== *)
theory String_Props
  imports Func_Regexp
begin

text \<open>
  What the string functions compute: the pairs that undo each other, substrings, padding and
  character-wise translation.
\<close>

section \<open>Round trips\<close>

lemma runeOfInt_valid: "validRune r \<Longrightarrow> runeOfInt (int r) = r"
  by (auto simp: runeOfInt_def validRune_def isInt32_def)

lemma codePoints_runes:
  assumes "list_all validRune rs"
  shows "codePoints R (map (\<lambda>r. Some (IntValue (int r))) rs) acc = okString (stringOfRunes (acc @ filter (\<lambda>r. r \<noteq> 0) rs))"
  using assms by (induction rs arbitrary: acc) (simp_all add: IntValue_ToInt64_def runeOfInt_valid)

lemma code_points_string:
  "validUtf8 s \<Longrightarrow> CODE_POINTS_TO_STRING R (map (\<lambda>r. Some (IntValue (int r))) (runesOf s))
     = okString (stringOfRunes (filter (\<lambda>r. r \<noteq> 0) (runesOf s)))"
  by (simp add: CODE_POINTS_TO_STRING_def codePoints_runes validUtf8_def)

lemma code_points_bytes:
  "CODE_POINTS_TO_BYTES R (map (\<lambda>c. Some (IntValue (int (byteAt c)))) b) = okBytes b"
proof -
  have "nat (int (byteAt c) mod 256) = byteAt c" for c using byteAt_less [of c] by simp
  then have "goList (map ((\<lambda>vv. go_bind (onNil vv (Value_ToInt64 R)) (\<lambda>i64. ok (byteOf (nat (i64 mod 256)))))
      \<circ> (\<lambda>c. Some (IntValue (int (byteAt c))))) b) = ok b"
    by (simp add: goList_ok IntValue_ToInt64_def)
  then show ?thesis by (simp add: CODE_POINTS_TO_BYTES_def)
qed

lemma hexValue_hexChar: "n < 16 \<Longrightarrow> hexValue (hexChar n) = Some n"
proof -
  assume "n < 16"
  then have "n \<in> set [0..<16]" by simp
  moreover have "list_all (\<lambda>n. hexValue (hexChar n) = Some n) [0..<16]" by code_simp
  ultimately show ?thesis by (simp only: list_all_iff)
qed

lemma hexDecode_encode: "hexDecode (hexEncode b) = ok b"
proof (induction b)
  case (Cons c b)
  have "byteAt c div 16 < 16" using byteAt_less [of c] by (intro less_mult_imp_div_less) simp
  then show ?case using Cons by (simp add: hexEncode_def hexValue_hexChar)
qed (simp add: hexEncode_def)

lemma hexEncode_even: "even (length (hexEncode b))"
  by (induction b) (simp_all add: hexEncode_def)

lemma hex_bytes: "FROM_HEX (hexEncode b) = okBytes b"
proof -
  have "length (hexEncode b) mod 2 = 0" using hexEncode_even by (simp add: even_iff_mod_2_eq_zero)
  then show ?thesis by (simp add: FROM_HEX_def hexDecode_encode)
qed

lemma reverse_string: "validUtf8 s \<Longrightarrow> go_bind (REVERSE (Some (StringValue s))) REVERSE = okString s"
  by (simp add: REVERSE_def validUtf8_def runesOf_string)

text \<open>Applying a function to the result of another.\<close>

definition thenArray :: "('f array \<Rightarrow> 'b go) \<Rightarrow> 'f Value option \<Rightarrow> 'b go" where
  "thenArray f v = (case v of Some (ArrayValue a) \<Rightarrow> f a | _ \<Rightarrow> nilPanic)"

definition thenString :: "(string \<Rightarrow> 'b go) \<Rightarrow> 'f Value option \<Rightarrow> 'b go" where
  "thenString f v = (case v of Some (StringValue s) \<Rightarrow> f s | _ \<Rightarrow> nilPanic)"

text \<open>C28: The conversions of texts undo each other. From valid UTF-8 to code points and back only the NUL
  characters are lost, which \<open>CODE_POINTS_TO_STRING\<close> skips; from bytes to code points and back, and from
  bytes to hexadecimal digits and back, nothing is lost; and reversing a string twice gives the string.\<close>

theorem text_roundtrips:
  fixes R :: "'f Runtime"
  assumes "validUtf8 s"
  shows "go_bind (TO_CODE_POINTS (Some (StringValue s))) (thenArray (CODE_POINTS_TO_STRING R))
      = okString (stringOfRunes (filter (\<lambda>r. r \<noteq> 0) (runesOf s)))
    \<and> go_bind (TO_CODE_POINTS (Some (BytesValue b))) (thenArray (CODE_POINTS_TO_BYTES R)) = okBytes b
    \<and> go_bind (TO_HEX b :: 'f Value option go) (thenString FROM_HEX) = (okBytes b :: 'f Value option go)
    \<and> go_bind (REVERSE (Some (StringValue s))) REVERSE = (okString s :: 'f Value option go)
    \<and> go_bind (REVERSE (Some (BytesValue b))) REVERSE = (okBytes b :: 'f Value option go)"
  using assms
  by (simp add: TO_CODE_POINTS_def thenArray_def thenString_def code_points_string code_points_bytes TO_HEX_def hex_bytes
      reverse_string)
    (simp add: REVERSE_def)

section \<open>Substrings\<close>

text \<open>The elements at the positions a substring of SQL asks for: from 1, or from the end if negative.\<close>

definition sqlSubstr :: "'a list \<Rightarrow> int \<Rightarrow> int option \<Rightarrow> 'a list" where
  "sqlSubstr xs pos len =
     (let n = int (length xs); start = max 0 (if pos < 0 then n + pos else pos - 1)
      in map snd (filter (\<lambda>(i, x). start \<le> int i \<and> (case len of None \<Rightarrow> True | Some l \<Rightarrow> int i < start + l))
           (zip [0..<length xs] xs)))"

lemma drop_take_positions:
  "drop i (take j xs) = map snd (filter (\<lambda>(k, x). i \<le> k \<and> k < j) (zip [0..<length xs] xs))"
proof (induction xs arbitrary: i j rule: rev_induct)
  case (snoc x xs)
  show ?case using snoc [of i j] by (cases "i \<le> length xs"; cases "length xs < j") auto
qed simp

lemma substr_positions:
  assumes "\<And>l. len = Some l \<Longrightarrow> 0 \<le> l"
  shows "substrText v (int (length v)) pos len = ok (sqlSubstr v pos len)"
proof -
  define n where "n = int (length v)"
  define start where "start = substrPos pos n"
  define l where "l = (case len of None \<Rightarrow> n | Some l \<Rightarrow> min l n)"
  have n: "0 \<le> n" by (simp add: n_def)
  have start: "0 \<le> start" "start \<le> n" using n by (auto simp: start_def substrPos_def)
  have l: "substrLen len n = ok l" "0 \<le> l"
    using assms n by (auto simp: substrLen_def l_def split: option.splits)
  have "substrText v n pos len = ok (drop (nat start) (take (nat (min (start + l) n)) v))"
    using start l by (simp add: substrText_def goSlice_def flip: start_def n_def)
  also have "drop (nat start) (take (nat (min (start + l) n)) v) = sqlSubstr v pos len"
    unfolding drop_take_positions sqlSubstr_def Let_def
  proof (rule arg_cong [where f = "map snd"], rule filter_cong [OF refl], clarify)
    fix k x
    assume "(k, x) \<in> set (zip [0..<length v] v)"
    then have k: "int k < n" using set_zip_leftD by (fastforce simp: n_def)
    have "start \<le> int k \<longleftrightarrow> max 0 (if pos < 0 then n + pos else pos - 1) \<le> int k"
      using k by (auto simp: start_def substrPos_def)
    moreover have "int k < start + l \<longleftrightarrow> (case len of None \<Rightarrow> True | Some l \<Rightarrow> int k < start + l)" if "start \<le> int k"
      using k start(1) by (auto simp: l_def split: option.splits)
    moreover have "start = max 0 (if pos < 0 then n + pos else pos - 1)" if "start \<le> int k"
      using k that by (auto simp: start_def substrPos_def)
    ultimately show "nat start \<le> k \<and> k < nat (min (start + l) n) \<longleftrightarrow>
        max 0 (if pos < 0 then int (length v) + pos else pos - 1) \<le> int k \<and>
        (case len of None \<Rightarrow> True | Some l \<Rightarrow> int k < max 0 (if pos < 0 then int (length v) + pos else pos - 1) + l)"
      using k start(1) by (auto simp flip: n_def split: option.splits)
  qed
  finally show ?thesis by (simp add: n_def)
qed

lemma sqlSubstr_map: "sqlSubstr (map f xs) pos len = map f (sqlSubstr xs pos len)"
proof -
  have "zip [0..<length xs] (map f xs) = map (\<lambda>(i, x). (i, f x)) (zip [0..<length xs] xs)"
    by (simp add: zip_map2)
  then show ?thesis by (cases len) (simp_all add: sqlSubstr_def Let_def filter_map comp_def case_prod_unfold)
qed

lemma sqlSubstr_subset: "set (sqlSubstr xs pos len) \<subseteq> set xs"
  by (auto simp: sqlSubstr_def Let_def dest: set_zip_rightD)

lemma sqlSubstr_ascii:
  assumes "list_all asciiChar s"
  shows "stringOfRunes (sqlSubstr (runesOf s) pos len) = sqlSubstr s pos len"
proof -
  have ascii: "list_all (\<lambda>c. byteAt c < 0x80) s" using assms by (simp add: asciiChar_def list_all_iff)
  have "list_all (\<lambda>r. r < 0x80) (sqlSubstr (runesOf s) pos len)"
    using ascii sqlSubstr_subset [of "runesOf s"] by (fastforce simp: runesOf_ascii list_all_iff)
  then show ?thesis using ascii
    by (simp add: stringOfRunes_ascii runesOf_ascii sqlSubstr_map comp_def)
qed

lemma lone_byte: "0x80 \<le> byteAt c \<Longrightarrow> runesOf [c] = [runeError]"
  by (simp add: runesOf_def runeChunks.simps decodeRune_def)

lemma lone_byte_invalid: "0x80 \<le> byteAt c \<Longrightarrow> \<not> validUtf8 [c]"
  by (simp add: validUtf8_def lone_byte stringOfRunes_def encodeRune_def runeError_def validRune_def)

lemma leading_byte: "validRune r \<Longrightarrow> 0x80 \<le> r \<Longrightarrow> 0x80 \<le> byteAt (hd (encodeRune r))"
  by (auto simp: encodeRune_def validRune_def Let_def)

lemma substr_rune:
  assumes "validRune r"
  shows "SUBSTR (Some (StringValue (encodeRune r))) 1 (Some 1) = okString [hd (encodeRune r)]"
proof -
  have "runesOf (encodeRune r) = [r]" using runesOf_string [of "[r]"] assms by (simp add: stringOfRunes_def)
  then show ?thesis using encodeRune_nonempty [of r]
    by (cases "encodeRune r") (simp_all add: SUBSTR_def substrText_def substrPos_def substrLen_def goSlice_def)
qed

text \<open>C29: \<open>SUBSTR\<close> of bytes, and of a string of ASCII characters, gives the elements at the positions asked for,
  whatever the position and for every length that is not negative. Positions of a string are counted in
  characters but cut out of the bytes: the first character of a text outside ASCII is returned as the first
  byte of its encoding, which is not valid UTF-8.\<close>

theorem substr_by_bytes:
  assumes "\<And>l. len = Some l \<Longrightarrow> 0 \<le> l" and "list_all asciiChar s" and "validRune r" "0x80 \<le> r"
  shows "SUBSTR (Some (BytesValue b)) pos len = (okBytes (sqlSubstr b pos len) :: 'f Value option go)
    \<and> SUBSTR (Some (StringValue s)) pos len = (okString (stringOfRunes (sqlSubstr (runesOf s) pos len)) :: 'f Value option go)
    \<and> SUBSTR (Some (StringValue (encodeRune r))) 1 (Some 1) = (okString [hd (encodeRune r)] :: 'f Value option go)
    \<and> \<not> validUtf8 [hd (encodeRune r)]"
proof (intro conjI)
  show "SUBSTR (Some (BytesValue b)) pos len = okBytes (sqlSubstr b pos len)"
    using assms(1) by (simp add: SUBSTR_def substr_positions)
  have "length (runesOf s) = length s" using assms(2) by (simp add: runesOf_ascii asciiChar_def list_all_iff)
  then show "SUBSTR (Some (StringValue s)) pos len = okString (stringOfRunes (sqlSubstr (runesOf s) pos len))"
    using assms(1,2) by (simp add: SUBSTR_def substr_positions sqlSubstr_ascii)
qed (simp_all add: assms(3,4) substr_rune lone_byte_invalid leading_byte)

section \<open>Padding\<close>

text \<open>The first elements of a list repeated for ever.\<close>

definition cyclic :: "'a list \<Rightarrow> nat \<Rightarrow> 'a list" where
  "cyclic xs n = map (\<lambda>i. xs ! (i mod length xs)) [0..<n]"

lemma nth_repeated:
  "i < k * length xs \<Longrightarrow> concat (replicate k xs) ! i = xs ! (i mod length xs)"
proof (induction k arbitrary: i)
  case (Suc k)
  then show ?case by (cases "i < length xs") (simp_all add: nth_append le_mod_geq)
qed simp

lemma length_repeated: "length (concat (replicate k xs)) = k * length xs"
  by (simp add: length_concat sum_list_replicate)

lemma take_repeated: "n \<le> k * length xs \<Longrightarrow> take n (concat (replicate k xs)) = cyclic xs n"
  by (rule nth_equalityI) (simp_all add: cyclic_def nth_repeated length_repeated)

lemma repeat_enough:
  fixes m n :: int
  assumes "0 < n" "n < m"
  shows "m \<le> ((m - n) div n + 2) * n" "0 \<le> (m - n) div n + 2" "(m - n) div n + 2 \<le> m + 2"
proof -
  have "(m - n) div n * n + (m - n) mod n = m - n" by (rule div_mult_mod_eq)
  moreover have "0 \<le> (m - n) mod n" "(m - n) mod n < n" using assms by simp_all
  ultimately show "m \<le> ((m - n) div n + 2) * n" by (simp add: distrib_right)
  have d: "0 \<le> (m - n) div n" using assms pos_imp_zdiv_nonneg_iff [of n "m - n"] by simp
  then show "0 \<le> (m - n) div n + 2" by simp
  have "(m - n) div n * 1 \<le> (m - n) div n * n" using d assms(1) by (intro mult_left_mono) simp_all
  then show "(m - n) div n + 2 \<le> m + 2"
    using \<open>(m - n) div n * n + (m - n) mod n = m - n\<close> \<open>0 \<le> (m - n) mod n\<close> assms by linarith
qed

text \<open>The number of repetitions gives enough elements and does not overflow.\<close>

lemma repeat_pattern:
  assumes "xs \<noteq> []" "int (length xs) < m" "int w * (m + 2) \<le> maxInt64"
  defines "k \<equiv> (m - int (length xs)) div int (length xs) + 2"
  shows "0 \<le> k" "int w * k \<le> maxInt64" "nat m \<le> nat k * length xs"
proof -
  have n: "0 < int (length xs)" using assms(1) by simp
  show k: "0 \<le> k" unfolding k_def by (rule repeat_enough(2) [OF n assms(2)])
  have "k \<le> m + 2" unfolding k_def by (rule repeat_enough(3) [OF n assms(2)])
  then have "int w * k \<le> int w * (m + 2)" by (intro mult_left_mono) simp_all
  then show "int w * k \<le> maxInt64" using assms(3) by linarith
  have "m \<le> k * int (length xs)" unfolding k_def by (rule repeat_enough(1) [OF n assms(2)])
  then show "nat m \<le> nat k * length xs" using k by (simp add: nat_le_iff)
qed

lemma slice_repeated:
  "0 \<le> m \<Longrightarrow> nat m \<le> k * length xs \<Longrightarrow> goSlice (concat (replicate k xs)) 0 m = ok (cyclic xs (nat m))"
  by (simp add: goSlice_def take_repeated length_repeated nat_le_iff)

lemma padBytes_slice:
  assumes "p \<noteq> []" "0 < m" "int (length p) * (m + 2) \<le> maxInt64"
  shows "go_bind (padBytes R m (Some (BytesValue p))) (\<lambda>pat. goSlice pat 0 m) =
    (if m \<le> int (length p) then panic ''slice bounds out of range'' else ok (cyclic p (nat m)))"
proof (cases "m \<le> int (length p)")
  case True
  then show ?thesis using assms by (simp add: padBytes_def goSlice_def BytesValue_ToBytes_def)
next
  case False
  then have "int (length p) < m" by simp
  note k = repeat_pattern [OF assms(1) this assms(3)]
  have "padBytes R m (Some (BytesValue p))
      = ok (concat (replicate (nat ((m - int (length p)) div int (length p) + 2)) p))"
    using False assms(1) k(1,2) by (simp add: padBytes_def BytesValue_ToBytes_def goRepeat_def Let_def)
  then show ?thesis using False assms(2) k(3) by (simp add: slice_repeated)
qed

lemma stringOfRunes_repeated: "concat (replicate k (stringOfRunes rs)) = stringOfRunes (concat (replicate k rs))"
  by (induction k) (simp_all add: stringOfRunes_def)

lemma runes_repeated: "validUtf8 q \<Longrightarrow> runesOf (concat (replicate k q)) = concat (replicate k (runesOf q))"
proof -
  assume q: "validUtf8 q"
  then have "concat (replicate k q) = stringOfRunes (concat (replicate k (runesOf q)))"
    by (simp add: validUtf8_def flip: stringOfRunes_repeated)
  moreover have "list_all validRune (concat (replicate k (runesOf q)))"
    using q by (auto simp: validUtf8_def list_all_iff)
  ultimately show ?thesis by (simp add: runesOf_string)
qed

lemma padRunes_slice:
  assumes "validUtf8 q" "runesOf q \<noteq> []" "0 < m" "int (length q) * (m + 2) \<le> maxInt64"
  shows "go_bind (padRunes R m (Some (StringValue q))) (\<lambda>pat. goSlice pat 0 m) = ok (cyclic (runesOf q) (nat m))"
proof (cases "m \<le> int (length (runesOf q))")
  case True
  then have "take (nat m) (runesOf q) = cyclic (runesOf q) (nat m)"
    using take_repeated [of "nat m" 1 "runesOf q"] by (simp add: nat_le_iff)
  then show ?thesis using True assms by (simp add: padRunes_def goSlice_def StringValue_ToString_def)
next
  case False
  then have "int (length (runesOf q)) < m" by simp
  note k = repeat_pattern [OF assms(2) this assms(4)]
  have "stringOfRunes (runesOf q) = q" using assms(1) by (simp add: validUtf8_def)
  then have "padRunes R m (Some (StringValue q))
      = ok (concat (replicate (nat ((m - int (length (runesOf q))) div int (length (runesOf q)) + 2)) (runesOf q)))"
    using False assms(1,2) k(1,2)
    by (simp add: padRunes_def StringValue_ToString_def goRepeat_def runes_repeated Let_def)
  then show ?thesis using assms(3) k(3) by (simp add: slice_repeated)
qed

lemma padded_bytes:
  assumes "p \<noteq> []" "int (length b) < len" "int (length p) * (len + 2) \<le> maxInt64"
  shows "padded R join msg len (Some (BytesValue p)) (Some (BytesValue b)) =
    (if len - int (length b) \<le> int (length p) then panic ''slice bounds out of range''
     else okBytes (join b (cyclic p (nat len - length b))))"
proof -
  have "int (length p) * (len - int (length b) + 2) \<le> int (length p) * (len + 2)" by (intro mult_left_mono) simp_all
  then have bound: "int (length p) * (len - int (length b) + 2) \<le> maxInt64" using assms(3) by linarith
  have "nat (len - int (length b)) = nat len - length b" using assms(2) by (simp add: nat_diff_distrib')
  then show ?thesis
    using padBytes_slice [OF assms(1) _ bound, of R] assms(2)
    by (cases "padBytes R (len - int (length b)) (Some (BytesValue p))") (auto simp: padded_def Let_def split: if_splits)
qed

lemma padded_string:
  assumes "validUtf8 q" "runesOf q \<noteq> []" "int (length (runesOf s)) < len" "int (length q) * (len + 2) \<le> maxInt64"
  shows "padded R join msg len (Some (StringValue q)) (Some (StringValue s)) =
    okString (join s (stringOfRunes (cyclic (runesOf q) (nat len - length (runesOf s)))))"
proof -
  have "int (length q) * (len - int (length (runesOf s)) + 2) \<le> int (length q) * (len + 2)" by (intro mult_left_mono) simp_all
  then have bound: "int (length q) * (len - int (length (runesOf s)) + 2) \<le> maxInt64" using assms(4) by linarith
  have "nat (len - int (length (runesOf s))) = nat len - length (runesOf s)" using assms(3) by (simp add: nat_diff_distrib')
  then show ?thesis
    using padRunes_slice [OF assms(1,2) _ bound, of R] assms(3)
    by (cases "padRunes R (len - int (length (runesOf s))) (Some (StringValue q))") (auto simp: padded_def Let_def)
qed

text \<open>C30: \<open>LPAD\<close> and \<open>RPAD\<close> of a text that is shorter than asked for, with a pattern that is not empty, as far as
  the repeated pattern fits in an integer. A string gets the runes of the pattern, over and over, at the
  asked side. Bytes do so only when the pattern is shorter than what is missing; otherwise the call panics.\<close>

theorem pad_texts:
  assumes "p \<noteq> []" "int (length b) < len" "int (length p) * (len + 2) \<le> maxInt64"
    and "validUtf8 q" "runesOf q \<noteq> []" "int (length (runesOf s)) < len" "int (length q) * (len + 2) \<le> maxInt64"
  shows "LPAD R (Some (BytesValue b)) len (Some (BytesValue p)) =
      (if len - int (length b) \<le> int (length p) then panic ''slice bounds out of range''
       else okBytes (cyclic p (nat len - length b) @ b))
    \<and> RPAD R (Some (BytesValue b)) len (Some (BytesValue p)) =
      (if len - int (length b) \<le> int (length p) then panic ''slice bounds out of range''
       else okBytes (b @ cyclic p (nat len - length b)))
    \<and> LPAD R (Some (StringValue s)) len (Some (StringValue q)) =
      okString (stringOfRunes (cyclic (runesOf q) (nat len - length (runesOf s))) @ s)
    \<and> RPAD R (Some (StringValue s)) len (Some (StringValue q)) =
      okString (s @ stringOfRunes (cyclic (runesOf q) (nat len - length (runesOf s))))"
proof -
  have "\<not> len < 0" using assms(2) by linarith
  then show ?thesis unfolding LPAD_def RPAD_def
    by (simp add: padded_bytes [OF assms(1-3)] padded_string [OF assms(4-7)])
qed

section \<open>Translation\<close>

lemma replaceAll_char: "replaceAll [c] r s = concat (map (\<lambda>x. if x = c then r else [x]) s)"
  by (induction s) (simp_all add: replaceAll.simps)

text \<open>What a byte becomes: its counterpart, or nothing if the target is too short.\<close>

fun translated :: "string \<Rightarrow> string \<Rightarrow> char \<Rightarrow> string" where
  "translated [] ts c = [c]"
| "translated (s # ss) ts c = (if c = s then take 1 ts else translated ss (tl ts) c)"

lemma translated_other: "c \<notin> set ss \<Longrightarrow> translated ss ts c = [c]"
  by (induction ss ts c rule: translated.induct) simp_all

fun noLaterSource :: "string \<Rightarrow> string \<Rightarrow> bool" where
  "noLaterSource [] ts = True"
| "noLaterSource (s # ss) ts = (set (take 1 ts) \<inter> set ss = {} \<and> noLaterSource ss (tl ts))"

lemma translated_none: "translated [] ts = (\<lambda>c. [c])"
  by (rule ext) simp

lemma translateLoop_bytes:
  assumes "distinct ss" "set ss \<inter> set seen = {}" "noLaterSource ss ts"
  shows "translateLoop (\<lambda>c. [c]) shown seen ss ts e = ok (concat (map (translated ss ts) e))"
  using assms
proof (induction ss arbitrary: ts seen e)
  case (Cons s ss)
  let ?r = "take 1 ts" and ?e = "concat (map (\<lambda>x. if x = s then take 1 ts else [x]) e)"
  have step: "stringsReplaceAll e [s] (case ts of [] \<Rightarrow> [] | t # _ \<Rightarrow> [t]) = ?e"
    by (cases ts) (simp_all add: stringsReplaceAll_def replaceAll_char cong: if_cong)
  have r: "concat (map (translated ss (tl ts)) ?r) = ?r"
    using Cons.prems(3) by (cases ts) (simp_all add: translated_other)
  have eq: "concat (map (translated ss (tl ts)) ?e) = concat (map (translated (s # ss) ts) e)"
    using r by (induction e) simp_all
  have "translateLoop (\<lambda>c. [c]) shown (s # seen) ss (tl ts) ?e = ok (concat (map (translated ss (tl ts)) ?e))"
    using Cons.prems by (intro Cons.IH) auto
  then show ?case using Cons.prems(2) unfolding eq by (simp add: step del: translated.simps)
qed (simp add: translated_none)

text \<open>C31: \<open>TRANSLATE\<close> of bytes with distinct source bytes maps every byte to its counterpart if no target byte is
  a later source byte. It replaces one source byte after the other over the whole text, so a counterpart that
  is a later source is translated again: exchanging two bytes turns both into the first.\<close>

theorem translate_bytes:
  assumes "distinct s" "noLaterSource s t" "x \<noteq> y"
  shows "TRANSLATE (Some (BytesValue e)) (Some (BytesValue s)) (Some (BytesValue t)) 
      = (okBytes (concat (map (translated s t) e)) :: 'f Value option go)
    \<and> TRANSLATE (Some (BytesValue [x, y])) (Some (BytesValue [x, y])) (Some (BytesValue [y, x]))
      = (okBytes [x, x] :: 'f Value option go)"
  using assms by (simp add: TRANSLATE_def translateLoop_bytes)
    (simp add: stringsReplaceAll_def replaceAll_char)

end
