(* ===== verification/Array_Props.thy ===== *)
theory Array_Props
  imports Func_Array
begin

text \<open>
  When \<open>GENERATE_ARRAY\<close> of integers ends, and with which array. The loop adds the step before it compares,
  so an end of the range close to the limits of 64 bits is never passed.
\<close>

lemma generate_ints:
  "GENERATE_ARRAY R (Some (IntValue a)) (Some (IntValue b)) [Some (IntValue k)] =
     (if a \<le> b \<and> k \<le> 0 \<or> b < a \<and> 0 < k then Some (ok (Some (ArrayValue [])))
      else map_option (\<lambda>r. go_bind r (\<lambda>vs. ok (Some (ArrayValue vs))))
        (generateLoop R (a \<le> b) (IntValue b) (\<lambda>cur. Value_Add R cur (Some (IntValue k))) (IntValue a) []))"
  by (auto simp: GENERATE_ARRAY_def generateArray_def generateFrom_def loop_steps)

lemma generate_up:
  assumes "isInt64 a" "isInt64 (b + k)" "a \<le> b" "0 < k"
  shows "GENERATE_ARRAY R (Some (IntValue a)) (Some (IntValue b)) [Some (IntValue k)]
    = Some (ok (Some (ArrayValue (progression a k (nat ((b - a) div k) + 1)))))"
  using assms loop_up [of k a b R "[]"] by (simp add: generate_ints)

lemma generate_down:
  assumes "isInt64 a" "isInt64 (b + k)" "b < a" "k < 0"
  shows "GENERATE_ARRAY R (Some (IntValue a)) (Some (IntValue b)) [Some (IntValue k)]
    = Some (ok (Some (ArrayValue (progression a k (nat ((a - b) div (- k)) + 1)))))"
  using assms loop_down [of k a b R "[]"] by (simp add: generate_ints)

lemma generate_forever_zero:
  assumes "isInt64 a" "b < a"
  shows "GENERATE_ARRAY R (Some (IntValue a)) (Some (IntValue b)) [Some (IntValue 0)] = None"
proof -
  have "generateLoop R False (IntValue b) (\<lambda>cur. Value_Add R cur (Some (IntValue 0))) (IntValue a) [] = None"
    by (rule loop_diverges [where wrapped = "\<lambda>x. x = a"]) (use assms in simp_all)
  then show ?thesis using assms by (simp add: generate_ints)
qed

lemma generate_forever_max:
  assumes "isInt64 a" "0 < k"
  shows "GENERATE_ARRAY R (Some (IntValue a)) (Some (IntValue maxInt64)) [Some (IntValue k)] = None"
proof -
  have le: "x \<le> maxInt64" if "isInt64 x" for x using that by (simp add: isInt64_def maxInt64_def)
  have "generateLoop R True (IntValue maxInt64) (\<lambda>cur. Value_Add R cur (Some (IntValue k))) (IntValue a) [] = None"
    by (rule loop_diverges [where wrapped = isInt64]) (use assms le in simp_all)
  then show ?thesis using assms le [OF assms(1)] by (simp add: generate_ints)
qed


end
