(* ===== verification/Array_Demo.thy ===== *)
theory Array_Demo
  imports Array_Props Value_Demo
begin


end
