(* ===== verification/Function_Demo.thy ===== *)
theory Function_Demo
  imports Bind_Props String_Props Array_Demo
begin

text \<open>Concrete inputs for the properties of strings and of conditions.\<close>

lemma valid_demo: "validUtf8 (stringOfRunes [0x41, 0xE9, 0])"
  by (rule validUtf8_string) (simp add: validRune_def)

lemma runes_demo: "runesOf (stringOfRunes [0x41, 0xE9, 0]) = [0x41, 0xE9, 0]"
  by (rule runesOf_string) (simp add: validRune_def)

lemma text_roundtrips_witness:
  "go_bind (TO_CODE_POINTS (Some (StringValue (stringOfRunes [0x41, 0xE9, 0])))) (thenArray (CODE_POINTS_TO_STRING demoRuntime))
    = okString (stringOfRunes [0x41, 0xE9])"
  using text_roundtrips [OF valid_demo, of demoRuntime "''ab''"] by (simp add: runes_demo)

lemma substr_by_bytes_witness:
  "SUBSTR (Some (StringValue ''abc'')) (- 2) (Some 1) = (okString ''b'' :: int Value option go)
    \<and> SUBSTR (Some (StringValue (encodeRune 0xE9))) 1 (Some 1) = (okString [CHR 0xC3] :: int Value option go)"
proof -
  have "list_all asciiChar ''abc''" by (simp add: asciiChar_def byteAt_def)
  moreover have "validRune 0xE9" by (simp add: validRune_def)
  moreover have "sqlSubstr ''abc'' (- 2) (Some 1) = ''b''" by code_simp
  moreover have "hd (encodeRune 0xE9) = CHR 0xC3"
    by (simp add: encodeRune_def validRune_def byteOf_def char_of_eq_iff)
  ultimately show ?thesis
    using substr_by_bytes [where 'f = int and len = "Some 1" and s = "''abc''" and r = "0xE9" and pos = "- 2"]
    by (simp add: sqlSubstr_ascii)
qed

lemma pad_texts_witness:
  "LPAD demoRuntime (Some (BytesValue ''a'')) 4 (Some (BytesValue ''xy'')) = okBytes ''xyxa''
    \<and> RPAD demoRuntime (Some (StringValue ''a'')) 4 (Some (StringValue ''xy'')) = okString ''axyx''"
proof -
  have runes: "runesOf ''xy'' = map byteAt ''xy''" "runesOf ''a'' = map byteAt ''a''"
    by (rule runesOf_ascii, simp add: byteAt_def)+
  have valid: "validUtf8 ''xy''" by (rule ascii_validUtf8) (simp add: byteAt_def)
  show ?thesis
    using pad_texts [of "''xy''" "''a''" 4 "''xy''" "''a''" demoRuntime, OF _ _ _ valid]
    by (simp add: runes maxInt64_def cyclic_def upt_rec)
      (simp add: stringOfRunes_def encodeRune_def validRune_def byteAt_def byteOf_def char_of_eq_iff)
qed

lemma translate_bytes_witness:
  "TRANSLATE (Some (BytesValue ''abca'')) (Some (BytesValue ''ab'')) (Some (BytesValue ''x'')) = (okBytes ''xcx'' :: int Value option go)
    \<and> TRANSLATE (Some (BytesValue ''ab'')) (Some (BytesValue ''ab'')) (Some (BytesValue ''ba'')) = (okBytes ''aa'' :: int Value option go)"
  using translate_bytes [of "''ab''" "''x''" "CHR ''a''" "CHR ''b''" "''abca''"] by simp

lemma null_in_conditions_witness:
  "bindIn demoRuntime (map intOrNull [Some 1, Some 1, None]) \<noteq> ok (truth (sqlIn (Some 1) [Some 1, None]))
    \<and> bindBetween demoRuntime [intOrNull (Some 5), intOrNull None, intOrNull (Some 3)]
      \<noteq> ok (truth (sqlBetween (Some 5) None (Some 3)))"
  using null_in_conditions [of "[Some 1, None]" demoRuntime "Some 1" None None]
    null_in_conditions [of "[Some 1, None]" demoRuntime "Some 5" None "Some 3"]
  by (simp add: kcompare_def)


end
