(* ===== verification/Spec2Isabelle.thy ===== *)
theory Spec2Isabelle
  imports Sql_Flatten_Props Sql_Statements Name_Path Coordinator_Props Coordinator_Fuel Transform_Props
    Value_Demo Date_Props Catalog_Demo Window_Demo Function_Demo
begin

text \<open>
  go-zetasqlite runs ZetaSQL statements on SQLite. The analyzer of go-zetasql resolves a statement;
  \<open>internal/coordinator_extractor.go\<close> reads the resolved tree into plain Go data
  (\<open>internal/types_data.go\<close>); the transformers turn that data into a tree of SQLite syntax; and the
  writer prints the tree as the SQL text handed to SQLite. SQLite knows neither the types nor the functions
  of ZetaSQL: a value travels as an encoded text, and every operator and function of the printed SQL is a Go
  function that decodes its arguments, computes, and encodes the result. A catalog keeps the tables and
  functions a connection has defined. This library models the program between the data and the text, the
  values with their encoding and the functions on them, and the catalog, and proves what makes them correct.

  \<^bold>\<open>The theories and the code they model\<close>, under \<open>src/internal\<close>, in the order of their imports:

  \<^item> \<open>Go_Prelude\<close>: results of fallible code, the functions of Go's \<open>strings\<close> package in use, decimal
    integers, and the lemma collections of the library.
  \<^item> \<open>Sql_Ast\<close>, \<open>Sql_Writer\<close>, \<open>Sql_Statements\<close>: the syntax trees and writers of
    \<open>sqlbuilder_sqlbuilder.go\<close>. \<open>Sql_Writer_Props\<close> and \<open>Sql_Writer_Panics\<close> prove that a writer only
    appends and which trees make it dereference nil.
  \<^item> \<open>Sql_Flatten\<close>: \<open>sqlbuilder_flatten.go\<close>, which merges nested SELECTs for recursive WITH queries;
    \<open>Sql_Flatten_Props\<close> gives statements a meaning as lists of rows and proves the rewriting against it.
  \<^item> \<open>Ir_Types\<close>: the intermediate representation of \<open>types_data.go\<close>.
  \<^item> \<open>Name_Path\<close>: \<open>name_path.go\<close>.
  \<^item> \<open>Query_Context\<close>: scopes, columns and WITH mappings of \<open>querybuilder_context.go\<close>, and the locale
    \<open>scope_stack\<close> of what entering and leaving a scope promises.
  \<^item> \<open>Transform_Base\<close>: the state and error monad of the transformers, the coordinator as an interface
    (\<open>types_interfaces.go\<close>), the parameters of the model, and the locale \<open>coordinator_contract\<close>.
  \<^item> \<open>Transform_Expr\<close>, \<open>Transform_Scan\<close>, \<open>Transform_Stmt\<close>, \<open>Transform_Merge\<close>: one definition per
    \<open>transformer_*.go\<close>; \<open>Transform_Props\<close>: what single transformers produce.
  \<^item> \<open>Coordinator_Dispatch\<close>: \<open>coordinator_coordinator.go\<close>, which ties the recursive knot and
    interprets \<open>coordinator_contract\<close>; \<open>Coordinator_Props\<close> and \<open>Coordinator_Fuel\<close>: what it promises to
    its callers, and that its recursion ends.

  \<^item> \<open>Go_Int\<close>, \<open>Go_Utf8\<close>, \<open>Go_Time\<close>, \<open>Go_Time_Format\<close>: what the values use of Go: integers of 64 bits, runes,
    times, layouts. \<open>Go_Time_Props\<close> and \<open>Go_Time_Roundtrip\<close>: the calendar, and reading what was formatted.
  \<^item> \<open>Value_Types\<close>, \<open>Value_Convert\<close>, \<open>Value_Ops\<close>: \<open>value.go\<close>, the types of values with their conversions,
    arithmetic and comparisons; \<open>Value_Codec\<close>: \<open>encoder.go\<close> and \<open>decoder.go\<close>; \<open>Value_Cast\<close>: \<open>CastValue\<close> and the
    Go values passed as arguments. \<open>Value_Props\<close>, \<open>Value_Roundtrip\<close>: their properties; \<open>Value_Demo\<close>: a run time
    and a JSON package for the witnesses.
  \<^item> \<open>Func_Zone\<close>, \<open>Func_Date\<close>, \<open>Func_Time\<close>: \<open>util.go\<close> with the cache of time zones, \<open>function_date.go\<close>,
    \<open>function_interval.go\<close>, \<open>function_time.go\<close>, \<open>function_datetime.go\<close>, \<open>function_timestamp.go\<close>; \<open>Date_Props\<close>.
  \<^item> \<open>Func_Operator\<close>: \<open>function.go\<close> and \<open>function_bit.go\<close>; \<open>Func_Array\<close>: \<open>function_array.go\<close>; \<open>Func_String\<close>,
    \<open>Func_Regexp\<close>: \<open>function_string.go\<close>; \<open>Operator_Bind\<close>, \<open>String_Bind\<close>: the functions of \<open>function_bind.go\<close> that
    SQLite calls for them. \<open>Array_Props\<close>, \<open>String_Props\<close>, \<open>Bind_Props\<close> hold the properties, \<open>Array_Demo\<close> and
    \<open>Function_Demo\<close> the concrete inputs.
  \<^item> \<open>Func_Aggregate\<close>, \<open>Func_Approx\<close>, \<open>Aggregate_Bind\<close>: the aggregates of \<open>function_aggregate.go\<close> with their
    options and the \<open>Aggregator\<close> SQLite drives; \<open>Aggregate_Props\<close>.
  \<^item> \<open>Func_Window\<close>, \<open>Func_Rank\<close>, \<open>Window_Bind\<close>: \<open>function_window.go\<close>, its options and the \<open>WindowAggregator\<close>;
    \<open>Window_Props\<close> with the locale \<open>frame_queue\<close> of what moving a frame promises, interpreted on the status of
    the code; \<open>Window_Demo\<close>.
  \<^item> \<open>Catalog_Spec\<close>, \<open>Catalog\<close>, \<open>Wildcard_Table\<close>: \<open>spec.go\<close>, \<open>catalog.go\<close>, \<open>wildcard_table.go\<close>; \<open>Catalog_Props\<close>
    with the locale \<open>spec_store\<close> of a list with a map, interpreted on tables and on functions; \<open>Catalog_Demo\<close>.

  \<^bold>\<open>How the model corresponds to the code.\<close> A struct is a record or a datatype with the code's
  fields, a pointer that may be nil an \<open>option\<close>, an enumeration a datatype. A function that returns an
  error returns \<open>go_error + 'a\<close>, where \<open>GoErr\<close> is a returned error and \<open>GoPanic\<close> a run-time panic; a
  writer, which can only panic, returns an \<open>option\<close>. The transform context, which the code mutates
  through a pointer, is passed along and returned. Map iteration, whose order Go leaves open, is a
  parameter (\<open>envRange\<close>, \<open>envMergeRange\<close>), and so is what lies outside the modelled code: the encoding
  of literals, the JSON of types, the catalog of functions, the clock and the names of foreign enums. The
  functions on values have their own records of parameters: \<open>Runtime\<close> (floating point, quoting, \<open>%v\<close>, the
  interval type of the BigQuery client, the time zone database), \<open>Json\<close> and \<open>OptionJson\<close> (JSON texts),
  \<open>AggEnv\<close> and \<open>Hll\<close> (statistics, sorting, sketches), \<open>TextEnv\<close> (Unicode tables, regular expressions, base 32),
  \<open>TypeFactory\<close>, \<open>SimpleCatalog\<close>, \<open>Conn\<close> and \<open>WildcardEnv\<close> (go-zetasql and SQLite). A nil value is SQL's NULL;
  integers are kept at 64 bits by \<open>wrap64\<close>.

  \<^bold>\<open>Fuel.\<close> The coordinator calls the transformers and they call the coordinator. \<open>coordinator env n\<close> is
  \<open>n\<close> rounds of that recursion over a coordinator that fails. \<open>enough_fuel\<close> shows that the size of the
  data is enough: from there on the result depends neither on \<open>n\<close> nor on the coordinator at the bottom. \<open>DecodeValue\<close>
  takes the depth of nested arrays and structs as fuel, for which the size of the value is enough. Loops of
  the code that need not end give an \<open>option\<close>, \<open>None\<close> where they run for ever: the search for the start of a
  week, that of quantiles, and the generators of arrays; the properties settle when they end.

  \<^bold>\<open>What the lemmas show.\<close> Flattening keeps the rows, the columns and the aliases of a statement under
  conditions the code does not check, and its result has nothing left to flatten. Every transformer,
  and so the coordinator, leaves the stack of scopes as it found it; a scan resolves exactly its
  columns under a fresh alias; the checks of the coordinator give each scan the select list its
  columns ask for. Writers only append and panic on exactly the trees described.
  Decoding an encoded value gives it back but for the integers inside arrays and structs; the arithmetic
  stays in range; equality is equality. AND, OR and NOT are Kleene's, IN and BETWEEN those of SQL but for the
  NULLs described. Months, weeks and ends of weeks are those of the calendar. Aggregates over a moving frame
  are those of the rows in the frame, and the catalog keeps its lists and maps in step. The conversions of
  strings undo each other. The remaining properties settle the behaviour of single operations, the wrong one
  included.

  \<^bold>\<open>Not modelled\<close>: \<open>coordinator_extractor.go\<close> reads nodes of a C++ library; \<open>analyzer.go\<close>, \<open>conn.go\<close>, \<open>stmt.go\<close>,
  \<open>rows.go\<close> and the driver are calls to that library and to \<open>database/sql\<close>; \<open>function_javascript.go\<close> calls a
  JavaScript engine. Of the functions, the directives of \<open>FORMAT\<close>, \<open>FORMAT_DATE\<close>, \<open>PARSE_DATE\<close> and their like
  (\<open>function_format.go\<close>, \<open>function_time_parser.go\<close>) and the mathematical, JSON, net and hash functions, which are
  calls to packages on floating point numbers, JSON, addresses and digests, are left out, and so are
  random numbers and the registration of the functions with SQLite.
\<close>

section \<open>Instances for the witnesses\<close>

text \<open>A meaning for expressions, a small nested SELECT, the parameters of the transformers and data.\<close>

definition demoInterp :: "nat interp" where
  "demoInterp =
     \<lparr>iLiteral = length, iParameter = length, iFunction = (\<lambda>_ _ vs. sum_list vs),
      iUnary = (\<lambda>_ v. case v of None \<Rightarrow> 0 | Some x \<Rightarrow> if x = 0 then 1 else 0),
      iBinary = (\<lambda>b x y. case (x, y) of (Some m, Some n) \<Rightarrow> if b = ''AND'' then m * n else m + n | _ \<Rightarrow> 0),
      iList = sum_list, iCase = (\<lambda>_ _ _. 0), iCollate = (\<lambda>_ v. v), iTrue = (\<lambda>v. v \<noteq> 0),
      iUndefined = 0\<rparr>"

definition demoInner :: SelectStatement where
  "demoInner = setWhereClause
     (simpleSelect [selectItem (NewColumnExpression ''x'' []) ''a''] (Some (tableFrom ''T'' ''T'')))
     (Some (NewColumnExpression ''x'' []))"

definition demoOuter :: SelectStatement where
  "demoOuter = setWhereClause
     (simpleSelect [selectItem (NewColumnExpression ''a'' [''t'']) ''b''] (Some (subqueryFrom demoInner ''t'')))
     (Some (NewColumnExpression ''a'' []))"

definition demoEnv :: "(nat, int) Env" where
  "demoEnv =
     \<lparr>envLiteral = (\<lambda>v. ok (case v of None \<Rightarrow> ''NULL'' | Some i \<Rightarrow> sprintInt i)), envStringLiteral = ok,
      envInt64Literal = (\<lambda>i. ok (sprintInt i)), envPrimitiveValue = (\<lambda>_. True),
      envPrimitiveType = (\<lambda>_. True), envTypeJSON = (\<lambda>_. ok []), envFuncMap = (\<lambda>_. None),
      envCurrentTime = None, envRange = (\<lambda>m. m), envMergeRange = (\<lambda>_ m. m),
      envMatchTypeName = (\<lambda>_. []), envActionTypeName = (\<lambda>_. [])\<rparr>"

definition demoScan :: "(nat, int) ScanData" where
  "demoScan =
     ScanData ScanTypeTable [ColumnData 1 ''a'' [] ''T'', ColumnData 2 ''b'' [] ''T'']
       (Some (TableScanData ''T'' [] [] [])) None None None None None None None None None None None None None None"

definition demoQuery :: "(nat, int) StatementData" where
  "demoQuery =
     StatementData StatementTypeSelect
       (Some (SelectData
         [SelectItemData (columnRefExpression (ColumnData 2 ''b'' [] ''T'')) ''b'']
         (Some demoScan) None [] None [] None None)) None None None None None None"

definition demoWithRef :: "(nat, int) ScanData" where
  "demoWithRef =
     ScanData ScanTypeWithRef [ColumnData 7 ''n'' [] []]
       None None None None None None None None None
       (Some (WithRefScanData ''w'' [ColumnData 7 ''n'' [] []])) None None None None None"

definition demoWithContext :: TransformContext where
  "demoWithContext = AddWithEntryColumnMapping ''w'' [ColumnData 1 ''a'' [] ''T''] (NewTransformContext False)"

definition demoWhen :: "(nat, int) ExpressionData MergeWhenClauseData" where
  "demoWhen = MergeWhenClauseData MatchTypeNotMatchedByTarget None ActionTypeInsert [ColumnData 1 ''a'' [] []]
     [ExpressionData ExpressionTypeLiteral None (Some (LiteralData (Some 1) [] None)) None None None None None None] []"

abbreviation demoContext :: TransformContext where
  "demoContext \<equiv> NewTransformContext False"

abbreviation demoCoordinator :: "(nat, int) Coordinator" where
  "demoCoordinator \<equiv> coordinator demoEnv 1"

lemma demo_scan_ok: "is_ok (TransformScan demoCoordinator demoScan demoContext)"
  by code_simp

lemma demo_query_ok: "is_ok (TransformStatement (coordinator demoEnv 2) demoQuery demoContext)"
  by code_simp

section \<open>Flattening\<close>


section \<open>The transformation of statements, scans and expressions\<close>

text \<open>C2: A statement that is transformed successfully leaves the stack of open scopes exactly as it
  found it and never lowers the counter of scope identifiers, whatever its scans, subqueries, WITH
  entries and nested statements opened on the way.\<close>

theorem statement_restores_scopes:
  assumes "scopesOk (fragmentContext ctx)"
    and "TransformStatement (coordinator env n) d ctx = ok (stmt, ctx')"
  shows "scopes (fragmentContext ctx') = scopes (fragmentContext ctx)
    \<and> scopesOk (fragmentContext ctx')
    \<and> FragmentContext.count (fragmentContext ctx) \<le> FragmentContext.count (fragmentContext ctx')"
  using keepsScopesD [OF coordinatorContract.statement_keeps assms] by simp

theorem statement_restores_scopes_witness:
  "\<exists>stmt ctx'. TransformStatement (coordinator demoEnv 2) demoQuery demoContext = ok (stmt, ctx')
     \<and> scopes (fragmentContext ctx') = []"
proof -
  obtain stmt ctx' where run: "TransformStatement (coordinator demoEnv 2) demoQuery demoContext = ok (stmt, ctx')"
    using demo_query_ok unfolding is_ok_iff by auto
  have "scopesOk (fragmentContext demoContext)"
    by (simp add: NewTransformContext_def scopesOk_new)
  from statement_restores_scopes [OF this run] show ?thesis
    using run by (simp add: NewTransformContext_def NewFragmentContext_def)
qed

text \<open>C3: The recursion between the coordinator and its transformers ends: for data smaller than the
  fuel the result is the same whatever coordinator is asked at the bottom, so the exhausted one is
  never asked, and more fuel changes nothing. This holds for statements, scans and expressions.\<close>

theorem enough_fuel:
  assumes "size d < n" "size s < n" "size e < n" "n \<le> k"
  shows "TransformStatement (coordinator env k) d = TransformStatement ((QueryCoordinator env ^^ n) c) d
    \<and> TransformScan (coordinator env k) s = TransformScan ((QueryCoordinator env ^^ n) c) s
    \<and> TransformExpression (coordinator env k) e = TransformExpression ((QueryCoordinator env ^^ n) c) e"
proof -
  have "agreeBelow n (coordinator env k) ((QueryCoordinator env ^^ n) c)"
    using coordinators_agree [OF assms(4), of env] bottom_irrelevant [of n env exhausted c]
    by (auto simp: agreeBelow_def coordinator_funpow)
  from agree_calls [OF this] show ?thesis using assms by simp
qed

theorem enough_fuel_witness:
  "TransformStatement (coordinator demoEnv 1000) demoQuery
     = TransformStatement ((QueryCoordinator demoEnv ^^ 60) exhausted) demoQuery"
proof -
  have "size demoQuery < 60" "size demoScan < 60"
    "size (columnRefExpression (ColumnData 2 ''b'' [] ''T'') :: (nat, int) ExpressionData) < 60"
    by (simp_all add: demoQuery_def demoScan_def columnRefExpression_def)
  from enough_fuel [OF this, of 1000] show ?thesis by simp
qed

theorem scan_resolves_witness:
  "\<exists>f ctx'. TransformScan demoCoordinator demoScan demoContext = ok (f, ctx')
     \<and> GetQualifiedColumnRef 2 (fragmentContext ctx') = ok (''b__2'', fAlias f)"
proof -
  obtain f ctx' where run: "TransformScan demoCoordinator demoScan demoContext = ok (f, ctx')"
    using demo_scan_ok unfolding is_ok_iff by auto
  have "GetQualifiedColumnRef (cdaID (ColumnData 2 ''b'' [] ''T'')) (fragmentContext ctx')
      = ok (generateIDBasedAlias (cdaName (ColumnData 2 ''b'' [] ''T'')) (cdaID (ColumnData 2 ''b'' [] ''T'')), fAlias f)"
    by (rule scan_resolves [OF run]) (simp_all add: demoScan_def)
  moreover have "generateIDBasedAlias ''b'' 2 = ''b__2''" by code_simp
  ultimately show ?thesis using run by simp
qed


text \<open>C6: The select list of a transformed scan, looked up through SELECT *, has one item per output
  column and every item carries the identifier-based alias of one of them.\<close>

theorem scan_select_list:
  assumes "TransformScan (coordinator env n) scan ctx = ok (f, ctx')"
    and "scColumnList scan \<noteq> []" "fType f = FromItemTypeSubquery"
  shows "\<exists>items. getSelectListRecursive (fSubquery f) = ok (Some items)
    \<and> length items = length (scColumnList scan)
    \<and> (\<forall>item \<in> set items. expectedAlias (scColumnList scan) (slAlias item))"
  using validate_ok [OF scan_checked [OF assms(1)] assms(2,3)] .

theorem scan_select_list_witness:
  "\<exists>f ctx'. TransformScan demoCoordinator demoScan demoContext = ok (f, ctx')
     \<and> (\<exists>items. getSelectListRecursive (fSubquery f) = ok (Some items) \<and> length items = 2)"
proof -
  obtain f ctx' where run: "TransformScan demoCoordinator demoScan demoContext = ok (f, ctx')"
    using demo_scan_ok unfolding is_ok_iff by auto
  have "case TransformScan demoCoordinator demoScan demoContext of
      Inr (f, _) \<Rightarrow> fType f = FromItemTypeSubquery | Inl _ \<Rightarrow> False"
    by code_simp
  then have "fType f = FromItemTypeSubquery" using run by simp
  from scan_select_list [OF run _ this] show ?thesis using run by (auto simp: demoScan_def)
qed

theorem canOptimize_guard_witness:
  "\<exists>e. optimizeFunctionToSQL ''zetasqlite_and'' [NewLiteralExpression ''1'', NewLiteralExpression ''2''] = ok e"
proof -
  let ?lit = "\<lambda>i. ExpressionData ExpressionTypeLiteral None (Some (LiteralData (Some i) [] None)) None None None
      None None None :: (nat, int) ExpressionData"
  let ?fd = "FunctionCallData ''zetasqlite_and'' [?lit 1, ?lit 2] None None"
  have "canOptimizeFunction demoEnv ?fd = ok True" by code_simp
  from canOptimize_guard [OF this, of "[NewLiteralExpression ''1'', NewLiteralExpression ''2'']"]
  show ?thesis by simp
qed

section \<open>Substitution and the shape of flattened statements\<close>

text \<open>C36: Substituting the output expressions of a subquery for its columns, evaluated in a row of the
  subquery's source, gives what the original expression gives in the corresponding output row.\<close>

theorem substitution_evaluates:
  assumes "substitutable m t 0 e"
  shows "evalExpr I \<rho> (substituteColumnRefs e m t) = evalExpr I (envOfRow I t (rowOf I m \<rho>)) e"
  unfolding substituteColumnRefs_def using assms by (rule evalExpr_substitute)

theorem substitution_evaluates_witness:
  "evalExpr demoInterp (\<lambda>_ _. 7) (substituteColumnRefs (NewColumnExpression ''a'' [''t''])
       [(''a'', NewColumnExpression ''x'' [])] ''t'') = 7"
  by (subst substitution_evaluates) code_simp+

text \<open>The depth limit of the substitution is sharp: a column under \<open>n\<close> negations is replaced exactly
  when \<open>n\<close> is at most 100, and beyond it silently keeps its reference to the removed subquery.\<close>

theorem substitution_depth_limit:
  "substituteColumnRefs (nots n (NewColumnExpression c [])) [(c, s)] t
     = nots n (if n \<le> 100 then s else NewColumnExpression c [])"
  using substitute_nots [of c s t 0 n] by (simp add: substituteColumnRefs_def maxDepth_def)

text \<open>\<open>copyExpression\<close> is the identity on the value of an expression: no field is forgotten.\<close>

theorem copy_is_faithful: "copyExpression e = e"
  by (rule copyExpression_id)

section \<open>The writer\<close>

text \<open>C39: \<open>String()\<close> panics exactly on the trees with a nil pointer in a place the writer dereferences;
  \<open>printableExpr\<close>, \<open>printableSelect\<close> and \<open>printableFrom\<close> name these places.\<close>

theorem string_panics_iff:
  "(SQLExpression_String e = None \<longleftrightarrow> \<not> printableExpr e)
   \<and> (SelectStatement_String s = None \<longleftrightarrow> \<not> printableSelect s)
   \<and> (FromItem_String f = None \<longleftrightarrow> \<not> printableFrom f)"
  by (simp add: SQLExpression_String_def SelectStatement_String_def FromItem_String_def runString_None)

text \<open>C40: Writing any expression, SELECT or FROM item only appends to the writer's buffer and leaves the
  indentation and the newline mode as they were.\<close>

theorem writers_only_append:
  "appendOnly (SQLExpression_WriteSql e) \<and> appendOnly (SelectStatement_WriteSql s)
   \<and> appendOnly (FromItem_WriteSql f)"
  by (simp add: writers_append_only)

section \<open>Scopes, aliases and name paths\<close>

text \<open>Leaving a scope restores the stack from before entering it even when scopes opened inside were
  never left.\<close>

theorem exit_scope_resilient:
  assumes "scopesOk fc" "EnterScope fc = (t, fc1)" "scopesOk fc2" "scopes fc2 = scopes fc1 @ left_open"
  shows "scopes (ExitScope t fc2) = scopes fc"
  using assms by (rule fragmentScopes.bracket_resilient)

text \<open>Every operation on a name path keeps its invariant: no stored part contains a dot and the limit
  is not negative.\<close>

theorem name_path_invariant:
  assumes "wellFormed p"
  shows "wellFormed (setMaxNum p num) \<and> (\<forall>q. setPath p path = ok q \<longrightarrow> wellFormed q)
    \<and> (\<forall>q. addPath p part = ok q \<longrightarrow> wellFormed q)"
  using assms wellFormed_setMaxNum wellFormed_setPath wellFormed_addPath by blast

theorem mergePath_bound_witness:
  "int (length (mergePath \<lparr>np_path = [''p'', ''d''], np_maxNum = 2\<rparr> [''t''])) \<le> 2"
  using mergePath_bound [of "\<lparr>np_path = [''p'', ''d''], np_maxNum = 2\<rparr>" "[''t'']"]
  by (simp add: wellFormed_def getMaxNum_def normalizePath_def isInformationSchema_def)

theorem setPath_dotted_schema_witness:
  "\<not> is_ok (setPath \<lparr>np_path = [], np_maxNum = 2\<rparr> [''d.INFORMATION_SCHEMA.T''])"
proof -
  have "isInformationSchema (normalizePath [''d.INFORMATION_SCHEMA.T''])" by code_simp
  from setPath_dotted_schema [OF _ _ this, of "\<lparr>np_path = [], np_maxNum = 2\<rparr>"]
  show ?thesis by (simp add: normalizePath_def)
qed

section \<open>Single transformers\<close>

theorem grouping_sets_panic_witness:
  "\<exists>g ctx'. buildGroupingSetsQuery demoEnv [GroupingSetData [], GroupingSetData []] (tableFrom ''T'' []) [] []
       [(1, NewBinaryExpression None ''+'' None)] demoContext = ok (g, ctx') \<and> FromItem_String g = None"
proof -
  have "is_ok (buildGroupingSetsQuery demoEnv [GroupingSetData [], GroupingSetData []] (tableFrom ''T'' []) [] []
       [(1, NewBinaryExpression None ''+'' None)] demoContext)"
    by code_simp
  then obtain g ctx' where run: "buildGroupingSetsQuery demoEnv [GroupingSetData [], GroupingSetData []]
      (tableFrom ''T'' []) [] [] [(1, NewBinaryExpression None ''+'' None)] demoContext = ok (g, ctx')"
    unfolding is_ok_iff by auto
  from grouping_sets_panic [OF run, of 1 "NewBinaryExpression None ''+'' None"] run show ?thesis
    by (simp add: demoEnv_def NewBinaryExpression_def)
qed

theorem merge_insert_unconditional_witness:
  "is_ok (transformWhenClause demoEnv demoCoordinator 0
     (rematched MatchTypeMatched (Some (hd (mwInsertValues demoWhen))) demoWhen)
     ''T'' ''a'' (tableFrom ''S'' []) ''s'' ''t'' (createColumnMapping [] []) demoContext)"
proof -
  have "is_ok (transformWhenClause demoEnv demoCoordinator 0 demoWhen ''T'' ''a'' (tableFrom ''S'' []) ''s'' ''t''
      (createColumnMapping [] []) demoContext)"
    by code_simp
  then obtain sql ctx' where run: "transformWhenClause demoEnv demoCoordinator 0 demoWhen ''T'' ''a''
      (tableFrom ''S'' []) ''s'' ''t'' (createColumnMapping [] []) demoContext = ok (sql, ctx')"
    unfolding is_ok_iff by auto
  have "mwActionType demoWhen = ActionTypeInsert" by (simp add: demoWhen_def)
  from merge_insert_unconditional [OF this run, of MatchTypeMatched "Some (hd (mwInsertValues demoWhen))"]
  show ?thesis by simp
qed

theorem merge_union_columns_witness:
  "\<exists>c0 st ctx' u l r. createMergedTableStatement demoEnv demoCoordinator ''M'' (tableFrom ''S'' []) (tableFrom ''T'' [])
       (createColumnMapping [ColumnData 2 ''b'' [] ''T''] []) (NewLiteralExpression ''true'') c0 = ok (st, ctx')
     \<and> sSetOperation u = Some (SetOperation ''UNION'' ''ALL'' [l, r])
     \<and> map slAlias (sSelectList l) = map slAlias (sSelectList r)"
proof -
  let ?make = "createMergedTableStatement demoEnv demoCoordinator ''M'' (tableFrom ''S'' []) (tableFrom ''T'' [])
       (createColumnMapping [ColumnData 2 ''b'' [] ''T''] []) (NewLiteralExpression ''true'')"
  have "is_ok (tbind (TransformScan demoCoordinator demoScan) (\<lambda>_. ?make) demoContext)"
    by code_simp
  then obtain c0 st ctx' where run: "?make c0 = ok (st, ctx')"
    unfolding is_ok_iff by (auto simp: run_simps)
  from merge_union_columns [OF run] run show ?thesis by (auto simp: demoEnv_def)
qed

section \<open>Values\<close>

theorem codec_roundtrip_witness:
  "\<exists>a. EncodeValue demoRuntime demoJson (Some (ArrayValue [Some (IntValue 7), None, Some (StringValue ''ab'')])) = ok a
     \<and> DecodeValue 50 demoRuntime demoJson a
         = ok (Some (ArrayValue [Some (FloatValue 7), None, Some (StringValue ''ab'')]))"
proof -
  let ?v = "ArrayValue [Some (IntValue 7), None, Some (StringValue ''ab'')] :: int Value"
  have "storable demoRuntime ?v" "size ?v < 50" by (simp_all add: demoRuntime_def isInt64_def)
  from codec_roundtrip [OF demo_jsonLaws this]
  show ?thesis by (simp add: demoRuntime_def)
qed

theorem numeric_to_int64_witness: "NumericValue_ToInt64 (Some (3 / 2)) = ok 3 \<and> 3 / 2 \<notin> (\<int> :: rat set)"
proof -
  have q: "quotient_of (3 / 2) = (3, 2)" by code_simp
  have "(NumericValue_ToInt64 (Some (3 / 2)) = ok 1) = (3 / 2 \<in> (\<int> :: rat set))"
    using numeric_to_int64 [of "3 / 2"] by (simp add: q isInt64_def)
  then show ?thesis by (simp add: NumericValue_ToInt64_def q isInt64_def)
qed

theorem timestamp_from_int_witness:
  "map_sum id nanos (TimestampFromInt64Value demoRuntime 1500000) \<noteq> ok (1500000 * 1000)"
  by (subst timestamp_from_int) (simp_all add: isInt64_def)

theorem array_gt_reversed_witness:
  "Value_compare demoRuntime GT (ArrayValue [Some (IntValue 1)]) (Some (ArrayValue [Some (IntValue 2)])) = ok True"
  using array_gt_reversed [of "[1]" "[2]" demoRuntime] by simp

theorem eq_is_equality_witness:
  "Value_compare demoRuntime EQ (ArrayValue [Some (IntValue 1)]) (Some (ArrayValue [Some (IntValue 2)])) = ok False"
  by (subst eq_is_equality) (auto intro!: sameShape.intros)

theorem to_int64_range_witness: "isInt64 (42 :: int)"
proof (rule to_int64_range [of demoRuntime "StringValue ''42''"])
  show "isInt64 (flToInt demoRuntime f)" for f by (simp add: demoRuntime_def)
  show "wfValue (StringValue ''42'' :: int Value)" by simp
  have "sprintInt 42 = ''42''" "lowerChar (CHR ''4'') \<noteq> CHR ''0''" by code_simp+
  then show "Value_ToInt64 demoRuntime (StringValue ''42'') = ok 42"
    using ParseInt_sprintInt [of 42 "rtQuote demoRuntime"] by (simp add: StringValue_ToInt64_def isInt64_def)
qed


section \<open>Dates and zones\<close>

lemma demo_zoneDatabase: "zoneDatabase demoRuntime"
  by (simp add: zoneDatabase_def demoRuntime_def)


theorem negative_offset_minutes_witness:
  "\<not> sameOffsets (fst (toLocation demoRuntime ''-03:30'' [])) (ok (FixedZone [] (- 12600)))"
proof -
  have "padNat 2 3 = ''03''" "padNat 2 30 = ''30''" by code_simp+
  then show ?thesis using negative_offset_minutes [of 3 30 demoRuntime "[]"] by simp
qed

lemma demo_day: "time_Date 2024 1 d 9 30 0 0 UTC = \<lparr>tSec = 1704101400 + 86400 * (d - 1), tNsec = 0, tLoc = UTC\<rparr>"
  if "1 \<le> d" "d \<le> 31"
proof -
  have "daysFromCivil 2024 1 1 = 19723" by code_simp
  moreover have "isInt64 (1704101400 + 86400 * (d - 1))" using that unfolding isInt64_def by auto
  ultimately show ?thesis by (simp add: time_Date_def civilSeconds_def algebra_simps)
qed

theorem addMonth_date_witness: "Time_Date (addMonth (time_Date 2024 1 31 9 30 0 0 UTC) 1) = (2024, 2, 29)"
proof -
  have day: "Time_Date (time_Date 2024 1 31 9 30 0 0 UTC) = (2024, 1, 31)" by code_simp
  then have "plainTime (time_Date 2024 1 31 9 30 0 0 UTC)"
    by (simp add: plainTime_def Time_Year_def wfTime_def demo_day isInt64_def)
  moreover have "monthsLater (2024, 1, 31) 1 = (2024, 2, 29)" by code_simp
  ultimately show ?thesis using addMonth_date [of "time_Date 2024 1 31 9 30 0 0 UTC" 1] day by simp
qed

theorem startOfWeek_ends_witness:
  "startOfWeekLoop 0 (time_Date 2024 1 31 9 30 0 0 UTC) = Some (time_Date 2024 1 28 9 30 0 0 UTC)"
proof -
  have "Time_Weekday (time_Date 2024 1 31 9 30 0 0 UTC) = 3" by code_simp
  then show ?thesis
    using startOfWeek_ends [of "time_Date 2024 1 31 9 30 0 0 UTC" 0] by (simp add: demo_day wfTime_def isInt64_def)
qed

theorem weekDiff_boundaries_witness: "weekDiff (time_Date 2024 1 7 9 30 0 0 UTC) (time_Date 2024 1 6 9 30 0 0 UTC) 0 = 1"
  using weekDiff_boundaries [of "time_Date 2024 1 7 9 30 0 0 UTC" "time_Date 2024 1 6 9 30 0 0 UTC" 0]
  by (simp add: demo_day isInt64_def)

theorem unix_date_roundtrip_witness:
  "go_bind (DATE_FROM_UNIX_DATE demoRuntime 106752) (\<lambda>v. case v of Some (DateValue t) \<Rightarrow> UNIX_DATE t | _ \<Rightarrow> panic [])
     \<noteq> ok (Some (IntValue 106752))"
  by (subst unix_date_roundtrip) (simp_all add: demoRuntime_def isInt64_def)

theorem justify_hours_length_witness:
  "intervalSeconds (JUSTIFY_HOURS (noInterval\<lparr>Minutes := 90\<rparr>)) = 5400
   \<and> intervalSeconds (JUSTIFY_HOURS (noInterval\<lparr>Minutes := - 90\<rparr>)) \<noteq> - 5400"
  using justify_hours_length [of "noInterval\<lparr>Minutes := 90\<rparr>"] justify_hours_length [of "noInterval\<lparr>Minutes := - 90\<rparr>"]
  by (simp add: moderateInterval_def intervalSeconds_def noInterval_def Let_def)

end
